(* ===== verification/Prelude.thy ===== *)
theory Prelude
  imports Main "HOL-Library.Word" "HOL-Library.List_Lexorder" "HOL-Library.Char_ord"
begin

text \<open>
  Shared vocabulary of the development: results that carry an error, traversal of a list with a
  fallible function, splitting and joining of strings (the use the code makes of
  \<^verbatim>\<open>boost::split\<close> with one separator and no token compression), association lists with the
  insertion discipline of \<^verbatim>\<open>emplace\<close>, and the collections of simplification rules that the
  component theories extend.
\<close>

named_theorems conv_defs "definitions of the conversions between SDK values and messages"
named_theorems result_simps "rules that push a result through the error plumbing"

type_synonym byte = "8 word"

subsection \<open>Results\<close>

fun rbind :: "'e + 'a \<Rightarrow> ('a \<Rightarrow> 'e + 'b) \<Rightarrow> 'e + 'b" where
  "rbind (Inl e) f = Inl e"
| "rbind (Inr a) f = f a"

fun rmap :: "('a \<Rightarrow> 'b) \<Rightarrow> 'e + 'a \<Rightarrow> 'e + 'b" where
  "rmap f (Inl e) = Inl e"
| "rmap f (Inr a) = Inr (f a)"

fun mapM :: "('a \<Rightarrow> 'e + 'b) \<Rightarrow> 'a list \<Rightarrow> 'e + 'b list" where
  "mapM f [] = Inr []"
| "mapM f (x # xs) = rbind (f x) (\<lambda>y. rmap (\<lambda>ys. y # ys) (mapM f xs))"

fun is_Ok :: "'e + 'a \<Rightarrow> bool" where
  "is_Ok (Inl e) = False"
| "is_Ok (Inr a) = True"

text \<open>Folding a step that may fail: the loop stops at the first error.\<close>

fun foldM :: "('s \<Rightarrow> 'a \<Rightarrow> 'e + 's) \<Rightarrow> 's \<Rightarrow> 'a list \<Rightarrow> 'e + 's" where
  "foldM f s [] = Inr s"
| "foldM f s (x # xs) = rbind (f s x) (\<lambda>s'. foldM f s' xs)"

lemma rbind_cong [fundef_cong]:
  "m = m' \<Longrightarrow> (\<And>a. m' = Inr a \<Longrightarrow> f a = g a) \<Longrightarrow> rbind m f = rbind m' g"
  by (cases m') auto

lemma rbind_eq_Inr [result_simps]: "rbind m f = Inr b \<longleftrightarrow> (\<exists>a. m = Inr a \<and> f a = Inr b)"
  by (cases m) auto

lemma rbind_eq_Inl [result_simps]:
  "rbind m f = Inl e \<longleftrightarrow> m = Inl e \<or> (\<exists>a. m = Inr a \<and> f a = Inl e)"
  by (cases m) auto

lemma rmap_eq_Inr [result_simps]: "rmap f m = Inr b \<longleftrightarrow> (\<exists>a. m = Inr a \<and> b = f a)"
  by (cases m) auto

lemma rmap_eq_Inl [result_simps]: "rmap f m = Inl e \<longleftrightarrow> m = Inl e"
  by (cases m) auto

lemma mapM_cong [fundef_cong]:
  "xs = ys \<Longrightarrow> (\<And>x. x \<in> set ys \<Longrightarrow> f x = g x) \<Longrightarrow> mapM f xs = mapM g ys"
proof -
  assume "xs = ys" and fg: "\<And>x. x \<in> set ys \<Longrightarrow> f x = g x"
  from fg have "mapM f ys = mapM g ys" by (induction ys) auto
  with \<open>xs = ys\<close> show ?thesis by simp
qed

lemma mapM_all_Inr: "(\<And>x. x \<in> set xs \<Longrightarrow> f x = Inr (g x)) \<Longrightarrow> mapM f xs = Inr (map g xs)"
  by (induction xs) auto

lemma mapM_Inr_nth:
  "mapM f xs = Inr ys \<longleftrightarrow> length ys = length xs \<and> (\<forall>i < length xs. f (xs ! i) = Inr (ys ! i))"
proof (induction xs arbitrary: ys)
  case (Cons x xs)
  show ?case
    by (cases ys) (auto simp: result_simps Cons.IH less_Suc_eq_0_disj)
qed auto

lemma mapM_length: "mapM f xs = Inr ys \<Longrightarrow> length ys = length xs"
  by (simp add: mapM_Inr_nth)

lemma foldM_append: "foldM f s (xs @ ys) = rbind (foldM f s xs) (\<lambda>s'. foldM f s' ys)"
proof (induction xs arbitrary: s)
  case (Cons x xs)
  then show ?case by (cases "f s x") auto
qed simp

lemma foldM_invariant:
  assumes "\<And>s x s'. I s \<Longrightarrow> x \<in> set xs \<Longrightarrow> f s x = Inr s' \<Longrightarrow> I s'"
    and "I s" and "foldM f s xs = Inr t"
  shows "I t"
  using assms
proof (induction xs arbitrary: s)
  case (Cons x xs)
  from Cons.prems(3) obtain s' where s': "f s x = Inr s'" and t: "foldM f s' xs = Inr t"
    by (auto simp: result_simps)
  have "I s'" using Cons.prems(1)[OF Cons.prems(2) _ s'] by simp
  with t show ?case by (intro Cons.IH[of s']) (auto intro: Cons.prems(1))
qed simp

subsection \<open>Splitting and joining\<close>

fun split_on :: "'a \<Rightarrow> 'a list \<Rightarrow> 'a list list" where
  "split_on c [] = [[]]"
| "split_on c (x # xs) =
     (if x = c then [] # split_on c xs
      else (case split_on c xs of [] \<Rightarrow> [[x]] | w # ws \<Rightarrow> (x # w) # ws))"

fun join_with :: "'a list \<Rightarrow> 'a list list \<Rightarrow> 'a list" where
  "join_with sep [] = []"
| "join_with sep [w] = w"
| "join_with sep (w # v # ws) = w @ sep @ join_with sep (v # ws)"

lemma split_on_ne [simp]: "split_on c xs \<noteq> []"
  by (cases xs) (auto split: list.splits)

lemma split_on_free [simp]: "c \<notin> set xs \<Longrightarrow> split_on c xs = [xs]"
  by (induction xs) auto

lemma split_on_sep: "split_on c (xs @ c # ys) = split_on c xs @ split_on c ys"
  by (induction xs) (auto split: list.splits)

lemma split_on_word: "c \<notin> set w \<Longrightarrow> split_on c (w @ c # ys) = w # split_on c ys"
  by (simp add: split_on_sep)

lemma join_with_Cons: "ws \<noteq> [] \<Longrightarrow> join_with sep (w # ws) = w @ sep @ join_with sep ws"
  by (cases ws) auto

lemma join_split_on [simp]: "join_with [c] (split_on c xs) = xs"
proof (induction xs)
  case (Cons x xs)
  show ?case
  proof (cases "split_on c xs")
    case (Cons w ws)
    with Cons.IH show ?thesis by (cases ws) auto
  qed simp
qed simp

lemma split_join_with:
  "ws \<noteq> [] \<Longrightarrow> \<forall>w\<in>set ws. c \<notin> set w \<Longrightarrow> split_on c (join_with [c] ws) = ws"
proof (induction ws)
  case (Cons w ws)
  then show ?case by (cases ws) (auto simp: split_on_word)
qed simp

lemma split_on_elems: "w \<in> set (split_on c xs) \<Longrightarrow> c \<notin> set w"
proof (induction xs arbitrary: w)
  case (Cons x xs)
  show ?case
  proof (cases "x = c")
    case False
    obtain u us where us: "split_on c xs = u # us" by (cases "split_on c xs") auto
    with Cons.prems False have "w = x # u \<or> w \<in> set us" by auto
    with False us Cons.IH show ?thesis by auto
  qed (use Cons in auto)
qed simp

lemma split_on_singleton: "split_on c xs = [w] \<longleftrightarrow> w = xs \<and> c \<notin> set xs"
  by (metis join_split_on join_with.simps(2) list.set_intros(1) split_on_elems split_on_free)

lemma last_split_on_sep: "last (split_on c (xs @ c # ys)) = last (split_on c ys)"
  by (simp add: split_on_sep)

lemma last_split_free [simp]: "c \<notin> set (last (split_on c xs))"
  by (meson last_in_set split_on_elems split_on_ne)

subsection \<open>Association lists as hash maps\<close>

text \<open>
  A hash map of the code is the list of its entries in the order an iteration visits them.
  \<^verbatim>\<open>emplace\<close> and \<^verbatim>\<open>insert\<close> leave an existing entry alone; \<^verbatim>\<open>operator[]\<close> overwrites it;
  \<^verbatim>\<open>erase\<close> removes the entry of a key.
\<close>

definition akeys :: "('k \<times> 'v) list \<Rightarrow> 'k list" where
  "akeys m = map fst m"

definition emplace :: "'k \<Rightarrow> 'v \<Rightarrow> ('k \<times> 'v) list \<Rightarrow> ('k \<times> 'v) list" where
  "emplace k v m = (if k \<in> set (akeys m) then m else m @ [(k, v)])"

fun aput :: "'k \<Rightarrow> 'v \<Rightarrow> ('k \<times> 'v) list \<Rightarrow> ('k \<times> 'v) list" where
  "aput k v [] = [(k, v)]"
| "aput k v (e # m) = (if fst e = k then (k, v) # m else e # aput k v m)"

definition aerase :: "'k \<Rightarrow> ('k \<times> 'v) list \<Rightarrow> ('k \<times> 'v) list" where
  "aerase k m = filter (\<lambda>e. fst e \<noteq> k) m"

abbreviation awf :: "('k \<times> 'v) list \<Rightarrow> bool" where
  "awf m \<equiv> distinct (akeys m)"

lemma akeys_simps [simp]:
  "akeys [] = []" "akeys (e # m) = fst e # akeys m" "akeys (m @ m') = akeys m @ akeys m'"
  by (auto simp: akeys_def)

lemma map_of_eq_None [simp]: "map_of m k = None \<longleftrightarrow> k \<notin> set (akeys m)"
  by (simp add: akeys_def map_of_eq_None_iff)

lemma None_eq_map_of [simp]: "None = map_of m k \<longleftrightarrow> k \<notin> set (akeys m)"
  by (metis map_of_eq_None)

lemma map_of_notin_akeys [simp]: "k \<notin> set (akeys m) \<Longrightarrow> map_of m k = None"
  by simp

lemma map_of_in_akeys: "map_of m k = Some v \<Longrightarrow> k \<in> set (akeys m)"
  by (metis map_of_eq_None option.distinct(1))

lemma in_akeys_map_of: "k \<in> set (akeys m) \<Longrightarrow> \<exists>v. map_of m k = Some v"
  by (metis map_of_eq_None not_None_eq)

lemma emplace_fresh: "k \<notin> set (akeys m) \<Longrightarrow> emplace k v m = m @ [(k, v)]"
  by (simp add: emplace_def)

lemma emplace_present [simp]: "k \<in> set (akeys m) \<Longrightarrow> emplace k v m = m"
  by (simp add: emplace_def)

lemma map_of_emplace:
  "map_of (emplace k v m) = (if k \<in> set (akeys m) then map_of m else (map_of m)(k \<mapsto> v))"
proof -
  have "map_of (m @ [(k, v)]) = (map_of m)(k \<mapsto> v)" if "k \<notin> set (akeys m)"
    using that by (induction m) (auto simp: fun_eq_iff)
  then show ?thesis by (simp add: emplace_def)
qed

lemma akeys_emplace: "set (akeys (emplace k v m)) = insert k (set (akeys m))"
  by (auto simp: emplace_def)

lemma awf_emplace [simp]: "awf m \<Longrightarrow> awf (emplace k v m)"
  by (auto simp: emplace_def)

lemma set_emplace: "set (emplace k v m) \<subseteq> insert (k, v) (set m)"
  by (auto simp: emplace_def)

lemma map_of_aput [simp]: "map_of (aput k v m) = (map_of m)(k \<mapsto> v)"
  by (induction m) (auto simp: fun_eq_iff)

lemma akeys_aput [simp]: "set (akeys (aput k v m)) = insert k (set (akeys m))"
  by (induction m) auto

lemma awf_aput [simp]: "awf m \<Longrightarrow> awf (aput k v m)"
  by (induction m) auto

lemma map_of_aerase [simp]: "map_of (aerase k m) = (map_of m)(k := None)"
  by (induction m) (auto simp: aerase_def fun_eq_iff)

lemma akeys_aerase [simp]: "akeys (aerase k m) = filter (\<lambda>x. x \<noteq> k) (akeys m)"
  by (induction m) (auto simp: aerase_def)

lemma awf_aerase [simp]: "awf m \<Longrightarrow> awf (aerase k m)"
  by simp

lemma foldl_emplace_id:
  "awf (m @ m') \<Longrightarrow> foldl (\<lambda>acc e. emplace (fst e) (snd e) acc) m m' = m @ m'"
proof (induction m' arbitrary: m)
  case (Cons e m')
  have "emplace (fst e) (snd e) m = m @ [e]"
    using Cons.prems by (simp add: emplace_fresh)
  moreover have "awf ((m @ [e]) @ m')" using Cons.prems by simp
  ultimately show ?case using Cons.IH[of "m @ [e]"] by simp
qed simp

end
