(* ===== verification/Errors.thy ===== *)
theory Errors
  imports Prelude
begin

text \<open>
  \<^verbatim>\<open>common/exception.cpp\<close> and \<^verbatim>\<open>common/exception.hpp\<close>: the SDK's exceptions. Every throwing
  function of the model returns \<open>exn + 'a\<close>. \<open>Undefined\<close> is not an exception of the program: it
  marks behaviour C++ leaves undefined (a null dereference, an out-of-range conversion), so no
  handler catches it.
\<close>

subsection \<open>gRPC status values\<close>

datatype status_code =
    OK | CANCELLED | UNKNOWN | INVALID_ARGUMENT | DEADLINE_EXCEEDED | NOT_FOUND | ALREADY_EXISTS
  | PERMISSION_DENIED | RESOURCE_EXHAUSTED | FAILED_PRECONDITION | ABORTED | OUT_OF_RANGE
  | UNIMPLEMENTED | INTERNAL | UNAVAILABLE | DATA_LOSS | UNAUTHENTICATED

record status =
  st_code :: status_code
  st_message :: string
  st_details :: string

definition status_ok :: status where
  "status_ok = \<lparr>st_code = OK, st_message = [], st_details = []\<rparr>"

definition mk_status :: "status_code \<Rightarrow> string \<Rightarrow> status" where
  "mk_status c msg = \<lparr>st_code = c, st_message = msg, st_details = []\<rparr>"

definition st_is_ok :: "status \<Rightarrow> bool" where
  "st_is_ok s \<longleftrightarrow> st_code s = OK"

subsection \<open>Error conditions and exceptions\<close>

datatype error_condition =
    K_general | K_connection | K_duplicate_registration | K_duplicate_resource | K_grpc
  | K_not_supported | K_resource_not_found

fun condition_value :: "error_condition \<Rightarrow> nat" where
  "condition_value K_general = 0"
| "condition_value K_connection = 1"
| "condition_value K_duplicate_registration = 2"
| "condition_value K_duplicate_resource = 3"
| "condition_value K_grpc = 4"
| "condition_value K_not_supported = 5"
| "condition_value K_resource_not_found = 6"

text \<open>The category's \<^verbatim>\<open>message(int)\<close> and \<^verbatim>\<open>make_error_condition\<close>.\<close>

definition condition_message :: "nat \<Rightarrow> string" where
  "condition_message ev =
     (if ev = 0 then ''general''
      else if ev = 1 then ''connection establishment failure''
      else if ev = 2 then ''duplicate registration''
      else if ev = 3 then ''duplicate resource''
      else if ev = 4 then ''gRPC''
      else if ev = 5 then ''not supported''
      else if ev = 6 then ''resource not found''
      else ''unknown'')"

definition make_error_condition :: "error_condition \<Rightarrow> nat \<times> string" where
  "make_error_condition e = (condition_value e, ''viam::sdk'')"

datatype exn =
    SdkException error_condition string
  | GrpcException status string
  | StdException string
  | OutOfRange string
  | InvalidArgument string
  | StatusThrown status
  | UnknownException
  | Undefined string

text \<open>The constructors of \<^verbatim>\<open>Exception\<close> and \<^verbatim>\<open>GRPCException\<close>; the message is what
  \<^verbatim>\<open>what()\<close> returns.\<close>

definition sdk_exception :: "error_condition \<Rightarrow> string \<Rightarrow> exn" where
  "sdk_exception c msg = SdkException c (''viam::sdk::Exception: '' @ msg)"

definition general_exception :: "string \<Rightarrow> exn" where
  "general_exception msg = sdk_exception K_general msg"

definition grpc_exception :: "status \<Rightarrow> exn" where
  "grpc_exception s = GrpcException s (''viam::sdk::Exception: '' @ st_message s)"

fun exn_condition :: "exn \<Rightarrow> error_condition option" where
  "exn_condition (SdkException c msg) = Some c"
| "exn_condition (GrpcException s msg) = Some K_grpc"
| "exn_condition e = None"

text \<open>What a \<^verbatim>\<open>catch (const std::exception&)\<close> clause catches, and what it reads.\<close>

fun is_std_exception :: "exn \<Rightarrow> bool" where
  "is_std_exception (SdkException c msg) = True"
| "is_std_exception (GrpcException s msg) = True"
| "is_std_exception (StdException msg) = True"
| "is_std_exception (OutOfRange msg) = True"
| "is_std_exception (InvalidArgument msg) = True"
| "is_std_exception (StatusThrown s) = False"
| "is_std_exception UnknownException = False"
| "is_std_exception (Undefined why) = False"

fun is_undefined :: "exn \<Rightarrow> bool" where
  "is_undefined (Undefined why) = True"
| "is_undefined e = False"

fun exn_what :: "exn \<Rightarrow> string" where
  "exn_what (SdkException c msg) = msg"
| "exn_what (GrpcException s msg) = msg"
| "exn_what (StdException msg) = msg"
| "exn_what (OutOfRange msg) = msg"
| "exn_what (InvalidArgument msg) = msg"
| "exn_what e = []"

type_synonym 'a res = "exn + 'a"

text \<open>A \<^verbatim>\<open>try\<close> block with one clause for \<^verbatim>\<open>std::exception\<close>: other exceptions propagate.\<close>

definition try_std :: "'a res \<Rightarrow> (exn \<Rightarrow> 'a res) \<Rightarrow> 'a res" where
  "try_std m h = (case m of Inl e \<Rightarrow> if is_std_exception e then h e else Inl e | Inr a \<Rightarrow> Inr a)"

text \<open>Bounds-checked \<^verbatim>\<open>vector::at\<close>.\<close>

definition vec_at :: "'a list \<Rightarrow> nat \<Rightarrow> 'a res" where
  "vec_at xs i = (if i < length xs then Inr (xs ! i) else Inl (OutOfRange ''vector''))"

text \<open>
  The contract of a conversion pair: every value in the domain survives the trip over the wire.
  Client lemmas: repeated fields, optional fields and injectivity of the encoding.
\<close>

locale proto_codec =
  fixes to_p :: "'a \<Rightarrow> 'p"
    and from_p :: "'p \<Rightarrow> 'a res"
    and dom_p :: "'a \<Rightarrow> bool"
  assumes from_to: "dom_p x \<Longrightarrow> from_p (to_p x) = Inr x"
begin

lemma repeated_from_to: "\<forall>x\<in>set xs. dom_p x \<Longrightarrow> mapM from_p (map to_p xs) = Inr xs"
  by (induction xs) (auto simp: from_to)

lemma to_inj: "dom_p x \<Longrightarrow> dom_p y \<Longrightarrow> to_p x = to_p y \<Longrightarrow> x = y"
  by (metis from_to sum.inject(2))

lemma optional_from_to:
  "pred_option dom_p o' \<Longrightarrow>
   (case map_option to_p o' of None \<Rightarrow> Inr None | Some p \<Rightarrow> rmap Some (from_p p)) = Inr o'"
  by (cases o') (auto simp: from_to)

lemma entries_from_to:
  "\<forall>e\<in>set m. dom_p (snd e) \<Longrightarrow>
   mapM (\<lambda>e. rmap (Pair (fst e)) (from_p (snd e))) (map (\<lambda>e. (fst e, to_p (snd e))) m) = Inr m"
  by (induction m) (auto simp: from_to)

end

text \<open>A codec that is total on its type, where no side condition is left.\<close>

locale total_codec =
  fixes to_p :: "'a \<Rightarrow> 'p"
    and from_p :: "'p \<Rightarrow> 'a"
  assumes from_to_total: "from_p (to_p x) = x"
begin

sublocale proto_codec to_p "\<lambda>p. Inr (from_p p)" "\<lambda>_. True"
  by unfold_locales (simp add: from_to_total)

lemma map_from_to: "map from_p (map to_p xs) = xs"
  by (induction xs) (auto simp: from_to_total)

lemma map_option_from_to: "map_option from_p (map_option to_p o') = o'"
  by (cases o') (auto simp: from_to_total)

lemma to_total_inj: "to_p x = to_p y \<longleftrightarrow> x = y"
  by (metis from_to_total)

end

lemma try_std_Inr [simp]: "try_std (Inr a) h = Inr a"
  by (simp add: try_std_def)

lemma try_std_Inl: "try_std (Inl e) h = (if is_std_exception e then h e else Inl e)"
  by (simp add: try_std_def)

lemma sdk_exception_std [simp]:
  "is_std_exception (sdk_exception c msg)" "is_std_exception (general_exception msg)"
  "is_std_exception (grpc_exception s)"
  by (simp_all add: sdk_exception_def general_exception_def grpc_exception_def)

lemma undefined_not_caught: "is_undefined e \<Longrightarrow> \<not> is_std_exception e"
  by (cases e) auto

lemma condition_value_inj: "condition_value a = condition_value b \<longleftrightarrow> a = b"
  by (cases a; cases b) auto

lemma condition_known: "condition_message (condition_value c) \<noteq> ''unknown''"
  by (cases c) (auto simp: condition_message_def)

lemma vec_at_ok: "i < length xs \<Longrightarrow> vec_at xs i = Inr (xs ! i)"
  by (simp add: vec_at_def)

lemma vec_at_bad: "length xs \<le> i \<Longrightarrow> vec_at xs i = Inl (OutOfRange ''vector'')"
  by (simp add: vec_at_def)

lemma status_simps [simp]:
  "st_is_ok status_ok" "st_code (mk_status c m) = c" "st_message (mk_status c m) = m"
  "st_is_ok (mk_status c m) \<longleftrightarrow> c = OK" "st_code status_ok = OK" "st_message status_ok = []"
  by (auto simp: st_is_ok_def status_ok_def mk_status_def)

end
