(* ===== verification/Bytes.thy ===== *)
theory Bytes
  imports Prelude "HOL-Library.Signed_Division" "HOL-Library.Log_Nat"
begin

text \<open>
  Machine representations the code relies on: little- and big-endian byte strings of unsigned
  integers, C++'s division of signed integers (it truncates towards zero), and IEEE-754 binary64
  values as their 64 bits, with the operations the code applies to them: comparison, conversion of
  an integer to a double (round to nearest, ties to even) and truncation of a double to an integer.
\<close>

subsection \<open>Byte strings of integers\<close>

primrec le_bytes :: "nat \<Rightarrow> nat \<Rightarrow> byte list" where
  "le_bytes 0 v = []"
| "le_bytes (Suc k) v = word_of_nat v # le_bytes k (v div 256)"

fun le_val :: "byte list \<Rightarrow> nat" where
  "le_val [] = 0"
| "le_val (b # bs) = unat b + 256 * le_val bs"

definition be_bytes :: "nat \<Rightarrow> nat \<Rightarrow> byte list" where
  "be_bytes k v = rev (le_bytes k v)"

definition be_val :: "byte list \<Rightarrow> nat" where
  "be_val bs = le_val (rev bs)"

lemma length_le_bytes [simp]: "length (le_bytes k v) = k"
  by (induction k arbitrary: v) auto

lemma length_be_bytes [simp]: "length (be_bytes k v) = k"
  by (simp add: be_bytes_def)

lemma unat_byte_of_nat [simp]: "unat (word_of_nat v :: byte) = v mod 256"
  by (simp add: unat_of_nat)

lemma le_val_bytes: "le_val (le_bytes k v) = v mod 256 ^ k"
proof (induction k arbitrary: v)
  case (Suc k)
  have "v mod 256 + 256 * (v div 256 mod 256 ^ k) = v mod (256 * 256 ^ k)"
    by (simp add: mod_mult2_eq)
  then show ?case by (simp add: Suc.IH)
qed simp

lemma le_val_bytes_small [simp]: "v < 256 ^ k \<Longrightarrow> le_val (le_bytes k v) = v"
  by (simp add: le_val_bytes)

lemma be_val_bytes [simp]: "v < 256 ^ k \<Longrightarrow> be_val (be_bytes k v) = v"
  by (simp add: be_val_def be_bytes_def)

lemma unat_byte_less: "unat (b :: byte) < 256"
  using unsigned_less[of b, where 'a = nat] by simp

lemma le_val_less: "le_val bs < 256 ^ length bs"
proof (induction bs)
  case (Cons b bs)
  have "unat b < 256" by (rule unat_byte_less)
  then have "unat b + 256 * le_val bs < 256 + 256 * le_val bs" by simp
  also have "\<dots> = 256 * Suc (le_val bs)" by simp
  also have "\<dots> \<le> 256 * 256 ^ length bs"
    using Cons.IH by (intro mult_le_mono) (auto simp: Suc_le_eq)
  finally show ?case by simp
qed simp

lemma be_val_less: "be_val bs < 256 ^ length bs"
  using le_val_less[of "rev bs"] by (simp add: be_val_def)

lemma le_bytes_val: "le_bytes (length bs) (le_val bs) = bs"
proof (induction bs)
  case (Cons b bs)
  have "unat b < 256" by (rule unat_byte_less)
  then have "(unat b + 256 * le_val bs) div 256 = le_val bs" by simp
  moreover have "word_of_nat (unat b + 256 * le_val bs) = b"
  proof -
    have z: "(256 :: byte) = 0" by simp
    show ?thesis by (simp add: z)
  qed
  ultimately show ?case using Cons.IH by simp
qed simp

lemma be_bytes_val: "be_bytes (length bs) (be_val bs) = bs"
  using le_bytes_val[of "rev bs"] by (simp add: be_bytes_def be_val_def)

text \<open>
  The contract of a fixed-width integer encoding. Its clients write a run of integers and read it
  back; they need only the width and the inverse.
\<close>

locale fixed_width_codec =
  fixes width :: nat
    and bound :: nat
    and enc :: "nat \<Rightarrow> byte list"
    and dec :: "byte list \<Rightarrow> nat"
  assumes enc_length: "length (enc v) = width"
    and dec_enc: "v < bound \<Longrightarrow> dec (enc v) = v"
    and enc_dec: "length bs = width \<Longrightarrow> enc (dec bs) = bs"
    and dec_bound: "length bs = width \<Longrightarrow> dec bs < bound"
    and width_pos: "0 < width"
begin

lemma concat_length: "length (concat (map enc vs)) = width * length vs"
  by (induction vs) (auto simp: enc_length)

lemma take_enc: "take width (enc v @ bs) = enc v"
  by (simp add: enc_length)

lemma drop_enc: "drop width (enc v @ bs) = bs"
  by (simp add: enc_length)

lemma enc_inj: "v < bound \<Longrightarrow> w < bound \<Longrightarrow> enc v = enc w \<Longrightarrow> v = w"
  by (metis dec_enc)

end

fun chunks :: "nat \<Rightarrow> nat \<Rightarrow> byte list \<Rightarrow> byte list list" where
  "chunks w 0 bs = []"
| "chunks w (Suc n) bs = take w bs # chunks w n (drop w bs)"

context fixed_width_codec begin

lemma decode_run:
  "\<forall>v\<in>set vs. v < bound \<Longrightarrow> map dec (chunks width (length vs) (concat (map enc vs) @ rest)) = vs"
  by (induction vs) (auto simp: enc_length dec_enc)

lemma encode_run:
  "length bs = width * n \<Longrightarrow> concat (map enc (map dec (chunks width n bs))) = bs"
proof (induction n arbitrary: bs)
  case (Suc n)
  have "length (take width bs) = width" "length (drop width bs) = width * n"
    using Suc.prems by auto
  then show ?case using Suc.IH[of "drop width bs"] by (simp add: enc_dec)
qed simp

end

lemma chunks_length [simp]: "length (chunks w n bs) = n"
  by (induction n arbitrary: bs) auto

lemma chunks_elem_length:
  "length bs = w * n \<Longrightarrow> c \<in> set (chunks w n bs) \<Longrightarrow> length c = w"
proof (induction n arbitrary: bs)
  case (Suc n)
  then have "c = take w bs \<or> c \<in> set (chunks w n (drop w bs))" by auto
  then show ?case using Suc.prems(1) Suc.IH[of "drop w bs"] by auto
qed simp

interpretation le16: fixed_width_codec 2 "2 ^ 16" "le_bytes 2" le_val
proof unfold_locales
  fix bs :: "byte list" assume *: "length bs = 2"
  show "le_bytes 2 (le_val bs) = bs" using le_bytes_val[of bs] * by simp
  show "le_val bs < 2 ^ 16" using le_val_less[of bs] * by simp
qed auto

interpretation le32: fixed_width_codec 4 "2 ^ 32" "le_bytes 4" le_val
proof unfold_locales
  fix bs :: "byte list" assume *: "length bs = 4"
  show "le_bytes 4 (le_val bs) = bs" using le_bytes_val[of bs] * by simp
  show "le_val bs < 2 ^ 32" using le_val_less[of bs] * by simp
qed auto

interpretation le64: fixed_width_codec 8 "2 ^ 64" "le_bytes 8" le_val
proof unfold_locales
  fix bs :: "byte list" assume *: "length bs = 8"
  show "le_bytes 8 (le_val bs) = bs" using le_bytes_val[of bs] * by simp
  show "le_val bs < 2 ^ 64" using le_val_less[of bs] * by simp
qed auto

interpretation be16: fixed_width_codec 2 "2 ^ 16" "be_bytes 2" be_val
proof unfold_locales
  fix bs :: "byte list" assume *: "length bs = 2"
  show "be_bytes 2 (be_val bs) = bs" using be_bytes_val[of bs] * by simp
  show "be_val bs < 2 ^ 16" using be_val_less[of bs] * by simp
qed auto

interpretation be64: fixed_width_codec 8 "2 ^ 64" "be_bytes 8" be_val
proof unfold_locales
  fix bs :: "byte list" assume *: "length bs = 8"
  show "be_bytes 8 (be_val bs) = bs" using be_bytes_val[of bs] * by simp
  show "be_val bs < 2 ^ 64" using be_val_less[of bs] * by simp
qed auto

end
