(* ===== verification/Doubles.thy ===== *)
theory Doubles
  imports Bytes
begin

text \<open>
  A \<^verbatim>\<open>double\<close> is its IEEE-754 binary64 bit pattern. The operations are those the code applies:
  comparison with \<^verbatim>\<open>==\<close>, \<^verbatim>\<open>static_cast\<close> from an integer (rounding to nearest, ties to even)
  and \<^verbatim>\<open>static_cast\<close> to an integer (truncation, undefined outside the target's range).
\<close>

type_synonym double = "64 word"

definition dbl_neg :: "double \<Rightarrow> bool" where
  "dbl_neg d \<longleftrightarrow> 2 ^ 63 \<le> unat d"

definition dbl_exp :: "double \<Rightarrow> nat" where
  "dbl_exp d = unat d div 2 ^ 52 mod 2 ^ 11"

definition dbl_frac :: "double \<Rightarrow> nat" where
  "dbl_frac d = unat d mod 2 ^ 52"

definition dbl_is_nan :: "double \<Rightarrow> bool" where
  "dbl_is_nan d \<longleftrightarrow> dbl_exp d = 2047 \<and> dbl_frac d \<noteq> 0"

definition dbl_is_zero :: "double \<Rightarrow> bool" where
  "dbl_is_zero d \<longleftrightarrow> d = 0 \<or> d = 0x8000000000000000"

text \<open>\<^verbatim>\<open>a == b\<close> on doubles: NaN differs from everything, the two zeros are equal.\<close>

definition dbl_eq :: "double \<Rightarrow> double \<Rightarrow> bool" where
  "dbl_eq a b \<longleftrightarrow> \<not> dbl_is_nan a \<and> \<not> dbl_is_nan b \<and> (a = b \<or> dbl_is_zero a \<and> dbl_is_zero b)"

text \<open>The magnitude bits of the double nearest to a positive integer.\<close>

definition dbl_of_pos :: "nat \<Rightarrow> nat" where
  "dbl_of_pos n =
     (let e = floorlog 2 n - 1 in
      if e \<le> 52 then (e + 1023) * 2 ^ 52 + (n * 2 ^ (52 - e) - 2 ^ 52)
      else let s = e - 52; q = n div 2 ^ s; r = n mod 2 ^ s; half = 2 ^ (s - 1);
               q' = (if half < r \<or> r = half \<and> odd q then q + 1 else q)
           in (e + 1023) * 2 ^ 52 + (q' - 2 ^ 52))"

definition dbl_of_int :: "int \<Rightarrow> double" where
  "dbl_of_int i =
     (if i = 0 then 0
      else word_of_nat ((if i < 0 then 2 ^ 63 else 0) + dbl_of_pos (nat \<bar>i\<bar>)))"

definition dbl_mag_trunc :: "nat \<Rightarrow> nat \<Rightarrow> nat" where
  "dbl_mag_trunc e f =
     (if e = 0 then 0
      else if 1075 \<le> e then (2 ^ 52 + f) * 2 ^ (e - 1075)
      else (2 ^ 52 + f) div 2 ^ (1075 - e))"

definition dbl_trunc :: "double \<Rightarrow> int option" where
  "dbl_trunc d =
     (if dbl_exp d = 2047 then None
      else let m = int (dbl_mag_trunc (dbl_exp d) (dbl_frac d))
           in Some (if dbl_neg d then - m else m))"

text \<open>\<^verbatim>\<open>static_cast\<close> of a double to a signed integer of \<open>w\<close> bits; \<open>None\<close> is undefined
  behaviour.\<close>

definition dbl_to_sint :: "nat \<Rightarrow> double \<Rightarrow> int option" where
  "dbl_to_sint w d =
     (case dbl_trunc d of None \<Rightarrow> None
      | Some i \<Rightarrow> if - (2 ^ (w - 1)) \<le> i \<and> i < 2 ^ (w - 1) then Some i else None)"

lemma dbl_eq_sym: "dbl_eq a b \<longleftrightarrow> dbl_eq b a"
  by (auto simp: dbl_eq_def)

lemma dbl_eq_refl [simp]: "dbl_eq a a \<longleftrightarrow> \<not> dbl_is_nan a"
  by (auto simp: dbl_eq_def)

lemma dbl_zero_not_nan [simp]: "\<not> dbl_is_nan 0" "dbl_is_zero 0"
  by (simp_all add: dbl_is_nan_def dbl_exp_def dbl_frac_def dbl_is_zero_def)

subsection \<open>Integers below \<open>2 ^ 53\<close> survive the round trip\<close>

lemma floorlog_bounds:
  assumes "0 < n"
  shows "2 ^ (floorlog 2 n - 1) \<le> n" and "n < 2 ^ floorlog 2 n"
  using floorlog_bounds[of n 2] assms by auto

lemma dbl_of_pos_parts:
  assumes n: "0 < n" "n < 2 ^ 53"
  defines "e \<equiv> floorlog 2 n - 1"
  shows "dbl_of_pos n div 2 ^ 52 = e + 1023" and "dbl_of_pos n mod 2 ^ 52 = n * 2 ^ (52 - e) - 2 ^ 52"
    and "e \<le> 52" and "2 ^ 52 \<le> n * 2 ^ (52 - e)"
proof -
  have lo: "2 ^ e \<le> n" using floorlog_bounds(1)[OF n(1)] by (simp add: e_def)
  have fl: "0 < floorlog 2 n" using n(1) by (simp add: floorlog_def)
  have hi: "n < 2 ^ Suc e" using floorlog_bounds(2)[OF n(1)] fl by (simp add: e_def)
  have "(2::nat) ^ e < 2 ^ 53" using lo n(2) by linarith
  then have "e < 53" by (simp only: power_strict_increasing_iff one_less_numeral_iff semiring_norm)
  then show e52: "e \<le> 52" by simp
  have p: "(2::nat) ^ e * 2 ^ (52 - e) = 2 ^ 52" using e52 by (simp flip: power_add)
  have "2 ^ e * 2 ^ (52 - e) \<le> n * 2 ^ (52 - e)" using lo by (rule mult_le_mono1)
  with p show ge: "2 ^ 52 \<le> n * 2 ^ (52 - e)" by simp
  have "n * 2 ^ (52 - e) < 2 ^ Suc e * 2 ^ (52 - e)" using hi by (intro mult_strict_right_mono) auto
  also have "\<dots> = 2 ^ 53" using p by (simp add: power_Suc)
  finally have r: "n * 2 ^ (52 - e) - 2 ^ 52 < 2 ^ 52" by simp
  have d: "dbl_of_pos n = (n * 2 ^ (52 - e) - 2 ^ 52) + (e + 1023) * 2 ^ 52"
    using e52 by (simp add: dbl_of_pos_def e_def Let_def)
  show "dbl_of_pos n div 2 ^ 52 = e + 1023"
    using r unfolding d by simp
  show "dbl_of_pos n mod 2 ^ 52 = n * 2 ^ (52 - e) - 2 ^ 52"
    using r unfolding d by (simp del: power_numeral)
qed

lemma dbl_mag_trunc_exact:
  assumes "e \<le> 52" and "2 ^ 52 \<le> n * 2 ^ (52 - e)"
  shows "dbl_mag_trunc (e + 1023) (n * 2 ^ (52 - e) - 2 ^ 52) = n"
proof -
  have s: "2 ^ 52 + (n * 2 ^ (52 - e) - 2 ^ 52) = n * 2 ^ (52 - e)" using assms(2) by simp
  show ?thesis
  proof (cases "e = 52")
    case True
    then show ?thesis using s by (simp add: dbl_mag_trunc_def)
  next
    case False
    with assms(1) have "1075 - (e + 1023) = 52 - e" "\<not> 1075 \<le> e + 1023" by auto
    then show ?thesis using s by (simp add: dbl_mag_trunc_def del: power_numeral)
  qed
qed

lemma dbl_trunc_of_int:
  assumes "\<bar>i\<bar> < 2 ^ 53"
  shows "dbl_trunc (dbl_of_int i) = Some i"
proof (cases "i = 0")
  case True
  then show ?thesis
    by (simp add: dbl_of_int_def dbl_trunc_def dbl_exp_def dbl_frac_def dbl_neg_def dbl_mag_trunc_def)
next
  case False
  define n where "n = nat \<bar>i\<bar>"
  define e where "e = floorlog 2 n - 1"
  have n: "0 < n" "n < 2 ^ 53" using False assms by (auto simp: n_def)
  note parts = dbl_of_pos_parts[OF n, folded e_def]
  define sg :: nat where "sg = (if i < 0 then 2 ^ 63 else 0)"
  have "dbl_of_pos n = (dbl_of_pos n div 2 ^ 52) * 2 ^ 52 + dbl_of_pos n mod 2 ^ 52" by simp
  also have "\<dots> < (e + 1024) * 2 ^ 52"
    using parts(1) by (simp add: algebra_simps)
  also have "\<dots> \<le> 1076 * 2 ^ 52" using parts(3) by simp
  finally have small: "dbl_of_pos n < 2 ^ 63" by simp
  have u: "unat (dbl_of_int i) = sg + dbl_of_pos n"
  proof -
    have "dbl_of_int i = word_of_nat (sg + dbl_of_pos n)"
      using False by (simp only: dbl_of_int_def n_def sg_def if_False)
    moreover have "sg + dbl_of_pos n < 2 ^ 64" using small by (simp add: sg_def)
    ultimately show ?thesis by (simp add: unat_of_nat del: of_nat_add)
  qed
  have sgd: "sg = (if i < 0 then 2 ^ 11 else 0) * 2 ^ 52" by (simp add: sg_def)
  have "(sg + dbl_of_pos n) div 2 ^ 52 = (if i < 0 then 2 ^ 11 else 0) + (e + 1023)"
    unfolding sgd parts(1)[symmetric] by simp
  then have ex: "dbl_exp (dbl_of_int i) = e + 1023"
  proof -
    have "(e + 1023 + 2048) mod 2048 = (e + 1023) mod 2048" by (rule mod_add_self2)
    moreover have "(e + 1023) mod 2048 = e + 1023" using parts(3) by simp
    moreover have "dbl_exp (dbl_of_int i) = ((if i < 0 then 2 ^ 11 else 0) + (e + 1023)) mod 2 ^ 11"
      unfolding dbl_exp_def u by (simp only: \<open>(sg + dbl_of_pos n) div 2 ^ 52 = _\<close>)
    ultimately show ?thesis by (simp add: algebra_simps)
  qed
  have fr: "dbl_frac (dbl_of_int i) = n * 2 ^ (52 - e) - 2 ^ 52"
    unfolding dbl_frac_def u sgd parts(2)[symmetric] by simp
  have ng: "dbl_neg (dbl_of_int i) \<longleftrightarrow> i < 0"
    using small by (auto simp: dbl_neg_def u sg_def)
  have "dbl_exp (dbl_of_int i) \<noteq> 2047" using ex parts(3) by simp
  then show ?thesis
    using dbl_mag_trunc_exact[OF parts(3,4)] False
    by (auto simp: dbl_trunc_def ex fr ng Let_def n_def)
qed

lemma dbl_to_sint_of_int:
  "\<bar>i\<bar> < 2 ^ 53 \<Longrightarrow> - (2 ^ (w - 1)) \<le> i \<Longrightarrow> i < 2 ^ (w - 1) \<Longrightarrow> dbl_to_sint w (dbl_of_int i) = Some i"
  by (simp add: dbl_to_sint_def dbl_trunc_of_int)

lemma dbl_of_int_not_nan: "\<bar>i\<bar> < 2 ^ 53 \<Longrightarrow> \<not> dbl_is_nan (dbl_of_int i)"
  using dbl_trunc_of_int[of i] by (auto simp: dbl_is_nan_def dbl_trunc_def)

lemma dbl_of_int_samples:
  "dbl_of_int 0 = 0" "dbl_of_int 1 = 0x3FF0000000000000" "dbl_of_int (- 2) = 0xC000000000000000"
  "dbl_of_int 3 = 0x4008000000000000"
  by (simp_all add: dbl_of_int_def dbl_of_pos_def compute_floorlog)

end
