(* ===== verification/ProtoValues.thy ===== *)
theory ProtoValues
  imports Errors Doubles
begin

text \<open>
  \<^verbatim>\<open>common/proto_value.cpp\<close>, \<^verbatim>\<open>common/proto_value.hpp\<close> and \<^verbatim>\<open>common/proto_value_visit.hpp\<close>:
  the type-erased value \<^verbatim>\<open>ProtoValue\<close> as the datatype of its contents, its discriminator, typed
  access, equality, visiting, and the conversions to and from \<^verbatim>\<open>google.protobuf.Value\<close> and
  \<^verbatim>\<open>Struct\<close>. A \<^verbatim>\<open>ProtoStruct\<close> (an unordered map) is the list of its entries in iteration order;
  its keys are distinct, which \<open>pv_wf\<close> says of every struct inside a value.
\<close>

datatype proto_value =
    PNull
  | PBool bool
  | PDouble double
  | PString string
  | PList "proto_value list"
  | PStruct "(string \<times> proto_value) list"

type_synonym proto_struct = "(string \<times> proto_value) list"

datatype kind = K_null | K_bool | K_double | K_string | K_list | K_struct

fun kind_value :: "kind \<Rightarrow> nat" where
  "kind_value K_null = 0"
| "kind_value K_bool = 1"
| "kind_value K_double = 2"
| "kind_value K_string = 3"
| "kind_value K_list = 4"
| "kind_value K_struct = 5"

fun pv_kind :: "proto_value \<Rightarrow> kind" where
  "pv_kind PNull = K_null"
| "pv_kind (PBool b) = K_bool"
| "pv_kind (PDouble d) = K_double"
| "pv_kind (PString s) = K_string"
| "pv_kind (PList l) = K_list"
| "pv_kind (PStruct m) = K_struct"

text \<open>\<^verbatim>\<open>ProtoValue(int)\<close> stores a double.\<close>

definition pv_of_int :: "int \<Rightarrow> proto_value" where
  "pv_of_int i = PDouble (dbl_of_int i)"

definition is_null :: "proto_value \<Rightarrow> bool" where
  "is_null v \<longleftrightarrow> pv_kind v = K_null"

definition is_a :: "kind \<Rightarrow> proto_value \<Rightarrow> bool" where
  "is_a k v \<longleftrightarrow> k = pv_kind v"

text \<open>\<^verbatim>\<open>get<T>()\<close>: a pointer to the contents when the kind is that of \<open>T\<close>, else null.\<close>

fun get_bool :: "proto_value \<Rightarrow> bool option" where
  "get_bool (PBool b) = Some b"
| "get_bool v = None"

fun get_double :: "proto_value \<Rightarrow> double option" where
  "get_double (PDouble d) = Some d"
| "get_double v = None"

fun get_string :: "proto_value \<Rightarrow> string option" where
  "get_string (PString s) = Some s"
| "get_string v = None"

fun get_list :: "proto_value \<Rightarrow> proto_value list option" where
  "get_list (PList l) = Some l"
| "get_list v = None"

fun get_struct :: "proto_value \<Rightarrow> proto_struct option" where
  "get_struct (PStruct m) = Some m"
| "get_struct v = None"

text \<open>\<^verbatim>\<open>get_unchecked<T>()\<close>: reading the buffer as another type is undefined.\<close>

definition get_string_unchecked :: "proto_value \<Rightarrow> string res" where
  "get_string_unchecked v =
     (case get_string v of Some s \<Rightarrow> Inr s | None \<Rightarrow> Inl (Undefined ''get_unchecked''))"

definition get_bool_unchecked :: "proto_value \<Rightarrow> bool res" where
  "get_bool_unchecked v =
     (case get_bool v of Some b \<Rightarrow> Inr b | None \<Rightarrow> Inl (Undefined ''get_unchecked''))"

text \<open>\<^verbatim>\<open>visit\<close>: one handler per stored type, chosen by \<^verbatim>\<open>kind()\<close>.\<close>

record 'r visitor =
  on_null :: 'r
  on_bool :: "bool \<Rightarrow> 'r"
  on_double :: "double \<Rightarrow> 'r"
  on_string :: "string \<Rightarrow> 'r"
  on_list :: "proto_value list \<Rightarrow> 'r"
  on_struct :: "proto_struct \<Rightarrow> 'r"

definition pv_visit :: "'r visitor \<Rightarrow> proto_value \<Rightarrow> 'r" where
  "pv_visit f v =
     (case v of PBool b \<Rightarrow> on_bool f b | PDouble d \<Rightarrow> on_double f d | PString s \<Rightarrow> on_string f s
      | PList l \<Rightarrow> on_list f l | PStruct m \<Rightarrow> on_struct f m | PNull \<Rightarrow> on_null f)"

text \<open>
  \<^verbatim>\<open>operator==\<close>: false on different kinds, otherwise the equality of the stored type: IEEE
  equality on doubles, length and elementwise equality on vectors, and on unordered maps equal
  sizes and every entry of the left found equal in the right.
\<close>

fun pv_eq :: "proto_value \<Rightarrow> proto_value \<Rightarrow> bool"
  and pv_list_eq :: "proto_value list \<Rightarrow> proto_value list \<Rightarrow> bool"
  and pv_entries_in :: "proto_struct \<Rightarrow> proto_struct \<Rightarrow> bool" where
  "pv_eq PNull w = (w = PNull)"
| "pv_eq (PBool a) w = (case w of PBool b \<Rightarrow> a = b | _ \<Rightarrow> False)"
| "pv_eq (PDouble a) w = (case w of PDouble b \<Rightarrow> dbl_eq a b | _ \<Rightarrow> False)"
| "pv_eq (PString a) w = (case w of PString b \<Rightarrow> a = b | _ \<Rightarrow> False)"
| "pv_eq (PList a) w = (case w of PList b \<Rightarrow> pv_list_eq a b | _ \<Rightarrow> False)"
| "pv_eq (PStruct a) w =
     (case w of PStruct b \<Rightarrow> length a = length b \<and> pv_entries_in a b | _ \<Rightarrow> False)"
| "pv_list_eq [] ys = (ys = [])"
| "pv_list_eq (x # xs) ys = (case ys of [] \<Rightarrow> False | y # ys' \<Rightarrow> pv_eq x y \<and> pv_list_eq xs ys')"
| "pv_entries_in [] n = True"
| "pv_entries_in ((k, v) # m) n =
     ((case map_of n k of None \<Rightarrow> False | Some w \<Rightarrow> pv_eq v w) \<and> pv_entries_in m n)"

text \<open>Distinct keys at every depth.\<close>

fun pv_wf :: "proto_value \<Rightarrow> bool" where
  "pv_wf (PList l) = (\<forall>v\<in>set l. pv_wf v)"
| "pv_wf (PStruct m) = (awf m \<and> (\<forall>e\<in>set m. pv_wf (snd e)))"
| "pv_wf v = True"

fun pv_nan_free :: "proto_value \<Rightarrow> bool" where
  "pv_nan_free (PDouble d) = (\<not> dbl_is_nan d)"
| "pv_nan_free (PList l) = (\<forall>v\<in>set l. pv_nan_free v)"
| "pv_nan_free (PStruct m) = (\<forall>e\<in>set m. pv_nan_free (snd e))"
| "pv_nan_free v = True"

definition ps_wf :: "proto_struct \<Rightarrow> bool" where
  "ps_wf m \<longleftrightarrow> pv_wf (PStruct m)"

subsection \<open>The protobuf side\<close>

datatype pb_value =
    KindNotSet
  | NullValue
  | NumberValue double
  | StringValue string
  | BoolValue bool
  | StructValue "(string \<times> pb_value) list"
  | ListValue "pb_value list"

type_synonym pb_struct = "(string \<times> pb_value) list"

text \<open>\<^verbatim>\<open>insert\<close> on the field map and \<^verbatim>\<open>emplace\<close> on the unordered map keep a present entry.\<close>

definition insert_all :: "('k \<times> 'v) list \<Rightarrow> ('k \<times> 'v) list" where
  "insert_all es = foldl (\<lambda>m e. emplace (fst e) (snd e) m) [] es"

fun pv_to_value :: "proto_value \<Rightarrow> pb_value" where
  "pv_to_value PNull = NullValue"
| "pv_to_value (PBool b) = BoolValue b"
| "pv_to_value (PDouble d) = NumberValue d"
| "pv_to_value (PString s) = StringValue s"
| "pv_to_value (PList l) = ListValue (map pv_to_value l)"
| "pv_to_value (PStruct m) = StructValue (insert_all (map (\<lambda>e. (fst e, pv_to_value (snd e))) m))"

definition struct_to_proto :: "proto_struct \<Rightarrow> pb_struct" where
  "struct_to_proto m = insert_all (map (\<lambda>e. (fst e, pv_to_value (snd e))) m)"

fun pv_from_value :: "pb_value \<Rightarrow> proto_value" where
  "pv_from_value (BoolValue b) = PBool b"
| "pv_from_value (StringValue s) = PString s"
| "pv_from_value (NumberValue d) = PDouble d"
| "pv_from_value (ListValue l) = PList (map pv_from_value l)"
| "pv_from_value (StructValue m) =
     PStruct (insert_all (map (\<lambda>e. (fst e, pv_from_value (snd e))) m))"
| "pv_from_value KindNotSet = PNull"
| "pv_from_value NullValue = PNull"

definition struct_from_proto :: "pb_struct \<Rightarrow> proto_struct" where
  "struct_from_proto m = insert_all (map (\<lambda>e. (fst e, pv_from_value (snd e))) m)"

subsection \<open>Lemmas: equality\<close>

lemma insert_all_distinct: "awf m \<Longrightarrow> insert_all m = m"
  using foldl_emplace_id[of "[]" m] by (simp add: insert_all_def)

lemma akeys_map_snd [simp]: "akeys (map (\<lambda>e. (fst e, f (snd e))) m) = akeys m"
  by (simp add: akeys_def)

lemma awf_foldl_emplace: "awf acc \<Longrightarrow> awf (foldl (\<lambda>m e. emplace (fst e) (snd e) m) acc es)"
  by (induction es arbitrary: acc) auto

lemma awf_insert_all [simp]: "awf (insert_all es)"
  by (simp add: insert_all_def awf_foldl_emplace)

lemma set_foldl_emplace: "set (foldl (\<lambda>m e. emplace (fst e) (snd e) m) acc es) \<subseteq> set acc \<union> set es"
proof (induction es arbitrary: acc)
  case (Cons e es)
  have "set (emplace (fst e) (snd e) acc) \<subseteq> set acc \<union> {e}" by (auto simp: emplace_def)
  with Cons.IH[of "emplace (fst e) (snd e) acc"] show ?case by auto
qed simp

lemma set_insert_all: "set (insert_all es) \<subseteq> set es"
  using set_foldl_emplace[of "[]" es] by (simp add: insert_all_def)

lemma pv_list_eq_iff: "pv_list_eq xs ys \<longleftrightarrow> list_all2 pv_eq xs ys"
proof (induction xs arbitrary: ys)
  case (Cons x xs)
  then show ?case by (cases ys) auto
qed auto

lemma pv_entries_in_iff:
  "pv_entries_in m n \<longleftrightarrow> (\<forall>e\<in>set m. \<exists>w. map_of n (fst e) = Some w \<and> pv_eq (snd e) w)"
  by (induction m) (auto split: option.splits)

lemma pv_eq_kind: "pv_eq v w \<Longrightarrow> pv_kind v = pv_kind w"
  by (cases v; cases w) auto

lemma map_of_distinct: "awf m \<Longrightarrow> e \<in> set m \<Longrightarrow> map_of m (fst e) = Some (snd e)"
  by (cases e) (auto simp: akeys_def)

lemma map_of_mem: "map_of m k = Some v \<Longrightarrow> (k, v) \<in> set m"
  by (rule map_of_SomeD)

lemma pv_eq_refl_iff: "pv_wf v \<Longrightarrow> pv_eq v v \<longleftrightarrow> pv_nan_free v"
proof (induction v)
  case (PList l)
  then show ?case by (auto simp: pv_list_eq_iff list_all2_same)
next
  case (PStruct m)
  have IH: "pv_eq (snd e) (snd e) \<longleftrightarrow> pv_nan_free (snd e)" if "e \<in> set m" for e
    using PStruct.IH[of e "snd e"] PStruct.prems that by (auto intro: snds.intros)
  have "pv_eq (PStruct m) (PStruct m) \<longleftrightarrow> (\<forall>e\<in>set m. pv_eq (snd e) (snd e))"
    using PStruct.prems by (auto simp: pv_entries_in_iff map_of_distinct)
  with IH show ?case by simp
qed auto

text \<open>The keys of two maps of one size, one inside the other, are the same.\<close>

lemma same_keys:
  assumes "awf m" "awf n" "length m = length n" "\<forall>e\<in>set m. fst e \<in> set (akeys n)"
  shows "set (akeys m) = set (akeys n)"
proof -
  have "set (akeys m) \<subseteq> set (akeys n)" using assms(4) by (auto simp: akeys_def)
  moreover have "card (set (akeys m)) = card (set (akeys n))"
    using assms(1-3) by (simp add: distinct_card) (simp add: akeys_def)
  ultimately show ?thesis by (simp add: card_subset_eq)
qed

lemma pv_entries_sym:
  assumes eq: "\<And>e w. e \<in> set m \<Longrightarrow> pv_wf w \<Longrightarrow> pv_eq (snd e) w \<Longrightarrow> pv_eq w (snd e)"
    and wf: "awf m" "awf n" "\<forall>e\<in>set n. pv_wf (snd e)"
    and len: "length m = length n" and sub: "pv_entries_in m n"
  shows "pv_entries_in n m"
  unfolding pv_entries_in_iff
proof
  fix e assume e: "e \<in> set n"
  have all: "\<forall>x\<in>set m. \<exists>w. map_of n (fst x) = Some w \<and> pv_eq (snd x) w"
    using sub by (simp add: pv_entries_in_iff)
  have keys: "set (akeys m) = set (akeys n)"
  proof (rule same_keys[OF wf(1,2) len], rule ballI)
    fix x assume "x \<in> set m"
    with all show "fst x \<in> set (akeys n)" by (blast intro: map_of_in_akeys)
  qed
  have "fst e \<in> set (akeys m)" using e keys by (auto simp: akeys_def)
  then obtain v where v: "map_of m (fst e) = Some v" using in_akeys_map_of by metis
  then have mem: "(fst e, v) \<in> set m" by (rule map_of_mem)
  with all obtain w where w: "map_of n (fst e) = Some w" "pv_eq v w" by fastforce
  have "w = snd e" using w(1) map_of_distinct[OF wf(2) e] by simp
  with w(2) mem wf(3) e eq[of "(fst e, v)" w] have "pv_eq (snd e) v" by auto
  with v show "\<exists>u. map_of m (fst e) = Some u \<and> pv_eq (snd e) u" by blast
qed

lemma pv_eq_sym_imp: "pv_wf v \<Longrightarrow> pv_wf w \<Longrightarrow> pv_eq v w \<Longrightarrow> pv_eq w v"
proof (induction v arbitrary: w)
  case (PList l)
  then obtain k where k: "w = PList k" "list_all2 pv_eq l k"
    by (cases w) (auto simp: pv_list_eq_iff)
  have "list_all2 pv_eq k l"
    using k(2) PList.IH PList.prems(1,2) unfolding k(1) list_all2_conv_all_nth by auto
  with k(1) show ?case by (simp add: pv_list_eq_iff)
next
  case (PStruct m)
  then obtain n where n: "w = PStruct n" "length m = length n" "pv_entries_in m n"
    by (cases w) auto
  have "pv_entries_in n m"
  proof (rule pv_entries_sym[OF _ _ _ _ n(2,3)])
    fix e u assume "e \<in> set m" "pv_wf u" "pv_eq (snd e) u"
    then show "pv_eq u (snd e)"
      using PStruct.IH[of e "snd e" u] PStruct.prems(1) by (auto intro: snds.intros)
  qed (use PStruct.prems n(1) in auto)
  with n show ?case by simp
qed (auto simp: dbl_eq_sym split: proto_value.splits)

lemma pv_eq_reorder:
  assumes "pv_wf (PStruct m)" "pv_nan_free (PStruct m)" "awf n" "set n = set m"
  shows "pv_eq (PStruct m) (PStruct n)"
proof -
  have "length m = card (set m)" "length n = card (set n)"
    using assms(1,3) by (auto simp: akeys_def distinct_map distinct_card)
  then have len: "length m = length n" using assms(4) by simp
  have "\<exists>w. map_of n (fst e) = Some w \<and> pv_eq (snd e) w" if e: "e \<in> set m" for e
  proof -
    have "map_of n (fst e) = Some (snd e)" using e assms(3,4) by (simp add: map_of_distinct)
    moreover have "pv_eq (snd e) (snd e)"
      using e assms(1,2) by (subst pv_eq_refl_iff) auto
    ultimately show ?thesis by blast
  qed
  with len show ?thesis by (simp add: pv_entries_in_iff)
qed

subsection \<open>Lemmas: conversions\<close>

lemma map_from_to_entries:
  assumes "awf m" and "\<And>e. e \<in> set m \<Longrightarrow> g (f (snd e)) = snd e"
  shows "insert_all (map (\<lambda>e. (fst e, g (snd e))) (insert_all (map (\<lambda>e. (fst e, f (snd e))) m))) = m"
proof -
  have "insert_all (map (\<lambda>e. (fst e, f (snd e))) m) = map (\<lambda>e. (fst e, f (snd e))) m"
    using assms(1) by (intro insert_all_distinct) simp
  moreover have "map (\<lambda>e. (fst e, g (snd e))) (map (\<lambda>e. (fst e, f (snd e))) m) = m"
    using assms(2) by (induction m) auto
  ultimately show ?thesis using assms(1) by (simp add: insert_all_distinct)
qed

lemma pv_from_to_value: "pv_wf v \<Longrightarrow> pv_from_value (pv_to_value v) = v"
proof (induction v)
  case (PList l)
  then show ?case by (auto simp: map_idI)
next
  case (PStruct m)
  have "pv_from_value (pv_to_value (snd e)) = snd e" if "e \<in> set m" for e
    using PStruct.IH[of e "snd e"] PStruct.prems that by (auto intro: snds.intros)
  then show ?case using PStruct.prems map_from_to_entries[of m pv_from_value pv_to_value] by simp
qed auto

lemma pv_from_value_wf: "pv_wf (pv_from_value p)"
proof (induction p)
  case (StructValue m)
  have "\<forall>e\<in>set (insert_all (map (\<lambda>e. (fst e, pv_from_value (snd e))) m)). pv_wf (snd e)"
  proof
    fix e assume "e \<in> set (insert_all (map (\<lambda>e. (fst e, pv_from_value (snd e))) m))"
    then have "e \<in> set (map (\<lambda>e. (fst e, pv_from_value (snd e))) m)" using set_insert_all by blast
    then obtain x where "x \<in> set m" "e = (fst x, pv_from_value (snd x))" by auto
    then show "pv_wf (snd e)" using StructValue.IH[of x "snd x"] by (auto intro: snds.intros)
  qed
  then show ?case by simp
qed auto

interpretation value_codec: proto_codec pv_to_value "\<lambda>p. Inr (pv_from_value p)" pv_wf
  by unfold_locales (simp add: pv_from_to_value)

lemma struct_from_to: "ps_wf m \<Longrightarrow> struct_from_proto (struct_to_proto m) = m"
proof -
  assume wf: "ps_wf m"
  have "pv_from_value (pv_to_value (snd e)) = snd e" if "e \<in> set m" for e
    using wf that by (intro pv_from_to_value) (auto simp: ps_wf_def)
  with wf show ?thesis
    unfolding struct_from_proto_def struct_to_proto_def
    by (intro map_from_to_entries) (auto simp: ps_wf_def)
qed

interpretation struct_codec: proto_codec struct_to_proto "\<lambda>p. Inr (struct_from_proto p)" ps_wf
  by unfold_locales (simp add: struct_from_to)

lemma struct_from_proto_wf: "ps_wf (struct_from_proto p)"
  using pv_from_value_wf[of "StructValue p"] by (simp add: ps_wf_def struct_from_proto_def)

lemma ps_wf_Nil [simp]: "ps_wf []"
  by (simp add: ps_wf_def)

lemma kind_value_inj: "kind_value a = kind_value b \<longleftrightarrow> a = b"
  by (cases a; cases b) auto

lemma get_is_a:
  "get_bool v \<noteq> None \<longleftrightarrow> is_a K_bool v" "get_double v \<noteq> None \<longleftrightarrow> is_a K_double v"
  "get_string v \<noteq> None \<longleftrightarrow> is_a K_string v" "get_list v \<noteq> None \<longleftrightarrow> is_a K_list v"
  "get_struct v \<noteq> None \<longleftrightarrow> is_a K_struct v"
  by (cases v; simp add: is_a_def)+

end
