(* ===== verification/ProtoStorage.thy ===== *)
theory ProtoStorage
  imports ProtoValues
begin

text \<open>
  The hand-written vtable and aligned storage of \<^verbatim>\<open>ProtoValue\<close> (\<^verbatim>\<open>common/proto_value.cpp\<close>):
  object lifetimes inside raw buffers. A buffer is raw, holds a live object, or holds an object that
  was moved from (alive, contents unspecified). Every vtable operation is undefined (\<open>None\<close>) when
  it destroys or reads a buffer that holds no object of its type, or constructs over a live one.
\<close>

datatype slot = Raw | Live proto_value | Moved kind

record pv_mem =
  vtab :: "nat \<Rightarrow> kind"
  buf :: "nat \<Rightarrow> slot"

fun slot_kind :: "slot \<Rightarrow> kind option" where
  "slot_kind Raw = None"
| "slot_kind (Live v) = Some (pv_kind v)"
| "slot_kind (Moved k) = Some k"

subsection \<open>The vtable entries\<close>

definition vt_dtor :: "kind \<Rightarrow> nat \<Rightarrow> pv_mem \<Rightarrow> pv_mem option" where
  "vt_dtor k self s =
     (if slot_kind (buf s self) = Some k then Some (s\<lparr>buf := (buf s)(self := Raw)\<rparr>) else None)"

definition vt_copy :: "kind \<Rightarrow> nat \<Rightarrow> nat \<Rightarrow> pv_mem \<Rightarrow> pv_mem option" where
  "vt_copy k self dest s =
     (if slot_kind (buf s self) = Some k \<and> buf s dest = Raw
      then Some (s\<lparr>buf := (buf s)(dest := buf s self)\<rparr>) else None)"

definition vt_move :: "kind \<Rightarrow> nat \<Rightarrow> nat \<Rightarrow> pv_mem \<Rightarrow> pv_mem option" where
  "vt_move k self dest s =
     (if slot_kind (buf s self) = Some k \<and> buf s dest = Raw
      then Some (s\<lparr>buf := (buf s)(dest := buf s self, self := Moved k)\<rparr>) else None)"

subsection \<open>\<^verbatim>\<open>storage::swap\<close>\<close>

definition storage_swap :: "kind \<Rightarrow> nat \<Rightarrow> kind \<Rightarrow> nat \<Rightarrow> nat \<Rightarrow> pv_mem \<Rightarrow> pv_mem option" where
  "storage_swap this_vt this other_vt other tmp s =
     (if this = other then Some s
      else Option.bind (vt_move other_vt other tmp s) (\<lambda>s.
           Option.bind (vt_dtor other_vt other s) (\<lambda>s.
           Option.bind (vt_move this_vt this other s) (\<lambda>s.
           Option.bind (vt_dtor this_vt this s) (\<lambda>s.
           Option.bind (vt_move other_vt tmp this s) (\<lambda>s.
           vt_dtor other_vt tmp s))))))"

subsection \<open>Special member functions\<close>

definition pv_construct :: "nat \<Rightarrow> proto_value \<Rightarrow> pv_mem \<Rightarrow> pv_mem option" where
  "pv_construct a v s =
     (if buf s a = Raw
      then Some (s\<lparr>vtab := (vtab s)(a := pv_kind v), buf := (buf s)(a := Live v)\<rparr>) else None)"

definition pv_move_ctor :: "nat \<Rightarrow> nat \<Rightarrow> pv_mem \<Rightarrow> pv_mem option" where
  "pv_move_ctor this other s =
     (let s = s\<lparr>vtab := (vtab s)(this := vtab s other)\<rparr>
      in vt_move (vtab s this) other this s)"

definition pv_copy_ctor :: "nat \<Rightarrow> nat \<Rightarrow> pv_mem \<Rightarrow> pv_mem option" where
  "pv_copy_ctor this other s =
     (let s = s\<lparr>vtab := (vtab s)(this := vtab s other)\<rparr>
      in vt_copy (vtab s other) other this s)"

definition pv_dtor :: "nat \<Rightarrow> pv_mem \<Rightarrow> pv_mem option" where
  "pv_dtor this s = vt_dtor (vtab s this) this s"

definition pv_swap :: "nat \<Rightarrow> nat \<Rightarrow> nat \<Rightarrow> pv_mem \<Rightarrow> pv_mem option" where
  "pv_swap this other tmp s =
     map_option (\<lambda>s. s\<lparr>vtab := (vtab s)(this := vtab s other, other := vtab s this)\<rparr>)
       (storage_swap (vtab s this) this (vtab s other) other tmp s)"

text \<open>Assignment: construct a temporary \<open>t\<close> from the right-hand side, swap it with \<open>this\<close>, and
  let the temporary's destructor release the old contents.\<close>

definition pv_move_assign :: "nat \<Rightarrow> nat \<Rightarrow> nat \<Rightarrow> nat \<Rightarrow> pv_mem \<Rightarrow> pv_mem option" where
  "pv_move_assign this other t tmp s =
     Option.bind (pv_move_ctor t other s) (\<lambda>s. Option.bind (pv_swap t this tmp s) (pv_dtor t))"

definition pv_copy_assign :: "nat \<Rightarrow> nat \<Rightarrow> nat \<Rightarrow> nat \<Rightarrow> pv_mem \<Rightarrow> pv_mem option" where
  "pv_copy_assign this other t tmp s =
     Option.bind (pv_copy_ctor t other s) (\<lambda>s. Option.bind (pv_swap t this tmp s) (pv_dtor t))"

text \<open>An object is well formed when its vtable matches what its buffer holds.\<close>

definition pv_alive :: "pv_mem \<Rightarrow> nat \<Rightarrow> bool" where
  "pv_alive s a \<longleftrightarrow> slot_kind (buf s a) = Some (vtab s a)"

subsection \<open>Lemmas\<close>

lemma pv_aliveD: "pv_alive s a \<Longrightarrow> slot_kind (buf s a) = Some (vtab s a)"
  by (simp add: pv_alive_def)

lemma vt_move_alive:
  "pv_alive s a \<Longrightarrow> buf s d = Raw \<Longrightarrow>
   vt_move (vtab s a) a d s = Some (s\<lparr>buf := (buf s)(d := buf s a, a := Moved (vtab s a))\<rparr>)"
  by (simp add: vt_move_def pv_alive_def)

lemma storage_swap_eq:
  assumes "slot_kind (buf s a) = Some ka" "slot_kind (buf s b) = Some kb" "buf s tmp = Raw" "a \<noteq> b"
  shows "storage_swap ka a kb b tmp s = Some (s\<lparr>buf := (buf s)(a := buf s b, b := buf s a)\<rparr>)"
proof -
  have "tmp \<noteq> a" "tmp \<noteq> b" using assms by auto
  with assms have "(buf s)(tmp := buf s b, b := Moved kb, b := Raw, b := buf s a, a := Moved ka,
      a := Raw, a := buf s b, tmp := Moved kb, tmp := Raw) = (buf s)(a := buf s b, b := buf s a)"
    by (auto simp: fun_eq_iff)
  then show ?thesis
    using assms \<open>tmp \<noteq> a\<close> \<open>tmp \<noteq> b\<close>
    by (simp add: storage_swap_def vt_move_def vt_dtor_def fun_upd_twist)
qed

lemma pv_swap_eq:
  assumes "pv_alive s a" "pv_alive s b" "buf s tmp = Raw" "a \<noteq> b"
  shows "pv_swap a b tmp s =
    Some (s\<lparr>buf := (buf s)(a := buf s b, b := buf s a),
            vtab := (vtab s)(a := vtab s b, b := vtab s a)\<rparr>)"
  using storage_swap_eq[OF assms(1,2)[THEN pv_aliveD] assms(3,4)] by (simp add: pv_swap_def)

text \<open>One lemma for both assignments: what the swap and the destruction do, given that the
  temporary was constructed.\<close>

lemma assign_tail:
  assumes "pv_alive s t" "pv_alive s a" "buf s tmp = Raw" "t \<noteq> a"
  shows "Option.bind (pv_swap t a tmp s) (pv_dtor t) =
    Some (s\<lparr>buf := (buf s)(a := buf s t, t := Raw), vtab := (vtab s)(t := vtab s a, a := vtab s t)\<rparr>)"
proof -
  have "slot_kind (buf s a) = Some (vtab s a)" using assms(2) by (rule pv_aliveD)
  then show ?thesis
    using assms(4) by (simp add: pv_swap_eq[OF assms] pv_dtor_def vt_dtor_def fun_upd_twist)
qed

lemma pv_move_assign_eq:
  assumes "pv_alive s a" "pv_alive s b" "buf s t = Raw" "buf s tmp = Raw" "t \<noteq> tmp"
  shows "pv_move_assign a b t tmp s =
    Some (s\<lparr>buf := (buf s)(b := Moved (vtab s b), a := buf s b),
            vtab := (vtab s)(t := vtab s a, a := vtab s b)\<rparr>)"
proof -
  have ne: "t \<noteq> a" "t \<noteq> b" "tmp \<noteq> a" "tmp \<noteq> b" using assms by (auto simp: pv_alive_def)
  define s1 where "s1 = s\<lparr>vtab := (vtab s)(t := vtab s b),
     buf := (buf s)(t := buf s b, b := Moved (vtab s b))\<rparr>"
  have mc: "pv_move_ctor t b s = Some s1"
    using assms ne by (simp add: pv_move_ctor_def vt_move_def pv_alive_def s1_def)
  have "pv_alive s1 t" "pv_alive s1 a" "buf s1 tmp = Raw"
    using assms ne by (auto simp: pv_alive_def s1_def)
  from assign_tail[OF this ne(1)] show ?thesis
    using ne assms(3) unfolding pv_move_assign_def mc
    by (auto simp: s1_def fun_eq_iff)
qed

lemma pv_copy_assign_eq:
  assumes "pv_alive s a" "pv_alive s b" "buf s t = Raw" "buf s tmp = Raw" "t \<noteq> tmp"
  shows "pv_copy_assign a b t tmp s =
    Some (s\<lparr>buf := (buf s)(a := buf s b), vtab := (vtab s)(t := vtab s a, a := vtab s b)\<rparr>)"
proof -
  have ne: "t \<noteq> a" "t \<noteq> b" "tmp \<noteq> a" "tmp \<noteq> b" using assms by (auto simp: pv_alive_def)
  define s1 where "s1 = s\<lparr>vtab := (vtab s)(t := vtab s b), buf := (buf s)(t := buf s b)\<rparr>"
  have mc: "pv_copy_ctor t b s = Some s1"
    using assms ne by (simp add: pv_copy_ctor_def vt_copy_def pv_alive_def s1_def)
  have "pv_alive s1 t" "pv_alive s1 a" "buf s1 tmp = Raw"
    using assms ne by (auto simp: pv_alive_def s1_def)
  from assign_tail[OF this ne(1)] show ?thesis
    using ne assms(3) unfolding pv_copy_assign_def mc
    by (auto simp: s1_def fun_eq_iff)
qed

end
