(* ===== verification/Effects.thy ===== *)
theory Effects
  imports Errors
begin

text \<open>
  Statements that read and write a component's state and may throw. State written before a throw
  stays written, as in C++; a handler only sees exceptions derived from \<^verbatim>\<open>std::exception\<close>.
\<close>

type_synonym ('s, 'a) stm = "'s \<Rightarrow> 'a res \<times> 's"

definition st_return :: "'a \<Rightarrow> ('s, 'a) stm" where
  "st_return a s = (Inr a, s)"

definition st_throw :: "exn \<Rightarrow> ('s, 'a) stm" where
  "st_throw e s = (Inl e, s)"

definition st_lift :: "'a res \<Rightarrow> ('s, 'a) stm" where
  "st_lift r s = (r, s)"

definition st_bind :: "('s, 'a) stm \<Rightarrow> ('a \<Rightarrow> ('s, 'b) stm) \<Rightarrow> ('s, 'b) stm" where
  "st_bind m f s = (case m s of (Inl e, s') \<Rightarrow> (Inl e, s') | (Inr a, s') \<Rightarrow> f a s')"

definition st_get :: "('s \<Rightarrow> 'a) \<Rightarrow> ('s, 'a) stm" where
  "st_get f s = (Inr (f s), s)"

definition st_modify :: "('s \<Rightarrow> 's) \<Rightarrow> ('s, unit) stm" where
  "st_modify f s = (Inr (), f s)"

definition st_try :: "('s, 'a) stm \<Rightarrow> (exn \<Rightarrow> ('s, 'a) stm) \<Rightarrow> ('s, 'a) stm" where
  "st_try m h s =
     (case m s of
        (Inl e, s') \<Rightarrow> (if is_std_exception e then h e s' else (Inl e, s'))
      | (Inr a, s') \<Rightarrow> (Inr a, s'))"

text \<open>A loop over a list that stops at the first throw.\<close>

fun st_for :: "'a list \<Rightarrow> ('a \<Rightarrow> ('s, unit) stm) \<Rightarrow> ('s, unit) stm" where
  "st_for [] f = st_return ()"
| "st_for (x # xs) f = st_bind (f x) (\<lambda>_. st_for xs f)"

lemmas st_defs =
  st_return_def st_throw_def st_lift_def st_get_def st_modify_def

lemma st_bind_Inr [simp]: "m s = (Inr a, s') \<Longrightarrow> st_bind m f s = f a s'"
  by (simp add: st_bind_def)

lemma st_bind_Inl [simp]: "m s = (Inl e, s') \<Longrightarrow> st_bind m f s = (Inl e, s')"
  by (simp add: st_bind_def)

lemma st_bind_cases:
  assumes "st_bind m f s = (r, t)"
  obtains e where "m s = (Inl e, t)" "r = Inl e"
  | a s' where "m s = (Inr a, s')" "f a s' = (r, t)"
  using assms by (cases "m s") (auto simp: st_bind_def split: sum.splits)

text \<open>
  Preservation: a statement keeps a predicate on the state whether or not it throws. The rules
  go through the combinators, so a handler is done once its steps are.
\<close>

definition keeps :: "('s \<Rightarrow> bool) \<Rightarrow> ('s, 'a) stm \<Rightarrow> bool" where
  "keeps I m \<longleftrightarrow> (\<forall>s. I s \<longrightarrow> I (snd (m s)))"

named_theorems keeps_rules "preservation through the statement combinators"

lemma keepsD: "keeps I m \<Longrightarrow> I s \<Longrightarrow> m s = (r, t) \<Longrightarrow> I t"
  by (metis keeps_def snd_conv)

lemma keeps_return [keeps_rules]: "keeps I (st_return a)"
  by (simp add: keeps_def st_return_def)

lemma keeps_throw [keeps_rules]: "keeps I (st_throw e)"
  by (simp add: keeps_def st_throw_def)

lemma keeps_lift [keeps_rules]: "keeps I (st_lift r)"
  by (simp add: keeps_def st_lift_def)

lemma keeps_get [keeps_rules]: "keeps I (st_get f)"
  by (simp add: keeps_def st_get_def)

lemma keeps_modify [keeps_rules]: "(\<And>s. I s \<Longrightarrow> I (f s)) \<Longrightarrow> keeps I (st_modify f)"
  by (simp add: keeps_def st_modify_def)

lemma keeps_bind [keeps_rules]:
  "keeps I m \<Longrightarrow> (\<And>a. keeps I (f a)) \<Longrightarrow> keeps I (st_bind m f)"
  by (auto simp: keeps_def st_bind_def split: prod.splits sum.splits)

lemma keeps_try [keeps_rules]:
  "keeps I m \<Longrightarrow> (\<And>e. keeps I (h e)) \<Longrightarrow> keeps I (st_try m h)"
  by (auto simp: keeps_def st_try_def split: prod.splits sum.splits)

lemma keeps_for [keeps_rules]: "(\<And>x. x \<in> set xs \<Longrightarrow> keeps I (f x)) \<Longrightarrow> keeps I (st_for xs f)"
  by (induction xs) (auto intro!: keeps_return keeps_bind)

lemma keeps_if [keeps_rules]: "(b \<Longrightarrow> keeps I m) \<Longrightarrow> (\<not> b \<Longrightarrow> keeps I n) \<Longrightarrow> keeps I (if b then m else n)"
  by simp

lemma keeps_option [keeps_rules]:
  "(o' = None \<Longrightarrow> keeps I m) \<Longrightarrow> (\<And>x. o' = Some x \<Longrightarrow> keeps I (f x)) \<Longrightarrow>
   keeps I (case o' of None \<Rightarrow> m | Some x \<Rightarrow> f x)"
  by (cases o') simp_all

end
