(* ===== verification/Regexp.thy ===== *)
theory Regexp
  imports Prelude
begin

text \<open>
  The fragment of ECMAScript regular expressions that \<^verbatim>\<open>std::regex_match\<close> is used with:
  character classes, sequence, alternative, star. \<open>rmatches\<close> says which strings an expression
  matches as a whole; \<open>rmatch\<close> is an executable matcher by derivatives, proved equal to it.
\<close>

datatype rx =
    REmpty
  | REps
  | RChar "char \<Rightarrow> bool"
  | RSeq rx rx
  | RAlt rx rx
  | RStar rx

abbreviation rplus :: "rx \<Rightarrow> rx" where
  "rplus r \<equiv> RSeq r (RStar r)"

abbreviation ropt :: "rx \<Rightarrow> rx" where
  "ropt r \<equiv> RAlt r REps"

abbreviation rlit :: "char \<Rightarrow> rx" where
  "rlit c \<equiv> RChar (\<lambda>x. x = c)"

inductive rmatches :: "rx \<Rightarrow> string \<Rightarrow> bool" where
  rm_eps: "rmatches REps []"
| rm_char: "P c \<Longrightarrow> rmatches (RChar P) [c]"
| rm_seq: "rmatches r s \<Longrightarrow> rmatches q t \<Longrightarrow> rmatches (RSeq r q) (s @ t)"
| rm_altl: "rmatches r s \<Longrightarrow> rmatches (RAlt r q) s"
| rm_altr: "rmatches q s \<Longrightarrow> rmatches (RAlt r q) s"
| rm_nil: "rmatches (RStar r) []"
| rm_step: "rmatches r s \<Longrightarrow> rmatches (RStar r) t \<Longrightarrow> rmatches (RStar r) (s @ t)"

inductive_simps rmatches_empty [simp]: "rmatches REmpty s"
inductive_simps rmatches_eps [simp]: "rmatches REps s"
inductive_simps rmatches_char: "rmatches (RChar P) s"
inductive_simps rmatches_seq: "rmatches (RSeq r q) s"
inductive_simps rmatches_alt: "rmatches (RAlt r q) s"
inductive_cases rmatches_starE: "rmatches (RStar r) s"

fun nullable :: "rx \<Rightarrow> bool" where
  "nullable REmpty = False"
| "nullable REps = True"
| "nullable (RChar P) = False"
| "nullable (RSeq r q) = (nullable r \<and> nullable q)"
| "nullable (RAlt r q) = (nullable r \<or> nullable q)"
| "nullable (RStar r) = True"

fun rderiv :: "char \<Rightarrow> rx \<Rightarrow> rx" where
  "rderiv c REmpty = REmpty"
| "rderiv c REps = REmpty"
| "rderiv c (RChar P) = (if P c then REps else REmpty)"
| "rderiv c (RSeq r q) =
     (if nullable r then RAlt (RSeq (rderiv c r) q) (rderiv c q) else RSeq (rderiv c r) q)"
| "rderiv c (RAlt r q) = RAlt (rderiv c r) (rderiv c q)"
| "rderiv c (RStar r) = RSeq (rderiv c r) (RStar r)"

fun rmatch :: "rx \<Rightarrow> string \<Rightarrow> bool" where
  "rmatch r [] = nullable r"
| "rmatch r (c # s) = rmatch (rderiv c r) s"

lemma nullable_iff: "nullable r \<longleftrightarrow> rmatches r []"
  by (induction r) (auto simp: rmatches_char rmatches_seq rmatches_alt intro: rmatches.intros)

lemma star_Cons: "rmatches (RStar r) (c # s) \<longleftrightarrow>
   (\<exists>u v. s = u @ v \<and> rmatches r (c # u) \<and> rmatches (RStar r) v)"
proof
  have "rmatches q w \<Longrightarrow> q = RStar r \<Longrightarrow> w = c # s \<Longrightarrow>
    \<exists>u v. s = u @ v \<and> rmatches r (c # u) \<and> rmatches (RStar r) v" for q w
  proof (induction q w arbitrary: s rule: rmatches.induct)
    case (rm_step r' x y)
    then show ?case by (cases x) auto
  qed auto
  then show "rmatches (RStar r) (c # s) \<Longrightarrow>
    \<exists>u v. s = u @ v \<and> rmatches r (c # u) \<and> rmatches (RStar r) v" by blast
next
  assume "\<exists>u v. s = u @ v \<and> rmatches r (c # u) \<and> rmatches (RStar r) v"
  then obtain u v where "s = u @ v" "rmatches r (c # u)" "rmatches (RStar r) v" by blast
  then show "rmatches (RStar r) (c # s)" using rm_step[of r "c # u" v] by simp
qed

lemma rderiv_iff: "rmatches (rderiv c r) s \<longleftrightarrow> rmatches r (c # s)"
proof (induction r arbitrary: s)
  case (RSeq r q)
  have "rmatches (RSeq r q) (c # s) \<longleftrightarrow>
     (rmatches r [] \<and> rmatches q (c # s)) \<or> (\<exists>u v. s = u @ v \<and> rmatches r (c # u) \<and> rmatches q v)"
    by (auto simp: rmatches_seq Cons_eq_append_conv)
  then show ?case
    using RSeq.IH by (auto simp: rmatches_seq rmatches_alt nullable_iff)
next
  case (RStar r)
  then show ?case by (auto simp: rmatches_seq star_Cons)
qed (auto simp: rmatches_char rmatches_alt)

lemma rmatch_iff: "rmatch r s \<longleftrightarrow> rmatches r s"
  by (induction s arbitrary: r) (auto simp: nullable_iff rderiv_iff)

subsection \<open>Characterisations used by the patterns of the program\<close>

lemma rmatches_star_char: "rmatches (RStar (RChar P)) s \<longleftrightarrow> list_all P s"
proof (induction s)
  case Nil
  show ?case by (auto intro: rm_nil)
next
  case (Cons c s)
  then show ?case by (auto simp: star_Cons rmatches_char)
qed

lemma rmatches_plus_char: "rmatches (rplus (RChar P)) s \<longleftrightarrow> s \<noteq> [] \<and> list_all P s"
proof -
  have "rmatches (rplus (RChar P)) s \<longleftrightarrow> (\<exists>c t. s = [c] @ t \<and> P c \<and> list_all P t)"
    unfolding rmatches_seq rmatches_char rmatches_star_char by blast
  then show ?thesis by (cases s) auto
qed

lemma rmatches_opt: "rmatches (ropt r) s \<longleftrightarrow> s = [] \<or> rmatches r s"
  by (auto simp: rmatches_alt)

lemma rmatches_lit_seq: "rmatches (RSeq (rlit c) r) s \<longleftrightarrow> (\<exists>t. s = c # t \<and> rmatches r t)"
  by (auto simp: rmatches_seq rmatches_char)

end
