(* ===== verification/Names.thy ===== *)
theory Names
  imports Errors Regexp
begin

text \<open>
  \<^verbatim>\<open>resource/resource_api.cpp\<close> and the name helper of \<^verbatim>\<open>common/utils.cpp\<close>: APIs
  (\<^verbatim>\<open>namespace:type:subtype\<close>), resource names, models, their parsers (regular expressions and
  \<^verbatim>\<open>boost::split\<close>), printers, comparison operators, and the \<^verbatim>\<open>ResourceName\<close> message.
\<close>

definition k_component :: string where "k_component = ''component''"
definition k_resource :: string where "k_resource = ''resource''"
definition k_service :: string where "k_service = ''service''"
definition k_rdk :: string where "k_rdk = ''rdk''"
definition k_rdk_internal :: string where "k_rdk_internal = ''rdk-internal''"
definition k_builtin :: string where "k_builtin = ''builtin''"

abbreviation colon :: char where "colon \<equiv> CHR '':''"
abbreviation slash :: char where "slash \<equiv> CHR ''/''"

subsection \<open>Data\<close>

datatype api = API (type_namespace: string) (resource_type: string) (resource_subtype: string)

record res_name =
  nm_api :: api
  nm_remote :: string
  nm_name :: string

record rpc_subtype =
  rs_api :: api
  rs_service :: string

record model_family =
  mf_namespace :: string
  mf_family :: string

record model =
  md_family :: model_family
  md_name :: string

text \<open>\<^verbatim>\<open>operator<\<close> on APIs: \<^verbatim>\<open>std::tie\<close> compares the three fields lexicographically.\<close>

definition api_before :: "api \<Rightarrow> api \<Rightarrow> bool" where
  "api_before a b \<longleftrightarrow>
     type_namespace a < type_namespace b \<or>
     type_namespace a = type_namespace b \<and>
       (resource_type a < resource_type b \<or>
        resource_type a = resource_type b \<and> resource_subtype a < resource_subtype b)"

instantiation api :: linorder
begin

definition less_api :: "api \<Rightarrow> api \<Rightarrow> bool" where
  "less_api a b \<longleftrightarrow> api_before a b"

definition less_eq_api :: "api \<Rightarrow> api \<Rightarrow> bool" where
  "less_eq_api a b \<longleftrightarrow> a = b \<or> a < b"

instance
proof
  fix x y z :: api
  show "x < y \<longleftrightarrow> x \<le> y \<and> \<not> y \<le> x"
    by (cases x; cases y) (auto simp: api_before_def less_api_def less_eq_api_def)
  show "x \<le> x" by (simp add: less_eq_api_def)
  show "x \<le> y \<Longrightarrow> y \<le> z \<Longrightarrow> x \<le> z"
    by (cases x; cases y; cases z) (auto simp: api_before_def less_api_def less_eq_api_def)
  show "x \<le> y \<Longrightarrow> y \<le> x \<Longrightarrow> x = y"
    by (cases x; cases y) (auto simp: api_before_def less_api_def less_eq_api_def)
  show "x \<le> y \<or> y \<le> x"
    by (cases x; cases y) (auto simp: api_before_def less_api_def less_eq_api_def)
qed

end

subsection \<open>Patterns\<close>

definition word_char :: "char \<Rightarrow> bool" where
  "word_char c \<longleftrightarrow>
     (let n = (of_char c :: nat) in
      48 \<le> n \<and> n \<le> 57 \<or> 65 \<le> n \<and> n \<le> 90 \<or> 97 \<le> n \<and> n \<le> 122 \<or> n = 95 \<or> n = 45)"

definition dot_char :: "char \<Rightarrow> bool" where
  "dot_char c \<longleftrightarrow> (of_char c :: nat) \<noteq> 10 \<and> (of_char c :: nat) \<noteq> 13"

definition rword :: rx where
  "rword = rplus (RChar word_char)"

definition model_regex :: rx where
  "model_regex = RSeq rword (RSeq (rlit colon) (RSeq rword (RSeq (rlit colon) rword)))"

definition name_regex :: rx where
  "name_regex =
     RSeq model_regex
       (RSeq (ropt (rlit slash))
         (RSeq (ropt (RSeq rword (RSeq (rlit colon) (RStar (RSeq rword (rlit colon))))))
           (ropt (rplus (RChar dot_char)))))"

definition single_field_regex :: rx where
  "single_field_regex = rword"

subsection \<open>API\<close>

definition api_to_string :: "api \<Rightarrow> string" where
  "api_to_string a = type_namespace a @ [colon] @ resource_type a @ [colon] @ resource_subtype a"

definition api_from_string :: "string \<Rightarrow> api res" where
  "api_from_string s =
     (if rmatch model_regex s then
        let parts = split_on colon s in
        rbind (vec_at parts 0) (\<lambda>p0. rbind (vec_at parts 1) (\<lambda>p1. rbind (vec_at parts 2) (\<lambda>p2.
          Inr (API p0 p1 p2))))
      else Inl (general_exception (''string '' @ s @ '' is not a valid api name'')))"

definition is_service_type :: "api \<Rightarrow> bool" where
  "is_service_type a \<longleftrightarrow> resource_type a = ''service''"

definition is_component_type :: "api \<Rightarrow> bool" where
  "is_component_type a \<longleftrightarrow> resource_type a = ''component''"

subsection \<open>Name\<close>

definition mk_name :: "api \<Rightarrow> string \<Rightarrow> string \<Rightarrow> res_name" where
  "mk_name a r n = \<lparr>nm_api = a, nm_remote = r, nm_name = n\<rparr>"

definition name_to_string :: "res_name \<Rightarrow> string" where
  "name_to_string n =
     (if nm_remote n = [] \<or> nm_remote n = [colon]
      then api_to_string (nm_api n) @ [slash] @ nm_name n
      else api_to_string (nm_api n) @ [slash] @ nm_remote n @ [colon] @ nm_name n)"

definition short_name :: "res_name \<Rightarrow> string" where
  "short_name n =
     (if nm_remote n \<noteq> [] then nm_remote n @ [colon] @ nm_name n else nm_name n)"

definition name_from_string :: "string \<Rightarrow> res_name res" where
  "name_from_string s =
     (if \<not> rmatch name_regex s then
        Inl (general_exception (''Received invalid Name string: '' @ s))
      else
        let slash_splits = split_on slash s in
        rbind (vec_at slash_splits 0) (\<lambda>s0.
        rbind (api_from_string s0) (\<lambda>a.
        rbind (vec_at slash_splits 1) (\<lambda>s1.
        let colon_splits = split_on colon s1 in
        rbind (vec_at colon_splits 0) (\<lambda>c0.
          if 1 < length colon_splits
          then rbind (vec_at colon_splits 1) (\<lambda>c1. Inr (mk_name a c0 c1))
          else Inr (mk_name a [] c0))))))"

definition name_eq :: "res_name \<Rightarrow> res_name \<Rightarrow> bool" where
  "name_eq a b \<longleftrightarrow> name_to_string a = name_to_string b"

definition long_name_to_remote_and_short :: "string \<Rightarrow> string \<times> string" where
  "long_name_to_remote_and_short long_name =
     (let name_parts = split_on colon long_name; nm = last name_parts; rest = butlast name_parts
      in (if rest = [] then [] else foldl (\<lambda>a b. a @ [colon] @ b) (hd rest) (tl rest), nm))"

text \<open>\<^verbatim>\<open>Resource::get_resource_name(type)\<close> of \<^verbatim>\<open>resource/resource.cpp\<close>.\<close>

definition get_resource_name :: "api \<Rightarrow> string \<Rightarrow> string \<Rightarrow> res_name" where
  "get_resource_name a nm ty =
     (let parts = long_name_to_remote_and_short nm
      in mk_name (API (type_namespace a) ty (resource_subtype a)) (fst parts) (snd parts))"

text \<open>The \<^verbatim>\<open>ResourceName\<close> message.\<close>

record pb_resource_name =
  rn_namespace :: string
  rn_type :: string
  rn_subtype :: string
  rn_name :: string

definition name_to_proto :: "res_name \<Rightarrow> pb_resource_name" where
  [conv_defs]: "name_to_proto n =
     \<lparr>rn_namespace = type_namespace (nm_api n), rn_type = resource_type (nm_api n),
      rn_subtype = resource_subtype (nm_api n),
      rn_name = (if nm_remote n = [] then nm_name n else nm_remote n @ [colon] @ nm_name n)\<rparr>"

definition name_from_proto :: "pb_resource_name \<Rightarrow> res_name" where
  [conv_defs]: "name_from_proto p =
     (let parts = long_name_to_remote_and_short (rn_name p)
      in mk_name (API (rn_namespace p) (rn_type p) (rn_subtype p)) (fst parts) (snd parts))"

subsection \<open>RPC subtypes and models\<close>

definition rpc_subtype_eq :: "rpc_subtype \<Rightarrow> rpc_subtype \<Rightarrow> bool" where
  "rpc_subtype_eq a b \<longleftrightarrow> rs_api a = rs_api b \<and> rs_service a = rs_service b"

definition mk_model :: "string \<Rightarrow> string \<Rightarrow> string \<Rightarrow> model" where
  "mk_model ns f m = \<lparr>md_family = \<lparr>mf_namespace = ns, mf_family = f\<rparr>, md_name = m\<rparr>"

definition default_model :: model where
  "default_model = mk_model k_rdk k_builtin k_builtin"

definition family_to_string :: "model_family \<Rightarrow> string" where
  "family_to_string f =
     (if mf_namespace f = [] then mf_family f else mf_namespace f @ [colon] @ mf_family f)"

definition model_to_string :: "model \<Rightarrow> string" where
  "model_to_string m =
     (let mf = family_to_string (md_family m)
      in if mf = [] then md_name m else mf @ [colon] @ md_name m)"

definition model_from_str :: "string \<Rightarrow> model res" where
  "model_from_str s =
     (if rmatch model_regex s then
        let parts = split_on colon s in
        rbind (vec_at parts 0) (\<lambda>p0. rbind (vec_at parts 1) (\<lambda>p1. rbind (vec_at parts 2) (\<lambda>p2.
          Inr (mk_model p0 p1 p2))))
      else if rmatch single_field_regex s then Inr (mk_model ''rdk'' ''builtin'' s)
      else Inl (general_exception (''string '' @ s @ '' is not a valid model name'')))"

definition model_eq :: "model \<Rightarrow> model \<Rightarrow> bool" where
  "model_eq a b \<longleftrightarrow> model_to_string a = model_to_string b"

text \<open>Well-formed fields: what the patterns accept.\<close>

definition word_ok :: "string \<Rightarrow> bool" where
  "word_ok w \<longleftrightarrow> w \<noteq> [] \<and> list_all word_char w"

definition api_valid :: "api \<Rightarrow> bool" where
  "api_valid a \<longleftrightarrow>
     word_ok (type_namespace a) \<and> word_ok (resource_type a) \<and> word_ok (resource_subtype a)"

definition model_valid :: "model \<Rightarrow> bool" where
  "model_valid m \<longleftrightarrow>
     word_ok (mf_namespace (md_family m)) \<and> word_ok (mf_family (md_family m)) \<and> word_ok (md_name m)"

text \<open>A name component that the textual form can carry.\<close>

definition plain_part :: "string \<Rightarrow> bool" where
  "plain_part s \<longleftrightarrow> colon \<notin> set s \<and> slash \<notin> set s \<and> list_all dot_char s"

definition name_valid :: "res_name \<Rightarrow> bool" where
  "name_valid n \<longleftrightarrow> api_valid (nm_api n) \<and> plain_part (nm_remote n) \<and> plain_part (nm_name n)"

subsection \<open>Lemmas: characters and patterns\<close>

lemma word_char_seps [simp]: "\<not> word_char colon" "\<not> word_char slash"
  by (simp_all add: word_char_def)

lemma dot_char_seps [simp]: "dot_char colon" "dot_char slash"
  by (simp_all add: dot_char_def)

lemma word_ok_free [simp]: "word_ok w \<Longrightarrow> colon \<notin> set w" "word_ok w \<Longrightarrow> slash \<notin> set w"
  using word_char_seps by (auto simp: word_ok_def list_all_iff)

lemma rword_iff: "rmatches rword s \<longleftrightarrow> word_ok s"
  by (simp add: rword_def rmatches_plus_char word_ok_def)

lemma model_regex_iff:
  "rmatches model_regex s \<longleftrightarrow>
   (\<exists>a b c. s = a @ [colon] @ b @ [colon] @ c \<and> word_ok a \<and> word_ok b \<and> word_ok c)"
proof -
  have W: "rmatches (RSeq rword q) t \<longleftrightarrow> (\<exists>b u. t = b @ u \<and> word_ok b \<and> rmatches q u)" for q t
    by (simp only: rmatches_seq rword_iff)
  show ?thesis
    unfolding model_regex_def W rmatches_lit_seq rword_iff by fastforce
qed

lemma split_three:
  "word_ok a \<Longrightarrow> word_ok b \<Longrightarrow> word_ok c \<Longrightarrow>
   split_on colon (a @ [colon] @ b @ [colon] @ c) = [a, b, c]"
  by (simp add: split_on_word)

lemma split_three':
  "word_ok a \<Longrightarrow> word_ok b \<Longrightarrow> word_ok c \<Longrightarrow>
   split_on colon (a @ colon # b @ colon # c) = [a, b, c]"
  by (simp add: split_on_word)

lemma api_valid_matches: "api_valid a \<Longrightarrow> rmatches model_regex (api_to_string a)"
  unfolding model_regex_iff api_to_string_def api_valid_def by blast

lemma api_from_to: "api_valid a \<Longrightarrow> api_from_string (api_to_string a) = Inr a"
  using api_valid_matches[of a]
  by (cases a) (simp add: api_from_string_def rmatch_iff api_to_string_def api_valid_def
      split_three' vec_at_def)

lemma api_from_string_Inr:
  assumes "api_from_string s = Inr a"
  shows "api_valid a \<and> s = api_to_string a"
proof -
  have "rmatches model_regex s"
    using assms by (simp add: api_from_string_def rmatch_iff split: if_splits)
  then obtain x y z where s: "s = x @ [colon] @ y @ [colon] @ z" "word_ok x" "word_ok y" "word_ok z"
    unfolding model_regex_iff by blast
  then have v: "api_valid (API x y z)" "api_to_string (API x y z) = s"
    by (simp_all add: api_valid_def api_to_string_def)
  with api_from_to[OF v(1)] assms show ?thesis by auto
qed

lemma api_from_string_iff: "api_from_string s = Inr a \<longleftrightarrow> api_valid a \<and> s = api_to_string a"
  using api_from_string_Inr api_from_to by blast

lemma api_to_string_inj: "api_valid a \<Longrightarrow> api_valid b \<Longrightarrow> api_to_string a = api_to_string b \<Longrightarrow> a = b"
  by (metis api_from_to sum.inject(2))

lemma api_string_free [simp]: "api_valid a \<Longrightarrow> slash \<notin> set (api_to_string a)"
  by (auto simp: api_to_string_def api_valid_def)

text \<open>Any text without line breaks may follow the slash.\<close>

lemma name_regex_tail:
  assumes "api_valid a" and "list_all dot_char t"
  shows "rmatches name_regex (api_to_string a @ slash # t)"
proof -
  have d: "rmatches (ropt (rplus (RChar dot_char))) t"
    using assms(2) by (auto simp: rmatches_opt rmatches_plus_char)
  have "rmatches (RSeq (ropt (RSeq rword (RSeq (rlit colon) (RStar (RSeq rword (rlit colon))))))
          (ropt (rplus (RChar dot_char)))) ([] @ t)"
    using d by (intro rm_seq) (auto intro: rm_altr rm_eps)
  then have "rmatches (RSeq (ropt (rlit slash)) (RSeq (ropt (RSeq rword (RSeq (rlit colon)
      (RStar (RSeq rword (rlit colon)))))) (ropt (rplus (RChar dot_char))))) ([slash] @ t)"
    by (intro rm_seq) (auto intro: rm_altl rm_char)
  with api_valid_matches[OF assms(1)] show ?thesis
    unfolding name_regex_def using rm_seq by fastforce
qed

lemma api_valid_no_slash_matches:
  assumes "api_valid a"
  shows "rmatches name_regex (api_to_string a)"
proof -
  have "rmatches (RSeq (ropt (rlit slash)) (RSeq (ropt (RSeq rword (RSeq (rlit colon)
      (RStar (RSeq rword (rlit colon)))))) (ropt (rplus (RChar dot_char))))) ([] @ [] @ [])"
    by (intro rm_seq) (auto intro: rm_altr rm_eps)
  with rm_seq[OF api_valid_matches[OF assms]] show ?thesis unfolding name_regex_def by fastforce
qed

subsection \<open>Lemmas: names\<close>

lemma name_from_text:
  assumes "api_valid a" "list_all dot_char t" "slash \<notin> set t"
  shows "name_from_string (api_to_string a @ slash # t) =
    (case split_on colon t of
       c0 # c1 # cs \<Rightarrow> Inr (mk_name a c0 c1) | [c0] \<Rightarrow> Inr (mk_name a [] c0) | [] \<Rightarrow> Inl (OutOfRange ''vector''))"
proof -
  have "split_on slash (api_to_string a @ slash # t) = [api_to_string a, t]"
    using assms(1,3) by (simp add: split_on_word)
  then show ?thesis
    using name_regex_tail[OF assms(1,2)] assms(1)
    by (simp add: name_from_string_def rmatch_iff vec_at_def api_from_to split: list.split)
qed

lemma name_roundtrip: "name_valid n \<Longrightarrow> name_from_string (name_to_string n) = Inr n"
proof -
  assume v: "name_valid n"
  show ?thesis
  proof (cases "nm_remote n = []")
    case True
    then show ?thesis
      using v name_from_text[of "nm_api n" "nm_name n"]
      by (simp add: name_to_string_def name_valid_def plain_part_def mk_name_def)
  next
    case False
    then have ne: "nm_remote n \<noteq> [colon]" using v by (auto simp: name_valid_def plain_part_def)
    have "list_all dot_char (nm_remote n @ colon # nm_name n)"
      "slash \<notin> set (nm_remote n @ colon # nm_name n)"
      using v by (auto simp: name_valid_def plain_part_def)
    with name_from_text[of "nm_api n" "nm_remote n @ colon # nm_name n"] show ?thesis
      using v False ne
      by (simp add: name_to_string_def name_valid_def plain_part_def split_on_word mk_name_def)
  qed
qed

lemma name_no_slash:
  "api_valid a \<Longrightarrow> name_from_string (api_to_string a) = Inl (OutOfRange ''vector'')"
  using api_valid_no_slash_matches[of a]
  by (simp add: name_from_string_def rmatch_iff vec_at_def api_from_to)

lemma foldl_join: "foldl (\<lambda>a b. a @ [colon] @ b) w ws = join_with [colon] (w # ws)"
proof (induction ws arbitrary: w)
  case (Cons v ws)
  have "join_with [colon] ((w @ [colon] @ v) # ws) = join_with [colon] (w # v # ws)"
    by (cases ws) auto
  then show ?case using Cons.IH[of "w @ [colon] @ v"] by simp
qed simp

lemma long_name_alt:
  "long_name_to_remote_and_short s =
   (join_with [colon] (butlast (split_on colon s)), last (split_on colon s))"
proof (cases "butlast (split_on colon s)")
  case (Cons w ws)
  then show ?thesis
    unfolding long_name_to_remote_and_short_def Let_def by (simp only: foldl_join Cons) simp
qed (simp add: long_name_to_remote_and_short_def)

lemma long_name_plain: "colon \<notin> set s \<Longrightarrow> long_name_to_remote_and_short s = ([], s)"
  by (simp add: long_name_alt)

lemma long_name_qualified:
  "colon \<notin> set n \<Longrightarrow> long_name_to_remote_and_short (r @ colon # n) = (r, n)"
  by (simp add: long_name_alt split_on_sep)

lemma long_name_snd_free: "colon \<notin> set (snd (long_name_to_remote_and_short s))"
  by (simp add: long_name_alt)

lemma long_name_recompose:
  "(r, n) = long_name_to_remote_and_short s \<Longrightarrow>
   s = (if butlast (split_on colon s) = [] then n else r @ colon # n)"
proof -
  assume rn: "(r, n) = long_name_to_remote_and_short s"
  define ws w where "ws = butlast (split_on colon s)" and "w = last (split_on colon s)"
  have "split_on colon s = ws @ [w]" by (simp add: ws_def w_def)
  then have s: "s = join_with [colon] (ws @ [w])" by (metis join_split_on)
  have "join_with [colon] (vs @ [v]) = (if vs = [] then v else join_with [colon] vs @ colon # v)"
    for vs and v :: string
    by (induction vs) (auto simp: join_with_Cons)
  then show ?thesis
    using rn s unfolding long_name_alt ws_def[symmetric] w_def[symmetric] by auto
qed

lemma name_proto_roundtrip_iff:
  "name_from_proto (name_to_proto n) = n \<longleftrightarrow> colon \<notin> set (nm_name n)"
proof
  assume "name_from_proto (name_to_proto n) = n"
  then have "nm_name n = snd (long_name_to_remote_and_short (rn_name (name_to_proto n)))"
    by (metis (no_types, lifting) mk_name_def name_from_proto_def res_name.select_convs(3))
  then show "colon \<notin> set (nm_name n)" using long_name_snd_free by metis
next
  assume "colon \<notin> set (nm_name n)"
  then show "name_from_proto (name_to_proto n) = n"
    by (cases "nm_api n")
      (simp add: conv_defs mk_name_def long_name_plain long_name_qualified)
qed

interpretation name_codec: proto_codec name_to_proto "\<lambda>p. Inr (name_from_proto p)"
  "\<lambda>n. colon \<notin> set (nm_name n)"
  by unfold_locales (simp add: name_proto_roundtrip_iff)

subsection \<open>Lemmas: models\<close>

lemma model_valid_matches:
  "model_valid m \<Longrightarrow> rmatches model_regex (model_to_string m)"
  unfolding model_regex_iff model_valid_def
  by (rule exI[of _ "mf_namespace (md_family m)"], rule exI[of _ "mf_family (md_family m)"],
      rule exI[of _ "md_name m"])
    (auto simp: model_to_string_def family_to_string_def word_ok_def Let_def)

lemma model_to_string_valid:
  "model_valid m \<Longrightarrow> model_to_string m =
   mf_namespace (md_family m) @ colon # mf_family (md_family m) @ colon # md_name m"
  by (auto simp: model_to_string_def family_to_string_def model_valid_def word_ok_def Let_def)

lemma model_from_to: "model_valid m \<Longrightarrow> model_from_str (model_to_string m) = Inr m"
proof -
  assume v: "model_valid m"
  have "split_on colon (model_to_string m) =
    [mf_namespace (md_family m), mf_family (md_family m), md_name m]"
    using v unfolding model_to_string_valid[OF v] model_valid_def by (intro split_three') auto
  then show ?thesis
    using model_valid_matches[OF v] by (simp add: model_from_str_def rmatch_iff vec_at_def mk_model_def)
qed

interpretation model_codec: proto_codec model_to_string model_from_str model_valid
  by unfold_locales (rule model_from_to)

interpretation api_codec: proto_codec api_to_string api_from_string api_valid
  by unfold_locales (rule api_from_to)

interpretation name_text_codec: proto_codec name_to_string name_from_string name_valid
  by unfold_locales (rule name_roundtrip)

lemma word_ok_not_model: "word_ok s \<Longrightarrow> \<not> rmatches model_regex s"
  unfolding model_regex_iff using word_ok_free(1) by fastforce

lemma model_from_single: "word_ok s \<Longrightarrow> model_from_str s = Inr (mk_model ''rdk'' ''builtin'' s)"
  using word_ok_not_model[of s]
  by (simp add: model_from_str_def rmatch_iff single_field_regex_def rword_iff)

lemma model_from_str_valid:
  assumes "model_from_str s = Inr m"
  shows "model_valid m"
proof (cases "rmatches model_regex s")
  case True
  then obtain a b c where *: "s = a @ [colon] @ b @ [colon] @ c" "word_ok a" "word_ok b" "word_ok c"
    unfolding model_regex_iff by blast
  with True assms show ?thesis
    by (auto simp: model_from_str_def rmatch_iff split_three' vec_at_def model_valid_def mk_model_def)
next
  case False
  with assms have "word_ok s" "m = mk_model ''rdk'' ''builtin'' s"
    by (auto simp: model_from_str_def rmatch_iff single_field_regex_def rword_iff split: if_splits)
  moreover have "word_ok ''rdk''" "word_ok ''builtin''"
    by (simp_all add: word_ok_def word_char_def)
  ultimately show ?thesis by (simp add: model_valid_def mk_model_def)
qed

end
