(* ===== verification/Stores.thy ===== *)
theory Stores
  imports Errors
begin

text \<open>
  The interface of the stores that accept a key once: the three maps of the registry and the
  resource map of a resource manager. An insertion under a key that is present is an error and
  changes nothing; any other insertion is visible and leaves the other keys alone. The clients
  below it insert whole lists of entries and look entries up after further insertions.
\<close>

locale put_once =
  fixes lookup :: "'s \<Rightarrow> 'k \<Rightarrow> 'v option"
    and put :: "'s \<Rightarrow> 'k \<Rightarrow> 'v \<Rightarrow> 's res"
  assumes put_fresh: "lookup s k = None \<Longrightarrow> \<exists>s'. put s k v = Inr s' \<and> lookup s' = (lookup s)(k \<mapsto> v)"
    and put_dup: "lookup s k = Some u \<Longrightarrow> \<exists>e. put s k v = Inl e"
begin

lemma put_ok_iff: "is_Ok (put s k v) \<longleftrightarrow> lookup s k = None"
proof (cases "lookup s k")
  case None
  with put_fresh[of s k v] show ?thesis by auto
next
  case (Some u)
  with put_dup[of s k u v] show ?thesis by auto
qed

lemma put_InrD: "put s k v = Inr s' \<Longrightarrow> lookup s k = None \<and> lookup s' = (lookup s)(k \<mapsto> v)"
proof -
  assume p: "put s k v = Inr s'"
  then have n: "lookup s k = None" using put_ok_iff[of s k v] by simp
  then obtain t where "put s k v = Inr t" "lookup t = (lookup s)(k \<mapsto> v)"
    using put_fresh by blast
  with p n show ?thesis by simp
qed

lemma lookup_stable: "lookup s k = Some u \<Longrightarrow> put s k' v = Inr s' \<Longrightarrow> lookup s' k = Some u"
  using put_InrD[of s k' v s'] by auto

abbreviation put_all :: "'s \<Rightarrow> ('k \<times> 'v) list \<Rightarrow> 's res" where
  "put_all s es \<equiv> foldM (\<lambda>s e. put s (fst e) (snd e)) s es"

lemma put_all_InrD:
  "put_all s es = Inr s' \<Longrightarrow>
   awf es \<and> (\<forall>k\<in>set (akeys es). lookup s k = None) \<and> lookup s' = lookup s ++ map_of es"
proof (induction es arbitrary: s)
  case (Cons e es)
  obtain k v where e: "e = (k, v)" by (cases e) auto
  from Cons.prems e obtain t where t: "put s k v = Inr t" "put_all t es = Inr s'"
    by (auto simp: result_simps)
  note i = put_InrD[OF t(1)]
  have ih: "awf es" "\<forall>k'\<in>set (akeys es). lookup t k' = None" "lookup s' = lookup t ++ map_of es"
    using Cons.IH[OF t(2)] by auto
  from ih(2) i have k: "k \<notin> set (akeys es)" by auto
  have rest: "\<forall>k'\<in>set (akeys es). lookup s k' = None"
    using ih(2) i k by (metis fun_upd_other)
  have "lookup s' = (lookup s ++ map_of es)(k \<mapsto> v)"
    unfolding ih(3) using k i by (auto simp: fun_eq_iff map_add_def split: option.splits dest: map_of_in_akeys)
  with ih(1) k rest i show ?case unfolding e by (simp del: fun_upd_apply)
qed simp

lemma put_all_ok:
  "awf es \<Longrightarrow> \<forall>k\<in>set (akeys es). lookup s k = None \<Longrightarrow> \<exists>s'. put_all s es = Inr s'"
proof (induction es arbitrary: s)
  case (Cons e es)
  obtain t where t: "put s (fst e) (snd e) = Inr t" "lookup t = (lookup s)(fst e \<mapsto> snd e)"
    using put_fresh[of s "fst e" "snd e"] Cons.prems by auto
  have "\<forall>k\<in>set (akeys es). lookup t k = None" using Cons.prems t(2) by auto
  then show ?case using Cons.IH[of t] Cons.prems t(1) by simp
qed simp

lemma put_all_ok_iff:
  "is_Ok (put_all s es) \<longleftrightarrow> awf es \<and> (\<forall>k\<in>set (akeys es). lookup s k = None)"
proof (cases "put_all s es")
  case (Inl e)
  then have "\<nexists>s'. put_all s es = Inr s'" by simp
  with put_all_ok[of es s] Inl show ?thesis by (metis is_Ok.simps(1))
next
  case (Inr s')
  with put_all_InrD[OF this] show ?thesis by simp
qed

lemma put_all_lookup:
  "put_all s es = Inr s' \<Longrightarrow> (k, v) \<in> set es \<Longrightarrow> lookup s' k = Some v"
  by (drule put_all_InrD) (auto simp: akeys_def map_add_def)

lemma put_all_keeps: "put_all s es = Inr s' \<Longrightarrow> lookup s k = Some v \<Longrightarrow> lookup s' k = Some v"
  by (frule put_all_InrD) (auto simp: map_add_def split: option.splits dest: map_of_in_akeys)

end

text \<open>The store both components build on: an association list filled with \<^verbatim>\<open>emplace\<close>.\<close>

definition put_new :: "('k \<Rightarrow> exn) \<Rightarrow> ('k \<times> 'v) list \<Rightarrow> 'k \<Rightarrow> 'v \<Rightarrow> ('k \<times> 'v) list res" where
  "put_new err m k v = (if k \<in> set (akeys m) then Inl (err k) else Inr (emplace k v m))"

lemma put_new_put_once: "put_once map_of (put_new err)"
  by unfold_locales (auto simp: put_new_def map_of_emplace dest: map_of_in_akeys)

lemma put_new_awf: "put_new err m k v = Inr m' \<Longrightarrow> awf m \<Longrightarrow> awf m'"
  by (auto simp: put_new_def split: if_splits)

end
