(* ===== verification/ResourceManager.thy ===== *)
theory ResourceManager
  imports Names Stores
begin

text \<open>
  \<^verbatim>\<open>resource/resource_manager.cpp\<close>: the table of live resources. A resource is stored under its
  short name (\<^verbatim>\<open>remote:name\<close> or \<^verbatim>\<open>name\<close>); \<^verbatim>\<open>short_names_\<close> maps the last component of a qualified
  name to the full one. Pointers are options: \<open>None\<close> is the null pointer. Every public operation
  holds the mutex from its first to its last statement, so an operation is one step.
\<close>

record 'r manager =
  rm_resources :: "(string \<times> 'r option) list"
  rm_short_names :: "(string \<times> string) list"

definition empty_manager :: "'r manager" where
  "empty_manager = \<lparr>rm_resources = [], rm_short_names = []\<rparr>"

definition manager_resource :: "'r manager \<Rightarrow> string \<Rightarrow> 'r option" where
  "manager_resource m name =
     (case map_of (rm_resources m) name of
        Some p \<Rightarrow> p
      | None \<Rightarrow>
          (case map_of (rm_short_names m) name of
             Some full \<Rightarrow>
               (case map_of (rm_resources m) full of Some p \<Rightarrow> p | None \<Rightarrow> None)
           | None \<Rightarrow> None))"

definition get_shortcut_name :: "string \<Rightarrow> string" where
  "get_shortcut_name name =
     (let name_split = split_on colon name in name_split ! (length name_split - 1))"

definition do_add_string :: "'r manager \<Rightarrow> string \<Rightarrow> 'r option \<Rightarrow> 'r manager res" where
  "do_add_string m name r =
     (if name \<in> set (akeys (rm_resources m)) then
        Inl (sdk_exception K_duplicate_resource
               (''Attempted to add resource that already existed: '' @ name))
      else
        let shortcut = get_shortcut_name name;
            shorts =
              (if shortcut \<noteq> name then
                 if shortcut \<in> set (akeys (rm_short_names m))
                 then emplace shortcut [] (rm_short_names m)
                 else emplace shortcut name (rm_short_names m)
               else rm_short_names m)
        in Inr \<lparr>rm_resources = emplace name r (rm_resources m), rm_short_names = shorts\<rparr>)"

definition do_add :: "'r manager \<Rightarrow> res_name \<Rightarrow> 'r option \<Rightarrow> 'r manager res" where
  "do_add m name r =
     (if nm_name name = [] then
        Inl (general_exception (''Empty name used for resource: '' @ name_to_string name))
      else do_add_string m (short_name name) r)"

text \<open>The loop at the end of \<^verbatim>\<open>do_remove\<close>, one pass over the remaining resources.\<close>

definition restore_step ::
  "string \<Rightarrow> string \<Rightarrow> (string \<times> string) list \<Rightarrow> string \<Rightarrow> (string \<times> string) list" where
  "restore_step short shortcut shorts key =
     (if shortcut = get_shortcut_name key \<and> short \<noteq> get_shortcut_name key then
        if shortcut \<in> set (akeys shorts)
        then emplace shortcut [] shorts
        else emplace shortcut key shorts
      else shorts)"

definition do_remove :: "'r manager \<Rightarrow> res_name \<Rightarrow> 'r manager res" where
  "do_remove m name =
     (let short = short_name name in
      if short \<notin> set (akeys (rm_resources m)) then
        Inl (sdk_exception K_resource_not_found
               (''Attempted to remove resource '' @ name_to_string name @ '' but it didn't exist!''))
      else
        let rest = aerase short (rm_resources m);
            shortcut = get_shortcut_name short;
            shorts = (if shortcut \<in> set (akeys (rm_short_names m))
                      then aerase shortcut (rm_short_names m) else rm_short_names m)
        in Inr \<lparr>rm_resources = rest,
                rm_short_names = foldl (restore_step short shortcut) shorts (akeys rest)\<rparr>)"

text \<open>
  The public operations. The ones that catch \<^verbatim>\<open>std::exception\<close> return the exception they let
  through together with the state.
\<close>

definition catch_logged :: "'s \<Rightarrow> 's res \<Rightarrow> exn option \<times> 's" where
  "catch_logged before m =
     (case m of
        Inr s \<Rightarrow> (None, s)
      | Inl e \<Rightarrow> (if is_std_exception e then None else Some e, before))"

definition manager_add :: "'r manager \<Rightarrow> res_name \<Rightarrow> 'r option \<Rightarrow> exn option \<times> 'r manager" where
  "manager_add m name r = catch_logged m (do_add m name r)"

definition manager_add_string :: "'r manager \<Rightarrow> string \<Rightarrow> 'r option \<Rightarrow> 'r manager res" where
  "manager_add_string m name r = do_add_string m name r"

definition manager_remove :: "'r manager \<Rightarrow> res_name \<Rightarrow> exn option \<times> 'r manager" where
  "manager_remove m name = catch_logged m (do_remove m name)"

definition manager_replace_one ::
  "'r manager \<Rightarrow> res_name \<Rightarrow> 'r option res \<Rightarrow> exn option \<times> 'r manager" where
  "manager_replace_one m name create_resource =
     (case do_remove m name of
        Inl e \<Rightarrow> catch_logged m (Inl e)
      | Inr m' \<Rightarrow> catch_logged m' (rbind create_resource (do_add m' name)))"

fun replace_all_loop :: "'r manager \<Rightarrow> (res_name \<times> 'r option) list \<Rightarrow> exn option \<times> 'r manager" where
  "replace_all_loop m [] = (None, m)"
| "replace_all_loop m (e # es) =
     (case do_add m (fst e) (snd e) of
        Inr m' \<Rightarrow> replace_all_loop m' es
      | Inl x \<Rightarrow> (if is_std_exception x then None else Some x, m))"

definition manager_replace_all ::
  "'r manager \<Rightarrow> (res_name \<times> 'r option) list \<Rightarrow> exn option \<times> 'r manager" where
  "manager_replace_all m rs =
     replace_all_loop (m\<lparr>rm_resources := [], rm_short_names := []\<rparr>) rs"

definition manager_resources :: "'r manager \<Rightarrow> (string \<times> 'r option) list" where
  "manager_resources m = rm_resources m"

subsection \<open>Client-visible steps\<close>

datatype 'r manager_op =
    Op_add res_name "'r option"
  | Op_add_string string "'r option"
  | Op_remove res_name
  | Op_replace_one res_name "'r option res"
  | Op_replace_all "(res_name \<times> 'r option) list"

fun manager_step :: "'r manager \<Rightarrow> 'r manager_op \<Rightarrow> 'r manager" where
  "manager_step m (Op_add n r) = snd (manager_add m n r)"
| "manager_step m (Op_add_string s r) =
     (case manager_add_string m s r of Inl e \<Rightarrow> m | Inr m' \<Rightarrow> m')"
| "manager_step m (Op_remove n) = snd (manager_remove m n)"
| "manager_step m (Op_replace_one n c) = snd (manager_replace_one m n c)"
| "manager_step m (Op_replace_all rs) = snd (manager_replace_all m rs)"

subsection \<open>The invariant\<close>

text \<open>
  Keys are unique, and a shortcut always leads to a live resource whose name ends in it: a lookup
  through \<^verbatim>\<open>short_names_\<close> never dangles and never lands on a foreign resource.
\<close>

definition manager_inv :: "'r manager \<Rightarrow> bool" where
  "manager_inv m \<longleftrightarrow>
     awf (rm_resources m) \<and> awf (rm_short_names m) \<and>
     (\<forall>s k. map_of (rm_short_names m) s = Some k \<longrightarrow>
        k \<in> set (akeys (rm_resources m)) \<and> get_shortcut_name k = s)"

text \<open>Every qualified resource can be reached through its shortcut.\<close>

definition shortcuts_complete :: "'r manager \<Rightarrow> bool" where
  "shortcuts_complete m \<longleftrightarrow>
     (\<forall>k \<in> set (akeys (rm_resources m)).
        get_shortcut_name k \<noteq> k \<longrightarrow> get_shortcut_name k \<in> set (akeys (rm_short_names m)))"

lemma get_shortcut_name_last: "get_shortcut_name s = last (split_on colon s)"
  by (simp add: get_shortcut_name_def Let_def last_conv_nth)

lemma shortcut_free [simp]: "colon \<notin> set (get_shortcut_name s)"
  by (simp add: get_shortcut_name_last)

lemma shortcut_idem [simp]: "get_shortcut_name (get_shortcut_name s) = get_shortcut_name s"
  by (simp add: get_shortcut_name_last)

lemma shortcut_fixed_iff: "get_shortcut_name s = s \<longleftrightarrow> colon \<notin> set s"
  by (metis get_shortcut_name_last last_ConsL shortcut_free split_on_free)

lemma shortcut_qualified: "get_shortcut_name (r @ [colon] @ n) = get_shortcut_name n"
  by (simp add: get_shortcut_name_last last_split_on_sep)

lemma catch_logged_cases:
  obtains s where "m = Inr s" "catch_logged b m = (None, s)"
  | e where "m = Inl e" "snd (catch_logged b m) = b"
  by (cases m) (auto simp: catch_logged_def)

lemma do_add_string_InrD:
  assumes "do_add_string m name r = Inr m'"
  shows "name \<notin> set (akeys (rm_resources m))" "rm_resources m' = emplace name r (rm_resources m)"
    "rm_short_names m' =
       (if get_shortcut_name name = name \<or> get_shortcut_name name \<in> set (akeys (rm_short_names m))
        then rm_short_names m else emplace (get_shortcut_name name) name (rm_short_names m))"
  using assms by (auto simp: do_add_string_def Let_def split: if_splits)

lemma do_add_string_inv:
  "manager_inv m \<Longrightarrow> do_add_string m name r = Inr m' \<Longrightarrow> manager_inv m'"
  by (frule do_add_string_InrD(1), frule do_add_string_InrD(2), drule do_add_string_InrD(3))
    (auto simp: manager_inv_def akeys_emplace map_of_emplace)

lemma do_add_InrD: "do_add m n r = Inr m' \<Longrightarrow> nm_name n \<noteq> [] \<and> do_add_string m (short_name n) r = Inr m'"
  by (simp add: do_add_def split: if_splits)

lemma do_add_inv: "manager_inv m \<Longrightarrow> do_add m n r = Inr m' \<Longrightarrow> manager_inv m'"
  using do_add_InrD do_add_string_inv by blast

definition shorts_ok :: "string set \<Rightarrow> (string \<times> string) list \<Rightarrow> bool" where
  "shorts_ok ks shorts \<longleftrightarrow>
     awf shorts \<and> (\<forall>s k. map_of shorts s = Some k \<longrightarrow> k \<in> ks \<and> get_shortcut_name k = s)"

lemma restore_step_ok:
  "shorts_ok ks shorts \<Longrightarrow> key \<in> ks \<Longrightarrow> shorts_ok ks (restore_step short sc shorts key)"
  by (auto simp: shorts_ok_def restore_step_def map_of_emplace)

lemma restore_ok:
  "shorts_ok ks shorts \<Longrightarrow> set keys \<subseteq> ks \<Longrightarrow> shorts_ok ks (foldl (restore_step short sc) shorts keys)"
  by (induction keys arbitrary: shorts) (auto intro: restore_step_ok)

lemma do_remove_InrD:
  assumes "do_remove m n = Inr m'"
  shows "short_name n \<in> set (akeys (rm_resources m))"
    "rm_resources m' = aerase (short_name n) (rm_resources m)"
    "rm_short_names m' =
       foldl (restore_step (short_name n) (get_shortcut_name (short_name n)))
         (aerase (get_shortcut_name (short_name n)) (rm_short_names m)) (akeys (rm_resources m'))"
proof -
  have "aerase k xs = xs" if "k \<notin> set (akeys xs)" for k and xs :: "(string \<times> string) list"
    using that by (induction xs) (auto simp: aerase_def)
  with assms show "short_name n \<in> set (akeys (rm_resources m))"
    "rm_resources m' = aerase (short_name n) (rm_resources m)"
    "rm_short_names m' =
       foldl (restore_step (short_name n) (get_shortcut_name (short_name n)))
         (aerase (get_shortcut_name (short_name n)) (rm_short_names m)) (akeys (rm_resources m'))"
    by (auto simp: do_remove_def Let_def split: if_splits)
qed

lemma manager_inv_alt:
  "manager_inv m \<longleftrightarrow> awf (rm_resources m) \<and> shorts_ok (set (akeys (rm_resources m))) (rm_short_names m)"
  by (auto simp: manager_inv_def shorts_ok_def)

lemma do_remove_inv:
  assumes inv: "manager_inv m" and r: "do_remove m n = Inr m'"
  shows "manager_inv m'"
proof -
  note d = do_remove_InrD[OF r]
  let ?sc = "get_shortcut_name (short_name n)"
  have "shorts_ok (set (akeys (rm_resources m'))) (aerase ?sc (rm_short_names m))"
    using inv d(2) by (auto simp: manager_inv_def shorts_ok_def)
  from restore_ok[OF this subset_refl] show ?thesis
    using inv d unfolding manager_inv_alt by simp
qed

lemma replace_all_loop_inv: "manager_inv m \<Longrightarrow> manager_inv (snd (replace_all_loop m rs))"
  by (induction m rs rule: replace_all_loop.induct) (auto split: sum.splits dest: do_add_inv)

lemma empty_manager_inv [simp]: "manager_inv \<lparr>rm_resources = [], rm_short_names = []\<rparr>"
  by (simp add: manager_inv_def)

lemma manager_step_inv: "manager_inv m \<Longrightarrow> manager_inv (manager_step m op')"
proof (cases op')
  case (Op_replace_one n c)
  assume "manager_inv m"
  then show ?thesis unfolding Op_replace_one
    by (auto simp: manager_replace_one_def catch_logged_def result_simps split: sum.splits
        dest: do_remove_inv do_add_inv)
next
  case (Op_replace_all rs)
  have "manager_inv (m\<lparr>rm_resources := [], rm_short_names := []\<rparr>)" by (simp add: manager_inv_def)
  then show ?thesis unfolding Op_replace_all
    by (simp add: manager_replace_all_def replace_all_loop_inv)
qed (auto simp: manager_add_def manager_add_string_def manager_remove_def catch_logged_def
      split: sum.splits dest: do_remove_inv do_add_inv do_add_string_inv)

lemma manager_reachable_inv: "manager_inv (foldl manager_step empty_manager ops)"
  by (induction ops rule: rev_induct) (auto simp: empty_manager_def manager_step_inv)

subsection \<open>Lookups\<close>

lemma manager_resource_full:
  "map_of (rm_resources m) k = Some p \<Longrightarrow> manager_resource m k = p"
  by (simp add: manager_resource_def)

lemma manager_resource_sound:
  "manager_inv m \<Longrightarrow> manager_resource m n = Some r \<Longrightarrow>
   \<exists>k. map_of (rm_resources m) k = Some (Some r) \<and> (k = n \<or> get_shortcut_name k = n)"
  by (auto simp: manager_resource_def manager_inv_def split: option.splits)

text \<open>Under the invariant a shortcut never dangles.\<close>

lemma shortcut_live:
  "manager_inv m \<Longrightarrow> map_of (rm_short_names m) s = Some k \<Longrightarrow> \<exists>p. map_of (rm_resources m) k = Some p"
  by (auto simp: manager_inv_def intro: in_akeys_map_of)

text \<open>Insertion into the resource map is a put-once store.\<close>

interpretation resource_store:
  put_once "\<lambda>m. map_of (rm_resources m)" do_add_string
  by unfold_locales
    (auto simp: do_add_string_def Let_def map_of_emplace dest: map_of_in_akeys)

subsection \<open>Completeness of the shortcuts\<close>

lemma do_add_string_complete:
  "shortcuts_complete m \<Longrightarrow> do_add_string m name r = Inr m' \<Longrightarrow> shortcuts_complete m'"
  by (frule do_add_string_InrD(2), drule do_add_string_InrD(3))
    (auto simp: shortcuts_complete_def akeys_emplace)

lemma restore_keys_mono: "set (akeys shorts) \<subseteq> set (akeys (foldl (restore_step short sc) shorts keys))"
  by (induction keys arbitrary: shorts) (fastforce simp: restore_step_def akeys_emplace)+

lemma restore_covers:
  "key \<in> set keys \<Longrightarrow> sc = get_shortcut_name key \<Longrightarrow> short \<noteq> sc \<Longrightarrow>
   sc \<in> set (akeys (foldl (restore_step short sc) shorts keys))"
proof (induction keys arbitrary: shorts)
  case (Cons x keys)
  show ?case
  proof (cases "x = key")
    case True
    then have "sc \<in> set (akeys (restore_step short sc shorts x))"
      using Cons.prems by (auto simp: restore_step_def akeys_emplace)
    then show ?thesis using restore_keys_mono by fastforce
  qed (use Cons in auto)
qed simp

text \<open>Removing a qualified resource restores the shortcut for another bearer of the name.\<close>

lemma do_remove_complete:
  assumes "shortcuts_complete m" and r: "do_remove m n = Inr m'"
    and q: "get_shortcut_name (short_name n) \<noteq> short_name n"
  shows "shortcuts_complete m'"
  unfolding shortcuts_complete_def
proof (intro ballI impI)
  fix k
  assume k: "k \<in> set (akeys (rm_resources m'))" and kq: "get_shortcut_name k \<noteq> k"
  note d = do_remove_InrD[OF r]
  let ?sc = "get_shortcut_name (short_name n)"
  show "get_shortcut_name k \<in> set (akeys (rm_short_names m'))"
  proof (cases "get_shortcut_name k = ?sc")
    case True
    then show ?thesis unfolding d(3) using restore_covers[OF k, of ?sc] q by simp
  next
    case False
    have "get_shortcut_name k \<in> set (akeys (rm_short_names m))"
      using assms(1) k kq d(2) by (auto simp: shortcuts_complete_def)
    then have "get_shortcut_name k \<in> set (akeys (aerase ?sc (rm_short_names m)))"
      using False by simp
    then show ?thesis unfolding d(3) using restore_keys_mono by blast
  qed
qed

lemma complete_lookup:
  assumes "manager_inv m" "shortcuts_complete m" "map_of (rm_resources m) k = Some p"
  shows "\<exists>k' p'. get_shortcut_name k' = get_shortcut_name k \<and> map_of (rm_resources m) k' = Some p'
                 \<and> manager_resource m (get_shortcut_name k) = p'"
proof (cases "get_shortcut_name k \<in> set (akeys (rm_resources m))")
  case True
  then obtain p' where "map_of (rm_resources m) (get_shortcut_name k) = Some p'"
    by (auto dest: in_akeys_map_of)
  then show ?thesis
    by (intro exI[of _ "get_shortcut_name k"] exI[of _ p'] conjI shortcut_idem manager_resource_full)
next
  case False
  then have "get_shortcut_name k \<in> set (akeys (rm_short_names m))"
    using assms by (metis map_of_in_akeys shortcuts_complete_def)
  then obtain f where f: "map_of (rm_short_names m) (get_shortcut_name k) = Some f"
    using in_akeys_map_of by metis
  moreover obtain p' where "map_of (rm_resources m) f = Some p'"
    using shortcut_live[OF assms(1) f] by blast
  moreover have "map_of (rm_resources m) (get_shortcut_name k) = None" using False by simp
  ultimately show ?thesis using assms(1)
    by (intro exI[of _ f] exI[of _ p'])
      (auto simp: manager_resource_def manager_inv_def split: option.splits dest: map_of_in_akeys)
qed

subsection \<open>Effect on the resource map\<close>

definition resource_map :: "'r manager \<Rightarrow> string \<Rightarrow> 'r option option" where
  "resource_map m = map_of (rm_resources m)"

lemma manager_add_map:
  "resource_map (snd (manager_add m n r)) =
     (if nm_name n \<noteq> [] \<and> resource_map m (short_name n) = None
      then (resource_map m)(short_name n \<mapsto> r) else resource_map m)"
  by (auto simp: manager_add_def do_add_def do_add_string_def catch_logged_def Let_def
      resource_map_def map_of_emplace dest: map_of_in_akeys)

lemma manager_remove_map:
  "resource_map (snd (manager_remove m n)) = (resource_map m)(short_name n := None)"
proof (cases "do_remove m n")
  case (Inl e)
  then have "short_name n \<notin> set (akeys (rm_resources m))"
    by (auto simp: do_remove_def Let_def split: if_splits)
  then show ?thesis using Inl
    by (auto simp: manager_remove_def catch_logged_def resource_map_def fun_eq_iff)
next
  case (Inr m')
  then show ?thesis using do_remove_InrD(2)[OF Inr]
    by (simp add: manager_remove_def catch_logged_def resource_map_def)
qed

text \<open>Replacing: the old resource goes whenever it existed, even when its successor fails.\<close>

lemma manager_replace_one_map:
  "resource_map (snd (manager_replace_one m n c)) =
     (if resource_map m (short_name n) = None then resource_map m
      else case c of
        Inr r \<Rightarrow> (if nm_name n \<noteq> [] then (resource_map m)(short_name n \<mapsto> r)
                  else (resource_map m)(short_name n := None))
      | Inl e \<Rightarrow> (resource_map m)(short_name n := None))"
proof (cases "do_remove m n")
  case (Inl e)
  then have "short_name n \<notin> set (akeys (rm_resources m))"
    by (auto simp: do_remove_def Let_def split: if_splits)
  then show ?thesis using Inl
    by (auto simp: manager_replace_one_def catch_logged_def resource_map_def)
next
  case (Inr m')
  note d = do_remove_InrD[OF Inr]
  obtain old where old: "resource_map m (short_name n) = Some old"
    using d(1) unfolding resource_map_def by (meson in_akeys_map_of)
  have "resource_map m' = (resource_map m)(short_name n := None)"
    using d(2) by (simp add: resource_map_def)
  moreover have "resource_map m' (short_name n) = None" using calculation by simp
  moreover have "resource_map (snd (catch_logged m' (do_add m' n r))) =
      (if nm_name n \<noteq> [] then (resource_map m')(short_name n \<mapsto> r) else resource_map m')" for r
    using manager_add_map[of m' n r] calculation(2) by (simp add: manager_add_def)
  ultimately show ?thesis unfolding manager_replace_one_def Inr
    by (cases c) (simp_all add: old, simp add: catch_logged_def)
qed

text \<open>
  Replacing everything: with pairwise different, non-empty short names the table is the given
  one; otherwise it is the longest acceptable prefix.
\<close>

definition acceptable :: "(res_name \<times> 'r option) list \<Rightarrow> bool" where
  "acceptable rs \<longleftrightarrow> (\<forall>e\<in>set rs. nm_name (fst e) \<noteq> []) \<and> distinct (map (short_name \<circ> fst) rs)"

lemma replace_all_loop_resources:
  "acceptable rs \<Longrightarrow> \<forall>e\<in>set rs. short_name (fst e) \<notin> set (akeys (rm_resources m)) \<Longrightarrow>
   rm_resources (snd (replace_all_loop m rs)) =
     rm_resources m @ map (\<lambda>e. (short_name (fst e), snd e)) rs
   \<and> fst (replace_all_loop m rs) = None"
proof (induction rs arbitrary: m)
  case (Cons e rs)
  have f: "short_name (fst e) \<notin> set (akeys (rm_resources m))" and n: "nm_name (fst e) \<noteq> []"
    using Cons.prems by (auto simp: acceptable_def)
  then obtain m' where m': "do_add m (fst e) (snd e) = Inr m'"
    by (auto simp: do_add_def do_add_string_def Let_def)
  have r: "rm_resources m' = rm_resources m @ [(short_name (fst e), snd e)]"
    using do_add_string_InrD(2)[of m "short_name (fst e)" "snd e" m'] do_add_InrD[OF m'] f
    by (simp add: emplace_fresh)
  have "acceptable rs" "\<forall>e\<in>set rs. short_name (fst e) \<notin> set (akeys (rm_resources m'))"
    using Cons.prems r by (auto simp: acceptable_def image_iff)
  from Cons.IH[OF this] show ?case using m' r by simp
qed simp

lemma replace_all_loop_append:
  "acceptable rs \<Longrightarrow> \<forall>e\<in>set rs. short_name (fst e) \<notin> set (akeys (rm_resources m)) \<Longrightarrow>
   replace_all_loop m (rs @ rest) = replace_all_loop (snd (replace_all_loop m rs)) rest"
proof (induction rs arbitrary: m)
  case (Cons e rs)
  have f: "short_name (fst e) \<notin> set (akeys (rm_resources m))" and n: "nm_name (fst e) \<noteq> []"
    using Cons.prems by (auto simp: acceptable_def)
  then obtain m' where m': "do_add m (fst e) (snd e) = Inr m'"
    by (auto simp: do_add_def do_add_string_def Let_def)
  have r: "rm_resources m' = rm_resources m @ [(short_name (fst e), snd e)]"
    using do_add_string_InrD(2)[of m "short_name (fst e)" "snd e" m'] do_add_InrD[OF m'] f
    by (simp add: emplace_fresh)
  have "acceptable rs" "\<forall>e\<in>set rs. short_name (fst e) \<notin> set (akeys (rm_resources m'))"
    using Cons.prems r by (auto simp: acceptable_def image_iff)
  from Cons.IH[OF this] show ?case using m' by simp
qed simp

lemma replace_all_loop_stops:
  assumes "acceptable rs" "\<forall>e\<in>set rs. short_name (fst e) \<notin> set (akeys (rm_resources m))"
    and "nm_name (fst e') = [] \<or> short_name (fst e') \<in> set (map (short_name \<circ> fst) rs)"
  shows "replace_all_loop m (rs @ e' # rest) = (None, snd (replace_all_loop m rs))"
proof -
  have "\<exists>x. do_add (snd (replace_all_loop m rs)) (fst e') (snd e') = Inl x \<and> is_std_exception x"
    using replace_all_loop_resources[OF assms(1,2)] assms(3)
    by (auto simp: do_add_def do_add_string_def akeys_def)
  then show ?thesis by (auto simp: replace_all_loop_append[OF assms(1,2)])
qed

end
