(* ===== verification/Registry.thy ===== *)
theory Registry
  imports Names Stores
begin

text \<open>
  \<^verbatim>\<open>registry/registry.cpp\<close> and \<^verbatim>\<open>registry.hpp\<close>: the application-wide registry of model
  constructors, client constructors and server constructors, and the registrations the SDK makes
  at start-up. Service descriptors come from the generated code, so the lookup of a descriptor by
  its full name is an argument.
\<close>

subsection \<open>Registrations\<close>

record ('d, 'c, 'r) model_registration =
  mr_api :: api
  mr_model :: model
  construct_resource :: "'d \<Rightarrow> 'c \<Rightarrow> 'r option res"
  validate_config :: "'c \<Rightarrow> string list res"

definition default_validator :: "'c \<Rightarrow> string list res" where
  "default_validator cfg = Inr []"

definition mk_model_registration ::
  "api \<Rightarrow> model \<Rightarrow> ('d \<Rightarrow> 'c \<Rightarrow> 'r option res) \<Rightarrow> ('d, 'c, 'r) model_registration" where
  "mk_model_registration a m construct =
     \<lparr>mr_api = a, mr_model = m, construct_resource = construct, validate_config = default_validator\<rparr>"

definition mk_model_registration_validated ::
  "api \<Rightarrow> model \<Rightarrow> ('d \<Rightarrow> 'c \<Rightarrow> 'r option res) \<Rightarrow> ('c \<Rightarrow> string list res) \<Rightarrow>
   ('d, 'c, 'r) model_registration" where
  "mk_model_registration_validated a m construct validator =
     \<lparr>mr_api = a, mr_model = m, construct_resource = construct, validate_config = validator\<rparr>"

text \<open>The resource types the SDK implements; each has a client and, but for the frame system, a
  server.\<close>

datatype resource_kind =
    K_Arm | K_AudioIn | K_AudioOut | K_Base | K_Board | K_Button | K_Camera | K_Encoder | K_Gantry
  | K_GenericComponent | K_Gripper | K_Motor | K_MovementSensor | K_PoseTracker | K_PowerSensor
  | K_Sensor | K_Servo | K_Switch | K_Discovery | K_FrameSystem | K_GenericService
  | K_MLModelService | K_Motion

fun kind_api :: "resource_kind \<Rightarrow> api" where
  "kind_api K_Arm = API k_rdk k_component ''arm''"
| "kind_api K_AudioIn = API k_rdk k_component ''audio_in''"
| "kind_api K_AudioOut = API k_rdk k_component ''audio_out''"
| "kind_api K_Base = API k_rdk k_component ''base''"
| "kind_api K_Board = API k_rdk k_component ''board''"
| "kind_api K_Button = API k_rdk k_component ''button''"
| "kind_api K_Camera = API k_rdk k_component ''camera''"
| "kind_api K_Encoder = API k_rdk k_component ''encoder''"
| "kind_api K_Gantry = API k_rdk k_component ''gantry''"
| "kind_api K_GenericComponent = API k_rdk k_component ''generic''"
| "kind_api K_Gripper = API k_rdk k_component ''gripper''"
| "kind_api K_Motor = API k_rdk k_component ''motor''"
| "kind_api K_MovementSensor = API k_rdk k_component ''movement_sensor''"
| "kind_api K_PoseTracker = API k_rdk k_component ''pose_tracker''"
| "kind_api K_PowerSensor = API k_rdk k_component ''power_sensor''"
| "kind_api K_Sensor = API k_rdk k_component ''sensor''"
| "kind_api K_Servo = API k_rdk k_component ''servo''"
| "kind_api K_Switch = API k_rdk k_component ''switch''"
| "kind_api K_Discovery = API k_rdk k_service ''discovery''"
| "kind_api K_FrameSystem = API k_rdk_internal k_service ''frame_system''"
| "kind_api K_GenericService = API k_rdk k_service ''generic''"
| "kind_api K_MLModelService = API k_rdk k_service ''mlmodel''"
| "kind_api K_Motion = API k_rdk k_service ''motion''"

text \<open>The class of a resource server: one of the SDK's, or one of a module's own API, by its name.\<close>

datatype server_class = Server_of resource_kind | Custom_server string

record 'sd server_registration =
  sr_class :: server_class
  service_descriptor :: "'sd option"

record ('d, 'c, 'r, 'sd) registry =
  rg_models :: "(string \<times> ('d, 'c, 'r) model_registration) list"
  rg_clients :: "(api \<times> resource_kind) list"
  rg_servers :: "(api \<times> 'sd server_registration) list"

definition empty_registry :: "('d, 'c, 'r, 'sd) registry" where
  "empty_registry = \<lparr>rg_models = [], rg_clients = [], rg_servers = []\<rparr>"

subsection \<open>Operations\<close>

definition registration_key :: "api \<Rightarrow> model \<Rightarrow> string" where
  "registration_key a m = api_to_string a @ [slash] @ model_to_string m"

text \<open>A null registration is dereferenced before any check.\<close>

definition register_model ::
  "('d, 'c, 'r, 'sd) registry \<Rightarrow> ('d, 'c, 'r) model_registration option \<Rightarrow>
   ('d, 'c, 'r, 'sd) registry res" where
  "register_model g p =
     (case p of
        None \<Rightarrow> Inl (Undefined ''null registration'')
      | Some mr \<Rightarrow>
          let reg_key = registration_key (mr_api mr) (mr_model mr) in
          if reg_key \<in> set (akeys (rg_models g)) then
            Inl (sdk_exception K_duplicate_registration
                   (''Cannot register API/model pair'' @ reg_key
                     @ '' as that pair has already been registered''))
          else Inr (g\<lparr>rg_models := emplace reg_key mr (rg_models g)\<rparr>))"

definition register_resource_server_ap ::
  "('d, 'c, 'r, 'sd) registry \<Rightarrow> api \<Rightarrow> 'sd server_registration \<Rightarrow> ('d, 'c, 'r, 'sd) registry res" where
  "register_resource_server_ap g a sr =
     (if a \<in> set (akeys (rg_servers g)) then
        Inl (sdk_exception K_duplicate_registration
               (''Cannot register server API'' @ api_to_string a
                 @ '' as it has already been registered''))
      else Inr (g\<lparr>rg_servers := emplace a sr (rg_servers g)\<rparr>))"

definition register_resource_client_ap ::
  "('d, 'c, 'r, 'sd) registry \<Rightarrow> api \<Rightarrow> resource_kind \<Rightarrow> ('d, 'c, 'r, 'sd) registry res" where
  "register_resource_client_ap g a cr =
     (if a \<in> set (akeys (rg_clients g)) then
        Inl (sdk_exception K_duplicate_registration
               (''Cannot register client API'' @ api_to_string a
                 @ '' as it has already been registered''))
      else Inr (g\<lparr>rg_clients := emplace a cr (rg_clients g)\<rparr>))"

definition lookup_model_key ::
  "('d, 'c, 'r, 'sd) registry \<Rightarrow> string \<Rightarrow> ('d, 'c, 'r) model_registration option" where
  "lookup_model_key g name =
     (if name \<notin> set (akeys (rg_models g)) then None else map_of (rg_models g) name)"

definition lookup_model ::
  "('d, 'c, 'r, 'sd) registry \<Rightarrow> api \<Rightarrow> model \<Rightarrow> ('d, 'c, 'r) model_registration option" where
  "lookup_model g a m = lookup_model_key g (api_to_string a @ [slash] @ model_to_string m)"

definition lookup_server ::
  "('d, 'c, 'r, 'sd) registry \<Rightarrow> api \<Rightarrow> 'sd server_registration option" where
  "lookup_server g a = (if a \<notin> set (akeys (rg_servers g)) then None else map_of (rg_servers g) a)"

definition lookup_client :: "('d, 'c, 'r, 'sd) registry \<Rightarrow> api \<Rightarrow> resource_kind option" where
  "lookup_client g a = (if a \<notin> set (akeys (rg_clients g)) then None else map_of (rg_clients g) a)"

definition get_service_descriptor :: "('k \<Rightarrow> 'sd option) \<Rightarrow> 'k \<Rightarrow> 'sd res" where
  "get_service_descriptor find_service k =
     (case find_service k of
        Some sd \<Rightarrow> Inr sd
      | None \<Rightarrow> Inl (general_exception ''Unable to get service descriptor''))"

definition register_client ::
  "('d, 'c, 'r, 'sd) registry \<Rightarrow> resource_kind \<Rightarrow> ('d, 'c, 'r, 'sd) registry res" where
  "register_client g k = register_resource_client_ap g (kind_api k) k"

definition register_server ::
  "(resource_kind \<Rightarrow> 'sd option) \<Rightarrow> ('d, 'c, 'r, 'sd) registry \<Rightarrow> resource_kind \<Rightarrow>
   ('d, 'c, 'r, 'sd) registry res" where
  "register_server find_service g k =
     rbind (get_service_descriptor find_service k) (\<lambda>sd.
       register_resource_server_ap g (kind_api k) \<lparr>sr_class = Server_of k, service_descriptor = Some sd\<rparr>)"

definition register_custom_server ::
  "(string \<Rightarrow> 'sd option) \<Rightarrow> ('d, 'c, 'r, 'sd) registry \<Rightarrow> api \<Rightarrow> string \<Rightarrow>
   ('d, 'c, 'r, 'sd) registry res" where
  "register_custom_server find_service g a class_name =
     rbind (get_service_descriptor find_service class_name) (\<lambda>sd.
       register_resource_server_ap g a \<lparr>sr_class = Custom_server class_name, service_descriptor = Some sd\<rparr>)"

definition register_resource ::
  "(resource_kind \<Rightarrow> 'sd option) \<Rightarrow> ('d, 'c, 'r, 'sd) registry \<Rightarrow> resource_kind \<Rightarrow>
   ('d, 'c, 'r, 'sd) registry res" where
  "register_resource find_service g k =
     rbind (register_client g k) (\<lambda>g'. register_server find_service g' k)"

definition kinds_before_frame_system :: "resource_kind list" where
  "kinds_before_frame_system =
     [K_Arm, K_AudioIn, K_AudioOut, K_Base, K_Board, K_Button, K_Camera, K_Encoder, K_Gantry,
      K_GenericComponent, K_Gripper, K_Motor, K_MovementSensor, K_PoseTracker, K_PowerSensor,
      K_Sensor, K_Servo, K_Switch, K_Discovery]"

definition kinds_after_frame_system :: "resource_kind list" where
  "kinds_after_frame_system = [K_GenericService, K_MLModelService, K_Motion]"

definition register_resources ::
  "(resource_kind \<Rightarrow> 'sd option) \<Rightarrow> ('d, 'c, 'r, 'sd) registry \<Rightarrow> ('d, 'c, 'r, 'sd) registry res" where
  "register_resources find_service g =
     rbind (foldM (register_resource find_service) g kinds_before_frame_system) (\<lambda>g1.
     rbind (register_client g1 K_FrameSystem) (\<lambda>g2.
       foldM (register_resource find_service) g2 kinds_after_frame_system))"

text \<open>The constructor loop of \<^verbatim>\<open>ModuleService(argc, argv, registrations)\<close> registers a list.\<close>

definition register_models ::
  "('d, 'c, 'r, 'sd) registry \<Rightarrow> ('d, 'c, 'r) model_registration list \<Rightarrow>
   ('d, 'c, 'r, 'sd) registry res" where
  "register_models g mrs = foldM (\<lambda>g mr. register_model g (Some mr)) g mrs"

subsection \<open>Lemmas\<close>

lemma lookup_eqs:
  "lookup_model_key g = map_of (rg_models g)" "lookup_server g = map_of (rg_servers g)"
  "lookup_client g = map_of (rg_clients g)"
  by (auto simp: lookup_model_key_def lookup_server_def lookup_client_def fun_eq_iff
      dest: map_of_in_akeys)

lemma lookup_model_alt: "lookup_model g a m = lookup_model_key g (registration_key a m)"
  by (simp add: lookup_model_def registration_key_def)

definition put_model ::
  "('d, 'c, 'r, 'sd) registry \<Rightarrow> string \<Rightarrow> ('d, 'c, 'r) model_registration \<Rightarrow>
   ('d, 'c, 'r, 'sd) registry res" where
  "put_model g k mr =
     (if k \<in> set (akeys (rg_models g))
      then Inl (sdk_exception K_duplicate_registration
                   (''Cannot register API/model pair'' @ k
                     @ '' as that pair has already been registered''))
      else Inr (g\<lparr>rg_models := emplace k mr (rg_models g)\<rparr>))"

lemma register_model_put:
  "register_model g (Some mr) = put_model g (registration_key (mr_api mr) (mr_model mr)) mr"
  by (simp add: register_model_def put_model_def Let_def)

interpretation model_store: put_once lookup_model_key put_model
  by unfold_locales (auto simp: lookup_eqs put_model_def map_of_emplace dest: map_of_in_akeys)

interpretation client_store: put_once lookup_client register_resource_client_ap
  by unfold_locales
    (auto simp: lookup_eqs register_resource_client_ap_def map_of_emplace dest: map_of_in_akeys)

interpretation server_store: put_once lookup_server register_resource_server_ap
  by unfold_locales
    (auto simp: lookup_eqs register_resource_server_ap_def map_of_emplace dest: map_of_in_akeys)

lemma register_models_put_all:
  "register_models g mrs =
   model_store.put_all g (map (\<lambda>mr. (registration_key (mr_api mr) (mr_model mr), mr)) mrs)"
  unfolding register_models_def
  by (induction mrs arbitrary: g) (auto simp: register_model_put intro!: rbind_cong)

text \<open>Distinct valid pairs have distinct keys, so a valid pair finds its own registration.\<close>

lemma registration_key_inj:
  assumes "api_valid a" "api_valid b" "model_valid m" "model_valid n"
    and "registration_key a m = registration_key b n"
  shows "a = b \<and> m = n"
proof -
  have "split_on slash (registration_key x y) = api_to_string x # split_on slash (model_to_string y)"
    if "api_valid x" for x y
    using that by (simp add: registration_key_def split_on_word)
  then have "api_to_string a = api_to_string b"
    using assms by (metis list.inject)
  then have ab: "a = b" using api_to_string_inj assms by blast
  then have "model_to_string m = model_to_string n"
    using assms(5) by (simp add: registration_key_def)
  then show ?thesis using ab model_codec.to_inj assms by blast
qed

lemma kind_api_inj: "kind_api j = kind_api k \<longleftrightarrow> j = k"
  by (cases j; cases k) (simp_all add: k_rdk_def k_component_def k_service_def k_rdk_internal_def)

lemma kind_api_valid: "api_valid (kind_api k)"
  by (cases k)
    (simp_all add: api_valid_def word_ok_def word_char_def k_rdk_def k_component_def k_service_def
      k_rdk_internal_def)

lemma put_commute_clients [simp]:
  "register_resource_server_ap g a sr = Inr g' \<Longrightarrow> lookup_client g' = lookup_client g"
  "register_resource_server_ap g a sr = Inr g' \<Longrightarrow> rg_models g' = rg_models g"
  "register_resource_client_ap g a cr = Inr g' \<Longrightarrow> lookup_server g' = lookup_server g"
  "register_resource_client_ap g a cr = Inr g' \<Longrightarrow> rg_models g' = rg_models g"
  by (auto simp: register_resource_server_ap_def register_resource_client_ap_def lookup_eqs
      split: if_splits)

lemma register_resource_ok:
  assumes "find_service k = Some sd" "lookup_client g (kind_api k) = None"
    "lookup_server g (kind_api k) = None"
  obtains g' where "register_resource find_service g k = Inr g'"
    "lookup_client g' = (lookup_client g)(kind_api k \<mapsto> k)"
    "lookup_server g' = (lookup_server g)(kind_api k \<mapsto> \<lparr>sr_class = Server_of k, service_descriptor = Some sd\<rparr>)"
    "rg_models g' = rg_models g"
proof -
  obtain g1 where g1: "register_client g k = Inr g1"
    "lookup_client g1 = (lookup_client g)(kind_api k \<mapsto> k)"
    unfolding register_client_def using client_store.put_fresh[OF assms(2)] by blast
  have s1: "lookup_server g1 = lookup_server g" "rg_models g1 = rg_models g"
    using g1(1) by (auto simp: register_client_def)
  obtain g2 where g2: "register_resource_server_ap g1 (kind_api k)
      \<lparr>sr_class = Server_of k, service_descriptor = Some sd\<rparr> = Inr g2"
    "lookup_server g2 = (lookup_server g1)(kind_api k \<mapsto> \<lparr>sr_class = Server_of k, service_descriptor = Some sd\<rparr>)"
    using server_store.put_fresh[of g1 "kind_api k"] assms(3) s1 by metis
  have "register_resource find_service g k = Inr g2"
    using g1(1) g2(1) assms(1)
    by (simp add: register_resource_def register_server_def get_service_descriptor_def)
  moreover have "lookup_client g2 = lookup_client g1" "rg_models g2 = rg_models g1"
    using g2(1) by auto
  ultimately show ?thesis using that g1 g2 s1 by metis
qed

definition server_reg :: "(resource_kind \<Rightarrow> 'sd option) \<Rightarrow> resource_kind \<Rightarrow> 'sd server_registration" where
  "server_reg find_service k = \<lparr>sr_class = Server_of k, service_descriptor = find_service k\<rparr>"

lemma register_kinds_ok:
  "distinct ks \<Longrightarrow> \<forall>k\<in>set ks. find_service k \<noteq> None \<and> lookup_client g (kind_api k) = None
      \<and> lookup_server g (kind_api k) = None \<Longrightarrow>
   \<exists>g'. foldM (register_resource find_service) g ks = Inr g'
      \<and> lookup_client g' = lookup_client g ++ map_of (map (\<lambda>k. (kind_api k, k)) ks)
      \<and> lookup_server g' =
          lookup_server g ++ map_of (map (\<lambda>k. (kind_api k, server_reg find_service k)) ks)
      \<and> rg_models g' = rg_models g"
proof (induction ks arbitrary: g)
  case (Cons k ks)
  obtain sd where sd: "find_service k = Some sd" using Cons.prems by auto
  obtain g1 where g1: "register_resource find_service g k = Inr g1"
    "lookup_client g1 = (lookup_client g)(kind_api k \<mapsto> k)"
    "lookup_server g1 = (lookup_server g)(kind_api k \<mapsto> \<lparr>sr_class = Server_of k, service_descriptor = Some sd\<rparr>)"
    "rg_models g1 = rg_models g"
    using register_resource_ok[of find_service k sd g] sd Cons.prems by auto
  have nk: "k' \<in> set ks \<Longrightarrow> kind_api k' \<noteq> kind_api k" for k'
    using Cons.prems by (auto simp: kind_api_inj)
  then have "\<forall>k'\<in>set ks. find_service k' \<noteq> None \<and> lookup_client g1 (kind_api k') = None
      \<and> lookup_server g1 (kind_api k') = None"
    using Cons.prems g1 by auto
  from Cons.IH[OF _ this] Cons.prems obtain g2 where
    g2: "foldM (register_resource find_service) g1 ks = Inr g2"
      "lookup_client g2 = lookup_client g1 ++ map_of (map (\<lambda>k. (kind_api k, k)) ks)"
      "lookup_server g2 =
          lookup_server g1 ++ map_of (map (\<lambda>k. (kind_api k, server_reg find_service k)) ks)"
      "rg_models g2 = rg_models g1"
    by auto
  have nd: "kind_api k \<notin> set (akeys (map (\<lambda>k. (kind_api k, f k)) ks))" for f :: "resource_kind \<Rightarrow> 'z"
    using nk by (force simp: akeys_def)
  have up: "(m(x \<mapsto> v)) ++ map_of es = (m ++ map_of es)(x \<mapsto> v)" if "x \<notin> set (akeys es)"
    for m :: "api \<Rightarrow> 'y option" and x v es
    using that by (auto simp: fun_eq_iff map_add_def split: option.splits dest: map_of_in_akeys)
  show ?case
    using g1(1,4) g2(1,4)
    by (intro exI[of _ g2] conjI)
      (simp_all only: foldM.simps rbind.simps g2(2,3) g1(2,3) up[OF nd] list.map map_of.simps
        fst_conv snd_conv map_add_upd server_reg_def sd)
qed simp

definition all_kinds :: "resource_kind list" where
  "all_kinds = kinds_before_frame_system @ K_FrameSystem # kinds_after_frame_system"

lemma all_kinds_complete: "k \<in> set all_kinds" "distinct all_kinds"
  by (cases k; simp add: all_kinds_def kinds_before_frame_system_def kinds_after_frame_system_def)
    (simp add: all_kinds_def kinds_before_frame_system_def kinds_after_frame_system_def)

lemma map_of_kinds:
  "map_of (map (\<lambda>k. (kind_api k, f k)) ks) (kind_api k) = (if k \<in> set ks then Some (f k) else None)"
  by (induction ks) (auto simp: kind_api_inj)

lemma register_resources_ok:
  assumes fs: "\<forall>k. k \<noteq> K_FrameSystem \<longrightarrow> find_service k \<noteq> None"
    and g0: "g0 = empty_registry"
  shows "\<exists>g. register_resources find_service g0 = Inr g
     \<and> (\<forall>k. lookup_client g (kind_api k) = Some k)
     \<and> (\<forall>k. lookup_server g (kind_api k) =
            (if k = K_FrameSystem then None else Some (server_reg find_service k)))
     \<and> rg_models g = []"
proof -
  let ?A = kinds_before_frame_system and ?B = kinds_after_frame_system
  have d: "distinct ?A" "distinct ?B" "set ?A \<inter> set ?B = {}" "K_FrameSystem \<notin> set ?A \<union> set ?B"
    using all_kinds_complete(2) by (auto simp: all_kinds_def)
  have "\<forall>k\<in>set ?A. find_service k \<noteq> None \<and> lookup_client g0 (kind_api k) = None
      \<and> lookup_server g0 (kind_api k) = None"
    unfolding g0 using fs d(4) by (auto simp: empty_registry_def lookup_eqs) metis
  from register_kinds_ok[OF d(1) this]
  obtain g1 where g1: "foldM (register_resource find_service) g0 ?A = Inr g1"
    "lookup_client g1 = map_of (map (\<lambda>k. (kind_api k, k)) ?A)"
    "lookup_server g1 = map_of (map (\<lambda>k. (kind_api k, server_reg find_service k)) ?A)"
    "rg_models g1 = []"
    unfolding g0 by (force simp: empty_registry_def lookup_eqs)
  have "lookup_client g1 (kind_api K_FrameSystem) = None"
    unfolding g1(2) map_of_kinds using d(4) by simp
  then obtain g2 where g2: "register_client g1 K_FrameSystem = Inr g2"
    "lookup_client g2 = (lookup_client g1)(kind_api K_FrameSystem \<mapsto> K_FrameSystem)"
    unfolding register_client_def using client_store.put_fresh by blast
  have s2: "lookup_server g2 = lookup_server g1" "rg_models g2 = rg_models g1"
    using g2(1) by (auto simp: register_client_def)
  have "\<forall>k\<in>set ?B. find_service k \<noteq> None \<and> lookup_client g2 (kind_api k) = None
      \<and> lookup_server g2 (kind_api k) = None"
    unfolding s2 g2(2) g1(2,3) fun_upd_apply map_of_kinds kind_api_inj using d fs by auto
  from register_kinds_ok[OF d(2) this] obtain g3 where
    g3: "foldM (register_resource find_service) g2 ?B = Inr g3"
      "lookup_client g3 = lookup_client g2 ++ map_of (map (\<lambda>k. (kind_api k, k)) ?B)"
      "lookup_server g3 =
         lookup_server g2 ++ map_of (map (\<lambda>k. (kind_api k, server_reg find_service k)) ?B)"
      "rg_models g3 = rg_models g2"
    by auto
  have mem: "k \<in> set ?A \<or> k = K_FrameSystem \<or> k \<in> set ?B" for k
    using all_kinds_complete(1)[of k] by (auto simp: all_kinds_def)
  have "lookup_client g3 (kind_api k) = Some k" for k
    unfolding g3 g2(2) g1(2) map_add_def fun_upd_apply map_of_kinds kind_api_inj
    using mem[of k] by auto
  moreover have "lookup_server g3 (kind_api k) =
      (if k = K_FrameSystem then None else Some (server_reg find_service k))" for k
    unfolding g3 s2 g1(3) map_add_def map_of_kinds using mem[of k] d(4) by auto
  moreover have "register_resources find_service g0 = Inr g3"
    using g1(1) g2(1) g3(1) by (simp add: register_resources_def)
  moreover have "rg_models g3 = []" using g3(4) s2(2) g1(4) by simp
  ultimately show ?thesis by blast
qed

end
