(* ===== verification/Server.thy ===== *)
theory Server
  imports ResourceManager Registry
begin

text \<open>
  \<^verbatim>\<open>rpc/server.cpp\<close>: the gRPC server a module runs, a state machine \<^verbatim>\<open>building \<rightarrow> started\<close> with the
  resource servers it manages; and \<^verbatim>\<open>module/handler_map.cpp\<close>, \<^verbatim>\<open>module/module.cpp\<close>: the module's
  description and the map of the models it handles. gRPC's builder is the list of what was
  registered with it; whether \<^verbatim>\<open>BuildAndStart\<close> succeeds is an argument.
\<close>

subsection \<open>Resources\<close>

text \<open>
  A live resource: what the SDK asks of it. \<open>ro_stop\<close> is the outcome of \<^verbatim>\<open>stop()\<close> for a resource
  that implements \<^verbatim>\<open>Stoppable\<close>; \<open>ro_impl\<close> is the implementation.
\<close>

record 'x resource =
  ro_api :: api
  ro_name :: string
  ro_stop :: "unit res option"
  ro_impl :: 'x

subsection \<open>The server\<close>

record server_builder =
  sb_services :: "server_class list"
  sb_module_service :: bool
  sb_ports :: "string list"

record 'x server =
  managed_servers :: "(api \<times> 'x resource manager) list"
  builder :: "server_builder option"
  grpc_server :: "server_builder option"
  is_shutdown :: bool

definition empty_builder :: server_builder where
  "empty_builder = \<lparr>sb_services = [], sb_module_service = False, sb_ports = []\<rparr>"

definition cannot_register :: exn where
  "cannot_register = general_exception ''Cannot register a new service after the server has started''"

definition register_service :: "server_class \<Rightarrow> 'x server \<Rightarrow> 'x server res" where
  "register_service k sv =
     (case builder sv of
        None \<Rightarrow> Inl cannot_register
      | Some b \<Rightarrow> Inr (sv\<lparr>builder := Some (b\<lparr>sb_services := sb_services b @ [k]\<rparr>)\<rparr>))"

definition register_module_service :: "'x server \<Rightarrow> 'x server res" where
  "register_module_service sv =
     (case builder sv of
        None \<Rightarrow> Inl cannot_register
      | Some b \<Rightarrow> Inr (sv\<lparr>builder := Some (b\<lparr>sb_module_service := True\<rparr>)\<rparr>))"

text \<open>The constructor: one resource server with a fresh manager per registered API.\<close>

definition create_resource_server ::
  "'x server \<Rightarrow> api \<times> 'sd server_registration \<Rightarrow> 'x server res" where
  "create_resource_server sv rr =
     rbind (register_service (sr_class (snd rr)) sv) (\<lambda>sv'.
       Inr (sv'\<lparr>managed_servers := emplace (fst rr) empty_manager (managed_servers sv')\<rparr>))"

definition mk_server :: "('d, 'c, 'r, 'sd) registry \<Rightarrow> 'x server res" where
  "mk_server g =
     foldM create_resource_server
       \<lparr>managed_servers = [], builder = Some empty_builder, grpc_server = None, is_shutdown = False\<rparr>
       (rg_servers g)"

definition lookup_resource_server :: "'x server \<Rightarrow> api \<Rightarrow> 'x resource manager option" where
  "lookup_resource_server sv a =
     (if a \<notin> set (akeys (managed_servers sv)) then None else map_of (managed_servers sv) a)"

definition deadline_exceeded :: "int \<Rightarrow> int \<Rightarrow> bool" where
  "deadline_exceeded now deadline \<longleftrightarrow> deadline < now"

definition server_add_resource ::
  "int \<Rightarrow> 'x resource option \<Rightarrow> int option \<Rightarrow> 'x server \<Rightarrow> 'x server res" where
  "server_add_resource now res deadline sv =
     (if (case deadline of Some d \<Rightarrow> deadline_exceeded now d | None \<Rightarrow> False) then
        Inl (sdk_exception K_general ''Deadline expired'')
      else
        (case res of
           None \<Rightarrow> Inl (Undefined ''null resource'')
         | Some r \<Rightarrow>
             (case map_of (managed_servers sv) (ro_api r) of
                None \<Rightarrow>
                  Inl (sdk_exception K_resource_not_found
                         (''Attempted to add resource with API: '' @ api_to_string (ro_api r)
                           @ '' but no matching resource server was found''))
              | Some m \<Rightarrow>
                  rbind (manager_add_string m (ro_name r) (Some r)) (\<lambda>m'.
                    Inr (sv\<lparr>managed_servers := aput (ro_api r) m' (managed_servers sv)\<rparr>)))))"

definition server_start :: "bool \<Rightarrow> 'x server \<Rightarrow> 'x server res" where
  "server_start build_ok sv =
     (if grpc_server sv \<noteq> None then
        Inl (general_exception ''Attempted to start server that was already running'')
      else
        (case builder sv of
           None \<Rightarrow> Inl (Undefined ''null builder'')
         | Some b \<Rightarrow> Inr (sv\<lparr>grpc_server := (if build_ok then Some b else None), builder := None\<rparr>)))"

definition add_listening_port :: "string \<Rightarrow> 'x server \<Rightarrow> 'x server res" where
  "add_listening_port address sv =
     (case builder sv of
        None \<Rightarrow> Inl (general_exception ''Cannot add a listening port after server has started'')
      | Some b \<Rightarrow> Inr (sv\<lparr>builder := Some (b\<lparr>sb_ports := sb_ports b @ [address]\<rparr>)\<rparr>))"

definition server_shutdown :: "'x server \<Rightarrow> 'x server" where
  "server_shutdown sv = (if grpc_server sv \<noteq> None then sv\<lparr>is_shutdown := True\<rparr> else sv)"

text \<open>\<^verbatim>\<open>wait()\<close> returns at once unless a server runs.\<close>

definition wait_blocks :: "'x server \<Rightarrow> bool" where
  "wait_blocks sv \<longleftrightarrow> grpc_server sv \<noteq> None \<and> \<not> is_shutdown sv"

subsection \<open>Handler maps and modules\<close>

type_synonym handler_map = "(rpc_subtype \<times> model list) list"

definition add_model :: "model \<Rightarrow> rpc_subtype \<Rightarrow> handler_map \<Rightarrow> handler_map" where
  "add_model m sub hm =
     aput sub ((case map_of hm sub of Some ms \<Rightarrow> ms | None \<Rightarrow> []) @ [m]) hm"

record pb_handler =
  ph_models :: "string list"
  ph_subtype :: pb_resource_name
  ph_service :: string

definition handler_map_to_proto :: "handler_map \<Rightarrow> pb_handler list" where
  "handler_map_to_proto hm =
     map (\<lambda>h. \<lparr>ph_models = map model_to_string (snd h),
               ph_subtype = name_to_proto (mk_name (rs_api (fst h)) [] []),
               ph_service = rs_service (fst h)\<rparr>) hm"

text \<open>A model that does not parse is logged and skipped.\<close>

definition add_parsed_model :: "rpc_subtype \<Rightarrow> handler_map \<Rightarrow> string \<Rightarrow> handler_map" where
  "add_parsed_model handle hm s =
     (case model_from_str s of Inr m \<Rightarrow> add_model m handle hm | Inl e \<Rightarrow> hm)"

definition handler_map_from_proto :: "pb_handler list \<Rightarrow> handler_map" where
  "handler_map_from_proto handlers =
     foldl (\<lambda>hm h.
        let name = ph_subtype h;
            handle = \<lparr>rs_api = API (rn_namespace name) (rn_type name) (rn_subtype name),
                      rs_service = []\<rparr>
        in foldl (add_parsed_model handle) hm (ph_models h)) [] handlers"

record module_info =
  md_addr :: string
  md_ready :: bool
  md_handles :: handler_map

definition mk_module :: "bool \<Rightarrow> string \<Rightarrow> module_info" where
  "mk_module indeterminate addr = \<lparr>md_addr = addr, md_ready = indeterminate, md_handles = []\<rparr>"

definition module_set_ready :: "module_info \<Rightarrow> module_info" where
  "module_set_ready m = m\<lparr>md_ready := True\<rparr>"

subsection \<open>Lemmas: the server\<close>

text \<open>
  Never a builder and a running server at once (after a failed start there is neither), a shutdown
  only of a server that runs, at most one manager per API, and a sound manager each. Which APIs have
  a manager, and what the server was built from, is \<open>api_managers\<close> and \<open>service_phase\<close> in ModuleService.
\<close>

definition server_inv :: "'x server \<Rightarrow> bool" where
  "server_inv sv \<longleftrightarrow>
     \<not> (builder sv \<noteq> None \<and> grpc_server sv \<noteq> None) \<and> (is_shutdown sv \<longrightarrow> grpc_server sv \<noteq> None)
     \<and> awf (managed_servers sv)
     \<and> (\<forall>e\<in>set (managed_servers sv). manager_inv (snd e))"

lemma lookup_resource_server_eq: "lookup_resource_server sv = map_of (managed_servers sv)"
  by (auto simp: lookup_resource_server_def fun_eq_iff)

lemma set_aput: "set (aput k v m) \<subseteq> insert (k, v) (set m)"
  by (induction m) auto

lemma map_of_memD: "map_of m k = Some v \<Longrightarrow> (k, v) \<in> set m"
  by (rule map_of_SomeD)

lemma register_service_inv: "server_inv sv \<Longrightarrow> register_service k sv = Inr sv' \<Longrightarrow> server_inv sv'"
  by (auto simp: register_service_def server_inv_def split: option.splits)

lemma register_module_service_inv:
  "server_inv sv \<Longrightarrow> register_module_service sv = Inr sv' \<Longrightarrow> server_inv sv'"
  by (auto simp: register_module_service_def server_inv_def split: option.splits)

lemma add_listening_port_inv:
  "server_inv sv \<Longrightarrow> add_listening_port a sv = Inr sv' \<Longrightarrow> server_inv sv'"
  by (auto simp: add_listening_port_def server_inv_def split: option.splits)

lemma server_start_inv: "server_inv sv \<Longrightarrow> server_start ok sv = Inr sv' \<Longrightarrow> server_inv sv'"
  by (auto simp: server_start_def server_inv_def split: option.splits if_splits)

lemma server_shutdown_inv: "server_inv sv \<Longrightarrow> server_inv (server_shutdown sv)"
  by (auto simp: server_shutdown_def server_inv_def)

lemma put_manager_inv:
  "server_inv sv \<Longrightarrow> manager_inv m \<Longrightarrow> server_inv (sv\<lparr>managed_servers := aput a m (managed_servers sv)\<rparr>)"
  using set_aput[of a m "managed_servers sv"] by (auto simp: server_inv_def)

text \<open>The APIs that have a manager, and the frame of the operations on them.\<close>

definition managed_apis :: "'x server \<Rightarrow> api set" where
  "managed_apis sv = set (akeys (managed_servers sv))"

definition same_phase :: "'x server \<Rightarrow> 'x server \<Rightarrow> bool" where
  "same_phase sv sv' \<longleftrightarrow>
     builder sv' = builder sv \<and> grpc_server sv' = grpc_server sv \<and> is_shutdown sv' = is_shutdown sv
     \<and> managed_apis sv' = managed_apis sv"

lemma managed_apis_lookup: "a \<in> managed_apis sv \<longleftrightarrow> lookup_resource_server sv a \<noteq> None"
  using in_akeys_map_of[of a "managed_servers sv"]
  by (auto simp: managed_apis_def lookup_resource_server_def)

lemma put_manager_phase:
  "a \<in> managed_apis sv \<Longrightarrow> same_phase sv (sv\<lparr>managed_servers := aput a m (managed_servers sv)\<rparr>)"
  by (auto simp: same_phase_def managed_apis_def)

lemma server_add_resource_phase: "server_add_resource now r d sv = Inr sv' \<Longrightarrow> same_phase sv sv'"
  by (auto simp: server_add_resource_def manager_add_string_def result_simps managed_apis_def
      split: option.splits if_splits intro!: put_manager_phase dest: map_of_in_akeys)

lemma create_resource_servers_apis:
  "foldM create_resource_server sv es = Inr sv' \<Longrightarrow> builder sv = Some b \<Longrightarrow>
     managed_apis sv' = managed_apis sv \<union> set (akeys es) \<and> grpc_server sv' = grpc_server sv
     \<and> is_shutdown sv' = is_shutdown sv
     \<and> builder sv' = Some (b\<lparr>sb_services := sb_services b @ map (sr_class \<circ> snd) es\<rparr>)"
proof (induction es arbitrary: sv b)
  case (Cons e es)
  let ?b = "b\<lparr>sb_services := sb_services b @ [sr_class (snd e)]\<rparr>"
  let ?sv = "sv\<lparr>builder := Some ?b, managed_servers := emplace (fst e) empty_manager (managed_servers sv)\<rparr>"
  have "create_resource_server sv e = Inr ?sv"
    using Cons.prems(2) by (simp add: create_resource_server_def register_service_def)
  then have "foldM create_resource_server ?sv es = Inr sv'" using Cons.prems(1) by simp
  from Cons.IH[OF this, of ?b] show ?case by (auto simp: managed_apis_def akeys_emplace)
qed simp

lemma mk_server_phase:
  "mk_server g = Inr sv \<Longrightarrow> managed_apis sv = set (akeys (rg_servers g)) \<and> grpc_server sv = None
     \<and> \<not> is_shutdown sv \<and> builder sv = Some \<lparr>sb_services = map (sr_class \<circ> snd) (rg_servers g),
         sb_module_service = False, sb_ports = []\<rparr>"
  unfolding mk_server_def
  by (drule create_resource_servers_apis) (auto simp: managed_apis_def empty_builder_def)

lemma server_inv_manager:
  "server_inv sv \<Longrightarrow> map_of (managed_servers sv) a = Some m \<Longrightarrow> manager_inv m"
  using map_of_memD[of "managed_servers sv" a m] by (fastforce simp: server_inv_def)

lemma server_add_resource_inv:
  "server_inv sv \<Longrightarrow> server_add_resource now r d sv = Inr sv' \<Longrightarrow> server_inv sv'"
  by (auto simp: server_add_resource_def manager_add_string_def result_simps
      split: option.splits if_splits
      intro!: put_manager_inv dest: server_inv_manager do_add_string_inv)

lemma create_resource_server_inv:
  "server_inv sv \<Longrightarrow> create_resource_server sv rr = Inr sv' \<Longrightarrow> server_inv sv'"
  using set_emplace
  by (auto simp: create_resource_server_def result_simps register_service_def server_inv_def
      empty_manager_def split: option.splits) (fastforce simp: empty_manager_def)+

lemma mk_server_inv: "mk_server g = Inr sv \<Longrightarrow> server_inv sv"
proof -
  assume s: "mk_server g = Inr sv"
  show ?thesis
  proof (rule foldM_invariant[where I = server_inv])
    show "server_inv \<lparr>managed_servers = [], builder = Some empty_builder, grpc_server = None,
        is_shutdown = False\<rparr>"
      by (simp add: server_inv_def)
    show "foldM create_resource_server \<lparr>managed_servers = [], builder = Some empty_builder,
        grpc_server = None, is_shutdown = False\<rparr> (rg_servers g) = Inr sv"
      using s by (simp add: mk_server_def)
  qed (rule create_resource_server_inv)
qed

text \<open>Building never fails, and every registered API gets an empty manager.\<close>

lemma create_resource_servers:
  "awf es \<Longrightarrow> builder sv = Some b \<Longrightarrow> \<forall>k\<in>set (akeys es). k \<notin> set (akeys (managed_servers sv)) \<Longrightarrow>
   \<exists>sv'. foldM create_resource_server sv es = Inr sv'
     \<and> managed_servers sv' = managed_servers sv @ map (\<lambda>e. (fst e, empty_manager)) es
     \<and> builder sv' = Some (b\<lparr>sb_services := sb_services b @ map (sr_class \<circ> snd) es\<rparr>)
     \<and> grpc_server sv' = grpc_server sv"
proof (induction es arbitrary: sv b)
  case (Cons e es)
  define sv1 where "sv1 = sv\<lparr>builder := Some (b\<lparr>sb_services := sb_services b @ [sr_class (snd e)]\<rparr>),
     managed_servers := managed_servers sv @ [(fst e, empty_manager)]\<rparr>"
  have s1: "create_resource_server sv e = Inr sv1"
    using Cons.prems by (simp add: create_resource_server_def register_service_def sv1_def emplace_fresh)
  have "\<forall>k\<in>set (akeys es). k \<notin> set (akeys (managed_servers sv1))"
    using Cons.prems by (auto simp: sv1_def)
  from Cons.IH[OF _ _ this, of "b\<lparr>sb_services := sb_services b @ [sr_class (snd e)]\<rparr>"] Cons.prems s1
  show ?case by (auto simp: sv1_def)
qed auto

lemma mk_server_ok:
  "awf (rg_servers g) \<Longrightarrow> \<exists>sv. mk_server g = Inr sv
     \<and> managed_servers sv = map (\<lambda>e. (fst e, empty_manager)) (rg_servers g)
     \<and> builder sv = Some (empty_builder\<lparr>sb_services := map (sr_class \<circ> snd) (rg_servers g)\<rparr>)
     \<and> grpc_server sv = None"
  unfolding mk_server_def
  using create_resource_servers[of "rg_servers g"
      "\<lparr>managed_servers = [], builder = Some empty_builder, grpc_server = None, is_shutdown = False\<rparr>"
      empty_builder]
  by (auto simp: empty_builder_def)

text \<open>After a start everything that builds is refused.\<close>

lemma started_refuses:
  "server_start ok sv = Inr sv' \<Longrightarrow>
   register_service k sv' = Inl cannot_register \<and> (\<exists>e. add_listening_port a sv' = Inl e \<and> is_std_exception e)
   \<and> (\<exists>e. server_start ok' sv' = Inl e \<and> (is_undefined e \<longleftrightarrow> \<not> ok))"
  by (auto simp: server_start_def register_service_def add_listening_port_def general_exception_def
      sdk_exception_def split: option.splits if_splits)

subsection \<open>Lemmas: handler maps\<close>

lemma map_of_add_model:
  "map_of (add_model m sub hm) =
     (map_of hm)(sub \<mapsto> (case map_of hm sub of Some ms \<Rightarrow> ms | None \<Rightarrow> []) @ [m])"
  by (simp add: add_model_def)

lemma add_model_nonempty:
  "\<forall>e\<in>set hm. snd e \<noteq> [] \<Longrightarrow> \<forall>e\<in>set (add_model m sub hm). snd e \<noteq> []"
  using set_aput[of sub _ hm] unfolding add_model_def by fastforce

lemma aput_append_fresh: "k \<notin> set (akeys m) \<Longrightarrow> aput k v m = m @ [(k, v)]"
  by (induction m) auto

lemma aput_last: "k \<notin> set (akeys m) \<Longrightarrow> aput k v (m @ [(k, u)]) = m @ [(k, v)]"
  by (induction m) auto

lemma map_of_snoc: "k \<notin> set (akeys m) \<Longrightarrow> map_of (m @ [(k, v)]) k = Some v"
  by (induction m) auto

lemma add_parsed_models:
  assumes "\<forall>m\<in>set ms. model_valid m" "handle \<notin> set (akeys hm)"
  shows "foldl (add_parsed_model handle) hm (map model_to_string ms) =
         (if ms = [] then hm else hm @ [(handle, ms)])"
  using assms(1)
proof (induction ms rule: rev_induct)
  case (snoc m ms)
  then have "model_from_str (model_to_string m) = Inr m" by (intro model_from_to) simp
  with snoc assms(2) show ?case
    by (auto simp: add_parsed_model_def add_model_def aput_append_fresh aput_last map_of_snoc
        simp del: map_of_append)
qed simp

definition strip_service :: "rpc_subtype \<Rightarrow> rpc_subtype" where
  "strip_service s = \<lparr>rs_api = rs_api s, rs_service = []\<rparr>"

text \<open>The wire keeps the models of each API and drops the names of the services.\<close>

lemma handler_map_from_to:
  assumes "distinct (map (rs_api \<circ> fst) hm)" "\<forall>e\<in>set hm. snd e \<noteq> [] \<and> (\<forall>m\<in>set (snd e). model_valid m)"
  shows "handler_map_from_proto (handler_map_to_proto hm) = map (\<lambda>e. (strip_service (fst e), snd e)) hm"
  using assms
proof (induction hm rule: rev_induct)
  case (snoc e hm)
  have ih: "handler_map_from_proto (handler_map_to_proto hm) = map (\<lambda>e. (strip_service (fst e), snd e)) hm"
    using snoc by simp
  have n: "strip_service (fst e) \<notin> set (akeys (map (\<lambda>e. (strip_service (fst e), snd e)) hm))"
    using snoc.prems(1) by (auto simp: akeys_def strip_service_def)
  have "API (rn_namespace p) (rn_type p) (rn_subtype p) = rs_api (fst e)"
    if "p = name_to_proto (mk_name (rs_api (fst e)) [] [])" for p
    using that by (cases "rs_api (fst e)") (simp add: name_to_proto_def mk_name_def)
  then have "handler_map_from_proto (handler_map_to_proto (hm @ [e])) =
      foldl (add_parsed_model (strip_service (fst e))) (handler_map_from_proto (handler_map_to_proto hm))
        (map model_to_string (snd e))"
    by (simp add: handler_map_from_proto_def handler_map_to_proto_def strip_service_def)
  also have "\<dots> = map (\<lambda>e. (strip_service (fst e), snd e)) hm @ [(strip_service (fst e), snd e)]"
    unfolding ih using add_parsed_models[OF _ n, of "snd e"] snoc.prems(2) by simp
  finally show ?case by simp
qed (simp add: handler_map_from_proto_def handler_map_to_proto_def)

end
