(* ===== verification/Utils.thy ===== *)
theory Utils
  imports ProtoValues Names Bytes
begin

text \<open>
  \<^verbatim>\<open>common/utils.cpp\<close>: timestamps and durations on the wire, byte strings, the debug key of
  server-side logging, the data-management flag and boolean environment variables. Counts of
  \<^verbatim>\<open>std::chrono\<close> are signed 64-bit integers, written as \<open>int\<close> with the range made explicit;
  C++ division truncates (\<open>sdiv\<close>).
\<close>

definition in_sint :: "nat \<Rightarrow> int \<Rightarrow> bool" where
  "in_sint w i \<longleftrightarrow> - (2 ^ (w - 1)) \<le> i \<and> i < 2 ^ (w - 1)"

definition to_int32 :: "int \<Rightarrow> int" where
  "to_int32 i = signed_take_bit 31 i"

record pb_time =
  pt_seconds :: int
  pt_nanos :: int

subsection \<open>Timestamps and durations\<close>

definition time_to_proto :: "int \<Rightarrow> pb_time" where
  "time_to_proto since_epoch =
     (let sec_floor = since_epoch sdiv 1000000000;
          nano_part = since_epoch - sec_floor * 1000000000
      in \<lparr>pt_seconds = sec_floor, pt_nanos = to_int32 nano_part\<rparr>)"

definition time_from_proto :: "pb_time \<Rightarrow> int res" where
  "time_from_proto p =
     (let s = pt_seconds p * 1000000000; t = s + pt_nanos p
      in if in_sint 64 s \<and> in_sint 64 t then Inr t else Inl (Undefined ''chrono overflow''))"

definition micros_to_proto :: "int \<Rightarrow> pb_time" where
  "micros_to_proto duration =
     (let seconds = duration sdiv 1000000; nanos = (duration - seconds * 1000000) * 1000
      in \<lparr>pt_seconds = seconds, pt_nanos = to_int32 nanos\<rparr>)"

definition micros_from_nanos :: "int \<Rightarrow> int" where
  "micros_from_nanos n =
     (let m = n sdiv 1000
      in if n < 0 \<and> n < m * 1000 then m - 1
         else if 0 < n \<and> m * 1000 < n then m + 1 else m)"

definition micros_from_proto :: "pb_time \<Rightarrow> int res" where
  "micros_from_proto p =
     (let s = pt_seconds p * 1000000; t = s + micros_from_nanos (pt_nanos p)
      in if in_sint 64 s \<and> in_sint 64 t then Inr t else Inl (Undefined ''chrono overflow''))"

record response_metadata =
  captured_at :: int

definition metadata_eq :: "response_metadata \<Rightarrow> response_metadata \<Rightarrow> bool" where
  "metadata_eq lhs rhs \<longleftrightarrow> captured_at lhs = captured_at rhs"

definition metadata_to_proto :: "response_metadata \<Rightarrow> pb_time" where
  "metadata_to_proto m = time_to_proto (captured_at m)"

definition metadata_from_proto :: "pb_time \<Rightarrow> response_metadata res" where
  "metadata_from_proto p = rmap (\<lambda>t. \<lparr>captured_at = t\<rparr>) (time_from_proto p)"

subsection \<open>Bytes\<close>

definition string_to_bytes :: "string \<Rightarrow> byte list" where
  "string_to_bytes s = map of_char s"

definition bytes_to_string :: "byte list \<Rightarrow> string" where
  "bytes_to_string bs = map (\<lambda>b. char_of (unat b)) bs"

subsection \<open>Debug keys and flags in an extra struct\<close>

text \<open>\<^verbatim>\<open>static const char alphanum[]\<close> holds 26 letters and the terminating NUL; the distribution's
  inclusive upper bound is \<^verbatim>\<open>sizeof(alphanum) - 1\<close>.\<close>

definition debug_alphanum :: string where
  "debug_alphanum = ''abcdefghijklmnopqrstuvwxyz'' @ [CHR 0x00]"

definition debug_draw_max :: nat where
  "debug_draw_max = length debug_alphanum - 1"

definition random_debug_key :: "(nat \<Rightarrow> nat) \<Rightarrow> string" where
  "random_debug_key draws = map (\<lambda>i. debug_alphanum ! draws i) [0..<6]"

definition debug_map_key :: string where
  "debug_map_key = ''com.viam.debug_key_internal''"

definition add_debug_entry :: "proto_struct \<Rightarrow> string \<Rightarrow> proto_struct" where
  "add_debug_entry m key = emplace debug_map_key (PString key) m"

definition debug_map :: "string \<Rightarrow> proto_struct" where
  "debug_map key = emplace debug_map_key (PString key) []"

definition with_debug_entry :: "proto_struct \<Rightarrow> string \<Rightarrow> proto_struct" where
  "with_debug_entry m key = add_debug_entry m key"

definition from_dm_from_extra :: "proto_struct \<Rightarrow> bool" where
  "from_dm_from_extra extra =
     (case map_of extra ''fromDataManagement'' of
        Some v \<Rightarrow> is_a K_bool v \<and> get_bool v = Some True
      | None \<Rightarrow> False)"

subsection \<open>Environment variables\<close>

type_synonym environment = "string \<Rightarrow> string option"

definition is_env_var_true :: "environment \<Rightarrow> string \<Rightarrow> bool" where
  "is_env_var_true env var =
     (case env var of
        Some val \<Rightarrow> list_ex (\<lambda>t. val = t) [''true'', ''yes'', ''1'', ''TRUE'', ''YES'']
      | None \<Rightarrow> False)"

definition is_env_var_false :: "environment \<Rightarrow> string \<Rightarrow> bool" where
  "is_env_var_false env var =
     (case env var of
        Some val \<Rightarrow> list_ex (\<lambda>t. val = t) [''false'', ''no'', ''0'', ''FALSE'', ''NO'']
      | None \<Rightarrow> True)"

subsection \<open>Lemmas\<close>

lemma sdiv_nonneg: "0 \<le> k \<Longrightarrow> 0 < l \<Longrightarrow> k sdiv l = k div (l :: int)"
  by (cases "k = 0") (auto simp: signed_divide_int_def)

lemma sdiv_neg: "k < 0 \<Longrightarrow> 0 < l \<Longrightarrow> k sdiv l = - ((- k) div (l :: int))"
  by (simp add: signed_divide_int_def)

lemma sdiv_bounds:
  assumes "0 < (l :: int)"
  shows "0 \<le> k \<Longrightarrow> 0 \<le> k - k sdiv l * l \<and> k - k sdiv l * l < l \<and> 0 \<le> k sdiv l * l"
    and "k < 0 \<Longrightarrow> - l < k - k sdiv l * l \<and> k - k sdiv l * l \<le> 0 \<and> k sdiv l * l \<le> 0"
proof -
  assume "0 \<le> k"
  then show "0 \<le> k - k sdiv l * l \<and> k - k sdiv l * l < l \<and> 0 \<le> k sdiv l * l"
    using assms by (simp add: sdiv_nonneg minus_div_mult_eq_mod pos_imp_zdiv_nonneg_iff)
next
  assume k: "k < 0"
  define q where "q = (- k) div l"
  have "q * l + (- k) mod l = - k" by (simp add: q_def)
  moreover have "0 \<le> (- k) mod l" "(- k) mod l < l" using assms by simp_all
  moreover have "0 \<le> q * l" using assms k by (simp add: q_def pos_imp_zdiv_nonneg_iff)
  moreover have "k sdiv l = - q" using k assms by (simp add: sdiv_neg q_def)
  ultimately show "- l < k - k sdiv l * l \<and> k - k sdiv l * l \<le> 0 \<and> k sdiv l * l \<le> 0"
    by simp
qed

lemma to_int32_id: "in_sint 32 i \<Longrightarrow> to_int32 i = i"
  by (simp add: to_int32_def in_sint_def signed_take_bit_int_eq_self)

lemma in_sint_between: "in_sint w a \<Longrightarrow> in_sint w b \<Longrightarrow> a \<le> x \<Longrightarrow> x \<le> b \<Longrightarrow> in_sint w x"
  by (auto simp: in_sint_def)

lemma in_sint32_small: "\<bar>x\<bar> < 1000000000 \<Longrightarrow> in_sint 32 x"
  unfolding in_sint_def by (simp add: abs_less_iff)

lemma in_sint_0 [simp]: "in_sint w 0"
  by (simp add: in_sint_def)

text \<open>The common core of both conversions: the truncated quotient and its remainder.\<close>

lemma trunc_parts:
  assumes "in_sint 64 k" "0 < (l :: int)"
  shows "in_sint 64 (k sdiv l * l)" and "\<bar>k - k sdiv l * l\<bar> < l"
proof -
  have "in_sint 64 (k sdiv l * l) \<and> \<bar>k - k sdiv l * l\<bar> < l"
  proof (cases "0 \<le> k")
    case True
    with sdiv_bounds(1)[OF assms(2) True] assms(1) show ?thesis
      by (auto intro: in_sint_between[of 64 0 k])
  next
    case False
    then have k: "k < 0" by simp
    with sdiv_bounds(2)[OF assms(2) k] assms(1) show ?thesis
      by (auto intro: in_sint_between[of 64 k 0])
  qed
  then show "in_sint 64 (k sdiv l * l)" "\<bar>k - k sdiv l * l\<bar> < l" by auto
qed

lemma time_to_proto_parts:
  assumes "in_sint 64 t"
  shows "pt_seconds (time_to_proto t) * 1000000000 + pt_nanos (time_to_proto t) = t"
    and "\<bar>pt_nanos (time_to_proto t)\<bar> < 1000000000"
    and "in_sint 64 (pt_seconds (time_to_proto t) * 1000000000)"
proof -
  note tp = trunc_parts[OF assms, of 1000000000, simplified]
  have "in_sint 32 (t - t sdiv 1000000000 * 1000000000)" by (rule in_sint32_small) (rule tp(2))
  then have n: "pt_nanos (time_to_proto t) = t - t sdiv 1000000000 * 1000000000"
    by (simp add: time_to_proto_def Let_def to_int32_id)
  have s: "pt_seconds (time_to_proto t) = t sdiv 1000000000"
    by (simp add: time_to_proto_def Let_def)
  show "pt_seconds (time_to_proto t) * 1000000000 + pt_nanos (time_to_proto t) = t"
    by (simp add: n s)
  show "\<bar>pt_nanos (time_to_proto t)\<bar> < 1000000000" using tp(2) by (simp add: n)
  show "in_sint 64 (pt_seconds (time_to_proto t) * 1000000000)" using tp(1) by (simp add: s)
qed

lemma time_from_to: "in_sint 64 t \<Longrightarrow> time_from_proto (time_to_proto t) = Inr t"
  using time_to_proto_parts[of t] by (simp add: time_from_proto_def)

interpretation time_codec: proto_codec time_to_proto time_from_proto "in_sint 64"
  by unfold_locales (rule time_from_to)

lemma time_nanos_sign:
  assumes "in_sint 64 t"
  shows "pt_nanos (time_to_proto t) < 0 \<longleftrightarrow> t < 0 \<and> t smod 1000000000 \<noteq> 0"
proof -
  have "in_sint 32 (t - t sdiv 1000000000 * 1000000000)"
    by (rule in_sint32_small) (rule trunc_parts(2)[OF assms zero_less_numeral])
  then have n: "pt_nanos (time_to_proto t) = t - t sdiv 1000000000 * 1000000000"
    by (simp add: time_to_proto_def Let_def to_int32_id)
  have m: "t smod 1000000000 = t - t sdiv 1000000000 * 1000000000"
    using smod_sdiv_mult_eq[of t 1000000000] by simp
  show ?thesis
    using sdiv_bounds[of 1000000000 t] unfolding n m by (cases "0 \<le> t") auto
qed

lemma micros_from_to: "in_sint 64 d \<Longrightarrow> micros_from_proto (micros_to_proto d) = Inr d"
proof -
  assume d: "in_sint 64 d"
  note tp = trunc_parts[OF d, of 1000000, simplified]
  define r where "r = d - d sdiv 1000000 * 1000000"
  have r: "\<bar>r\<bar> < 1000000" using tp(2) by (simp add: r_def)
  then have "to_int32 (r * 1000) = r * 1000"
    by (intro to_int32_id in_sint32_small) (simp add: abs_mult)
  then have n: "pt_nanos (micros_to_proto d) = r * 1000"
    unfolding micros_to_proto_def Let_def r_def by simp
  have s: "pt_seconds (micros_to_proto d) = d sdiv 1000000"
    by (simp add: micros_to_proto_def Let_def)
  have "(r * 1000) sdiv 1000 = r"
    by (cases "0 \<le> r") (simp_all add: sdiv_nonneg sdiv_neg flip: mult_minus_left)
  then have "micros_from_nanos (r * 1000) = r" by (simp add: micros_from_nanos_def)
  then show ?thesis
    using tp(1) d by (simp add: micros_from_proto_def n s r_def)
qed

lemma metadata_from_to:
  "in_sint 64 (captured_at m) \<Longrightarrow> metadata_from_proto (metadata_to_proto m) = Inr m"
  by (simp add: metadata_from_proto_def metadata_to_proto_def time_from_to)

interpretation micros_codec: proto_codec micros_to_proto micros_from_proto "in_sint 64"
  by unfold_locales (rule micros_from_to)

text \<open>The rounding of sub-microsecond parts: away from zero, by less than a microsecond.\<close>

lemma micros_rounding_nonneg:
  assumes "0 \<le> (n :: int)"
  shows "\<exists>q r. n = q * 1000 + r \<and> 0 \<le> q \<and> 0 \<le> r \<and> r < 1000
              \<and> micros_from_nanos n = (if r = 0 then q else q + 1)"
proof (intro exI conjI)
  define q r where "q = n div 1000" and "r = n mod 1000"
  show n: "n = q * 1000 + r" and q: "0 \<le> q" and r: "0 \<le> r" "r < 1000"
    using assms by (simp_all add: q_def r_def pos_imp_zdiv_nonneg_iff)
  have s: "n sdiv 1000 = q" using assms by (simp add: sdiv_nonneg q_def)
  show "micros_from_nanos n = (if r = 0 then q else q + 1)"
    unfolding micros_from_nanos_def Let_def s
    by (subst (1 2 3 4) n) (use q r in simp)
qed

lemma micros_from_nanos_neg: "micros_from_nanos (- n) = - micros_from_nanos n"
proof (cases n "0 :: int" rule: linorder_cases)
  case less
  then have s: "n sdiv 1000 = - ((- n) sdiv 1000)" by (simp add: sdiv_neg sdiv_nonneg)
  show ?thesis unfolding micros_from_nanos_def Let_def s using less by auto
next
  case greater
  then have s: "(- n) sdiv 1000 = - (n sdiv 1000)" by (simp add: sdiv_neg sdiv_nonneg)
  show ?thesis unfolding micros_from_nanos_def Let_def s using greater by auto
qed (simp add: micros_from_nanos_def)

lemma micros_rounding:
  "\<bar>n\<bar> \<le> \<bar>micros_from_nanos n * 1000\<bar> \<and> \<bar>micros_from_nanos n * 1000\<bar> < \<bar>n\<bar> + 1000
   \<and> sgn (micros_from_nanos n) = sgn n"
proof -
  have pos: "\<bar>m\<bar> \<le> \<bar>micros_from_nanos m * 1000\<bar> \<and> \<bar>micros_from_nanos m * 1000\<bar> < \<bar>m\<bar> + 1000
             \<and> sgn (micros_from_nanos m) = sgn m" if m: "0 \<le> m" for m
  proof -
    from micros_rounding_nonneg[OF m] obtain q r
      where qr: "m = q * 1000 + r" "0 \<le> q" "0 \<le> r" "r < 1000"
        and f: "micros_from_nanos m = (if r = 0 then q else q + 1)" by blast
    show ?thesis unfolding f using qr by (cases "r = 0") (auto simp: sgn_if)
  qed
  show ?thesis
  proof (cases "0 \<le> n")
    case False
    then have "0 \<le> - n" by simp
    from pos[OF this] show ?thesis by (simp add: micros_from_nanos_neg sgn_minus)
  qed (rule pos)
qed

lemma unat_of_char [simp]: "char_of (unat (of_char c :: byte)) = c"
proof -
  have "unat (of_char c :: byte) = (of_char c :: nat)"
  proof -
    have "unat (of_char c :: byte) = unat (of_nat (of_char c) :: byte)" by (simp only: of_nat_of_char)
    also have "\<dots> = of_char c mod 256" by (simp add: unat_of_nat del: of_nat_of_char)
    finally show ?thesis by simp
  qed
  then show ?thesis by simp
qed

lemma of_char_unat [simp]: "of_char (char_of (unat b)) = (b :: byte)"
proof -
  have "(of_nat (of_char (char_of (unat b) :: char)) :: byte) = b"
    using unat_byte_less[of b] by (simp del: of_nat_of_char)
  then show ?thesis by (simp only: of_nat_of_char)
qed

lemma bytes_string_inverse [simp]: "string_to_bytes (bytes_to_string bs) = bs"
  by (induction bs) (simp_all add: string_to_bytes_def bytes_to_string_def)

lemma string_bytes_inverse [simp]: "bytes_to_string (string_to_bytes s) = s"
  by (induction s) (auto simp: string_to_bytes_def bytes_to_string_def)

lemma env_exclusive: "\<not> (is_env_var_true env v \<and> is_env_var_false env v)"
  by (auto simp: is_env_var_true_def is_env_var_false_def split: option.splits)

lemma debug_entry_lookup:
  "map_of (add_debug_entry m key) debug_map_key =
     (case map_of m debug_map_key of None \<Rightarrow> Some (PString key) | Some v \<Rightarrow> Some v)"
  by (auto simp: add_debug_entry_def map_of_emplace dest: map_of_in_akeys split: option.splits)

end
