(* ===== verification/Spatial.thy ===== *)
theory Spatial
  imports Utils Doubles
begin

text \<open>
  \<^verbatim>\<open>spatialmath/\<close>, \<^verbatim>\<open>common/pose.cpp\<close>, \<^verbatim>\<open>common/linear_algebra.cpp\<close>, \<^verbatim>\<open>common/mesh.cpp\<close>,
  \<^verbatim>\<open>common/world_state.cpp\<close> and \<^verbatim>\<open>referenceframe/frame.cpp\<close>: poses, orientations, geometries,
  world states and link frames, their equality operators and their conversions. A message is a
  record; a submessage is an option, \<open>None\<close> when unset, read as the default instance.
\<close>

subsection \<open>Vectors, poses\<close>

datatype vector3 = Vector3 (v3_x: double) (v3_y: double) (v3_z: double)

definition v3_set_x :: "vector3 \<Rightarrow> double \<Rightarrow> vector3" where
  "v3_set_x v d = Vector3 d (v3_y v) (v3_z v)"

definition v3_set_y :: "vector3 \<Rightarrow> double \<Rightarrow> vector3" where
  "v3_set_y v d = Vector3 (v3_x v) d (v3_z v)"

definition v3_set_z :: "vector3 \<Rightarrow> double \<Rightarrow> vector3" where
  "v3_set_z v d = Vector3 (v3_x v) (v3_y v) d"

record pb_vector3 =
  pv3_x :: double
  pv3_y :: double
  pv3_z :: double

definition vector3_to_proto :: "vector3 \<Rightarrow> pb_vector3" where
  [conv_defs]: "vector3_to_proto v = \<lparr>pv3_x = v3_x v, pv3_y = v3_y v, pv3_z = v3_z v\<rparr>"

definition vector3_from_proto :: "pb_vector3 \<Rightarrow> vector3" where
  [conv_defs]: "vector3_from_proto p = Vector3 (pv3_x p) (pv3_y p) (pv3_z p)"

definition pb_vector3_default :: pb_vector3 where
  "pb_vector3_default = \<lparr>pv3_x = 0, pv3_y = 0, pv3_z = 0\<rparr>"

record coordinates =
  co_x :: double
  co_y :: double
  co_z :: double

record pose_orientation =
  o_x :: double
  o_y :: double
  o_z :: double

record pose =
  ps_coordinates :: coordinates
  ps_orientation :: pose_orientation
  ps_theta :: double

record pose_in_frame =
  pif_reference_frame :: string
  pif_pose :: pose

record pb_pose =
  pp_x :: double
  pp_y :: double
  pp_z :: double
  pp_o_x :: double
  pp_o_y :: double
  pp_o_z :: double
  pp_theta :: double

record pb_pose_in_frame =
  ppf_reference_frame :: string
  ppf_pose :: "pb_pose option"

definition pose_default :: pose where
  "pose_default =
     \<lparr>ps_coordinates = \<lparr>co_x = 0, co_y = 0, co_z = 0\<rparr>,
      ps_orientation = \<lparr>o_x = 0, o_y = 0, o_z = 0\<rparr>, ps_theta = 0\<rparr>"

definition pb_pose_default :: pb_pose where
  "pb_pose_default =
     \<lparr>pp_x = 0, pp_y = 0, pp_z = 0, pp_o_x = 0, pp_o_y = 0, pp_o_z = 0, pp_theta = 0\<rparr>"

definition pose_to_proto :: "pose \<Rightarrow> pb_pose" where
  [conv_defs]: "pose_to_proto p =
     \<lparr>pp_x = co_x (ps_coordinates p), pp_y = co_y (ps_coordinates p), pp_z = co_z (ps_coordinates p),
      pp_o_x = o_x (ps_orientation p), pp_o_y = o_y (ps_orientation p),
      pp_o_z = o_z (ps_orientation p), pp_theta = ps_theta p\<rparr>"

definition pose_from_proto :: "pb_pose \<Rightarrow> pose" where
  [conv_defs]: "pose_from_proto p =
     \<lparr>ps_coordinates = \<lparr>co_x = pp_x p, co_y = pp_y p, co_z = pp_z p\<rparr>,
      ps_orientation = \<lparr>o_x = pp_o_x p, o_y = pp_o_y p, o_z = pp_o_z p\<rparr>,
      ps_theta = pp_theta p\<rparr>"

definition submsg :: "'p \<Rightarrow> 'p option \<Rightarrow> 'p" where
  "submsg d f = (case f of None \<Rightarrow> d | Some p \<Rightarrow> p)"

lemma submsg_simps [simp]: "submsg d (Some p) = p" "submsg d None = d"
  by (simp_all add: submsg_def)

definition pose_in_frame_to_proto :: "pose_in_frame \<Rightarrow> pb_pose_in_frame" where
  [conv_defs]: "pose_in_frame_to_proto p =
     \<lparr>ppf_reference_frame = pif_reference_frame p, ppf_pose = Some (pose_to_proto (pif_pose p))\<rparr>"

definition pose_in_frame_from_proto :: "pb_pose_in_frame \<Rightarrow> pose_in_frame" where
  [conv_defs]: "pose_in_frame_from_proto p =
     \<lparr>pif_reference_frame = ppf_reference_frame p,
      pif_pose = pose_from_proto (submsg pb_pose_default (ppf_pose p))\<rparr>"

definition coordinates_eq :: "coordinates \<Rightarrow> coordinates \<Rightarrow> bool" where
  "coordinates_eq l r \<longleftrightarrow> dbl_eq (co_x l) (co_x r) \<and> dbl_eq (co_y l) (co_y r) \<and> dbl_eq (co_z l) (co_z r)"

definition pose_orientation_eq :: "pose_orientation \<Rightarrow> pose_orientation \<Rightarrow> bool" where
  "pose_orientation_eq l r \<longleftrightarrow> dbl_eq (o_x l) (o_x r) \<and> dbl_eq (o_y l) (o_y r) \<and> dbl_eq (o_z l) (o_z r)"

definition pose_eq :: "pose \<Rightarrow> pose \<Rightarrow> bool" where
  "pose_eq l r \<longleftrightarrow>
     coordinates_eq (ps_coordinates l) (ps_coordinates r)
     \<and> pose_orientation_eq (ps_orientation l) (ps_orientation r) \<and> dbl_eq (ps_theta l) (ps_theta r)"

definition pose_in_frame_eq :: "pose_in_frame \<Rightarrow> pose_in_frame \<Rightarrow> bool" where
  "pose_in_frame_eq l r \<longleftrightarrow>
     pose_eq (pif_pose l) (pif_pose r) \<and> pif_reference_frame l = pif_reference_frame r"

subsection \<open>Orientations\<close>

record axis_angles = aa_x :: double aa_y :: double aa_z :: double aa_theta :: double

record euler_angles = ea_yaw :: double ea_roll :: double ea_pitch :: double

record orientation_vector = ov_x :: double ov_y :: double ov_z :: double ov_theta :: double

record orientation_vector_degrees =
  ovd_x :: double ovd_y :: double ovd_z :: double ovd_theta :: double

record quaternion = q_x :: double q_y :: double q_z :: double q_w :: double

record translation = tr_x :: double tr_y :: double tr_z :: double

datatype orientation =
    O_quaternion quaternion
  | O_axis_angles axis_angles
  | O_vector orientation_vector
  | O_vector_degrees orientation_vector_degrees
  | O_euler euler_angles

datatype orientation_type =
  T_AxisAngles | T_OrientationVector | T_OrientationVectorDegrees | T_EulerAngles | T_Quaternion

fun get_type :: "orientation \<Rightarrow> orientation_type" where
  "get_type (O_quaternion q) = T_Quaternion"
| "get_type (O_axis_angles a) = T_AxisAngles"
| "get_type (O_vector v) = T_OrientationVector"
| "get_type (O_vector_degrees v) = T_OrientationVectorDegrees"
| "get_type (O_euler e) = T_EulerAngles"

text \<open>The default-constructed variant: a quaternion of zeros.\<close>

definition orientation_default :: orientation where
  "orientation_default = O_quaternion \<lparr>q_x = 0, q_y = 0, q_z = 0, q_w = 0\<rparr>"

text \<open>The \<^verbatim>\<open>Orientation\<close> message: a oneof of submessages, with the arguments in the order
  \<^verbatim>\<open>x y z theta\<close>, \<^verbatim>\<open>yaw pitch roll\<close>, \<^verbatim>\<open>w x y z\<close>.\<close>

datatype pb_orientation =
    PO_not_set
  | PO_no_orientation
  | PO_axis_angles double double double double
  | PO_vector_radians double double double double
  | PO_vector_degrees double double double double
  | PO_euler_angles double double double
  | PO_quaternion double double double double

fun orientation_to_proto :: "orientation \<Rightarrow> pb_orientation" where
  "orientation_to_proto (O_axis_angles a) = PO_axis_angles (aa_x a) (aa_y a) (aa_z a) (aa_theta a)"
| "orientation_to_proto (O_vector v) = PO_vector_radians (ov_x v) (ov_y v) (ov_z v) (ov_theta v)"
| "orientation_to_proto (O_vector_degrees v) =
     PO_vector_degrees (ovd_x v) (ovd_y v) (ovd_z v) (ovd_theta v)"
| "orientation_to_proto (O_euler e) = PO_euler_angles (ea_yaw e) (ea_pitch e) (ea_roll e)"
| "orientation_to_proto (O_quaternion q) = PO_quaternion (q_w q) (q_x q) (q_y q) (q_z q)"

definition dbl_one :: double where
  "dbl_one = dbl_of_int 1"

fun orientation_from_proto :: "pb_orientation \<Rightarrow> orientation res" where
  "orientation_from_proto (PO_axis_angles x y z t) =
     Inr (O_axis_angles \<lparr>aa_x = x, aa_y = y, aa_z = z, aa_theta = t\<rparr>)"
| "orientation_from_proto (PO_euler_angles yaw pitch roll) =
     Inr (O_euler \<lparr>ea_yaw = yaw, ea_roll = roll, ea_pitch = pitch\<rparr>)"
| "orientation_from_proto (PO_quaternion w x y z) =
     Inr (O_quaternion \<lparr>q_x = x, q_y = y, q_z = z, q_w = w\<rparr>)"
| "orientation_from_proto (PO_vector_degrees x y z t) =
     Inr (O_vector_degrees \<lparr>ovd_x = x, ovd_y = y, ovd_z = z, ovd_theta = t\<rparr>)"
| "orientation_from_proto (PO_vector_radians x y z t) =
     Inr (O_vector \<lparr>ov_x = x, ov_y = y, ov_z = z, ov_theta = t\<rparr>)"
| "orientation_from_proto PO_no_orientation =
     Inr (O_quaternion \<lparr>q_x = 0, q_y = 0, q_z = 0, q_w = dbl_one\<rparr>)"
| "orientation_from_proto PO_not_set =
     Inl (sdk_exception K_not_supported ''orientation type not known'')"

fun orientation_eq :: "orientation \<Rightarrow> orientation \<Rightarrow> bool" where
  "orientation_eq (O_quaternion l) (O_quaternion r) \<longleftrightarrow>
     dbl_eq (q_x l) (q_x r) \<and> dbl_eq (q_y l) (q_y r) \<and> dbl_eq (q_z l) (q_z r) \<and> dbl_eq (q_w l) (q_w r)"
| "orientation_eq (O_axis_angles l) (O_axis_angles r) \<longleftrightarrow>
     dbl_eq (aa_x l) (aa_x r) \<and> dbl_eq (aa_y l) (aa_y r) \<and> dbl_eq (aa_z l) (aa_z r)
     \<and> dbl_eq (aa_theta l) (aa_theta r)"
| "orientation_eq (O_vector l) (O_vector r) \<longleftrightarrow>
     dbl_eq (ov_x l) (ov_x r) \<and> dbl_eq (ov_y l) (ov_y r) \<and> dbl_eq (ov_z l) (ov_z r)
     \<and> dbl_eq (ov_theta l) (ov_theta r)"
| "orientation_eq (O_vector_degrees l) (O_vector_degrees r) \<longleftrightarrow>
     dbl_eq (ovd_x l) (ovd_x r) \<and> dbl_eq (ovd_y l) (ovd_y r) \<and> dbl_eq (ovd_z l) (ovd_z r)
     \<and> dbl_eq (ovd_theta l) (ovd_theta r)"
| "orientation_eq (O_euler l) (O_euler r) \<longleftrightarrow>
     dbl_eq (ea_yaw l) (ea_yaw r) \<and> dbl_eq (ea_roll l) (ea_roll r) \<and> dbl_eq (ea_pitch l) (ea_pitch r)"
| "orientation_eq l r \<longleftrightarrow> False"

record pb_translation = pt_x :: double pt_y :: double pt_z :: double

definition translation_to_proto :: "translation \<Rightarrow> pb_translation" where
  [conv_defs]: "translation_to_proto t = \<lparr>pt_x = tr_x t, pt_y = tr_y t, pt_z = tr_z t\<rparr>"

definition translation_from_proto :: "pb_translation \<Rightarrow> translation" where
  [conv_defs]: "translation_from_proto p = \<lparr>tr_x = pt_x p, tr_y = pt_y p, tr_z = pt_z p\<rparr>"

subsection \<open>Geometries\<close>

record box = bx_x :: double bx_y :: double bx_z :: double

record sphere = sp_radius :: double

record capsule = cp_radius :: double cp_length :: double

record mesh =
  me_content_type :: string
  me_data :: "byte list"
  me_path :: "string option"

record pb_mesh =
  pm_content_type :: string
  pm_mesh :: string
  pm_path :: "string option"

definition mesh_to_proto :: "mesh \<Rightarrow> pb_mesh" where
  [conv_defs]: "mesh_to_proto m =
     \<lparr>pm_content_type = me_content_type m, pm_mesh = bytes_to_string (me_data m),
      pm_path = (case me_path m of Some s \<Rightarrow> Some s | None \<Rightarrow> None)\<rparr>"

definition mesh_from_proto :: "pb_mesh \<Rightarrow> mesh" where
  [conv_defs]: "mesh_from_proto p =
     \<lparr>me_content_type = pm_content_type p, me_data = string_to_bytes (pm_mesh p),
      me_path = (case pm_path p of Some s \<Rightarrow> Some s | None \<Rightarrow> None)\<rparr>"

definition mesh_eq :: "mesh \<Rightarrow> mesh \<Rightarrow> bool" where
  "mesh_eq l r \<longleftrightarrow>
     me_content_type l = me_content_type r \<and> me_data l = me_data r \<and> me_path l = me_path r"

datatype geometry_specifics = G_box box | G_sphere sphere | G_capsule capsule | G_mesh mesh

datatype geometry_type = GT_box | GT_sphere | GT_point | GT_capsule | GT_mesh

record geometry_config =
  gc_pose :: pose
  gc_specifics :: geometry_specifics
  gc_orientation :: orientation
  gc_label :: string

definition geometry_default :: geometry_config where
  "geometry_default =
     \<lparr>gc_pose = pose_default, gc_specifics = G_box \<lparr>bx_x = 0, bx_y = 0, bx_z = 0\<rparr>,
      gc_orientation = orientation_default, gc_label = []\<rparr>"

definition mk_geometry :: "pose \<Rightarrow> geometry_specifics \<Rightarrow> string \<Rightarrow> geometry_config" where
  "mk_geometry p gs label =
     \<lparr>gc_pose = p, gc_specifics = gs, gc_orientation = orientation_default, gc_label = label\<rparr>"

definition get_geometry_type :: "geometry_config \<Rightarrow> geometry_type" where
  "get_geometry_type g =
     (case gc_specifics g of
        G_box b \<Rightarrow> GT_box
      | G_sphere s \<Rightarrow> (if dbl_eq (sp_radius s) 0 then GT_point else GT_sphere)
      | G_capsule c \<Rightarrow> GT_capsule
      | G_mesh m \<Rightarrow> GT_mesh)"

definition box_eq :: "box \<Rightarrow> box \<Rightarrow> bool" where
  "box_eq l r \<longleftrightarrow> dbl_eq (bx_x l) (bx_x r) \<and> dbl_eq (bx_y l) (bx_y r) \<and> dbl_eq (bx_z l) (bx_z r)"

definition sphere_eq :: "sphere \<Rightarrow> sphere \<Rightarrow> bool" where
  "sphere_eq l r \<longleftrightarrow> dbl_eq (sp_radius l) (sp_radius r)"

definition capsule_eq :: "capsule \<Rightarrow> capsule \<Rightarrow> bool" where
  "capsule_eq l r \<longleftrightarrow> dbl_eq (cp_radius l) (cp_radius r) \<and> dbl_eq (cp_length l) (cp_length r)"

fun specifics_eq :: "geometry_specifics \<Rightarrow> geometry_specifics \<Rightarrow> bool" where
  "specifics_eq (G_box l) (G_box r) = box_eq l r"
| "specifics_eq (G_sphere l) (G_sphere r) = sphere_eq l r"
| "specifics_eq (G_capsule l) (G_capsule r) = capsule_eq l r"
| "specifics_eq (G_mesh l) (G_mesh r) = mesh_eq l r"
| "specifics_eq l r = False"

text \<open>\<^verbatim>\<open>operator==\<close> compares neither the angle of the pose nor the orientation.\<close>

definition geometry_eq :: "geometry_config \<Rightarrow> geometry_config \<Rightarrow> bool" where
  "geometry_eq l r \<longleftrightarrow>
     coordinates_eq (ps_coordinates (gc_pose l)) (ps_coordinates (gc_pose r))
     \<and> pose_orientation_eq (ps_orientation (gc_pose l)) (ps_orientation (gc_pose r))
     \<and> gc_label l = gc_label r \<and> specifics_eq (gc_specifics l) (gc_specifics r)"

text \<open>The \<^verbatim>\<open>Geometry\<close> message; a rectangular prism holds a vector submessage.\<close>

record pb_prism = dims_mm :: "pb_vector3 option"

record pb_sphere = radius_mm :: double

record pb_capsule = cap_radius_mm :: double cap_length_mm :: double

datatype pb_geometry_type =
  PG_not_set | PG_box pb_prism | PG_sphere pb_sphere | PG_capsule pb_capsule | PG_mesh pb_mesh

record pb_geometry =
  pg_type :: pb_geometry_type
  pg_label :: string
  pg_center :: "pb_pose option"

definition box_to_proto :: "box \<Rightarrow> pb_prism" where
  [conv_defs]: "box_to_proto b = \<lparr>dims_mm = Some (vector3_to_proto (Vector3 (bx_x b) (bx_y b) (bx_z b)))\<rparr>"

definition box_from_proto :: "pb_prism \<Rightarrow> box" where
  [conv_defs]: "box_from_proto p =
     (let dims = submsg pb_vector3_default (dims_mm p)
      in \<lparr>bx_x = pv3_x dims, bx_y = pv3_y dims, bx_z = pv3_z dims\<rparr>)"

definition sphere_to_proto :: "sphere \<Rightarrow> pb_sphere" where
  [conv_defs]: "sphere_to_proto s = \<lparr>radius_mm = sp_radius s\<rparr>"

definition sphere_from_proto :: "pb_sphere \<Rightarrow> sphere" where
  [conv_defs]: "sphere_from_proto p = \<lparr>sp_radius = radius_mm p\<rparr>"

definition capsule_to_proto :: "capsule \<Rightarrow> pb_capsule" where
  [conv_defs]: "capsule_to_proto c = \<lparr>cap_radius_mm = cp_radius c, cap_length_mm = cp_length c\<rparr>"

definition capsule_from_proto :: "pb_capsule \<Rightarrow> capsule" where
  [conv_defs]: "capsule_from_proto p = \<lparr>cp_radius = cap_radius_mm p, cp_length = cap_length_mm p\<rparr>"

definition geometry_to_proto :: "geometry_config \<Rightarrow> pb_geometry" where
  "geometry_to_proto g =
     \<lparr>pg_type =
        (case gc_specifics g of
           G_box b \<Rightarrow> PG_box (box_to_proto b)
         | G_sphere s \<Rightarrow> PG_sphere (sphere_to_proto s)
         | G_capsule c \<Rightarrow> PG_capsule (capsule_to_proto c)
         | G_mesh m \<Rightarrow> PG_mesh (mesh_to_proto m)),
      pg_label = gc_label g, pg_center = Some (pose_to_proto (gc_pose g))\<rparr>"

definition geometry_from_proto :: "pb_geometry \<Rightarrow> geometry_config res" where
  "geometry_from_proto p =
     rbind
       (case pg_type p of
          PG_box b \<Rightarrow> Inr (G_box (box_from_proto b))
        | PG_sphere s \<Rightarrow> Inr (G_sphere (sphere_from_proto s))
        | PG_capsule c \<Rightarrow> Inr (G_capsule (capsule_from_proto c))
        | PG_mesh m \<Rightarrow> Inr (G_mesh (mesh_from_proto m))
        | PG_not_set \<Rightarrow> Inl (sdk_exception K_not_supported ''Geometry type is not supported''))
       (\<lambda>gs. Inr (mk_geometry (pose_from_proto (submsg pb_pose_default (pg_center p))) gs (pg_label p)))"

subsection \<open>Geographic points and world states\<close>

record geo_point = longitude :: double latitude :: double

record geo_geometry =
  gg_location :: geo_point
  gg_geometries :: "geometry_config list"

record pb_geo_point = gp_latitude :: double gp_longitude :: double

record pb_geo_geometry =
  pgg_location :: "pb_geo_point option"
  pgg_geometries :: "pb_geometry list"

definition geo_point_to_proto :: "geo_point \<Rightarrow> pb_geo_point" where
  [conv_defs]: "geo_point_to_proto g = \<lparr>gp_latitude = latitude g, gp_longitude = longitude g\<rparr>"

definition geo_point_from_proto :: "pb_geo_point \<Rightarrow> geo_point" where
  [conv_defs]: "geo_point_from_proto p = \<lparr>longitude = gp_longitude p, latitude = gp_latitude p\<rparr>"

definition pb_geo_point_default :: pb_geo_point where
  "pb_geo_point_default = \<lparr>gp_latitude = 0, gp_longitude = 0\<rparr>"

definition geo_geometry_to_proto :: "geo_geometry \<Rightarrow> pb_geo_geometry" where
  "geo_geometry_to_proto g =
     \<lparr>pgg_location = Some (geo_point_to_proto (gg_location g)),
      pgg_geometries = map geometry_to_proto (gg_geometries g)\<rparr>"

definition geo_geometry_from_proto :: "pb_geo_geometry \<Rightarrow> geo_geometry res" where
  "geo_geometry_from_proto p =
     rbind (mapM geometry_from_proto (pgg_geometries p)) (\<lambda>gs.
       Inr \<lparr>gg_location = geo_point_from_proto (submsg pb_geo_point_default (pgg_location p)),
            gg_geometries = gs\<rparr>)"

definition geo_point_eq :: "geo_point \<Rightarrow> geo_point \<Rightarrow> bool" where
  "geo_point_eq l r \<longleftrightarrow> dbl_eq (latitude l) (latitude r) \<and> dbl_eq (longitude l) (longitude r)"

definition geo_geometry_eq :: "geo_geometry \<Rightarrow> geo_geometry \<Rightarrow> bool" where
  "geo_geometry_eq l r \<longleftrightarrow>
     geo_point_eq (gg_location l) (gg_location r)
     \<and> list_all2 geometry_eq (gg_geometries l) (gg_geometries r)"

definition get_geometries_response_from_proto :: "pb_geometry list \<Rightarrow> geometry_config list res" where
  "get_geometries_response_from_proto gs = mapM geometry_from_proto gs"

record geometries_in_frame =
  gif_geometries :: "geometry_config list"
  gif_reference_frame :: string

record transform =
  tf_reference_frame :: string
  tf_pose_in_observer_frame :: pose_in_frame
  tf_physical_object :: "geometry_config option"

record world_state =
  ws_obstacles :: "geometries_in_frame list"
  ws_transforms :: "transform list"

record pb_geometries_in_frame =
  pgf_geometries :: "pb_geometry list"
  pgf_reference_frame :: string

record pb_transform =
  ptf_reference_frame :: string
  ptf_pose :: "pb_pose_in_frame option"
  ptf_physical_object :: "pb_geometry option"

record pb_world_state =
  pws_obstacles :: "pb_geometries_in_frame list"
  pws_transforms :: "pb_transform list"

definition gif_to_proto :: "geometries_in_frame \<Rightarrow> pb_geometries_in_frame" where
  "gif_to_proto g =
     \<lparr>pgf_geometries = map geometry_to_proto (gif_geometries g),
      pgf_reference_frame = gif_reference_frame g\<rparr>"

definition gif_from_proto :: "pb_geometries_in_frame \<Rightarrow> geometries_in_frame res" where
  "gif_from_proto p =
     rbind (mapM geometry_from_proto (pgf_geometries p)) (\<lambda>gs.
       Inr \<lparr>gif_geometries = gs, gif_reference_frame = pgf_reference_frame p\<rparr>)"

definition transform_to_proto :: "transform \<Rightarrow> pb_transform" where
  "transform_to_proto t =
     \<lparr>ptf_reference_frame = tf_reference_frame t,
      ptf_pose = Some (pose_in_frame_to_proto (tf_pose_in_observer_frame t)),
      ptf_physical_object =
        (case tf_physical_object t of Some g \<Rightarrow> Some (geometry_to_proto g) | None \<Rightarrow> None)\<rparr>"

definition transform_from_proto :: "pb_transform \<Rightarrow> transform res" where
  "transform_from_proto p =
     rbind (case ptf_physical_object p of
              Some g \<Rightarrow> rmap Some (geometry_from_proto g) | None \<Rightarrow> Inr None) (\<lambda>po.
       Inr \<lparr>tf_reference_frame = ptf_reference_frame p,
            tf_pose_in_observer_frame = pose_in_frame_from_proto
              (submsg \<lparr>ppf_reference_frame = [], ppf_pose = None\<rparr> (ptf_pose p)),
            tf_physical_object = po\<rparr>)"

definition world_state_to_proto :: "world_state \<Rightarrow> pb_world_state" where
  "world_state_to_proto w =
     \<lparr>pws_obstacles = map gif_to_proto (ws_obstacles w),
      pws_transforms = map transform_to_proto (ws_transforms w)\<rparr>"

definition world_state_from_proto :: "pb_world_state \<Rightarrow> world_state res" where
  "world_state_from_proto p =
     rbind (mapM gif_from_proto (pws_obstacles p)) (\<lambda>obs.
     rbind (mapM transform_from_proto (pws_transforms p)) (\<lambda>tfs.
       Inr \<lparr>ws_obstacles = obs, ws_transforms = tfs\<rparr>))"

definition gif_eq :: "geometries_in_frame \<Rightarrow> geometries_in_frame \<Rightarrow> bool" where
  "gif_eq l r \<longleftrightarrow>
     gif_reference_frame l = gif_reference_frame r
     \<and> list_all2 geometry_eq (gif_geometries l) (gif_geometries r)"

definition transform_eq :: "transform \<Rightarrow> transform \<Rightarrow> bool" where
  "transform_eq l r \<longleftrightarrow>
     tf_reference_frame l = tf_reference_frame r
     \<and> pose_in_frame_eq (tf_pose_in_observer_frame l) (tf_pose_in_observer_frame r)
     \<and> rel_option geometry_eq (tf_physical_object l) (tf_physical_object r)"

definition world_state_eq :: "world_state \<Rightarrow> world_state \<Rightarrow> bool" where
  "world_state_eq l r \<longleftrightarrow>
     list_all2 gif_eq (ws_obstacles l) (ws_obstacles r)
     \<and> list_all2 transform_eq (ws_transforms l) (ws_transforms r)"

subsection \<open>Link frames\<close>

record link_config =
  lc_translation :: translation
  lc_orientation :: orientation
  lc_geometry :: geometry_config
  lc_parent :: string

definition link_default :: link_config where
  "link_default =
     \<lparr>lc_translation = \<lparr>tr_x = 0, tr_y = 0, tr_z = 0\<rparr>, lc_orientation = orientation_default,
      lc_geometry = geometry_default, lc_parent = []\<rparr>"

record pb_frame =
  pf_parent :: string
  pf_translation :: "pb_translation option"
  pf_orientation :: "pb_orientation option"
  pf_geometry :: "pb_geometry option"

definition link_to_proto :: "link_config \<Rightarrow> pb_frame" where
  "link_to_proto l =
     \<lparr>pf_parent = lc_parent l, pf_translation = Some (translation_to_proto (lc_translation l)),
      pf_orientation = Some (orientation_to_proto (lc_orientation l)),
      pf_geometry = Some (geometry_to_proto (lc_geometry l))\<rparr>"

definition link_from_proto :: "pb_frame \<Rightarrow> link_config res" where
  "link_from_proto p =
     rbind (case pf_orientation p of
              Some ori \<Rightarrow> orientation_from_proto ori | None \<Rightarrow> Inr orientation_default) (\<lambda>ori.
     rbind (case pf_geometry p of
              Some g \<Rightarrow> geometry_from_proto g | None \<Rightarrow> Inr geometry_default) (\<lambda>g.
       Inr \<lparr>lc_translation = translation_from_proto
              (submsg \<lparr>pt_x = 0, pt_y = 0, pt_z = 0\<rparr> (pf_translation p)),
            lc_orientation = ori, lc_geometry = g, lc_parent = pf_parent p\<rparr>))"

subsection \<open>Lemmas: conversions\<close>

interpretation vector3_codec: total_codec vector3_to_proto vector3_from_proto
  by unfold_locales (simp add: conv_defs)

interpretation pose_codec: total_codec pose_to_proto pose_from_proto
  by unfold_locales (simp add: conv_defs)

interpretation pose_in_frame_codec: total_codec pose_in_frame_to_proto pose_in_frame_from_proto
  by unfold_locales (simp add: conv_defs)

interpretation translation_codec: total_codec translation_to_proto translation_from_proto
  by unfold_locales (simp add: conv_defs)

interpretation mesh_codec: total_codec mesh_to_proto mesh_from_proto
  by unfold_locales (simp add: conv_defs split: option.split)

interpretation box_codec: total_codec box_to_proto box_from_proto
  by unfold_locales (simp add: conv_defs)

interpretation sphere_codec: total_codec sphere_to_proto sphere_from_proto
  by unfold_locales (simp add: conv_defs)

interpretation capsule_codec: total_codec capsule_to_proto capsule_from_proto
  by unfold_locales (simp add: conv_defs)

interpretation geo_point_codec: total_codec geo_point_to_proto geo_point_from_proto
  by unfold_locales (simp add: conv_defs)

lemma orientation_from_to: "orientation_from_proto (orientation_to_proto o') = Inr o'"
  by (cases o') simp_all

interpretation orientation_codec:
  proto_codec orientation_to_proto orientation_from_proto "\<lambda>_. True"
  by unfold_locales (rule orientation_from_to)

text \<open>The message has no place for the orientation of a geometry: it comes back as the default.\<close>

lemma geometry_from_to:
  "geometry_from_proto (geometry_to_proto g) = Inr (g\<lparr>gc_orientation := orientation_default\<rparr>)"
  by (cases "gc_specifics g")
    (simp_all add: geometry_from_proto_def geometry_to_proto_def mk_geometry_def
      box_codec.from_to_total sphere_codec.from_to_total capsule_codec.from_to_total
      mesh_codec.from_to_total pose_codec.from_to_total)

definition geometry_plain :: "geometry_config \<Rightarrow> bool" where
  "geometry_plain g \<longleftrightarrow> gc_orientation g = orientation_default"

interpretation geometry_codec: proto_codec geometry_to_proto geometry_from_proto geometry_plain
  by unfold_locales (simp add: geometry_from_to geometry_plain_def)

lemma geometry_from_proto_plain: "geometry_from_proto p = Inr g \<Longrightarrow> geometry_plain g"
  by (auto simp: geometry_from_proto_def mk_geometry_def geometry_plain_def result_simps)

lemma geo_geometry_from_to:
  "\<forall>g\<in>set (gg_geometries x). geometry_plain g \<Longrightarrow>
   geo_geometry_from_proto (geo_geometry_to_proto x) = Inr x"
  by (simp add: geo_geometry_from_proto_def geo_geometry_to_proto_def
      geometry_codec.repeated_from_to geo_point_codec.from_to_total)

definition gif_plain :: "geometries_in_frame \<Rightarrow> bool" where
  "gif_plain g \<longleftrightarrow> (\<forall>x\<in>set (gif_geometries g). geometry_plain x)"

interpretation gif_codec: proto_codec gif_to_proto gif_from_proto gif_plain
  by unfold_locales
    (simp add: gif_from_proto_def gif_to_proto_def gif_plain_def geometry_codec.repeated_from_to)

definition transform_plain :: "transform \<Rightarrow> bool" where
  "transform_plain t \<longleftrightarrow> pred_option geometry_plain (tf_physical_object t)"

interpretation transform_codec: proto_codec transform_to_proto transform_from_proto transform_plain
  by unfold_locales
    (auto simp: transform_from_proto_def transform_to_proto_def transform_plain_def
      pose_in_frame_codec.from_to_total geometry_codec.from_to split: option.split)

definition world_state_plain :: "world_state \<Rightarrow> bool" where
  "world_state_plain w \<longleftrightarrow>
     (\<forall>g\<in>set (ws_obstacles w). gif_plain g) \<and> (\<forall>t\<in>set (ws_transforms w). transform_plain t)"

lemma world_state_from_to:
  "world_state_plain w \<Longrightarrow> world_state_from_proto (world_state_to_proto w) = Inr w"
  by (simp add: world_state_from_proto_def world_state_to_proto_def world_state_plain_def
      gif_codec.repeated_from_to transform_codec.repeated_from_to)

interpretation world_state_codec:
  proto_codec world_state_to_proto world_state_from_proto world_state_plain
  by unfold_locales (rule world_state_from_to)

lemma link_from_to:
  "geometry_plain (lc_geometry l) \<Longrightarrow> link_from_proto (link_to_proto l) = Inr l"
  by (simp add: link_from_proto_def link_to_proto_def orientation_from_to geometry_codec.from_to
      translation_codec.from_to_total)

interpretation link_codec:
  proto_codec link_to_proto link_from_proto "\<lambda>l. geometry_plain (lc_geometry l)"
  by unfold_locales (rule link_from_to)

text \<open>Equality of geometries is blind to the orientation, so the trip is invisible to it.\<close>

lemma geometry_eq_orientation: "geometry_eq (g\<lparr>gc_orientation := u\<rparr>) h = geometry_eq g h"
  by (simp add: geometry_eq_def)

lemma geometry_eq_theta:
  "geometry_eq (g\<lparr>gc_pose := (gc_pose g)\<lparr>ps_theta := t\<rparr>\<rparr>) h = geometry_eq g h"
  by (simp add: geometry_eq_def)

lemma zero_not_nan [simp]: "\<not> dbl_is_nan 0"
  by (simp add: dbl_is_nan_def dbl_exp_def dbl_frac_def)

lemma pose_default_proto: "pose_from_proto pb_pose_default = pose_default"
  by (simp add: conv_defs pb_pose_default_def pose_default_def)

lemma empty_frame_default:
  "link_from_proto \<lparr>pf_parent = [], pf_translation = None, pf_orientation = None, pf_geometry = None\<rparr>
   = Inr link_default"
  by (simp add: link_from_proto_def link_default_def conv_defs)

end
