(* ===== verification/Logging.thy ===== *)
theory Logging
  imports Utils
begin

text \<open>
  \<^verbatim>\<open>log/logging.cpp\<close>: log levels and their spelling, the filter that decides whether a record is
  written, the state of the log manager and its setters, and the shortening of file names. The
  sink itself (formatting and the output stream) belongs to Boost.Log and is not modelled; its
  filter is part of the state.
\<close>

subsection \<open>Levels\<close>

text \<open>\<^verbatim>\<open>enum class log_level : std::int8_t\<close>: any 8-bit value can be stored.\<close>

type_synonym log_level = int

definition ll_trace :: log_level where "ll_trace = - 2"
definition ll_debug :: log_level where "ll_debug = - 1"
definition ll_info :: log_level where "ll_info = 0"
definition ll_warn :: log_level where "ll_warn = 1"
definition ll_error :: log_level where "ll_error = 2"
definition ll_fatal :: log_level where "ll_fatal = 3"

lemmas log_levels = ll_trace_def ll_debug_def ll_info_def ll_warn_def ll_error_def ll_fatal_def

fun show_nat :: "nat \<Rightarrow> string" where
  "show_nat n =
     (if n < 10 then [char_of (48 + n)] else show_nat (n div 10) @ [char_of (48 + n mod 10)])"

declare show_nat.simps [simp del]

definition show_int :: "int \<Rightarrow> string" where
  "show_int i = (if i < 0 then CHR ''-'' # show_nat (nat (- i)) else show_nat (nat i))"

definition level_to_string :: "log_level \<Rightarrow> string" where
  "level_to_string l =
     (if l = ll_trace then ''trace''
      else if l = ll_debug then ''debug''
      else if l = ll_info then ''info''
      else if l = ll_warn then ''warning''
      else if l = ll_error \<or> l = ll_fatal then ''error''
      else show_int l)"

definition tolower :: "char \<Rightarrow> char" where
  "tolower c =
     (let n = (of_char c :: nat) in if 65 \<le> n \<and> n \<le> 90 then char_of (n + 32) else c)"

definition level_from_string :: "string \<Rightarrow> log_level" where
  "level_from_string s =
     (let level = map tolower s in
      if level = ''info'' then ll_info
      else if level = ''warn'' \<or> level = ''warning'' then ll_warn
      else if level = ''error'' then ll_error
      else if level = ''debug'' then ll_debug
      else if level = ''trace'' then ll_trace
      else if level = ''fatal'' then ll_fatal
      else ll_info)"

subsection \<open>The log manager\<close>

record log_attrs =
  at_severity :: "log_level option"
  at_module_tag :: bool
  at_channel :: "string option"
  at_console_force :: "bool option"

datatype console_filter = Filter_all | Filter_forced

record log_manager =
  sdk_channel :: string
  module_channel :: string
  module_tag_added :: bool
  console :: "console_filter option"
  global_level :: log_level
  module_level :: log_level
  resource_levels :: "(string \<times> log_level) list"

definition new_log_manager :: log_manager where
  "new_log_manager =
     \<lparr>sdk_channel = [], module_channel = [], module_tag_added = False, console = None,
      global_level = ll_info, module_level = ll_info, resource_levels = []\<rparr>"

definition log_filter :: "log_manager \<Rightarrow> log_attrs \<Rightarrow> bool" where
  "log_filter parent attrs =
     (case at_severity attrs of
        None \<Rightarrow> False
      | Some sev \<Rightarrow>
          if at_module_tag attrs then module_level parent \<le> sev
          else
            (case at_channel attrs of
               Some resource \<Rightarrow>
                 (case map_of (resource_levels parent) resource of
                    Some l \<Rightarrow> l \<le> sev
                  | None \<Rightarrow> global_level parent \<le> sev)
             | None \<Rightarrow> global_level parent \<le> sev))"

definition global_resource_name :: string where
  "global_resource_name = ''Viam C++ SDK''"

definition default_module_name :: string where
  "default_module_name = ''Viam C++ Module''"

definition set_global_resource_name :: "string \<Rightarrow> log_manager \<Rightarrow> log_manager" where
  "set_global_resource_name name m = m\<lparr>sdk_channel := name\<rparr>"

definition set_global_log_level :: "log_level \<Rightarrow> log_manager \<Rightarrow> log_manager" where
  "set_global_log_level l m = m\<lparr>global_level := l\<rparr>"

fun set_global_log_level_args :: "string list \<Rightarrow> log_manager \<Rightarrow> log_manager" where
  "set_global_log_level_args [] m = m"
| "set_global_log_level_args (a # argv) m =
     (if a = ''--log-level=debug'' then set_global_log_level ll_debug m
      else set_global_log_level_args argv m)"

definition set_module_name :: "string \<Rightarrow> log_manager \<Rightarrow> log_manager" where
  "set_module_name name m = m\<lparr>module_channel := name\<rparr>"

definition set_module_log_level :: "log_level \<Rightarrow> log_manager \<Rightarrow> log_manager" where
  "set_module_log_level l m = m\<lparr>module_level := l\<rparr>"

definition set_resource_log_level :: "string \<Rightarrow> log_level \<Rightarrow> log_manager \<Rightarrow> log_manager" where
  "set_resource_log_level resource l m = m\<lparr>resource_levels := aput resource l (resource_levels m)\<rparr>"

definition enable_console_logging :: "log_manager \<Rightarrow> log_manager" where
  "enable_console_logging m = m\<lparr>console := Some Filter_all\<rparr>"

definition disable_console_logging :: "log_manager \<Rightarrow> log_manager" where
  "disable_console_logging m = m\<lparr>console := Some Filter_forced\<rparr>"

definition init_logging :: "environment \<Rightarrow> log_manager \<Rightarrow> log_manager" where
  "init_logging env m =
     enable_console_logging
       (m\<lparr>sdk_channel := global_resource_name,
          module_channel :=
            (case env ''VIAM_MODULE_NAME'' of Some n \<Rightarrow> n | None \<Rightarrow> default_module_name),
          module_tag_added := True\<rparr>)"

text \<open>Whether a record reaches the console.\<close>

definition console_accepts :: "log_manager \<Rightarrow> log_attrs \<Rightarrow> bool" where
  "console_accepts m attrs =
     (case console m of
        None \<Rightarrow> False
      | Some Filter_all \<Rightarrow> log_filter m attrs
      | Some Filter_forced \<Rightarrow>
          (case at_console_force attrs of
             Some force \<Rightarrow> (if force then log_filter m attrs else False)
           | None \<Rightarrow> False))"

subsection \<open>File names\<close>

definition find_last_of :: "char \<Rightarrow> string \<Rightarrow> nat option" where
  "find_last_of c s =
     (if c \<in> set s then Some (length s - 1 - length (takeWhile (\<lambda>x. x \<noteq> c) (rev s))) else None)"

definition trim_filename :: "string \<Rightarrow> string" where
  "trim_filename result =
     (let prefix = (case find_last_of slash result of None \<Rightarrow> result | Some n \<Rightarrow> take n result)
      in case find_last_of slash prefix of
           Some second_last \<Rightarrow>
             take (length result - second_last) (drop (second_last + 1) result)
         | None \<Rightarrow> result)"

subsection \<open>Lemmas\<close>

lemma find_last_of_None [simp]: "c \<notin> set s \<Longrightarrow> find_last_of c s = None"
  by (simp add: find_last_of_def)

lemma find_last_of_Some [simp]: "c \<notin> set q \<Longrightarrow> find_last_of c (p @ c # q) = Some (length p)"
proof -
  assume "c \<notin> set q"
  then have "takeWhile (\<lambda>x. x \<noteq> c) (rev q @ c # rev p) = rev q"
    by (subst takeWhile_append2) auto
  then show ?thesis by (simp add: find_last_of_def)
qed

lemma trim_filename_two:
  assumes "slash \<notin> set a" "slash \<notin> set b"
  shows "trim_filename (dir @ slash # a @ slash # b) = a @ slash # b"
proof -
  have "find_last_of slash (dir @ slash # a @ slash # b) = Some (length (dir @ slash # a))"
    using find_last_of_Some[of slash b "dir @ slash # a"] assms by simp
  then show ?thesis using assms by (simp add: trim_filename_def)
qed

lemma trim_filename_short:
  "slash \<notin> set a \<Longrightarrow> slash \<notin> set b \<Longrightarrow> trim_filename (a @ slash # b) = a @ slash # b"
  "slash \<notin> set b \<Longrightarrow> trim_filename b = b"
  by (simp_all add: trim_filename_def)

lemma level_from_to:
  assumes "l \<in> {ll_trace, ll_debug, ll_info, ll_warn, ll_error}"
  shows "level_from_string (level_to_string l) = l"
  using assms by (auto simp: level_to_string_def log_levels level_from_string_def tolower_def)

lemma level_fatal: "level_from_string (level_to_string ll_fatal) = ll_error"
  by (simp add: level_to_string_def log_levels level_from_string_def tolower_def)

lemma level_from_string_range:
  "level_from_string s \<in> {ll_trace, ll_debug, ll_info, ll_warn, ll_error, ll_fatal}"
  by (simp add: level_from_string_def Let_def)

lemma tolower_idem [simp]: "tolower (tolower c) = tolower c"
proof -
  have "of_char (tolower c) < (65 :: nat) \<or> 90 < (of_char (tolower c) :: nat)"
    by (auto simp: tolower_def Let_def)
  then show ?thesis by (auto simp: tolower_def[of "tolower c"] Let_def)
qed

lemma level_case_insensitive: "level_from_string (map tolower s) = level_from_string s"
  by (simp add: level_from_string_def comp_def)

lemma set_resource_level_lookup:
  "map_of (resource_levels (set_resource_log_level r l m)) =
     (map_of (resource_levels m))(r \<mapsto> l)"
  by (simp add: set_resource_log_level_def)

text \<open>Raising the severity of a record never hides it.\<close>

lemma log_filter_mono:
  "log_filter m attrs \<Longrightarrow> at_severity attrs = Some s \<Longrightarrow> s \<le> s' \<Longrightarrow>
   log_filter m (attrs\<lparr>at_severity := Some s'\<rparr>)"
  by (auto simp: log_filter_def split: option.splits if_splits)

text \<open>A resource's own level decides alone, whatever the global level is.\<close>

lemma resource_level_decides:
  "at_severity attrs = Some sev \<Longrightarrow> \<not> at_module_tag attrs \<Longrightarrow> at_channel attrs = Some r \<Longrightarrow>
   log_filter (set_resource_log_level r l m) attrs \<longleftrightarrow> l \<le> sev"
  by (simp add: log_filter_def set_resource_level_lookup)

lemma disabled_console_subset:
  "console_accepts (disable_console_logging m) attrs \<Longrightarrow> console_accepts (enable_console_logging m) attrs"
  by (auto simp: console_accepts_def disable_console_logging_def enable_console_logging_def
      log_filter_def split: option.splits if_splits)

end
