(* ===== verification/Config.thy ===== *)
theory Config
  imports Spatial Logging
begin

text \<open>
  \<^verbatim>\<open>config/resource.cpp\<close>: the configuration of a resource, the reconciliation of its API with its
  type and namespace (\<^verbatim>\<open>fix_api\<close>), its resource name and its conversion to and from the
  \<^verbatim>\<open>ComponentConfig\<close> message; and the log channel a configuration names
  (\<^verbatim>\<open>LogManager::module_channel_for\<close>).
\<close>

record service_level_config =
  sl_type :: string
  sl_attributes :: proto_struct

record resource_config =
  cf_api :: api
  cf_frame :: "link_config option"
  cf_model :: model
  cf_name :: string
  cf_namespace :: string
  cf_type :: string
  cf_depends_on :: "string list"
  cf_service_config :: "service_level_config list"
  cf_attributes :: proto_struct
  cf_log_level :: log_level

subsection \<open>Construction\<close>

definition fix_namespace :: "resource_config \<Rightarrow> resource_config" where
  "fix_namespace c =
     (let a = cf_api c in
      if type_namespace a = [] \<and> cf_namespace c = [] then
        c\<lparr>cf_namespace := k_rdk, cf_api := API k_rdk (resource_type a) (resource_subtype a)\<rparr>
      else if type_namespace a = [] then
        c\<lparr>cf_api := API (cf_namespace c) (resource_type a) (resource_subtype a)\<rparr>
      else c\<lparr>cf_namespace := type_namespace a\<rparr>)"

definition fix_type :: "resource_config \<Rightarrow> resource_config" where
  "fix_type c =
     (let a = cf_api c in
      if resource_type a = []
      then c\<lparr>cf_api := API (type_namespace a) k_component (resource_subtype a)\<rparr> else c)"

definition fix_subtype :: "resource_config \<Rightarrow> resource_config" where
  "fix_subtype c =
     (let a = cf_api c in
      if resource_subtype a = []
      then c\<lparr>cf_api := API (type_namespace a) (resource_type a) (cf_type c)\<rparr>
      else if cf_type c = [] then c\<lparr>cf_type := resource_subtype a\<rparr> else c)"

definition fix_api :: "resource_config \<Rightarrow> resource_config res" where
  "fix_api c =
     (let c' = fix_subtype (fix_type (fix_namespace c)) in
      if type_namespace (cf_api c') \<noteq> cf_namespace c' \<or> resource_subtype (cf_api c') \<noteq> cf_type c'
      then Inl (general_exception
                  ''component namespace and/or type do not match component api field'')
      else Inr c')"

text \<open>The two constructors with an API string; they differ in the frame only.\<close>

definition mk_config ::
  "string \<Rightarrow> string \<Rightarrow> string \<Rightarrow> proto_struct \<Rightarrow> string \<Rightarrow> model \<Rightarrow> link_config option \<Rightarrow>
   log_level \<Rightarrow> resource_config res" where
  "mk_config ty nm ns attrs a m frame lvl =
     rbind (if colon \<in> set a then api_from_string a else Inr (API k_rdk ty [])) (\<lambda>api.
       fix_api
         \<lparr>cf_api = api, cf_frame = frame, cf_model = m, cf_name = nm, cf_namespace = ns,
          cf_type = ty, cf_depends_on = [], cf_service_config = [], cf_attributes = attrs,
          cf_log_level = lvl\<rparr>)"

text \<open>The type-only constructor leaves the API unfixed and the log level indeterminate
  (the argument).\<close>

definition mk_config_type :: "log_level \<Rightarrow> string \<Rightarrow> resource_config" where
  "mk_config_type indeterminate ty =
     \<lparr>cf_api = API k_rdk ty [], cf_frame = None, cf_model = default_model, cf_name = [],
      cf_namespace = [], cf_type = ty, cf_depends_on = [], cf_service_config = [],
      cf_attributes = [], cf_log_level = indeterminate\<rparr>"

definition resource_name :: "resource_config \<Rightarrow> res_name res" where
  "resource_name c =
     rbind (fix_api c) (\<lambda>fixed.
       let remotes = split_on colon (cf_name fixed) in
       if 1 < length remotes then
         let str_name = last remotes; remote = foldl (@) [colon] (butlast remotes)
         in Inr (mk_name (cf_api fixed) remote str_name)
       else rbind (vec_at remotes 0) (\<lambda>n. Inr (mk_name (cf_api fixed) [] n)))"

definition module_channel_for :: "log_manager \<Rightarrow> resource_config \<Rightarrow> string res" where
  "module_channel_for lm c =
     rbind (resource_name c) (\<lambda>n. Inr (module_channel lm @ CHR ''.'' # name_to_string n))"

subsection \<open>Messages\<close>

record pb_service_level_config =
  psl_type :: string
  psl_attributes :: "pb_struct option"

record pb_component_config =
  pc_name :: string
  pc_namespace :: string
  pc_type :: string
  pc_api :: string
  pc_model :: string
  pc_attributes :: "pb_struct option"
  pc_depends_on :: "string list"
  pc_service_configs :: "pb_service_level_config list"
  pc_frame :: "pb_frame option"
  pc_log_level :: "string option"

definition service_level_to_proto :: "service_level_config \<Rightarrow> pb_service_level_config" where
  "service_level_to_proto s =
     \<lparr>psl_type = sl_type s, psl_attributes = Some (struct_to_proto (sl_attributes s))\<rparr>"

definition config_to_proto :: "resource_config \<Rightarrow> pb_component_config" where
  "config_to_proto c =
     \<lparr>pc_name = cf_name c, pc_namespace = cf_namespace c, pc_type = cf_type c,
      pc_api = api_to_string (cf_api c), pc_model = model_to_string (cf_model c),
      pc_attributes = Some (struct_to_proto (cf_attributes c)), pc_depends_on = cf_depends_on c,
      pc_service_configs = map service_level_to_proto (cf_service_config c),
      pc_frame = (case cf_frame c of Some f \<Rightarrow> Some (link_to_proto f) | None \<Rightarrow> None),
      pc_log_level = Some (level_to_string (cf_log_level c))\<rparr>"

definition config_from_proto :: "pb_component_config \<Rightarrow> resource_config res" where
  "config_from_proto p =
     rbind (model_from_str (pc_model p)) (\<lambda>m.
     rbind (case pc_frame p of Some f \<Rightarrow> link_from_proto f | None \<Rightarrow> Inr link_default) (\<lambda>frame.
       mk_config (pc_type p) (pc_name p) (pc_namespace p)
         (struct_from_proto (submsg [] (pc_attributes p))) (pc_api p) m (Some frame)
         (case pc_log_level p of Some l \<Rightarrow> level_from_string l | None \<Rightarrow> ll_info)))"

definition discover_response_from_proto :: "pb_component_config list \<Rightarrow> resource_config list res" where
  "discover_response_from_proto ds = mapM config_from_proto ds"

subsection \<open>Lemmas\<close>

text \<open>What \<^verbatim>\<open>fix_api\<close> establishes.\<close>

definition config_consistent :: "resource_config \<Rightarrow> bool" where
  "config_consistent c \<longleftrightarrow>
     type_namespace (cf_api c) = cf_namespace c \<and> resource_subtype (cf_api c) = cf_type c
     \<and> cf_namespace c \<noteq> [] \<and> resource_type (cf_api c) \<noteq> []"

lemma k_nonempty [simp]: "k_rdk \<noteq> []" "k_component \<noteq> []" "k_service \<noteq> []" "k_rdk_internal \<noteq> []"
  by (simp_all add: k_rdk_def k_component_def k_service_def k_rdk_internal_def)

lemmas fix_defs = fix_namespace_def fix_type_def fix_subtype_def

lemma fix_api_Inr_eq: "fix_api c = Inr c' \<Longrightarrow> c' = fix_subtype (fix_type (fix_namespace c))"
  by (auto simp: fix_api_def Let_def split: if_splits)

lemma fix_parts_consistent:
  "type_namespace (cf_api (fix_subtype (fix_type (fix_namespace c)))) =
     cf_namespace (fix_subtype (fix_type (fix_namespace c)))"
  "type_namespace (cf_api (fix_subtype (fix_type (fix_namespace c)))) \<noteq> []"
  "resource_type (cf_api (fix_subtype (fix_type (fix_namespace c)))) \<noteq> []"
  by (simp_all add: fix_defs Let_def)

lemma fix_api_consistent: "fix_api c = Inr c' \<Longrightarrow> config_consistent c'"
proof -
  assume h: "fix_api c = Inr c'"
  then have "resource_subtype (cf_api c') = cf_type c'"
    unfolding fix_api_def Let_def by (auto split: if_splits)
  then show ?thesis
    using fix_parts_consistent[of c] unfolding fix_api_Inr_eq[OF h, symmetric] config_consistent_def
    by metis
qed

lemma fix_api_id: "config_consistent c \<Longrightarrow> fix_api c = Inr c"
proof -
  assume c: "config_consistent c"
  then have "fix_namespace c = c" "fix_type c = c"
    by (simp_all add: config_consistent_def fix_namespace_def fix_type_def Let_def)
  moreover have "fix_subtype c = c"
    using c by (cases "cf_api c") (auto simp: config_consistent_def fix_subtype_def Let_def)
  ultimately show ?thesis using c by (simp add: fix_api_def config_consistent_def)
qed

lemma fix_api_idem: "fix_api c = Inr c' \<Longrightarrow> fix_api c' = Inr c'"
  by (simp add: fix_api_consistent fix_api_id)

lemma fix_api_keeps:
  assumes "fix_api c = Inr c'"
  shows "cf_name c' = cf_name c" "cf_model c' = cf_model c" "cf_frame c' = cf_frame c"
    "cf_attributes c' = cf_attributes c" "cf_log_level c' = cf_log_level c"
    "cf_depends_on c' = cf_depends_on c" "cf_service_config c' = cf_service_config c"
  using fix_api_Inr_eq[OF assms] by (simp_all add: fix_defs Let_def)

lemma fix_api_error_iff:
  "is_Ok (fix_api c) \<longleftrightarrow> resource_subtype (cf_api c) = [] \<or> cf_type c = []
     \<or> resource_subtype (cf_api c) = cf_type c"
  by (cases "cf_api c") (auto simp: fix_api_def fix_defs Let_def)

lemma mk_config_consistent: "mk_config ty nm ns ats a m f l = Inr c \<Longrightarrow> config_consistent c"
  by (auto simp: mk_config_def result_simps dest: fix_api_consistent)

lemma config_from_proto_consistent: "config_from_proto p = Inr c \<Longrightarrow> config_consistent c"
  by (auto simp: config_from_proto_def result_simps dest: mk_config_consistent)

text \<open>A configuration of a namespace the message states cannot disagree with the API: the API's
  namespace wins.\<close>

lemma mk_config_namespace:
  "mk_config ty nm ns ats a m f l = Inr c \<Longrightarrow> mk_config ty nm ns' ats a m f l = Inr c"
proof -
  have e: "fix_api (c\<lparr>cf_namespace := x\<rparr>) = fix_api c" if "type_namespace (cf_api c) \<noteq> []" for c x
    using that by (simp add: fix_api_def fix_namespace_def)
  assume h: "mk_config ty nm ns ats a m f l = Inr c"
  then obtain ap where ap: "(if colon \<in> set a then api_from_string a else Inr (API k_rdk ty [])) = Inr ap"
    by (auto simp: mk_config_def result_simps)
  then have "type_namespace ap \<noteq> []"
    by (auto simp: api_from_string_iff api_valid_def word_ok_def split: if_splits)
  with h ap e[of "\<lparr>cf_api = ap, cf_frame = f, cf_model = m, cf_name = nm, cf_namespace = ns,
      cf_type = ty, cf_depends_on = [], cf_service_config = [], cf_attributes = ats,
      cf_log_level = l\<rparr>" ns'] show ?thesis
    by (simp add: mk_config_def)
qed

lemma resource_name_plain:
  "config_consistent c \<Longrightarrow> colon \<notin> set (cf_name c) \<Longrightarrow>
   resource_name c = Inr (mk_name (cf_api c) [] (cf_name c))"
  by (simp add: resource_name_def fix_api_id vec_at_def)

lemma foldl_append_concat: "foldl (@) acc xs = acc @ concat xs"
  by (induction xs arbitrary: acc) auto

text \<open>A name with remotes: the remote is a colon and the remote names run together.\<close>

lemma resource_name_remote:
  assumes "config_consistent c" "split_on colon (cf_name c) = remotes @ [n]" "remotes \<noteq> []"
  shows "resource_name c = Inr (mk_name (cf_api c) (colon # concat remotes) n)"
  using assms by (simp add: resource_name_def fix_api_id foldl_append_concat Let_def)

lemma config_consistent_total: "config_consistent c \<Longrightarrow> \<exists>n. resource_name c = Inr n"
proof -
  assume c: "config_consistent c"
  show ?thesis
  proof (cases "colon \<in> set (cf_name c)")
    case True
    have s: "split_on colon (cf_name c) = butlast (split_on colon (cf_name c)) @ [last (split_on colon (cf_name c))]"
      by simp
    have "butlast (split_on colon (cf_name c)) \<noteq> []"
      using True s by (metis append_Nil split_on_singleton)
    with resource_name_remote[OF c s] show ?thesis by blast
  qed (use resource_name_plain[OF c] in blast)
qed

text \<open>The round trip of a configuration, with what does not survive it left out.\<close>

definition config_sendable :: "resource_config \<Rightarrow> bool" where
  "config_sendable c \<longleftrightarrow>
     config_consistent c \<and> api_valid (cf_api c) \<and> model_valid (cf_model c) \<and> ps_wf (cf_attributes c)
     \<and> pred_option (\<lambda>f. geometry_plain (lc_geometry f)) (cf_frame c)
     \<and> cf_log_level c \<in> {ll_trace, ll_debug, ll_info, ll_warn, ll_error}"

lemma api_string_colon: "colon \<in> set (api_to_string a)"
  by (simp add: api_to_string_def)

lemma config_from_to:
  assumes "config_sendable c"
  shows "config_from_proto (config_to_proto c) =
    Inr (c\<lparr>cf_depends_on := [], cf_service_config := [],
           cf_frame := Some (case cf_frame c of None \<Rightarrow> link_default | Some f \<Rightarrow> f)\<rparr>)"
proof -
  have v: "config_consistent c" "api_valid (cf_api c)" "model_valid (cf_model c)"
    "ps_wf (cf_attributes c)" "level_from_string (level_to_string (cf_log_level c)) = cf_log_level c"
    using assms level_from_to unfolding config_sendable_def by blast+
  have f: "(case map_option link_to_proto (cf_frame c) of
      Some f \<Rightarrow> link_from_proto f | None \<Rightarrow> Inr link_default) =
      Inr (case cf_frame c of None \<Rightarrow> link_default | Some f \<Rightarrow> f)"
    using assms by (cases "cf_frame c") (simp_all add: config_sendable_def link_codec.from_to)
  let ?c = "c\<lparr>cf_depends_on := [], cf_service_config := [],
              cf_frame := Some (case cf_frame c of None \<Rightarrow> link_default | Some f \<Rightarrow> f)\<rparr>"
  have "config_consistent ?c" using v(1) unfolding config_consistent_def by simp
  note id = fix_api_id[OF this]
  have rec: "\<lparr>cf_api = cf_api c, cf_frame = fr, cf_model = cf_model c, cf_name = cf_name c,
      cf_namespace = cf_namespace c, cf_type = cf_type c, cf_depends_on = [], cf_service_config = [],
      cf_attributes = cf_attributes c, cf_log_level = cf_log_level c\<rparr>
    = c\<lparr>cf_depends_on := [], cf_service_config := [], cf_frame := fr\<rparr>" for fr
    by simp
  from id show ?thesis
    using v f
    by (cases "cf_frame c")
      (simp_all add: config_from_proto_def config_to_proto_def model_codec.from_to api_from_to
        mk_config_def api_string_colon struct_from_to rec)
qed

end
