(* ===== verification/ModuleService.thy ===== *)
theory ModuleService
  imports Effects Server Config
begin

text \<open>
  \<^verbatim>\<open>module/service.cpp\<close>: the service viam-server drives a module with. Each handler is a statement
  over the state of the service; the parent robot, the clock and the environment variables are
  what it is given. An exception that leaves a handler is reported by gRPC and is the \<open>Inl\<close> of
  the result; a status the handler returns is its \<open>Inr\<close>. Spans are not modelled.
\<close>

type_synonym 'x dependencies = "(res_name \<times> 'x resource option) list"

type_synonym ('x, 'sd) module_registry =
  "('x dependencies, resource_config, 'x resource, 'sd) registry"

record 'x module_env =
  env_vars :: environment
  dial_parent :: "string \<Rightarrow> unit res"
  parent_resource :: "string \<Rightarrow> res_name \<Rightarrow> 'x resource option res"
  clock :: int
  deps_order :: "'x dependencies \<Rightarrow> 'x dependencies"

record ('x, 'sd) module_service =
  ms_module :: module_info
  ms_parent :: "string option"
  ms_parent_addr :: string
  ms_protocol :: string
  ms_server :: "'x server"
  ms_registry :: "('x, 'sd) module_registry"
  ms_log :: log_manager

subsection \<open>Construction\<close>

fun get_protocol :: "string list \<Rightarrow> string" where
  "get_protocol [] = ''unix:''"
| "get_protocol (a # argv) = (if a = ''--tcp-mode'' then ''dns:'' else get_protocol argv)"

definition mk_module_service ::
  "bool \<Rightarrow> ('x, 'sd) module_registry \<Rightarrow> log_manager \<Rightarrow> string \<Rightarrow> string \<Rightarrow>
   ('x, 'sd) module_service res" where
  "mk_module_service indeterminate g lm addr protocol =
     rbind (mk_server g) (\<lambda>sv.
       Inr \<lparr>ms_module = mk_module indeterminate addr, ms_parent = None, ms_parent_addr = [],
            ms_protocol = protocol, ms_server = sv, ms_registry = g, ms_log = lm\<rparr>)"

definition add_model_from_registry ::
  "('sd \<Rightarrow> string) \<Rightarrow> api \<Rightarrow> model \<Rightarrow> (('x, 'sd) module_service, unit) stm" where
  "add_model_from_registry full_name a m =
     st_modify (\<lambda>s.
       let name = (case lookup_server (ms_registry s) a of
                     Some creator \<Rightarrow>
                       (case service_descriptor creator of Some sd \<Rightarrow> full_name sd | None \<Rightarrow> [])
                   | None \<Rightarrow> [])
       in s\<lparr>ms_module := (ms_module s)\<lparr>md_handles :=
              add_model m \<lparr>rs_api = a, rs_service = name\<rparr> (md_handles (ms_module s))\<rparr>\<rparr>)"

definition register_and_add ::
  "('sd \<Rightarrow> string) \<Rightarrow> ('x dependencies, resource_config, 'x resource) model_registration option \<Rightarrow>
   (('x, 'sd) module_service, unit) stm" where
  "register_and_add full_name p s =
     (case register_model (ms_registry s) p of
        Inl e \<Rightarrow> (Inl e, s)
      | Inr g \<Rightarrow>
          (case p of
             None \<Rightarrow> (Inl (Undefined ''null registration''), s)
           | Some mr \<Rightarrow> add_model_from_registry full_name (mr_api mr) (mr_model mr) (s\<lparr>ms_registry := g\<rparr>)))"

text \<open>The constructor from the command line: the first argument after the program is the socket.\<close>

definition module_service_main ::
  "bool \<Rightarrow> ('sd \<Rightarrow> string) \<Rightarrow> ('x, 'sd) module_registry \<Rightarrow> log_manager \<Rightarrow> string list \<Rightarrow>
   ('x dependencies, resource_config, 'x resource) model_registration option list \<Rightarrow>
   ('x, 'sd) module_service res" where
  "module_service_main indeterminate full_name g lm argv registrations =
     (case argv of
        prog # addr # rest \<Rightarrow>
          rbind (mk_module_service indeterminate g lm addr (get_protocol argv)) (\<lambda>s.
            case st_for registrations (register_and_add full_name)
                   (s\<lparr>ms_log := set_global_log_level_args argv (ms_log s)\<rparr>) of
              (Inl e, _) \<Rightarrow> Inl e | (Inr _, s') \<Rightarrow> Inr s')
      | _ \<Rightarrow> Inl (sdk_exception K_connection ''Need socket path as command line argument''))"

definition lift_server :: "('x server \<Rightarrow> 'x server res) \<Rightarrow> (('x, 'sd) module_service, unit) stm" where
  "lift_server f s =
     (case f (ms_server s) of Inl e \<Rightarrow> (Inl e, s) | Inr sv \<Rightarrow> (Inr (), s\<lparr>ms_server := sv\<rparr>))"

definition serve :: "bool \<Rightarrow> (('x, 'sd) module_service, unit) stm" where
  "serve build_ok =
     st_bind (lift_server register_module_service) (\<lambda>_.
     st_bind (\<lambda>s. lift_server (add_listening_port (ms_protocol s @ md_addr (ms_module s))) s) (\<lambda>_.
     st_bind (st_modify (\<lambda>s. s\<lparr>ms_module := module_set_ready (ms_module s)\<rparr>)) (\<lambda>_.
       lift_server (server_start build_ok))))"

subsection \<open>Dependencies\<close>

definition frame_system_name :: res_name where
  "frame_system_name = mk_name (kind_api K_FrameSystem) [] ''$framesystem''"

text \<open>
  \<^verbatim>\<open>Dependencies\<close> is an unordered map. It is filled as a list of the entries inserted;
  \<open>deps_order\<close> is the order in which the finished map is iterated.
\<close>

definition deps_emplace :: "res_name \<Rightarrow> 'x resource option \<Rightarrow> 'x dependencies \<Rightarrow> 'x dependencies" where
  "deps_emplace n r ds = (if list_ex (\<lambda>e. name_eq (fst e) n) ds then ds else ds @ [(n, r)])"

definition set_parent :: "string \<Rightarrow> ('x, 'sd) module_service \<Rightarrow> ('x, 'sd) module_service" where
  "set_parent addr s = s\<lparr>ms_parent := Some addr, ms_log := disable_console_logging (ms_log s)\<rparr>"

definition get_parent_resource ::
  "'x module_env \<Rightarrow> res_name \<Rightarrow> (('x, 'sd) module_service, 'x resource option) stm" where
  "get_parent_resource env name =
     st_bind (\<lambda>s.
       case ms_parent s of
         None \<Rightarrow>
           st_bind (st_lift (dial_parent env (ms_parent_addr s))) (\<lambda>_.
           st_bind (st_modify (set_parent (ms_parent_addr s))) (\<lambda>_.
             st_return (ms_parent_addr s))) s
       | Some addr \<Rightarrow> st_return addr s) (\<lambda>addr. st_lift (parent_resource env addr name))"

fun dependency_loop ::
  "'x module_env \<Rightarrow> string \<Rightarrow> 'x dependencies \<Rightarrow> string list \<Rightarrow>
   (('x, 'sd) module_service, 'x dependencies) stm" where
  "dependency_loop env nm ds [] = st_return ds"
| "dependency_loop env nm ds (d # rest) =
     st_bind (st_lift (name_from_string d)) (\<lambda>dep_name.
     st_bind (get_parent_resource env dep_name) (\<lambda>dep.
       case dep of
         None \<Rightarrow>
           st_throw (sdk_exception K_resource_not_found
             (nm @ '': Dependency '' @ [CHR 0x60] @ name_to_string dep_name @ [CHR 0x60]
                @ '' was not found during (re)configuration''))
       | Some r \<Rightarrow> dependency_loop env nm (deps_emplace dep_name (Some r) ds) rest))"

definition get_dependencies ::
  "'x module_env \<Rightarrow> string list \<Rightarrow> string \<Rightarrow> (('x, 'sd) module_service, 'x dependencies) stm" where
  "get_dependencies env proto nm =
     st_bind (\<lambda>s.
       if ms_parent_addr s \<noteq> [] then
         st_bind (get_parent_resource env frame_system_name)
           (\<lambda>r. st_return (deps_emplace frame_system_name r [])) s
       else st_return [] s) (\<lambda>ds.
     st_bind (dependency_loop env nm ds proto) (\<lambda>deps. st_return (deps_order env deps)))"

subsection \<open>Handlers\<close>

definition internal_error :: "exn \<Rightarrow> status" where
  "internal_error e = mk_status INTERNAL (exn_what e)"

text \<open>\<^verbatim>\<open>construct_resource\<close> followed by the assignment of its log channel, which dereferences the
  result.\<close>

definition construct_with_channel ::
  "log_manager \<Rightarrow> ('x dependencies, resource_config, 'x resource) model_registration \<Rightarrow>
   'x dependencies \<Rightarrow> resource_config \<Rightarrow> ('x resource \<times> string) res" where
  "construct_with_channel lm reg deps cfg =
     rbind (construct_resource reg deps cfg) (\<lambda>p.
       case p of
         None \<Rightarrow> Inl (Undefined ''null resource'')
       | Some r \<Rightarrow> rbind (module_channel_for lm cfg) (\<lambda>ch. Inr (r, ch)))"

definition construct_step ::
  "('x dependencies, resource_config, 'x resource) model_registration \<Rightarrow> 'x dependencies \<Rightarrow>
   resource_config \<Rightarrow> (('x, 'sd) module_service, status + 'x resource option) stm" where
  "construct_step reg deps cfg =
     st_try
       (st_bind (\<lambda>s. st_lift (construct_with_channel (ms_log s) reg deps cfg) s) (\<lambda>rc.
        st_bind (st_modify (\<lambda>s. s\<lparr>ms_log :=
                   set_resource_log_level (snd rc) (cf_log_level cfg) (ms_log s)\<rparr>)) (\<lambda>_.
          st_return (Inr (Some (fst rc))))))
       (\<lambda>e. st_return (Inl (internal_error e)))"

definition handle_AddResource ::
  "'x module_env \<Rightarrow> int \<Rightarrow> pb_component_config \<Rightarrow> string list \<Rightarrow>
   (('x, 'sd) module_service, status) stm" where
  "handle_AddResource env deadline proto dependencies =
     st_bind (st_lift (config_from_proto proto)) (\<lambda>cfg.
     st_bind (get_dependencies env dependencies (cf_name cfg)) (\<lambda>deps.
     st_bind (st_get (\<lambda>s. lookup_model (ms_registry s) (cf_api cfg) (cf_model cfg))) (\<lambda>reg.
     st_bind (case reg of
                Some r \<Rightarrow> construct_step r deps cfg
              | None \<Rightarrow> st_return (Inr None)) (\<lambda>built.
       case built of
         Inl st \<Rightarrow> st_return st
       | Inr res \<Rightarrow>
           st_try (st_bind (lift_server (server_add_resource (clock env) res (Some deadline)))
                     (\<lambda>_. st_return status_ok))
             (\<lambda>e. st_return (internal_error e))))))"

definition stop_if_stoppable :: "'x resource \<Rightarrow> unit res" where
  "stop_if_stoppable r = (case ro_stop r of Some outcome \<Rightarrow> outcome | None \<Rightarrow> Inr ())"

definition replace_in_server ::
  "api \<Rightarrow> 'x resource manager \<Rightarrow> res_name \<Rightarrow> 'x resource option res \<Rightarrow>
   (('x, 'sd) module_service, unit) stm" where
  "replace_in_server a m name create s =
     (let out = manager_replace_one m name create;
          s' = s\<lparr>ms_server := (ms_server s)\<lparr>managed_servers :=
                   aput a (snd out) (managed_servers (ms_server s))\<rparr>\<rparr>
      in (case fst out of None \<Rightarrow> Inr () | Some e \<Rightarrow> Inl e, s'))"

definition handle_ReconfigureResource ::
  "'x module_env \<Rightarrow> pb_component_config \<Rightarrow> string list \<Rightarrow> (('x, 'sd) module_service, status) stm" where
  "handle_ReconfigureResource env proto dependencies =
     st_bind (st_lift (config_from_proto proto)) (\<lambda>cfg.
     st_bind (get_dependencies env dependencies (cf_name cfg)) (\<lambda>deps.
     st_bind (st_get (\<lambda>s. lookup_resource_server (ms_server s) (cf_api cfg))) (\<lambda>found.
       case found of
         None \<Rightarrow>
           st_return (mk_status UNKNOWN (''no rpc service for config: '' @ api_to_string (cf_api cfg)))
       | Some manager \<Rightarrow>
           st_bind (st_lift (resource_name cfg)) (\<lambda>name.
           case manager_resource manager (nm_name name) of
             None \<Rightarrow>
               st_return (mk_status UNKNOWN
                 (''unable to stop resource '' @ nm_name name @ '' as it doesn't exist.''))
           | Some res \<Rightarrow>
               st_bind (st_lift (stop_if_stoppable res)) (\<lambda>_.
               st_bind (st_get (\<lambda>s. lookup_model (ms_registry s) (cf_api cfg) (cf_model cfg))) (\<lambda>reg.
                 case reg of
                   None \<Rightarrow>
                     st_return (mk_status INTERNAL
                       ''Unable to rebuild resource: model registration not found'')
                 | Some r \<Rightarrow>
                     st_try
                       (st_bind (\<lambda>s. replace_in_server (cf_api cfg) manager name
                           (rmap (\<lambda>rc. Some (fst rc))
                              (construct_with_channel (ms_log s) r deps cfg)) s)
                         (\<lambda>_. st_return status_ok))
                       (\<lambda>e. st_return (internal_error e))))))))"

definition handle_ValidateConfig ::
  "pb_component_config \<Rightarrow> (('x, 'sd) module_service, status \<times> string list) stm" where
  "handle_ValidateConfig proto =
     st_bind (st_lift (config_from_proto proto)) (\<lambda>cfg.
     st_bind (st_get (\<lambda>s. lookup_model (ms_registry s) (cf_api cfg) (cf_model cfg))) (\<lambda>reg.
       case reg of
         None \<Rightarrow>
           st_bind (st_lift (resource_name cfg)) (\<lambda>name.
             st_return (mk_status UNKNOWN
               (''unable to validate resource '' @ nm_name name
                  @ '' as it hasn't been registered.''), []))
       | Some r \<Rightarrow>
           st_try (st_bind (st_lift (validate_config r cfg)) (\<lambda>implicit_deps.
                     st_return (status_ok, implicit_deps)))
             (\<lambda>e. st_return (mk_status UNKNOWN
               (''validation failure in resource '' @ cf_name cfg @ '': '' @ exn_what e), []))))"

definition handle_RemoveResource :: "string \<Rightarrow> (('x, 'sd) module_service, status) stm" where
  "handle_RemoveResource req_name =
     st_bind (st_lift (name_from_string req_name)) (\<lambda>name.
     st_bind (st_get (\<lambda>s. lookup_resource_server (ms_server s) (nm_api name))) (\<lambda>found.
       case found of
         None \<Rightarrow>
           st_return (mk_status UNKNOWN (''no grpc service for '' @ api_to_string (nm_api name)))
       | Some manager \<Rightarrow>
           (case manager_resource manager (nm_name name) of
              None \<Rightarrow>
                st_return (mk_status UNKNOWN
                  (''unable to remove resource '' @ name_to_string name @ '' as it doesn't exist.''))
            | Some res \<Rightarrow>
                st_bind (st_lift (stop_if_stoppable res)) (\<lambda>_.
                st_bind (st_modify (\<lambda>s. s\<lparr>ms_server := (ms_server s)\<lparr>managed_servers :=
                    aput (nm_api name) (snd (manager_remove manager name))
                      (managed_servers (ms_server s))\<rparr>\<rparr>)) (\<lambda>_.
                  st_return status_ok)))))"

record ready_response =
  rr_handlers :: "pb_handler list"
  rr_ready :: bool

definition handle_Ready ::
  "'x module_env \<Rightarrow> string \<Rightarrow> string \<Rightarrow> (('x, 'sd) module_service, ready_response) stm" where
  "handle_Ready env raw_parent_address parent_address =
     st_bind (st_get (\<lambda>s. handler_map_to_proto (md_handles (ms_module s)))) (\<lambda>hm.
     st_bind (\<lambda>s.
       if \<not> is_env_var_true (env_vars env) ''VIAM_NO_MODULE_PARENT'' then
         let addr = (if raw_parent_address \<noteq> [] then raw_parent_address else parent_address);
             new_parent_addr = ms_protocol s @ addr
         in if ms_parent_addr s \<noteq> new_parent_addr then
              st_bind (st_modify (\<lambda>s. s\<lparr>ms_parent_addr := new_parent_addr\<rparr>)) (\<lambda>_.
              st_bind (st_lift (dial_parent env new_parent_addr)) (\<lambda>_.
                st_modify (set_parent new_parent_addr))) s
            else st_return () s
       else st_return () s) (\<lambda>_.
     st_get (\<lambda>s. \<lparr>rr_handlers = hm, rr_ready = md_ready (ms_module s)\<rparr>)))"

subsection \<open>Preservation\<close>

text \<open>Exactly the APIs of the registry have a manager.\<close>

definition api_managers :: "('x, 'sd) module_service \<Rightarrow> bool" where
  "api_managers s \<longleftrightarrow> managed_apis (ms_server s) = set (akeys (rg_servers (ms_registry s)))"

text \<open>
  The phases of a service: it is being built, with the services of the registry and nothing else; or
  it said that it is ready and its server was started, from a builder that also had the module service
  and one port, or the start failed. Nothing that is driven from outside shuts the server down.
\<close>

definition service_phase :: "('x, 'sd) module_service \<Rightarrow> bool" where
  "service_phase s \<longleftrightarrow>
     (let sv = ms_server s; services = map (sr_class \<circ> snd) (rg_servers (ms_registry s))
      in \<not> is_shutdown sv \<and>
         (if builder sv \<noteq> None then
            grpc_server sv = None
            \<and> builder sv = Some \<lparr>sb_services = services, sb_module_service = False, sb_ports = []\<rparr>
          else
            md_ready (ms_module s)
            \<and> (grpc_server sv \<noteq> None \<longrightarrow>
                 grpc_server sv = Some \<lparr>sb_services = services, sb_module_service = True,
                   sb_ports = [ms_protocol s @ md_addr (ms_module s)]\<rparr>)))"

definition ms_inv :: "('x, 'sd) module_service \<Rightarrow> bool" where
  "ms_inv s \<longleftrightarrow> server_inv (ms_server s) \<and> api_managers s \<and> service_phase s"

text \<open>What the invariant reads, apart from the managers.\<close>

definition same_service :: "('x, 'sd) module_service \<Rightarrow> ('x, 'sd) module_service \<Rightarrow> bool" where
  "same_service s t \<longleftrightarrow>
     ms_module t = ms_module s \<and> ms_protocol t = ms_protocol s \<and> ms_registry t = ms_registry s
     \<and> same_phase (ms_server s) (ms_server t)"

lemma ms_inv_same: "ms_inv s \<Longrightarrow> same_service s t \<Longrightarrow> server_inv (ms_server t) \<Longrightarrow> ms_inv t"
  by (simp add: ms_inv_def same_service_def same_phase_def api_managers_def service_phase_def Let_def)

lemma ms_inv_frame [simp]:
  "ms_inv (s\<lparr>ms_parent := p\<rparr>) = ms_inv s" "ms_inv (s\<lparr>ms_parent_addr := x\<rparr>) = ms_inv s"
  "ms_inv (s\<lparr>ms_log := l\<rparr>) = ms_inv s"
  by (simp_all add: ms_inv_def api_managers_def service_phase_def)

lemma keeps_get_parent: "keeps ms_inv (get_parent_resource env n)"
  by (auto simp: keeps_def get_parent_resource_def st_bind_def st_defs set_parent_def
      split: option.splits sum.splits)

lemma keeps_dependency_loop: "keeps ms_inv (dependency_loop env nm ds proto)"
  by (induction proto arbitrary: ds)
    (auto intro!: keeps_rules keeps_get_parent split: option.split)

lemma keeps_state: "(\<And>s. keeps I (f s)) \<Longrightarrow> keeps I (\<lambda>s. f s s)"
  by (simp add: keeps_def)

lemma keeps_guarded:
  "keeps I m \<Longrightarrow> keeps I (\<lambda>s. if P s then m s else st_return a s)"
  by (simp add: keeps_def st_return_def)

lemma keeps_get_dependencies: "keeps ms_inv (get_dependencies env proto nm)"
  unfolding get_dependencies_def
  by (intro keeps_bind keeps_guarded keeps_dependency_loop keeps_get_parent keeps_return)

lemma keeps_lift_server:
  fixes f :: "'x server \<Rightarrow> 'x server res"
  assumes "\<And>sv sv'. server_inv sv \<Longrightarrow> f sv = Inr sv' \<Longrightarrow> server_inv sv' \<and> same_phase sv sv'"
  shows "keeps ms_inv (lift_server f :: (('x, 'sd) module_service, unit) stm)"
proof -
  have "ms_inv (s\<lparr>ms_server := sv\<rparr>)" if "ms_inv s" "f (ms_server s) = Inr sv"
    for s :: "('x, 'sd) module_service" and sv
    using that assms[of "ms_server s" sv]
    by (intro ms_inv_same[OF that(1)]) (auto simp: ms_inv_def same_service_def)
  then show ?thesis by (auto simp: keeps_def lift_server_def split: sum.splits)
qed

text \<open>Serving is the one step that leaves the building phase, and it leaves it for good.\<close>

lemma serve_server_inv: "keeps (\<lambda>s. server_inv (ms_server s)) (serve ok)"
proof -
  have lift: "keeps (\<lambda>s. server_inv (ms_server s)) (lift_server f)"
    if "\<And>sv sv'. server_inv sv \<Longrightarrow> f sv = Inr sv' \<Longrightarrow> server_inv sv'" for f :: "'a server \<Rightarrow> 'a server res"
    using that by (auto simp: keeps_def lift_server_def split: sum.splits)
  show ?thesis
    unfolding serve_def
    by (intro keeps_bind keeps_state[where f = "\<lambda>s. lift_server (add_listening_port (ms_protocol s @ md_addr (ms_module s)))"]
        lift keeps_modify)
      (auto intro: register_module_service_inv add_listening_port_inv server_start_inv)
qed

lemma keeps_serve: "keeps ms_inv (serve ok)"
  unfolding keeps_def
proof (intro allI impI)
  fix s :: "('a, 'b) module_service"
  assume s: "ms_inv s"
  show "ms_inv (snd (serve ok s))"
  proof (cases "builder (ms_server s)")
    case None
    then have "serve ok s = (Inl cannot_register, s)"
      by (simp add: serve_def st_bind_def lift_server_def register_module_service_def)
    with s show ?thesis by simp
  next
    case (Some b)
    with s have g: "grpc_server (ms_server s) = None" by (simp add: ms_inv_def service_phase_def Let_def)
    have "server_inv (ms_server (snd (serve ok s)))"
      using s serve_server_inv[unfolded keeps_def, rule_format, of s ok] by (simp add: ms_inv_def)
    moreover have "api_managers (snd (serve ok s)) \<and> service_phase (snd (serve ok s))"
      using s Some g
      by (auto simp: ms_inv_def service_phase_def api_managers_def managed_apis_def Let_def serve_def
          st_bind_def st_modify_def lift_server_def register_module_service_def
          add_listening_port_def server_start_def module_set_ready_def)
    ultimately show ?thesis by (simp add: ms_inv_def)
  qed
qed

lemma keeps_construct_step: "keeps ms_inv (construct_step r deps cfg)"
  unfolding construct_step_def
  by (intro keeps_rules keeps_state[where f = "\<lambda>s. st_lift (construct_with_channel (ms_log s) r deps cfg)"])
    simp

lemma keeps_sum:
  "(\<And>x. keeps I (f x)) \<Longrightarrow> (\<And>y. keeps I (g y)) \<Longrightarrow> keeps I (case v of Inl x \<Rightarrow> f x | Inr y \<Rightarrow> g y)"
  by (cases v) simp_all

lemma keeps_AddResource: "keeps ms_inv (handle_AddResource env deadline proto dependencies)"
  unfolding handle_AddResource_def
  by (intro keeps_rules keeps_get_dependencies keeps_construct_step keeps_sum keeps_lift_server)
    (blast intro: server_add_resource_inv server_add_resource_phase)

lemma keeps_ValidateConfig: "keeps ms_inv (handle_ValidateConfig proto)"
  unfolding handle_ValidateConfig_def by (intro keeps_rules)

lemma replace_one_inv: "manager_inv m \<Longrightarrow> manager_inv (snd (manager_replace_one m n c))"
  using manager_step_inv[of m "Op_replace_one n c"] by simp

lemma remove_inv: "manager_inv m \<Longrightarrow> manager_inv (snd (manager_remove m n))"
  using manager_step_inv[of m "Op_remove n"] by simp

text \<open>
  Reading a manager and later writing one back: the manager read satisfies its invariant, and as long
  as the statement runs its API has a manager.
\<close>

definition ms_inv_at :: "api \<Rightarrow> ('x, 'sd) module_service \<Rightarrow> bool" where
  "ms_inv_at a s \<longleftrightarrow> ms_inv s \<and> a \<in> managed_apis (ms_server s)"

lemma put_manager_at:
  assumes "ms_inv_at a s" "manager_inv m"
  shows "ms_inv_at a (s\<lparr>ms_server := (ms_server s)\<lparr>managed_servers :=
           aput a m (managed_servers (ms_server s))\<rparr>\<rparr>)"
proof -
  define sv where "sv = (ms_server s)\<lparr>managed_servers := aput a m (managed_servers (ms_server s))\<rparr>"
  have a: "ms_inv s" "a \<in> managed_apis (ms_server s)" using assms(1) by (simp_all add: ms_inv_at_def)
  have p: "same_phase (ms_server s) sv" unfolding sv_def by (rule put_manager_phase[OF a(2)])
  have "server_inv sv"
    unfolding sv_def using a(1) assms(2) by (intro put_manager_inv) (simp_all add: ms_inv_def)
  moreover have "same_service s (s\<lparr>ms_server := sv\<rparr>)" using p by (simp add: same_service_def)
  ultimately have "ms_inv (s\<lparr>ms_server := sv\<rparr>)" by (intro ms_inv_same[OF a(1)]) simp_all
  then show ?thesis using a(2) p unfolding sv_def[symmetric] by (simp add: ms_inv_at_def same_phase_def)
qed

lemma keeps_with_manager:
  fixes f :: "'x resource manager option \<Rightarrow> (('x, 'sd) module_service, 'c) stm"
  assumes "\<And>m. manager_inv m \<Longrightarrow> keeps (ms_inv_at a) (f (Some m))" "keeps ms_inv (f None)"
  shows "keeps ms_inv (st_bind (st_get (\<lambda>s. lookup_resource_server (ms_server s) a)) f)"
  unfolding keeps_def
proof (intro allI impI)
  fix s :: "('x, 'sd) module_service"
  assume s: "ms_inv s"
  show "ms_inv (snd (st_bind (st_get (\<lambda>s. lookup_resource_server (ms_server s) a)) f s))"
  proof (cases "map_of (managed_servers (ms_server s)) a")
    case None
    then show ?thesis using assms(2) s
      by (simp add: st_bind_def st_get_def lookup_resource_server_eq keeps_def)
  next
    case (Some m)
    then have "manager_inv m" using s server_inv_manager by (auto simp: ms_inv_def)
    moreover have "ms_inv_at a s"
      using s Some by (simp add: ms_inv_at_def managed_apis_def map_of_in_akeys)
    ultimately have "ms_inv_at a (snd (f (Some m) s))" using assms(1) by (simp add: keeps_def)
    then show ?thesis using Some
      by (simp add: st_bind_def st_get_def lookup_resource_server_eq ms_inv_at_def)
  qed
qed

lemma keeps_RemoveResource: "keeps ms_inv (handle_RemoveResource nm)"
  unfolding handle_RemoveResource_def
  by (intro keeps_with_manager keeps_bind keeps_lift)
    (auto intro!: keeps_rules put_manager_at simp: remove_inv split: option.split)

lemma keeps_ReconfigureResource: "keeps ms_inv (handle_ReconfigureResource env proto deps)"
  unfolding handle_ReconfigureResource_def
proof (intro keeps_with_manager keeps_bind keeps_lift keeps_get_dependencies, goal_cases)
  case (1 cfg deps m)
  then have "keeps (ms_inv_at (cf_api cfg)) (\<lambda>s. replace_in_server (cf_api cfg) m n
      (rmap (\<lambda>rc. Some (fst rc)) (construct_with_channel (ms_log s) r deps cfg)) s)" for n r
    by (simp add: keeps_def replace_in_server_def Let_def put_manager_at replace_one_inv)
  then show ?case by (auto intro!: keeps_rules split: option.split)
qed (simp add: keeps_return)

lemma keeps_Ready: "keeps ms_inv (handle_Ready env raw addr)"
  by (auto simp: keeps_def handle_Ready_def st_bind_def st_defs set_parent_def Let_def
      split: sum.splits)

text \<open>No handler changes the registry.\<close>

lemma same_registry_get_parent: "keeps (\<lambda>s. ms_registry s = g) (get_parent_resource env n)"
  by (auto simp: keeps_def get_parent_resource_def st_bind_def st_defs set_parent_def
      split: option.splits sum.splits)

lemma same_registry_dependencies: "keeps (\<lambda>s. ms_registry s = g) (get_dependencies env proto nm)"
proof -
  have "keeps (\<lambda>s. ms_registry s = g) (dependency_loop env nm ds proto)" for ds
    by (induction proto arbitrary: ds)
      (auto intro!: keeps_rules same_registry_get_parent split: option.split)
  then show ?thesis
    unfolding get_dependencies_def
    by (intro keeps_bind keeps_guarded same_registry_get_parent keeps_return)
qed

lemma same_registry_lift: "keeps (\<lambda>s. ms_registry s = g) (lift_server f)"
  by (simp add: keeps_def lift_server_def split: sum.split)

lemma same_registry_replace:
  "keeps (\<lambda>s. ms_registry s = g) (\<lambda>s. replace_in_server a m n (c s) s)"
  by (simp add: keeps_def replace_in_server_def Let_def)

lemma same_registry_handlers:
  "keeps (\<lambda>s. ms_registry s = g) (handle_AddResource env deadline proto deps)"
  "keeps (\<lambda>s. ms_registry s = g) (handle_ReconfigureResource env proto deps)"
  "keeps (\<lambda>s. ms_registry s = g) (handle_ValidateConfig proto)"
  "keeps (\<lambda>s. ms_registry s = g) (handle_RemoveResource nm)"
  "keeps (\<lambda>s. ms_registry s = g) (handle_Ready env raw addr)"
  "keeps (\<lambda>s. ms_registry s = g) (serve ok)"
proof -
  have c: "keeps (\<lambda>s. ms_registry s = g) (construct_step r ds cfg)" for r ds cfg
    unfolding construct_step_def
    by (intro keeps_rules keeps_state[where f = "\<lambda>s. st_lift (construct_with_channel (ms_log s) r ds cfg)"]) simp
  show "keeps (\<lambda>s. ms_registry s = g) (handle_AddResource env deadline proto deps)"
    unfolding handle_AddResource_def
    by (intro keeps_rules same_registry_dependencies c keeps_sum same_registry_lift)
  show "keeps (\<lambda>s. ms_registry s = g) (handle_ReconfigureResource env proto deps)"
    unfolding handle_ReconfigureResource_def
    by (intro keeps_rules same_registry_dependencies same_registry_replace)
  show "keeps (\<lambda>s. ms_registry s = g) (handle_ValidateConfig proto)"
    unfolding handle_ValidateConfig_def by (intro keeps_rules)
  show "keeps (\<lambda>s. ms_registry s = g) (handle_RemoveResource nm)"
    unfolding handle_RemoveResource_def by (intro keeps_rules) simp
  show "keeps (\<lambda>s. ms_registry s = g) (handle_Ready env raw addr)"
    by (auto simp: keeps_def handle_Ready_def st_bind_def st_defs set_parent_def Let_def split: sum.splits)
  show "keeps (\<lambda>s. ms_registry s = g) (serve ok)"
    unfolding serve_def
    by (intro keeps_bind same_registry_lift keeps_modify
        keeps_state[where f = "\<lambda>s. lift_server (add_listening_port (ms_protocol s @ md_addr (ms_module s)))"])
      simp
qed

subsection \<open>Histories\<close>

text \<open>What viam-server and the module's main function can do, in any order.\<close>

inductive module_step :: "('x, 'sd) module_service \<Rightarrow> ('x, 'sd) module_service \<Rightarrow> bool" where
  step_add: "handle_AddResource env d p ds s = (r, s') \<Longrightarrow> module_step s s'"
| step_reconfigure: "handle_ReconfigureResource env p ds s = (r, s') \<Longrightarrow> module_step s s'"
| step_validate: "handle_ValidateConfig p s = (v, s') \<Longrightarrow> module_step s s'"
| step_remove: "handle_RemoveResource nm s = (r, s') \<Longrightarrow> module_step s s'"
| step_ready: "handle_Ready env raw addr s = (w, s') \<Longrightarrow> module_step s s'"
| step_serve: "serve ok s = (u, s') \<Longrightarrow> module_step s s'"

inductive_cases module_stepE: "module_step s s'"

lemma module_step_inv: "module_step s s' \<Longrightarrow> ms_inv s \<Longrightarrow> ms_inv s'"
  by (induction rule: module_step.induct)
    (auto dest: keepsD[OF keeps_AddResource] keepsD[OF keeps_ReconfigureResource]
      keepsD[OF keeps_ValidateConfig] keepsD[OF keeps_RemoveResource] keepsD[OF keeps_Ready]
      keepsD[OF keeps_serve])

lemma module_steps_inv: "module_step\<^sup>*\<^sup>* s s' \<Longrightarrow> ms_inv s \<Longrightarrow> ms_inv s'"
  by (induction rule: rtranclp_induct) (auto intro: module_step_inv)

lemma mk_module_service_inv: "mk_module_service b g lm addr pr = Inr s \<Longrightarrow> ms_inv s"
  by (auto simp: mk_module_service_def result_simps ms_inv_def api_managers_def service_phase_def Let_def
      dest: mk_server_inv mk_server_phase)

lemma module_step_registry: "module_step s s' \<Longrightarrow> ms_registry s' = ms_registry s"
  by (induction rule: module_step.induct)
    (elim keepsD[OF same_registry_handlers(1) refl] keepsD[OF same_registry_handlers(2) refl]
      keepsD[OF same_registry_handlers(3) refl] keepsD[OF same_registry_handlers(4) refl]
      keepsD[OF same_registry_handlers(5) refl] keepsD[OF same_registry_handlers(6) refl])+

lemma module_steps_registry: "module_step\<^sup>*\<^sup>* s s' \<Longrightarrow> ms_registry s' = ms_registry s"
  by (induction rule: rtranclp_induct) (auto dest: module_step_registry)

end
