(* ===== verification/ModuleBehaviour.thy ===== *)
theory ModuleBehaviour
  imports ModuleService "HOL-Library.Multiset"
begin

text \<open>
  What the handlers of the module service do, branch by branch: the dependencies they collect, a
  resource that is added, replaced or removed, and the address of the parent robot.
\<close>

subsection \<open>Frames\<close>

lemma st_bind_InrE:
  assumes "st_bind m f s = (Inr b, t)"
  obtains a s' where "m s = (Inr a, s')" "f a s' = (Inr b, t)"
  using assms by (rule st_bind_cases) auto

lemma st_try_InrE:
  assumes "st_try m h s = (Inr b, t)"
  obtains "m s = (Inr b, t)"
  | e s' where "m s = (Inl e, s')" "is_std_exception e" "h e s' = (Inr b, t)"
  using assms by (auto simp: st_try_def split: prod.splits sum.splits if_splits)

text \<open>Looking at the parent only writes the connection and the log settings.\<close>

definition same_core :: "('x, 'sd) module_service \<Rightarrow> ('x, 'sd) module_service \<Rightarrow> bool" where
  "same_core s t \<longleftrightarrow>
     ms_module t = ms_module s \<and> ms_parent_addr t = ms_parent_addr s \<and> ms_protocol t = ms_protocol s
     \<and> ms_server t = ms_server s \<and> ms_registry t = ms_registry s
     \<and> (ms_parent s \<noteq> None \<longrightarrow> ms_parent t = ms_parent s \<and> ms_log t = ms_log s)"

lemma same_core_get_parent: "keeps (same_core s) (get_parent_resource env n)"
  by (auto simp: keeps_def get_parent_resource_def st_bind_def st_defs set_parent_def same_core_def
      split: option.splits sum.splits)

lemma same_core_loop: "keeps (same_core s) (dependency_loop env nm ds proto)"
  by (induction proto arbitrary: ds)
    (auto intro!: keeps_rules same_core_get_parent split: option.split)

lemma same_core_get_dependencies: "keeps (same_core s) (get_dependencies env proto nm)"
  unfolding get_dependencies_def
  by (intro keeps_bind keeps_guarded same_core_loop same_core_get_parent keeps_return)

lemma get_dependencies_core:
  "get_dependencies env proto nm s = (r, s') \<Longrightarrow> same_core s s'"
  using keepsD[OF same_core_get_dependencies[of s env proto nm], of s] by (simp add: same_core_def)

subsection \<open>Dependencies\<close>

definition dep_present :: "'x dependencies \<Rightarrow> res_name \<Rightarrow> bool" where
  "dep_present ds n \<longleftrightarrow> (\<exists>e\<in>set ds. name_eq (fst e) n)"

text \<open>No two keys of a dependency map are equal as names.\<close>

definition deps_wf :: "'x dependencies \<Rightarrow> bool" where
  "deps_wf ds \<longleftrightarrow> distinct (map (name_to_string \<circ> fst) ds)"

lemma dep_present_emplace: "dep_present (deps_emplace n r ds) m \<longleftrightarrow> dep_present ds m \<or> name_eq n m"
  by (cases "list_ex (\<lambda>e. name_eq (fst e) n) ds")
    (auto simp: dep_present_def deps_emplace_def name_eq_def list_ex_iff intro: bexI[rotated])

lemma deps_wf_emplace: "deps_wf ds \<Longrightarrow> deps_wf (deps_emplace n r ds)"
  by (auto simp: deps_wf_def deps_emplace_def name_eq_def list_ex_iff)

lemma set_deps_emplace: "set ds \<subseteq> set (deps_emplace n r ds) \<and> set (deps_emplace n r ds) \<subseteq> insert (n, r) (set ds)"
  by (auto simp: deps_emplace_def)

lemma dependency_loop_InrD:
  "dependency_loop env nm ds proto s = (Inr out, s') \<Longrightarrow>
     (\<forall>d\<in>set proto. \<exists>n. name_from_string d = Inr n \<and> dep_present out n)
     \<and> take (length ds) out = ds \<and> (\<forall>e\<in>set (drop (length ds) out). snd e \<noteq> None)
     \<and> (deps_wf ds \<longrightarrow> deps_wf out) \<and> (\<forall>n. dep_present ds n \<longrightarrow> dep_present out n)"
proof (induction proto arbitrary: ds s)
  case Nil
  then show ?case by (simp add: st_return_def)
next
  case (Cons d rest)
  from Cons.prems obtain n s1 where n: "name_from_string d = Inr n"
    and n1: "st_bind (get_parent_resource env n) (\<lambda>dep. case dep of
         None \<Rightarrow>
           st_throw (sdk_exception K_resource_not_found
             (nm @ '': Dependency '' @ [CHR 0x60] @ name_to_string n @ [CHR 0x60]
                @ '' was not found during (re)configuration''))
       | Some r \<Rightarrow> dependency_loop env nm (deps_emplace n (Some r) ds) rest) s1 = (Inr out, s')"
    by (auto simp: st_lift_def elim: st_bind_InrE)
  then obtain r s2 where
    r: "dependency_loop env nm (deps_emplace n (Some r) ds) rest s2 = (Inr out, s')"
    by (auto simp: st_throw_def elim!: st_bind_InrE split: option.splits)
  let ?e = "deps_emplace n (Some r) ds"
  note ih = Cons.IH[OF r]
  obtain tl' where e: "?e = ds @ tl'" "\<forall>x\<in>set tl'. snd x \<noteq> None"
    by (cases "list_ex (\<lambda>e. name_eq (fst e) n) ds") (auto simp: deps_emplace_def)
  have out: "out = ?e @ drop (length ?e) out" using ih by (metis append_take_drop_id)
  then have "take (length ds) out = ds" "drop (length ds) out = tl' @ drop (length ?e) out"
    unfolding e(1) by (metis append.assoc append_eq_conv_conj)+
  moreover have "\<forall>m. dep_present ds m \<longrightarrow> dep_present out m" "dep_present out n"
    using ih by (auto simp: dep_present_emplace name_eq_def)
  ultimately show ?case using ih n e(2) deps_wf_emplace[of ds n "Some r"] by auto
qed

lemma get_dependencies_InrD:
  assumes "get_dependencies env proto nm s = (Inr out, s')" "\<And>ds. mset (deps_order env ds) = mset ds"
  shows "\<forall>d\<in>set proto. \<exists>n. name_from_string d = Inr n \<and> dep_present out n"
    "deps_wf out"
    "ms_parent_addr s = [] \<Longrightarrow> \<forall>e\<in>set out. snd e \<noteq> None"
    "ms_parent_addr s \<noteq> [] \<Longrightarrow> dep_present out frame_system_name
       \<and> (\<forall>e\<in>set out. snd e = None \<longrightarrow> fst e = frame_system_name)"
proof -
  from assms(1) obtain ds s1 deps where ds:
    "(if ms_parent_addr s \<noteq> [] then
         st_bind (get_parent_resource env frame_system_name)
           (\<lambda>r. st_return (deps_emplace frame_system_name r [])) s
       else st_return [] s) = (Inr ds, s1)"
    and loop: "dependency_loop env nm ds proto s1 = (Inr deps, s')" and out: "out = deps_order env deps"
    unfolding get_dependencies_def by (auto simp: st_return_def elim!: st_bind_InrE)
  have m: "mset out = mset deps" using assms(2) out by simp
  then have s: "set out = set deps" by (rule mset_eq_setD)
  have p: "dep_present out n \<longleftrightarrow> dep_present deps n" for n by (simp add: dep_present_def s)
  have seed: "if ms_parent_addr s \<noteq> [] then \<exists>r. ds = [(frame_system_name, r)] else ds = []"
    using ds by (auto simp: st_return_def deps_emplace_def elim!: st_bind_InrE split: if_splits)
  note l = dependency_loop_InrD[OF loop]
  then show "\<forall>d\<in>set proto. \<exists>n. name_from_string d = Inr n \<and> dep_present out n"
    unfolding p by blast
  have "deps_wf ds" using seed by (auto simp: deps_wf_def split: if_splits)
  then have "deps_wf deps" using l by blast
  moreover have "mset (map (name_to_string \<circ> fst) out) = mset (map (name_to_string \<circ> fst) deps)"
    using m by simp
  ultimately show "deps_wf out" unfolding deps_wf_def by (metis mset_eq_imp_distinct_iff)
  show "\<forall>e\<in>set out. snd e \<noteq> None" if "ms_parent_addr s = []"
    using seed l that by (auto simp: s)
  show "dep_present out frame_system_name \<and> (\<forall>e\<in>set out. snd e = None \<longrightarrow> fst e = frame_system_name)"
    if parent: "ms_parent_addr s \<noteq> []"
  proof -
    obtain r where r: "ds = [(frame_system_name, r)]" using seed parent by auto
    then have d: "deps = (frame_system_name, r) # drop 1 deps"
      using l by (metis One_nat_def append_take_drop_id append_Cons append_Nil length_Cons list.size(3))
    have "\<forall>e\<in>set (drop 1 deps). snd e \<noteq> None" using l r by simp
    then show ?thesis unfolding p unfolding s
      by (subst (1 2) d) (auto simp: dep_present_def name_eq_def)
  qed
qed

subsection \<open>Adding a resource\<close>

lemma manager_add_string_lookup:
  assumes "do_add_string m n r = Inr m'"
  shows "manager_resource m' n = r" "resource_map m' = (resource_map m)(n \<mapsto> r)"
    "resource_map m n = None"
  using resource_store.put_InrD[OF assms]
  by (auto simp: resource_map_def manager_resource_full)

lemma server_add_resource_InrD:
  assumes "server_add_resource now res (Some d) sv = Inr sv'"
  obtains r m m' where "res = Some r" "\<not> deadline_exceeded now d"
    "lookup_resource_server sv (ro_api r) = Some m" "do_add_string m (ro_name r) (Some r) = Inr m'"
    "sv' = sv\<lparr>managed_servers := aput (ro_api r) m' (managed_servers sv)\<rparr>"
  using assms
  by (auto simp: server_add_resource_def result_simps lookup_resource_server_eq manager_add_string_def
      split: if_splits option.splits)

lemma construct_step_InrD:
  assumes "construct_step reg deps cfg s = (Inr (Inr res), s')"
  obtains r ch where "construct_resource reg deps cfg = Inr (Some r)" "res = Some r"
    "module_channel_for (ms_log s) cfg = Inr ch" "ms_server s' = ms_server s"
    "ms_log s' = set_resource_log_level ch (cf_log_level cfg) (ms_log s)"
  using assms
  by (auto simp: construct_step_def construct_with_channel_def st_defs result_simps
      split: option.splits elim!: st_try_InrE st_bind_InrE)

lemma construct_step_InlD:
  "construct_step reg deps cfg s = (Inr (Inl st), s') \<Longrightarrow> st_code st = INTERNAL"
  by (auto simp: construct_step_def st_defs internal_error_def elim!: st_try_InrE st_bind_InrE)

text \<open>
  A resource is reported as added only when its model is registered, its constructor returned it,
  the deadline had not passed and no resource had its name; it can then be looked up.
\<close>

lemma add_resource_InrD:
  assumes "handle_AddResource env deadline proto dependencies s = (Inr status_ok, s')"
  obtains cfg deps s1 reg r m m' where
    "config_from_proto proto = Inr cfg"
    "get_dependencies env dependencies (cf_name cfg) s = (Inr deps, s1)"
    "lookup_model (ms_registry s) (cf_api cfg) (cf_model cfg) = Some reg"
    "construct_resource reg deps cfg = Inr (Some r)"
    "\<not> deadline_exceeded (clock env) deadline"
    "lookup_resource_server (ms_server s) (ro_api r) = Some m" "resource_map m (ro_name r) = None"
    "lookup_resource_server (ms_server s') (ro_api r) = Some m'"
    "resource_map m' = (resource_map m)(ro_name r \<mapsto> Some r)"
proof -
  from assms obtain cfg deps s1 built s2 where c: "config_from_proto proto = Inr cfg"
    and g: "get_dependencies env dependencies (cf_name cfg) s = (Inr deps, s1)"
    and b: "(case lookup_model (ms_registry s1) (cf_api cfg) (cf_model cfg) of
                Some r \<Rightarrow> construct_step r deps cfg
              | None \<Rightarrow> st_return (Inr None)) s1 = (Inr built, s2)"
    and f: "(case built of
         Inl st \<Rightarrow> st_return st
       | Inr res \<Rightarrow>
           st_try (st_bind (lift_server (server_add_resource (clock env) res (Some deadline)))
                     (\<lambda>_. st_return status_ok))
             (\<lambda>e. st_return (internal_error e))) s2 = (Inr status_ok, s')"
    unfolding handle_AddResource_def by (auto simp: st_lift_def st_get_def elim!: st_bind_InrE)
  note core = get_dependencies_core[OF g, unfolded same_core_def]
  obtain res where res: "built = Inr res"
  proof (cases built)
    case (Inl st)
    then have "st = status_ok" using f by (simp add: st_return_def)
    moreover have "st_code st = INTERNAL"
      using b Inl by (auto simp: st_return_def dest: construct_step_InlD split: option.splits)
    ultimately show ?thesis by simp
  qed auto
  have "internal_error e \<noteq> status_ok" for e by (simp add: internal_error_def mk_status_def status_ok_def)
  then obtain sv' where sv: "server_add_resource (clock env) res (Some deadline) (ms_server s2) = Inr sv'"
    and s': "s' = s2\<lparr>ms_server := sv'\<rparr>"
    using f unfolding res
    by (auto simp: st_return_def lift_server_def split: sum.splits elim!: st_try_InrE st_bind_InrE)
  from server_add_resource_InrD[OF sv] obtain r m m' where r: "res = Some r"
    "\<not> deadline_exceeded (clock env) deadline"
    "lookup_resource_server (ms_server s2) (ro_api r) = Some m"
    "do_add_string m (ro_name r) (Some r) = Inr m'"
    "sv' = (ms_server s2)\<lparr>managed_servers := aput (ro_api r) m' (managed_servers (ms_server s2))\<rparr>"
    by blast
  obtain reg where reg: "lookup_model (ms_registry s1) (cf_api cfg) (cf_model cfg) = Some reg"
    "construct_step reg deps cfg s1 = (Inr (Inr (Some r)), s2)"
    using b res r(1) by (auto simp: st_return_def split: option.splits)
  from construct_step_InrD[OF reg(2)] have cons: "construct_resource reg deps cfg = Inr (Some r)"
    "ms_server s2 = ms_server s1" by auto
  show thesis
    using that[OF c g, of reg r m m'] reg(1) cons r core s' manager_add_string_lookup[OF r(4)]
    by (simp add: lookup_resource_server_eq)
qed

text \<open>Adding a resource whose model is not registered dereferences a null pointer.\<close>

lemma add_resource_unregistered:
  assumes "config_from_proto proto = Inr cfg"
    "get_dependencies env dependencies (cf_name cfg) s = (Inr deps, s1)"
    "lookup_model (ms_registry s) (cf_api cfg) (cf_model cfg) = None"
    "\<not> deadline_exceeded (clock env) deadline"
  shows "handle_AddResource env deadline proto dependencies s = (Inl (Undefined ''null resource''), s1)"
  using assms get_dependencies_core[OF assms(2)]
  by (simp add: handle_AddResource_def st_bind_def st_defs st_try_def lift_server_def same_core_def
      server_add_resource_def)

text \<open>The converse of \<^verbatim>\<open>add_resource_InrD\<close>: when the guards hold the resource is added.\<close>

lemma add_resource_adds:
  assumes "config_from_proto proto = Inr cfg"
    "get_dependencies env dependencies (cf_name cfg) s = (Inr deps, s1)"
    "lookup_model (ms_registry s) (cf_api cfg) (cf_model cfg) = Some reg"
    "construct_resource reg deps cfg = Inr (Some r)"
    "\<not> deadline_exceeded (clock env) deadline"
    "lookup_resource_server (ms_server s) (ro_api r) = Some m" "resource_map m (ro_name r) = None"
  shows "\<exists>s' m'. handle_AddResource env deadline proto dependencies s = (Inr status_ok, s')
     \<and> lookup_resource_server (ms_server s') (ro_api r) = Some m'
     \<and> resource_map m' = (resource_map m)(ro_name r \<mapsto> Some r) \<and> manager_resource m' (ro_name r) = Some r"
proof -
  note core = get_dependencies_core[OF assms(2), unfolded same_core_def]
  obtain n where "resource_name cfg = Inr n"
    using config_consistent_total[OF config_from_proto_consistent[OF assms(1)]] by blast
  then obtain ch where ch: "module_channel_for (ms_log s1) cfg = Inr ch" by (simp add: module_channel_for_def)
  obtain m' where m': "do_add_string m (ro_name r) (Some r) = Inr m'"
    using resource_store.put_fresh[of m "ro_name r" "Some r"] assms(7) by (auto simp: resource_map_def)
  have "map_of (managed_servers (ms_server s)) (ro_api r) = Some m"
    using assms(6) by (simp add: lookup_resource_server_eq)
  then show ?thesis
    using assms core ch m' manager_add_string_lookup[OF m']
    by (simp add: handle_AddResource_def construct_step_def construct_with_channel_def st_bind_def st_defs
        st_try_def lift_server_def server_add_resource_def manager_add_string_def lookup_resource_server_eq)
qed

subsection \<open>Replacing a resource\<close>

text \<open>The guards of reconfiguration: everything the handler checks before it replaces the resource.\<close>

definition reconfigurable ::
  "'x module_env \<Rightarrow> pb_component_config \<Rightarrow> string list \<Rightarrow> ('x, 'sd) module_service \<Rightarrow> resource_config \<Rightarrow>
   'x dependencies \<Rightarrow> ('x, 'sd) module_service \<Rightarrow> 'x resource manager \<Rightarrow> res_name \<Rightarrow>
   ('x dependencies, resource_config, 'x resource) model_registration \<Rightarrow> bool" where
  "reconfigurable env proto ds s cfg deps s1 m nm reg \<longleftrightarrow>
     config_from_proto proto = Inr cfg \<and> get_dependencies env ds (cf_name cfg) s = (Inr deps, s1)
     \<and> lookup_resource_server (ms_server s) (cf_api cfg) = Some m \<and> resource_name cfg = Inr nm
     \<and> (\<exists>r. manager_resource m (nm_name nm) = Some r \<and> stop_if_stoppable r = Inr ())
     \<and> lookup_model (ms_registry s) (cf_api cfg) (cf_model cfg) = Some reg"

lemma catch_logged_fst: "is_std_exception e \<Longrightarrow> fst (catch_logged b (Inl e)) = None"
  by (simp add: catch_logged_def)

lemma replace_one_no_throw:
  assumes "\<And>e. c = Inl e \<Longrightarrow> is_std_exception e"
  shows "fst (manager_replace_one m n c) = None"
proof -
  have "is_std_exception e" if "do_remove m' n = Inl e" for m' :: "'a manager" and e
    using that by (auto simp: do_remove_def Let_def split: if_splits)
  moreover have "is_std_exception e" if "do_add m' n r = Inl e" for m' :: "'a manager" and r e
    using that by (auto simp: do_add_def do_add_string_def Let_def split: if_splits)
  ultimately show ?thesis using assms
    by (cases c) (auto simp: manager_replace_one_def catch_logged_def split: sum.splits)
qed

lemma reconfigure_effect:
  assumes r: "reconfigurable env proto ds s cfg deps s1 m nm reg"
    and std: "\<And>e. construct_with_channel (ms_log s1) reg deps cfg = Inl e \<Longrightarrow> is_std_exception e"
  shows "\<exists>s' m'. handle_ReconfigureResource env proto ds s = (Inr status_ok, s')
     \<and> lookup_resource_server (ms_server s') (cf_api cfg) = Some m'
     \<and> resource_map m' =
          (if resource_map m (short_name nm) = None then resource_map m
           else (resource_map m)(short_name nm :=
             (case construct_with_channel (ms_log s1) reg deps cfg of
                Inr rc \<Rightarrow> (if nm_name nm = [] then None else Some (Some (fst rc))) | Inl e \<Rightarrow> None)))
     \<and> ms_log s' = ms_log s1"
proof -
  let ?c = "rmap (\<lambda>rc. Some (fst rc)) (construct_with_channel (ms_log s1) reg deps cfg)"
  let ?out = "manager_replace_one m nm ?c"
  from r have g: "get_dependencies env ds (cf_name cfg) s = (Inr deps, s1)"
    by (simp add: reconfigurable_def)
  note core = get_dependencies_core[OF g, unfolded same_core_def]
  have no: "fst ?out = None"
    using std by (intro replace_one_no_throw) (auto simp: result_simps)
  have "handle_ReconfigureResource env proto ds s =
      (Inr status_ok, s1\<lparr>ms_server := (ms_server s1)\<lparr>managed_servers :=
          aput (cf_api cfg) (snd ?out) (managed_servers (ms_server s1))\<rparr>\<rparr>)"
    using r core no
    by (auto simp: handle_ReconfigureResource_def reconfigurable_def st_bind_def st_defs st_try_def
        replace_in_server_def Let_def)
  moreover have "resource_map (snd ?out) =
      (if resource_map m (short_name nm) = None then resource_map m
       else (resource_map m)(short_name nm :=
         (case construct_with_channel (ms_log s1) reg deps cfg of
            Inr rc \<Rightarrow> (if nm_name nm = [] then None else Some (Some (fst rc))) | Inl e \<Rightarrow> None)))"
    using manager_replace_one_map[of m nm ?c]
    by (cases "construct_with_channel (ms_log s1) reg deps cfg") auto
  ultimately show ?thesis by (simp add: lookup_resource_server_eq)
qed

subsection \<open>Removing a resource\<close>

lemma remove_resource_eval:
  assumes "name_from_string req = Inr n" "lookup_resource_server (ms_server s) (nm_api n) = Some m"
    "manager_resource m (nm_name n) = Some r" "stop_if_stoppable r = Inr ()"
  shows "handle_RemoveResource req s =
     (Inr status_ok, s\<lparr>ms_server := (ms_server s)\<lparr>managed_servers :=
        aput (nm_api n) (snd (manager_remove m n)) (managed_servers (ms_server s))\<rparr>\<rparr>)"
  using assms by (simp add: handle_RemoveResource_def st_bind_def st_defs)

lemma remove_resource_InrD:
  assumes "handle_RemoveResource req s = (Inr status_ok, s')"
  obtains n m r where "name_from_string req = Inr n"
    "lookup_resource_server (ms_server s) (nm_api n) = Some m"
    "manager_resource m (nm_name n) = Some r" "stop_if_stoppable r = Inr ()"
    "lookup_resource_server (ms_server s') (nm_api n) = Some (snd (manager_remove m n))"
proof -
  obtain n where n: "name_from_string req = Inr n"
    using assms by (auto simp: handle_RemoveResource_def st_lift_def elim!: st_bind_InrE)
  have ne: "mk_status UNKNOWN x \<noteq> status_ok" for x by (simp add: mk_status_def status_ok_def)
  obtain m where m: "lookup_resource_server (ms_server s) (nm_api n) = Some m"
    using assms n ne
    by (cases "lookup_resource_server (ms_server s) (nm_api n)")
      (auto simp: handle_RemoveResource_def st_bind_def st_defs)
  obtain r where r: "manager_resource m (nm_name n) = Some r"
    using assms n m ne
    by (cases "manager_resource m (nm_name n)") (auto simp: handle_RemoveResource_def st_bind_def st_defs)
  have st: "stop_if_stoppable r = Inr ()"
    using assms n m r
    by (cases "stop_if_stoppable r") (auto simp: handle_RemoveResource_def st_bind_def st_defs)
  have "lookup_resource_server (ms_server s') (nm_api n) = Some (snd (manager_remove m n))"
    using assms remove_resource_eval[OF n m r st] by (auto simp: lookup_resource_server_eq)
  with n m r st that show thesis by blast
qed

lemma do_remove_absent:
  "short_name n \<notin> set (akeys (rm_resources m)) \<Longrightarrow> snd (manager_remove m n) = m"
  by (simp add: manager_remove_def do_remove_def catch_logged_def Let_def)

text \<open>Asked to remove a resource by the last part of its name, the handler stops it, keeps it and
  reports success.\<close>

lemma remove_by_shortcut_keeps:
  assumes "name_from_string req = Inr n" "lookup_resource_server (ms_server s) (nm_api n) = Some m"
    "resource_map m (short_name n) = None"
    "manager_resource m (nm_name n) = Some r" "stop_if_stoppable r = Inr ()"
  shows "\<exists>s'. handle_RemoveResource req s = (Inr status_ok, s')
           \<and> lookup_resource_server (ms_server s') = lookup_resource_server (ms_server s)"
proof -
  have "snd (manager_remove m n) = m"
    using assms(3) by (intro do_remove_absent) (simp add: resource_map_def)
  then show ?thesis
    using remove_resource_eval[OF assms(1,2,4,5)] assms(2) by (auto simp: lookup_resource_server_eq)
qed

subsection \<open>Readiness and the address of the parent\<close>

definition parent_request :: "('x, 'sd) module_service \<Rightarrow> string \<Rightarrow> string \<Rightarrow> string" where
  "parent_request s raw addr = ms_protocol s @ (if raw \<noteq> [] then raw else addr)"

definition ready_reply :: "('x, 'sd) module_service \<Rightarrow> ready_response" where
  "ready_reply s = \<lparr>rr_handlers = handler_map_to_proto (md_handles (ms_module s)),
                    rr_ready = md_ready (ms_module s)\<rparr>"

lemma handle_Ready_eq:
  "handle_Ready env raw addr s =
     (if is_env_var_true (env_vars env) ''VIAM_NO_MODULE_PARENT''
         \<or> ms_parent_addr s = parent_request s raw addr
      then (Inr (ready_reply s), s)
      else case dial_parent env (parent_request s raw addr) of
        Inl e \<Rightarrow> (Inl e, s\<lparr>ms_parent_addr := parent_request s raw addr\<rparr>)
      | Inr _ \<Rightarrow> (Inr (ready_reply s),
          set_parent (parent_request s raw addr) (s\<lparr>ms_parent_addr := parent_request s raw addr\<rparr>)))"
  by (auto simp: handle_Ready_def st_bind_def st_defs Let_def parent_request_def ready_reply_def
      set_parent_def split: sum.splits)

text \<open>After a failed dial the same request succeeds without dialing: the address is already stored.\<close>

lemma ready_after_failed_dial:
  assumes "\<not> is_env_var_true (env_vars env) ''VIAM_NO_MODULE_PARENT''"
    "ms_parent_addr s \<noteq> parent_request s raw addr"
    "dial_parent env (parent_request s raw addr) = Inl e"
  shows "\<exists>s1. handle_Ready env raw addr s = (Inl e, s1) \<and> ms_parent s1 = ms_parent s
     \<and> (\<forall>env'. handle_Ready env' raw addr s1 = (Inr (ready_reply s), s1))"
  using assms by (auto simp: handle_Ready_eq parent_request_def ready_reply_def)

text \<open>What the reply says about the models comes back as the module's own table.\<close>

lemma ready_reply_handlers:
  assumes "distinct (map (rs_api \<circ> fst) (md_handles (ms_module s)))"
    "\<forall>e\<in>set (md_handles (ms_module s)). snd e \<noteq> [] \<and> (\<forall>m\<in>set (snd e). model_valid m)"
  shows "handler_map_from_proto (rr_handlers (ready_reply s)) =
           map (\<lambda>e. (strip_service (fst e), snd e)) (md_handles (ms_module s))"
  using handler_map_from_to[OF assms] by (simp add: ready_reply_def)

subsection \<open>Serving\<close>

text \<open>A service that is built and served has one manager per registered API, runs and is ready.\<close>

lemma serve_ok:
  fixes s :: "('x, 'sd) module_service"
  assumes "awf (rg_servers g)" "mk_module_service b g lm addr pr = Inr s"
  shows "\<exists>s'. serve True s = (Inr (), s') \<and> wait_blocks (ms_server s') \<and> md_ready (ms_module s')
     \<and> grpc_server (ms_server s') =
          Some \<lparr>sb_services = map (sr_class \<circ> snd) (rg_servers g), sb_module_service = True,
                sb_ports = [pr @ addr]\<rparr>
     \<and> managed_servers (ms_server s') = map (\<lambda>e. (fst e, empty_manager)) (rg_servers g)"
proof -
  obtain sv :: "'x server" where "mk_server g = Inr sv"
    "managed_servers sv = map (\<lambda>e. (fst e, empty_manager)) (rg_servers g)"
    "builder sv = Some (empty_builder\<lparr>sb_services := map (sr_class \<circ> snd) (rg_servers g)\<rparr>)"
    "grpc_server sv = None"
    using mk_server_ok[OF assms(1)] by blast
  note sv = this
  have sh: "\<not> is_shutdown sv"
    using mk_server_inv[OF sv(1)] sv(4) by (auto simp: server_inv_def)
  have s: "s = \<lparr>ms_module = mk_module b addr, ms_parent = None, ms_parent_addr = [],
      ms_protocol = pr, ms_server = sv, ms_registry = g, ms_log = lm\<rparr>"
    using assms(2) sv(1) by (simp add: mk_module_service_def)
  show ?thesis unfolding s serve_def
    using sv(2-4) sh
    by (simp add: st_bind_def st_modify_def lift_server_def
        register_module_service_def add_listening_port_def server_start_def wait_blocks_def
        module_set_ready_def mk_module_def empty_builder_def)
qed

subsection \<open>Starting from the command line\<close>

lemma serve_eval:
  assumes "builder (ms_server s) = Some b" "grpc_server (ms_server s) = None"
  shows "serve ok s = (Inr (), s\<lparr>ms_module := module_set_ready (ms_module s),
     ms_server := (ms_server s)\<lparr>builder := None,
       grpc_server := (if ok then Some (b\<lparr>sb_module_service := True,
          sb_ports := sb_ports b @ [ms_protocol s @ md_addr (ms_module s)]\<rparr>) else None)\<rparr>\<rparr>)"
  using assms unfolding serve_def
  by (simp add: st_bind_def st_modify_def lift_server_def register_module_service_def
      add_listening_port_def server_start_def)

text \<open>What the models of a program become: the registry they end in and the module's own table.\<close>

definition service_of :: "('sd \<Rightarrow> string) \<Rightarrow> ('d, 'c, 'r, 'sd) registry \<Rightarrow> api \<Rightarrow> string" where
  "service_of full_name g a =
     (case lookup_server g a of
        Some creator \<Rightarrow> (case service_descriptor creator of Some sd \<Rightarrow> full_name sd | None \<Rightarrow> [])
      | None \<Rightarrow> [])"

definition handles_of ::
  "('sd \<Rightarrow> string) \<Rightarrow> ('d, 'c, 'r, 'sd) registry \<Rightarrow> handler_map \<Rightarrow> ('d, 'c, 'r) model_registration list \<Rightarrow>
   handler_map" where
  "handles_of full_name g hm mrs =
     foldl (\<lambda>hm mr. add_model (mr_model mr)
       \<lparr>rs_api = mr_api mr, rs_service = service_of full_name g (mr_api mr)\<rparr> hm) hm mrs"

lemma register_model_servers: "register_model g p = Inr g' \<Longrightarrow> rg_servers g' = rg_servers g"
  by (auto simp: register_model_def Let_def split: option.splits if_splits)

lemma register_models_servers: "register_models g mrs = Inr g' \<Longrightarrow> rg_servers g' = rg_servers g"
  by (induction mrs arbitrary: g)
    (auto simp: register_models_def result_simps dest!: register_model_servers)

lemma service_of_register: "register_model g p = Inr g' \<Longrightarrow> service_of full_name g' = service_of full_name g"
  by (auto simp: service_of_def lookup_eqs fun_eq_iff dest: register_model_servers)

lemma handles_of_register: "register_model g p = Inr g' \<Longrightarrow> handles_of full_name g' = handles_of full_name g"
  by (simp add: handles_of_def fun_eq_iff service_of_register)

text \<open>The loop of the constructor registers the models in order and stops at the first refusal.\<close>

lemma register_loop_ok:
  "register_models (ms_registry s) mrs = Inr g' \<Longrightarrow>
   st_for (map Some mrs) (register_and_add full_name) s =
     (Inr (), s\<lparr>ms_registry := g', ms_module := (ms_module s)\<lparr>md_handles :=
        handles_of full_name (ms_registry s) (md_handles (ms_module s)) mrs\<rparr>\<rparr>)"
proof (induction mrs arbitrary: s)
  case (Cons mr mrs)
  then obtain g1 where g1: "register_model (ms_registry s) (Some mr) = Inr g1" "register_models g1 mrs = Inr g'"
    by (auto simp: register_models_def result_simps)
  define s1 where "s1 = s\<lparr>ms_registry := g1, ms_module := (ms_module s)\<lparr>md_handles :=
     add_model (mr_model mr) \<lparr>rs_api = mr_api mr, rs_service = service_of full_name g1 (mr_api mr)\<rparr>
       (md_handles (ms_module s))\<rparr>\<rparr>"
  have "register_and_add full_name (Some mr) s = (Inr (), s1)"
    by (simp add: register_and_add_def g1(1) add_model_from_registry_def st_modify_def service_of_def s1_def)
  moreover have "ms_registry s1 = g1" by (simp add: s1_def)
  ultimately show ?case
    using Cons.IH[of s1] g1
    by (simp add: s1_def handles_of_register[OF g1(1)] service_of_register[OF g1(1)])
      (simp add: handles_of_def)
qed (simp add: register_models_def handles_of_def st_return_def)

lemma register_loop_error:
  "register_models (ms_registry s) mrs = Inl e \<Longrightarrow>
   fst (st_for (map Some mrs) (register_and_add full_name) s) = Inl e"
proof (induction mrs arbitrary: s)
  case (Cons mr mrs)
  show ?case
  proof (cases "register_model (ms_registry s) (Some mr)")
    case (Inl e')
    with Cons.prems show ?thesis by (simp add: register_models_def register_and_add_def)
  next
    case (Inr g1)
    obtain s1 where s1: "register_and_add full_name (Some mr) s = (Inr (), s1)" "ms_registry s1 = g1"
      by (simp add: register_and_add_def Inr add_model_from_registry_def st_modify_def)
    with Cons.IH[of s1] Cons.prems Inr show ?thesis by (simp add: register_models_def)
  qed
qed (simp add: register_models_def)

definition fresh_managers :: "('d, 'c, 'r, 'sd) registry \<Rightarrow> (api \<times> 'x resource manager) list" where
  "fresh_managers g = map (\<lambda>e. (fst e, empty_manager)) (rg_servers g)"

lemma module_service_main_eval:
  "2 \<le> length argv \<Longrightarrow> module_service_main ind full_name g lm argv mrs =
     rbind (mk_module_service ind g lm (argv ! 1) (get_protocol argv)) (\<lambda>s.
        case st_for mrs (register_and_add full_name)
               (s\<lparr>ms_log := set_global_log_level_args argv (ms_log s)\<rparr>) of
          (Inl e, _) \<Rightarrow> Inl e | (Inr _, s') \<Rightarrow> Inr s')"
  by (cases argv rule: get_protocol.cases; cases "tl argv") (simp_all add: module_service_main_def)

lemma module_main_no_socket:
  "length argv < 2 \<Longrightarrow> module_service_main ind full_name g lm argv mrs =
     Inl (sdk_exception K_connection ''Need socket path as command line argument'')"
  by (auto simp: module_service_main_def split: list.splits)

lemma register_models_lookup:
  "register_models g mrs = Inr g' \<Longrightarrow> mr \<in> set mrs \<Longrightarrow> lookup_model g' (mr_api mr) (mr_model mr) = Some mr"
  unfolding register_models_put_all lookup_model_alt by (erule model_store.put_all_lookup) auto

lemma register_single:
  "lookup_model g (mr_api mr) (mr_model mr) = None \<Longrightarrow> \<exists>g'. register_models g [mr] = Inr g'"
  using model_store.put_fresh[of g "registration_key (mr_api mr) (mr_model mr)" mr]
  by (auto simp: register_models_def register_model_put lookup_model_alt)

lemma map_of_const: "map_of (map (\<lambda>e. (fst e, c)) es) a = map_option (\<lambda>_. c) (map_of es a)"
  by (induction es) auto

lemma fresh_manager: "lookup_server g a \<noteq> None \<Longrightarrow> map_of (fresh_managers g) a = Some empty_manager"
  by (auto simp: fresh_managers_def map_of_const lookup_eqs dest: in_akeys_map_of)

lemma ready_same_core:
  assumes "\<And>a. dial_parent env a = Inr ()"
  shows "\<exists>s'. handle_Ready env raw addr s = (Inr (ready_reply s), s') \<and> ms_server s' = ms_server s
     \<and> ms_registry s' = ms_registry s \<and> ms_module s' = ms_module s"
  using assms by (simp add: handle_Ready_eq set_parent_def)

text \<open>A machine that answers: what is asked of it succeeds.\<close>

definition answering :: "'x module_env \<Rightarrow> bool" where
  "answering env \<longleftrightarrow>
     (\<forall>a. dial_parent env a = Inr ()) \<and> (\<forall>a n. \<exists>r. parent_resource env a n = Inr r)"

lemma answering_parent: "answering env \<Longrightarrow> \<exists>r s'. get_parent_resource env n s = (Inr r, s')"
  by (auto simp: answering_def get_parent_resource_def st_bind_def st_defs split: option.splits sum.splits)

lemma answering_no_dependencies: "answering env \<Longrightarrow> \<exists>ds s'. get_dependencies env [] nm s = (Inr ds, s')"
  using answering_parent[of env frame_system_name s]
  by (auto simp: get_dependencies_def st_bind_def st_defs)

end
