(* ===== verification/Dial.thy ===== *)
theory Dial
  imports Utils
begin

text \<open>
  \<^verbatim>\<open>rpc/dial.cpp\<close>: channels and their options, a single dial (through the Rust library or directly
  over gRPC) and the retry loop of the first connection. The Rust library and the authentication
  service are the world a dial happens in; the world may change between two attempts.
\<close>

record credentials =
  cr_type :: string
  cr_payload :: string

text \<open>Durations in seconds are \<^verbatim>\<open>float\<close>s, kept as their bit patterns.\<close>

record channel_options =
  auth_entity :: "string option"
  co_credentials :: "credentials option"
  allow_insecure_downgrade :: bool
  disable_webrtc :: bool
  timeout :: "32 word"
  initial_connection_attempts :: int
  initial_connection_attempt_timeout :: "32 word"

definition twenty_seconds :: "32 word" where
  "twenty_seconds = 0x41A00000"

definition default_channel_options :: channel_options where
  "default_channel_options =
     \<lparr>auth_entity = None, co_credentials = None, allow_insecure_downgrade = False,
      disable_webrtc = False, timeout = twenty_seconds, initial_connection_attempts = 3,
      initial_connection_attempt_timeout = twenty_seconds\<rparr>"

text \<open>The setters of the options; each returns the options it changed.\<close>

definition set_credentials :: "credentials option \<Rightarrow> channel_options \<Rightarrow> channel_options" where
  "set_credentials creds opts = opts\<lparr>co_credentials := creds\<rparr>"

definition set_entity :: "string option \<Rightarrow> channel_options \<Rightarrow> channel_options" where
  "set_entity entity opts = opts\<lparr>auth_entity := entity\<rparr>"

definition set_initial_connection_attempts :: "int \<Rightarrow> channel_options \<Rightarrow> channel_options" where
  "set_initial_connection_attempts attempts opts = opts\<lparr>initial_connection_attempts := attempts\<rparr>"

definition set_timeout :: "32 word \<Rightarrow> channel_options \<Rightarrow> channel_options" where
  "set_timeout t opts = opts\<lparr>timeout := t\<rparr>"

definition set_initial_connection_attempt_timeout :: "32 word \<Rightarrow> channel_options \<Rightarrow> channel_options" where
  "set_initial_connection_attempt_timeout t opts = opts\<lparr>initial_connection_attempt_timeout := t\<rparr>"

definition set_allow_insecure_downgrade :: "bool \<Rightarrow> channel_options \<Rightarrow> channel_options" where
  "set_allow_insecure_downgrade allow opts = opts\<lparr>allow_insecure_downgrade := allow\<rparr>"

definition set_webrtc_disabled :: "bool \<Rightarrow> channel_options \<Rightarrow> channel_options" where
  "set_webrtc_disabled disable opts = opts\<lparr>disable_webrtc := disable\<rparr>"

lemmas option_setters =
  set_credentials_def set_entity_def set_initial_connection_attempts_def set_timeout_def
  set_initial_connection_attempt_timeout_def set_allow_insecure_downgrade_def set_webrtc_disabled_def

text \<open>A channel: \<open>ch_uri = None\<close> is the indeterminate pointer the public constructor leaves.\<close>

record channel_impl =
  ci_target :: string
  ci_path :: "string option"
  ci_auth_token :: "string option"

record viam_channel =
  ch_uri :: "string option"
  ch_impl :: "channel_impl option"

definition mk_channel :: "string \<Rightarrow> viam_channel" where
  "mk_channel target =
     \<lparr>ch_uri = None, ch_impl = Some \<lparr>ci_target = target, ci_path = None, ci_auth_token = None\<rparr>\<rparr>"

definition channel_close :: "viam_channel \<Rightarrow> viam_channel" where
  "channel_close c = c\<lparr>ch_impl := None\<rparr>"

definition channel_auth_token :: "viam_channel \<Rightarrow> string option res" where
  "channel_auth_token c =
     (case ch_impl c of Some i \<Rightarrow> Inr (ci_auth_token i) | None \<Rightarrow> Inl (Undefined ''closed channel''))"

definition get_channel_addr :: "viam_channel \<Rightarrow> string res" where
  "get_channel_addr c =
     (case ch_uri c of Some u \<Rightarrow> Inr u | None \<Rightarrow> Inl (Undefined ''indeterminate uri''))"

record dial_world =
  viam_dial :: "string \<Rightarrow> string option \<Rightarrow> string option \<Rightarrow> string option \<Rightarrow> bool \<Rightarrow> 32 word \<Rightarrow> string option"
  authenticate :: "string \<Rightarrow> string \<Rightarrow> credentials \<Rightarrow> status \<times> string"
  direct_supported :: bool

fun contains :: "string \<Rightarrow> string \<Rightarrow> bool" where
  "contains pat [] \<longleftrightarrow> pat = []"
| "contains pat (c # s) \<longleftrightarrow> take (length pat) (c # s) = pat \<or> contains pat s"

definition proxy_address :: "string \<Rightarrow> string" where
  "proxy_address proxy_path =
     (if contains ''127.0.0.1'' proxy_path then [] else ''unix:'') @ proxy_path"

definition dial_direct :: "dial_world \<Rightarrow> string \<Rightarrow> channel_options \<Rightarrow> viam_channel res" where
  "dial_direct w uri opts =
     (case auth_entity opts of
        None \<Rightarrow> Inl (Undefined ''no entity'')
      | Some entity \<Rightarrow>
          (case co_credentials opts of
             None \<Rightarrow> Inl (Undefined ''no credentials'')
           | Some creds \<Rightarrow>
               let out = authenticate w uri entity creds in
               if \<not> st_is_ok (fst out) then Inl (grpc_exception (fst out))
               else Inr \<lparr>ch_uri = Some uri,
                         ch_impl = Some \<lparr>ci_target = uri, ci_path = None,
                                         ci_auth_token = Some (snd out)\<rparr>\<rparr>))"

definition dial :: "dial_world \<Rightarrow> string \<Rightarrow> channel_options option \<Rightarrow> viam_channel res" where
  "dial w uri options =
     (let opts = (case options of Some o' \<Rightarrow> o' | None \<Rightarrow> default_channel_options) in
      if disable_webrtc opts \<and> direct_supported w then dial_direct w uri opts
      else
        (case viam_dial w uri (auth_entity opts) (map_option cr_type (co_credentials opts))
                (map_option cr_payload (co_credentials opts)) (allow_insecure_downgrade opts)
                (timeout opts) of
           None \<Rightarrow> Inl (sdk_exception K_connection ''Unable to establish connecting path'')
         | Some proxy_path \<Rightarrow>
             Inr \<lparr>ch_uri = Some uri,
                  ch_impl = Some \<lparr>ci_target = proxy_address proxy_path, ci_path = Some proxy_path,
                                  ci_auth_token = None\<rparr>\<rparr>))"

subsection \<open>The first connection\<close>

text \<open>
  \<^verbatim>\<open>throw e\<close> in the handler copies the exception as a \<^verbatim>\<open>std::exception\<close>: what is thrown carries
  the default message of that class. The counter is an \<^verbatim>\<open>int\<close>; the loop may run forever, so it
  is bounded by fuel, and \<open>None\<close> is its exhaustion.
\<close>

definition sliced :: "exn \<Rightarrow> exn" where
  "sliced e = StdException ''std::exception''"

fun dial_loop ::
  "nat \<Rightarrow> (nat \<Rightarrow> viam_channel res) \<Rightarrow> nat \<Rightarrow> int \<Rightarrow> viam_channel res option" where
  "dial_loop 0 attempt k remaining = None"
| "dial_loop (Suc fuel) attempt k remaining =
     (if remaining = 0 then Some (Inl (Undefined ''unreachable''))
      else
        (case attempt k of
           Inr c \<Rightarrow> Some (Inr c)
         | Inl e \<Rightarrow>
             if \<not> is_std_exception e then Some (Inl e)
             else if \<not> in_sint 32 (remaining - 1) then Some (Inl (Undefined ''int underflow''))
             else if remaining - 1 = 0 then Some (Inl (sliced e))
             else dial_loop fuel attempt (Suc k) (remaining - 1)))"

definition dial_initial ::
  "nat \<Rightarrow> (nat \<Rightarrow> dial_world) \<Rightarrow> string \<Rightarrow> channel_options option \<Rightarrow> viam_channel res option" where
  "dial_initial fuel worlds uri options =
     (let opts = (case options of Some o' \<Rightarrow> o' | None \<Rightarrow> default_channel_options);
          attempts = (if initial_connection_attempts opts = 0 then - 1
                      else initial_connection_attempts opts);
          opts' = opts\<lparr>timeout := initial_connection_attempt_timeout opts\<rparr>
      in dial_loop fuel (\<lambda>k. dial (worlds k) uri (Some opts')) 0 attempts)"

subsection \<open>Lemmas\<close>

lemma dial_loop_success:
  assumes "\<forall>i<n. \<exists>e. attempt (k + i) = Inl e \<and> is_std_exception e" "attempt (k + n) = Inr c"
    and "remaining < 0 \<and> in_sint 32 (remaining - int n) \<or> int n < remaining" "in_sint 32 remaining"
  shows "dial_loop (Suc n) attempt k remaining = Some (Inr c)"
  using assms
proof (induction n arbitrary: k remaining)
  case (Suc n)
  obtain e where e: "attempt k = Inl e" "is_std_exception e" using Suc.prems(1) by auto
  have r: "remaining \<noteq> 0" "in_sint 32 (remaining - 1)" "remaining - 1 \<noteq> 0"
    using Suc.prems(3,4) by (auto simp: in_sint_def)
  have "dial_loop (Suc n) attempt (Suc k) (remaining - 1) = Some (Inr c)"
  proof (rule Suc.IH)
    show "\<forall>i<n. \<exists>e. attempt (Suc k + i) = Inl e \<and> is_std_exception e"
      using Suc.prems(1) by (metis Suc_less_eq add_Suc add_Suc_right)
    show "attempt (Suc k + n) = Inr c" using Suc.prems(2) by simp
    show "remaining - 1 < 0 \<and> in_sint 32 (remaining - 1 - int n) \<or> int n < remaining - 1"
      using Suc.prems(3) by (auto simp: algebra_simps)
  qed (rule r(2))
  then show ?case using e r by simp
qed auto

lemma dial_loop_exhausted:
  assumes "\<forall>i\<le>n. \<exists>e. attempt (k + i) = Inl e \<and> is_std_exception e" "remaining = int n + 1"
    "in_sint 32 remaining"
  shows "dial_loop (Suc n) attempt k remaining = Some (Inl (StdException ''std::exception''))"
  using assms
proof (induction n arbitrary: k remaining)
  case 0
  then show ?case by (auto simp: sliced_def)
next
  case (Suc n)
  obtain e where e: "attempt k = Inl e" "is_std_exception e" using Suc.prems(1) by force
  have "dial_loop (Suc n) attempt (Suc k) (remaining - 1) = Some (Inl (StdException ''std::exception''))"
  proof (rule Suc.IH)
    show "\<forall>i\<le>n. \<exists>e. attempt (Suc k + i) = Inl e \<and> is_std_exception e"
      using Suc.prems(1) by (metis Suc_le_mono add_Suc add_Suc_right)
  qed (use Suc.prems in \<open>auto simp: in_sint_def\<close>)
  then show ?case using e Suc.prems(2,3) by (auto simp: in_sint_def)
qed

text \<open>A positive number of attempts always settles, within that many attempts.\<close>

lemma dial_loop_terminates:
  "0 < remaining \<Longrightarrow> in_sint 32 remaining \<Longrightarrow> \<exists>r. dial_loop (nat remaining) attempt k remaining = Some r"
proof (induction "nat remaining" arbitrary: remaining k)
  case (Suc n)
  then have n: "nat remaining = Suc n" "n = nat (remaining - 1)" by simp_all
  have i: "in_sint 32 (remaining - 1)" using Suc.prems by (auto simp: in_sint_def)
  have "\<exists>r. dial_loop n attempt (Suc k) (remaining - 1) = Some r" if "remaining - 1 \<noteq> 0"
    unfolding n(2) by (rule Suc.hyps(1)[OF n(2)]) (use that Suc.prems i in auto)
  then show ?case unfolding n(1) by (auto split: sum.split)
qed simp

text \<open>Without success a counter that starts negative never settles before it leaves \<^verbatim>\<open>int\<close>.\<close>

lemma dial_loop_forever:
  assumes "\<forall>i. \<exists>e. attempt i = Inl e \<and> is_std_exception e" "remaining < 0"
    "in_sint 32 (remaining - int fuel)"
  shows "dial_loop fuel attempt k remaining = None"
  using assms(2,3)
proof (induction fuel arbitrary: k remaining)
  case (Suc fuel)
  obtain e where "attempt k = Inl e" "is_std_exception e" using assms(1) by blast
  moreover have "in_sint 32 (remaining - 1)" "remaining - 1 < 0" "in_sint 32 (remaining - 1 - int fuel)"
    using Suc.prems by (auto simp: in_sint_def algebra_simps)
  ultimately show ?case using Suc.IH[of "remaining - 1" "Suc k"] Suc.prems by simp
qed simp

lemma dial_uri: "dial w uri o' = Inr c \<Longrightarrow> ch_uri c = Some uri \<and> ch_impl c \<noteq> None"
  by (auto simp: dial_def dial_direct_def Let_def split: option.splits if_splits)

lemma dial_loop_uri:
  "dial_loop fuel (\<lambda>k. dial (ws k) uri o') k r = Some (Inr c) \<Longrightarrow> ch_uri c = Some uri \<and> ch_impl c \<noteq> None"
  by (induction fuel "\<lambda>k. dial (ws k) uri o'" k r rule: dial_loop.induct)
    (auto split: sum.splits if_splits dest: dial_uri)

lemma contains_append: "contains pat (pre @ pat @ post)"
proof (induction pre)
  case Nil
  show ?case by (cases "pat @ post") (auto, metis append_eq_conv_conj)
qed auto

lemma proxy_address_tcp: "proxy_address (pre @ ''127.0.0.1'' @ post) = pre @ ''127.0.0.1'' @ post"
  using contains_append[of "''127.0.0.1''"] by (simp add: proxy_address_def)

text \<open>
  What the options decide. Direct dialling dereferences the entity and the credentials; with both,
  the token of the authentication is the channel's. Through WebRTC no token is kept, and the timeout
  is the one set.
\<close>

lemma direct_dial_options:
  assumes "direct_supported w"
  shows "dial w uri (Some (set_webrtc_disabled True opts)) =
    (case (auth_entity opts, co_credentials opts) of
       (Some entity, Some creds) \<Rightarrow>
         (let out = authenticate w uri entity creds in
          if st_is_ok (fst out)
          then Inr \<lparr>ch_uri = Some uri,
                    ch_impl = Some \<lparr>ci_target = uri, ci_path = None, ci_auth_token = Some (snd out)\<rparr>\<rparr>
          else Inl (grpc_exception (fst out)))
     | (Some entity, None) \<Rightarrow> Inl (Undefined ''no credentials'')
     | (None, _) \<Rightarrow> Inl (Undefined ''no entity''))"
  using assms
  by (auto simp: dial_def dial_direct_def option_setters Let_def split: option.split)

lemma direct_dial_without_entity:
  "direct_supported w \<Longrightarrow> auth_entity opts = None \<Longrightarrow>
   dial w uri (Some (set_webrtc_disabled True opts)) = Inl (Undefined ''no entity'')"
  by (simp add: direct_dial_options)

lemma webrtc_dial_options:
  assumes "\<not> disable_webrtc opts"
    and "viam_dial w uri entity (map_option cr_type creds) (map_option cr_payload creds) allow t = Some path"
  shows "dial w uri (Some (set_entity entity (set_credentials creds (set_allow_insecure_downgrade allow (set_timeout t opts))))) =
    Inr \<lparr>ch_uri = Some uri, ch_impl = Some \<lparr>ci_target = proxy_address path, ci_path = Some path, ci_auth_token = None\<rparr>\<rparr>"
  using assms by (simp add: dial_def option_setters)

end
