(* ===== verification/RobotStatus.thy ===== *)
theory RobotStatus
  imports Utils
begin

text \<open>
  The messages of the robot service that \<^verbatim>\<open>robot/client.cpp\<close> decodes: operations, the status of
  resources, modules, packages, jobs and the machine, and the comparison of the decoded values.
  An open enum of the wire has its known constants and every other number.
\<close>

subsection \<open>Decoded values\<close>

record operation =
  op_id :: string
  op_method :: string
  op_session_id :: "string option"
  op_arguments :: proto_struct
  op_started :: "int option"

datatype resource_state =
  RS_unspecified | RS_unconfigured | RS_configuring | RS_ready | RS_removing | RS_unhealthy

record resource_status =
  rst_name :: res_name
  rst_state :: resource_state
  rst_last_updated :: "int option"
  rst_revision :: string
  rst_error :: string

record config_status =
  cs_revision :: string
  cs_last_updated :: "int option"

datatype module_state =
  MS_unspecified | MS_pending | MS_starting | MS_ready | MS_unhealthy | MS_closing

record module_status =
  mst_module_name :: string
  mst_state :: module_state
  mst_last_updated :: "int option"
  mst_error :: string
  mst_consecutive_failures :: "32 word"

datatype package_type =
  PT_unspecified | PT_archive | PT_ml_model | PT_module | PT_slam_map | PT_ml_training

datatype package_state =
  PS_unspecified | PS_downloading | PS_loading | PS_first_run | PS_ready | PS_failed

record package_status =
  pst_name :: string
  pst_type :: package_type
  pst_state :: package_state
  pst_error :: string
  pst_last_updated :: "int option"
  pst_version :: string
  pst_bytes_downloaded :: "64 word"
  pst_total_bytes :: "64 word"

record job_status =
  js_job_name :: string
  js_recent_successful_runs :: "int list"
  js_recent_failed_runs :: "int list"

datatype robot_state = R_initializing | R_running | R_unspecified

record machine_status =
  mcs_state :: robot_state
  mcs_resources :: "resource_status list"
  mcs_config :: config_status
  mcs_modules :: "module_status list"
  mcs_packages :: "package_status list"
  mcs_job_statuses :: "job_status list"

subsection \<open>Messages\<close>

record pb_operation =
  po_id :: string
  po_method :: string
  po_session_id :: "string option"
  po_arguments :: "pb_struct option"
  po_started :: "pb_time option"

datatype 'k open_enum = Known 'k | Unrecognized int

record pb_resource_status =
  prs_name :: "pb_resource_name option"
  prs_state :: "resource_state open_enum"
  prs_last_updated :: "pb_time option"
  prs_revision :: string
  prs_error :: string

record pb_config_status =
  pcs_revision :: string
  pcs_last_updated :: "pb_time option"

record pb_module_status =
  pms_module_name :: string
  pms_state :: "module_state open_enum"
  pms_last_updated :: "pb_time option"
  pms_error :: string
  pms_consecutive_failures :: "32 word"

record pb_package_status =
  pps_name :: string
  pps_type :: "package_type open_enum"
  pps_state :: "package_state open_enum"
  pps_error :: string
  pps_last_updated :: "pb_time option"
  pps_version :: string
  pps_bytes_downloaded :: "64 word"
  pps_total_bytes :: "64 word"

record pb_job_status =
  pjs_job_name :: string
  pjs_recent_successful_runs :: "pb_time list"
  pjs_recent_failed_runs :: "pb_time list"

record pb_machine_status =
  pmc_state :: "robot_state open_enum"
  pmc_resources :: "pb_resource_status list"
  pmc_config :: "pb_config_status option"
  pmc_modules :: "pb_module_status list"
  pmc_packages :: "pb_package_status list"
  pmc_job_statuses :: "pb_job_status list"

subsection \<open>Decoding\<close>

definition optional_time :: "pb_time option \<Rightarrow> int option res" where
  "optional_time f = (case f of Some t \<Rightarrow> rmap Some (time_from_proto t) | None \<Rightarrow> Inr None)"

definition operation_from_proto :: "pb_operation \<Rightarrow> operation res" where
  "operation_from_proto p =
     rbind (optional_time (po_started p)) (\<lambda>started.
       Inr \<lparr>op_id = po_id p, op_method = po_method p, op_session_id = po_session_id p,
            op_arguments = (case po_arguments p of Some a \<Rightarrow> struct_from_proto a | None \<Rightarrow> []),
            op_started = started\<rparr>)"

definition resource_state_of :: "resource_state open_enum \<Rightarrow> resource_state" where
  "resource_state_of s =
     (case s of
        Known RS_unconfigured \<Rightarrow> RS_unconfigured
      | Known RS_configuring \<Rightarrow> RS_configuring
      | Known RS_ready \<Rightarrow> RS_ready
      | Known RS_removing \<Rightarrow> RS_removing
      | Known RS_unhealthy \<Rightarrow> RS_unhealthy
      | _ \<Rightarrow> RS_unspecified)"

definition resource_status_from_proto :: "pb_resource_status \<Rightarrow> resource_status res" where
  "resource_status_from_proto p =
     rbind (optional_time (prs_last_updated p)) (\<lambda>t.
       Inr \<lparr>rst_name = name_from_proto
              (case prs_name p of Some n \<Rightarrow> n
               | None \<Rightarrow> \<lparr>rn_namespace = [], rn_type = [], rn_subtype = [], rn_name = []\<rparr>),
            rst_state = resource_state_of (prs_state p), rst_last_updated = t,
            rst_revision = prs_revision p, rst_error = prs_error p\<rparr>)"

definition config_status_from_proto :: "pb_config_status \<Rightarrow> config_status res" where
  "config_status_from_proto p =
     rbind (optional_time (pcs_last_updated p)) (\<lambda>t.
       Inr \<lparr>cs_revision = pcs_revision p, cs_last_updated = t\<rparr>)"

definition module_state_of :: "module_state open_enum \<Rightarrow> module_state" where
  "module_state_of s =
     (case s of
        Known MS_pending \<Rightarrow> MS_pending
      | Known MS_starting \<Rightarrow> MS_starting
      | Known MS_ready \<Rightarrow> MS_ready
      | Known MS_unhealthy \<Rightarrow> MS_unhealthy
      | Known MS_closing \<Rightarrow> MS_closing
      | _ \<Rightarrow> MS_unspecified)"

definition module_status_from_proto :: "pb_module_status \<Rightarrow> module_status res" where
  "module_status_from_proto p =
     rbind (optional_time (pms_last_updated p)) (\<lambda>t.
       Inr \<lparr>mst_module_name = pms_module_name p, mst_state = module_state_of (pms_state p),
            mst_last_updated = t, mst_error = pms_error p,
            mst_consecutive_failures = pms_consecutive_failures p\<rparr>)"

definition package_type_of :: "package_type open_enum \<Rightarrow> package_type" where
  "package_type_of t =
     (case t of
        Known PT_archive \<Rightarrow> PT_archive
      | Known PT_ml_model \<Rightarrow> PT_ml_model
      | Known PT_module \<Rightarrow> PT_module
      | Known PT_slam_map \<Rightarrow> PT_slam_map
      | Known PT_ml_training \<Rightarrow> PT_ml_training
      | _ \<Rightarrow> PT_unspecified)"

definition package_state_of :: "package_state open_enum \<Rightarrow> package_state" where
  "package_state_of s =
     (case s of
        Known PS_downloading \<Rightarrow> PS_downloading
      | Known PS_loading \<Rightarrow> PS_loading
      | Known PS_first_run \<Rightarrow> PS_first_run
      | Known PS_ready \<Rightarrow> PS_ready
      | Known PS_failed \<Rightarrow> PS_failed
      | _ \<Rightarrow> PS_unspecified)"

definition package_status_from_proto :: "pb_package_status \<Rightarrow> package_status res" where
  "package_status_from_proto p =
     rbind (optional_time (pps_last_updated p)) (\<lambda>t.
       Inr \<lparr>pst_name = pps_name p, pst_type = package_type_of (pps_type p),
            pst_state = package_state_of (pps_state p), pst_error = pps_error p,
            pst_last_updated = t, pst_version = pps_version p,
            pst_bytes_downloaded = pps_bytes_downloaded p, pst_total_bytes = pps_total_bytes p\<rparr>)"

definition job_status_from_proto :: "pb_job_status \<Rightarrow> job_status res" where
  "job_status_from_proto p =
     rbind (mapM time_from_proto (pjs_recent_successful_runs p)) (\<lambda>ok.
     rbind (mapM time_from_proto (pjs_recent_failed_runs p)) (\<lambda>bad.
       Inr \<lparr>js_job_name = pjs_job_name p, js_recent_successful_runs = ok,
            js_recent_failed_runs = bad\<rparr>))"

definition robot_state_of :: "robot_state open_enum \<Rightarrow> robot_state" where
  "robot_state_of s =
     (case s of
        Known R_initializing \<Rightarrow> R_initializing
      | Known R_running \<Rightarrow> R_running
      | _ \<Rightarrow> R_unspecified)"

definition machine_status_from_proto :: "pb_machine_status \<Rightarrow> machine_status res" where
  "machine_status_from_proto p =
     rbind (mapM resource_status_from_proto (pmc_resources p)) (\<lambda>rs.
     rbind (config_status_from_proto
              (case pmc_config p of Some c \<Rightarrow> c
               | None \<Rightarrow> \<lparr>pcs_revision = [], pcs_last_updated = None\<rparr>)) (\<lambda>c.
     rbind (mapM module_status_from_proto (pmc_modules p)) (\<lambda>ms.
     rbind (mapM package_status_from_proto (pmc_packages p)) (\<lambda>ps.
     rbind (mapM job_status_from_proto (pmc_job_statuses p)) (\<lambda>js.
       Inr \<lparr>mcs_state = robot_state_of (pmc_state p), mcs_resources = rs, mcs_config = c,
            mcs_modules = ms, mcs_packages = ps, mcs_job_statuses = js\<rparr>)))))"

subsection \<open>Comparison and printing\<close>

definition operation_eq :: "operation \<Rightarrow> operation \<Rightarrow> bool" where
  "operation_eq l r \<longleftrightarrow>
     op_id l = op_id r \<and> op_method l = op_method r \<and> op_session_id l = op_session_id r
     \<and> pv_eq (PStruct (op_arguments l)) (PStruct (op_arguments r)) \<and> op_started l = op_started r"

definition resource_status_eq :: "resource_status \<Rightarrow> resource_status \<Rightarrow> bool" where
  "resource_status_eq l r \<longleftrightarrow>
     name_eq (rst_name l) (rst_name r) \<and> rst_state l = rst_state r
     \<and> rst_last_updated l = rst_last_updated r \<and> rst_revision l = rst_revision r
     \<and> rst_error l = rst_error r"

definition config_status_eq :: "config_status \<Rightarrow> config_status \<Rightarrow> bool" where
  "config_status_eq l r \<longleftrightarrow>
     cs_revision l = cs_revision r \<and> cs_last_updated l = cs_last_updated r"

definition module_status_eq :: "module_status \<Rightarrow> module_status \<Rightarrow> bool" where
  "module_status_eq l r \<longleftrightarrow>
     mst_module_name l = mst_module_name r \<and> mst_state l = mst_state r
     \<and> mst_last_updated l = mst_last_updated r \<and> mst_error l = mst_error r
     \<and> mst_consecutive_failures l = mst_consecutive_failures r"

definition package_status_eq :: "package_status \<Rightarrow> package_status \<Rightarrow> bool" where
  "package_status_eq l r \<longleftrightarrow>
     pst_name l = pst_name r \<and> pst_type l = pst_type r \<and> pst_state l = pst_state r
     \<and> pst_error l = pst_error r \<and> pst_last_updated l = pst_last_updated r
     \<and> pst_version l = pst_version r \<and> pst_bytes_downloaded l = pst_bytes_downloaded r
     \<and> pst_total_bytes l = pst_total_bytes r"

definition job_status_eq :: "job_status \<Rightarrow> job_status \<Rightarrow> bool" where
  "job_status_eq l r \<longleftrightarrow>
     js_job_name l = js_job_name r
     \<and> js_recent_successful_runs l = js_recent_successful_runs r
     \<and> js_recent_failed_runs l = js_recent_failed_runs r"

definition machine_status_eq :: "machine_status \<Rightarrow> machine_status \<Rightarrow> bool" where
  "machine_status_eq l r \<longleftrightarrow>
     mcs_state l = mcs_state r \<and> list_all2 resource_status_eq (mcs_resources l) (mcs_resources r)
     \<and> config_status_eq (mcs_config l) (mcs_config r)
     \<and> list_all2 module_status_eq (mcs_modules l) (mcs_modules r)
     \<and> list_all2 package_status_eq (mcs_packages l) (mcs_packages r)
     \<and> list_all2 job_status_eq (mcs_job_statuses l) (mcs_job_statuses r)"

fun robot_state_to_string :: "robot_state \<Rightarrow> string" where
  "robot_state_to_string R_running = ''running''"
| "robot_state_to_string R_initializing = ''initializing''"
| "robot_state_to_string R_unspecified = ''unspecified''"

subsection \<open>Lemmas\<close>

lemma states_of_known [simp]:
  "resource_state_of (Known s) = s" "module_state_of (Known m) = m" "package_type_of (Known t) = t"
  "package_state_of (Known q) = q" "robot_state_of (Known r) = r"
  by ((cases s; simp add: resource_state_of_def), (cases m; simp add: module_state_of_def),
      (cases t; simp add: package_type_of_def), (cases q; simp add: package_state_of_def),
      (cases r; simp add: robot_state_of_def))

lemma states_of_unrecognized [simp]:
  "resource_state_of (Unrecognized i) = RS_unspecified"
  "module_state_of (Unrecognized i) = MS_unspecified"
  "package_type_of (Unrecognized i) = PT_unspecified"
  "package_state_of (Unrecognized i) = PS_unspecified"
  "robot_state_of (Unrecognized i) = R_unspecified"
  by (simp_all add: resource_state_of_def module_state_of_def package_type_of_def
      package_state_of_def robot_state_of_def)

text \<open>The only thing a status message can fail on is a timestamp that does not fit.\<close>

definition time_fits :: "pb_time \<Rightarrow> bool" where
  "time_fits t \<longleftrightarrow> in_sint 64 (pt_seconds t * 1000000000)
                 \<and> in_sint 64 (pt_seconds t * 1000000000 + pt_nanos t)"

lemma time_fits_ok: "time_fits t \<Longrightarrow> \<exists>v. time_from_proto t = Inr v"
  by (simp add: time_from_proto_def time_fits_def)

lemma optional_time_ok: "pred_option time_fits f \<Longrightarrow> \<exists>v. optional_time f = Inr v"
  by (cases f) (auto simp: optional_time_def dest: time_fits_ok)

lemma mapM_total: "(\<And>x. x \<in> set xs \<Longrightarrow> \<exists>y. f x = Inr y) \<Longrightarrow> \<exists>ys. mapM f xs = Inr ys"
  by (induction xs) fastforce+

definition machine_times_fit :: "pb_machine_status \<Rightarrow> bool" where
  "machine_times_fit p \<longleftrightarrow>
     (\<forall>r\<in>set (pmc_resources p). pred_option time_fits (prs_last_updated r))
     \<and> pred_option (\<lambda>c. pred_option time_fits (pcs_last_updated c)) (pmc_config p)
     \<and> (\<forall>m\<in>set (pmc_modules p). pred_option time_fits (pms_last_updated m))
     \<and> (\<forall>q\<in>set (pmc_packages p). pred_option time_fits (pps_last_updated q))
     \<and> (\<forall>j\<in>set (pmc_job_statuses p).
          (\<forall>t\<in>set (pjs_recent_successful_runs j). time_fits t)
          \<and> (\<forall>t\<in>set (pjs_recent_failed_runs j). time_fits t))"

lemma resource_status_ok:
  "pred_option time_fits (prs_last_updated r) \<Longrightarrow> \<exists>x. resource_status_from_proto r = Inr x"
  by (drule optional_time_ok) (auto simp: resource_status_from_proto_def)

lemma module_status_ok:
  "pred_option time_fits (pms_last_updated m) \<Longrightarrow> \<exists>x. module_status_from_proto m = Inr x"
  by (drule optional_time_ok) (auto simp: module_status_from_proto_def)

lemma package_status_ok:
  "pred_option time_fits (pps_last_updated q) \<Longrightarrow> \<exists>x. package_status_from_proto q = Inr x"
  by (drule optional_time_ok) (auto simp: package_status_from_proto_def)

lemma job_status_ok:
  assumes "\<forall>t\<in>set (pjs_recent_successful_runs j). time_fits t"
    "\<forall>t\<in>set (pjs_recent_failed_runs j). time_fits t"
  shows "\<exists>x. job_status_from_proto j = Inr x"
  using mapM_total[of "pjs_recent_successful_runs j" time_from_proto]
    mapM_total[of "pjs_recent_failed_runs j" time_from_proto] assms time_fits_ok
  by (auto simp: job_status_from_proto_def)

lemma machine_status_ok:
  assumes "machine_times_fit p"
  shows "\<exists>m. machine_status_from_proto p = Inr m \<and> length (mcs_resources m) = length (pmc_resources p)
     \<and> length (mcs_modules m) = length (pmc_modules p)
     \<and> length (mcs_packages m) = length (pmc_packages p)
     \<and> length (mcs_job_statuses m) = length (pmc_job_statuses p)"
proof -
  obtain rs where rs: "mapM resource_status_from_proto (pmc_resources p) = Inr rs"
    using mapM_total[of "pmc_resources p" resource_status_from_proto] assms resource_status_ok
    by (auto simp: machine_times_fit_def)
  obtain ms where ms: "mapM module_status_from_proto (pmc_modules p) = Inr ms"
    using mapM_total[of "pmc_modules p" module_status_from_proto] assms module_status_ok
    by (auto simp: machine_times_fit_def)
  obtain ps where ps: "mapM package_status_from_proto (pmc_packages p) = Inr ps"
    using mapM_total[of "pmc_packages p" package_status_from_proto] assms package_status_ok
    by (auto simp: machine_times_fit_def)
  obtain js where js: "mapM job_status_from_proto (pmc_job_statuses p) = Inr js"
    using mapM_total[of "pmc_job_statuses p" job_status_from_proto] assms job_status_ok
    by (auto simp: machine_times_fit_def)
  let ?c = "case pmc_config p of Some c \<Rightarrow> c | None \<Rightarrow> \<lparr>pcs_revision = [], pcs_last_updated = None\<rparr>"
  have "pred_option time_fits (pcs_last_updated ?c)"
    using assms by (auto simp: machine_times_fit_def split: option.split)
  then obtain c where c: "config_status_from_proto ?c = Inr c"
    using optional_time_ok by (fastforce simp: config_status_from_proto_def)
  show ?thesis
    using rs ms ps js c mapM_length[OF rs] mapM_length[OF ms] mapM_length[OF ps] mapM_length[OF js]
    by (simp add: machine_status_from_proto_def)
qed

end
