(* ===== verification/RobotClient.thy ===== *)
theory RobotClient
  imports Effects Dial Server Logging RobotStatus "HOL-Library.Multiset"
begin

text \<open>
  \<^verbatim>\<open>robot/client.cpp\<close>: the client of a machine, with its cache of resources, the loop that watches
  the connection, and its shutdown. The answers of the machine are arguments, one per call the
  code makes; the two background threads are the functions they run, and a flag tells whether the
  calling thread is the watcher itself.
\<close>

subsection \<open>State\<close>

text \<open>A client of a remote resource is bound to the connection it was created on.\<close>

record rpc_client =
  rk :: resource_kind
  rn :: string
  r_target :: string

record robot_client =
  rb_channel :: viam_channel
  rb_impl :: bool
  rb_names :: "res_name list"
  rb_manager :: "rpc_client manager"
  rb_should_refresh :: bool
  rb_should_check :: bool
  rb_refresh_thread :: bool
  rb_check_thread :: bool
  rb_refresh_interval :: int
  rb_check_every :: int
  rb_reconnect_every :: int
  rb_log_sink :: bool

definition kStreamRemoved :: string where
  "kStreamRemoved = ''Stream removed''"

definition is_error_response :: "status \<Rightarrow> bool" where
  "is_error_response response \<longleftrightarrow> \<not> st_is_ok response \<and> st_message response \<noteq> kStreamRemoved"

text \<open>\<^verbatim>\<open>impl::client_helper\<close>: every call checks the connection first.\<close>

definition robot_call :: "'a res \<Rightarrow> (robot_client, 'a) stm" where
  "robot_call outcome s =
     (if rb_impl s then (outcome, s)
      else (Inl (StdException ''Tried to call RobotClient method while not connected to robot''), s))"

definition mk_robot_client :: "viam_channel \<Rightarrow> robot_client" where
  "mk_robot_client ch =
     \<lparr>rb_channel = ch, rb_impl = True, rb_names = [], rb_manager = empty_manager,
      rb_should_refresh = False, rb_should_check = False, rb_refresh_thread = False,
      rb_check_thread = False, rb_refresh_interval = 0, rb_check_every = 0, rb_reconnect_every = 0,
      rb_log_sink = False\<rparr>"

subsection \<open>The resource cache\<close>

definition create_rpc_client :: "resource_kind \<Rightarrow> string \<Rightarrow> viam_channel \<Rightarrow> rpc_client option res" where
  "create_rpc_client k name ch =
     (case ch_impl ch of
        Some i \<Rightarrow> Inr (Some \<lparr>rk = k, rn = name, r_target = ci_target i\<rparr>)
      | None \<Rightarrow> Inl (Undefined ''closed channel''))"

definition name_emplace :: "res_name \<Rightarrow> 'v \<Rightarrow> (res_name \<times> 'v) list \<Rightarrow> (res_name \<times> 'v) list" where
  "name_emplace n v m = (if list_ex (\<lambda>e. name_eq (fst e) n) m then m else m @ [(n, v)])"

definition pb_api :: "pb_resource_name \<Rightarrow> api" where
  "pb_api n = API (rn_namespace n) (rn_type n) (rn_subtype n)"

fun refresh_loop ::
  "(api \<Rightarrow> resource_kind option) \<Rightarrow> viam_channel \<Rightarrow> pb_resource_name list \<Rightarrow>
   (res_name \<times> rpc_client option) list \<Rightarrow> res_name list \<Rightarrow>
   ((res_name \<times> rpc_client option) list \<times> res_name list) res" where
  "refresh_loop lookup ch [] new current = Inr (new, current)"
| "refresh_loop lookup ch (n # ns) new current =
     (let current' = current @ [name_from_proto n] in
      if rn_subtype n = ''remote'' then refresh_loop lookup ch ns new current'
      else
        (case lookup (pb_api n) of
           None \<Rightarrow> refresh_loop lookup ch ns new current'
         | Some k \<Rightarrow>
             (case create_rpc_client k (rn_name n) ch of
                Inr c \<Rightarrow>
                  refresh_loop lookup ch ns
                    (name_emplace (mk_name (pb_api n) [] (rn_name n)) c new) current'
              | Inl e \<Rightarrow>
                  if is_std_exception e then refresh_loop lookup ch ns new current' else Inl e)))"

text \<open>\<open>order\<close> is the order in which the hash map of new resources is iterated.\<close>

definition refresh ::
  "(api \<Rightarrow> resource_kind option) \<Rightarrow>
   ((res_name \<times> rpc_client option) list \<Rightarrow> (res_name \<times> rpc_client option) list) \<Rightarrow>
   pb_resource_name list res \<Rightarrow> (robot_client, unit) stm" where
  "refresh lookup order answer =
     st_bind (robot_call answer) (\<lambda>resources s.
       case refresh_loop lookup (rb_channel s) resources [] [] of
         Inl e \<Rightarrow> (Inl e, s)
       | Inr (new, current) \<Rightarrow>
           if list_all2 name_eq current (rb_names s) then (Inr (), s)
           else
             let out = manager_replace_all (rb_manager s) (order new);
                 s' = s\<lparr>rb_names := current, rb_manager := snd out\<rparr>
             in (case fst out of None \<Rightarrow> Inr () | Some e \<Rightarrow> Inl e, s'))"

definition frame_system_public_name :: res_name where
  "frame_system_public_name = mk_name (kind_api K_FrameSystem) [] ''$framesystem''"

definition resource_by_name :: "robot_client \<Rightarrow> res_name \<Rightarrow> rpc_client option res" where
  "resource_by_name s name =
     (if name_eq name frame_system_public_name
      then create_rpc_client K_FrameSystem (nm_name name) (rb_channel s)
      else Inr (manager_resource (rb_manager s) (nm_name name)))"

text \<open>The body of the refresh thread's loop; the result tells whether it goes on.\<close>

definition refresh_every_step ::
  "(api \<Rightarrow> resource_kind option) \<Rightarrow>
   ((res_name \<times> rpc_client option) list \<Rightarrow> (res_name \<times> rpc_client option) list) \<Rightarrow>
   pb_resource_name list res \<Rightarrow> (robot_client, bool) stm" where
  "refresh_every_step lookup order answer s =
     (if \<not> rb_should_refresh s then (Inr False, s)
      else st_try (st_bind (refresh lookup order answer) (\<lambda>_. st_return True))
             (\<lambda>e. st_return False) s)"

subsection \<open>Stopping and closing\<close>

record pb_stop_params =
  sp_name :: pb_resource_name
  sp_params :: pb_struct

definition stop_all_request :: "(res_name \<times> proto_struct) list \<Rightarrow> pb_stop_params list" where
  "stop_all_request extra =
     map (\<lambda>e. \<lparr>sp_name = name_to_proto (fst e), sp_params = struct_to_proto (snd e)\<rparr>) extra"

definition stop_all_default :: "res_name list \<Rightarrow> (res_name \<times> proto_struct) list" where
  "stop_all_default names = foldl (\<lambda>m n. name_emplace n [] m) [] names"

definition stop_all :: "(pb_stop_params list \<Rightarrow> unit res) \<Rightarrow> (robot_client, unit) stm" where
  "stop_all stub s = robot_call (stub (stop_all_request (stop_all_default (rb_names s)))) s"

definition join_self :: exn where
  "join_self = StdException ''Resource deadlock avoided''"

text \<open>\<^verbatim>\<open>close()\<close>; \<open>self\<close> says that the watcher thread runs it, whose \<^verbatim>\<open>join\<close> on itself throws.\<close>

definition robot_close :: "bool \<Rightarrow> (pb_stop_params list \<Rightarrow> unit res) \<Rightarrow> (robot_client, unit) stm" where
  "robot_close self stub =
     st_bind (st_modify (\<lambda>s. s\<lparr>rb_should_refresh := False, rb_should_check := False,
                               rb_refresh_thread := False\<rparr>)) (\<lambda>_.
     st_bind (\<lambda>s. if rb_check_thread s then
                    if self then st_throw join_self s else (Inr (), s\<lparr>rb_check_thread := False\<rparr>)
                  else (Inr (), s)) (\<lambda>_.
     st_bind (stop_all stub) (\<lambda>_.
       st_modify (\<lambda>s. s\<lparr>rb_channel := channel_close (rb_channel s), rb_impl := False,
                        rb_log_sink := False\<rparr>))))"

text \<open>The destructor swallows whatever \<^verbatim>\<open>close()\<close> throws; its members go away with it.\<close>

definition robot_destroy :: "(pb_stop_params list \<Rightarrow> unit res) \<Rightarrow> robot_client \<Rightarrow> robot_client" where
  "robot_destroy stub s = snd (robot_close False stub s)"

definition connect_logging :: "log_manager \<Rightarrow> robot_client \<Rightarrow> log_manager \<times> robot_client" where
  "connect_logging lm s =
     (if rb_log_sink s then (lm, s) else (disable_console_logging lm, s\<lparr>rb_log_sink := True\<rparr>))"

text \<open>The filter of the sink that sends records to the machine: forced console records stay.\<close>

definition sink_accepts :: "log_manager \<Rightarrow> log_attrs \<Rightarrow> bool" where
  "sink_accepts lm attrs =
     (case at_console_force attrs of
        Some force \<Rightarrow> (if force then False else log_filter lm attrs)
      | None \<Rightarrow> log_filter lm attrs)"

subsection \<open>Watching the connection\<close>

text \<open>Up to three probes; \<^verbatim>\<open>connected\<close> is left as the last of them decides.\<close>

fun probe_loop ::
  "nat \<Rightarrow> (nat \<Rightarrow> unit res) \<Rightarrow> nat \<Rightarrow> robot_client \<Rightarrow> bool \<Rightarrow> (exn option \<times> bool)" where
  "probe_loop 0 probe i s conn = (None, conn)"
| "probe_loop (Suc left) probe i s conn =
     (case fst (robot_call (probe i) s) of
        Inr _ \<Rightarrow> (None, True)
      | Inl e \<Rightarrow>
          if is_std_exception e then probe_loop left probe (Suc i) s False
          else (Some e, conn))"

text \<open>Three attempts to reconnect; the loop has no exit on success.\<close>

definition reconnect_once ::
  "(api \<Rightarrow> resource_kind option) \<Rightarrow>
   ((res_name \<times> rpc_client option) list \<Rightarrow> (res_name \<times> rpc_client option) list) \<Rightarrow>
   viam_channel res \<Rightarrow> pb_resource_name list res \<Rightarrow> (robot_client, unit) stm" where
  "reconnect_once lookup order dialed answer =
     st_bind (st_lift dialed) (\<lambda>ch.
     st_bind (st_modify (\<lambda>s. s\<lparr>rb_channel := ch, rb_impl := True, rb_log_sink := False\<rparr>)) (\<lambda>_.
       refresh lookup order answer))"

fun reconnect_loop ::
  "nat \<Rightarrow> (api \<Rightarrow> resource_kind option) \<Rightarrow>
   ((res_name \<times> rpc_client option) list \<Rightarrow> (res_name \<times> rpc_client option) list) \<Rightarrow>
   (nat \<Rightarrow> viam_channel res) \<Rightarrow> (nat \<Rightarrow> pb_resource_name list res) \<Rightarrow> nat \<Rightarrow> bool \<Rightarrow>
   robot_client \<Rightarrow> (exn option \<times> bool) \<times> robot_client" where
  "reconnect_loop 0 lookup order dials answers i conn s = ((None, conn), s)"
| "reconnect_loop (Suc left) lookup order dials answers i conn s =
     (case reconnect_once lookup order (dials i) (answers i) s of
        (Inr _, s') \<Rightarrow> reconnect_loop left lookup order dials answers (Suc i) True s'
      | (Inl e, s') \<Rightarrow>
          if is_std_exception e then
            reconnect_loop left lookup order dials answers (Suc i) conn
              (s'\<lparr>rb_channel := channel_close (rb_channel s')\<rparr>)
          else ((Some e, conn), s'))"

text \<open>The intervals the thread starts with; with both zero it never runs.\<close>

definition check_connection_start :: "robot_client \<Rightarrow> int \<times> robot_client" where
  "check_connection_start s =
     (let check_every = (if rb_check_every s = 0 then rb_reconnect_every s else rb_check_every s)
      in (check_every,
          if check_every = 0 \<and> rb_reconnect_every s = 0 then s\<lparr>rb_should_check := False\<rparr> else s))"

text \<open>
  One round of the loop, with the connection flag it starts and ends with. An exception that
  leaves the thread function terminates the process: it is the \<open>Inl\<close> of the result.
\<close>

definition check_connection_round ::
  "(api \<Rightarrow> resource_kind option) \<Rightarrow>
   ((res_name \<times> rpc_client option) list \<Rightarrow> (res_name \<times> rpc_client option) list) \<Rightarrow>
   (nat \<Rightarrow> unit res) \<Rightarrow> (string \<Rightarrow> nat \<Rightarrow> viam_channel res) \<Rightarrow>
   (nat \<Rightarrow> pb_resource_name list res) \<Rightarrow> (pb_stop_params list \<Rightarrow> unit res) \<Rightarrow>
   bool \<Rightarrow> (robot_client, bool) stm" where
  "check_connection_round lookup order probe dials answers stub conn s =
     (case probe_loop 3 probe 0 s conn of
        (Some e, _) \<Rightarrow> (Inl e, s)
      | (None, True) \<Rightarrow> (Inr True, s)
      | (None, False) \<Rightarrow>
          (case get_channel_addr (rb_channel s) of
             Inl e \<Rightarrow> (Inl e, s)
           | Inr uri \<Rightarrow>
               (case reconnect_loop 3 lookup order (dials uri) answers 0 False
                       (s\<lparr>rb_channel := channel_close (rb_channel s)\<rparr>) of
                  ((Some e, _), s') \<Rightarrow> (Inl e, s')
                | ((None, True), s') \<Rightarrow> (Inr True, s')
                | ((None, False), s') \<Rightarrow>
                    st_bind (robot_close True stub) (\<lambda>_. st_return False) s')))"

subsection \<open>Construction\<close>

record client_options =
  opt_refresh_interval :: int
  opt_check_every :: int
  opt_reconnect_every :: int
  opt_channel :: "channel_options option"

definition mk_options :: "int \<Rightarrow> channel_options option \<Rightarrow> client_options" where
  "mk_options interval co =
     \<lparr>opt_refresh_interval = interval, opt_check_every = 0, opt_reconnect_every = 0, opt_channel = co\<rparr>"

definition set_check_every_interval :: "int \<Rightarrow> client_options \<Rightarrow> client_options" where
  "set_check_every_interval interval options = options\<lparr>opt_check_every := interval\<rparr>"

definition set_reconnect_every_interval :: "int \<Rightarrow> client_options \<Rightarrow> client_options" where
  "set_reconnect_every_interval interval options = options\<lparr>opt_reconnect_every := interval\<rparr>"

definition with_channel ::
  "(api \<Rightarrow> resource_kind option) \<Rightarrow>
   ((res_name \<times> rpc_client option) list \<Rightarrow> (res_name \<times> rpc_client option) list) \<Rightarrow>
   pb_resource_name list res \<Rightarrow> viam_channel \<Rightarrow> client_options \<Rightarrow> robot_client res" where
  "with_channel lookup order answer ch options =
     (let s = (mk_robot_client ch)
            \<lparr>rb_refresh_interval := opt_refresh_interval options,
             rb_should_refresh := 0 < opt_refresh_interval options,
             rb_refresh_thread := 0 < opt_refresh_interval options,
             rb_should_check := True, rb_check_every := opt_check_every options,
             rb_reconnect_every := opt_reconnect_every options, rb_check_thread := True\<rparr>
      in case refresh lookup order answer s of (Inl e, _) \<Rightarrow> Inl e | (Inr _, s') \<Rightarrow> Inr s')"

definition at_local_socket ::
  "(api \<Rightarrow> resource_kind option) \<Rightarrow>
   ((res_name \<times> rpc_client option) list \<Rightarrow> (res_name \<times> rpc_client option) list) \<Rightarrow>
   pb_resource_name list res \<Rightarrow> string \<Rightarrow> client_options \<Rightarrow> robot_client res" where
  "at_local_socket lookup order answer address options =
     with_channel lookup order answer (mk_channel address) options"

definition at_address ::
  "nat \<Rightarrow> (nat \<Rightarrow> dial_world) \<Rightarrow> (api \<Rightarrow> resource_kind option) \<Rightarrow>
   ((res_name \<times> rpc_client option) list \<Rightarrow> (res_name \<times> rpc_client option) list) \<Rightarrow>
   pb_resource_name list res \<Rightarrow> string \<Rightarrow> client_options \<Rightarrow> robot_client res option" where
  "at_address fuel worlds lookup order answer address options =
     (case dial_initial fuel worlds (takeWhile (\<lambda>c. c \<noteq> CHR 0x00) address) (opt_channel options) of
        None \<Rightarrow> None
      | Some (Inl e) \<Rightarrow> Some (Inl e)
      | Some (Inr ch) \<Rightarrow> Some (with_channel lookup order answer ch options))"


subsection \<open>Lemmas: the cache\<close>

lemma name_eq_refl [simp]: "name_eq n n"
  by (simp add: name_eq_def)

lemma refresh_loop_names:
  "refresh_loop lookup ch ns new cur = Inr (new', cur') \<Longrightarrow> cur' = cur @ map name_from_proto ns"
proof (induction ns arbitrary: new cur)
  case (Cons n ns)
  from Cons.prems obtain new1 where "refresh_loop lookup ch ns new1 (cur @ [name_from_proto n]) = Inr (new', cur')"
    by (auto simp: Let_def split: if_splits option.splits sum.splits)
  from Cons.IH[OF this] show ?case by simp
qed simp

text \<open>The resources of an answer that get a client.\<close>

definition hosted :: "(api \<Rightarrow> resource_kind option) \<Rightarrow> pb_resource_name \<Rightarrow> bool" where
  "hosted lookup n \<longleftrightarrow> rn_subtype n \<noteq> ''remote'' \<and> lookup (pb_api n) \<noteq> None"

definition client_entry ::
  "(api \<Rightarrow> resource_kind option) \<Rightarrow> string \<Rightarrow> pb_resource_name \<Rightarrow> res_name \<times> rpc_client option" where
  "client_entry lookup target n =
     (mk_name (pb_api n) [] (rn_name n),
      Some \<lparr>rk = the (lookup (pb_api n)), rn = rn_name n, r_target = target\<rparr>)"

lemma refresh_loop_entries:
  assumes "ch_impl ch = Some i"
    and "distinct (map (\<lambda>n. name_to_string (mk_name (pb_api n) [] (rn_name n))) (filter (hosted lookup) ns))"
    and "\<forall>n\<in>set (filter (hosted lookup) ns). \<forall>e\<in>set new.
           \<not> name_eq (fst e) (mk_name (pb_api n) [] (rn_name n))"
  shows "refresh_loop lookup ch ns new cur =
     Inr (new @ map (client_entry lookup (ci_target i)) (filter (hosted lookup) ns),
          cur @ map name_from_proto ns)"
  using assms(2,3)
proof (induction ns arbitrary: new cur)
  case (Cons n ns)
  show ?case
  proof (cases "hosted lookup n")
    case False
    with Cons show ?thesis by (auto simp: hosted_def Let_def)
  next
    case True
    then obtain k where k: "lookup (pb_api n) = Some k" "rn_subtype n \<noteq> ''remote''"
      by (auto simp: hosted_def)
    let ?m = "mk_name (pb_api n) [] (rn_name n)"
    let ?e = "client_entry lookup (ci_target i) n"
    have fresh: "name_emplace ?m (snd ?e) new = new @ [?e]"
      using Cons.prems(2) True by (auto simp: name_emplace_def list_ex_iff client_entry_def)
    have c: "create_rpc_client k (rn_name n) ch = Inr (snd ?e)"
      using assms(1) k by (simp add: create_rpc_client_def client_entry_def)
    have "\<forall>q\<in>set (filter (hosted lookup) ns). \<forall>e\<in>set (new @ [?e]).
           \<not> name_eq (fst e) (mk_name (pb_api q) [] (rn_name q))"
      using Cons.prems True by (auto simp: client_entry_def name_eq_def)
    from Cons.IH[OF _ this, of "cur @ [name_from_proto n]"] Cons.prems(1) True
    show ?thesis using k c fresh by (simp add: Let_def)
  qed
qed simp

lemma short_name_plain [simp]: "short_name (mk_name a [] n) = n"
  by (simp add: short_name_def mk_name_def)

text \<open>
  A refresh that brings new names installs exactly the clients of the hosted resources, bound to
  the current connection, when their names are distinct and not empty.
\<close>

lemma full_name_inj:
  assumes "api_valid a" "api_valid b"
    and "name_to_string (mk_name a [] x) = name_to_string (mk_name b [] y)"
  shows "x = y"
proof -
  have w: "takeWhile (\<lambda>c. c \<noteq> slash) (api_to_string k @ slash # z) = api_to_string k" if "api_valid k" for k z
  proof -
    have "\<forall>c\<in>set (api_to_string k). c \<noteq> slash" using api_string_free[OF that] by blast
    then show ?thesis by (subst takeWhile_append2) auto
  qed
  have e: "api_to_string a @ slash # x = api_to_string b @ slash # y"
    using assms(3) by (simp add: name_to_string_def mk_name_def)
  with w[OF assms(1), of x] w[OF assms(2), of y] have "api_to_string a = api_to_string b" by simp
  with e show ?thesis by simp
qed

lemma refresh_installs:
  assumes "rb_impl s" "ch_impl (rb_channel s) = Some i"
    and "\<not> list_all2 name_eq (map name_from_proto ns) (rb_names s)"
    and "distinct (map rn_name (filter (hosted lookup) ns))"
    and "\<forall>n\<in>set ns. hosted lookup n \<longrightarrow> rn_name n \<noteq> []"
    and "\<forall>a. lookup a \<noteq> None \<longrightarrow> api_valid a"
    and "\<And>m. mset (order m) = mset m"
  shows "\<exists>s'. refresh lookup order (Inr ns) s = (Inr (), s') \<and> rb_names s' = map name_from_proto ns
     \<and> resource_map (rb_manager s') =
         map_of (map (\<lambda>n. (rn_name n, snd (client_entry lookup (ci_target i) n))) (filter (hosted lookup) ns))"
proof -
  let ?h = "filter (hosted lookup) ns"
  let ?es = "map (client_entry lookup (ci_target i)) ?h"
  have "inj_on (\<lambda>n. name_to_string (mk_name (pb_api n) [] (rn_name n))) (set ?h)"
  proof (rule inj_onI)
    fix x y
    assume x: "x \<in> set ?h" and y: "y \<in> set ?h"
      and e: "name_to_string (mk_name (pb_api x) [] (rn_name x)) = name_to_string (mk_name (pb_api y) [] (rn_name y))"
    have "rn_name x = rn_name y"
      by (rule full_name_inj[OF _ _ e]) (use x y assms(6) in \<open>auto simp: hosted_def\<close>)
    with x y assms(4) show "x = y" by (simp add: distinct_map inj_on_def)
  qed
  then have d: "distinct (map (\<lambda>n. name_to_string (mk_name (pb_api n) [] (rn_name n))) ?h)"
    using assms(4) by (simp add: distinct_map)
  have loop: "refresh_loop lookup (rb_channel s) ns [] [] = Inr (?es, map name_from_proto ns)"
    using refresh_loop_entries[OF assms(2) d, of "[]" "[]"] by simp
  have st: "set (order ?es) = set ?es" using assms(7) by (metis set_mset_mset)
  have "distinct (map (short_name \<circ> fst) ?es)"
    using assms(4) by (simp add: client_entry_def comp_def)
  then have "distinct (map (short_name \<circ> fst) (order ?es))"
    using assms(7) by (metis mset_map mset_eq_imp_distinct_iff)
  then have acc: "acceptable (order ?es)"
    using st assms(5) by (auto simp: acceptable_def client_entry_def mk_name_def)
  let ?m = "(rb_manager s)\<lparr>rm_resources := [], rm_short_names := []\<rparr>"
  have r: "rm_resources (snd (replace_all_loop ?m (order ?es))) =
      map (\<lambda>e. (short_name (fst e), snd e)) (order ?es)" "fst (replace_all_loop ?m (order ?es)) = None"
    using replace_all_loop_resources[OF acc, of ?m] by simp_all
  define A where "A = map (\<lambda>e. (short_name (fst e), snd e)) (order ?es)"
  define B where "B = map (\<lambda>n. (rn_name n, snd (client_entry lookup (ci_target i) n))) ?h"
  have "B = map (\<lambda>e. (short_name (fst e), snd e)) ?es" by (simp add: B_def client_entry_def)
  then have AB: "mset A = mset B" unfolding A_def using assms(7)[of ?es] by (metis mset_map)
  have dA: "distinct (map fst A)" using acc by (simp add: acceptable_def A_def comp_def)
  have "mset (map fst A) = mset (map fst B)" using AB by simp
  then have dB: "distinct (map fst B)" using dA mset_eq_imp_distinct_iff by blast
  have "map_of A = map_of B"
    using map_of_inject_set[OF dA dB] mset_eq_setD[OF AB] by blast
  then have "map_of (rm_resources (snd (replace_all_loop ?m (order ?es)))) =
      map_of (map (\<lambda>n. (rn_name n, snd (client_entry lookup (ci_target i) n))) ?h)"
    unfolding r(1) A_def B_def .
  then show ?thesis
    using assms(1,3) r(2) loop
    by (simp add: refresh_def st_bind_def robot_call_def manager_replace_all_def resource_map_def Let_def)
qed

text \<open>A refresh that brings the names already known changes nothing.\<close>

lemma refresh_same:
  assumes "list_all2 name_eq (map name_from_proto ns) (rb_names s)" "rb_impl s"
    "ch_impl (rb_channel s) \<noteq> None"
  shows "refresh lookup order (Inr ns) s = (Inr (), s)"
proof -
  have "\<exists>new cur. refresh_loop lookup (rb_channel s) ns new0 cur0 = Inr (new, cur)" for new0 cur0
    using assms(3)
    by (induction ns arbitrary: new0 cur0) (auto simp: create_rpc_client_def Let_def split: option.split)
  then obtain new cur where l: "refresh_loop lookup (rb_channel s) ns [] [] = Inr (new, cur)" by blast
  from refresh_loop_names[OF l] assms show ?thesis
    by (simp add: refresh_def st_bind_def robot_call_def l)
qed

subsection \<open>Lemmas: lookup by name\<close>

text \<open>The remote of a name plays no part in a lookup.\<close>

lemma resource_by_name_remote:
  "\<not> name_eq n frame_system_public_name \<Longrightarrow> \<not> name_eq (n\<lparr>nm_remote := r\<rparr>) frame_system_public_name \<Longrightarrow>
   resource_by_name s (n\<lparr>nm_remote := r\<rparr>) = resource_by_name s n"
  by (simp add: resource_by_name_def)

subsection \<open>Lemmas: closing\<close>

lemma robot_close_ok:
  assumes "rb_impl s" "\<not> (self \<and> rb_check_thread s)"
    and "stub (stop_all_request (stop_all_default (rb_names s))) = Inr ()"
  shows "\<exists>s'. robot_close self stub s = (Inr (), s') \<and> \<not> rb_impl s' \<and> ch_impl (rb_channel s') = None
     \<and> \<not> rb_should_refresh s' \<and> \<not> rb_should_check s' \<and> \<not> rb_refresh_thread s' \<and> \<not> rb_check_thread s'"
  using assms
  by (auto simp: robot_close_def st_bind_def st_defs stop_all_def robot_call_def channel_close_def)

lemma robot_close_twice:
  assumes "\<not> rb_impl s" "\<not> rb_check_thread s"
  shows "\<exists>e s'. robot_close self stub s = (Inl e, s') \<and> is_std_exception e"
  using assms
  by (auto simp: robot_close_def st_bind_def st_defs stop_all_def robot_call_def)

lemma robot_close_stop_fails:
  assumes "rb_impl s" "\<not> rb_check_thread s"
    and "stub (stop_all_request (stop_all_default (rb_names s))) = Inl e"
  shows "\<exists>s'. robot_close self stub s = (Inl e, s') \<and> rb_impl s' \<and> rb_channel s' = rb_channel s"
  using assms
  by (auto simp: robot_close_def st_bind_def st_defs stop_all_def robot_call_def)

lemma robot_close_self:
  assumes "rb_check_thread s"
  shows "\<exists>s'. robot_close True stub s = (Inl join_self, s') \<and> rb_impl s' = rb_impl s
     \<and> rb_channel s' = rb_channel s"
  using assms by (auto simp: robot_close_def st_bind_def st_defs)

subsection \<open>Lemmas: the watcher\<close>

lemma probe_loop_ok:
  assumes "rb_impl s" "i \<le> j" "j < i + n" "probe j = Inr ()"
    and "\<forall>k. i \<le> k \<and> k < j \<longrightarrow> (\<exists>e. probe k = Inl e \<and> is_std_exception e)"
  shows "probe_loop n probe i s conn = (None, True)"
  using assms(2-)
proof (induction n arbitrary: i conn)
  case (Suc n)
  show ?case
  proof (cases "i = j")
    case True
    then show ?thesis using Suc.prems assms(1) by (simp add: robot_call_def)
  next
    case False
    then obtain e where "probe i = Inl e" "is_std_exception e" using Suc.prems by (meson le_neq_implies_less order_refl)
    moreover have "probe_loop n probe (Suc i) s False = (None, True)"
      using Suc.prems False by (intro Suc.IH) auto
    ultimately show ?thesis using assms(1) by (simp add: robot_call_def)
  qed
qed simp

lemma probe_loop_lost:
  assumes "rb_impl s" "\<forall>k. \<exists>e. probe k = Inl e \<and> is_std_exception e"
  shows "probe_loop (Suc n) probe i s conn = (None, False)"
proof (induction n arbitrary: i conn)
  case 0
  obtain e where "probe i = Inl e" "is_std_exception e" using assms(2) by blast
  then show ?case using assms(1) by (simp add: robot_call_def)
next
  case (Suc n)
  obtain e where "probe i = Inl e" "is_std_exception e" using assms(2) by blast
  then show ?case using assms(1) Suc.IH[of "Suc i" False]
    by (subst probe_loop.simps) (simp add: robot_call_def)
qed

lemma round_healthy:
  assumes "rb_impl s" "j < 3" "probe j = Inr ()" "\<forall>k<j. \<exists>e. probe k = Inl e \<and> is_std_exception e"
  shows "check_connection_round lookup order probe dials answers stub conn s = (Inr True, s)"
  using probe_loop_ok[of s 0 j 3 probe conn] assms by (simp add: check_connection_round_def)

lemma reconnect_loop_fails:
  assumes "\<forall>k. \<exists>e. dials k = Inl e \<and> is_std_exception e"
  shows "reconnect_loop n lookup order dials answers i False s =
    ((None, False), if n = 0 then s else s\<lparr>rb_channel := channel_close (rb_channel s)\<rparr>)"
proof (induction n arbitrary: i s)
  case (Suc n)
  obtain e where "dials i = Inl e" "is_std_exception e" using assms by blast
  then show ?case using Suc.IH
    by (simp add: reconnect_once_def st_bind_def st_lift_def channel_close_def)
qed simp

text \<open>When the machine stays away the watcher ends in a join with itself: the process terminates.\<close>

lemma round_lost:
  assumes "rb_impl s" "rb_check_thread s" "ch_uri (rb_channel s) = Some uri"
    and "\<forall>k. \<exists>e. probe k = Inl e \<and> is_std_exception e"
    and "\<forall>k. \<exists>e. dials uri k = Inl e \<and> is_std_exception e"
  shows "\<exists>s'. check_connection_round lookup order probe dials answers stub conn s = (Inl join_self, s')"
proof -
  have p: "probe_loop 3 probe 0 s conn = (None, False)"
    using probe_loop_lost[OF assms(1,4), of 2 0 conn] by (simp add: numeral_3_eq_3 numeral_2_eq_2)
  have u: "get_channel_addr (rb_channel s) = Inr uri" using assms(3) by (simp add: get_channel_addr_def)
  let ?s = "s\<lparr>rb_channel := channel_close (rb_channel s)\<rparr>"
  have r: "reconnect_loop 3 lookup order (dials uri) answers 0 False ?s =
      ((None, False), ?s\<lparr>rb_channel := channel_close (rb_channel ?s)\<rparr>)"
    using reconnect_loop_fails[OF assms(5), of 3] by simp
  obtain t where "robot_close True stub (?s\<lparr>rb_channel := channel_close (rb_channel ?s)\<rparr>) = (Inl join_self, t)"
    using robot_close_self[of "?s\<lparr>rb_channel := channel_close (rb_channel ?s)\<rparr>" stub] assms(2) by auto
  then show ?thesis by (simp add: check_connection_round_def p u r st_bind_def)
qed

text \<open>A client made for a local socket has no address to reconnect to.\<close>

lemma round_local_socket:
  assumes "rb_impl s" "ch_uri (rb_channel s) = None" "\<forall>k. \<exists>e. probe k = Inl e \<and> is_std_exception e"
  shows "\<exists>e. check_connection_round lookup order probe dials answers stub conn s = (Inl e, s) \<and> is_undefined e"
proof -
  have "probe_loop 3 probe 0 s conn = (None, False)"
    using probe_loop_lost[OF assms(1,3), of 2 0 conn] by (simp add: numeral_3_eq_3 numeral_2_eq_2)
  then show ?thesis using assms(2) by (simp add: check_connection_round_def get_channel_addr_def)
qed

text \<open>Reconnecting to a machine with the same resources keeps the old clients.\<close>

lemma reconnect_keeps_clients:
  assumes "\<forall>k. \<exists>ch. dials k = Inr ch \<and> ch_impl ch \<noteq> None"
    and "\<forall>k. \<exists>ns. answers k = Inr ns \<and> list_all2 name_eq (map name_from_proto ns) (rb_names s)"
  shows "\<exists>s'. reconnect_loop (Suc n) lookup order dials answers i conn s = ((None, True), s')
     \<and> rb_manager s' = rb_manager s \<and> rb_names s' = rb_names s \<and> dials (i + n) = Inr (rb_channel s')"
  using assms(2)
proof (induction n arbitrary: i conn s)
  case 0
  obtain ch ns where c: "dials i = Inr ch" "ch_impl ch \<noteq> None" "answers i = Inr ns"
    "list_all2 name_eq (map name_from_proto ns) (rb_names s)" using assms(1) 0 by blast
  then show ?case
    by (simp add: reconnect_once_def st_bind_def st_defs refresh_same)
next
  case (Suc n)
  obtain ch ns where c: "dials i = Inr ch" "ch_impl ch \<noteq> None" "answers i = Inr ns"
    "list_all2 name_eq (map name_from_proto ns) (rb_names s)" using assms(1) Suc.prems by blast
  let ?s = "s\<lparr>rb_channel := ch, rb_impl := True, rb_log_sink := False\<rparr>"
  have "reconnect_once lookup order (dials i) (answers i) s = (Inr (), ?s)"
    using c by (simp add: reconnect_once_def st_bind_def st_defs refresh_same)
  moreover obtain s' where "reconnect_loop (Suc n) lookup order dials answers (Suc i) True ?s = ((None, True), s')"
    "rb_manager s' = rb_manager s" "rb_names s' = rb_names s" "dials (Suc i + n) = Inr (rb_channel s')"
    using Suc.IH[of ?s "Suc i" True] Suc.prems by auto
  ultimately show ?case by (subst reconnect_loop.simps) simp
qed

lemma at_local_socket_uri:
  "at_local_socket lookup order answer address options = Inr s \<Longrightarrow> ch_uri (rb_channel s) = None \<and> rb_impl s"
  by (auto simp: at_local_socket_def with_channel_def refresh_def st_bind_def robot_call_def
      mk_robot_client_def mk_channel_def Let_def split: sum.splits if_splits prod.splits option.splits)

end
