(* ===== verification/DepthMap.thy ===== *)
theory DepthMap
  imports Bytes Logging
begin

text \<open>
  \<^verbatim>\<open>components/camera.cpp\<close>: the \<^verbatim>\<open>image/vnd.viam.dep\<close> encoding of depth maps, and the MIME type
  helper. A depth map is its shape and its row-major storage; sizes are \<^verbatim>\<open>size_t\<close> and wrap at
  \<open>2 ^ 64\<close>. Allocating more than \<open>2 ^ 63\<close> values throws.
\<close>

record depth_map =
  dm_shape :: "nat list"
  dm_values :: "16 word list"

definition k_magic_number :: nat where
  "k_magic_number = 0x44455054484D4150"

definition k_header_size :: nat where
  "k_header_size = 24"

definition append_big_endian :: "nat \<Rightarrow> nat \<Rightarrow> byte list \<times> nat \<Rightarrow> (byte list \<times> nat) res" where
  "append_big_endian width value st =
     (let data = fst st; offset = snd st in
      if length data < offset + width then
        Inl (general_exception ''Incorrect data size: attempted to write beyond data bounds'')
      else Inr (take offset data @ be_bytes width value @ drop (offset + width) data, offset + width))"

definition read_big_endian :: "nat \<Rightarrow> byte list \<Rightarrow> nat \<Rightarrow> (nat \<times> nat) res" where
  "read_big_endian width data offset =
     (if length data < offset + width then Inl (StdException ''Attempted to read beyond data bounds.'')
      else Inr (be_val (take width (drop offset data)), offset + width))"

definition encode_depth_map :: "depth_map \<Rightarrow> byte list res" where
  "encode_depth_map m =
     (if length (dm_shape m) \<noteq> 2 then Inl (general_exception ''Depth map is not a 2D array.'')
      else
        let height = dm_shape m ! 0; width = dm_shape m ! 1;
            total_byte_count = (k_header_size + height * width * 2) mod 2 ^ 64
        in rbind (append_big_endian 8 k_magic_number (replicate total_byte_count 0, 0)) (\<lambda>st.
           rbind (append_big_endian 8 width st) (\<lambda>st.
           rbind (append_big_endian 8 height st) (\<lambda>st.
             let payload = concat (map (\<lambda>v. be_bytes 2 (unat v)) (dm_values m)) in
             if length (fst st) < snd st + length payload then Inl (Undefined ''write past the buffer'')
             else Inr (take (snd st) (fst st) @ payload @ drop (snd st + length payload) (fst st))))))"

definition decode_depth_map :: "byte list \<Rightarrow> depth_map res" where
  "decode_depth_map data =
     (if length data < k_header_size then
        Inl (general_exception
               (''Data too short to contain valid depth information. Size: '' @ show_nat (length data)))
      else
        rbind (read_big_endian 8 data 0) (\<lambda>(magic_number, offset).
        if magic_number \<noteq> k_magic_number then
          Inl (general_exception
            (''Invalid header for a vnd.viam.dep encoded depth image. The data may be corrupted, or ''
             @ ''is not a Viam-encoded depth map.''))
        else
          rbind (read_big_endian 8 data offset) (\<lambda>(width, offset).
          rbind (read_big_endian 8 data offset) (\<lambda>(height, offset).
            let expected_size = (k_header_size + width * height * 2) mod 2 ^ 64 in
            if length data \<noteq> expected_size then
              Inl (general_exception
                (''Data size does not match width, height, and depth values. Actual size: ''
                 @ show_nat (length data) @ ''. Expected size: '' @ show_nat expected_size
                 @ ''. Width: '' @ show_nat width @ '' Height: '' @ show_nat height))
            else
              let n = width * height mod 2 ^ 64 in
              if 2 ^ 63 \<le> n then Inl (StdException ''std::bad_alloc'')
              else Inr \<lparr>dm_shape = [height, width],
                        dm_values = map (\<lambda>c. word_of_nat (be_val c)) (chunks 2 n (drop offset data))\<rparr>))))"

definition lazy_suffix :: string where
  "lazy_suffix = ''+lazy''"

definition normalize_mime_type :: "string \<Rightarrow> string" where
  "normalize_mime_type str =
     (if length lazy_suffix \<le> length str \<and> drop (length str - length lazy_suffix) str = lazy_suffix
      then take (length str - length lazy_suffix) str else str)"

subsection \<open>Lemmas\<close>

definition depth_map_ok :: "depth_map \<Rightarrow> bool" where
  "depth_map_ok m \<longleftrightarrow>
     length (dm_shape m) = 2 \<and> (\<forall>d\<in>set (dm_shape m). d < 2 ^ 64)
     \<and> length (dm_values m) = dm_shape m ! 0 * dm_shape m ! 1
     \<and> k_header_size + 2 * length (dm_values m) < 2 ^ 64"

lemma payload_length [simp]: "length (concat (map (\<lambda>v. be_bytes 2 (unat v)) vs)) = 2 * length vs"
  using be16.concat_length[of "map unat vs"] by (simp add: comp_def)

lemma append_at:
  "length pre = offset \<Longrightarrow> length mid = width \<Longrightarrow>
   append_big_endian width v (pre @ mid @ post, offset) = Inr (pre @ be_bytes width v @ post, offset + width)"
  by (simp add: append_big_endian_def)

definition depth_header :: "nat \<Rightarrow> nat \<Rightarrow> byte list" where
  "depth_header width height = be_bytes 8 k_magic_number @ be_bytes 8 width @ be_bytes 8 height"

lemma encode_depth_map_ok:
  assumes "dm_shape m = [h, w]" "length (dm_values m) = h * w" "k_header_size + 2 * length (dm_values m) < 2 ^ 64"
  shows "encode_depth_map m =
    Inr (depth_header w h @ concat (map (\<lambda>v. be_bytes 2 (unat v)) (dm_values m)))"
proof -
  let ?n = "2 * length (dm_values m)"
  have t: "(k_header_size + h * w * 2) mod 2 ^ 64 = 24 + ?n"
    using assms(2,3) by (simp add: k_header_size_def mult.commute)
  have r: "replicate (24 + ?n) 0 = replicate 8 0 @ replicate 8 0 @ replicate 8 0 @ replicate ?n (0 :: byte)"
    by (simp flip: replicate_add)
  have a1: "append_big_endian 8 k_magic_number (replicate (24 + ?n) 0, 0) =
      Inr (be_bytes 8 k_magic_number @ replicate 8 0 @ replicate 8 0 @ replicate ?n 0, 8)"
    unfolding r using append_at[of "[]" 0 "replicate 8 0" 8] by simp
  have a2: "append_big_endian 8 w (be_bytes 8 k_magic_number @ replicate 8 0 @ replicate 8 0 @ replicate ?n 0, 8) =
      Inr (be_bytes 8 k_magic_number @ be_bytes 8 w @ replicate 8 0 @ replicate ?n 0, 16)"
    using append_at[of "be_bytes 8 k_magic_number" 8 "replicate 8 0" 8] by simp
  have a3: "append_big_endian 8 h (be_bytes 8 k_magic_number @ be_bytes 8 w @ replicate 8 0 @ replicate ?n 0, 16) =
      Inr (depth_header w h @ replicate ?n 0, 24)"
    using append_at[of "be_bytes 8 k_magic_number @ be_bytes 8 w" 16 "replicate 8 0" 8]
    by (simp add: depth_header_def)
  have l: "length (depth_header w h) = 24" by (simp add: depth_header_def)
  show ?thesis
    by (simp add: encode_depth_map_def assms(1) t[simplified] a1 a2 a3 l Let_def)
qed

lemma read_at:
  "length pre = offset \<Longrightarrow> v < 256 ^ width \<Longrightarrow>
   read_big_endian width (pre @ be_bytes width v @ post) offset = Inr (v, offset + width)"
  by (simp add: read_big_endian_def)

lemma decode_header:
  assumes "w < 2 ^ 64" "h < 2 ^ 64"
  shows "decode_depth_map (depth_header w h @ rest) =
    (let data = depth_header w h @ rest; expected_size = (24 + w * h * 2) mod 2 ^ 64;
         n = w * h mod 2 ^ 64 in
     if length data \<noteq> expected_size then
       Inl (general_exception
         (''Data size does not match width, height, and depth values. Actual size: ''
          @ show_nat (length data) @ ''. Expected size: '' @ show_nat expected_size
          @ ''. Width: '' @ show_nat w @ '' Height: '' @ show_nat h))
     else if 2 ^ 63 \<le> n then Inl (StdException ''std::bad_alloc'')
     else Inr \<lparr>dm_shape = [h, w], dm_values = map (\<lambda>c. word_of_nat (be_val c)) (chunks 2 n rest)\<rparr>)"
proof -
  let ?d = "depth_header w h @ rest"
  have l: "length (depth_header w h) = 24" by (simp add: depth_header_def)
  have r1: "read_big_endian 8 ?d 0 = Inr (k_magic_number, 8)"
    using read_at[of "[]" 0 k_magic_number 8] by (simp add: depth_header_def k_magic_number_def)
  have r2: "read_big_endian 8 ?d 8 = Inr (w, 16)"
    using read_at[of "be_bytes 8 k_magic_number" 8 w 8] assms by (simp add: depth_header_def)
  have r3: "read_big_endian 8 ?d 16 = Inr (h, 24)"
    using read_at[of "be_bytes 8 k_magic_number @ be_bytes 8 w" 16 h 8] assms by (simp add: depth_header_def)
  show ?thesis
    by (simp add: decode_depth_map_def r1 r2 r3 l k_header_size_def Let_def)
qed

lemma depth_values_run:
  "map (\<lambda>c. word_of_nat (be_val c)) (chunks 2 (length vs) (concat (map (\<lambda>v. be_bytes 2 (unat v)) vs))) =
   (vs :: 16 word list)"
proof -
  have "\<forall>n\<in>set (map unat vs). n < 2 ^ 16"
  proof
    fix n assume "n \<in> set (map unat vs)"
    then obtain v :: "16 word" where "n = unat v" by auto
    then show "n < 2 ^ 16" using unsigned_less[of v, where 'a = nat] by simp
  qed
  from be16.decode_run[OF this, of "[]"] have
    "map be_val (chunks 2 (length vs) (concat (map (be_bytes 2) (map unat vs)))) = map unat vs" by simp
  then have "map word_of_nat (map be_val (chunks 2 (length vs) (concat (map (be_bytes 2) (map unat vs))))) = vs"
    by (simp add: comp_def)
  then show ?thesis by (simp add: comp_def)
qed

lemma depth_map_roundtrip:
  assumes "depth_map_ok m"
  shows "\<exists>bs. encode_depth_map m = Inr bs \<and> length bs = 24 + 2 * length (dm_values m)
              \<and> decode_depth_map bs = Inr m"
proof -
  obtain h w where s: "dm_shape m = [h, w]"
    using assms by (auto simp: depth_map_ok_def length_Suc_conv numeral_2_eq_2)
  have v: "length (dm_values m) = h * w" "24 + 2 * length (dm_values m) < 2 ^ 64" "h < 2 ^ 64" "w < 2 ^ 64"
    using assms s by (auto simp: depth_map_ok_def k_header_size_def)
  let ?p = "concat (map (\<lambda>v. be_bytes 2 (unat v)) (dm_values m))"
  have e: "encode_depth_map m = Inr (depth_header w h @ ?p)"
    using encode_depth_map_ok[OF s v(1)] v(2) by (simp add: k_header_size_def)
  have "w * h mod 2 ^ 64 = h * w" "(24 + w * h * 2) mod 2 ^ 64 = 24 + 2 * (h * w)" "\<not> 2 ^ 63 \<le> h * w"
    using v(1,2) by (simp_all add: mult.commute)
  then have "decode_depth_map (depth_header w h @ ?p) = Inr m"
    using decode_header[OF v(4,3), of ?p] v(1) s depth_values_run[of "dm_values m"]
    by (simp add: depth_header_def Let_def)
  then show ?thesis using e by (auto simp: depth_header_def)
qed

interpretation depth_codec:
  proto_codec "\<lambda>m. case encode_depth_map m of Inr bs \<Rightarrow> bs | Inl e \<Rightarrow> []" decode_depth_map depth_map_ok
proof unfold_locales
  fix m
  assume "depth_map_ok m"
  then show "decode_depth_map (case encode_depth_map m of Inr bs \<Rightarrow> bs | Inl e \<Rightarrow> []) = Inr m"
    using depth_map_roundtrip[of m] by auto
qed

text \<open>What the size check lets through: the number of values is right modulo \<open>2 ^ 64\<close> only.\<close>

lemma decode_depth_map_InrD:
  assumes "decode_depth_map bs = Inr m"
  shows "\<exists>h w. dm_shape m = [h, w] \<and> length (dm_values m) = w * h mod 2 ^ 64 \<and> 24 \<le> length bs"
  using assms
  by (auto simp: decode_depth_map_def result_simps Let_def k_header_size_def split: if_splits prod.splits)

lemma normalize_mime_type_lazy: "normalize_mime_type (s @ lazy_suffix) = s"
  by (simp add: normalize_mime_type_def)

lemma normalize_mime_type_plain:
  "\<nexists>t. s = t @ lazy_suffix \<Longrightarrow> normalize_mime_type s = s"
  by (metis append_take_drop_id normalize_mime_type_def)

end
