(* ===== verification/Audio.thy ===== *)
theory Audio
  imports Bytes Errors
begin

text \<open>
  \<^verbatim>\<open>common/audio.cpp\<close>: the WAV writer. The file is the list of bytes it holds when the function is
  left; whether it could be opened is an argument. Arithmetic is that of \<^verbatim>\<open>uint32_t\<close> and
  \<^verbatim>\<open>uint16_t\<close>.
\<close>

record audio_properties =
  supported_codecs :: "string list"
  ap_sample_rate_hz :: int
  ap_num_channels :: int

record audio_info =
  ai_codec :: string
  ai_sample_rate_hz :: int
  ai_num_channels :: int

definition audio_properties_eq :: "audio_properties \<Rightarrow> audio_properties \<Rightarrow> bool" where
  "audio_properties_eq l r \<longleftrightarrow>
     supported_codecs l = supported_codecs r \<and> ap_sample_rate_hz l = ap_sample_rate_hz r
     \<and> ap_num_channels l = ap_num_channels r"

definition audio_info_eq :: "audio_info \<Rightarrow> audio_info \<Rightarrow> bool" where
  "audio_info_eq l r \<longleftrightarrow>
     ai_codec l = ai_codec r \<and> ai_sample_rate_hz l = ai_sample_rate_hz r
     \<and> ai_num_channels l = ai_num_channels r"

definition get_bits_per_sample :: "string \<Rightarrow> (16 word) res" where
  "get_bits_per_sample codec =
     (if codec = ''pcm16'' then Inr 16
      else if codec = ''pcm32'' \<or> codec = ''pcm32_float'' then Inr 32
      else Inl (StdException (''Unsupported codec for WAV file: '' @ codec)))"

definition ascii_bytes :: "string \<Rightarrow> byte list" where
  "ascii_bytes s = map of_char s"

definition wav_header :: "32 word \<Rightarrow> 16 word \<Rightarrow> 16 word \<Rightarrow> 32 word \<Rightarrow> byte list" where
  "wav_header sample_rate_hz num_channels bits_per_sample data_size =
     (let byte_rate = sample_rate_hz * ucast num_channels * ucast (bits_per_sample div 8) :: 32 word;
          block_align = num_channels * (bits_per_sample div 8) :: 16 word;
          chunk_size = 36 + data_size
      in ascii_bytes ''RIFF'' @ le_bytes 4 (unat chunk_size) @ ascii_bytes ''WAVE''
         @ ascii_bytes ''fmt '' @ le_bytes 4 16 @ le_bytes 2 1 @ le_bytes 2 (unat num_channels)
         @ le_bytes 4 (unat sample_rate_hz) @ le_bytes 4 (unat byte_rate)
         @ le_bytes 2 (unat block_align) @ le_bytes 2 (unat bits_per_sample)
         @ ascii_bytes ''data'' @ le_bytes 4 (unat data_size))"

text \<open>
  The result: the exception, and what the file holds (\<open>None\<close>: untouched). Opening truncates the
  file before the codec is looked at.
\<close>

definition write_wav_file ::
  "bool \<Rightarrow> string \<Rightarrow> byte list \<Rightarrow> string \<Rightarrow> 32 word \<Rightarrow> 16 word \<Rightarrow> exn option \<times> byte list option" where
  "write_wav_file opens filename audio_data codec sample_rate_hz num_channels =
     (if \<not> opens then (Some (StdException (''Failed to open file for writing: '' @ filename)), None)
      else
        (case get_bits_per_sample codec of
           Inl e \<Rightarrow> (Some e, Some [])
         | Inr bits_per_sample \<Rightarrow>
             let data_size = word_of_nat (length audio_data)
             in (None, Some (wav_header sample_rate_hz num_channels bits_per_sample data_size
                             @ take (unat data_size) audio_data))))"

subsection \<open>Lemmas\<close>

text \<open>A reader of the format, as its specification lays the fields out.\<close>

record wav =
  wav_format :: nat
  wav_channels :: nat
  wav_sample_rate :: nat
  wav_byte_rate :: nat
  wav_block_align :: nat
  wav_bits :: nat
  wav_data :: "byte list"

definition slice :: "nat \<Rightarrow> nat \<Rightarrow> byte list \<Rightarrow> byte list" where
  "slice pos len bs = take len (drop pos bs)"

definition read_wav :: "byte list \<Rightarrow> wav option" where
  "read_wav bs =
     (if slice 0 4 bs = ascii_bytes ''RIFF'' \<and> slice 8 4 bs = ascii_bytes ''WAVE''
         \<and> slice 12 4 bs = ascii_bytes ''fmt '' \<and> le_val (slice 16 4 bs) = 16
         \<and> slice 36 4 bs = ascii_bytes ''data'' \<and> length bs = 8 + le_val (slice 4 4 bs)
         \<and> length bs = 44 + le_val (slice 40 4 bs)
      then Some \<lparr>wav_format = le_val (slice 20 2 bs), wav_channels = le_val (slice 22 2 bs),
                 wav_sample_rate = le_val (slice 24 4 bs), wav_byte_rate = le_val (slice 28 4 bs),
                 wav_block_align = le_val (slice 32 2 bs), wav_bits = le_val (slice 34 2 bs),
                 wav_data = drop 44 bs\<rparr>
      else None)"

lemma unat_less16: "unat (w :: 16 word) < 65536"
  using unsigned_less[of w, where 'a = nat] by simp

lemma unat_less32: "unat (w :: 32 word) < 4294967296"
  using unsigned_less[of w, where 'a = nat] by simp

lemma ascii_length [simp]: "length (ascii_bytes s) = length s"
  by (simp add: ascii_bytes_def)

lemma slice_skip: "length a \<le> pos \<Longrightarrow> slice pos len (a @ bs) = slice (pos - length a) len bs"
  by (simp add: slice_def)

lemma slice_here: "length a = len \<Longrightarrow> slice 0 len (a @ bs) = a"
  by (simp add: slice_def)

lemma wav_header_length [simp]: "length (wav_header r c b d) = 44"
  by (simp add: wav_header_def Let_def)

lemma write_wav_ok:
  assumes "get_bits_per_sample codec = Inr bits" "36 + length audio_data < 2 ^ 32"
  shows "\<exists>bs. write_wav_file True f audio_data codec rate channels = (None, Some bs) \<and>
    read_wav bs = Some \<lparr>wav_format = 1, wav_channels = unat channels, wav_sample_rate = unat rate,
      wav_byte_rate = unat (rate * ucast channels * ucast (bits div 8) :: 32 word),
      wav_block_align = unat (channels * (bits div 8)), wav_bits = unat bits, wav_data = audio_data\<rparr>"
proof -
  let ?d = "word_of_nat (length audio_data) :: 32 word"
  have d: "unat ?d = length audio_data" using assms(2) by (simp add: unat_of_nat)
  have c: "unat (36 + ?d) = 36 + length audio_data"
    using assms(2) d by (simp add: unat_word_ariths)
  let ?bs = "wav_header rate channels bits ?d @ audio_data"
  have w: "write_wav_file True f audio_data codec rate channels = (None, Some ?bs)"
    by (simp add: write_wav_file_def assms(1) d Let_def)
  have n': "unat rate < 256 ^ 4" "unat channels < 256 ^ 2" "unat bits < 256 ^ 2"
    "unat (channels * (bits div 8)) < 256 ^ 2"
    "unat (rate * ucast channels * ucast (bits div 8) :: 32 word) < 256 ^ 4" "unat ?d < 256 ^ 4"
    "unat (36 + ?d) < 256 ^ 4"
    using unat_less16 unat_less32 by simp_all
  note n = n'[THEN le_val_bytes_small]
  have l: "le_val (le_bytes 4 (36 + length audio_data)) = 36 + length audio_data"
    "le_val (le_bytes 4 (length audio_data)) = length audio_data"
    using n(6,7) by (simp_all only: c d)
  have "drop 44 ?bs = audio_data" by simp
  then show ?thesis
    unfolding w
    by (intro exI[of _ ?bs])
      (simp add: read_wav_def wav_header_def Let_def slice_skip slice_here n l c d del: drop_append)
qed

lemma write_wav_unsupported:
  "get_bits_per_sample codec = Inl e \<Longrightarrow>
   write_wav_file True f audio_data codec rate channels = (Some e, Some [])"
  by (simp add: write_wav_file_def)

end
