(* ===== verification/Helpers.thy ===== *)
theory Helpers
  imports ResourceManager Utils
begin

text \<open>
  The plumbing every generated call goes through: \<^verbatim>\<open>common/client_helper.hpp\<close> and
  \<^verbatim>\<open>client_helper.cpp\<close> on the client side (request setup, metadata, unary and streaming
  invocation), \<^verbatim>\<open>common/private/service_helper.hpp\<close> and \<^verbatim>\<open>service_helper.cpp\<close> on the server side
  (resource lookup, error reporting), and \<^verbatim>\<open>rpc/grpc_context_observer.cpp\<close>. The stub a client
  calls is an argument.
\<close>

subsection \<open>C strings\<close>

definition c_str :: "string \<Rightarrow> string" where
  "c_str s = takeWhile (\<lambda>c. c \<noteq> CHR 0x00) s"

subsection \<open>Client side\<close>

type_synonym metadata = "(string \<times> string) list"

record 'q client_call =
  cc_debug_key :: string
  cc_request :: 'q

definition debug_map_value :: "proto_struct \<Rightarrow> string option res" where
  "debug_map_value extra =
     (case map_of extra debug_map_key of
        Some v \<Rightarrow> rmap Some (get_string_unchecked v)
      | None \<Rightarrow> Inr None)"

definition call_with :: "('q \<Rightarrow> 'q res) \<Rightarrow> 'q client_call \<Rightarrow> 'q client_call res" where
  "call_with rsc c = rmap (\<lambda>q. c\<lparr>cc_request := q\<rparr>) (rsc (cc_request c))"

text \<open>\<^verbatim>\<open>with(extra, setup)\<close>: the debug key is picked up, \<^verbatim>\<open>extra\<close> is written into the request
  (\<open>set_extra\<close>), then the caller's setup runs.\<close>

definition call_with_extra ::
  "(pb_struct \<Rightarrow> 'q \<Rightarrow> 'q) \<Rightarrow> proto_struct \<Rightarrow> ('q \<Rightarrow> 'q res) \<Rightarrow> 'q client_call \<Rightarrow> 'q client_call res" where
  "call_with_extra set_extra extra rsc c =
     rbind (debug_map_value extra) (\<lambda>val.
       let c' = (case val of Some v \<Rightarrow> c\<lparr>cc_debug_key := v\<rparr> | None \<Rightarrow> c)
       in call_with rsc (c'\<lparr>cc_request := set_extra (struct_to_proto extra) (cc_request c')\<rparr>))"

definition client_context :: "string \<Rightarrow> string option \<Rightarrow> metadata" where
  "client_context version auth_token =
     [(''viam_client'', version)] @
     (case auth_token of Some t \<Rightarrow> [(''authorization'', ''Bearer '' @ t)] | None \<Rightarrow> [])"

definition set_debug_key :: "string \<Rightarrow> metadata \<Rightarrow> metadata" where
  "set_debug_key key ctx = ctx @ [(''dtname'', key)]"

definition call_context :: "string \<Rightarrow> string option \<Rightarrow> 'q client_call \<Rightarrow> metadata" where
  "call_context version auth_token c =
     (let ctx = client_context version auth_token
      in if cc_debug_key c \<noteq> [] then set_debug_key (cc_debug_key c) ctx else ctx)"

text \<open>
  \<^verbatim>\<open>invoke\<close>: \<open>set_name\<close> writes the client's name where the request has one. The error handler
  must throw; when it returns, the process aborts.
\<close>

definition error_handler_returned :: exn where
  "error_handler_returned = Undefined ''abort: error handler returned''"

definition default_ehc :: "status \<Rightarrow> unit res" where
  "default_ehc s = Inl (grpc_exception s)"

definition run_ehc :: "(status \<Rightarrow> unit res) \<Rightarrow> status \<Rightarrow> exn" where
  "run_ehc ehc s = (case ehc s of Inl e \<Rightarrow> e | Inr _ \<Rightarrow> error_handler_returned)"

definition invoke ::
  "string \<Rightarrow> string option \<Rightarrow> ('q \<Rightarrow> 'q) \<Rightarrow> (metadata \<Rightarrow> 'q \<Rightarrow> status \<times> 'p) \<Rightarrow> 'q client_call \<Rightarrow>
   ('p \<Rightarrow> 'a res) \<Rightarrow> (status \<Rightarrow> unit res) \<Rightarrow> 'a res" where
  "invoke version auth_token set_name stub c rhc ehc =
     (let out = stub (call_context version auth_token c) (set_name (cc_request c))
      in if st_is_ok (fst out) then rhc (snd out) else Inl (run_ehc ehc (fst out)))"

text \<open>
  \<^verbatim>\<open>invoke_stream\<close>: the responses the reader yields are fed to the handler, which keeps its own
  state and answers whether it wants more; \<^verbatim>\<open>Finish\<close> tells the final status, which may depend on
  the cancellation.
\<close>

fun stream_loop ::
  "('p \<Rightarrow> 's \<Rightarrow> bool res \<times> 's) \<Rightarrow> 'p list \<Rightarrow> 's \<Rightarrow> (bool \<times> exn option) \<times> 's" where
  "stream_loop rhc [] s = ((False, None), s)"
| "stream_loop rhc (p # ps) s =
     (case rhc p s of
        (Inl e, s') \<Rightarrow> ((False, Some e), s')
      | (Inr True, s') \<Rightarrow> stream_loop rhc ps s'
      | (Inr False, s') \<Rightarrow> ((True, None), s'))"

definition invoke_stream ::
  "'p list \<Rightarrow> (bool \<Rightarrow> status) \<Rightarrow> ('p \<Rightarrow> 's \<Rightarrow> bool res \<times> 's) \<Rightarrow> (status \<Rightarrow> unit res) \<Rightarrow> 's \<Rightarrow>
   unit res \<times> 's" where
  "invoke_stream responses finish rhc ehc s =
     (case stream_loop rhc responses s of
        ((cancelled, Some e), s') \<Rightarrow> (Inl e, s')
      | ((cancelled, None), s') \<Rightarrow>
          let result = finish cancelled in
          (if st_is_ok result \<or> (cancelled \<and> st_code result = CANCELLED) then Inr ()
           else Inl (run_ehc ehc result), s'))"

subsection \<open>Server side\<close>

definition fail :: "string \<Rightarrow> status_code \<Rightarrow> string \<Rightarrow> status" where
  "fail method code message =
     mk_status code (''['' @ c_str method @ '']: '' @ c_str message)"

definition failNoRequest :: "string \<Rightarrow> status" where
  "failNoRequest method = fail method INVALID_ARGUMENT (''Called without a '' @ [CHR 0x60] @ ''request'' @ [CHR 0x60] @ '' object'')"

definition failNoContext :: "string \<Rightarrow> status" where
  "failNoContext method = fail method INVALID_ARGUMENT (''Called without a '' @ [CHR 0x60] @ ''context'' @ [CHR 0x60] @ '' object'')"

definition failNoResource :: "string \<Rightarrow> string \<Rightarrow> status" where
  "failNoResource method name =
     fail method NOT_FOUND (''Failed to find resource '' @ [CHR 0x60] @ name @ [CHR 0x60])"

definition failStdException :: "string \<Rightarrow> exn \<Rightarrow> status" where
  "failStdException method xcp =
     fail method INTERNAL (''Failed with a std::exception: '' @ c_str (exn_what xcp))"

definition failUnknownException :: "string \<Rightarrow> status" where
  "failUnknownException method = fail method INTERNAL ''Failed with an unknown exception''"

text \<open>The thread's context observer: installed for the duration of a call, never nested.\<close>

definition observer_enable :: "'ctx option \<Rightarrow> 'ctx \<Rightarrow> 'ctx option res" where
  "observer_enable current ctx =
     (case current of
        Some _ \<Rightarrow> Inl (StdException ''Cannot replace existing GrpcContextObserver with a new one'')
      | None \<Rightarrow> Inr (Some ctx))"

definition get_client_metadata_field_values :: "metadata \<Rightarrow> string \<Rightarrow> string list" where
  "get_client_metadata_field_values md key = map snd (filter (\<lambda>e. fst e = key) md)"

text \<open>
  \<^verbatim>\<open>ServiceHelper::operator()\<close>. The result pairs the status with the observer left behind. \<open>cast\<close>
  is the dynamic cast to the service's type; the callable's exceptions become statuses, and only
  undefined behaviour is left as an \<open>Inl\<close>.
\<close>

definition service_try ::
  "'ctx option \<Rightarrow> 'ctx option \<Rightarrow> ('q \<Rightarrow> string) \<Rightarrow> 'r manager \<Rightarrow> ('r \<Rightarrow> 'x option) \<Rightarrow> string \<Rightarrow>
   'q option \<Rightarrow> ('x \<Rightarrow> status res) \<Rightarrow> status res" where
  "service_try current context name_of m cast method request callable =
     (case context of
        None \<Rightarrow> Inr (failNoContext method)
      | Some ctx \<Rightarrow>
          (case request of
             None \<Rightarrow> Inr (failNoRequest method)
           | Some q \<Rightarrow>
               (case Option.bind (manager_resource m (name_of q)) cast of
                  None \<Rightarrow> Inr (failNoResource method (name_of q))
                | Some x \<Rightarrow> rbind (observer_enable current ctx) (\<lambda>_. callable x))))"

definition service_helper ::
  "'ctx option \<Rightarrow> 'ctx option \<Rightarrow> ('q \<Rightarrow> string) \<Rightarrow> 'r manager \<Rightarrow> ('r \<Rightarrow> 'x option) \<Rightarrow> string \<Rightarrow>
   'q option \<Rightarrow> ('x \<Rightarrow> status res) \<Rightarrow> status res" where
  "service_helper current context name_of m cast method request callable =
     (case service_try current context name_of m cast method request callable of
        Inr st \<Rightarrow> Inr st
      | Inl e \<Rightarrow>
          if is_std_exception e then Inr (failStdException method e)
          else if is_undefined e then Inl e
          else Inr (failUnknownException method))"

definition get_extra :: "pb_struct option \<Rightarrow> proto_struct" where
  "get_extra f = (case f of Some p \<Rightarrow> struct_from_proto p | None \<Rightarrow> [])"

subsection \<open>Lemmas\<close>

lemma debug_map_value_entry [simp]: "debug_map_value (debug_map k) = Inr (Some k)"
  by (simp add: debug_map_value_def debug_map_def emplace_def get_string_unchecked_def)

text \<open>A debug key set with \<^verbatim>\<open>with_debug_entry\<close> on a map without one reaches the metadata.\<close>

lemma debug_key_sent:
  assumes "debug_map_key \<notin> set (akeys m)" "k \<noteq> []" "call_with_extra se (with_debug_entry m k) Inr c = Inr c'"
  shows "(''dtname'', k) \<in> set (call_context v t c')"
proof -
  have "map_of (with_debug_entry m k) debug_map_key = Some (PString k)"
    using assms(1) by (simp add: with_debug_entry_def add_debug_entry_def map_of_emplace)
  then have "cc_debug_key c' = k"
    using assms(3)
    by (auto simp: call_with_extra_def debug_map_value_def get_string_unchecked_def call_with_def)
  then show ?thesis using assms(2) by (simp add: call_context_def set_debug_key_def Let_def)
qed

lemma invoke_ok: "st_is_ok (fst (stub (call_context v t c) (sn (cc_request c)))) \<Longrightarrow>
  invoke v t sn stub c rhc ehc = rhc (snd (stub (call_context v t c) (sn (cc_request c))))"
  by (simp add: invoke_def Let_def)

lemma invoke_error:
  "\<not> st_is_ok (fst (stub (call_context v t c) (sn (cc_request c)))) \<Longrightarrow>
   invoke v t sn stub c rhc default_ehc =
   Inl (grpc_exception (fst (stub (call_context v t c) (sn (cc_request c)))))"
  by (simp add: invoke_def Let_def run_ehc_def default_ehc_def)

lemma stream_loop_all:
  assumes "\<forall>p s. \<exists>s'. rhc p s = (Inr True, s')"
  shows "stream_loop rhc ps s = ((False, None), foldl (\<lambda>s p. snd (rhc p s)) s ps)"
proof (induction ps arbitrary: s)
  case (Cons p ps)
  obtain s' where "rhc p s = (Inr True, s')" using assms by blast
  then show ?case using Cons.IH[of s'] by simp
qed simp

text \<open>A handler that stops the stream never sees a later response.\<close>

lemma stream_loop_prefix:
  assumes "stream_loop rhc ps s = ((True, None), t)"
  shows "\<exists>pre p post u. ps = pre @ p # post \<and> stream_loop rhc pre s = ((False, None), u)
                        \<and> rhc p u = (Inr False, t)"
  using assms
proof (induction ps arbitrary: s)
  case (Cons p ps)
  obtain r s' where r: "rhc p s = (r, s')" by (cases "rhc p s")
  show ?case
  proof (cases "r = Inr True")
    case True
    from Cons.IH[of s'] Cons.prems r True obtain pre q post u where
      "ps = pre @ q # post" "stream_loop rhc pre s' = ((False, None), u)" "rhc q u = (Inr False, t)"
      by auto
    then have "p # ps = (p # pre) @ q # post \<and> stream_loop rhc (p # pre) s = ((False, None), u)
        \<and> rhc q u = (Inr False, t)" using r True by simp
    then show ?thesis by blast
  next
    case False
    then have "r = Inr False" "s' = t" using Cons.prems r by (cases r; auto split: bool.splits)+
    then have "p # ps = [] @ p # ps \<and> stream_loop rhc [] s = ((False, None), s)
        \<and> rhc p s = (Inr False, t)" using r by simp
    then show ?thesis by blast
  qed
qed simp

lemma fail_code [simp]: "st_code (fail m c s) = c"
  by (simp add: fail_def)

lemma service_helper_total:
  "(\<And>x. \<forall>e. callable x = Inl e \<longrightarrow> \<not> is_undefined e) \<Longrightarrow>
   \<exists>st. service_helper cur ctx nm m cast method req callable = Inr st"
proof -
  assume c: "\<And>x. \<forall>e. callable x = Inl e \<longrightarrow> \<not> is_undefined e"
  have "\<not> is_undefined e" if "service_try cur ctx nm m cast method req callable = Inl e" for e
    using that c
    by (auto simp: service_try_def observer_enable_def result_simps split: option.splits)
  then show ?thesis
    by (cases "service_try cur ctx nm m cast method req callable") (auto simp: service_helper_def)
qed

lemma service_helper_found:
  assumes "manager_resource m (nm q) = Some r" "cast r = Some x"
  shows "service_helper None (Some ctx) nm m cast method (Some q) callable =
    (case callable x of
       Inr st \<Rightarrow> Inr st
     | Inl e \<Rightarrow> if is_std_exception e then Inr (failStdException method e)
                else if is_undefined e then Inl e else Inr (failUnknownException method))"
  using assms by (simp add: service_helper_def service_try_def observer_enable_def)

lemma service_helper_missing:
  assumes "Option.bind (manager_resource m (nm q)) cast = None"
  shows "service_helper cur (Some ctx) nm m cast method (Some q) callable =
    Inr (failNoResource method (nm q))"
  using assms by (simp add: service_helper_def service_try_def)

text \<open>A service call made from inside another on the same thread fails.\<close>

lemma service_helper_nested:
  assumes "manager_resource m (nm q) = Some r" "cast r = Some x"
  shows "\<exists>st. service_helper (Some outer) (Some ctx) nm m cast method (Some q) callable = Inr st
              \<and> st_code st = INTERNAL"
  using assms by (simp add: service_helper_def service_try_def observer_enable_def failStdException_def)

end
