(* ===== verification/Arm.thy ===== *)
theory Arm
  imports Helpers Utils
begin

text \<open>
  Arms: \<^verbatim>\<open>components/arm.cpp\<close> (trajectory points and properties on the wire),
  \<^verbatim>\<open>components/private/arm_trajectory_validation.cpp\<close>, the move options and the streamed move of
  \<^verbatim>\<open>arm_client.cpp\<close> and \<^verbatim>\<open>arm_server.cpp\<close>. The implementation of an arm is a tree of the calls
  it makes to the two callbacks it is given, so a theorem about every tree is one about every
  driver that calls them from one thread. Whether the call is cancelled at the \<open>n\<close>-th inquiry and
  whether the \<open>n\<close>-th write succeeds are arguments.
\<close>

subsection \<open>Data\<close>

record kinematic_constraints =
  kc_velocities :: "double list"
  kc_accelerations :: "double list option"

record trajectory_point =
  tp_time :: int
  tp_positions :: "double list"
  tp_constraints :: "kinematic_constraints option"

record pb_kinematic_constraints =
  pk_velocities :: "double list"
  pk_accelerations :: "double list option"

record pb_trajectory_point =
  pp_time :: pb_time
  pp_positions :: "double list"
  pp_constraints :: "pb_kinematic_constraints option"

datatype stream_outcome = k_completed | k_halted_by_update_handler

definition trajectory_point_to_proto :: "trajectory_point \<Rightarrow> pb_trajectory_point" where
  "trajectory_point_to_proto p =
     \<lparr>pp_time = micros_to_proto (tp_time p), pp_positions = tp_positions p,
      pp_constraints = map_option (\<lambda>c.
        \<lparr>pk_velocities = kc_velocities c, pk_accelerations = kc_accelerations c\<rparr>) (tp_constraints p)\<rparr>"

definition trajectory_point_from_proto :: "pb_trajectory_point \<Rightarrow> trajectory_point res" where
  "trajectory_point_from_proto p =
     rbind (micros_from_proto (pp_time p)) (\<lambda>t.
       Inr \<lparr>tp_time = t, tp_positions = pp_positions p,
            tp_constraints = map_option (\<lambda>c.
              \<lparr>kc_velocities = pk_velocities c, kc_accelerations = pk_accelerations c\<rparr>)
              (pp_constraints p)\<rparr>)"

record arm_properties =
  ap_manual_mode :: bool
  ap_cartesian :: bool

definition arm_properties_eq :: "arm_properties \<Rightarrow> arm_properties \<Rightarrow> bool" where
  "arm_properties_eq l r \<longleftrightarrow>
     ap_manual_mode l = ap_manual_mode r \<and> ap_cartesian l = ap_cartesian r"

subsection \<open>The validator\<close>

record trajectory_validator =
  tv_seen_first :: bool
  tv_last_time :: int

definition fresh_validator :: trajectory_validator where
  "fresh_validator = \<lparr>tv_seen_first = False, tv_last_time = 0\<rparr>"

definition check_constraints :: "bool \<Rightarrow> nat \<Rightarrow> kinematic_constraints \<Rightarrow> string option" where
  "check_constraints seen_first npos c =
     (if length (kc_velocities c) \<noteq> npos then
        Some ''trajectory point must carry one velocity per position when constraints are present''
      else if \<not> seen_first \<and> list_ex (\<lambda>v. \<not> dbl_eq v 0) (kc_velocities c) then
        Some ''first trajectory point must start from rest (all velocities zero)''
      else if (case kc_accelerations c of
                 Some a \<Rightarrow> length a \<noteq> length (kc_velocities c) | None \<Rightarrow> False) then
        Some ''trajectory point must carry one acceleration per velocity when accelerations are present''
      else None)"

definition check :: "trajectory_validator \<Rightarrow> trajectory_point \<Rightarrow> string option \<times> trajectory_validator" where
  "check v p =
     (if \<not> tv_seen_first v \<and> tp_time p \<noteq> 0 then
        (Some ''first trajectory point must have time zero'', v)
      else if tv_seen_first v \<and> tp_time p \<le> tv_last_time v then
        (Some ''trajectory point times must strictly increase'', v)
      else if tp_positions p = [] then
        (Some ''trajectory point must carry at least one position'', v)
      else
        (case Option.bind (tp_constraints p)
                (check_constraints (tv_seen_first v) (length (tp_positions p))) of
           Some err \<Rightarrow> (Some err, v)
         | None \<Rightarrow> (None, \<lparr>tv_seen_first = True, tv_last_time = tp_time p\<rparr>)))"

subsection \<open>The server's side of the stream\<close>

datatype stream_case =
    M_init "pb_struct option"
  | M_batch "pb_trajectory_point list"
  | M_unset

record stream_msg =
  sm_name :: string
  sm_case :: stream_case

definition streamed_error :: "string \<Rightarrow> status" where
  "streamed_error msg = mk_status INVALID_ARGUMENT (''MoveThroughJointPositionsStreamed: '' @ msg)"

text \<open>The loop over the points of one batch; the validator keeps what it saw when a point fails.\<close>

fun check_points ::
  "trajectory_validator \<Rightarrow> pb_trajectory_point list \<Rightarrow> trajectory_point list res \<times> trajectory_validator"
where
  "check_points v [] = (Inr [], v)"
| "check_points v (q # qs) =
     (case trajectory_point_from_proto q of
        Inl e \<Rightarrow> (Inl e, v)
      | Inr p \<Rightarrow>
          (case check v p of
             (Some err, v') \<Rightarrow> (Inl (StatusThrown (streamed_error err)), v')
           | (None, v') \<Rightarrow>
               (case check_points v' qs of (r, v'') \<Rightarrow> (rmap ((#) p) r, v''))))"

text \<open>\<^verbatim>\<open>batch_source\<close>: the state is the rest of the stream, the number of inquiries and the
  validator.\<close>

type_synonym stream_state = "stream_msg list \<times> nat \<times> trajectory_validator"

fun batch_source :: "(nat \<Rightarrow> bool) \<Rightarrow> stream_msg list \<Rightarrow> nat \<Rightarrow> trajectory_validator \<Rightarrow>
  trajectory_point list option res \<times> stream_state" where
  "batch_source cancelled [] n v = (Inr None, ([], Suc n, v))"
| "batch_source cancelled (m # ms) n v =
     (if cancelled n then (Inr None, (m # ms, Suc n, v))
      else
        (case sm_case m of
           M_init _ \<Rightarrow>
             (Inl (StatusThrown (streamed_error ''Init may only appear as the first message'')),
              (ms, Suc n, v))
         | M_unset \<Rightarrow>
             (Inl (StatusThrown (streamed_error ''expected TrajectoryBatch'')), (ms, Suc n, v))
         | M_batch points \<Rightarrow>
             (case check_points v points of
                (Inl e, v') \<Rightarrow> (Inl e, (ms, Suc n, v'))
              | (Inr [], v') \<Rightarrow> batch_source cancelled ms (Suc n) v'
              | (Inr (p # ps), v') \<Rightarrow> (Inr (Some (p # ps)), (ms, Suc n, v')))))"

definition update_handler :: "(nat \<Rightarrow> bool) \<Rightarrow> (nat \<Rightarrow> bool) \<Rightarrow> nat \<Rightarrow> nat \<Rightarrow> bool" where
  "update_handler cancelled write_ok n written = (\<not> cancelled n \<and> write_ok written)"

text \<open>What a driver does with its callbacks.\<close>

datatype arm_run =
    A_done stream_outcome
  | A_throw exn
  | A_pull "trajectory_point list option res \<Rightarrow> arm_run"
  | A_update "bool \<Rightarrow> arm_run"

text \<open>Running a driver: its result and the batches it was handed.\<close>

primrec run_arm :: "(nat \<Rightarrow> bool) \<Rightarrow> (nat \<Rightarrow> bool) \<Rightarrow> arm_run \<Rightarrow> nat \<Rightarrow> stream_state \<Rightarrow>
  stream_outcome res \<times> trajectory_point list list" where
  "run_arm cancelled write_ok (A_done out) w s = (Inr out, [])"
| "run_arm cancelled write_ok (A_throw e) w s = (Inl e, [])"
| "run_arm cancelled write_ok (A_pull k) w s =
     (case s of (ms, n, v) \<Rightarrow>
        case batch_source cancelled ms n v of (r, s') \<Rightarrow>
          case run_arm cancelled write_ok (k r) w s' of (out, seen) \<Rightarrow>
            (out, (case r of Inr (Some b) \<Rightarrow> b # seen | _ \<Rightarrow> seen)))"
| "run_arm cancelled write_ok (A_update k) w s =
     (case s of (ms, n, v) \<Rightarrow>
        run_arm cancelled write_ok (k (update_handler cancelled write_ok n w))
          (if cancelled n then w else Suc w) (ms, Suc n, v))"

definition streamed_status :: "exn \<Rightarrow> status res" where
  "streamed_status e =
     (case e of
        StatusThrown s \<Rightarrow> Inr s
      | InvalidArgument msg \<Rightarrow> Inr (mk_status INVALID_ARGUMENT msg)
      | _ \<Rightarrow>
          (if is_std_exception e then Inr (mk_status INTERNAL (exn_what e))
           else if is_undefined e then Inl e
           else Inr (mk_status INTERNAL ''MoveThroughJointPositionsStreamed: unknown exception'')))"

text \<open>The handler; \<open>arm_of\<close> is what the driver does, given the extra arguments.\<close>

definition move_streamed ::
  "'ctx option \<Rightarrow> 'ctx \<Rightarrow> (nat \<Rightarrow> bool) \<Rightarrow> (nat \<Rightarrow> bool) \<Rightarrow> 'r manager \<Rightarrow>
   ('r \<Rightarrow> (proto_struct \<Rightarrow> arm_run) option) \<Rightarrow> stream_msg list \<Rightarrow>
   status res \<times> trajectory_point list list" where
  "move_streamed current ctx cancelled write_ok m cast inbound =
     (case inbound of
        [] \<Rightarrow> (Inr (streamed_error ''stream closed before Init message''), [])
      | first # rest \<Rightarrow>
          (case sm_case first of
             M_init extra \<Rightarrow>
               (case Option.bind (manager_resource m (sm_name first)) cast of
                  None \<Rightarrow>
                    (Inr (mk_status NOT_FOUND
                       (''MoveThroughJointPositionsStreamed: arm not found: '' @ sm_name first)), [])
                | Some arm_of \<Rightarrow>
                    (case observer_enable current ctx of
                       Inl e \<Rightarrow> (streamed_status e, [])
                     | Inr _ \<Rightarrow>
                         (case run_arm cancelled write_ok (arm_of (get_extra extra)) 0
                                 (rest, 0, fresh_validator) of
                            (Inl e, seen) \<Rightarrow> (streamed_status e, seen)
                          | (Inr _, seen) \<Rightarrow> (Inr status_ok, seen))))
           | _ \<Rightarrow> (Inr (streamed_error ''first message must be Init''), [])))"

subsection \<open>The client's side of the stream\<close>

text \<open>
  The writer sends \<open>Init\<close> and then each batch until a write fails; \<open>fin\<close> is what the caller's
  source throws in the end, if it does. The reader hands each response to the caller's handler.
\<close>

definition init_message :: "string \<Rightarrow> proto_struct \<Rightarrow> stream_msg" where
  "init_message nm extra = \<lparr>sm_name = nm, sm_case = M_init (Some (struct_to_proto extra))\<rparr>"

definition batch_message :: "trajectory_point list \<Rightarrow> stream_msg" where
  "batch_message b = \<lparr>sm_name = [], sm_case = M_batch (map trajectory_point_to_proto b)\<rparr>"

fun writer_loop ::
  "(nat \<Rightarrow> bool) \<Rightarrow> nat \<Rightarrow> trajectory_point list list \<Rightarrow> exn option \<Rightarrow> stream_msg list \<times> exn option" where
  "writer_loop write_ok i [] fin = ([], fin)"
| "writer_loop write_ok i (b # bs) fin =
     (if write_ok i then
        (case writer_loop write_ok (Suc i) bs fin of (ms, e) \<Rightarrow> (batch_message b # ms, e))
      else ([], None))"

fun reader_loop :: "(nat \<Rightarrow> bool res) \<Rightarrow> nat \<Rightarrow> nat \<Rightarrow> bool \<times> exn option" where
  "reader_loop handler i 0 = (False, None)"
| "reader_loop handler i (Suc responses) =
     (case handler i of
        Inl e \<Rightarrow> (False, Some e)
      | Inr True \<Rightarrow> reader_loop handler (Suc i) responses
      | Inr False \<Rightarrow> (True, None))"

definition stream_result ::
  "exn option \<Rightarrow> bool \<times> exn option \<Rightarrow> status \<Rightarrow> stream_outcome res" where
  "stream_result writer_exception reader finish_status =
     (case writer_exception of
        Some e \<Rightarrow> Inl e
      | None \<Rightarrow>
          (case snd reader of
             Some e \<Rightarrow> Inl e
           | None \<Rightarrow>
               (if fst reader then Inr k_halted_by_update_handler
                else if \<not> st_is_ok finish_status then Inl (grpc_exception finish_status)
                else Inr k_completed)))"

text \<open>The whole call: what is sent and what the caller gets. \<open>finish\<close> is the status the server
  ends with once it has seen what was sent, \<open>responses\<close> how many responses arrive.\<close>

definition client_streamed ::
  "string \<Rightarrow> (nat \<Rightarrow> bool) \<Rightarrow> trajectory_point list list \<Rightarrow> exn option \<Rightarrow> (nat \<Rightarrow> bool res) \<Rightarrow> nat \<Rightarrow>
   (stream_msg list \<Rightarrow> status) \<Rightarrow> proto_struct \<Rightarrow> stream_outcome res \<times> stream_msg list" where
  "client_streamed nm write_ok bs fin handler responses finish extra =
     (if \<not> write_ok 0 then (Inl (grpc_exception (finish [])), [])
      else
        (case writer_loop write_ok 1 bs fin of (ms, e) \<Rightarrow>
           (let sent = init_message nm extra # ms
            in (stream_result e (reader_loop handler 0 responses) (finish sent), sent))))"

subsection \<open>Move options\<close>

datatype move_limit = Scalar double | PerJoint "double list"

record move_options =
  mo_vel :: "move_limit option"
  mo_acc :: "move_limit option"
  mo_tcp :: "double option"

record pb_move_options =
  po_vel :: "double option"
  po_acc :: "double option"
  po_vel_joints :: "double list"
  po_acc_joints :: "double list"
  po_tcp :: "double option"

definition move_options_to_proto :: "move_options \<Rightarrow> pb_move_options" where
  "move_options_to_proto o' =
     \<lparr>po_vel = (case mo_vel o' of Some (Scalar s) \<Rightarrow> Some s | _ \<Rightarrow> None),
      po_acc = (case mo_acc o' of Some (Scalar s) \<Rightarrow> Some s | _ \<Rightarrow> None),
      po_vel_joints = (case mo_vel o' of Some (PerJoint v) \<Rightarrow> v | _ \<Rightarrow> []),
      po_acc_joints = (case mo_acc o' of Some (PerJoint v) \<Rightarrow> v | _ \<Rightarrow> []),
      po_tcp = mo_tcp o'\<rparr>"

definition move_options_from_proto :: "pb_move_options \<Rightarrow> move_options" where
  "move_options_from_proto p =
     \<lparr>mo_vel = (if 0 < length (po_vel_joints p) then Some (PerJoint (po_vel_joints p))
                else map_option Scalar (po_vel p)),
      mo_acc = (if 0 < length (po_acc_joints p) then Some (PerJoint (po_acc_joints p))
                else map_option Scalar (po_acc p)),
      mo_tcp = po_tcp p\<rparr>"

text \<open>The duration of the manual mode: \<^verbatim>\<open>static_cast<int32_t>\<close> on the client, seconds on the
  server.\<close>

definition manual_mode_seconds :: "int \<Rightarrow> int" where
  "manual_mode_seconds enabled_for = to_int32 enabled_for"

subsection \<open>Lemmas: the validator\<close>

definition point_wf :: "trajectory_point \<Rightarrow> bool" where
  "point_wf p \<longleftrightarrow> tp_positions p \<noteq> [] \<and>
     (case tp_constraints p of
        None \<Rightarrow> True
      | Some c \<Rightarrow> length (kc_velocities c) = length (tp_positions p) \<and>
          (case kc_accelerations c of
             None \<Rightarrow> True | Some a \<Rightarrow> length a = length (kc_velocities c)))"

definition at_rest :: "trajectory_point \<Rightarrow> bool" where
  "at_rest p \<longleftrightarrow> tp_time p = 0 \<and>
     (case tp_constraints p of None \<Rightarrow> True | Some c \<Rightarrow> list_all (\<lambda>v. dbl_eq v 0) (kc_velocities c))"

text \<open>The contract of a streamed trajectory, as the headers state it.\<close>

definition valid_trajectory :: "trajectory_point list \<Rightarrow> bool" where
  "valid_trajectory ps \<longleftrightarrow>
     sorted_wrt (<) (map tp_time ps) \<and> list_all point_wf ps \<and> (ps \<noteq> [] \<longrightarrow> at_rest (hd ps))"

fun accept_all :: "trajectory_validator \<Rightarrow> trajectory_point list \<Rightarrow> trajectory_validator option" where
  "accept_all v [] = Some v"
| "accept_all v (p # ps) =
     (case check v p of (None, v') \<Rightarrow> accept_all v' ps | (Some _, _) \<Rightarrow> None)"

lemma check_None_iff:
  "check v p = (None, v') \<longleftrightarrow>
     (if tv_seen_first v then tv_last_time v < tp_time p else at_rest p) \<and> point_wf p
     \<and> v' = \<lparr>tv_seen_first = True, tv_last_time = tp_time p\<rparr>"
  by (cases "tp_constraints p")
    (auto simp: check_def check_constraints_def point_wf_def at_rest_def list_ex_iff list_all_iff
      split: option.splits if_splits)

text \<open>A violation leaves the validator untouched.\<close>

lemma check_Some_same: "check v p = (Some err, v') \<Longrightarrow> v' = v"
  by (auto simp: check_def split: if_splits option.splits)

lemma accept_all_append:
  "accept_all v (ps @ qs) = Option.bind (accept_all v ps) (\<lambda>v'. accept_all v' qs)"
  by (induction v ps rule: accept_all.induct) (auto split: prod.splits option.splits)

lemma accept_all_seen:
  "tv_seen_first v \<Longrightarrow>
   accept_all v ps \<noteq> None \<longleftrightarrow>
     sorted_wrt (<) (tv_last_time v # map tp_time ps) \<and> list_all point_wf ps"
proof (induction ps arbitrary: v)
  case (Cons p ps)
  obtain r v' where c: "check v p = (r, v')" by (cases "check v p")
  show ?case
  proof (cases r)
    case None
    with c have "check v p = (None, v')" by simp
    with check_None_iff[of v p v'] Cons.prems have n: "tv_last_time v < tp_time p" "point_wf p"
      "v' = \<lparr>tv_seen_first = True, tv_last_time = tp_time p\<rparr>" by auto
    with Cons.IH[of v'] c None show ?thesis by (auto dest: order.strict_trans)
  next
    case (Some e)
    then have "\<not> (tv_last_time v < tp_time p \<and> point_wf p)"
      using check_None_iff[of v p "\<lparr>tv_seen_first = True, tv_last_time = tp_time p\<rparr>"] c Cons.prems by auto
    then show ?thesis using c Some by auto
  qed
qed simp

lemma accept_all_fresh: "accept_all fresh_validator ps \<noteq> None \<longleftrightarrow> valid_trajectory ps"
proof (cases ps)
  case (Cons p qs)
  let ?w = "\<lparr>tv_seen_first = True, tv_last_time = tp_time p\<rparr>"
  show ?thesis
  proof (cases "at_rest p \<and> point_wf p")
    case True
    then have "check fresh_validator p = (None, ?w)" by (simp add: check_None_iff fresh_validator_def)
    then show ?thesis using accept_all_seen[of ?w qs] True Cons by (auto simp: valid_trajectory_def)
  next
    case False
    obtain r v' where c: "check fresh_validator p = (r, v')" by (cases "check fresh_validator p")
    then have "r \<noteq> None"
      using False check_None_iff[of fresh_validator p v'] by (auto simp: fresh_validator_def)
    then show ?thesis using False Cons c by (auto simp: valid_trajectory_def)
  qed
qed (simp add: valid_trajectory_def)

subsection \<open>Lemmas: the stream\<close>

lemma point_from_to:
  "in_sint 64 (tp_time p) \<Longrightarrow> trajectory_point_from_proto (trajectory_point_to_proto p) = Inr p"
  by (cases "tp_constraints p")
    (auto simp: trajectory_point_from_proto_def trajectory_point_to_proto_def micros_from_to)

interpretation point_codec:
  proto_codec trajectory_point_to_proto trajectory_point_from_proto "\<lambda>p. in_sint 64 (tp_time p)"
  by unfold_locales (rule point_from_to)

lemma check_points_accept:
  "check_points v qs = (r, v') \<Longrightarrow>
   \<exists>ps. accept_all v ps = Some v' \<and> (\<forall>b. r = Inr b \<longrightarrow> ps = b)"
proof (induction v qs arbitrary: r v' rule: check_points.induct)
  case (2 v q qs)
  show ?case
  proof (cases "trajectory_point_from_proto q")
    case (Inl e)
    then show ?thesis using "2.prems" by (auto intro: exI[of _ "[]"])
  next
    case p: (Inr p)
    obtain c w where c: "check v p = (c, w)" by (cases "check v p")
    show ?thesis
    proof (cases c)
      case (Some e)
      then have "w = v" using check_Some_same c by blast
      then show ?thesis using "2.prems" p c Some by (auto intro: exI[of _ "[]"])
    next
      case None
      obtain r2 v2 where r2: "check_points w qs = (r2, v2)" by (cases "check_points w qs")
      from "2.IH"[OF p c[symmetric] None r2] obtain ps where
        ps: "accept_all w ps = Some v2" "\<forall>b. r2 = Inr b \<longrightarrow> ps = b" by blast
      then have "accept_all v (p # ps) = Some v2" using c None by simp
      then show ?thesis using "2.prems" p c None r2 ps(2)
        by (intro exI[of _ "p # ps"]) (auto simp: result_simps)
    qed
  qed
qed simp

lemma batch_source_accept:
  "batch_source cancelled ms n v = (r, (ms', n', v')) \<Longrightarrow>
   \<exists>ps. accept_all v ps = Some v' \<and> (\<forall>b. r = Inr (Some b) \<longrightarrow> ps = b) \<and> (r = Inr None \<longrightarrow> ps = [])"
proof (induction cancelled ms n v arbitrary: r ms' n' v' rule: batch_source.induct)
  case (2 cancelled m ms n v)
  show ?case
  proof (cases "cancelled n \<or> (\<forall>points. sm_case m \<noteq> M_batch points)")
    case True
    then show ?thesis using "2.prems"
      by (cases "sm_case m") (auto split: if_splits intro: exI[of _ "[]"])
  next
    case False
    then obtain points where p: "sm_case m = M_batch points" and nc: "\<not> cancelled n" by auto
    obtain c w where c: "check_points v points = (c, w)" by (cases "check_points v points")
    from check_points_accept[OF c] obtain ps where
      ps: "accept_all v ps = Some w" "\<forall>b. c = Inr b \<longrightarrow> ps = b" by blast
    show ?thesis
    proof (cases "c = Inr []")
      case True
      then have "w = v" using ps by simp
      then show ?thesis using "2.IH"[OF nc p c[symmetric] True refl, of r ms' n' v'] "2.prems" p nc c True
        by simp
    next
      case nonempty: False
      then show ?thesis using "2.prems" p nc c ps
        by (cases c) (auto split: list.splits intro: exI[of _ ps])
    qed
  qed
qed (auto intro: exI[of _ "[]"])

text \<open>
  A driver that lets the exceptions of \<^verbatim>\<open>batch_source\<close> through sees an accepted sequence of points,
  whatever the client sends.
\<close>

primrec propagates :: "arm_run \<Rightarrow> bool" where
  "propagates (A_done out) = True"
| "propagates (A_throw e) = True"
| "propagates (A_pull k) = ((\<forall>r. propagates (k r)) \<and> (\<forall>e. k (Inl e) = A_throw e))"
| "propagates (A_update k) = (\<forall>b. propagates (k b))"

lemma run_arm_accept:
  "propagates a \<Longrightarrow> run_arm cancelled write_ok a w s = (out, seen) \<Longrightarrow>
   accept_all (snd (snd s)) (concat seen) \<noteq> None"
proof (induction a arbitrary: w s out seen)
  case (A_pull k)
  obtain ms n v where s: "s = (ms, n, v)" by (cases s)
  obtain r ms' n' v' where r: "batch_source cancelled ms n v = (r, (ms', n', v'))"
    by (cases "batch_source cancelled ms n v") auto
  from batch_source_accept[OF r] obtain ps where ps: "accept_all v ps = Some v'"
    "\<forall>b. r = Inr (Some b) \<longrightarrow> ps = b" "r = Inr None \<longrightarrow> ps = []" by blast
  obtain o2 seen2 where rec: "run_arm cancelled write_ok (k r) w (ms', n', v') = (o2, seen2)"
    by (cases "run_arm cancelled write_ok (k r) w (ms', n', v')")
  have ih: "accept_all v' (concat seen2) \<noteq> None"
    using A_pull.IH[OF rangeI, of r w "(ms', n', v')" o2 seen2] A_pull.prems(1) rec by simp
  show ?case
  proof (cases r)
    case (Inl e)
    then have "seen2 = []" using A_pull.prems(1) rec by auto
    then show ?thesis using A_pull.prems(2) s r rec Inl by auto
  next
    case (Inr b)
    then show ?thesis using A_pull.prems(2) s r rec ps ih
      by (cases b) (auto simp: accept_all_append)
  qed
next
  case (A_update k)
  obtain ms n v where s: "s = (ms, n, v)" by (cases s)
  show ?case
    using A_update.IH[OF rangeI, of _ _ "(ms, Suc n, v)" out seen] A_update.prems s by auto
qed auto

lemma streamed_delivers_valid:
  assumes "\<And>r a x. cast r = Some a \<Longrightarrow> propagates (a x)"
  shows "valid_trajectory (concat (snd (move_streamed current ctx cancelled write_ok m cast inbound)))"
proof -
  have v: "valid_trajectory []" by (simp add: valid_trajectory_def)
  have "valid_trajectory (concat seen)"
    if "cast r = Some a" "run_arm cancelled write_ok (a x) 0 (rest, 0, fresh_validator) = (out, seen)"
    for r a x rest out seen
    using run_arm_accept[OF assms[OF that(1)] that(2)] accept_all_fresh by simp
  with v show ?thesis
    by (auto simp: move_streamed_def split: list.splits stream_case.splits option.splits sum.splits
        prod.splits bind_splits)
qed

subsection \<open>From the client's source to the driver\<close>

text \<open>The plain driver: it pulls until the source is exhausted.\<close>

fun drain :: "nat \<Rightarrow> arm_run" where
  "drain 0 = A_done k_completed"
| "drain (Suc k) =
     A_pull (\<lambda>r. case r of
       Inl e \<Rightarrow> A_throw e
     | Inr None \<Rightarrow> A_done k_completed
     | Inr (Some b) \<Rightarrow> drain k)"

lemma drain_propagates: "propagates (drain k)"
  by (induction k) (auto split: sum.splits option.splits)

definition times_fit :: "trajectory_point list \<Rightarrow> bool" where
  "times_fit ps \<longleftrightarrow> list_all (\<lambda>p. in_sint 64 (tp_time p)) ps"

lemma check_points_sent:
  "accept_all v ps = Some v' \<Longrightarrow> times_fit ps \<Longrightarrow>
   check_points v (map trajectory_point_to_proto ps) = (Inr ps, v')"
proof (induction v ps rule: accept_all.induct)
  case (2 v p ps)
  obtain w where "check v p = (None, w)" "accept_all w ps = Some v'"
    using "2.prems"(1) by (auto split: prod.splits option.splits)
  then show ?case using "2.IH"[of None w] "2.prems"(2) by (simp add: times_fit_def point_from_to)
qed simp

lemma writer_loop_all:
  "(\<And>j. write_ok j) \<Longrightarrow> writer_loop write_ok i bs fin = (map batch_message bs, fin)"
  by (induction bs arbitrary: i) auto

lemma drain_all:
  assumes "accept_all v (concat bs) \<noteq> None" "times_fit (concat bs)" "length bs < k"
    "\<forall>b\<in>set bs. b \<noteq> []" "\<And>j. \<not> cancelled j"
  shows "run_arm cancelled write_ok (drain k) w (map batch_message bs, n, v) = (Inr k_completed, bs)"
  using assms(1-4)
proof (induction bs arbitrary: k n v)
  case Nil
  then obtain k' where "k = Suc k'" by (cases k) auto
  then show ?case by simp
next
  case (Cons b bs)
  then obtain k' where k: "k = Suc k'" by (cases k) auto
  obtain v' where v': "accept_all v b = Some v'" "accept_all v' (concat bs) \<noteq> None"
    using Cons.prems(1) by (auto simp: accept_all_append split: bind_splits)
  have fit: "times_fit b" "times_fit (concat bs)"
    using Cons.prems(2) by (simp_all add: times_fit_def list_all_iff)
  obtain p ps where b: "b = p # ps" using Cons.prems(4) by (cases b) auto
  have "batch_source cancelled (batch_message b # map batch_message bs) n v =
      (Inr (Some b), (map batch_message bs, Suc n, v'))"
    using check_points_sent[OF v'(1) fit(1)] assms(5) b by (simp add: batch_message_def)
  moreover have "run_arm cancelled write_ok (drain k') w (map batch_message bs, Suc n, v') =
      (Inr k_completed, bs)"
    using Cons.IH[OF v'(2) fit(2)] Cons.prems(3,4) k by simp
  ultimately show ?case using k by simp
qed

text \<open>
  End to end: a valid trajectory given to the client in non-empty batches reaches the driver
  batch by batch, and the call completes.
\<close>

definition served_status :: "status res \<times> 'b \<Rightarrow> status" where
  "served_status out = (case fst out of Inr st \<Rightarrow> st | Inl e \<Rightarrow> mk_status UNAVAILABLE [])"

lemma streamed_end_to_end:
  assumes "valid_trajectory (concat bs)" "times_fit (concat bs)" "\<forall>b\<in>set bs. b \<noteq> []"
    and "\<And>j. write_ok j" "\<And>j. \<not> cancelled j" "\<And>j. handler j = Inr True"
    and "manager_resource m nm = Some r" "cast r = Some (\<lambda>x. drain k)" "length bs < k"
  shows "\<exists>sent. client_streamed nm write_ok bs None handler responses
             (\<lambda>sent. served_status (move_streamed None ctx cancelled replies_ok m cast sent)) extra
           = (Inr k_completed, sent)
         \<and> move_streamed None ctx cancelled replies_ok m cast sent = (Inr status_ok, bs)"
proof -
  have "run_arm cancelled replies_ok (drain k) 0 (map batch_message bs, 0, fresh_validator) =
      (Inr k_completed, bs)"
    using drain_all[where write_ok = replies_ok and w = 0 and n = 0, OF _ assms(2,9,3,5)]
      accept_all_fresh assms(1) by simp
  then have run: "move_streamed None ctx cancelled replies_ok m cast
      (init_message nm extra # map batch_message bs) = (Inr status_ok, bs)"
    using assms(7,8) by (simp add: move_streamed_def init_message_def observer_enable_def)
  have reader: "reader_loop handler i responses = (False, None)" for i
    using assms(6) by (induction responses arbitrary: i) auto
  show ?thesis
    using run reader assms(4)
    by (simp add: client_streamed_def writer_loop_all stream_result_def Let_def served_status_def)
qed

text \<open>An exception of the caller's callbacks wins over what the server reports, the writer's over
  the reader's.\<close>

lemma stream_result_priority:
  "stream_result (Some e) rd st = Inl e"
  "stream_result None (h, Some e) st = Inl e"
  "stream_result None (True, None) st = Inr k_halted_by_update_handler"
  by (simp_all add: stream_result_def)

subsection \<open>Lemmas: move options\<close>

definition limit_sendable :: "move_limit option \<Rightarrow> bool" where
  "limit_sendable l \<longleftrightarrow> l \<noteq> Some (PerJoint [])"

lemma move_options_from_to:
  "move_options_from_proto (move_options_to_proto o') = o' \<longleftrightarrow>
     limit_sendable (mo_vel o') \<and> limit_sendable (mo_acc o')"
  by (cases o')
    (auto simp: move_options_from_proto_def move_options_to_proto_def limit_sendable_def
      split: option.splits move_limit.splits)

lemma manual_mode_seconds_id: "in_sint 32 s \<Longrightarrow> manual_mode_seconds s = s"
  by (simp add: manual_mode_seconds_def to_int32_def in_sint_def signed_take_bit_int_eq_self)

end
