(* ===== verification/Demo.thy ===== *)
theory Demo
  imports ModuleBehaviour RobotClient
begin

text \<open>
  Small concrete values of the model on which the witnesses of the properties are evaluated: a
  module with one arm, a robot client, a channel.
\<close>

type_synonym demo_service = "(nat, unit) module_service"

definition arm_api :: api where
  "arm_api = API ''rdk'' ''component'' ''arm''"

definition demo_arm :: "nat \<Rightarrow> nat resource" where
  "demo_arm n = \<lparr>ro_api = arm_api, ro_name = ''a'', ro_stop = Some (Inr ()), ro_impl = n\<rparr>"

definition demo_manager :: "string \<Rightarrow> nat resource manager" where
  "demo_manager nm =
     \<lparr>rm_resources = [(nm, Some (demo_arm 0))],
      rm_short_names = (if get_shortcut_name nm = nm then [] else [(get_shortcut_name nm, nm)])\<rparr>"

definition demo_config :: "string \<Rightarrow> pb_component_config" where
  "demo_config m =
     \<lparr>pc_name = ''a'', pc_namespace = ''rdk'', pc_type = ''arm'', pc_api = ''rdk:component:arm'',
      pc_model = m, pc_attributes = None, pc_depends_on = [], pc_service_configs = [],
      pc_frame = None, pc_log_level = Some ''debug''\<rparr>"

text \<open>What the configuration above parses to.\<close>

definition demo_parsed :: resource_config where
  "demo_parsed =
     \<lparr>cf_api = arm_api, cf_frame = Some link_default, cf_model = mk_model ''acme'' ''demo'' ''a'',
      cf_name = ''a'', cf_namespace = ''rdk'', cf_type = ''arm'', cf_depends_on = [],
      cf_service_config = [], cf_attributes = [], cf_log_level = ll_debug\<rparr>"

definition demo_registration ::
  "nat resource option res \<Rightarrow> (nat dependencies, resource_config, nat resource) model_registration"
where
  "demo_registration out =
     mk_model_registration arm_api (mk_model ''acme'' ''demo'' ''a'') (\<lambda>deps cfg. out)"

definition demo_registry :: "nat resource option res \<Rightarrow> (nat, unit) module_registry" where
  "demo_registry out =
     \<lparr>rg_models = [(''rdk:component:arm/acme:demo:a'', demo_registration out)],
      rg_clients = [], rg_servers = [(arm_api, \<lparr>sr_class = Server_of K_Arm, service_descriptor = None\<rparr>)]\<rparr>"

definition demo_service :: "nat resource option res \<Rightarrow> nat resource manager \<Rightarrow> demo_service" where
  "demo_service out m =
     \<lparr>ms_module = mk_module False ''sock'', ms_parent = None, ms_parent_addr = [],
      ms_protocol = ''unix:'',
      ms_server = \<lparr>managed_servers = [(arm_api, m)], builder = None,
        grpc_server = Some empty_builder, is_shutdown = False\<rparr>,
      ms_registry = demo_registry out, ms_log = new_log_manager\<rparr>"

definition demo_env :: "unit res \<Rightarrow> nat resource option \<Rightarrow> nat module_env" where
  "demo_env dialed found =
     \<lparr>env_vars = (\<lambda>v. None), dial_parent = (\<lambda>a. dialed), parent_resource = (\<lambda>a n. Inr found),
      clock = 0, deps_order = rev\<rparr>"

definition demo_channel :: viam_channel where
  "demo_channel = \<lparr>ch_uri = Some ''host'', ch_impl = Some \<lparr>ci_target = ''host'', ci_path = None, ci_auth_token = None\<rparr>\<rparr>"

end
