(* ===== verification/FurtherBehaviour.thy ===== *)
theory FurtherBehaviour
  imports ModuleBehaviour RobotClient Arm Demo
begin

text \<open>
  Behaviour of the core beside the properties of the root theory: the error paths of the module
  service and of the table of resources, texts of names and APIs, what a geometry loses on the wire,
  the level in force for a log record, connections that never settle.
\<close>

subsection \<open>The module service\<close>

text \<open>
  A request to remove a resource by the last part of its name stops the resource, reports
  success and leaves every table as it was: the removal looks for the full name only, and its
  failure is swallowed.
\<close>

theorem remove_by_last_part:
  assumes "name_from_string req = Inr n" "lookup_resource_server (ms_server s) (nm_api n) = Some m"
    and "resource_map m (short_name n) = None"
    and "manager_resource m (nm_name n) = Some r" "stop_if_stoppable r = Inr ()"
  shows "\<exists>s'. handle_RemoveResource req s = (Inr status_ok, s')
           \<and> lookup_resource_server (ms_server s') = lookup_resource_server (ms_server s)"
  using assms by (rule remove_by_shortcut_keeps)

theorem remove_by_last_part_witness:
  "\<exists>s'. handle_RemoveResource ''rdk:component:arm/a''
       (demo_service (Inr None) (demo_manager ''r:a'')) = (Inr status_ok, s')
     \<and> lookup_resource_server (ms_server s') arm_api = Some (demo_manager ''r:a'')"
proof -
  have "name_from_string ''rdk:component:arm/a'' = Inr (mk_name arm_api [] ''a'')" by code_simp
  moreover have "lookup_resource_server (ms_server (demo_service (Inr None) (demo_manager ''r:a''))) arm_api
      = Some (demo_manager ''r:a'')"
    by (simp add: demo_service_def lookup_resource_server_def)
  moreover have "resource_map (demo_manager ''r:a'') (short_name (mk_name arm_api [] ''a'')) = None"
    by code_simp
  moreover have "manager_resource (demo_manager ''r:a'') ''a'' = Some (demo_arm 0)" by code_simp
  moreover have "stop_if_stoppable (demo_arm 0) = Inr ()"
    by (simp add: stop_if_stoppable_def demo_arm_def)
  ultimately show ?thesis
    using remove_by_last_part[of "''rdk:component:arm/a''" "mk_name arm_api [] ''a''"
        "demo_service (Inr None) (demo_manager ''r:a'')" "demo_manager ''r:a''" "demo_arm 0"]
    by (auto simp: mk_name_def)
qed

text \<open>
  Adding a resource whose model is not registered is not refused: the null pointer goes to the
  server, which dereferences it. The test on the registration that precedes construction only skips
  construction.
\<close>

theorem add_unregistered_model:
  assumes "config_from_proto proto = Inr cfg"
    and "get_dependencies env dependencies (cf_name cfg) s = (Inr deps, s1)"
    and "lookup_model (ms_registry s) (cf_api cfg) (cf_model cfg) = None"
    and "\<not> deadline_exceeded (clock env) deadline"
  shows "handle_AddResource env deadline proto dependencies s =
           (Inl (Undefined ''null resource''), s1)"
  using assms by (rule add_resource_unregistered)

theorem add_unregistered_model_witness:
  "fst (handle_AddResource (demo_env (Inr ()) None) 10 (demo_config ''acme:demo:b'') []
     (demo_service (Inr None) empty_manager)) = Inl (Undefined ''null resource'')"
proof -
  let ?s = "demo_service (Inr None) empty_manager"
  let ?c = "demo_parsed\<lparr>cf_model := mk_model ''acme'' ''demo'' ''b''\<rparr>"
  have "config_from_proto (demo_config ''acme:demo:b'') = Inr ?c" by code_simp
  moreover have "get_dependencies (demo_env (Inr ()) None) [] (cf_name ?c) ?s = (Inr [], ?s)"
    by (simp add: get_dependencies_def demo_service_def st_bind_def st_return_def demo_env_def)
  moreover have "lookup_model (ms_registry ?s) (cf_api ?c) (cf_model ?c) = None" by code_simp
  moreover have "\<not> deadline_exceeded (clock (demo_env (Inr ()) None)) 10"
    by (simp add: deadline_exceeded_def demo_env_def)
  ultimately show ?thesis using add_unregistered_model by fastforce
qed

subsection \<open>Resources and the registry\<close>

text \<open>
  Otherwise the replacement stops, without an error, at the first resource whose name is empty
  or taken (two resources of different APIs with one name suffice): that resource and all after it
  are dropped.
\<close>

theorem replace_all_truncates:
  assumes "acceptable rs"
    and "nm_name (fst e) = [] \<or> short_name (fst e) \<in> set (map (short_name \<circ> fst) rs)"
  shows "manager_replace_all m (rs @ e # rest) = manager_replace_all m rs"
proof -
  have "fst (replace_all_loop (m\<lparr>rm_resources := [], rm_short_names := []\<rparr>) rs) = None"
    using replace_all_loop_resources[OF assms(1), of "m\<lparr>rm_resources := [], rm_short_names := []\<rparr>"]
    by simp
  then show ?thesis
    using replace_all_loop_stops[OF assms(1) _ assms(2), of "m\<lparr>rm_resources := [], rm_short_names := []\<rparr>" rest]
    by (simp add: manager_replace_all_def prod_eq_iff)
qed

theorem replace_all_truncates_witness:
  "rm_resources (snd (manager_replace_all (empty_manager :: nat manager)
     [(mk_name arm_api [] ''a'', Some 1), (mk_name (kind_api K_Motor) [] ''a'', Some 2),
      (mk_name arm_api [] ''b'', Some 3)])) = [(''a'', Some 1)]"
proof -
  have "manager_replace_all (empty_manager :: nat manager)
     ([(mk_name arm_api [] ''a'', Some 1)] @ (mk_name (kind_api K_Motor) [] ''a'', Some 2) #
      [(mk_name arm_api [] ''b'', Some 3)]) =
     manager_replace_all empty_manager [(mk_name arm_api [] ''a'', Some 1)]"
    by (intro replace_all_truncates) (simp_all add: acceptable_def mk_name_def short_name_def)
  moreover have "rm_resources (snd (manager_replace_all (empty_manager :: nat manager)
      [(mk_name arm_api [] ''a'', Some 1)])) = [(''a'', Some 1)]" by code_simp
  ultimately show ?thesis by simp
qed

text \<open>
  Registering a list of models succeeds exactly when no pair of API and model is there twice
  or was there before, and then every model of the list is found under its own pair.
\<close>

theorem models_registered:
  "(is_Ok (register_models g mrs) \<longleftrightarrow>
     distinct (map (\<lambda>mr. registration_key (mr_api mr) (mr_model mr)) mrs)
     \<and> list_all (\<lambda>mr. lookup_model g (mr_api mr) (mr_model mr) = None) mrs)
   \<and> (\<forall>g'. register_models g mrs = Inr g' \<longrightarrow>
        list_all (\<lambda>mr. lookup_model g' (mr_api mr) (mr_model mr) = Some mr) mrs)"
proof -
  let ?es = "map (\<lambda>mr. (registration_key (mr_api mr) (mr_model mr), mr)) mrs"
  have "akeys ?es = map (\<lambda>mr. registration_key (mr_api mr) (mr_model mr)) mrs"
    by (simp add: akeys_def comp_def)
  then have "is_Ok (register_models g mrs) \<longleftrightarrow>
     distinct (map (\<lambda>mr. registration_key (mr_api mr) (mr_model mr)) mrs)
     \<and> list_all (\<lambda>mr. lookup_model g (mr_api mr) (mr_model mr) = None) mrs"
    unfolding register_models_put_all model_store.put_all_ok_iff
    by (auto simp: lookup_model_alt list_all_iff)
  moreover have "lookup_model g' (mr_api mr) (mr_model mr) = Some mr"
    if "register_models g mrs = Inr g'" "mr \<in> set mrs" for g' mr
    using that unfolding register_models_put_all lookup_model_alt
    by (intro model_store.put_all_lookup) auto
  ultimately show ?thesis by (simp add: list_all_iff)
qed

theorem models_registered_witness:
  "\<exists>g'. register_models (demo_registry (Inr None))
        [mk_model_registration arm_api (mk_model ''acme'' ''demo'' ''b'') (\<lambda>d c. Inr None)] = Inr g'
     \<and> lookup_model g' arm_api (mk_model ''acme'' ''demo'' ''b'') =
         Some (mk_model_registration arm_api (mk_model ''acme'' ''demo'' ''b'') (\<lambda>d c. Inr None))"
proof -
  let ?mr = "mk_model_registration arm_api (mk_model ''acme'' ''demo'' ''b'') (\<lambda>d c. Inr None)"
  have "lookup_model (demo_registry (Inr None)) arm_api (mk_model ''acme'' ''demo'' ''b'') = None"
    by code_simp
  then have "is_Ok (register_models (demo_registry (Inr None)) [?mr])"
    using models_registered[of "demo_registry (Inr None)" "[?mr]"]
    by (simp add: mk_model_registration_def)
  then obtain g' where g': "register_models (demo_registry (Inr None)) [?mr] = Inr g'"
    by (cases "register_models (demo_registry (Inr None)) [?mr]") auto
  with models_registered[of "demo_registry (Inr None)" "[?mr]"] show ?thesis
    by (auto simp: mk_model_registration_def)
qed

text \<open>
  A string parses as an API exactly when it is the text of an API whose three parts are
  non-empty words; so parsing inverts printing and no two APIs share a text.
\<close>

theorem api_text_exact:
  "api_from_string s = Inr a \<longleftrightarrow> api_valid a \<and> s = api_to_string a"
  by (rule api_from_string_iff)

text \<open>
  The text of an API with nothing behind it passes the pattern for names, but has no second
  part: reading it throws \<^verbatim>\<open>std::out_of_range\<close> instead of the SDK's exception for invalid names.
\<close>

theorem name_without_slash_throws:
  assumes "api_valid a"
  shows "name_from_string (api_to_string a) = Inl (OutOfRange ''vector'')"
  using assms by (rule name_no_slash)

theorem name_without_slash_throws_witness:
  "name_from_string ''rdk:component:arm'' = Inl (OutOfRange ''vector'')"
proof -
  have "api_valid arm_api" by code_simp
  from name_without_slash_throws[OF this] show ?thesis by (simp add: arm_api_def api_to_string_def)
qed

subsection \<open>Values and messages\<close>

text \<open>
  A geometry sent and received keeps its pose, its shape (boxes, spheres, capsules and meshes
  alike) and its label; its orientation comes back as the default one.
\<close>

theorem geometry_roundtrip:
  "geometry_from_proto (geometry_to_proto g) = Inr (g\<lparr>gc_orientation := orientation_default\<rparr>)"
  by (rule geometry_from_to)

text \<open>
  A record of a resource is let through by the level set for that resource, whatever the global
  and module levels are; without one the global level decides, and records of the module's own
  logger obey the module level only.
\<close>

theorem log_level_in_force:
  assumes "at_severity attrs = Some sev"
  shows "(at_module_tag attrs \<longrightarrow> (log_filter m attrs \<longleftrightarrow> module_level m \<le> sev))
     \<and> (\<not> at_module_tag attrs \<and> at_channel attrs = Some r \<longrightarrow>
          (log_filter (set_resource_log_level r l m) attrs \<longleftrightarrow> l \<le> sev)
          \<and> (r \<notin> set (akeys (resource_levels m)) \<longrightarrow>
               (log_filter m attrs \<longleftrightarrow> global_level m \<le> sev)))"
  using assms resource_level_decides[of attrs sev r l m] by (auto simp: log_filter_def)

theorem log_level_in_force_witness:
  "log_filter (set_resource_log_level ''arm'' ll_debug new_log_manager)
     \<lparr>at_severity = Some ll_debug, at_module_tag = False, at_channel = Some ''arm'',
      at_console_force = None\<rparr>"
  using log_level_in_force[of "\<lparr>at_severity = Some ll_debug, at_module_tag = False,
      at_channel = Some ''arm'', at_console_force = None\<rparr>" ll_debug new_log_manager "''arm''" ll_debug]
  by simp

subsection \<open>Connections\<close>

text \<open>
  With zero attempts the first connection is retried without end: however many dials have
  failed (below the range of the counter), a later success is returned, and without one the loop is
  still running.
\<close>

theorem first_connection_retries:
  assumes "initial_connection_attempts opts = 0" "n < 2 ^ 31 - 1"
    and "\<And>k. k < n \<Longrightarrow> \<exists>e. dial (worlds k) uri
            (Some (opts\<lparr>timeout := initial_connection_attempt_timeout opts\<rparr>)) = Inl e \<and> is_std_exception e"
    and "dial (worlds n) uri (Some (opts\<lparr>timeout := initial_connection_attempt_timeout opts\<rparr>)) = Inr c"
  shows "dial_initial (Suc n) worlds uri (Some opts) = Some (Inr c)"
proof -
  let ?a = "\<lambda>k. dial (worlds k) uri (Some (opts\<lparr>timeout := initial_connection_attempt_timeout opts\<rparr>))"
  have "dial_loop (Suc n) ?a 0 (- 1) = Some (Inr c)"
    by (rule dial_loop_success) (use assms in \<open>auto simp: in_sint_def\<close>)
  then show ?thesis using assms(1) by (simp add: dial_initial_def)
qed

theorem first_connection_retries_witness:
  "\<exists>c. dial_initial 3 (\<lambda>k. \<lparr>viam_dial = (\<lambda>a b c d e f. if k = 2 then Some ''/tmp/p'' else None),
       authenticate = (\<lambda>a b c. (status_ok, [])), direct_supported = False\<rparr>) ''host''
       (Some (default_channel_options\<lparr>initial_connection_attempts := 0\<rparr>)) = Some (Inr c)
     \<and> ch_uri c = Some ''host''"
proof -
  let ?w = "\<lambda>k :: nat. \<lparr>viam_dial = (\<lambda>a b c d e f. if k = 2 then Some ''/tmp/p'' else None),
       authenticate = (\<lambda>a b c. (status_ok, [])), direct_supported = False\<rparr>"
  let ?o = "default_channel_options\<lparr>initial_connection_attempts := 0\<rparr>"
  let ?o' = "?o\<lparr>timeout := initial_connection_attempt_timeout ?o\<rparr>"
  have f: "\<exists>e. dial (?w k) ''host'' (Some ?o') = Inl e \<and> is_std_exception e" if "k < 2" for k :: nat
    using that by (simp add: dial_def)
  obtain c where c: "dial (?w 2) ''host'' (Some ?o') = Inr c" by (simp add: dial_def)
  have "dial_initial (Suc 2) ?w ''host'' (Some ?o) = Some (Inr c)"
  proof (rule first_connection_retries)
    show "dial (?w 2) ''host'' (Some ?o') = Inr c" by (rule c)
    show "\<exists>e. dial (?w k) ''host'' (Some ?o') = Inl e \<and> is_std_exception e" if "k < 2" for k
      using that by (rule f)
  qed simp_all
  moreover have "ch_uri c = Some ''host''" using dial_uri[OF c] by simp
  ultimately show ?thesis by (intro exI[of _ c]) (simp add: numeral_3_eq_3)
qed

text \<open>
  When the machine stays unreachable through the probes and the attempts to reconnect, the
  watcher thread closes the client and so joins itself: the exception leaves the thread instead of
  the connection being given up in order.
\<close>

theorem watcher_joins_itself:
  assumes "rb_impl s" "rb_check_thread s" "ch_uri (rb_channel s) = Some uri"
    and "\<forall>k. \<exists>e. probe k = Inl e \<and> is_std_exception e"
    and "\<forall>k. \<exists>e. dials uri k = Inl e \<and> is_std_exception e"
  shows "\<exists>s'. check_connection_round lookup order probe dials answers stub conn s = (Inl join_self, s')"
  using assms by (rule round_lost)

theorem watcher_joins_itself_witness:
  "\<exists>s'. check_connection_round demo_lookup (\<lambda>m. m) (\<lambda>k. Inl (StdException ''lost''))
       (\<lambda>u k. Inl (StdException ''lost'')) (\<lambda>k. Inr []) (\<lambda>r. Inr ()) True
       ((mk_robot_client demo_channel)\<lparr>rb_check_thread := True\<rparr>) = (Inl join_self, s')"
  by (rule watcher_joins_itself[where uri = "''host''"])
    (simp_all add: mk_robot_client_def demo_channel_def)

end
