(* ===== verification/Remote.thy ===== *)
theory Remote
  imports Helpers Spatial
begin

text \<open>
  The path of one call of a component or service: the client class fills a request and calls the
  stub through \<^verbatim>\<open>make_client_helper\<close>; the server's handler runs the implementation through
  \<^verbatim>\<open>make_service_helper\<close> and fills the response. A request is its name, its \<^verbatim>\<open>extra\<close> and the fields
  that are particular to it; gRPC delivers a request unchanged, and the response of a call that
  succeeded. This theory holds the two ends and the lemma that composes them; the classes of the
  individual components and services are in Actuators, Sensors, BoardComponent, ArmComponent, Media,
  MLModel, Motion and Services.
\<close>

record 'b pb_request =
  rq_name :: string
  rq_extra :: "pb_struct option"
  rq_body :: 'b

record rpc_client =
  rc_name :: string
  rc_version :: string
  rc_token :: "string option"

record ('r, 'x) rpc_server =
  rs_manager :: "'r manager"
  rs_cast :: "'r \<Rightarrow> 'x option"

text \<open>A method of a stub: what the call comes back with for its metadata and request.\<close>

type_synonym ('b, 'p) rpc = "metadata \<Rightarrow> 'b pb_request \<Rightarrow> status \<times> 'p"

subsection \<open>The client's end\<close>

definition client_invoke ::
  "rpc_client \<Rightarrow> ('b, 'p) rpc \<Rightarrow> string \<Rightarrow> pb_struct option \<Rightarrow> 'b res \<Rightarrow> ('p \<Rightarrow> 'a res) \<Rightarrow> 'a res" where
  "client_invoke cl rpc key extra body rhc =
     rbind body (\<lambda>b.
       invoke (rc_version cl) (rc_token cl) (\<lambda>q. q\<lparr>rq_name := rc_name cl\<rparr>) rpc
         \<lparr>cc_debug_key = key, cc_request = \<lparr>rq_name = [], rq_extra = extra, rq_body = b\<rparr>\<rparr>
         rhc default_ehc)"

text \<open>\<^verbatim>\<open>with(extra, setup).invoke(handler)\<close>, and \<^verbatim>\<open>with(setup).invoke(handler)\<close> without extra.\<close>

definition invoke_with ::
  "rpc_client \<Rightarrow> ('b, 'p) rpc \<Rightarrow> proto_struct \<Rightarrow> 'b res \<Rightarrow> ('p \<Rightarrow> 'a res) \<Rightarrow> 'a res" where
  "invoke_with cl rpc extra body rhc =
     rbind (call_with_extra (\<lambda>s q. q\<lparr>rq_extra := Some s\<rparr>) extra Inr
              \<lparr>cc_debug_key = [], cc_request = \<lparr>rq_name = [], rq_extra = None, rq_body = ()\<rparr>\<rparr>) (\<lambda>c.
       client_invoke cl rpc (cc_debug_key c) (rq_extra (cc_request c)) body rhc)"

definition invoke_plain ::
  "rpc_client \<Rightarrow> ('b, 'p) rpc \<Rightarrow> 'b res \<Rightarrow> ('p \<Rightarrow> 'a res) \<Rightarrow> 'a res" where
  "invoke_plain cl rpc body rhc = client_invoke cl rpc [] None body rhc"

subsection \<open>The server's end\<close>

definition request_extra :: "'b pb_request \<Rightarrow> proto_struct" where
  "request_extra q = get_extra (rq_extra q)"

text \<open>
  A handler wrapped by the service helper. The handler's body yields a status and the response it
  filled; \<open>blank\<close> is the response before that. \<open>lost\<close> is the status the client sees when the server
  process dies under it.
\<close>

definition answer ::
  "('r, 'x) rpc_server \<Rightarrow> status \<Rightarrow> 'p \<Rightarrow> string \<Rightarrow> ('b pb_request \<Rightarrow> 'x \<Rightarrow> (status \<times> 'p) res) \<Rightarrow> ('b, 'p) rpc"
where
  "answer sv lost blank label handler md q =
     (case service_helper None (Some md) rq_name (rs_manager sv) (rs_cast sv) label (Some q)
             (\<lambda>x. rmap fst (handler q x)) of
        Inl e \<Rightarrow> (lost, blank)
      | Inr st \<Rightarrow>
          (st, case Option.bind (manager_resource (rs_manager sv) (rq_name q)) (rs_cast sv) of
                 Some x \<Rightarrow> (case handler q x of Inr r \<Rightarrow> snd r | Inl e \<Rightarrow> blank)
               | None \<Rightarrow> blank))"

text \<open>A handler's body that ends without a status of its own.\<close>

definition reply :: "'p res \<Rightarrow> (status \<times> 'p) res" where
  "reply r = rmap (\<lambda>p. (status_ok, p)) r"

subsection \<open>The two ends together\<close>

text \<open>How an exception of the implementation looks to the caller of the client.\<close>

definition wire_exn :: "status \<Rightarrow> string \<Rightarrow> exn \<Rightarrow> exn" where
  "wire_exn lost label e =
     grpc_exception
       (if is_std_exception e then failStdException label e
        else if is_undefined e then lost else failUnknownException label)"

definition seen_remotely :: "status \<Rightarrow> string \<Rightarrow> 'a res \<Rightarrow> 'a res" where
  "seen_remotely lost label r = (case r of Inl e \<Rightarrow> Inl (wire_exn lost label e) | Inr a \<Rightarrow> Inr a)"

lemma seen_remotely_simps [simp]:
  "seen_remotely lost label (Inr a) = Inr a"
  "seen_remotely lost label (Inl e) = Inl (wire_exn lost label e)"
  by (simp_all add: seen_remotely_def)

lemma seen_remotely_rbind:
  "(\<And>a. r = Inr a \<Longrightarrow> f a = Inr (g a)) \<Longrightarrow>
   seen_remotely lost label (rbind r f) = rmap g (seen_remotely lost label r)"
  by (cases r) auto

text \<open>A result that may fail to be written, and is read back when it was.\<close>

lemma seen_encoded:
  assumes "\<And>a b. r = Inr a \<Longrightarrow> f a = Inr b \<Longrightarrow> g b = Inr a"
  shows "rbind (seen_remotely lost label (rbind r f)) g =
    seen_remotely lost label (rbind r (\<lambda>a. rmap (\<lambda>_. a) (f a)))"
proof (cases r)
  case (Inr a)
  then show ?thesis using assms by (cases "f a") simp_all
qed simp

text \<open>The server hosts an implementation under the client's name.\<close>

definition hosts :: "('r, 'x) rpc_server \<Rightarrow> rpc_client \<Rightarrow> 'x \<Rightarrow> bool" where
  "hosts sv cl x \<longleftrightarrow> Option.bind (manager_resource (rs_manager sv) (rc_name cl)) (rs_cast sv) = Some x"

text \<open>Extra arguments that survive the trip, with a debug key that is a string where there is one.\<close>

definition sendable :: "proto_struct \<Rightarrow> bool" where
  "sendable extra \<longleftrightarrow>
     ps_wf extra \<and> (case map_of extra debug_map_key of Some v \<Rightarrow> is_a K_string v | None \<Rightarrow> True)"

lemma failure_not_ok [simp]:
  "\<not> st_is_ok (failStdException label e)" "\<not> st_is_ok (failUnknownException label)"
  by (simp_all add: failStdException_def failUnknownException_def st_is_ok_def)

lemma client_invoke_answer:
  assumes "hosts sv cl x" and "\<not> st_is_ok lost"
  shows "client_invoke cl (answer sv lost blank label handler) key extra (Inr b) rhc =
    (case handler \<lparr>rq_name = rc_name cl, rq_extra = extra, rq_body = b\<rparr> x of
       Inl e \<Rightarrow> Inl (wire_exn lost label e)
     | Inr (st, p) \<Rightarrow> if st_is_ok st then rhc p else Inl (grpc_exception st))"
proof -
  obtain r where r: "manager_resource (rs_manager sv) (rc_name cl) = Some r" "rs_cast sv r = Some x"
    using assms(1) by (auto simp: hosts_def bind_eq_Some_conv)
  let ?q = "\<lparr>rq_name = rc_name cl, rq_extra = extra, rq_body = b\<rparr>"
  show ?thesis
  proof (cases "handler ?q x")
    case (Inl e)
    then show ?thesis
      using assms(2) r
      by (simp add: client_invoke_def invoke_def answer_def service_helper_found wire_exn_def
          run_ehc_def default_ehc_def Let_def)
  next
    case (Inr sp)
    then show ?thesis
      using r
      by (cases sp) (simp add: client_invoke_def invoke_def answer_def service_helper_found
          run_ehc_def default_ehc_def Let_def)
  qed
qed

text \<open>A handler that replies with what the implementation returned, decoded at the other end.\<close>

lemma client_invoke_reply:
  assumes "hosts sv cl x" and "\<not> st_is_ok lost"
  shows "client_invoke cl (answer sv lost blank label (\<lambda>q x. reply (f q x))) key extra (Inr b) rhc =
    rbind (seen_remotely lost label (f \<lparr>rq_name = rc_name cl, rq_extra = extra, rq_body = b\<rparr> x)) rhc"
  by (simp add: client_invoke_answer[OF assms] reply_def split: sum.split)
    (cases "f \<lparr>rq_name = rc_name cl, rq_extra = extra, rq_body = b\<rparr> x"; simp)

lemma sendable_setup:
  assumes "sendable extra"
  shows "\<exists>key. call_with_extra (\<lambda>s q. q\<lparr>rq_extra := Some s\<rparr>) extra Inr
      \<lparr>cc_debug_key = [], cc_request = \<lparr>rq_name = [], rq_extra = None, rq_body = ()\<rparr>\<rparr> =
    Inr \<lparr>cc_debug_key = key,
         cc_request = \<lparr>rq_name = [], rq_extra = Some (struct_to_proto extra), rq_body = ()\<rparr>\<rparr>"
proof (cases "map_of extra debug_map_key")
  case (Some v)
  with assms obtain s where "v = PString s"
    by (cases v) (auto simp: sendable_def is_a_def)
  with Some show ?thesis
    by (simp add: call_with_extra_def debug_map_value_def get_string_unchecked_def call_with_def Let_def)
qed (simp add: call_with_extra_def debug_map_value_def call_with_def Let_def)

lemma request_extra_sent [simp]:
  "sendable extra \<Longrightarrow>
   request_extra \<lparr>rq_name = n, rq_extra = Some (struct_to_proto extra), rq_body = b\<rparr> = extra"
  by (simp add: request_extra_def get_extra_def sendable_def struct_from_to)

lemma invoke_with_answer:
  assumes "hosts sv cl x" "\<not> st_is_ok lost" "sendable extra"
  shows "invoke_with cl (answer sv lost blank label handler) extra (Inr b) rhc =
    (case handler \<lparr>rq_name = rc_name cl, rq_extra = Some (struct_to_proto extra), rq_body = b\<rparr> x of
       Inl e \<Rightarrow> Inl (wire_exn lost label e)
     | Inr (st, p) \<Rightarrow> if st_is_ok st then rhc p else Inl (grpc_exception st))"
proof -
  obtain key where k: "call_with_extra (\<lambda>s q. q\<lparr>rq_extra := Some s\<rparr>) extra Inr
      \<lparr>cc_debug_key = [], cc_request = \<lparr>rq_name = [], rq_extra = None, rq_body = ()\<rparr>\<rparr> =
    Inr \<lparr>cc_debug_key = key,
         cc_request = \<lparr>rq_name = [], rq_extra = Some (struct_to_proto extra), rq_body = ()\<rparr>\<rparr>"
    using sendable_setup[OF assms(3)] by blast
  show ?thesis by (simp add: invoke_with_def k client_invoke_answer[OF assms(1,2)])
qed

lemma invoke_with_reply:
  assumes "hosts sv cl x" "\<not> st_is_ok lost" "sendable extra"
  shows "invoke_with cl (answer sv lost blank label (\<lambda>q x. reply (f q x))) extra (Inr b) rhc =
    rbind (seen_remotely lost label
      (f \<lparr>rq_name = rc_name cl, rq_extra = Some (struct_to_proto extra), rq_body = b\<rparr> x)) rhc"
  by (simp add: invoke_with_answer[OF assms] reply_def split: sum.split)
    (cases "f \<lparr>rq_name = rc_name cl, rq_extra = Some (struct_to_proto extra), rq_body = b\<rparr> x"; simp)

lemma invoke_plain_reply:
  assumes "hosts sv cl x" "\<not> st_is_ok lost"
  shows "invoke_plain cl (answer sv lost blank label (\<lambda>q x. reply (f q x))) (Inr b) rhc =
    rbind (seen_remotely lost label (f \<lparr>rq_name = rc_name cl, rq_extra = None, rq_body = b\<rparr> x)) rhc"
  by (simp add: invoke_plain_def client_invoke_reply[OF assms])

text \<open>A name nobody hosts, or one hosted by a resource of another API.\<close>

lemma client_invoke_missing:
  assumes "Option.bind (manager_resource (rs_manager sv) (rc_name cl)) (rs_cast sv) = None"
  shows "client_invoke cl (answer sv lost blank label handler) key extra (Inr b) rhc =
    Inl (grpc_exception (failNoResource label (rc_name cl)))"
  using assms
  by (simp add: client_invoke_def invoke_def answer_def service_helper_missing run_ehc_def
      default_ehc_def failNoResource_def st_is_ok_def Let_def)

subsection \<open>One method, as a contract\<close>

text \<open>
  The contract of a method: how its arguments and its result are written and read back. Every method
  that keeps it is transparent: calling the client is calling the implementation, with its exceptions
  seen through a status.
\<close>

locale rpc_method =
  fixes enc_arg :: "'arg \<Rightarrow> 'b"
    and dec_arg :: "'b \<Rightarrow> 'arg res"
    and enc_ret :: "'ret \<Rightarrow> 'p"
    and dec_ret :: "'p \<Rightarrow> 'ret res"
    and arg_ok :: "'arg \<Rightarrow> bool"
    and ret_ok :: "'ret \<Rightarrow> bool"
  assumes arg_trip: "arg_ok a \<Longrightarrow> dec_arg (enc_arg a) = Inr a"
    and ret_trip: "ret_ok r \<Longrightarrow> dec_ret (enc_ret r) = Inr r"
begin

lemma transparent:
  assumes "hosts sv cl x" "\<not> st_is_ok lost" "sendable extra" "arg_ok a"
    and "\<And>r. impl x a extra = Inr r \<Longrightarrow> ret_ok r"
  shows "invoke_with cl
      (answer sv lost blank label (\<lambda>q x. reply (rbind (dec_arg (rq_body q)) (\<lambda>a.
          rmap enc_ret (impl x a (request_extra q))))))
      extra (Inr (enc_arg a)) dec_ret
    = seen_remotely lost label (impl x a extra)"
  unfolding invoke_with_reply[OF assms(1,2,3)]
  by (cases "impl x a extra") (auto simp: arg_trip assms ret_trip)

lemma transparent_plain:
  assumes "hosts sv cl x" "\<not> st_is_ok lost" "arg_ok a" "\<And>r. impl x a = Inr r \<Longrightarrow> ret_ok r"
  shows "invoke_plain cl
      (answer sv lost blank label (\<lambda>q x. reply (rbind (dec_arg (rq_body q)) (\<lambda>a.
          rmap enc_ret (impl x a)))))
      (Inr (enc_arg a)) dec_ret
    = seen_remotely lost label (impl x a)"
  unfolding invoke_plain_reply[OF assms(1,2)]
  by (cases "impl x a") (auto simp: arg_trip assms ret_trip)

end

text \<open>Methods whose arguments are sent as they are.\<close>

interpretation plain_method: rpc_method "\<lambda>a. a" Inr "\<lambda>r. r" Inr "\<lambda>_. True" "\<lambda>_. True"
  by unfold_locales simp_all

subsection \<open>The methods every component has\<close>

text \<open>\<^verbatim>\<open>do_command\<close>, \<^verbatim>\<open>get_status\<close> and \<^verbatim>\<open>get_geometries\<close>, written the same way in every client and
  every server class.\<close>

definition call_do_command :: "rpc_client \<Rightarrow> (pb_struct, pb_struct) rpc \<Rightarrow> proto_struct \<Rightarrow> proto_struct res" where
  "call_do_command cl rpc command =
     invoke_plain cl rpc (Inr (struct_to_proto command)) (\<lambda>p. Inr (struct_from_proto p))"

definition serve_do_command ::
  "('r, 'x) rpc_server \<Rightarrow> status \<Rightarrow> string \<Rightarrow> ('x \<Rightarrow> proto_struct \<Rightarrow> proto_struct res) \<Rightarrow> (pb_struct, pb_struct) rpc"
where
  "serve_do_command sv lost label do_command =
     answer sv lost [] label (\<lambda>q x.
       reply (rmap struct_to_proto (do_command x (struct_from_proto (rq_body q)))))"

definition call_get_status :: "rpc_client \<Rightarrow> (unit, pb_struct) rpc \<Rightarrow> proto_struct res" where
  "call_get_status cl rpc = invoke_plain cl rpc (Inr ()) (\<lambda>p. Inr (struct_from_proto p))"

definition serve_get_status ::
  "('r, 'x) rpc_server \<Rightarrow> status \<Rightarrow> string \<Rightarrow> ('x \<Rightarrow> proto_struct res) \<Rightarrow> (unit, pb_struct) rpc" where
  "serve_get_status sv lost label get_status =
     answer sv lost [] label (\<lambda>q x. reply (rmap struct_to_proto (get_status x)))"

definition call_get_geometries ::
  "rpc_client \<Rightarrow> (unit, pb_geometry list) rpc \<Rightarrow> proto_struct \<Rightarrow> geometry_config list res" where
  "call_get_geometries cl rpc extra =
     invoke_with cl rpc extra (Inr ()) get_geometries_response_from_proto"

definition serve_get_geometries ::
  "('r, 'x) rpc_server \<Rightarrow> status \<Rightarrow> string \<Rightarrow> ('x \<Rightarrow> proto_struct \<Rightarrow> geometry_config list res) \<Rightarrow>
   (unit, pb_geometry list) rpc" where
  "serve_get_geometries sv lost label get_geometries =
     answer sv lost [] label (\<lambda>q x.
       reply (rmap (map geometry_to_proto) (get_geometries x (request_extra q))))"

lemma remote_do_command:
  assumes "hosts sv cl x" "\<not> st_is_ok lost" "ps_wf command"
    and "\<And>r. f x command = Inr r \<Longrightarrow> ps_wf r"
  shows "call_do_command cl (serve_do_command sv lost label f) command = seen_remotely lost label (f x command)"
  unfolding call_do_command_def serve_do_command_def invoke_plain_reply[OF assms(1,2)]
  using assms(3,4) by (cases "f x command") (auto simp: struct_from_to)

lemma remote_get_status:
  assumes "hosts sv cl x" "\<not> st_is_ok lost" "\<And>r. f x = Inr r \<Longrightarrow> ps_wf r"
  shows "call_get_status cl (serve_get_status sv lost label f) = seen_remotely lost label (f x)"
  unfolding call_get_status_def serve_get_status_def invoke_plain_reply[OF assms(1,2)]
  using assms(3) by (cases "f x") (auto simp: struct_from_to)

text \<open>Geometries arrive without their orientation, for which the message has no place.\<close>

lemma remote_get_geometries_received:
  assumes "hosts sv cl x" "\<not> st_is_ok lost" "sendable extra"
  shows "call_get_geometries cl (serve_get_geometries sv lost label f) extra =
    seen_remotely lost label (rmap (map (\<lambda>g. g\<lparr>gc_orientation := orientation_default\<rparr>)) (f x extra))"
proof -
  have "mapM geometry_from_proto (map geometry_to_proto gs) =
      Inr (map (\<lambda>g. g\<lparr>gc_orientation := orientation_default\<rparr>) gs)" for gs
    by (induction gs) (simp_all add: geometry_from_to)
  then show ?thesis
    unfolding call_get_geometries_def serve_get_geometries_def invoke_with_reply[OF assms]
    using assms(3) by (cases "f x extra") (auto simp: get_geometries_response_from_proto_def)
qed

lemma remote_get_geometries:
  assumes "hosts sv cl x" "\<not> st_is_ok lost" "sendable extra"
    and "\<And>gs. f x extra = Inr gs \<Longrightarrow> \<forall>g\<in>set gs. geometry_plain g"
  shows "call_get_geometries cl (serve_get_geometries sv lost label f) extra =
    seen_remotely lost label (f x extra)"
  unfolding call_get_geometries_def serve_get_geometries_def invoke_with_reply[OF assms(1,2,3)]
  using assms(3,4)
  by (cases "f x extra")
    (auto simp: get_geometries_response_from_proto_def geometry_codec.repeated_from_to)

end
