(* ===== verification/DoubleOps.thy ===== *)
theory DoubleOps
  imports Doubles
begin

text \<open>
  Arithmetic of \<^verbatim>\<open>double\<close>: sum, difference, product and quotient rounded to nearest, ties to even, the
  absolute value and the order, on the bit patterns of Doubles. A default NaN has the sign bit set, as
  on x86; a NaN operand is passed on with its quiet bit set, the first one if both are.
\<close>

subsection \<open>The product of two doubles\<close>

definition dbl_inf :: "bool \<Rightarrow> double" where
  "dbl_inf neg = word_of_nat ((if neg then 2 ^ 63 else 0) + 2047 * 2 ^ 52)"

text \<open>The double nearest to \<open>m * 2 ^ (e - 2148)\<close>, which no product of two doubles undercuts: its
  last place is \<open>2 ^ (t - 2148)\<close>, and never below the last place \<open>2 ^ -1074\<close> of the subnormals.\<close>

definition dbl_round :: "bool \<Rightarrow> nat \<Rightarrow> nat \<Rightarrow> double" where
  "dbl_round neg m e =
     (let s = (if neg then 2 ^ 63 else 0);
          t = max (e + floorlog 2 m - 53) 1074;
          q = (if t \<le> e then m * 2 ^ (e - t)
               else let d = 2 ^ (t - e); r = m mod d
                    in if d < 2 * r \<or> 2 * r = d \<and> odd (m div d) then m div d + 1 else m div d);
          q' = (if q = 2 ^ 53 then 2 ^ 52 else q);
          t' = (if q = 2 ^ 53 then t + 1 else t)
      in if q' < 2 ^ 52 then word_of_nat (s + q')
         else if 1074 + 2045 < t' then dbl_inf neg
         else word_of_nat (s + (t' - 1073) * 2 ^ 52 + (q' - 2 ^ 52)))"

definition dbl_mant :: "double \<Rightarrow> nat" where
  "dbl_mant d = (if dbl_exp d = 0 then dbl_frac d else 2 ^ 52 + dbl_frac d)"

definition dbl_scale :: "double \<Rightarrow> nat" where
  "dbl_scale d = (if dbl_exp d = 0 then 0 else dbl_exp d - 1)"

text \<open>Multiplication: a NaN operand is passed on with its quiet bit set.\<close>

definition dbl_mul :: "double \<Rightarrow> double \<Rightarrow> double" where
  "dbl_mul a b =
     (let neg = (dbl_neg a \<noteq> dbl_neg b); inf_a = (dbl_exp a = 2047); inf_b = (dbl_exp b = 2047)
      in if dbl_is_nan a then set_bit 51 a
         else if dbl_is_nan b then set_bit 51 b
         else if inf_a \<and> dbl_is_zero b \<or> inf_b \<and> dbl_is_zero a then 0xFFF8000000000000
         else if inf_a \<or> inf_b then dbl_inf neg
         else dbl_round neg (dbl_mant a * dbl_mant b) (dbl_scale a + dbl_scale b))"

text \<open>The other operations. A quotient keeps 57 bits and a sticky bit for what it drops.\<close>

definition dbl_default_nan :: double where
  "dbl_default_nan = 0xFFF8000000000000"

definition dbl_zero :: "bool \<Rightarrow> double" where
  "dbl_zero neg = (if neg then 0x8000000000000000 else 0)"

definition dbl_flip :: "double \<Rightarrow> double" where
  "dbl_flip d = d + 0x8000000000000000"

definition dbl_abs :: "double \<Rightarrow> double" where
  "dbl_abs d = (if dbl_neg d then dbl_flip d else d)"

definition dbl_signed :: "double \<Rightarrow> nat \<Rightarrow> int" where
  "dbl_signed d m = (if dbl_neg d then - int m else int m)"

definition dbl_add :: "double \<Rightarrow> double \<Rightarrow> double" where
  "dbl_add a b =
     (if dbl_is_nan a then set_bit 51 a
      else if dbl_is_nan b then set_bit 51 b
      else if dbl_exp a = 2047 then
        (if dbl_exp b = 2047 \<and> dbl_neg a \<noteq> dbl_neg b then dbl_default_nan else a)
      else if dbl_exp b = 2047 then b
      else let s = min (dbl_scale a) (dbl_scale b);
               m = dbl_signed a (dbl_mant a * 2 ^ (dbl_scale a - s)) + dbl_signed b (dbl_mant b * 2 ^ (dbl_scale b - s))
           in if m = 0 then dbl_zero (dbl_neg a \<and> dbl_neg b)
              else dbl_round (m < 0) (nat \<bar>m\<bar>) (s + 1074))"

definition dbl_sub :: "double \<Rightarrow> double \<Rightarrow> double" where
  "dbl_sub a b =
     (if dbl_is_nan a then set_bit 51 a
      else if dbl_is_nan b then set_bit 51 b
      else dbl_add a (dbl_flip b))"

definition dbl_div :: "double \<Rightarrow> double \<Rightarrow> double" where
  "dbl_div a b =
     (let neg = (dbl_neg a \<noteq> dbl_neg b); inf_a = (dbl_exp a = 2047); inf_b = (dbl_exp b = 2047)
      in if dbl_is_nan a then set_bit 51 a
         else if dbl_is_nan b then set_bit 51 b
         else if inf_a \<and> inf_b \<or> dbl_is_zero a \<and> dbl_is_zero b then dbl_default_nan
         else if inf_a \<or> dbl_is_zero b then dbl_inf neg
         else if inf_b \<or> dbl_is_zero a then dbl_zero neg
         else let n = dbl_mant a * 2 ^ 110; q = n div dbl_mant b;
                  m = (if n mod dbl_mant b = 0 then 2 * q else 2 * q + 1)
              in if dbl_scale b + 111 \<le> dbl_scale a + 2148
                 then dbl_round neg m (dbl_scale a + 2148 - (dbl_scale b + 111)) else dbl_zero neg)"

text \<open>The order on numbers, by the bits of the magnitude.\<close>

definition dbl_mag :: "double \<Rightarrow> nat" where
  "dbl_mag d = unat d mod 2 ^ 63"

definition dbl_key :: "double \<Rightarrow> int" where
  "dbl_key d = dbl_signed d (dbl_mag d)"

definition dbl_less :: "double \<Rightarrow> double \<Rightarrow> bool" where
  "dbl_less a b \<longleftrightarrow> \<not> dbl_is_nan a \<and> \<not> dbl_is_nan b \<and> dbl_key a < dbl_key b"

definition dbl_le :: "double \<Rightarrow> double \<Rightarrow> bool" where
  "dbl_le a b \<longleftrightarrow> \<not> dbl_is_nan a \<and> \<not> dbl_is_nan b \<and> dbl_key a \<le> dbl_key b"

subsection \<open>Rounding of integers\<close>

text \<open>\<open>dbl_bits v\<close> is the magnitude of the double nearest to \<open>v * 2 ^ -2148\<close>.\<close>

definition half_even :: "nat \<Rightarrow> nat \<Rightarrow> nat" where
  "half_even v t =
     (let d = 2 ^ t; r = v mod d
      in if d < 2 * r \<or> 2 * r = d \<and> odd (v div d) then v div d + 1 else v div d)"

definition last_place :: "nat \<Rightarrow> nat" where
  "last_place v = max (floorlog 2 v - 53) 1074"

definition dbl_bits :: "nat \<Rightarrow> nat" where
  "dbl_bits v = min (2047 * 2 ^ 52) ((last_place v - 1074) * 2 ^ 52 + half_even v (last_place v))"

lemma half_even_exact: "half_even (q * 2 ^ t) t = q"
  by (simp add: half_even_def)

lemma half_even_shift:
  assumes "e < t"
  shows "half_even (m * 2 ^ e) t = half_even m (t - e)"
proof -
  have d: "(2::nat) ^ t = 2 ^ (t - e) * 2 ^ e" using assms by (simp flip: power_add)
  have "m * 2 ^ e div 2 ^ t = m div 2 ^ (t - e)" "m * 2 ^ e mod 2 ^ t = m mod 2 ^ (t - e) * 2 ^ e"
    unfolding d by (simp_all add: mult_mod_left)
  moreover have "2 ^ t < 2 * (r * 2 ^ e) \<longleftrightarrow> 2 ^ (t - e) < 2 * r" "2 * (r * 2 ^ e) = 2 ^ t \<longleftrightarrow> 2 * r = 2 ^ (t - e)"
    for r :: nat
    unfolding d by auto
  ultimately show ?thesis by (simp add: half_even_def Let_def)
qed

lemma half_even_bounds: "v div 2 ^ t \<le> half_even v t" "half_even v t \<le> v div 2 ^ t + 1"
  by (simp_all add: half_even_def Let_def)

lemma half_even_mono:
  assumes "v \<le> w"
  shows "half_even v t \<le> half_even w t"
proof (cases "v div 2 ^ t = w div 2 ^ t")
  case True
  then have "v mod 2 ^ t \<le> w mod 2 ^ t"
    using assms by (metis add_le_cancel_left div_mult_mod_eq)
  with True show ?thesis by (auto simp: half_even_def Let_def)
next
  case False
  then have "v div 2 ^ t + 1 \<le> w div 2 ^ t"
    using div_le_mono[OF assms, of "2 ^ t"] by linarith
  with half_even_bounds[of v t] half_even_bounds[of w t] show ?thesis by linarith
qed

lemma floorlog_shift: "0 < m \<Longrightarrow> floorlog 2 (m * 2 ^ e) = floorlog 2 m + e"
  by simp

lemma below_last_place:
  assumes "0 < v"
  shows "half_even v (last_place v) \<le> 2 ^ 53"
    and "1074 < last_place v \<Longrightarrow> 2 ^ 52 \<le> half_even v (last_place v)"
proof -
  let ?t = "last_place v"
  have "v < 2 ^ (?t + 53)"
  proof -
    have "floorlog 2 v \<le> ?t + 53" by (simp add: last_place_def)
    then have "(2::nat) ^ floorlog 2 v \<le> 2 ^ (?t + 53)" by (intro power_increasing) auto
    with floorlog_bounds(2)[OF assms] show ?thesis by linarith
  qed
  then have "v div 2 ^ ?t < 2 ^ 53" by (simp add: power_add less_mult_imp_div_less mult.commute)
  with half_even_bounds(2)[of v ?t] show "half_even v ?t \<le> 2 ^ 53" by linarith
  assume "1074 < ?t"
  then have "floorlog 2 v - 1 = ?t + 52" by (auto simp: last_place_def)
  with floorlog_bounds(1)[OF assms] have "2 ^ 52 * 2 ^ ?t \<le> v" by (simp add: power_add mult.commute)
  then have "2 ^ 52 \<le> v div 2 ^ ?t" by (simp add: less_eq_div_iff_mult_less_eq)
  with half_even_bounds(1)[of v ?t] show "2 ^ 52 \<le> half_even v ?t" by linarith
qed

lemma dbl_bits_0 [simp]: "dbl_bits 0 = 0"
  by (simp add: dbl_bits_def half_even_def last_place_def floorlog_def)

lemma dbl_bits_le: "dbl_bits v \<le> 2047 * 2 ^ 52"
  by (simp add: dbl_bits_def)

lemma dbl_bits_mono:
  assumes "v \<le> w"
  shows "dbl_bits v \<le> dbl_bits w"
proof (cases "v = 0")
  case False
  then have v: "0 < v" "0 < w" using assms by auto
  have t: "last_place v \<le> last_place w"
    using floorlog_mono[OF assms, of 2] by (simp add: last_place_def)
  have "(last_place v - 1074) * 2 ^ 52 + half_even v (last_place v)
      \<le> (last_place w - 1074) * 2 ^ 52 + half_even w (last_place w)"
  proof (cases "last_place v = last_place w")
    case True
    then show ?thesis using half_even_mono[OF assms] by simp
  next
    case False
    with t have lt: "last_place v < last_place w" by simp
    have ge: "1074 \<le> last_place v" by (simp add: last_place_def)
    have "last_place v - 1074 + 1 \<le> last_place w - 1074" using lt ge by linarith
    then obtain k where k: "last_place w - 1074 = last_place v - 1074 + 1 + k"
      using le_Suc_ex by blast
    have "2 ^ 52 \<le> half_even w (last_place w)" using below_last_place(2)[OF v(2)] lt ge by simp
    with below_last_place(1)[OF v(1)] show ?thesis unfolding k by (simp add: algebra_simps)
  qed
  then show ?thesis by (simp add: dbl_bits_def min_le_iff_disj)
qed simp

lemma assemble_bits:
  fixes s t q :: nat
  assumes ge: "1074 \<le> t" and bd: "q \<le> 2 ^ 53" "1074 < t \<Longrightarrow> 2 ^ 52 \<le> q"
  shows "(let q' = (if q = 2 ^ 53 then 2 ^ 52 else q); t' = (if q = 2 ^ 53 then t + 1 else t)
      in if q' < 2 ^ 52 then word_of_nat (s + q')
         else if 1074 + 2045 < t' then word_of_nat (s + 2047 * 2 ^ 52) :: double
         else word_of_nat (s + (t' - 1073) * 2 ^ 52 + (q' - 2 ^ 52)))
    = word_of_nat (s + min (2047 * 2 ^ 52) ((t - 1074) * 2 ^ 52 + q))"
proof -
  let ?b = "(t - 1074) * 2 ^ 52 + q"
  have up: "t - 1073 = t - 1074 + 1" "t + 1 - 1073 = t - 1074 + 2" using ge by simp_all
  consider (small) "q < 2 ^ 52" | (normal) "2 ^ 52 \<le> q" "q < 2 ^ 53" | (carry) "q = 2 ^ 53"
    using bd(1) by linarith
  then show ?thesis
  proof cases
    case small
    then have t: "t = 1074" using bd(2) ge by force
    have "min (2047 * 2 ^ 52) ?b = q" using small by (simp add: t)
    with small show ?thesis by (simp add: Let_def)
  next
    case normal
    have c: "(q = 2 ^ 53) = False" "(q < 2 ^ 52) = False" using normal by auto
    have m: "s + min (2047 * 2 ^ 52) ?b =
      (if 1074 + 2045 < t then s + 2047 * 2 ^ 52 else s + (t - 1073) * 2 ^ 52 + (q - 2 ^ 52))"
      using normal unfolding up by (auto simp: algebra_simps min_def)
    show ?thesis unfolding m by (simp only: Let_def c if_False if_distrib[of word_of_nat])
  next
    case carry
    have m: "s + min (2047 * 2 ^ 52) ?b =
      (if 1074 + 2045 < t + 1 then s + 2047 * 2 ^ 52 else s + (t + 1 - 1073) * 2 ^ 52 + (2 ^ 52 - 2 ^ 52))"
      using carry ge unfolding up by (auto simp: algebra_simps min_def)
    show ?thesis unfolding m unfolding carry by (simp only: Let_def if_distrib[of word_of_nat] less_irrefl if_False if_True simp_thms)
  qed
qed

lemma dbl_round_bits:
  "dbl_round neg m e = word_of_nat ((if neg then 2 ^ 63 else 0) + dbl_bits (m * 2 ^ e))"
proof (cases "m = 0")
  case True
  then show ?thesis by (simp add: dbl_round_def floorlog_def Let_def)
next
  case False
  let ?v = "m * 2 ^ e" and ?s = "if neg then 2 ^ 63 else 0 :: nat"
  let ?t = "last_place ?v" and ?q = "half_even ?v (last_place ?v)"
  have v: "0 < ?v" using False by simp
  have t: "max (e + floorlog 2 m - 53) 1074 = ?t"
    using False by (simp add: last_place_def add.commute)
  have q: "(if ?t \<le> e then m * 2 ^ (e - ?t)
            else let d = 2 ^ (?t - e); r = m mod d
                 in if d < 2 * r \<or> 2 * r = d \<and> odd (m div d) then m div d + 1 else m div d) = ?q"
  proof (cases "?t \<le> e")
    case True
    then have "?v = m * 2 ^ (e - ?t) * 2 ^ ?t" by (simp flip: power_add)
    then have "?q = m * 2 ^ (e - ?t)" using half_even_exact by metis
    with True show ?thesis by simp
  next
    case False
    then have "?q = half_even m (?t - e)" by (simp add: half_even_shift)
    with False show ?thesis by (simp add: half_even_def Let_def)
  qed
  have ge: "1074 \<le> ?t" by (simp add: last_place_def)
  have "dbl_inf neg = word_of_nat (?s + 2047 * 2 ^ 52)" by (simp only: dbl_inf_def)
  then have "dbl_round neg m e =
     (let q' = (if ?q = 2 ^ 53 then 2 ^ 52 else ?q); t' = (if ?q = 2 ^ 53 then ?t + 1 else ?t)
      in if q' < 2 ^ 52 then word_of_nat (?s + q')
         else if 1074 + 2045 < t' then word_of_nat (?s + 2047 * 2 ^ 52)
         else word_of_nat (?s + (t' - 1073) * 2 ^ 52 + (q' - 2 ^ 52)))"
    unfolding dbl_round_def Let_def t q[unfolded Let_def] by (simp only:)
  also have "\<dots> = word_of_nat (?s + dbl_bits ?v)"
    unfolding dbl_bits_def by (rule assemble_bits[OF ge below_last_place[OF v]])
  finally show ?thesis .
qed

subsection \<open>Decoding\<close>

definition dbl_finite :: "double \<Rightarrow> bool" where
  "dbl_finite d \<longleftrightarrow> dbl_exp d \<noteq> 2047"

definition dbl_nval :: "double \<Rightarrow> nat" where
  "dbl_nval d = dbl_mant d * 2 ^ dbl_scale d"

text \<open>The value of a finite double, in units of \<open>2 ^ -1074\<close>.\<close>

definition dbl_val :: "double \<Rightarrow> int" where
  "dbl_val d = dbl_signed d (dbl_nval d)"

lemma dbl_parts: "dbl_mag d = dbl_exp d * 2 ^ 52 + dbl_frac d" "dbl_frac d < 2 ^ 52" "dbl_exp d \<le> 2047"
proof -
  let ?u = "unat d"
  have "?u mod 2 ^ 63 = ?u mod (2 ^ 52 * 2 ^ 11)" by simp
  also have "\<dots> = 2 ^ 52 * (?u div 2 ^ 52 mod 2 ^ 11) + ?u mod 2 ^ 52" by (rule mod_mult2_eq)
  finally show "dbl_mag d = dbl_exp d * 2 ^ 52 + dbl_frac d"
    by (simp add: dbl_mag_def dbl_exp_def dbl_frac_def)
  show "dbl_frac d < 2 ^ 52" by (simp add: dbl_frac_def)
  have "dbl_exp d < 2 ^ 11" unfolding dbl_exp_def by (rule mod_less_divisor) simp
  then show "dbl_exp d \<le> 2047" by simp
qed

lemma dbl_mag_parts:
  assumes "dbl_mag d = e * 2 ^ 52 + f" "f < 2 ^ 52"
  shows "dbl_exp d = e" and "dbl_frac d = f"
proof -
  have *: "dbl_exp d * 2 ^ 52 + dbl_frac d = e * 2 ^ 52 + f" using dbl_parts(1)[of d] assms(1) by simp
  from arg_cong[OF *, of "\<lambda>n. n div 2 ^ 52"] show "dbl_exp d = e" using dbl_parts(2)[of d] assms(2) by simp
  with * show "dbl_frac d = f" by simp
qed

lemma dbl_finite_mag: "dbl_finite d \<longleftrightarrow> dbl_mag d < 2047 * 2 ^ 52"
proof -
  have "dbl_exp d * 2 ^ 52 + dbl_frac d < 2047 * 2 ^ 52 \<longleftrightarrow> dbl_exp d < 2047"
  proof
    assume "dbl_exp d < 2047"
    then have "(dbl_exp d + 1) * 2 ^ 52 \<le> 2047 * 2 ^ 52" by (intro mult_le_mono1) simp
    with dbl_parts(2)[of d] show "dbl_exp d * 2 ^ 52 + dbl_frac d < 2047 * 2 ^ 52" by simp
  next
    assume "dbl_exp d * 2 ^ 52 + dbl_frac d < 2047 * 2 ^ 52"
    then have "dbl_exp d * 2 ^ 52 < 2047 * 2 ^ 52" by linarith
    then show "dbl_exp d < 2047" by simp
  qed
  then show ?thesis using dbl_parts(3)[of d] by (auto simp: dbl_finite_def dbl_parts(1))
qed

lemma dbl_nan_mag: "dbl_is_nan d \<longleftrightarrow> 2047 * 2 ^ 52 < dbl_mag d"
proof -
  have "dbl_exp d = 2047" if "2047 * 2 ^ 52 < dbl_mag d"
    using that dbl_finite_mag[of d] by (auto simp: dbl_finite_def)
  then show ?thesis by (auto simp: dbl_is_nan_def dbl_parts(1))
qed

lemma dbl_nan_not_finite: "dbl_finite d \<Longrightarrow> \<not> dbl_is_nan d"
  by (simp add: dbl_finite_def dbl_is_nan_def)

lemma dbl_unat: "unat d = (if dbl_neg d then 2 ^ 63 else 0) + dbl_mag d"
proof -
  have "unat d < 2 ^ 64" using unsigned_less[of d] by simp
  then have "unat d div 2 ^ 63 = (if dbl_neg d then 1 else 0)"
    by (simp add: dbl_neg_def div_nat_eqI)
  then show ?thesis
    using div_mult_mod_eq[of "unat d" "2 ^ 63"] by (auto simp: dbl_mag_def split: if_splits)
qed

lemma dbl_word:
  assumes "k < 2 ^ 63"
  shows "dbl_neg (word_of_nat ((if neg then 2 ^ 63 else 0) + k)) = neg"
    and "dbl_mag (word_of_nat ((if neg then 2 ^ 63 else 0) + k)) = k"
proof -
  have "(if neg then 2 ^ 63 else 0) + k < (2::nat) ^ 64" using assms by simp
  then have u: "unat (word_of_nat ((if neg then 2 ^ 63 else 0) + k) :: double) = (if neg then 2 ^ 63 else 0) + k"
    by (subst unat_of_nat) (simp del: of_nat_add)
  show "dbl_neg (word_of_nat ((if neg then 2 ^ 63 else 0) + k)) = neg"
    unfolding dbl_neg_def u using assms by simp
  show "dbl_mag (word_of_nat ((if neg then 2 ^ 63 else 0) + k)) = k"
    unfolding dbl_mag_def u using assms by simp
qed

lemma dbl_eqI: "dbl_neg a = dbl_neg b \<Longrightarrow> dbl_mag a = dbl_mag b \<Longrightarrow> a = b"
  by (rule word_unat_eq_iff[THEN iffD2]) (simp add: dbl_unat)

lemma dbl_bits_small: "dbl_bits v < 2 ^ 63"
  using dbl_bits_le[of v] by simp

lemma dbl_round_parts:
  "dbl_neg (dbl_round neg m e) = neg" "dbl_mag (dbl_round neg m e) = dbl_bits (m * 2 ^ e)"
  using dbl_word[OF dbl_bits_small, of neg "m * 2 ^ e"] by (simp_all add: dbl_round_bits)

text \<open>A double is the rounding of its own value.\<close>

lemma dbl_bits_exact:
  assumes "dbl_finite d"
  shows "dbl_bits (dbl_nval d * 2 ^ 1074) = dbl_mag d"
proof (cases "dbl_exp d = 0")
  case True
  let ?f = "dbl_frac d"
  have "floorlog 2 ?f \<le> 52" using dbl_parts(2)[of d] by (intro floorlog_leI) auto
  then have "floorlog 2 (?f * 2 ^ 1074) \<le> 1126"
    by (cases "?f = 0") (simp add: floorlog_def, simp only: floorlog_shift)
  then have lp: "last_place (?f * 2 ^ 1074) = 1074" by (simp only: last_place_def)
  have "dbl_bits (?f * 2 ^ 1074) = min (2047 * 2 ^ 52) ?f"
    by (simp add: dbl_bits_def lp half_even_exact del: power_numeral)
  with True dbl_parts[of d] show ?thesis
    by (simp add: dbl_nval_def dbl_mant_def dbl_scale_def)
next
  case False
  let ?m = "2 ^ 52 + dbl_frac d" and ?s = "dbl_exp d - 1"
  have fl: "floorlog 2 ?m = 53"
  proof (rule antisym)
    show "floorlog 2 ?m \<le> 53" using dbl_parts(2)[of d] by (intro floorlog_leI) auto
    show "53 \<le> floorlog 2 ?m" by (intro floorlog_geI) auto
  qed
  have v: "dbl_nval d * 2 ^ 1074 = ?m * 2 ^ (?s + 1074)"
    using False by (simp only: dbl_nval_def dbl_mant_def dbl_scale_def power_add mult.assoc if_False)
  have lp: "last_place (?m * 2 ^ (?s + 1074)) = ?s + 1074"
    by (simp add: last_place_def floorlog_shift fl del: power_numeral)
  have "dbl_bits (dbl_nval d * 2 ^ 1074) = min (2047 * 2 ^ 52) (?s * 2 ^ 52 + ?m)"
    unfolding v dbl_bits_def lp half_even_exact by (simp del: power_numeral)
  also have "?s * 2 ^ 52 + ?m = dbl_mag d"
  proof -
    have "dbl_exp d * 2 ^ 52 = ?s * 2 ^ 52 + 2 ^ 52" using False by (cases "dbl_exp d") simp_all
    then show ?thesis by (simp add: dbl_parts(1))
  qed
  finally show ?thesis using assms by (simp add: dbl_finite_mag)
qed

subsection \<open>The order of values\<close>

lemma dbl_mag_le_iff:
  assumes "dbl_finite a" "dbl_finite b"
  shows "dbl_mag a \<le> dbl_mag b \<longleftrightarrow> dbl_nval a \<le> dbl_nval b"
proof
  assume "dbl_nval a \<le> dbl_nval b"
  then have "dbl_bits (dbl_nval a * 2 ^ 1074) \<le> dbl_bits (dbl_nval b * 2 ^ 1074)"
    by (intro dbl_bits_mono mult_le_mono1)
  then show "dbl_mag a \<le> dbl_mag b" by (simp only: dbl_bits_exact assms)
next
  assume le: "dbl_mag a \<le> dbl_mag b"
  show "dbl_nval a \<le> dbl_nval b"
  proof (rule ccontr)
    assume "\<not> dbl_nval a \<le> dbl_nval b"
    then have "dbl_bits (dbl_nval b * 2 ^ 1074) \<le> dbl_bits (dbl_nval a * 2 ^ 1074)"
      by (intro dbl_bits_mono mult_le_mono1) simp
    then have "dbl_mag a = dbl_mag b" using le by (simp only: dbl_bits_exact assms)
    then have "dbl_exp a = dbl_exp b" "dbl_frac a = dbl_frac b"
      using dbl_mag_parts[of a "dbl_exp b" "dbl_frac b"] dbl_parts[of b] by simp_all
    then have "dbl_nval a = dbl_nval b" by (simp add: dbl_nval_def dbl_mant_def dbl_scale_def)
    with \<open>\<not> dbl_nval a \<le> dbl_nval b\<close> show False by simp
  qed
qed

lemma dbl_zero_mag: "dbl_is_zero d \<longleftrightarrow> dbl_mag d = 0"
proof
  assume "dbl_is_zero d"
  then show "dbl_mag d = 0" by (auto simp: dbl_is_zero_def dbl_mag_def)
next
  assume "dbl_mag d = 0"
  then have "unat d = 0 \<or> unat d = unat (0x8000000000000000 :: double)"
    by (simp add: dbl_unat[of d])
  then show "dbl_is_zero d"
    unfolding dbl_is_zero_def by (metis unsigned_0 word_unat_eq_iff)
qed

lemma dbl_zero_parts [simp]:
  "dbl_mag (dbl_zero neg) = 0" "dbl_neg (dbl_zero neg) = neg"
  by (simp_all add: dbl_zero_def dbl_mag_def dbl_neg_def)

lemma dbl_nval_0_iff: "dbl_nval d = 0 \<longleftrightarrow> dbl_mag d = 0"
  by (auto simp: dbl_nval_def dbl_mant_def dbl_parts(1))

lemma dbl_flip_parts [simp]: "dbl_neg (dbl_flip d) \<longleftrightarrow> \<not> dbl_neg d" "dbl_mag (dbl_flip d) = dbl_mag d"
proof -
  have d: "d = word_of_nat ((if dbl_neg d then 2 ^ 63 else 0) + dbl_mag d)"
    by (simp flip: dbl_unat)
  have k: "dbl_mag d < 2 ^ 63" by (simp add: dbl_mag_def)
  have "dbl_flip d = word_of_nat ((if \<not> dbl_neg d then 2 ^ 63 else 0) + dbl_mag d)"
    by (subst d) (simp add: dbl_flip_def)
  then show "dbl_neg (dbl_flip d) \<longleftrightarrow> \<not> dbl_neg d" "dbl_mag (dbl_flip d) = dbl_mag d"
    using dbl_word[OF k, of "\<not> dbl_neg d"] by metis+
qed

lemma dbl_abs_parts [simp]: "\<not> dbl_neg (dbl_abs d)" "dbl_mag (dbl_abs d) = dbl_mag d"
  by (simp_all add: dbl_abs_def)

lemma dbl_mag_same:
  assumes "dbl_mag a = dbl_mag b"
  shows "dbl_exp a = dbl_exp b" "dbl_frac a = dbl_frac b" "dbl_mant a = dbl_mant b" "dbl_scale a = dbl_scale b"
    "dbl_nval a = dbl_nval b" "dbl_finite a = dbl_finite b" "dbl_is_nan a = dbl_is_nan b"
    "dbl_is_zero a = dbl_is_zero b"
proof -
  show e: "dbl_exp a = dbl_exp b" and f: "dbl_frac a = dbl_frac b"
    using dbl_mag_parts[of a "dbl_exp b" "dbl_frac b"] dbl_parts[of b] assms by simp_all
  show "dbl_mant a = dbl_mant b" "dbl_scale a = dbl_scale b" "dbl_nval a = dbl_nval b"
    "dbl_finite a = dbl_finite b" "dbl_is_nan a = dbl_is_nan b" "dbl_is_zero a = dbl_is_zero b"
    using e f assms
    by (simp_all add: dbl_mant_def dbl_scale_def dbl_nval_def dbl_finite_def dbl_is_nan_def dbl_zero_mag)
qed

lemma dbl_val_flip [simp]: "dbl_val (dbl_flip d) = - dbl_val d"
  using dbl_mag_same(5)[of "dbl_flip d" d] by (simp add: dbl_val_def dbl_signed_def)

lemma dbl_val_abs [simp]: "dbl_val (dbl_abs d) = \<bar>dbl_val d\<bar>"
  using dbl_mag_same(5)[of "dbl_abs d" d] by (simp add: dbl_val_def dbl_signed_def)

lemma dbl_abs_same [simp]: "dbl_finite (dbl_abs d) = dbl_finite d" "dbl_is_nan (dbl_abs d) = dbl_is_nan d"
  using dbl_mag_same(6,7)[of "dbl_abs d" d] by simp_all

lemma dbl_flip_same [simp]: "dbl_finite (dbl_flip d) = dbl_finite d" "dbl_is_nan (dbl_flip d) = dbl_is_nan d"
  using dbl_mag_same(6,7)[of "dbl_flip d" d] by simp_all

lemma dbl_abs_val: "\<bar>dbl_val d\<bar> = int (dbl_nval d)"
  by (simp add: dbl_val_def dbl_signed_def)

lemma dbl_key_le_val:
  assumes "dbl_finite a" "dbl_finite b"
  shows "dbl_key a \<le> dbl_key b \<longleftrightarrow> dbl_val a \<le> dbl_val b"
  using dbl_mag_le_iff[OF assms] dbl_mag_le_iff[OF assms(2,1)] dbl_nval_0_iff[of a] dbl_nval_0_iff[of b]
  by (auto simp: dbl_key_def dbl_val_def dbl_signed_def)

text \<open>On finite doubles the order is that of the values.\<close>

lemma dbl_le_val: "dbl_finite a \<Longrightarrow> dbl_finite b \<Longrightarrow> dbl_le a b \<longleftrightarrow> dbl_val a \<le> dbl_val b"
  by (simp add: dbl_le_def dbl_nan_not_finite dbl_key_le_val)

lemma dbl_less_val: "dbl_finite a \<Longrightarrow> dbl_finite b \<Longrightarrow> dbl_less a b \<longleftrightarrow> dbl_val a < dbl_val b"
  using dbl_key_le_val[of b a] by (auto simp: dbl_less_def dbl_nan_not_finite)

subsection \<open>What the operations compute\<close>

text \<open>Each operation on finite doubles rounds the exact result; \<open>dbl_bits\<close> is monotone, so the roundings
  are ordered as the results.\<close>

lemma dbl_add_exact:
  assumes "dbl_finite a" "dbl_finite b"
  shows "dbl_mag (dbl_add a b) = dbl_bits (nat \<bar>dbl_val a + dbl_val b\<bar> * 2 ^ 1074)"
    and "dbl_neg (dbl_add a b) \<longleftrightarrow>
      (if dbl_val a + dbl_val b = 0 then dbl_neg a \<and> dbl_neg b else dbl_val a + dbl_val b < 0)"
proof -
  let ?s = "min (dbl_scale a) (dbl_scale b)"
  let ?m = "dbl_signed a (dbl_mant a * 2 ^ (dbl_scale a - ?s)) + dbl_signed b (dbl_mant b * 2 ^ (dbl_scale b - ?s))"
  have part: "dbl_signed d (dbl_mant d * 2 ^ (dbl_scale d - ?s)) * 2 ^ ?s = dbl_val d"
    if "?s \<le> dbl_scale d" for d
  proof -
    have "(2::int) ^ (dbl_scale d - ?s) * 2 ^ ?s = 2 ^ dbl_scale d" using that by (simp flip: power_add)
    then show ?thesis by (simp add: dbl_val_def dbl_nval_def dbl_signed_def mult.assoc)
  qed
  have sum: "?m * 2 ^ ?s = dbl_val a + dbl_val b"
    using part[of a] part[of b] by (simp add: distrib_right)
  then have sgn: "?m = 0 \<longleftrightarrow> dbl_val a + dbl_val b = 0" "?m < 0 \<longleftrightarrow> dbl_val a + dbl_val b < 0"
    by (metis mult_eq_0_iff power_eq_0_iff zero_neq_numeral)
      (metis sum mult_less_0_iff zero_less_numeral zero_less_power not_less_iff_gr_or_eq)
  have abs: "nat \<bar>?m\<bar> * 2 ^ (?s + 1074) = nat \<bar>dbl_val a + dbl_val b\<bar> * 2 ^ 1074"
  proof -
    have "\<bar>?m\<bar> * 2 ^ ?s = \<bar>dbl_val a + dbl_val b\<bar>" using sum by (metis abs_mult abs_power2 abs_numeral power_abs)
    then have "nat \<bar>?m\<bar> * 2 ^ ?s = nat \<bar>dbl_val a + dbl_val b\<bar>"
      by (metis nat_mult_distrib abs_ge_zero nat_power_eq nat_numeral zero_le_numeral)
    then show ?thesis by (simp only: power_add mult.assoc[symmetric])
  qed
  have def: "dbl_add a b = (if ?m = 0 then dbl_zero (dbl_neg a \<and> dbl_neg b)
      else dbl_round (?m < 0) (nat \<bar>?m\<bar>) (?s + 1074))"
    using assms by (simp only: dbl_add_def dbl_nan_not_finite dbl_finite_def Let_def if_False simp_thms)
  show "dbl_mag (dbl_add a b) = dbl_bits (nat \<bar>dbl_val a + dbl_val b\<bar> * 2 ^ 1074)"
    unfolding def using sgn(1) by (simp add: dbl_round_parts abs del: power_numeral)
  show "dbl_neg (dbl_add a b) \<longleftrightarrow>
      (if dbl_val a + dbl_val b = 0 then dbl_neg a \<and> dbl_neg b else dbl_val a + dbl_val b < 0)"
    unfolding def using sgn by (simp add: dbl_round_parts)
qed

lemma dbl_sub_add: "dbl_finite a \<Longrightarrow> dbl_finite b \<Longrightarrow> dbl_sub a b = dbl_add a (dbl_flip b)"
  by (simp add: dbl_sub_def dbl_nan_not_finite)

lemma dbl_mul_exact:
  assumes "dbl_finite a" "dbl_finite b"
  shows "dbl_mag (dbl_mul a b) = dbl_bits (dbl_nval a * dbl_nval b)"
    and "dbl_neg (dbl_mul a b) \<longleftrightarrow> dbl_neg a \<noteq> dbl_neg b"
proof -
  have def: "dbl_mul a b =
      dbl_round (dbl_neg a \<noteq> dbl_neg b) (dbl_mant a * dbl_mant b) (dbl_scale a + dbl_scale b)"
    using assms by (simp add: dbl_mul_def dbl_nan_not_finite dbl_finite_def Let_def)
  show "dbl_mag (dbl_mul a b) = dbl_bits (dbl_nval a * dbl_nval b)"
    unfolding def dbl_round_parts by (simp add: dbl_nval_def power_add mult_ac)
  show "dbl_neg (dbl_mul a b) \<longleftrightarrow> dbl_neg a \<noteq> dbl_neg b"
    unfolding def dbl_round_parts by (rule refl)
qed

text \<open>A bound of the quotient by a power of two.\<close>

lemma dbl_div_bounded:
  assumes fin: "dbl_finite a" "dbl_finite b" and le: "dbl_nval a \<le> dbl_nval b * 2 ^ j" and pos: "0 < dbl_nval b"
  shows "dbl_mag (dbl_div a b) \<le> dbl_bits (2 ^ (2148 + j))"
proof (cases "dbl_is_zero a")
  case True
  have "\<not> dbl_is_zero b" using pos dbl_nval_0_iff[of b] by (simp add: dbl_zero_mag)
  then show ?thesis using True fin by (simp add: dbl_div_def dbl_nan_not_finite dbl_finite_def Let_def)
next
  case False
  have nz: "\<not> dbl_is_zero b" using pos dbl_nval_0_iff[of b] by (simp add: dbl_zero_mag)
  let ?ma = "dbl_mant a" and ?mb = "dbl_mant b" and ?sa = "dbl_scale a" and ?sb = "dbl_scale b"
  let ?q = "?ma * 2 ^ 110 div ?mb"
  let ?m = "if ?ma * 2 ^ 110 mod ?mb = 0 then 2 * ?q else 2 * ?q + 1"
  have def: "dbl_div a b =
     (if ?sb + 111 \<le> ?sa + 2148
      then dbl_round (dbl_neg a \<noteq> dbl_neg b) ?m (?sa + 2148 - (?sb + 111)) else dbl_zero (dbl_neg a \<noteq> dbl_neg b))"
    using fin False nz by (simp only: dbl_div_def dbl_nan_not_finite dbl_finite_def Let_def if_False simp_thms)
  have mb: "0 < ?mb" using pos by (auto simp: dbl_nval_def)
  have ma: "0 < ?ma" using False dbl_nval_0_iff[of a] by (auto simp: dbl_zero_mag dbl_nval_def)
  show ?thesis
  proof (cases "?sb + 111 \<le> ?sa + 2148")
    case big: True
    let ?e = "?sa + 2148 - (?sb + 111)"
    have lem: "?ma * 2 ^ ?sa \<le> ?mb * 2 ^ (?sb + j)" using le by (simp add: dbl_nval_def power_add mult.assoc)
    have mbl: "?mb < 2 ^ 53" using dbl_parts(2)[of b] by (simp add: dbl_mant_def)
    have "(2::nat) ^ ?sa \<le> ?ma * 2 ^ ?sa" using ma by simp
    also note lem
    also have "?mb * 2 ^ (?sb + j) < 2 ^ 53 * 2 ^ (?sb + j)" using mbl by simp
    finally have "(2::nat) ^ ?sa < 2 ^ (53 + (?sb + j))" by (simp only: power_add)
    then have sa: "?sa < 53 + (?sb + j)" by (simp only: power_strict_increasing_iff one_less_numeral_iff semiring_norm)
    define K where "K = ?sb + j + 110 - ?sa"
    have K: "?sb + j + 110 = ?sa + K" "?e + K + 1 = 2148 + j"
      using sa big by (simp_all add: K_def)
    have "?ma * 2 ^ 110 * 2 ^ ?sa \<le> ?mb * 2 ^ K * 2 ^ ?sa"
    proof -
      have "?ma * 2 ^ 110 * 2 ^ ?sa = ?ma * 2 ^ ?sa * 2 ^ 110" by (simp only: mult_ac)
      also have "\<dots> \<le> ?mb * 2 ^ (?sb + j) * 2 ^ 110" using lem by (rule mult_le_mono1)
      also have "\<dots> = ?mb * 2 ^ (?sa + K)" unfolding K(1)[symmetric] by (simp only: power_add mult_ac)
      also have "\<dots> = ?mb * 2 ^ K * 2 ^ ?sa" by (simp only: power_add mult_ac)
      finally show ?thesis .
    qed
    then have num: "?ma * 2 ^ 110 \<le> ?mb * 2 ^ K" by simp
    then have q: "?q \<le> 2 ^ K" using mb by (metis div_le_mono nonzero_mult_div_cancel_left less_numeral_extra(3))
    have "?m \<le> 2 ^ (K + 1)"
    proof (cases "?q = 2 ^ K")
      case True
      have "?ma * 2 ^ 110 mod ?mb = ?ma * 2 ^ 110 - ?mb * ?q" by (rule minus_mult_div_eq_mod[symmetric])
      also have "\<dots> = 0" using num True by simp
      finally show ?thesis using True by simp
    next
      case False
      with q have "?q < 2 ^ K" by simp
      then show ?thesis by simp
    qed
    then have "?m * 2 ^ ?e \<le> 2 ^ (K + 1) * 2 ^ ?e" by (rule mult_le_mono1)
    also have "\<dots> = 2 ^ (2148 + j)"
    proof -
      have "K + 1 + ?e = 2148 + j" using K(2) by linarith
      then show ?thesis by (metis power_add)
    qed
    finally have "dbl_bits (?m * 2 ^ ?e) \<le> dbl_bits (2 ^ (2148 + j))" by (rule dbl_bits_mono)
    then show ?thesis unfolding def using big by (simp only: dbl_round_parts if_True)
  qed (simp add: def)
qed

subsection \<open>Integers\<close>

lemma dbl_of_int_parts:
  assumes "\<bar>i\<bar> < 2 ^ 53"
  shows "dbl_neg (dbl_of_int i) \<longleftrightarrow> i < 0" and "dbl_nval (dbl_of_int i) = nat \<bar>i\<bar> * 2 ^ 1074"
    and "dbl_finite (dbl_of_int i)"
proof -
  have "(dbl_neg (dbl_of_int i) \<longleftrightarrow> i < 0) \<and> dbl_nval (dbl_of_int i) = nat \<bar>i\<bar> * 2 ^ 1074 \<and> dbl_finite (dbl_of_int i)"
  proof (cases "i = 0")
    case True
    then show ?thesis
      by (simp add: dbl_of_int_def dbl_neg_def dbl_nval_def dbl_mant_def dbl_exp_def dbl_frac_def dbl_finite_def)
  next
    case False
    define n where "n = nat \<bar>i\<bar>"
    define e where "e = floorlog 2 n - 1"
    have n: "0 < n" "n < 2 ^ 53" using False assms by (auto simp: n_def)
    note parts = dbl_of_pos_parts[OF n, folded e_def]
    let ?f = "n * 2 ^ (52 - e) - 2 ^ 52"
    have mag: "dbl_of_pos n = (e + 1023) * 2 ^ 52 + ?f"
      using div_mult_mod_eq[of "dbl_of_pos n" "2 ^ 52", symmetric] by (simp only: parts(1,2))
    have f: "?f < 2 ^ 52" unfolding parts(2)[symmetric] by simp
    have "(e + 1023) * 2 ^ 52 \<le> (1075::nat) * 2 ^ 52" using parts(3) by simp
    with f mag have small: "dbl_of_pos n < 2 ^ 63" by simp
    have d: "dbl_of_int i = word_of_nat ((if i < 0 then 2 ^ 63 else 0) + dbl_of_pos n)"
      using False by (simp only: dbl_of_int_def n_def if_False)
    have neg: "dbl_neg (dbl_of_int i) \<longleftrightarrow> i < 0" and m: "dbl_mag (dbl_of_int i) = (e + 1023) * 2 ^ 52 + ?f"
      unfolding d dbl_word[OF small] by (simp_all only: mag)
    note ef = dbl_mag_parts[OF m f]
    have "dbl_nval (dbl_of_int i) = n * 2 ^ (52 - e) * 2 ^ (e + 1022)"
      using parts(4) by (simp add: dbl_nval_def dbl_mant_def dbl_scale_def ef)
    also have "\<dots> = n * 2 ^ 1074"
    proof -
      have "52 - e + (e + 1022) = 1074" using parts(3) by simp
      then have "(2::nat) ^ (52 - e) * 2 ^ (e + 1022) = 2 ^ 1074" by (metis power_add)
      then show ?thesis by (simp only: mult.assoc)
    qed
    finally show ?thesis using neg parts(3) by (simp add: n_def dbl_finite_def ef)
  qed
  then show "dbl_neg (dbl_of_int i) \<longleftrightarrow> i < 0" and "dbl_nval (dbl_of_int i) = nat \<bar>i\<bar> * 2 ^ 1074"
    and "dbl_finite (dbl_of_int i)" by simp_all
qed

lemma dbl_of_int_val: "\<bar>i\<bar> < 2 ^ 53 \<Longrightarrow> dbl_val (dbl_of_int i) = i * 2 ^ 1074"
  by (simp add: dbl_val_def dbl_signed_def dbl_of_int_parts del: power_numeral)

lemma dbl_of_int_mag: "\<bar>i\<bar> < 2 ^ 53 \<Longrightarrow> dbl_mag (dbl_of_int i) = dbl_bits (nat \<bar>i\<bar> * 2 ^ 1074 * 2 ^ 1074)"
  using dbl_bits_exact[of "dbl_of_int i"] by (simp only: dbl_of_int_parts)

lemma dbl_of_int_order:
  "\<bar>i\<bar> < 2 ^ 53 \<Longrightarrow> \<bar>j\<bar> < 2 ^ 53 \<Longrightarrow> dbl_le (dbl_of_int i) (dbl_of_int j) \<longleftrightarrow> i \<le> j"
  by (simp add: dbl_le_val dbl_of_int_parts(3) dbl_of_int_val del: power_numeral)

text \<open>Sums and products of integers are exact as long as they fit into 53 bits.\<close>

lemma dbl_add_of_int:
  assumes "\<bar>i\<bar> < 2 ^ 53" "\<bar>j\<bar> < 2 ^ 53" "\<bar>i + j\<bar> < 2 ^ 53"
  shows "dbl_add (dbl_of_int i) (dbl_of_int j) = dbl_of_int (i + j)"
proof (rule dbl_eqI)
  have v: "dbl_val (dbl_of_int i) + dbl_val (dbl_of_int j) = (i + j) * 2 ^ 1074"
    using assms by (simp add: dbl_of_int_val distrib_right del: power_numeral)
  note ex = dbl_add_exact[OF dbl_of_int_parts(3)[OF assms(1)] dbl_of_int_parts(3)[OF assms(2)], unfolded v]
  show "dbl_neg (dbl_add (dbl_of_int i) (dbl_of_int j)) = dbl_neg (dbl_of_int (i + j))"
    unfolding ex(2) dbl_of_int_parts(1)[OF assms(1)] dbl_of_int_parts(1)[OF assms(2)] dbl_of_int_parts(1)[OF assms(3)]
    by (auto simp: mult_less_0_iff)
  have "nat \<bar>(i + j) * 2 ^ 1074\<bar> = nat \<bar>i + j\<bar> * 2 ^ 1074"
    by (simp only: abs_mult abs_power2 power_abs abs_numeral nat_mult_distrib abs_ge_zero nat_power_eq nat_numeral zero_le_numeral)
  then show "dbl_mag (dbl_add (dbl_of_int i) (dbl_of_int j)) = dbl_mag (dbl_of_int (i + j))"
    using ex(1) assms by (simp only: dbl_of_int_mag)
qed

lemma dbl_sub_of_int:
  assumes "\<bar>i\<bar> < 2 ^ 53" "\<bar>j\<bar> < 2 ^ 53" "\<bar>i - j\<bar> < 2 ^ 53"
  shows "dbl_sub (dbl_of_int i) (dbl_of_int j) = dbl_of_int (i - j)"
proof -
  note fin = dbl_of_int_parts(3)[OF assms(1)] dbl_of_int_parts(3)[OF assms(2)]
  have v: "dbl_val (dbl_of_int i) + dbl_val (dbl_flip (dbl_of_int j)) = (i - j) * 2 ^ 1074"
    using assms by (simp add: dbl_of_int_val left_diff_distrib del: power_numeral)
  have "dbl_finite (dbl_flip (dbl_of_int j))" using fin(2) by simp
  note ex = dbl_add_exact[OF fin(1) this, unfolded v]
  have "nat \<bar>(i - j) * 2 ^ 1074\<bar> = nat \<bar>i - j\<bar> * 2 ^ 1074"
    by (simp only: abs_mult power_abs abs_numeral nat_mult_distrib abs_ge_zero nat_power_eq nat_numeral zero_le_numeral)
  then have "dbl_mag (dbl_add (dbl_of_int i) (dbl_flip (dbl_of_int j))) = dbl_mag (dbl_of_int (i - j))"
    using ex(1) assms by (simp only: dbl_of_int_mag)
  moreover have "dbl_neg (dbl_add (dbl_of_int i) (dbl_flip (dbl_of_int j))) = dbl_neg (dbl_of_int (i - j))"
    unfolding ex(2) dbl_of_int_parts(1)[OF assms(1)] dbl_of_int_parts(1)[OF assms(3)] dbl_flip_parts(1)
      dbl_of_int_parts(1)[OF assms(2)]
    by (auto simp: mult_less_0_iff)
  ultimately show ?thesis unfolding dbl_sub_add[OF fin] by (intro dbl_eqI)
qed

lemma dbl_mul_of_int:
  assumes "\<bar>i\<bar> < 2 ^ 53" "\<bar>j\<bar> < 2 ^ 53" "\<bar>i * j\<bar> < 2 ^ 53" "i * j \<noteq> 0 \<or> 0 \<le> i \<and> 0 \<le> j"
  shows "dbl_mul (dbl_of_int i) (dbl_of_int j) = dbl_of_int (i * j)"
proof (rule dbl_eqI)
  note ex = dbl_mul_exact[OF dbl_of_int_parts(3)[OF assms(1)] dbl_of_int_parts(3)[OF assms(2)]]
  show "dbl_neg (dbl_mul (dbl_of_int i) (dbl_of_int j)) = dbl_neg (dbl_of_int (i * j))"
    unfolding ex(2) dbl_of_int_parts(1)[OF assms(1)] dbl_of_int_parts(1)[OF assms(2)] dbl_of_int_parts(1)[OF assms(3)]
    using assms(4) by (auto simp: mult_less_0_iff)
  have "nat \<bar>i\<bar> * 2 ^ 1074 * (nat \<bar>j\<bar> * 2 ^ 1074) = nat \<bar>i * j\<bar> * 2 ^ 1074 * 2 ^ 1074"
    by (simp only: abs_mult nat_mult_distrib abs_ge_zero mult_ac)
  then show "dbl_mag (dbl_mul (dbl_of_int i) (dbl_of_int j)) = dbl_mag (dbl_of_int (i * j))"
    using ex(1) assms by (simp only: dbl_of_int_mag dbl_of_int_parts(2))
qed

text \<open>Truncation divides the value by the unit.\<close>

lemma dbl_trunc_val:
  assumes "dbl_finite d"
  shows "dbl_trunc d = Some (dbl_signed d (dbl_nval d div 2 ^ 1074))"
proof -
  have "dbl_mag_trunc (dbl_exp d) (dbl_frac d) = dbl_nval d div 2 ^ 1074"
  proof (cases "dbl_exp d = 0")
    case True
    have "(2::nat) ^ 52 \<le> 2 ^ 1074" by (rule power_increasing) simp_all
    then have "dbl_frac d < 2 ^ 1074" using dbl_parts(2)[of d] by linarith
    then show ?thesis
      using True by (simp add: dbl_mag_trunc_def dbl_nval_def dbl_mant_def dbl_scale_def del: power_numeral)
  next
    case False
    let ?m = "2 ^ 52 + dbl_frac d" and ?s = "dbl_exp d - 1"
    have nv: "dbl_nval d = ?m * 2 ^ ?s" using False by (simp only: dbl_nval_def dbl_mant_def dbl_scale_def if_False)
    show ?thesis
    proof (cases "1075 \<le> dbl_exp d")
      case True
      then have "?s = dbl_exp d - 1075 + 1074" by simp
      then have "dbl_nval d = ?m * 2 ^ (dbl_exp d - 1075) * 2 ^ 1074"
        unfolding nv by (simp only: power_add mult.assoc)
      then have "dbl_nval d div 2 ^ 1074 = ?m * 2 ^ (dbl_exp d - 1075)" by simp
      then show ?thesis using True False by (simp only: dbl_mag_trunc_def if_True if_False)
    next
      case small: False
      then have "1074 = 1075 - dbl_exp d + ?s" using False by simp
      then have p: "(2::nat) ^ 1074 = 2 ^ (1075 - dbl_exp d) * 2 ^ ?s" by (metis power_add)
      have "dbl_nval d div 2 ^ 1074 = ?m * 2 ^ ?s div (2 ^ (1075 - dbl_exp d) * 2 ^ ?s)"
        by (simp only: nv p)
      also have "\<dots> = ?m div 2 ^ (1075 - dbl_exp d)" by (rule div_mult_mult2) simp
      finally have "dbl_nval d div 2 ^ 1074 = ?m div 2 ^ (1075 - dbl_exp d)" .
      then show ?thesis using small False by (simp only: dbl_mag_trunc_def if_False)
    qed
  qed
  then show ?thesis using assms by (simp add: dbl_trunc_def dbl_finite_def dbl_signed_def Let_def del: power_numeral)
qed

subsection \<open>Bounds\<close>

lemma dbl_pow2:
  assumes "k \<le> 1023"
  obtains p where "dbl_finite p" "dbl_mag p = (k + 1023) * 2 ^ 52" "dbl_nval p = 2 ^ (1074 + k)"
proof
  let ?p = "word_of_nat ((if False then 2 ^ 63 else 0) + (k + 1023) * 2 ^ 52) :: double"
  have "(k + 1023) * 2 ^ 52 \<le> (2046::nat) * 2 ^ 52" using assms by (intro mult_le_mono1) simp
  then show mag: "dbl_mag ?p = (k + 1023) * 2 ^ 52" by (intro dbl_word(2)) simp
  then have m: "dbl_mag ?p = (k + 1023) * 2 ^ 52 + 0" by simp
  have ef: "dbl_exp ?p = k + 1023" "dbl_frac ?p = 0" using dbl_mag_parts[OF m] by simp_all
  show "dbl_finite ?p" using assms unfolding dbl_finite_def ef by simp
  have "dbl_nval ?p = 2 ^ 52 * 2 ^ (k + 1022)"
    by (simp only: dbl_nval_def dbl_mant_def dbl_scale_def ef) simp
  also have "\<dots> = 2 ^ (1074 + k)" by (simp only: power_add[symmetric]) (simp add: add.commute)
  finally show "dbl_nval ?p = 2 ^ (1074 + k)" .
qed

lemma dbl_bits_pow:
  assumes "k \<le> 1023"
  shows "dbl_bits (2 ^ (2148 + k)) = (k + 1023) * 2 ^ 52"
proof -
  from dbl_pow2[OF assms] obtain p where p: "dbl_finite p" "dbl_mag p = (k + 1023) * 2 ^ 52" "dbl_nval p = 2 ^ (1074 + k)" .
  have "1074 + k + 1074 = 2148 + k" by simp
  then have "dbl_nval p * 2 ^ 1074 = 2 ^ (2148 + k)" unfolding p(3) by (metis power_add)
  then show ?thesis using dbl_bits_exact[OF p(1)] p(2) by simp
qed

text \<open>What is rounded from below a representable value is finite and stays below it.\<close>

lemma dbl_below:
  assumes "dbl_mag d \<le> dbl_mag e" "dbl_finite e"
  shows "dbl_finite d" and "dbl_nval d \<le> dbl_nval e"
proof -
  show f: "dbl_finite d" using assms by (simp add: dbl_finite_mag)
  show "dbl_nval d \<le> dbl_nval e" using dbl_mag_le_iff[OF f assms(2)] assms(1) by simp
qed

lemma dbl_below_pow:
  assumes "dbl_mag d \<le> dbl_bits (2 ^ (2148 + k))" "k \<le> 1023"
  shows "dbl_finite d" and "dbl_nval d \<le> 2 ^ (1074 + k)"
proof -
  from dbl_pow2[OF assms(2)] obtain p where p: "dbl_finite p" "dbl_mag p = (k + 1023) * 2 ^ 52" "dbl_nval p = 2 ^ (1074 + k)" .
  have "dbl_mag d \<le> dbl_mag p" using assms by (simp only: dbl_bits_pow p(2))
  from dbl_below[OF this p(1)] show "dbl_finite d" "dbl_nval d \<le> 2 ^ (1074 + k)" by (simp_all only: p(3))
qed

text \<open>Splitting a total: each of \<open>y + z\<close> and \<open>y - z\<close> is at most the rounded sum of the magnitudes.\<close>

lemma dbl_share_le_one:
  assumes fin: "dbl_finite y" "dbl_finite z" and sum: "dbl_finite (dbl_add (dbl_abs y) (dbl_abs z))"
    and nz: "dbl_mag y \<noteq> 0 \<or> dbl_mag z \<noteq> 0" and x: "x = dbl_add y z \<or> x = dbl_sub y z"
  shows "dbl_le (dbl_abs (dbl_div x (dbl_add (dbl_abs y) (dbl_abs z)))) (dbl_of_int 1)"
proof -
  let ?s = "dbl_add (dbl_abs y) (dbl_abs z)"
  let ?total = "\<bar>dbl_val y\<bar> + \<bar>dbl_val z\<bar>"
  have s: "dbl_mag ?s = dbl_bits (nat ?total * 2 ^ 1074)"
    using dbl_add_exact(1)[of "dbl_abs y" "dbl_abs z"] fin by simp
  have below: "dbl_bits (nat v * 2 ^ 1074) \<le> dbl_mag ?s" if "v \<le> ?total" for v
    unfolding s using that by (intro dbl_bits_mono mult_le_mono1 nat_mono)
  have "dbl_mag x \<le> dbl_mag ?s"
  proof -
    have "dbl_mag x = dbl_bits (nat \<bar>dbl_val y + dbl_val z\<bar> * 2 ^ 1074)
        \<or> dbl_mag x = dbl_bits (nat \<bar>dbl_val y - dbl_val z\<bar> * 2 ^ 1074)"
      using x fin dbl_add_exact(1)[of y z] dbl_add_exact(1)[of y "dbl_flip z"] by (auto simp: dbl_sub_add)
    then show ?thesis using below by (metis abs_triangle_ineq abs_triangle_ineq4)
  qed
  then have xs: "dbl_finite x" "dbl_nval x \<le> dbl_nval ?s" using dbl_below[OF _ sum] by simp_all
  have "dbl_mag y \<le> dbl_mag ?s" "dbl_mag z \<le> dbl_mag ?s"
    using below[of "\<bar>dbl_val y\<bar>"] below[of "\<bar>dbl_val z\<bar>"] dbl_bits_exact[OF fin(1)] dbl_bits_exact[OF fin(2)]
    by (simp_all add: dbl_abs_val del: power_numeral)
  then have pos: "0 < dbl_nval ?s" using nz dbl_nval_0_iff[of ?s] by force
  have "dbl_mag (dbl_div x ?s) \<le> dbl_bits (2 ^ (2148 + 0))"
    using xs pos by (intro dbl_div_bounded sum) simp_all
  then have m: "dbl_mag (dbl_div x ?s) \<le> 1023 * 2 ^ 52" using dbl_bits_pow[of 0] by simp
  have one: "dbl_mag (dbl_of_int 1) = 1023 * 2 ^ 52" "\<not> dbl_neg (dbl_of_int 1)" "\<not> dbl_is_nan (dbl_of_int 1)"
    using dbl_of_int_samples(2) by (simp_all add: dbl_mag_def dbl_neg_def dbl_is_nan_def dbl_exp_def dbl_frac_def)
  show ?thesis
    using m one by (simp add: dbl_le_def dbl_nan_mag dbl_key_def dbl_signed_def)
qed

text \<open>A product of bounded factors.\<close>

lemma dbl_mul_below:
  assumes "dbl_finite a" "dbl_finite b" "dbl_nval a \<le> 2 ^ (1074 + j)" "dbl_nval b \<le> 2 ^ (1074 + k)" "j + k \<le> 1023"
  shows "dbl_finite (dbl_mul a b)" and "dbl_nval (dbl_mul a b) \<le> 2 ^ (1074 + (j + k))"
proof -
  have "dbl_nval a * dbl_nval b \<le> 2 ^ (1074 + j) * 2 ^ (1074 + k)" by (intro mult_le_mono assms)
  also have "\<dots> = 2 ^ (2148 + (j + k))"
  proof -
    have "1074 + j + (1074 + k) = 2148 + (j + k)" by simp
    then show ?thesis by (metis power_add)
  qed
  finally have "dbl_mag (dbl_mul a b) \<le> dbl_bits (2 ^ (2148 + (j + k)))"
    unfolding dbl_mul_exact(1)[OF assms(1,2)] by (rule dbl_bits_mono)
  from dbl_below_pow[OF this assms(5)] show "dbl_finite (dbl_mul a b)" "dbl_nval (dbl_mul a b) \<le> 2 ^ (1074 + (j + k))" .
qed

text \<open>The cast of a bounded double is defined.\<close>

lemma dbl_to_sint_below:
  assumes "dbl_finite d" "dbl_nval d \<le> n * 2 ^ 1074" "int n < 2 ^ (w - 1)"
  shows "\<exists>i. dbl_to_sint w d = Some i \<and> \<bar>i\<bar> \<le> int n"
proof -
  have "dbl_nval d div 2 ^ 1074 \<le> n * 2 ^ 1074 div 2 ^ 1074" using assms(2) by (rule div_le_mono)
  then have q: "dbl_nval d div 2 ^ 1074 \<le> n" by simp
  let ?i = "dbl_signed d (dbl_nval d div 2 ^ 1074)"
  have i: "\<bar>?i\<bar> \<le> int n" using q by (auto simp: dbl_signed_def simp del: power_numeral)
  then have "- (2 ^ (w - 1)) \<le> ?i" "?i < 2 ^ (w - 1)" using assms(3) by linarith+
  then have "dbl_to_sint w d = Some ?i"
    using assms(1) by (simp only: dbl_to_sint_def dbl_trunc_val option.case if_True simp_thms)
  with i show ?thesis by blast
qed

lemma dbl_op_samples:
  "dbl_add (dbl_of_int 1) (dbl_of_int 2) = dbl_of_int 3"
  "dbl_add 0x3FB999999999999A 0x3FC999999999999A = 0x3FD3333333333334"
  "dbl_sub (dbl_of_int 1) (dbl_of_int 1) = 0" "dbl_less 0x3F847AE147AE147B (dbl_of_int 1)"
  by (simp_all add: dbl_add_def dbl_sub_def dbl_of_int_def dbl_of_pos_def compute_floorlog dbl_neg_def
      dbl_exp_def dbl_frac_def dbl_is_nan_def dbl_is_zero_def dbl_mant_def dbl_scale_def dbl_round_def Let_def
      dbl_inf_def dbl_signed_def dbl_zero_def dbl_flip_def dbl_less_def dbl_key_def dbl_mag_def)

end
