(* ===== verification/Kinematics.thy ===== *)
theory Kinematics
  imports Spatial Logging DoubleOps
begin

text \<open>
  \<^verbatim>\<open>common/kinematics.cpp\<close> and \<^verbatim>\<open>common/kinematics.hpp\<close>: kinematic models (a tree of links and
  joints), their equality and their conversions, and the deprecated raw kinematics files. An
  orientation in radians is sent in degrees, by a product of two doubles.
\<close>

subsection \<open>Degrees\<close>

text \<open>\<^verbatim>\<open>180.0 / pi\<close> as the compiler folds it.\<close>

definition k_deg_per_rad :: double where
  "k_deg_per_rad = 0x404CA5DC1A63C1F8"

subsection \<open>Data\<close>

record kinematics_options =
  ko_include_collision_meshes :: bool
  ko_include_visual_meshes :: bool

record link_pose =
  lp_translation :: vector3
  lp_orientation :: orientation

definition link_pose_default :: link_pose where
  "link_pose_default =
     \<lparr>lp_translation = Vector3 0 0 0,
      lp_orientation = O_vector_degrees \<lparr>ovd_x = 0, ovd_y = 0, ovd_z = dbl_one, ovd_theta = 0\<rparr>\<rparr>"

record revolute_joint =
  rj_min_deg :: "double option"
  rj_max_deg :: "double option"
  rj_max_velocity :: "double option"
  rj_max_acceleration :: "double option"

record continuous_joint =
  cj_max_velocity :: "double option"
  cj_max_acceleration :: "double option"

record prismatic_joint =
  pj_min_mm :: "double option"
  pj_max_mm :: "double option"
  pj_max_velocity :: "double option"
  pj_max_acceleration :: "double option"
  pj_geometry :: "geometry_config option"

datatype joint_spec =
  J_revolute revolute_joint | J_prismatic prismatic_joint | J_continuous continuous_joint

record mimic_joint =
  mj_joint :: string
  mj_multiplier :: double
  mj_offset :: double

record kinematic_properties =
  kp_operating_freq_hz :: "double option"
  kp_max_linear_tcp_speed :: "double option"

record kinematic_link =
  kl_id :: string
  kl_parent :: string
  kl_pose :: link_pose
  kl_collision :: "geometry_config list"
  kl_visual :: "geometry_config list"

record kinematic_joint =
  kj_id :: string
  kj_parent :: string
  kj_axis :: vector3
  kj_spec :: joint_spec
  kj_mimic :: "mimic_joint option"

record kinematic_model =
  km_name :: string
  km_links :: "kinematic_link list"
  km_joints :: "kinematic_joint list"
  km_output_frames :: "string list"
  km_properties :: "kinematic_properties option"

text \<open>The deprecated raw files; the meshes of a URDF file are an ordered map.\<close>

datatype kinematics_data =
    KD_unspecified "byte list"
  | KD_sva "byte list"
  | KD_urdf "byte list" "(string \<times> mesh) list"

subsection \<open>Equality\<close>

definition vector3_eq :: "vector3 \<Rightarrow> vector3 \<Rightarrow> bool" where
  "vector3_eq a b \<longleftrightarrow> dbl_eq (v3_x a) (v3_x b) \<and> dbl_eq (v3_y a) (v3_y b) \<and> dbl_eq (v3_z a) (v3_z b)"

definition link_pose_eq :: "link_pose \<Rightarrow> link_pose \<Rightarrow> bool" where
  "link_pose_eq l r \<longleftrightarrow>
     vector3_eq (lp_translation l) (lp_translation r) \<and> orientation_eq (lp_orientation l) (lp_orientation r)"

definition revolute_joint_eq :: "revolute_joint \<Rightarrow> revolute_joint \<Rightarrow> bool" where
  "revolute_joint_eq l r \<longleftrightarrow>
     rel_option dbl_eq (rj_min_deg l) (rj_min_deg r) \<and> rel_option dbl_eq (rj_max_deg l) (rj_max_deg r)
     \<and> rel_option dbl_eq (rj_max_velocity l) (rj_max_velocity r)
     \<and> rel_option dbl_eq (rj_max_acceleration l) (rj_max_acceleration r)"

definition continuous_joint_eq :: "continuous_joint \<Rightarrow> continuous_joint \<Rightarrow> bool" where
  "continuous_joint_eq l r \<longleftrightarrow>
     rel_option dbl_eq (cj_max_velocity l) (cj_max_velocity r)
     \<and> rel_option dbl_eq (cj_max_acceleration l) (cj_max_acceleration r)"

definition prismatic_joint_eq :: "prismatic_joint \<Rightarrow> prismatic_joint \<Rightarrow> bool" where
  "prismatic_joint_eq l r \<longleftrightarrow>
     rel_option dbl_eq (pj_min_mm l) (pj_min_mm r) \<and> rel_option dbl_eq (pj_max_mm l) (pj_max_mm r)
     \<and> rel_option dbl_eq (pj_max_velocity l) (pj_max_velocity r)
     \<and> rel_option dbl_eq (pj_max_acceleration l) (pj_max_acceleration r)
     \<and> rel_option geometry_eq (pj_geometry l) (pj_geometry r)"

fun joint_spec_eq :: "joint_spec \<Rightarrow> joint_spec \<Rightarrow> bool" where
  "joint_spec_eq (J_revolute l) (J_revolute r) = revolute_joint_eq l r"
| "joint_spec_eq (J_prismatic l) (J_prismatic r) = prismatic_joint_eq l r"
| "joint_spec_eq (J_continuous l) (J_continuous r) = continuous_joint_eq l r"
| "joint_spec_eq l r = False"

definition mimic_joint_eq :: "mimic_joint \<Rightarrow> mimic_joint \<Rightarrow> bool" where
  "mimic_joint_eq l r \<longleftrightarrow>
     mj_joint l = mj_joint r \<and> dbl_eq (mj_multiplier l) (mj_multiplier r)
     \<and> dbl_eq (mj_offset l) (mj_offset r)"

definition kinematic_properties_eq :: "kinematic_properties \<Rightarrow> kinematic_properties \<Rightarrow> bool" where
  "kinematic_properties_eq l r \<longleftrightarrow>
     rel_option dbl_eq (kp_operating_freq_hz l) (kp_operating_freq_hz r)
     \<and> rel_option dbl_eq (kp_max_linear_tcp_speed l) (kp_max_linear_tcp_speed r)"

definition kinematic_link_eq :: "kinematic_link \<Rightarrow> kinematic_link \<Rightarrow> bool" where
  "kinematic_link_eq l r \<longleftrightarrow>
     kl_id l = kl_id r \<and> kl_parent l = kl_parent r \<and> link_pose_eq (kl_pose l) (kl_pose r)
     \<and> list_all2 geometry_eq (kl_collision l) (kl_collision r)
     \<and> list_all2 geometry_eq (kl_visual l) (kl_visual r)"

definition kinematic_joint_eq :: "kinematic_joint \<Rightarrow> kinematic_joint \<Rightarrow> bool" where
  "kinematic_joint_eq l r \<longleftrightarrow>
     kj_id l = kj_id r \<and> kj_parent l = kj_parent r \<and> vector3_eq (kj_axis l) (kj_axis r)
     \<and> joint_spec_eq (kj_spec l) (kj_spec r) \<and> rel_option mimic_joint_eq (kj_mimic l) (kj_mimic r)"

definition kinematic_model_eq :: "kinematic_model \<Rightarrow> kinematic_model \<Rightarrow> bool" where
  "kinematic_model_eq l r \<longleftrightarrow>
     km_name l = km_name r \<and> list_all2 kinematic_link_eq (km_links l) (km_links r)
     \<and> list_all2 kinematic_joint_eq (km_joints l) (km_joints r)
     \<and> km_output_frames l = km_output_frames r
     \<and> rel_option kinematic_properties_eq (km_properties l) (km_properties r)"

definition meshes_eq :: "(string \<times> mesh) list \<Rightarrow> (string \<times> mesh) list \<Rightarrow> bool" where
  "meshes_eq l r \<longleftrightarrow> list_all2 (\<lambda>x y. fst x = fst y \<and> mesh_eq (snd x) (snd y)) l r"

fun kinematics_data_eq :: "kinematics_data \<Rightarrow> kinematics_data \<Rightarrow> bool" where
  "kinematics_data_eq (KD_unspecified a) (KD_unspecified b) = (a = b)"
| "kinematics_data_eq (KD_sva a) (KD_sva b) = (a = b)"
| "kinematics_data_eq (KD_urdf a m) (KD_urdf b n) = (a = b \<and> meshes_eq m n)"
| "kinematics_data_eq l r = False"

subsection \<open>Messages\<close>

datatype pb_link_orientation =
    PL_not_set
  | PL_quaternion double double double double
  | PL_vector double double double double
  | PL_euler double double double
  | PL_axis_angles double double double double

record pb_link_pose =
  plp_translation :: "pb_vector3 option"
  plp_orientation :: pb_link_orientation

record pb_mimic_joint =
  pmj_joint :: string
  pmj_multiplier :: double
  pmj_offset :: double

record pb_kinematic_properties =
  pkp_operating_freq_hz :: "double option"
  pkp_max_linear_tcp_speed :: "double option"

record pb_kinematic_link =
  pkl_id :: string
  pkl_parent :: string
  pkl_pose :: "pb_link_pose option"
  pkl_collision :: "pb_geometry list"
  pkl_visual :: "pb_geometry list"

record pb_joint_limits =
  jl_min :: "double option"
  jl_max :: "double option"
  jl_max_velocity :: "double option"
  jl_max_acceleration :: "double option"

datatype pb_joint_type = JT_revolute | JT_continuous | JT_prismatic | JT_unspecified | JT_other int

record pb_kinematic_joint =
  pkj_id :: string
  pkj_parent :: string
  pkj_axis :: "pb_vector3 option"
  pkj_type :: pb_joint_type
  pkj_limits :: "pb_joint_limits option"
  pkj_geometry :: "pb_geometry option"
  pkj_mimic :: "pb_mimic_joint option"

record pb_kinematic_model =
  pkm_name :: string
  pkm_links :: "pb_kinematic_link list"
  pkm_joints :: "pb_kinematic_joint list"
  pkm_output_frames :: "string list"
  pkm_properties :: "pb_kinematic_properties option"

datatype pb_file_format = FF_unspecified | FF_sva | FF_urdf | FF_other int

record pb_kinematics_response =
  pk_format :: pb_file_format
  pk_data :: string
  pk_meshes :: "(string \<times> pb_mesh) list"
  pk_model :: "pb_kinematic_model option"

definition kinematics_response_empty :: pb_kinematics_response where
  "kinematics_response_empty =
     \<lparr>pk_format = FF_unspecified, pk_data = [], pk_meshes = [], pk_model = None\<rparr>"

subsection \<open>Conversions\<close>

definition set_limits ::
  "double option \<Rightarrow> double option \<Rightarrow> double option \<Rightarrow> double option \<Rightarrow> pb_kinematic_joint \<Rightarrow> pb_kinematic_joint"
where
  "set_limits mn mx max_velocity max_acceleration proto =
     (if mn = None \<and> mx = None \<and> max_velocity = None \<and> max_acceleration = None then proto
      else proto\<lparr>pkj_limits :=
        Some \<lparr>jl_min = mn, jl_max = mx, jl_max_velocity = max_velocity,
              jl_max_acceleration = max_acceleration\<rparr>\<rparr>)"

definition optional_field :: "bool \<Rightarrow> 'a \<Rightarrow> 'a option" where
  "optional_field has v = (if has then Some v else None)"

definition vector_degrees_to_proto :: "orientation_vector_degrees \<Rightarrow> pb_link_orientation" where
  "vector_degrees_to_proto v = PL_vector (ovd_x v) (ovd_y v) (ovd_z v) (ovd_theta v)"

fun link_orientation_to_proto :: "orientation \<Rightarrow> pb_link_orientation" where
  "link_orientation_to_proto (O_quaternion q) = PL_quaternion (q_w q) (q_x q) (q_y q) (q_z q)"
| "link_orientation_to_proto (O_vector_degrees v) = vector_degrees_to_proto v"
| "link_orientation_to_proto (O_vector v) =
     vector_degrees_to_proto \<lparr>ovd_x = ov_x v, ovd_y = ov_y v, ovd_z = ov_z v,
       ovd_theta = dbl_mul (ov_theta v) k_deg_per_rad\<rparr>"
| "link_orientation_to_proto (O_euler e) = PL_euler (ea_roll e) (ea_pitch e) (ea_yaw e)"
| "link_orientation_to_proto (O_axis_angles a) = PL_axis_angles (aa_x a) (aa_y a) (aa_z a) (aa_theta a)"

definition link_pose_to_proto :: "link_pose \<Rightarrow> pb_link_pose" where
  "link_pose_to_proto p =
     \<lparr>plp_translation = Some (vector3_to_proto (lp_translation p)),
      plp_orientation = link_orientation_to_proto (lp_orientation p)\<rparr>"

definition link_pose_from_proto :: "pb_link_pose \<Rightarrow> link_pose" where
  "link_pose_from_proto p =
     \<lparr>lp_translation = vector3_from_proto (submsg pb_vector3_default (plp_translation p)),
      lp_orientation =
        (case plp_orientation p of
           PL_quaternion w x y z \<Rightarrow> O_quaternion \<lparr>q_x = x, q_y = y, q_z = z, q_w = w\<rparr>
         | PL_vector x y z t \<Rightarrow> O_vector_degrees \<lparr>ovd_x = x, ovd_y = y, ovd_z = z, ovd_theta = t\<rparr>
         | PL_euler roll pitch yaw \<Rightarrow> O_euler \<lparr>ea_yaw = yaw, ea_roll = roll, ea_pitch = pitch\<rparr>
         | PL_axis_angles x y z t \<Rightarrow> O_axis_angles \<lparr>aa_x = x, aa_y = y, aa_z = z, aa_theta = t\<rparr>
         | PL_not_set \<Rightarrow> lp_orientation link_pose_default)\<rparr>"

definition mimic_to_proto :: "mimic_joint \<Rightarrow> pb_mimic_joint" where
  [conv_defs]: "mimic_to_proto m =
     \<lparr>pmj_joint = mj_joint m, pmj_multiplier = mj_multiplier m, pmj_offset = mj_offset m\<rparr>"

definition mimic_from_proto :: "pb_mimic_joint \<Rightarrow> mimic_joint" where
  [conv_defs]: "mimic_from_proto p =
     \<lparr>mj_joint = pmj_joint p, mj_multiplier = pmj_multiplier p, mj_offset = pmj_offset p\<rparr>"

definition properties_to_proto :: "kinematic_properties \<Rightarrow> pb_kinematic_properties" where
  [conv_defs]: "properties_to_proto p =
     \<lparr>pkp_operating_freq_hz = kp_operating_freq_hz p,
      pkp_max_linear_tcp_speed = kp_max_linear_tcp_speed p\<rparr>"

definition properties_from_proto :: "pb_kinematic_properties \<Rightarrow> kinematic_properties" where
  [conv_defs]: "properties_from_proto p =
     \<lparr>kp_operating_freq_hz =
        optional_field (pkp_operating_freq_hz p \<noteq> None) (submsg 0 (pkp_operating_freq_hz p)),
      kp_max_linear_tcp_speed =
        optional_field (pkp_max_linear_tcp_speed p \<noteq> None) (submsg 0 (pkp_max_linear_tcp_speed p))\<rparr>"

definition kinematic_link_to_proto :: "kinematic_link \<Rightarrow> pb_kinematic_link" where
  "kinematic_link_to_proto l =
     \<lparr>pkl_id = kl_id l, pkl_parent = kl_parent l, pkl_pose = Some (link_pose_to_proto (kl_pose l)),
      pkl_collision = map geometry_to_proto (kl_collision l),
      pkl_visual = map geometry_to_proto (kl_visual l)\<rparr>"

definition kinematic_link_from_proto :: "pb_kinematic_link \<Rightarrow> kinematic_link res" where
  "kinematic_link_from_proto p =
     rbind (mapM geometry_from_proto (pkl_collision p)) (\<lambda>collision.
     rbind (mapM geometry_from_proto (pkl_visual p)) (\<lambda>visual.
       Inr \<lparr>kl_id = pkl_id p, kl_parent = pkl_parent p,
            kl_pose = (case pkl_pose p of Some q \<Rightarrow> link_pose_from_proto q | None \<Rightarrow> link_pose_default),
            kl_collision = collision, kl_visual = visual\<rparr>))"

fun joint_spec_to_proto :: "joint_spec \<Rightarrow> pb_kinematic_joint \<Rightarrow> pb_kinematic_joint" where
  "joint_spec_to_proto (J_revolute j) proto =
     set_limits (rj_min_deg j) (rj_max_deg j) (rj_max_velocity j) (rj_max_acceleration j)
       (proto\<lparr>pkj_type := JT_revolute\<rparr>)"
| "joint_spec_to_proto (J_continuous j) proto =
     set_limits None None (cj_max_velocity j) (cj_max_acceleration j)
       (proto\<lparr>pkj_type := JT_continuous\<rparr>)"
| "joint_spec_to_proto (J_prismatic j) proto =
     (let proto' = set_limits (pj_min_mm j) (pj_max_mm j) (pj_max_velocity j) (pj_max_acceleration j)
                     (proto\<lparr>pkj_type := JT_prismatic\<rparr>)
      in case pj_geometry j of
           Some g \<Rightarrow> proto'\<lparr>pkj_geometry := Some (geometry_to_proto g)\<rparr>
         | None \<Rightarrow> proto')"

definition kinematic_joint_to_proto :: "kinematic_joint \<Rightarrow> pb_kinematic_joint" where
  "kinematic_joint_to_proto j =
     joint_spec_to_proto (kj_spec j)
       \<lparr>pkj_id = kj_id j, pkj_parent = kj_parent j, pkj_axis = Some (vector3_to_proto (kj_axis j)),
        pkj_type = JT_unspecified, pkj_limits = None, pkj_geometry = None,
        pkj_mimic = map_option mimic_to_proto (kj_mimic j)\<rparr>"

definition limit_field :: "pb_kinematic_joint \<Rightarrow> (pb_joint_limits \<Rightarrow> double option) \<Rightarrow> double option" where
  "limit_field p f =
     (let limits = submsg \<lparr>jl_min = None, jl_max = None, jl_max_velocity = None,
                           jl_max_acceleration = None\<rparr> (pkj_limits p)
      in optional_field (pkj_limits p \<noteq> None \<and> f limits \<noteq> None) (submsg 0 (f limits)))"

definition kinematic_joint_from_proto :: "pb_kinematic_joint \<Rightarrow> kinematic_joint res" where
  "kinematic_joint_from_proto p =
     (let mn = limit_field p jl_min; mx = limit_field p jl_max;
          max_velocity = limit_field p jl_max_velocity;
          max_acceleration = limit_field p jl_max_acceleration
      in rbind
           (case pkj_type p of
              JT_revolute \<Rightarrow>
                Inr (J_revolute \<lparr>rj_min_deg = mn, rj_max_deg = mx, rj_max_velocity = max_velocity,
                                 rj_max_acceleration = max_acceleration\<rparr>)
            | JT_continuous \<Rightarrow>
                Inr (J_continuous \<lparr>cj_max_velocity = max_velocity, cj_max_acceleration = max_acceleration\<rparr>)
            | JT_prismatic \<Rightarrow>
                rbind (case pkj_geometry p of
                         Some g \<Rightarrow> rmap Some (geometry_from_proto g) | None \<Rightarrow> Inr None) (\<lambda>geometry.
                  Inr (J_prismatic \<lparr>pj_min_mm = mn, pj_max_mm = mx, pj_max_velocity = max_velocity,
                                    pj_max_acceleration = max_acceleration, pj_geometry = geometry\<rparr>))
            | _ \<Rightarrow> Inl (sdk_exception K_not_supported
                         (''kinematic joint '' @ [CHR 0x27] @ pkj_id p @ [CHR 0x27]
                           @ '' has an unspecified type'')))
           (\<lambda>spec. Inr \<lparr>kj_id = pkj_id p, kj_parent = pkj_parent p,
              kj_axis = vector3_from_proto (submsg pb_vector3_default (pkj_axis p)),
              kj_spec = spec, kj_mimic = map_option mimic_from_proto (pkj_mimic p)\<rparr>))"

definition kinematic_model_to_proto :: "kinematic_model \<Rightarrow> pb_kinematic_model" where
  "kinematic_model_to_proto m =
     \<lparr>pkm_name = km_name m, pkm_links = map kinematic_link_to_proto (km_links m),
      pkm_joints = map kinematic_joint_to_proto (km_joints m),
      pkm_output_frames = km_output_frames m,
      pkm_properties = map_option properties_to_proto (km_properties m)\<rparr>"

definition kinematic_model_from_proto :: "pb_kinematic_model \<Rightarrow> kinematic_model res" where
  "kinematic_model_from_proto p =
     rbind (mapM kinematic_link_from_proto (pkm_links p)) (\<lambda>links.
     rbind (mapM kinematic_joint_from_proto (pkm_joints p)) (\<lambda>joints.
       Inr \<lparr>km_name = pkm_name p, km_links = links, km_joints = joints,
            km_output_frames = pkm_output_frames p,
            km_properties = map_option properties_from_proto (pkm_properties p)\<rparr>))"

fun kinematics_data_to_proto :: "kinematics_data \<Rightarrow> pb_kinematics_response" where
  "kinematics_data_to_proto (KD_unspecified bs) =
     kinematics_response_empty\<lparr>pk_format := FF_unspecified, pk_data := bytes_to_string bs\<rparr>"
| "kinematics_data_to_proto (KD_sva bs) =
     kinematics_response_empty\<lparr>pk_format := FF_sva, pk_data := bytes_to_string bs\<rparr>"
| "kinematics_data_to_proto (KD_urdf bs meshes) =
     kinematics_response_empty\<lparr>pk_format := FF_urdf, pk_data := bytes_to_string bs,
       pk_meshes := insert_all (map (\<lambda>e. (fst e, mesh_to_proto (snd e))) meshes)\<rparr>"

text \<open>The bytes of a file without a format are dropped on receipt.\<close>

definition kinematics_data_from_proto :: "pb_kinematics_response \<Rightarrow> kinematics_data" where
  "kinematics_data_from_proto p =
     (let bytes = string_to_bytes (pk_data p)
      in case pk_format p of
           FF_sva \<Rightarrow> KD_sva bytes
         | FF_urdf \<Rightarrow>
             KD_urdf bytes (sort_key fst
               (foldl (\<lambda>m e. aput (fst e) (mesh_from_proto (snd e)) m) [] (pk_meshes p)))
         | _ \<Rightarrow> KD_unspecified [])"

subsection \<open>Lemmas\<close>

interpretation mimic_codec: total_codec mimic_to_proto mimic_from_proto
  by unfold_locales (simp add: conv_defs)

lemma optional_field_submsg [simp]:
  "optional_field (v \<noteq> None) (submsg d v) = v" "optional_field (\<exists>y. v = Some y) (submsg d v) = v"
  by (cases v; simp add: optional_field_def)+

interpretation properties_codec: total_codec properties_to_proto properties_from_proto
  by unfold_locales (simp add: conv_defs)

text \<open>What a link looks like at the other end: radians have become degrees, and the geometries have
  lost the orientation their message has no place for.\<close>

fun in_degrees :: "orientation \<Rightarrow> orientation" where
  "in_degrees (O_vector v) =
     O_vector_degrees \<lparr>ovd_x = ov_x v, ovd_y = ov_y v, ovd_z = ov_z v,
       ovd_theta = dbl_mul (ov_theta v) k_deg_per_rad\<rparr>"
| "in_degrees u = u"

definition received_geometry :: "geometry_config \<Rightarrow> geometry_config" where
  "received_geometry g = g\<lparr>gc_orientation := orientation_default\<rparr>"

definition received_link :: "kinematic_link \<Rightarrow> kinematic_link" where
  "received_link l =
     l\<lparr>kl_pose := (kl_pose l)\<lparr>lp_orientation := in_degrees (lp_orientation (kl_pose l))\<rparr>,
       kl_collision := map received_geometry (kl_collision l),
       kl_visual := map received_geometry (kl_visual l)\<rparr>"

fun received_spec :: "joint_spec \<Rightarrow> joint_spec" where
  "received_spec (J_prismatic j) = J_prismatic (j\<lparr>pj_geometry := map_option received_geometry (pj_geometry j)\<rparr>)"
| "received_spec s = s"

definition received_joint :: "kinematic_joint \<Rightarrow> kinematic_joint" where
  "received_joint j = j\<lparr>kj_spec := received_spec (kj_spec j)\<rparr>"

definition received_model :: "kinematic_model \<Rightarrow> kinematic_model" where
  "received_model m =
     m\<lparr>km_links := map received_link (km_links m), km_joints := map received_joint (km_joints m)\<rparr>"

lemma link_pose_from_to:
  "link_pose_from_proto (link_pose_to_proto p) = p\<lparr>lp_orientation := in_degrees (lp_orientation p)\<rparr>"
  by (cases "lp_orientation p")
    (simp_all add: link_pose_from_proto_def link_pose_to_proto_def vector_degrees_to_proto_def
      vector3_codec.from_to_total)

lemma geometries_received: "mapM geometry_from_proto (map geometry_to_proto gs) = Inr (map received_geometry gs)"
  by (induction gs) (simp_all add: geometry_from_to received_geometry_def)

lemma kinematic_link_from_to:
  "kinematic_link_from_proto (kinematic_link_to_proto l) = Inr (received_link l)"
  by (simp add: kinematic_link_from_proto_def kinematic_link_to_proto_def received_link_def
      geometries_received link_pose_from_to)

lemma limit_field_set:
  "pkj_limits p = None \<Longrightarrow>
   limit_field (set_limits a b c d p) jl_min = a \<and> limit_field (set_limits a b c d p) jl_max = b
   \<and> limit_field (set_limits a b c d p) jl_max_velocity = c
   \<and> limit_field (set_limits a b c d p) jl_max_acceleration = d"
  by (auto simp: limit_field_def set_limits_def optional_field_def)

lemma set_limits_other [simp]:
  "pkj_id (set_limits a b c d p) = pkj_id p" "pkj_parent (set_limits a b c d p) = pkj_parent p"
  "pkj_axis (set_limits a b c d p) = pkj_axis p" "pkj_type (set_limits a b c d p) = pkj_type p"
  "pkj_geometry (set_limits a b c d p) = pkj_geometry p"
  "pkj_mimic (set_limits a b c d p) = pkj_mimic p"
  by (simp_all add: set_limits_def)

lemma limit_field_geometry [simp]: "limit_field (p\<lparr>pkj_geometry := g\<rparr>) f = limit_field p f"
  by (simp add: limit_field_def)

lemma kinematic_joint_from_to:
  "kinematic_joint_from_proto (kinematic_joint_to_proto j) = Inr (received_joint j)"
proof (cases "kj_spec j")
  case (J_prismatic s)
  then show ?thesis
    by (cases "pj_geometry s")
      (simp_all add: kinematic_joint_from_proto_def kinematic_joint_to_proto_def received_joint_def
        limit_field_set vector3_codec.from_to_total mimic_codec.map_option_from_to geometry_from_to
        received_geometry_def Let_def)
qed (simp_all add: kinematic_joint_from_proto_def kinematic_joint_to_proto_def received_joint_def
      limit_field_set vector3_codec.from_to_total mimic_codec.map_option_from_to Let_def)

lemma kinematic_model_from_to:
  "kinematic_model_from_proto (kinematic_model_to_proto m) = Inr (received_model m)"
proof -
  have l: "mapM kinematic_link_from_proto (map kinematic_link_to_proto ls) = Inr (map received_link ls)" for ls
    by (induction ls) (simp_all add: kinematic_link_from_to)
  have j: "mapM kinematic_joint_from_proto (map kinematic_joint_to_proto js) = Inr (map received_joint js)" for js
    by (induction js) (simp_all add: kinematic_joint_from_to)
  show ?thesis
    by (simp add: kinematic_model_from_proto_def kinematic_model_to_proto_def received_model_def l j
        properties_codec.map_option_from_to)
qed

text \<open>A second trip changes nothing more.\<close>

lemma received_model_idem: "received_model (received_model m) = received_model m"
proof -
  have o: "in_degrees (in_degrees u) = in_degrees u" for u by (cases u) simp_all
  have g: "received_geometry \<circ> received_geometry = received_geometry"
    by (rule ext) (simp add: received_geometry_def)
  have l: "received_link (received_link x) = received_link x" for x
    by (simp add: received_link_def o g)
  have s: "received_spec (received_spec x) = received_spec x" for x
    by (cases x) (simp_all add: option.map_comp g)
  have j: "received_joint (received_joint x) = received_joint x" for x
    by (simp add: received_joint_def s)
  show ?thesis by (simp add: received_model_def l j comp_def)
qed

definition model_sendable :: "kinematic_model \<Rightarrow> bool" where
  "model_sendable m \<longleftrightarrow> received_model m = m"

interpretation model_codec: proto_codec kinematic_model_to_proto kinematic_model_from_proto model_sendable
  by unfold_locales (simp add: kinematic_model_from_to model_sendable_def)

text \<open>Equality of models is blind to what the trip loses in the geometries.\<close>

lemma unspecified_joint_rejected:
  "pkj_type p = JT_unspecified \<or> (\<exists>i. pkj_type p = JT_other i) \<Longrightarrow>
   \<exists>msg. kinematic_joint_from_proto p = Inl (sdk_exception K_not_supported msg)"
  by (auto simp: kinematic_joint_from_proto_def Let_def)

lemma foldl_aput_distinct:
  "awf (m @ map (\<lambda>e. (fst e, f (snd e))) es) \<Longrightarrow>
   foldl (\<lambda>m e. aput (fst e) (f (snd e)) m) m es = m @ map (\<lambda>e. (fst e, f (snd e))) es"
proof (induction es arbitrary: m)
  case (Cons e es)
  have ap: "k \<notin> set (akeys m) \<Longrightarrow> aput k v m = m @ [(k, v)]" for k v
    by (induction m) auto
  have "aput (fst e) (f (snd e)) m = m @ [(fst e, f (snd e))]"
    using Cons.prems by (intro ap) auto
  with Cons.prems Cons.IH[of "m @ [(fst e, f (snd e))]"] show ?case by simp
qed simp

lemma kinematics_data_from_to:
  assumes "\<And>bs ms. d = KD_urdf bs ms \<Longrightarrow> sorted (akeys ms) \<and> awf ms"
  shows "kinematics_data_from_proto (kinematics_data_to_proto d) =
    (case d of KD_unspecified bs \<Rightarrow> KD_unspecified [] | _ \<Rightarrow> d)"
proof (cases d)
  case (KD_urdf bs ms)
  with assms have s: "sorted (akeys ms)" and w: "awf ms" by auto
  have i: "insert_all (map (\<lambda>e. (fst e, mesh_to_proto (snd e))) ms) = map (\<lambda>e. (fst e, mesh_to_proto (snd e))) ms"
    using w by (intro insert_all_distinct) simp
  have "foldl (\<lambda>m e. aput (fst e) (mesh_from_proto (snd e)) m) []
          (map (\<lambda>e. (fst e, mesh_to_proto (snd e))) ms) = ms"
    using foldl_aput_distinct[of "[]" mesh_from_proto "map (\<lambda>e. (fst e, mesh_to_proto (snd e))) ms"] w
    by (simp add: mesh_codec.from_to_total comp_def)
  moreover have "sort_key fst ms = ms"
    using s by (intro sort_key_id_if_sorted) (simp add: akeys_def)
  ultimately show ?thesis
    using KD_urdf i by (simp add: kinematics_data_from_proto_def kinematics_response_empty_def Let_def)
qed (simp_all add: kinematics_data_from_proto_def kinematics_response_empty_def)

lemma dbl_mul_samples:
  "dbl_mul (dbl_of_int 3) (dbl_of_int (- 2)) = dbl_of_int (- 6)"
  "dbl_mul dbl_one k_deg_per_rad = k_deg_per_rad"
  "dbl_mul 0x3FB999999999999A 0x3FB999999999999A = 0x3F847AE147AE147C"
  "dbl_mul 1 0x3FE0000000000000 = 0" "dbl_mul 3 0x3FE0000000000000 = 2"
  "dbl_mul 0x7FE0000000000000 0x4000000000000000 = 0x7FF0000000000000"
  by (simp_all add: dbl_mul_def dbl_of_int_def dbl_of_pos_def compute_floorlog dbl_neg_def dbl_exp_def
      dbl_frac_def dbl_is_nan_def dbl_is_zero_def dbl_mant_def dbl_scale_def dbl_round_def Let_def
      k_deg_per_rad_def dbl_one_def dbl_inf_def)

end
