(* ===== verification/Actuators.thy ===== *)
theory Actuators
  imports Remote Kinematics
begin

text \<open>
  The components that move: motors, bases, servos, gantries, grippers, switches and buttons. For each
  class the record of its virtual methods, the client that implements them over a stub
  (\<^verbatim>\<open>components/private/*_client.cpp\<close>) and the service that answers the stub's calls with an
  implementation (\<^verbatim>\<open>components/private/*_server.cpp\<close>); then that a remote component is the
  component itself, but for the exceptions.
\<close>

subsection \<open>Motors\<close>

record power_status =
  pw_is_on :: bool
  pw_power_pct :: double

record motor =
  mo_set_power :: "double \<Rightarrow> proto_struct \<Rightarrow> unit res"
  mo_go_for :: "double \<Rightarrow> double \<Rightarrow> proto_struct \<Rightarrow> unit res"
  mo_go_to :: "double \<Rightarrow> double \<Rightarrow> proto_struct \<Rightarrow> unit res"
  mo_set_rpm :: "double \<Rightarrow> proto_struct \<Rightarrow> unit res"
  mo_reset_zero_position :: "double \<Rightarrow> proto_struct \<Rightarrow> unit res"
  mo_get_position :: "proto_struct \<Rightarrow> double res"
  mo_get_properties :: "proto_struct \<Rightarrow> bool res"
  mo_stop :: "proto_struct \<Rightarrow> unit res"
  mo_get_power_status :: "proto_struct \<Rightarrow> power_status res"
  mo_is_moving :: "bool res"
  mo_get_status :: "proto_struct res"
  mo_do_command :: "proto_struct \<Rightarrow> proto_struct res"
  mo_get_geometries :: "proto_struct \<Rightarrow> geometry_config list res"

definition power_status_eq :: "power_status \<Rightarrow> power_status \<Rightarrow> bool" where
  "power_status_eq l r \<longleftrightarrow> pw_is_on l = pw_is_on r \<and> dbl_eq (pw_power_pct l) (pw_power_pct r)"

text \<open>The stub of the motor service: one method per RPC. A body with several fields is a tuple.\<close>

record motor_stub =
  ms_SetPower :: "(double, unit) rpc"
  ms_GoFor :: "(double \<times> double, unit) rpc"
  ms_GoTo :: "(double \<times> double, unit) rpc"
  ms_SetRPM :: "(double, unit) rpc"
  ms_ResetZeroPosition :: "(double, unit) rpc"
  ms_GetPosition :: "(unit, double) rpc"
  ms_GetProperties :: "(unit, bool) rpc"
  ms_Stop :: "(unit, unit) rpc"
  ms_IsPowered :: "(unit, bool \<times> double) rpc"
  ms_IsMoving :: "(unit, bool) rpc"
  ms_GetStatus :: "(unit, pb_struct) rpc"
  ms_DoCommand :: "(pb_struct, pb_struct) rpc"
  ms_GetGeometries :: "(unit, pb_geometry list) rpc"

definition motor_client :: "rpc_client \<Rightarrow> motor_stub \<Rightarrow> motor" where
  "motor_client cl stub =
     \<lparr>mo_set_power = (\<lambda>power_pct extra. invoke_with cl (ms_SetPower stub) extra (Inr power_pct) Inr),
      mo_go_for = (\<lambda>rpm revolutions extra.
        invoke_with cl (ms_GoFor stub) extra (Inr (rpm, revolutions)) Inr),
      mo_go_to = (\<lambda>rpm position_revolutions extra.
        invoke_with cl (ms_GoTo stub) extra (Inr (rpm, position_revolutions)) Inr),
      mo_set_rpm = (\<lambda>rpm extra. invoke_with cl (ms_SetRPM stub) extra (Inr rpm) Inr),
      mo_reset_zero_position = (\<lambda>offset extra.
        invoke_with cl (ms_ResetZeroPosition stub) extra (Inr offset) Inr),
      mo_get_position = (\<lambda>extra. invoke_with cl (ms_GetPosition stub) extra (Inr ()) Inr),
      mo_get_properties = (\<lambda>extra. invoke_with cl (ms_GetProperties stub) extra (Inr ()) Inr),
      mo_stop = (\<lambda>extra. invoke_with cl (ms_Stop stub) extra (Inr ()) Inr),
      mo_get_power_status = (\<lambda>extra. invoke_with cl (ms_IsPowered stub) extra (Inr ())
        (\<lambda>(is_on, power_pct). Inr \<lparr>pw_is_on = is_on, pw_power_pct = power_pct\<rparr>)),
      mo_is_moving = invoke_plain cl (ms_IsMoving stub) (Inr ()) Inr,
      mo_get_status = call_get_status cl (ms_GetStatus stub),
      mo_do_command = call_do_command cl (ms_DoCommand stub),
      mo_get_geometries = call_get_geometries cl (ms_GetGeometries stub)\<rparr>"

text \<open>The label of \<^verbatim>\<open>DoCommand\<close> is the one the code has.\<close>

definition motor_service :: "('r, motor) rpc_server \<Rightarrow> status \<Rightarrow> motor_stub" where
  "motor_service sv lost =
     \<lparr>ms_SetPower = answer sv lost () ''MotorServer::SetPower'' (\<lambda>q motor.
        reply (mo_set_power motor (rq_body q) (request_extra q))),
      ms_GoFor = answer sv lost () ''MotorServer::GoFor'' (\<lambda>q motor.
        reply (mo_go_for motor (fst (rq_body q)) (snd (rq_body q)) (request_extra q))),
      ms_GoTo = answer sv lost () ''MotorServer::GoTo'' (\<lambda>q motor.
        reply (mo_go_to motor (fst (rq_body q)) (snd (rq_body q)) (request_extra q))),
      ms_SetRPM = answer sv lost () ''MotorServer::SetRPM'' (\<lambda>q motor.
        reply (mo_set_rpm motor (rq_body q) (request_extra q))),
      ms_ResetZeroPosition = answer sv lost () ''MotorServer::ResetZeroPosition'' (\<lambda>q motor.
        reply (mo_reset_zero_position motor (rq_body q) (request_extra q))),
      ms_GetPosition = answer sv lost 0 ''MotorServer::GetPosition'' (\<lambda>q motor.
        reply (mo_get_position motor (request_extra q))),
      ms_GetProperties = answer sv lost False ''MotorServer::GetProperties'' (\<lambda>q motor.
        reply (mo_get_properties motor (request_extra q))),
      ms_Stop = answer sv lost () ''MotorServer::Stop'' (\<lambda>q motor.
        reply (mo_stop motor (request_extra q))),
      ms_IsPowered = answer sv lost (False, 0) ''MotorServer::IsPowered'' (\<lambda>q motor.
        reply (rmap (\<lambda>r. (pw_is_on r, pw_power_pct r)) (mo_get_power_status motor (request_extra q)))),
      ms_IsMoving = answer sv lost False ''MotorServer::IsMoving'' (\<lambda>q motor.
        reply (mo_is_moving motor)),
      ms_GetStatus = serve_get_status sv lost ''MotorServer::GetStatus'' mo_get_status,
      ms_DoCommand = serve_do_command sv lost ''MotorServer::GetGeometries'' mo_do_command,
      ms_GetGeometries = serve_get_geometries sv lost ''MotorServer::GetGeometries'' mo_get_geometries\<rparr>"

subsection \<open>Bases\<close>

record base_properties =
  bp_width_meters :: double
  bp_turning_radius_meters :: double
  bp_wheel_circumference_meters :: double

record base =
  ba_move_straight :: "64 word \<Rightarrow> double \<Rightarrow> proto_struct \<Rightarrow> unit res"
  ba_spin :: "double \<Rightarrow> double \<Rightarrow> proto_struct \<Rightarrow> unit res"
  ba_set_power :: "vector3 \<Rightarrow> vector3 \<Rightarrow> proto_struct \<Rightarrow> unit res"
  ba_set_velocity :: "vector3 \<Rightarrow> vector3 \<Rightarrow> proto_struct \<Rightarrow> unit res"
  ba_stop :: "proto_struct \<Rightarrow> unit res"
  ba_is_moving :: "bool res"
  ba_get_status :: "proto_struct res"
  ba_get_properties :: "proto_struct \<Rightarrow> base_properties res"
  ba_do_command :: "proto_struct \<Rightarrow> proto_struct res"
  ba_get_geometries :: "proto_struct \<Rightarrow> geometry_config list res"

record base_stub =
  bs_MoveStraight :: "(64 word \<times> double, unit) rpc"
  bs_Spin :: "(double \<times> double, unit) rpc"
  bs_SetPower :: "(pb_vector3 option \<times> pb_vector3 option, unit) rpc"
  bs_SetVelocity :: "(pb_vector3 option \<times> pb_vector3 option, unit) rpc"
  bs_Stop :: "(unit, unit) rpc"
  bs_IsMoving :: "(unit, bool) rpc"
  bs_GetStatus :: "(unit, pb_struct) rpc"
  bs_GetProperties :: "(unit, double \<times> double \<times> double) rpc"
  bs_DoCommand :: "(pb_struct, pb_struct) rpc"
  bs_GetGeometries :: "(unit, pb_geometry list) rpc"

definition two_vectors :: "vector3 \<times> vector3 \<Rightarrow> pb_vector3 option \<times> pb_vector3 option" where
  "two_vectors vs = (Some (vector3_to_proto (fst vs)), Some (vector3_to_proto (snd vs)))"

definition two_vectors_back :: "pb_vector3 option \<times> pb_vector3 option \<Rightarrow> vector3 \<times> vector3" where
  "two_vectors_back b =
     (vector3_from_proto (submsg pb_vector3_default (fst b)),
      vector3_from_proto (submsg pb_vector3_default (snd b)))"

definition base_client :: "rpc_client \<Rightarrow> base_stub \<Rightarrow> base" where
  "base_client cl stub =
     \<lparr>ba_move_straight = (\<lambda>distance_mm mm_per_sec extra.
        invoke_with cl (bs_MoveStraight stub) extra (Inr (distance_mm, mm_per_sec)) Inr),
      ba_spin = (\<lambda>angle_deg degs_per_sec extra.
        invoke_with cl (bs_Spin stub) extra (Inr (angle_deg, degs_per_sec)) Inr),
      ba_set_power = (\<lambda>linear angular extra.
        invoke_with cl (bs_SetPower stub) extra (Inr (two_vectors (linear, angular))) Inr),
      ba_set_velocity = (\<lambda>linear angular extra.
        invoke_with cl (bs_SetVelocity stub) extra (Inr (two_vectors (linear, angular))) Inr),
      ba_stop = (\<lambda>extra. invoke_with cl (bs_Stop stub) extra (Inr ()) Inr),
      ba_is_moving = invoke_plain cl (bs_IsMoving stub) (Inr ()) Inr,
      ba_get_status = call_get_status cl (bs_GetStatus stub),
      ba_get_properties = (\<lambda>extra. invoke_with cl (bs_GetProperties stub) extra (Inr ())
        (\<lambda>(w, t, c). Inr \<lparr>bp_width_meters = w, bp_turning_radius_meters = t,
                           bp_wheel_circumference_meters = c\<rparr>)),
      ba_do_command = call_do_command cl (bs_DoCommand stub),
      ba_get_geometries = call_get_geometries cl (bs_GetGeometries stub)\<rparr>"

definition base_service :: "('r, base) rpc_server \<Rightarrow> status \<Rightarrow> base_stub" where
  "base_service sv lost =
     \<lparr>bs_MoveStraight = answer sv lost () ''BaseServer::MoveStraight'' (\<lambda>q base.
        reply (ba_move_straight base (fst (rq_body q)) (snd (rq_body q)) (request_extra q))),
      bs_Spin = answer sv lost () ''BaseServer::Spin'' (\<lambda>q base.
        reply (ba_spin base (fst (rq_body q)) (snd (rq_body q)) (request_extra q))),
      bs_SetPower = answer sv lost () ''BaseServer::SetPower'' (\<lambda>q base.
        reply (ba_set_power base (fst (two_vectors_back (rq_body q)))
                 (snd (two_vectors_back (rq_body q))) (request_extra q))),
      bs_SetVelocity = answer sv lost () ''BaseServer::SetVelocity'' (\<lambda>q base.
        reply (ba_set_velocity base (fst (two_vectors_back (rq_body q)))
                 (snd (two_vectors_back (rq_body q))) (request_extra q))),
      bs_Stop = answer sv lost () ''BaseServer::Stop'' (\<lambda>q base.
        reply (ba_stop base (request_extra q))),
      bs_IsMoving = answer sv lost False ''BaseServer::IsMoving'' (\<lambda>q base.
        reply (ba_is_moving base)),
      bs_GetStatus = serve_get_status sv lost ''BaseServer::GetStatus'' ba_get_status,
      bs_GetProperties = answer sv lost (0, 0, 0) ''BaseServer::GetProperties'' (\<lambda>q base.
        reply (rmap (\<lambda>r. (bp_width_meters r, bp_turning_radius_meters r, bp_wheel_circumference_meters r))
                 (ba_get_properties base (request_extra q)))),
      bs_DoCommand = serve_do_command sv lost ''BaseServer::DoCommand'' ba_do_command,
      bs_GetGeometries = serve_get_geometries sv lost ''BaseServer::GetGeometries'' ba_get_geometries\<rparr>"

subsection \<open>Servos\<close>

record servo =
  se_move :: "32 word \<Rightarrow> proto_struct \<Rightarrow> unit res"
  se_get_position :: "proto_struct \<Rightarrow> 32 word res"
  se_stop :: "proto_struct \<Rightarrow> unit res"
  se_is_moving :: "bool res"
  se_get_status :: "proto_struct res"
  se_do_command :: "proto_struct \<Rightarrow> proto_struct res"
  se_get_geometries :: "proto_struct \<Rightarrow> geometry_config list res"

record servo_stub =
  ss_Move :: "(32 word, unit) rpc"
  ss_GetPosition :: "(unit, 32 word) rpc"
  ss_Stop :: "(unit, unit) rpc"
  ss_IsMoving :: "(unit, bool) rpc"
  ss_GetStatus :: "(unit, pb_struct) rpc"
  ss_DoCommand :: "(pb_struct, pb_struct) rpc"
  ss_GetGeometries :: "(unit, pb_geometry list) rpc"

definition servo_client :: "rpc_client \<Rightarrow> servo_stub \<Rightarrow> servo" where
  "servo_client cl stub =
     \<lparr>se_move = (\<lambda>angle_deg extra. invoke_with cl (ss_Move stub) extra (Inr angle_deg) Inr),
      se_get_position = (\<lambda>extra. invoke_with cl (ss_GetPosition stub) extra (Inr ()) Inr),
      se_stop = (\<lambda>extra. invoke_with cl (ss_Stop stub) extra (Inr ()) Inr),
      se_is_moving = invoke_plain cl (ss_IsMoving stub) (Inr ()) Inr,
      se_get_status = call_get_status cl (ss_GetStatus stub),
      se_do_command = call_do_command cl (ss_DoCommand stub),
      se_get_geometries = call_get_geometries cl (ss_GetGeometries stub)\<rparr>"

definition servo_service :: "('r, servo) rpc_server \<Rightarrow> status \<Rightarrow> servo_stub" where
  "servo_service sv lost =
     \<lparr>ss_Move = answer sv lost () ''ServoServer::Move'' (\<lambda>q servo.
        reply (se_move servo (rq_body q) (request_extra q))),
      ss_GetPosition = answer sv lost 0 ''ServoServer::GetPosition'' (\<lambda>q servo.
        reply (se_get_position servo (request_extra q))),
      ss_Stop = answer sv lost () ''ServoServer::Stop'' (\<lambda>q servo.
        reply (se_stop servo (request_extra q))),
      ss_IsMoving = answer sv lost False ''ServoServer::IsMoving'' (\<lambda>q servo.
        reply (se_is_moving servo)),
      ss_GetStatus = serve_get_status sv lost ''ServoServer::GetStatus'' se_get_status,
      ss_DoCommand = serve_do_command sv lost ''ServoServer::GetGeometries'' se_do_command,
      ss_GetGeometries = serve_get_geometries sv lost ''ServoServer::GetGeometries'' se_get_geometries\<rparr>"

subsection \<open>Kinematics of a component\<close>

text \<open>
  \<^verbatim>\<open>GetKinematics\<close>, written the same way for gantries and arms: the raw file where the
  implementation still has one (its \<^verbatim>\<open>k_not_supported\<close> is swallowed), then the model, named after
  the resource when it has no name.
\<close>

definition default_get_kinematics :: "string \<Rightarrow> string \<Rightarrow> kinematics_data res" where
  "default_get_kinematics kind name =
     Inl (sdk_exception K_not_supported
            (kind @ '' '' @ [CHR 0x27] @ name @ [CHR 0x27] @ '' does not provide raw kinematics data''))"

definition raw_kinematics :: "kinematics_data res \<Rightarrow> pb_kinematics_response res" where
  "raw_kinematics r =
     (case r of
        Inr d \<Rightarrow> Inr (kinematics_data_to_proto d)
      | Inl e \<Rightarrow>
          if exn_condition e = Some K_not_supported then Inr kinematics_response_empty else Inl e)"

definition named_model :: "string \<Rightarrow> kinematic_model \<Rightarrow> kinematic_model" where
  "named_model name m = (if km_name m = [] then m\<lparr>km_name := name\<rparr> else m)"

definition kinematics_response ::
  "string \<Rightarrow> kinematics_data res \<Rightarrow> kinematic_model res \<Rightarrow> pb_kinematics_response res" where
  "kinematics_response name raw model =
     rbind (raw_kinematics raw) (\<lambda>response.
     rbind model (\<lambda>m.
       Inr (response\<lparr>pk_model := Some (kinematic_model_to_proto (named_model name m))\<rparr>)))"

definition call_get_kinematic_model ::
  "rpc_client \<Rightarrow> (bool \<times> bool, pb_kinematics_response) rpc \<Rightarrow> kinematics_options \<Rightarrow> proto_struct \<Rightarrow>
   kinematic_model res" where
  "call_get_kinematic_model cl rpc options extra =
     invoke_with cl rpc extra
       (Inr (ko_include_collision_meshes options, ko_include_visual_meshes options))
       (\<lambda>response.
          case pk_model response of
            None \<Rightarrow> Inl (sdk_exception K_not_supported ''server did not return a kinematic model'')
          | Some m \<Rightarrow> kinematic_model_from_proto m)"

definition call_get_kinematics ::
  "rpc_client \<Rightarrow> (bool \<times> bool, pb_kinematics_response) rpc \<Rightarrow> proto_struct \<Rightarrow> kinematics_data res" where
  "call_get_kinematics cl rpc extra =
     invoke_with cl rpc extra (Inr (False, False)) (\<lambda>response. Inr (kinematics_data_from_proto response))"

definition serve_get_kinematics ::
  "('r, 'x) rpc_server \<Rightarrow> status \<Rightarrow> string \<Rightarrow> ('x \<Rightarrow> string) \<Rightarrow> ('x \<Rightarrow> proto_struct \<Rightarrow> kinematics_data res) \<Rightarrow>
   ('x \<Rightarrow> kinematics_options \<Rightarrow> proto_struct \<Rightarrow> kinematic_model res) \<Rightarrow>
   (bool \<times> bool, pb_kinematics_response) rpc" where
  "serve_get_kinematics sv lost label name raw model =
     answer sv lost kinematics_response_empty label (\<lambda>q x.
       reply (kinematics_response (name x) (raw x (request_extra q))
         (model x \<lparr>ko_include_collision_meshes = fst (rq_body q),
                   ko_include_visual_meshes = snd (rq_body q)\<rparr> (request_extra q))))"

subsection \<open>Gantries\<close>

record movement_coordinate =
  mc_position_mm :: double
  mc_speed_mm_per_sec :: double

record gantry =
  ga_name :: string
  ga_get_position :: "proto_struct \<Rightarrow> double list res"
  ga_move_to_position :: "movement_coordinate list \<Rightarrow> proto_struct \<Rightarrow> unit res"
  ga_home :: "proto_struct \<Rightarrow> bool res"
  ga_get_lengths :: "proto_struct \<Rightarrow> double list res"
  ga_is_moving :: "bool res"
  ga_stop :: "proto_struct \<Rightarrow> unit res"
  ga_get_status :: "proto_struct res"
  ga_do_command :: "proto_struct \<Rightarrow> proto_struct res"
  ga_get_geometries :: "proto_struct \<Rightarrow> geometry_config list res"
  ga_get_kinematic_model :: "kinematics_options \<Rightarrow> proto_struct \<Rightarrow> kinematic_model res"
  ga_get_kinematics :: "proto_struct \<Rightarrow> kinematics_data res"

record gantry_stub =
  gs_GetPosition :: "(unit, double list) rpc"
  gs_MoveToPosition :: "(double list \<times> double list, unit) rpc"
  gs_Home :: "(unit, bool) rpc"
  gs_GetLengths :: "(unit, double list) rpc"
  gs_IsMoving :: "(unit, bool) rpc"
  gs_Stop :: "(unit, unit) rpc"
  gs_GetStatus :: "(unit, pb_struct) rpc"
  gs_DoCommand :: "(pb_struct, pb_struct) rpc"
  gs_GetGeometries :: "(unit, pb_geometry list) rpc"
  gs_GetKinematics :: "(bool \<times> bool, pb_kinematics_response) rpc"

text \<open>The server pairs positions with speeds up to the shorter of the two lists.\<close>

definition coordinates_from_request :: "double list \<times> double list \<Rightarrow> movement_coordinate list" where
  "coordinates_from_request b =
     map (\<lambda>i. \<lparr>mc_position_mm = fst b ! i, mc_speed_mm_per_sec = snd b ! i\<rparr>)
       [0..<min (length (fst b)) (length (snd b))]"

definition gantry_client :: "rpc_client \<Rightarrow> gantry_stub \<Rightarrow> gantry" where
  "gantry_client cl stub =
     \<lparr>ga_name = rc_name cl,
      ga_get_position = (\<lambda>extra. invoke_with cl (gs_GetPosition stub) extra (Inr ()) Inr),
      ga_move_to_position = (\<lambda>coordinates extra.
        invoke_with cl (gs_MoveToPosition stub) extra
          (Inr (map mc_position_mm coordinates, map mc_speed_mm_per_sec coordinates)) Inr),
      ga_home = (\<lambda>extra. invoke_with cl (gs_Home stub) extra (Inr ()) Inr),
      ga_get_lengths = (\<lambda>extra. invoke_with cl (gs_GetLengths stub) extra (Inr ()) Inr),
      ga_is_moving = invoke_plain cl (gs_IsMoving stub) (Inr ()) Inr,
      ga_stop = (\<lambda>extra. invoke_with cl (gs_Stop stub) extra (Inr ()) Inr),
      ga_get_status = call_get_status cl (gs_GetStatus stub),
      ga_do_command = call_do_command cl (gs_DoCommand stub),
      ga_get_geometries = call_get_geometries cl (gs_GetGeometries stub),
      ga_get_kinematic_model = call_get_kinematic_model cl (gs_GetKinematics stub),
      ga_get_kinematics = call_get_kinematics cl (gs_GetKinematics stub)\<rparr>"

definition gantry_service :: "('r, gantry) rpc_server \<Rightarrow> status \<Rightarrow> gantry_stub" where
  "gantry_service sv lost =
     \<lparr>gs_GetPosition = answer sv lost [] ''GantryServer::GetPosition'' (\<lambda>q gantry.
        reply (ga_get_position gantry (request_extra q))),
      gs_MoveToPosition = answer sv lost () ''GantryServer::MoveToPosition'' (\<lambda>q gantry.
        reply (ga_move_to_position gantry (coordinates_from_request (rq_body q)) (request_extra q))),
      gs_Home = answer sv lost False ''GantryServer::Home'' (\<lambda>q gantry.
        reply (ga_home gantry (request_extra q))),
      gs_GetLengths = answer sv lost [] ''GantryServer::GetLengths'' (\<lambda>q gantry.
        reply (ga_get_lengths gantry (request_extra q))),
      gs_IsMoving = answer sv lost False ''GantryServer::IsMoving'' (\<lambda>q gantry.
        reply (ga_is_moving gantry)),
      gs_Stop = answer sv lost () ''GantryServer::Stop'' (\<lambda>q gantry.
        reply (ga_stop gantry (request_extra q))),
      gs_GetStatus = serve_get_status sv lost ''GantryServer::GetStatus'' ga_get_status,
      gs_DoCommand = serve_do_command sv lost ''GantryServer::DoCommand'' ga_do_command,
      gs_GetGeometries = serve_get_geometries sv lost ''GantryServer::GetGeometries'' ga_get_geometries,
      gs_GetKinematics = serve_get_kinematics sv lost ''GantryServer::GetKinematics''
        ga_name ga_get_kinematics ga_get_kinematic_model\<rparr>"

subsection \<open>Grippers\<close>

record holding_status =
  hs_is_holding_something :: bool
  hs_meta :: proto_struct

record gripper =
  gr_open :: "proto_struct \<Rightarrow> unit res"
  gr_grab :: "proto_struct \<Rightarrow> bool res"
  gr_is_holding_something :: "proto_struct \<Rightarrow> holding_status res"
  gr_is_moving :: "bool res"
  gr_stop :: "proto_struct \<Rightarrow> unit res"
  gr_get_status :: "proto_struct res"
  gr_do_command :: "proto_struct \<Rightarrow> proto_struct res"
  gr_get_geometries :: "proto_struct \<Rightarrow> geometry_config list res"

record gripper_stub =
  grs_Open :: "(unit, unit) rpc"
  grs_Grab :: "(unit, bool) rpc"
  grs_IsHoldingSomething :: "(unit, bool \<times> pb_struct) rpc"
  grs_IsMoving :: "(unit, bool) rpc"
  grs_Stop :: "(unit, unit) rpc"
  grs_GetStatus :: "(unit, pb_struct) rpc"
  grs_DoCommand :: "(pb_struct, pb_struct) rpc"
  grs_GetGeometries :: "(unit, pb_geometry list) rpc"

definition gripper_client :: "rpc_client \<Rightarrow> gripper_stub \<Rightarrow> gripper" where
  "gripper_client cl stub =
     \<lparr>gr_open = (\<lambda>extra. invoke_with cl (grs_Open stub) extra (Inr ()) Inr),
      gr_grab = (\<lambda>extra. invoke_with cl (grs_Grab stub) extra (Inr ()) Inr),
      gr_is_holding_something = (\<lambda>extra. invoke_with cl (grs_IsHoldingSomething stub) extra (Inr ())
        (\<lambda>(h, meta). Inr \<lparr>hs_is_holding_something = h, hs_meta = struct_from_proto meta\<rparr>)),
      gr_is_moving = invoke_plain cl (grs_IsMoving stub) (Inr ()) Inr,
      gr_stop = (\<lambda>extra. invoke_with cl (grs_Stop stub) extra (Inr ()) Inr),
      gr_get_status = call_get_status cl (grs_GetStatus stub),
      gr_do_command = call_do_command cl (grs_DoCommand stub),
      gr_get_geometries = call_get_geometries cl (grs_GetGeometries stub)\<rparr>"

definition gripper_service :: "('r, gripper) rpc_server \<Rightarrow> status \<Rightarrow> gripper_stub" where
  "gripper_service sv lost =
     \<lparr>grs_Open = answer sv lost () ''GripperServer::Open'' (\<lambda>q gripper.
        reply (gr_open gripper (request_extra q))),
      grs_Grab = answer sv lost False ''GripperServer::Grab'' (\<lambda>q gripper.
        reply (gr_grab gripper (request_extra q))),
      grs_IsHoldingSomething =
        answer sv lost (False, []) ''GripperServer::IsHoldingSomething'' (\<lambda>q gripper.
          reply (rmap (\<lambda>h. (hs_is_holding_something h, struct_to_proto (hs_meta h)))
                   (gr_is_holding_something gripper (request_extra q)))),
      grs_IsMoving = answer sv lost False ''GripperServer::IsMoving'' (\<lambda>q gripper.
        reply (gr_is_moving gripper)),
      grs_Stop = answer sv lost () ''GripperServer::Stop'' (\<lambda>q gripper.
        reply (gr_stop gripper (request_extra q))),
      grs_GetStatus = serve_get_status sv lost ''GripperServer::GetStatus'' gr_get_status,
      grs_DoCommand = serve_do_command sv lost ''GripperServer::DoCommand'' gr_do_command,
      grs_GetGeometries = serve_get_geometries sv lost ''GripperServer::GetGeometries'' gr_get_geometries\<rparr>"

text \<open>The overload without arguments builds a status instead of asking the gripper.\<close>

definition is_holding_something0 :: "gripper \<Rightarrow> holding_status res" where
  "is_holding_something0 g = Inr \<lparr>hs_is_holding_something = False, hs_meta = []\<rparr>"

subsection \<open>Switches and buttons\<close>

record position_info =
  pi_num_positions :: "32 word"
  pi_position_labels :: "string list"

record switch =
  sw_set_position :: "32 word \<Rightarrow> proto_struct \<Rightarrow> unit res"
  sw_get_position :: "proto_struct \<Rightarrow> 32 word res"
  sw_get_number_of_positions :: "proto_struct \<Rightarrow> position_info res"
  sw_get_status :: "proto_struct res"
  sw_do_command :: "proto_struct \<Rightarrow> proto_struct res"

record switch_stub =
  sws_SetPosition :: "(32 word, unit) rpc"
  sws_GetPosition :: "(unit, 32 word) rpc"
  sws_GetNumberOfPositions :: "(unit, 32 word \<times> string list) rpc"
  sws_GetStatus :: "(unit, pb_struct) rpc"
  sws_DoCommand :: "(pb_struct, pb_struct) rpc"

definition labels_mismatch :: "string list \<Rightarrow> 32 word \<Rightarrow> bool" where
  "labels_mismatch labels n \<longleftrightarrow> labels \<noteq> [] \<and> word_of_nat (length labels) \<noteq> n"

definition switch_client :: "rpc_client \<Rightarrow> switch_stub \<Rightarrow> switch" where
  "switch_client cl stub =
     \<lparr>sw_set_position = (\<lambda>position extra. invoke_with cl (sws_SetPosition stub) extra (Inr position) Inr),
      sw_get_position = (\<lambda>extra. invoke_with cl (sws_GetPosition stub) extra (Inr ()) Inr),
      sw_get_number_of_positions = (\<lambda>extra.
        invoke_with cl (sws_GetNumberOfPositions stub) extra (Inr ()) (\<lambda>(n, labels).
          if labels_mismatch labels n then
            Inl (general_exception
                   ''get_number_of_positions: labels size does not match number_of_positions'')
          else Inr \<lparr>pi_num_positions = n, pi_position_labels = labels\<rparr>)),
      sw_get_status = call_get_status cl (sws_GetStatus stub),
      sw_do_command = call_do_command cl (sws_DoCommand stub)\<rparr>"

definition number_of_positions_response :: "position_info \<Rightarrow> (32 word \<times> string list) res" where
  "number_of_positions_response info =
     (if labels_mismatch (pi_position_labels info) (pi_num_positions info) then
        Inl (general_exception ''get_number_of_positions: labels size does not match num_positions'')
      else Inr (pi_num_positions info, pi_position_labels info))"

definition switch_service :: "('r, switch) rpc_server \<Rightarrow> status \<Rightarrow> switch_stub" where
  "switch_service sv lost =
     \<lparr>sws_SetPosition = answer sv lost () ''SwitchServer::SetPosition'' (\<lambda>q sw.
        reply (sw_set_position sw (rq_body q) (request_extra q))),
      sws_GetPosition = answer sv lost 0 ''SwitchServer::GetPosition'' (\<lambda>q sw.
        reply (sw_get_position sw (request_extra q))),
      sws_GetNumberOfPositions = answer sv lost (0, []) ''SwitchServer::GetNumberOfPositions'' (\<lambda>q sw.
        reply (rbind (sw_get_number_of_positions sw (request_extra q)) number_of_positions_response)),
      sws_GetStatus = serve_get_status sv lost ''SwitchServer::GetStatus'' sw_get_status,
      sws_DoCommand = serve_do_command sv lost ''SwitchServer::DoCommand'' sw_do_command\<rparr>"

record button =
  bu_push :: "proto_struct \<Rightarrow> unit res"
  bu_get_status :: "proto_struct res"
  bu_do_command :: "proto_struct \<Rightarrow> proto_struct res"

record button_stub =
  bus_Push :: "(unit, unit) rpc"
  bus_GetStatus :: "(unit, pb_struct) rpc"
  bus_DoCommand :: "(pb_struct, pb_struct) rpc"

definition button_client :: "rpc_client \<Rightarrow> button_stub \<Rightarrow> button" where
  "button_client cl stub =
     \<lparr>bu_push = (\<lambda>extra. invoke_with cl (bus_Push stub) extra (Inr ()) Inr),
      bu_get_status = call_get_status cl (bus_GetStatus stub),
      bu_do_command = call_do_command cl (bus_DoCommand stub)\<rparr>"

definition button_service :: "('r, button) rpc_server \<Rightarrow> status \<Rightarrow> button_stub" where
  "button_service sv lost =
     \<lparr>bus_Push = answer sv lost () ''ButtonServer::Push'' (\<lambda>q button.
        reply (bu_push button (request_extra q))),
      bus_GetStatus = serve_get_status sv lost ''ButtonServer::GetStatus'' bu_get_status,
      bus_DoCommand = serve_do_command sv lost ''ButtonServer::DoCommand'' bu_do_command\<rparr>"

subsection \<open>Lemmas: remote components\<close>

interpretation vectors_method: rpc_method two_vectors "\<lambda>b. Inr (two_vectors_back b)" "\<lambda>r. r" Inr
    "\<lambda>_. True" "\<lambda>_. True"
  by unfold_locales (simp_all add: two_vectors_def two_vectors_back_def vector3_codec.from_to_total)

interpretation coordinates_method: rpc_method
    "\<lambda>cs. (map mc_position_mm cs, map mc_speed_mm_per_sec cs)" "\<lambda>b. Inr (coordinates_from_request b)"
    "\<lambda>r. r" Inr "\<lambda>_. True" "\<lambda>_. True"
  by unfold_locales (auto simp: coordinates_from_request_def intro: nth_equalityI)

lemma vectors_trip [simp]: "two_vectors_back (two_vectors vs) = vs"
  using vectors_method.arg_trip[of vs] by simp

lemma coordinates_trip [simp]:
  "coordinates_from_request (map mc_position_mm cs, map mc_speed_mm_per_sec cs) = cs"
  using coordinates_method.arg_trip[of cs] by simp

lemma rbind_Inr_id [simp]: "rbind r Inr = r"
  by (cases r) simp_all

lemma seen_rmap [simp]: "seen_remotely lost label (rmap f r) = rmap f (seen_remotely lost label r)"
  by (cases r) simp_all

lemma rbind_rmap [simp]: "rbind (rmap f r) g = rbind r (\<lambda>a. g (f a))"
  by (cases r) simp_all

lemma power_status_id [simp]: "\<lparr>pw_is_on = pw_is_on r, pw_power_pct = pw_power_pct r\<rparr> = r"
  by simp

lemma base_properties_id [simp]:
  "\<lparr>bp_width_meters = bp_width_meters r, bp_turning_radius_meters = bp_turning_radius_meters r,
    bp_wheel_circumference_meters = bp_wheel_circumference_meters r\<rparr> = r"
  by simp

lemmas remote_simps = invoke_with_reply invoke_plain_reply

text \<open>A motor called through client and server, method by method.\<close>

lemma remote_motor:
  assumes h: "hosts sv cl m" and l: "\<not> st_is_ok lost" and x: "sendable extra"
  defines "remote \<equiv> motor_client cl (motor_service sv lost)"
  shows "mo_set_power remote a extra = seen_remotely lost ''MotorServer::SetPower'' (mo_set_power m a extra)"
    and "mo_go_for remote a b extra = seen_remotely lost ''MotorServer::GoFor'' (mo_go_for m a b extra)"
    and "mo_go_to remote a b extra = seen_remotely lost ''MotorServer::GoTo'' (mo_go_to m a b extra)"
    and "mo_set_rpm remote a extra = seen_remotely lost ''MotorServer::SetRPM'' (mo_set_rpm m a extra)"
    and "mo_reset_zero_position remote a extra =
           seen_remotely lost ''MotorServer::ResetZeroPosition'' (mo_reset_zero_position m a extra)"
    and "mo_get_position remote extra = seen_remotely lost ''MotorServer::GetPosition'' (mo_get_position m extra)"
    and "mo_get_properties remote extra =
           seen_remotely lost ''MotorServer::GetProperties'' (mo_get_properties m extra)"
    and "mo_stop remote extra = seen_remotely lost ''MotorServer::Stop'' (mo_stop m extra)"
    and "mo_get_power_status remote extra =
           seen_remotely lost ''MotorServer::IsPowered'' (mo_get_power_status m extra)"
    and "mo_is_moving remote = seen_remotely lost ''MotorServer::IsMoving'' (mo_is_moving m)"
    and "mo_get_geometries remote extra = seen_remotely lost ''MotorServer::GetGeometries''
           (rmap (map (\<lambda>g. g\<lparr>gc_orientation := orientation_default\<rparr>)) (mo_get_geometries m extra))"
    and "(\<And>r. mo_get_status m = Inr r \<Longrightarrow> ps_wf r) \<Longrightarrow>
           mo_get_status remote = seen_remotely lost ''MotorServer::GetStatus'' (mo_get_status m)"
    and "ps_wf command \<Longrightarrow> (\<And>r. mo_do_command m command = Inr r \<Longrightarrow> ps_wf r) \<Longrightarrow>
           mo_do_command remote command = seen_remotely lost ''MotorServer::GetGeometries'' (mo_do_command m command)"
  unfolding remote_def motor_client_def motor_service_def
  by (simp_all add: remote_simps[OF h l] x remote_get_geometries_received[OF h l x]
      remote_get_status[OF h l] remote_do_command[OF h l])

lemma remote_base:
  assumes h: "hosts sv cl b" and l: "\<not> st_is_ok lost" and x: "sendable extra"
  defines "remote \<equiv> base_client cl (base_service sv lost)"
  shows "ba_move_straight remote d v extra =
           seen_remotely lost ''BaseServer::MoveStraight'' (ba_move_straight b d v extra)"
    and "ba_spin remote u v extra = seen_remotely lost ''BaseServer::Spin'' (ba_spin b u v extra)"
    and "ba_set_power remote p q extra = seen_remotely lost ''BaseServer::SetPower'' (ba_set_power b p q extra)"
    and "ba_set_velocity remote p q extra =
           seen_remotely lost ''BaseServer::SetVelocity'' (ba_set_velocity b p q extra)"
    and "ba_stop remote extra = seen_remotely lost ''BaseServer::Stop'' (ba_stop b extra)"
    and "ba_is_moving remote = seen_remotely lost ''BaseServer::IsMoving'' (ba_is_moving b)"
    and "ba_get_properties remote extra =
           seen_remotely lost ''BaseServer::GetProperties'' (ba_get_properties b extra)"
  unfolding remote_def base_client_def base_service_def
  by (simp_all add: remote_simps[OF h l] x)

lemma remote_servo:
  assumes h: "hosts sv cl s" and l: "\<not> st_is_ok lost" and x: "sendable extra"
  defines "remote \<equiv> servo_client cl (servo_service sv lost)"
  shows "se_move remote a extra = seen_remotely lost ''ServoServer::Move'' (se_move s a extra)"
    and "se_get_position remote extra = seen_remotely lost ''ServoServer::GetPosition'' (se_get_position s extra)"
    and "se_stop remote extra = seen_remotely lost ''ServoServer::Stop'' (se_stop s extra)"
    and "se_is_moving remote = seen_remotely lost ''ServoServer::IsMoving'' (se_is_moving s)"
  unfolding remote_def servo_client_def servo_service_def
  by (simp_all add: remote_simps[OF h l] x)

lemma remote_gantry:
  assumes h: "hosts sv cl g" and l: "\<not> st_is_ok lost" and x: "sendable extra"
  defines "remote \<equiv> gantry_client cl (gantry_service sv lost)"
  shows "ga_get_position remote extra = seen_remotely lost ''GantryServer::GetPosition'' (ga_get_position g extra)"
    and "ga_move_to_position remote cs extra =
           seen_remotely lost ''GantryServer::MoveToPosition'' (ga_move_to_position g cs extra)"
    and "ga_home remote extra = seen_remotely lost ''GantryServer::Home'' (ga_home g extra)"
    and "ga_get_lengths remote extra = seen_remotely lost ''GantryServer::GetLengths'' (ga_get_lengths g extra)"
    and "ga_stop remote extra = seen_remotely lost ''GantryServer::Stop'' (ga_stop g extra)"
    and "ga_is_moving remote = seen_remotely lost ''GantryServer::IsMoving'' (ga_is_moving g)"
  unfolding remote_def gantry_client_def gantry_service_def
  by (simp_all add: remote_simps[OF h l] x)

lemma remote_gripper:
  assumes h: "hosts sv cl g" and l: "\<not> st_is_ok lost" and x: "sendable extra"
  defines "remote \<equiv> gripper_client cl (gripper_service sv lost)"
  shows "gr_open remote extra = seen_remotely lost ''GripperServer::Open'' (gr_open g extra)"
    and "gr_grab remote extra = seen_remotely lost ''GripperServer::Grab'' (gr_grab g extra)"
    and "gr_stop remote extra = seen_remotely lost ''GripperServer::Stop'' (gr_stop g extra)"
    and "gr_is_moving remote = seen_remotely lost ''GripperServer::IsMoving'' (gr_is_moving g)"
    and "(\<And>h. gr_is_holding_something g extra = Inr h \<Longrightarrow> ps_wf (hs_meta h)) \<Longrightarrow>
         gr_is_holding_something remote extra =
           seen_remotely lost ''GripperServer::IsHoldingSomething'' (gr_is_holding_something g extra)"
  unfolding remote_def gripper_client_def gripper_service_def
      apply (simp_all add: remote_simps[OF h l] x)
  by (cases "gr_is_holding_something g extra") (simp_all add: struct_from_to)

lemma remote_switch:
  assumes h: "hosts sv cl s" and l: "\<not> st_is_ok lost" and x: "sendable extra"
  defines "remote \<equiv> switch_client cl (switch_service sv lost)"
  shows "sw_set_position remote p extra = seen_remotely lost ''SwitchServer::SetPosition'' (sw_set_position s p extra)"
    and "sw_get_position remote extra = seen_remotely lost ''SwitchServer::GetPosition'' (sw_get_position s extra)"
    and "sw_get_number_of_positions remote extra =
           seen_remotely lost ''SwitchServer::GetNumberOfPositions''
             (rbind (sw_get_number_of_positions s extra) (\<lambda>info. rmap (\<lambda>_. info) (number_of_positions_response info)))"
  unfolding remote_def switch_client_def switch_service_def
    apply (simp_all add: remote_simps[OF h l] x)
  by (cases "sw_get_number_of_positions s extra") (auto simp: number_of_positions_response_def)

lemma remote_button:
  assumes h: "hosts sv cl b" and l: "\<not> st_is_ok lost" and x: "sendable extra"
  shows "bu_push (button_client cl (button_service sv lost)) extra =
    seen_remotely lost ''ButtonServer::Push'' (bu_push b extra)"
  unfolding button_client_def button_service_def by (simp add: remote_simps[OF h l] x)

text \<open>Kinematics: the model arrives under the resource's name, the raw file when there is one.\<close>

lemma remote_kinematic_model:
  assumes h: "hosts sv cl x" and l: "\<not> st_is_ok lost" and s: "sendable extra"
    and raw: "\<And>e. raw x extra = Inl e \<Longrightarrow> exn_condition e = Some K_not_supported"
  shows "call_get_kinematic_model cl (serve_get_kinematics sv lost label name raw model) options extra =
    rmap (\<lambda>m. received_model (named_model (name x) m)) (seen_remotely lost label (model x options extra))"
proof -
  obtain resp where resp: "raw_kinematics (raw x extra) = Inr resp"
    using raw by (cases "raw x extra") (auto simp: raw_kinematics_def)
  have o: "\<lparr>ko_include_collision_meshes = ko_include_collision_meshes options,
            ko_include_visual_meshes = ko_include_visual_meshes options\<rparr> = options"
    by simp
  show ?thesis
    unfolding call_get_kinematic_model_def serve_get_kinematics_def invoke_with_reply[OF h l s]
    by (cases "model x options extra")
      (simp_all add: s kinematics_response_def resp o kinematic_model_from_to)
qed

text \<open>A failure of the raw file that is not \<^verbatim>\<open>k_not_supported\<close> hides the model.\<close>

lemma remote_kinematic_model_hidden:
  assumes h: "hosts sv cl x" and l: "\<not> st_is_ok lost" and s: "sendable extra"
    and "raw x extra = Inl e" "exn_condition e \<noteq> Some K_not_supported"
  shows "call_get_kinematic_model cl (serve_get_kinematics sv lost label name raw model) options extra =
    Inl (wire_exn lost label e)"
  unfolding call_get_kinematic_model_def serve_get_kinematics_def invoke_with_reply[OF h l s]
  using assms(4,5) by (simp add: s kinematics_response_def raw_kinematics_def)

lemma holding_overload_blind: "is_holding_something0 g = is_holding_something0 g'"
  by (simp add: is_holding_something0_def)

end
