(* ===== verification/Sensors.thy ===== *)
theory Sensors
  imports Actuators
begin

text \<open>
  The components that measure: encoders, sensors, power sensors, movement sensors and pose trackers,
  and the generic component and service, which have only the methods every resource has. As in
  Actuators: the record of virtual methods, the client over a stub, the service over an
  implementation, and that the two together are the implementation again.
\<close>

subsection \<open>Single-precision values\<close>

text \<open>A \<^verbatim>\<open>float\<close> is its bit pattern.\<close>

definition flt_is_nan :: "32 word \<Rightarrow> bool" where
  "flt_is_nan f \<longleftrightarrow> unat f div 2 ^ 23 mod 2 ^ 8 = 255 \<and> unat f mod 2 ^ 23 \<noteq> 0"

definition flt_eq :: "32 word \<Rightarrow> 32 word \<Rightarrow> bool" where
  "flt_eq a b \<longleftrightarrow>
     \<not> flt_is_nan a \<and> \<not> flt_is_nan b
     \<and> (a = b \<or> a \<in> {0, 0x80000000} \<and> b \<in> {0, 0x80000000})"

subsection \<open>Encoders\<close>

text \<open>The underlying type of the enum is \<^verbatim>\<open>uint8_t\<close>, so it has values beyond its three constants.\<close>

datatype position_type =
  PT_unspecified | PT_ticks_count | PT_angle_degrees | PT_other "8 word"

datatype pb_position_type =
    POSITION_TYPE_UNSPECIFIED
  | POSITION_TYPE_TICKS_COUNT
  | POSITION_TYPE_ANGLE_DEGREES
  | POSITION_TYPE_other int

fun position_type_from_proto :: "pb_position_type \<Rightarrow> position_type res" where
  "position_type_from_proto POSITION_TYPE_UNSPECIFIED = Inr PT_unspecified"
| "position_type_from_proto POSITION_TYPE_ANGLE_DEGREES = Inr PT_angle_degrees"
| "position_type_from_proto POSITION_TYPE_TICKS_COUNT = Inr PT_ticks_count"
| "position_type_from_proto (POSITION_TYPE_other i) =
     Inl (sdk_exception K_not_supported ''Invalid proto encoder type to decode'')"

fun position_type_to_proto :: "position_type \<Rightarrow> pb_position_type res" where
  "position_type_to_proto PT_unspecified = Inr POSITION_TYPE_UNSPECIFIED"
| "position_type_to_proto PT_angle_degrees = Inr POSITION_TYPE_ANGLE_DEGREES"
| "position_type_to_proto PT_ticks_count = Inr POSITION_TYPE_TICKS_COUNT"
| "position_type_to_proto (PT_other i) =
     Inl (sdk_exception K_not_supported ''Invalid proto encoder type to encode'')"

fun position_type_known :: "position_type \<Rightarrow> bool" where
  "position_type_known (PT_other i) = False"
| "position_type_known t = True"

record encoder_position =
  ep_value :: "32 word"
  ep_type :: position_type

record encoder_properties =
  epr_ticks_count_supported :: bool
  epr_angle_degrees_supported :: bool

record encoder =
  en_get_position :: "proto_struct \<Rightarrow> position_type \<Rightarrow> encoder_position res"
  en_reset_position :: "proto_struct \<Rightarrow> unit res"
  en_get_properties :: "proto_struct \<Rightarrow> encoder_properties res"
  en_get_geometries :: "proto_struct \<Rightarrow> geometry_config list res"
  en_do_command :: "proto_struct \<Rightarrow> proto_struct res"
  en_get_status :: "proto_struct res"

definition encoder_position_eq :: "encoder_position \<Rightarrow> encoder_position \<Rightarrow> bool" where
  "encoder_position_eq l r \<longleftrightarrow> flt_eq (ep_value l) (ep_value r) \<and> ep_type l = ep_type r"

record encoder_stub =
  es_GetPosition :: "(pb_position_type, 32 word \<times> pb_position_type) rpc"
  es_ResetPosition :: "(unit, unit) rpc"
  es_GetProperties :: "(unit, bool \<times> bool) rpc"
  es_GetGeometries :: "(unit, pb_geometry list) rpc"
  es_DoCommand :: "(pb_struct, pb_struct) rpc"
  es_GetStatus :: "(unit, pb_struct) rpc"

definition encoder_position_from_proto :: "32 word \<times> pb_position_type \<Rightarrow> encoder_position res" where
  "encoder_position_from_proto p =
     rmap (\<lambda>t. \<lparr>ep_value = fst p, ep_type = t\<rparr>) (position_type_from_proto (snd p))"

definition encoder_position_to_proto :: "encoder_position \<Rightarrow> (32 word \<times> pb_position_type) res" where
  "encoder_position_to_proto p = rmap (Pair (ep_value p)) (position_type_to_proto (ep_type p))"

definition encoder_client :: "rpc_client \<Rightarrow> encoder_stub \<Rightarrow> encoder" where
  "encoder_client cl stub =
     \<lparr>en_get_position = (\<lambda>extra position_type.
        invoke_with cl (es_GetPosition stub) extra (position_type_to_proto position_type)
          encoder_position_from_proto),
      en_reset_position = (\<lambda>extra. invoke_with cl (es_ResetPosition stub) extra (Inr ()) Inr),
      en_get_properties = (\<lambda>extra. invoke_with cl (es_GetProperties stub) extra (Inr ())
        (\<lambda>(ticks, angle). Inr \<lparr>epr_ticks_count_supported = ticks, epr_angle_degrees_supported = angle\<rparr>)),
      en_get_geometries = call_get_geometries cl (es_GetGeometries stub),
      en_do_command = call_do_command cl (es_DoCommand stub),
      en_get_status = call_get_status cl (es_GetStatus stub)\<rparr>"

definition encoder_service :: "('r, encoder) rpc_server \<Rightarrow> status \<Rightarrow> encoder_stub" where
  "encoder_service sv lost =
     \<lparr>es_GetPosition =
        answer sv lost (0, POSITION_TYPE_UNSPECIFIED) ''EncoderServer::GetPosition'' (\<lambda>q encoder.
          reply (rbind (position_type_from_proto (rq_body q)) (\<lambda>t.
                 rbind (en_get_position encoder (request_extra q) t) encoder_position_to_proto))),
      es_ResetPosition = answer sv lost () ''EncoderServer::ResetPosition'' (\<lambda>q encoder.
        reply (en_reset_position encoder (request_extra q))),
      es_GetProperties = answer sv lost (False, False) ''EncoderServer::GetProperties'' (\<lambda>q encoder.
        reply (rmap (\<lambda>r. (epr_ticks_count_supported r, epr_angle_degrees_supported r))
                 (en_get_properties encoder (request_extra q)))),
      es_GetGeometries = serve_get_geometries sv lost ''EncoderServer::GetGeometries'' en_get_geometries,
      es_DoCommand = serve_do_command sv lost ''EncoderServer::DoCommand'' en_do_command,
      es_GetStatus = serve_get_status sv lost ''EncoderServer::GetStatus'' en_get_status\<rparr>"

subsection \<open>Sensors and power sensors\<close>

text \<open>Readings travel as the fields of a struct.\<close>

definition readings_from_proto :: "pb_struct \<Rightarrow> proto_struct" where
  "readings_from_proto readings =
     foldl (\<lambda>result r. emplace (fst r) (pv_from_value (snd r)) result) [] readings"

definition call_get_readings :: "rpc_client \<Rightarrow> (unit, pb_struct) rpc \<Rightarrow> proto_struct \<Rightarrow> proto_struct res" where
  "call_get_readings cl rpc extra = invoke_with cl rpc extra (Inr ()) (\<lambda>r. Inr (readings_from_proto r))"

definition serve_get_readings ::
  "('r, 'x) rpc_server \<Rightarrow> status \<Rightarrow> string \<Rightarrow> ('x \<Rightarrow> proto_struct \<Rightarrow> proto_struct res) \<Rightarrow> (unit, pb_struct) rpc"
where
  "serve_get_readings sv lost label get_readings =
     answer sv lost [] label (\<lambda>q x. reply (rmap struct_to_proto (get_readings x (request_extra q))))"

record sensor =
  sn_get_readings :: "proto_struct \<Rightarrow> proto_struct res"
  sn_do_command :: "proto_struct \<Rightarrow> proto_struct res"
  sn_get_status :: "proto_struct res"
  sn_get_geometries :: "proto_struct \<Rightarrow> geometry_config list res"

record sensor_stub =
  sns_GetReadings :: "(unit, pb_struct) rpc"
  sns_DoCommand :: "(pb_struct, pb_struct) rpc"
  sns_GetStatus :: "(unit, pb_struct) rpc"
  sns_GetGeometries :: "(unit, pb_geometry list) rpc"

definition sensor_client :: "rpc_client \<Rightarrow> sensor_stub \<Rightarrow> sensor" where
  "sensor_client cl stub =
     \<lparr>sn_get_readings = call_get_readings cl (sns_GetReadings stub),
      sn_do_command = call_do_command cl (sns_DoCommand stub),
      sn_get_status = call_get_status cl (sns_GetStatus stub),
      sn_get_geometries = call_get_geometries cl (sns_GetGeometries stub)\<rparr>"

definition sensor_service :: "('r, sensor) rpc_server \<Rightarrow> status \<Rightarrow> sensor_stub" where
  "sensor_service sv lost =
     \<lparr>sns_GetReadings = serve_get_readings sv lost ''SensorServer::GetReadings'' sn_get_readings,
      sns_DoCommand = serve_do_command sv lost ''SensorServer::DoCommand'' sn_do_command,
      sns_GetStatus = serve_get_status sv lost ''SensorServer::GetStatus'' sn_get_status,
      sns_GetGeometries = serve_get_geometries sv lost ''SensorServer::GetGeometries'' sn_get_geometries\<rparr>"

record voltage =
  vo_volts :: double
  vo_is_ac :: bool

record current =
  cu_amperes :: double
  cu_is_ac :: bool

record power_sensor =
  ps_get_voltage :: "proto_struct \<Rightarrow> voltage res"
  ps_get_current :: "proto_struct \<Rightarrow> current res"
  ps_get_power :: "proto_struct \<Rightarrow> double res"
  ps_get_readings :: "proto_struct \<Rightarrow> proto_struct res"
  ps_do_command :: "proto_struct \<Rightarrow> proto_struct res"
  ps_get_status :: "proto_struct res"

definition voltage_eq :: "voltage \<Rightarrow> voltage \<Rightarrow> bool" where
  "voltage_eq l r \<longleftrightarrow> dbl_eq (vo_volts l) (vo_volts r) \<and> vo_is_ac l = vo_is_ac r"

definition current_eq :: "current \<Rightarrow> current \<Rightarrow> bool" where
  "current_eq l r \<longleftrightarrow> dbl_eq (cu_amperes l) (cu_amperes r) \<and> cu_is_ac l = cu_is_ac r"

record power_sensor_stub =
  pss_GetVoltage :: "(unit, double \<times> bool) rpc"
  pss_GetCurrent :: "(unit, double \<times> bool) rpc"
  pss_GetPower :: "(unit, double) rpc"
  pss_GetReadings :: "(unit, pb_struct) rpc"
  pss_DoCommand :: "(pb_struct, pb_struct) rpc"
  pss_GetStatus :: "(unit, pb_struct) rpc"

definition power_sensor_client :: "rpc_client \<Rightarrow> power_sensor_stub \<Rightarrow> power_sensor" where
  "power_sensor_client cl stub =
     \<lparr>ps_get_voltage = (\<lambda>extra. invoke_with cl (pss_GetVoltage stub) extra (Inr ())
        (\<lambda>(volts, is_ac). Inr \<lparr>vo_volts = volts, vo_is_ac = is_ac\<rparr>)),
      ps_get_current = (\<lambda>extra. invoke_with cl (pss_GetCurrent stub) extra (Inr ())
        (\<lambda>(amperes, is_ac). Inr \<lparr>cu_amperes = amperes, cu_is_ac = is_ac\<rparr>)),
      ps_get_power = (\<lambda>extra. invoke_with cl (pss_GetPower stub) extra (Inr ()) Inr),
      ps_get_readings = call_get_readings cl (pss_GetReadings stub),
      ps_do_command = call_do_command cl (pss_DoCommand stub),
      ps_get_status = call_get_status cl (pss_GetStatus stub)\<rparr>"

definition power_sensor_service :: "('r, power_sensor) rpc_server \<Rightarrow> status \<Rightarrow> power_sensor_stub" where
  "power_sensor_service sv lost =
     \<lparr>pss_GetVoltage = answer sv lost (0, False) ''PowerSensorServer::GetVoltage'' (\<lambda>q powersensor.
        reply (rmap (\<lambda>v. (vo_volts v, vo_is_ac v)) (ps_get_voltage powersensor (request_extra q)))),
      pss_GetCurrent = answer sv lost (0, False) ''PowerSensorServer::GetCurrent'' (\<lambda>q powersensor.
        reply (rmap (\<lambda>c. (cu_amperes c, cu_is_ac c)) (ps_get_current powersensor (request_extra q)))),
      pss_GetPower = answer sv lost 0 ''PowerSensorServer::GetPower'' (\<lambda>q powersensor.
        reply (ps_get_power powersensor (request_extra q))),
      pss_GetReadings = serve_get_readings sv lost ''PowerSensorServer::GetReadings'' ps_get_readings,
      pss_DoCommand = serve_do_command sv lost ''PowerSensorServer::DoCommand'' ps_do_command,
      pss_GetStatus = serve_get_status sv lost ''PowerSensorServer::GetStatus'' ps_get_status\<rparr>"

subsection \<open>Movement sensors\<close>

record movement_position =
  mp_coordinate :: geo_point
  mp_altitude_m :: "32 word"

record movement_orientation =
  mor_o_x :: double
  mor_o_y :: double
  mor_o_z :: double
  mor_theta :: double

record movement_properties =
  mpr_linear_velocity_supported :: bool
  mpr_angular_velocity_supported :: bool
  mpr_orientation_supported :: bool
  mpr_position_supported :: bool
  mpr_compass_heading_supported :: bool
  mpr_linear_acceleration_supported :: bool

record movement_sensor =
  mv_get_linear_velocity :: "proto_struct \<Rightarrow> vector3 res"
  mv_get_angular_velocity :: "proto_struct \<Rightarrow> vector3 res"
  mv_get_compass_heading :: "proto_struct \<Rightarrow> double res"
  mv_get_orientation :: "proto_struct \<Rightarrow> movement_orientation res"
  mv_get_position :: "proto_struct \<Rightarrow> movement_position res"
  mv_get_properties :: "proto_struct \<Rightarrow> movement_properties res"
  mv_get_accuracy :: "proto_struct \<Rightarrow> (string \<times> 32 word) list res"
  mv_get_linear_acceleration :: "proto_struct \<Rightarrow> vector3 res"
  mv_do_command :: "proto_struct \<Rightarrow> proto_struct res"
  mv_get_status :: "proto_struct res"
  mv_get_geometries :: "proto_struct \<Rightarrow> geometry_config list res"

definition movement_position_eq :: "movement_position \<Rightarrow> movement_position \<Rightarrow> bool" where
  "movement_position_eq l r \<longleftrightarrow>
     geo_point_eq (mp_coordinate l) (mp_coordinate r) \<and> flt_eq (mp_altitude_m l) (mp_altitude_m r)"

record pb_orientation_message =
  po_x :: double
  po_y :: double
  po_z :: double
  po_theta :: double

definition pb_orientation_message_default :: pb_orientation_message where
  "pb_orientation_message_default = \<lparr>po_x = 0, po_y = 0, po_z = 0, po_theta = 0\<rparr>"

record pb_movement_position =
  pmp_coordinate :: "pb_geo_point option"
  pmp_altitude_m :: "32 word"

record pb_movement_properties =
  pmpr_linear_velocity_supported :: bool
  pmpr_angular_velocity_supported :: bool
  pmpr_orientation_supported :: bool
  pmpr_position_supported :: bool
  pmpr_compass_heading_supported :: bool
  pmpr_linear_acceleration_supported :: bool

definition movement_orientation_to_proto :: "movement_orientation \<Rightarrow> pb_orientation_message" where
  [conv_defs]: "movement_orientation_to_proto r =
     \<lparr>po_x = mor_o_x r, po_y = mor_o_y r, po_z = mor_o_z r, po_theta = mor_theta r\<rparr>"

definition movement_orientation_from_proto :: "pb_orientation_message \<Rightarrow> movement_orientation" where
  [conv_defs]: "movement_orientation_from_proto p =
     \<lparr>mor_o_x = po_x p, mor_o_y = po_y p, mor_o_z = po_z p, mor_theta = po_theta p\<rparr>"

definition movement_position_to_proto :: "movement_position \<Rightarrow> pb_movement_position" where
  [conv_defs]: "movement_position_to_proto r =
     \<lparr>pmp_coordinate = Some (geo_point_to_proto (mp_coordinate r)), pmp_altitude_m = mp_altitude_m r\<rparr>"

definition movement_position_from_proto :: "pb_movement_position \<Rightarrow> movement_position" where
  [conv_defs]: "movement_position_from_proto p =
     \<lparr>mp_coordinate = geo_point_from_proto (submsg pb_geo_point_default (pmp_coordinate p)),
      mp_altitude_m = pmp_altitude_m p\<rparr>"

definition movement_properties_to_proto :: "movement_properties \<Rightarrow> pb_movement_properties" where
  [conv_defs]: "movement_properties_to_proto r =
     \<lparr>pmpr_linear_velocity_supported = mpr_linear_velocity_supported r,
      pmpr_angular_velocity_supported = mpr_angular_velocity_supported r,
      pmpr_orientation_supported = mpr_orientation_supported r,
      pmpr_position_supported = mpr_position_supported r,
      pmpr_compass_heading_supported = mpr_compass_heading_supported r,
      pmpr_linear_acceleration_supported = mpr_linear_acceleration_supported r\<rparr>"

definition movement_properties_from_proto :: "pb_movement_properties \<Rightarrow> movement_properties" where
  [conv_defs]: "movement_properties_from_proto p =
     \<lparr>mpr_linear_velocity_supported = pmpr_linear_velocity_supported p,
      mpr_angular_velocity_supported = pmpr_angular_velocity_supported p,
      mpr_orientation_supported = pmpr_orientation_supported p,
      mpr_position_supported = pmpr_position_supported p,
      mpr_compass_heading_supported = pmpr_compass_heading_supported p,
      mpr_linear_acceleration_supported = pmpr_linear_acceleration_supported p\<rparr>"

text \<open>Accuracies are inserted entry by entry, at either end.\<close>

definition accuracy_entries :: "(string \<times> 32 word) list \<Rightarrow> (string \<times> 32 word) list" where
  "accuracy_entries result = foldl (\<lambda>m i. emplace (fst i) (snd i) m) [] result"

record movement_sensor_stub =
  mvs_GetLinearVelocity :: "(unit, pb_vector3 option) rpc"
  mvs_GetAngularVelocity :: "(unit, pb_vector3 option) rpc"
  mvs_GetCompassHeading :: "(unit, double) rpc"
  mvs_GetOrientation :: "(unit, pb_orientation_message option) rpc"
  mvs_GetPosition :: "(unit, pb_movement_position) rpc"
  mvs_GetProperties :: "(unit, pb_movement_properties) rpc"
  mvs_GetAccuracy :: "(unit, (string \<times> 32 word) list) rpc"
  mvs_GetLinearAcceleration :: "(unit, pb_vector3 option) rpc"
  mvs_DoCommand :: "(pb_struct, pb_struct) rpc"
  mvs_GetStatus :: "(unit, pb_struct) rpc"
  mvs_GetGeometries :: "(unit, pb_geometry list) rpc"

definition call_vector :: "rpc_client \<Rightarrow> (unit, pb_vector3 option) rpc \<Rightarrow> proto_struct \<Rightarrow> vector3 res" where
  "call_vector cl rpc extra =
     invoke_with cl rpc extra (Inr ()) (\<lambda>v. Inr (vector3_from_proto (submsg pb_vector3_default v)))"

definition serve_vector ::
  "('r, 'x) rpc_server \<Rightarrow> status \<Rightarrow> string \<Rightarrow> ('x \<Rightarrow> proto_struct \<Rightarrow> vector3 res) \<Rightarrow> (unit, pb_vector3 option) rpc"
where
  "serve_vector sv lost label get =
     answer sv lost None label (\<lambda>q x. reply (rmap (\<lambda>v. Some (vector3_to_proto v)) (get x (request_extra q))))"

definition movement_sensor_client :: "rpc_client \<Rightarrow> movement_sensor_stub \<Rightarrow> movement_sensor" where
  "movement_sensor_client cl stub =
     \<lparr>mv_get_linear_velocity = call_vector cl (mvs_GetLinearVelocity stub),
      mv_get_angular_velocity = call_vector cl (mvs_GetAngularVelocity stub),
      mv_get_compass_heading = (\<lambda>extra. invoke_with cl (mvs_GetCompassHeading stub) extra (Inr ()) Inr),
      mv_get_orientation = (\<lambda>extra. invoke_with cl (mvs_GetOrientation stub) extra (Inr ())
        (\<lambda>p. Inr (movement_orientation_from_proto (submsg pb_orientation_message_default p)))),
      mv_get_position = (\<lambda>extra. invoke_with cl (mvs_GetPosition stub) extra (Inr ())
        (\<lambda>p. Inr (movement_position_from_proto p))),
      mv_get_properties = (\<lambda>extra. invoke_with cl (mvs_GetProperties stub) extra (Inr ())
        (\<lambda>p. Inr (movement_properties_from_proto p))),
      mv_get_accuracy = (\<lambda>extra. invoke_with cl (mvs_GetAccuracy stub) extra (Inr ())
        (\<lambda>p. Inr (accuracy_entries p))),
      mv_get_linear_acceleration = call_vector cl (mvs_GetLinearAcceleration stub),
      mv_do_command = call_do_command cl (mvs_DoCommand stub),
      mv_get_status = call_get_status cl (mvs_GetStatus stub),
      mv_get_geometries = call_get_geometries cl (mvs_GetGeometries stub)\<rparr>"

definition movement_sensor_service ::
  "('r, movement_sensor) rpc_server \<Rightarrow> status \<Rightarrow> movement_sensor_stub" where
  "movement_sensor_service sv lost =
     \<lparr>mvs_GetLinearVelocity =
        serve_vector sv lost ''MovementSensorServer::GetLinearVelocity'' mv_get_linear_velocity,
      mvs_GetAngularVelocity =
        serve_vector sv lost ''MovementSensorServer::GetAngularVelocity'' mv_get_angular_velocity,
      mvs_GetCompassHeading = answer sv lost 0 ''MovementSensorServer::GetCompassHeading'' (\<lambda>q ms.
        reply (mv_get_compass_heading ms (request_extra q))),
      mvs_GetOrientation = answer sv lost None ''MovementSensorServer::GetOrientation'' (\<lambda>q ms.
        reply (rmap (\<lambda>r. Some (movement_orientation_to_proto r)) (mv_get_orientation ms (request_extra q)))),
      mvs_GetPosition =
        answer sv lost \<lparr>pmp_coordinate = None, pmp_altitude_m = 0\<rparr> ''MovementSensorServer::GetPosition''
          (\<lambda>q ms. reply (rmap movement_position_to_proto (mv_get_position ms (request_extra q)))),
      mvs_GetProperties =
        answer sv lost (movement_properties_to_proto
            \<lparr>mpr_linear_velocity_supported = False, mpr_angular_velocity_supported = False,
             mpr_orientation_supported = False, mpr_position_supported = False,
             mpr_compass_heading_supported = False, mpr_linear_acceleration_supported = False\<rparr>)
          ''MovementSensorServer::GetProperties''
          (\<lambda>q ms. reply (rmap movement_properties_to_proto (mv_get_properties ms (request_extra q)))),
      mvs_GetAccuracy = answer sv lost [] ''MovementSensorServer::GetAccuracy'' (\<lambda>q ms.
        reply (rmap accuracy_entries (mv_get_accuracy ms (request_extra q)))),
      mvs_GetLinearAcceleration =
        serve_vector sv lost ''MovementSensorServer::GetLinearAcceleration'' mv_get_linear_acceleration,
      mvs_DoCommand = serve_do_command sv lost ''MovementSensorServer::DoCommand'' mv_do_command,
      mvs_GetStatus = serve_get_status sv lost ''MovementSensorServer::GetStatus'' mv_get_status,
      mvs_GetGeometries =
        serve_get_geometries sv lost ''MovementSensorServer::GetGeometries'' mv_get_geometries\<rparr>"

subsection \<open>Pose trackers\<close>

type_synonym pose_map = "(string \<times> pose_in_frame) list"

record pose_tracker =
  pt_get_poses :: "string list \<Rightarrow> proto_struct \<Rightarrow> pose_map res"
  pt_do_command :: "proto_struct \<Rightarrow> proto_struct res"
  pt_get_status :: "proto_struct res"
  pt_get_geometries :: "proto_struct \<Rightarrow> geometry_config list res"

record pose_tracker_stub =
  pts_GetPoses :: "(string list, (string \<times> pb_pose_in_frame) list) rpc"
  pts_DoCommand :: "(pb_struct, pb_struct) rpc"
  pts_GetStatus :: "(unit, pb_struct) rpc"
  pts_GetGeometries :: "(unit, pb_geometry list) rpc"

definition poses_to_proto :: "pose_map \<Rightarrow> (string \<times> pb_pose_in_frame) list" where
  "poses_to_proto m = foldl (\<lambda>r e. emplace (fst e) (pose_in_frame_to_proto (snd e)) r) [] m"

definition poses_from_proto :: "(string \<times> pb_pose_in_frame) list \<Rightarrow> pose_map" where
  "poses_from_proto m = foldl (\<lambda>r e. emplace (fst e) (pose_in_frame_from_proto (snd e)) r) [] m"

text \<open>The client's \<^verbatim>\<open>get_poses\<close> leaves its extra arguments unnamed and unsent.\<close>

definition pose_tracker_client :: "rpc_client \<Rightarrow> pose_tracker_stub \<Rightarrow> pose_tracker" where
  "pose_tracker_client cl stub =
     \<lparr>pt_get_poses = (\<lambda>body_names _. invoke_plain cl (pts_GetPoses stub) (Inr body_names)
        (\<lambda>p. Inr (poses_from_proto p))),
      pt_do_command = call_do_command cl (pts_DoCommand stub),
      pt_get_status = call_get_status cl (pts_GetStatus stub),
      pt_get_geometries = call_get_geometries cl (pts_GetGeometries stub)\<rparr>"

definition pose_tracker_service :: "('r, pose_tracker) rpc_server \<Rightarrow> status \<Rightarrow> pose_tracker_stub" where
  "pose_tracker_service sv lost =
     \<lparr>pts_GetPoses = answer sv lost [] ''PoseTrackerServer::GetPoses'' (\<lambda>q pose_tracker.
        reply (rmap poses_to_proto (pt_get_poses pose_tracker (rq_body q) (request_extra q)))),
      pts_DoCommand = serve_do_command sv lost ''PoseTrackerServer::DoCommand'' pt_do_command,
      pts_GetStatus = serve_get_status sv lost ''PoseTrackerServer::GetStatus'' pt_get_status,
      pts_GetGeometries = serve_get_geometries sv lost ''PoseTrackerServer::GetGeometries'' pt_get_geometries\<rparr>"

subsection \<open>Generic components and services\<close>

record generic_component =
  gc_do_command :: "proto_struct \<Rightarrow> proto_struct res"
  gc_get_status :: "proto_struct res"
  gc_get_geometries :: "proto_struct \<Rightarrow> geometry_config list res"

record generic_component_stub =
  gcs_DoCommand :: "(pb_struct, pb_struct) rpc"
  gcs_GetStatus :: "(unit, pb_struct) rpc"
  gcs_GetGeometries :: "(unit, pb_geometry list) rpc"

definition generic_component_client :: "rpc_client \<Rightarrow> generic_component_stub \<Rightarrow> generic_component" where
  "generic_component_client cl stub =
     \<lparr>gc_do_command = call_do_command cl (gcs_DoCommand stub),
      gc_get_status = call_get_status cl (gcs_GetStatus stub),
      gc_get_geometries = call_get_geometries cl (gcs_GetGeometries stub)\<rparr>"

definition generic_component_service ::
  "('r, generic_component) rpc_server \<Rightarrow> status \<Rightarrow> generic_component_stub" where
  "generic_component_service sv lost =
     \<lparr>gcs_DoCommand = serve_do_command sv lost ''GenericComponentServer::DoCommand'' gc_do_command,
      gcs_GetStatus = serve_get_status sv lost ''GenericComponentServer::GetStatus'' gc_get_status,
      gcs_GetGeometries =
        serve_get_geometries sv lost ''GenericComponentServer::GetGeometries'' gc_get_geometries\<rparr>"

record generic_service =
  gv_do_command :: "proto_struct \<Rightarrow> proto_struct res"
  gv_get_status :: "proto_struct res"

record generic_service_stub =
  gvs_DoCommand :: "(pb_struct, pb_struct) rpc"
  gvs_GetStatus :: "(unit, pb_struct) rpc"

definition generic_service_client :: "rpc_client \<Rightarrow> generic_service_stub \<Rightarrow> generic_service" where
  "generic_service_client cl stub =
     \<lparr>gv_do_command = call_do_command cl (gvs_DoCommand stub),
      gv_get_status = call_get_status cl (gvs_GetStatus stub)\<rparr>"

definition generic_service_server ::
  "('r, generic_service) rpc_server \<Rightarrow> status \<Rightarrow> generic_service_stub" where
  "generic_service_server sv lost =
     \<lparr>gvs_DoCommand = serve_do_command sv lost ''GenericServiceServer::DoCommand'' gv_do_command,
      gvs_GetStatus = serve_get_status sv lost ''GenericServiceServer::GetStatus'' gv_get_status\<rparr>"

subsection \<open>Lemmas: remote sensors\<close>

lemma foldl_emplace_map:
  "foldl (\<lambda>r e. emplace (fst e) (f (snd e)) r) [] m = insert_all (map (\<lambda>e. (fst e, f (snd e))) m)"
  by (simp add: insert_all_def foldl_map)

lemma sensor_record_ids [simp]:
  "\<lparr>vo_volts = vo_volts v, vo_is_ac = vo_is_ac v\<rparr> = v"
  "\<lparr>cu_amperes = cu_amperes c, cu_is_ac = cu_is_ac c\<rparr> = c"
  "\<lparr>epr_ticks_count_supported = epr_ticks_count_supported e,
    epr_angle_degrees_supported = epr_angle_degrees_supported e\<rparr> = e"
  by simp_all

lemma readings_struct: "readings_from_proto p = struct_from_proto p"
  by (simp add: readings_from_proto_def struct_from_proto_def foldl_emplace_map)

lemma accuracy_id [simp]: "awf m \<Longrightarrow> accuracy_entries m = m"
  using insert_all_distinct[of m] by (simp add: accuracy_entries_def insert_all_def)

lemma poses_from_to: "awf m \<Longrightarrow> poses_from_proto (poses_to_proto m) = m"
  by (simp add: poses_from_proto_def poses_to_proto_def foldl_emplace_map map_from_to_entries
      pose_in_frame_codec.from_to_total)

interpretation position_type_codec:
  proto_codec "\<lambda>t. case position_type_to_proto t of Inr p \<Rightarrow> p | Inl e \<Rightarrow> POSITION_TYPE_UNSPECIFIED"
    position_type_from_proto position_type_known
proof
  fix t assume "position_type_known t"
  then show "position_type_from_proto
      (case position_type_to_proto t of Inr p \<Rightarrow> p | Inl e \<Rightarrow> POSITION_TYPE_UNSPECIFIED) = Inr t"
    by (cases t) simp_all
qed

interpretation movement_orientation_codec:
  total_codec movement_orientation_to_proto movement_orientation_from_proto
  by unfold_locales (simp add: conv_defs)

interpretation movement_position_codec: total_codec movement_position_to_proto movement_position_from_proto
  by unfold_locales (simp add: movement_position_to_proto_def movement_position_from_proto_def
      geo_point_codec.from_to_total)

interpretation movement_properties_codec:
  total_codec movement_properties_to_proto movement_properties_from_proto
  by unfold_locales (simp add: conv_defs)

lemma position_type_trip: "position_type_to_proto t = Inr p \<Longrightarrow> position_type_from_proto p = Inr t"
  by (cases t) auto

lemma encoder_position_trip:
  "encoder_position_to_proto p = Inr q \<Longrightarrow> encoder_position_from_proto q = Inr p"
  by (cases p; cases "ep_type p")
    (auto simp: encoder_position_to_proto_def encoder_position_from_proto_def)

lemma remote_encoder:
  assumes h: "hosts sv cl e" and l: "\<not> st_is_ok lost" and x: "sendable extra"
  defines "remote \<equiv> encoder_client cl (encoder_service sv lost)"
  shows "en_reset_position remote extra =
           seen_remotely lost ''EncoderServer::ResetPosition'' (en_reset_position e extra)"
    and "en_get_properties remote extra =
           seen_remotely lost ''EncoderServer::GetProperties'' (en_get_properties e extra)"
    and "position_type_known t \<Longrightarrow> en_get_position remote extra t =
           seen_remotely lost ''EncoderServer::GetPosition''
             (rbind (en_get_position e extra t) (\<lambda>p. rmap (\<lambda>_. p) (encoder_position_to_proto p)))"
    and "invoke_with cl rpc extra (position_type_to_proto (PT_other i)) rhc =
           Inl (sdk_exception K_not_supported ''Invalid proto encoder type to encode'')"
proof -
  show "en_reset_position remote extra =
           seen_remotely lost ''EncoderServer::ResetPosition'' (en_reset_position e extra)"
    "en_get_properties remote extra =
           seen_remotely lost ''EncoderServer::GetProperties'' (en_get_properties e extra)"
    unfolding remote_def encoder_client_def encoder_service_def
    by (simp_all add: remote_simps[OF h l] x)
next
  assume "position_type_known t"
  then obtain p where p: "position_type_to_proto t = Inr p"
    by (cases t) auto
  show "en_get_position remote extra t =
           seen_remotely lost ''EncoderServer::GetPosition''
             (rbind (en_get_position e extra t) (\<lambda>p. rmap (\<lambda>_. p) (encoder_position_to_proto p)))"
    unfolding remote_def encoder_client_def encoder_service_def
    by (simp add: remote_simps[OF h l] x p position_type_trip[OF p] seen_encoded[OF encoder_position_trip])
next
  obtain key where k: "call_with_extra (\<lambda>s q. q\<lparr>rq_extra := Some s\<rparr>) extra Inr
      \<lparr>cc_debug_key = [], cc_request = \<lparr>rq_name = [], rq_extra = None, rq_body = ()\<rparr>\<rparr> =
    Inr \<lparr>cc_debug_key = key,
         cc_request = \<lparr>rq_name = [], rq_extra = Some (struct_to_proto extra), rq_body = ()\<rparr>\<rparr>"
    using sendable_setup[OF x] by blast
  show "invoke_with cl rpc extra (position_type_to_proto (PT_other i)) rhc =
           Inl (sdk_exception K_not_supported ''Invalid proto encoder type to encode'')"
    by (simp add: invoke_with_def k client_invoke_def)
qed

lemma remote_readings:
  assumes h: "hosts sv cl s" and l: "\<not> st_is_ok lost" and x: "sendable extra"
    and wf: "\<And>r. f s extra = Inr r \<Longrightarrow> ps_wf r"
  shows "call_get_readings cl (serve_get_readings sv lost label f) extra = seen_remotely lost label (f s extra)"
  unfolding call_get_readings_def serve_get_readings_def
  using wf by (cases "f s extra") (auto simp: remote_simps[OF h l] x readings_struct struct_from_to)

lemma remote_vector:
  assumes h: "hosts sv cl s" and l: "\<not> st_is_ok lost" and x: "sendable extra"
  shows "call_vector cl (serve_vector sv lost label f) extra = seen_remotely lost label (f s extra)"
  unfolding call_vector_def serve_vector_def
  by (simp add: remote_simps[OF h l] x vector3_codec.from_to_total)

lemma remote_power_sensor:
  assumes h: "hosts sv cl s" and l: "\<not> st_is_ok lost" and x: "sendable extra"
  defines "remote \<equiv> power_sensor_client cl (power_sensor_service sv lost)"
  shows "ps_get_voltage remote extra =
           seen_remotely lost ''PowerSensorServer::GetVoltage'' (ps_get_voltage s extra)"
    and "ps_get_current remote extra =
           seen_remotely lost ''PowerSensorServer::GetCurrent'' (ps_get_current s extra)"
    and "ps_get_power remote extra = seen_remotely lost ''PowerSensorServer::GetPower'' (ps_get_power s extra)"
  unfolding remote_def power_sensor_client_def power_sensor_service_def
  by (simp_all add: remote_simps[OF h l] x)

lemma remote_movement_sensor:
  assumes h: "hosts sv cl s" and l: "\<not> st_is_ok lost" and x: "sendable extra"
  defines "remote \<equiv> movement_sensor_client cl (movement_sensor_service sv lost)"
  shows "mv_get_linear_velocity remote extra =
           seen_remotely lost ''MovementSensorServer::GetLinearVelocity'' (mv_get_linear_velocity s extra)"
    and "mv_get_angular_velocity remote extra =
           seen_remotely lost ''MovementSensorServer::GetAngularVelocity'' (mv_get_angular_velocity s extra)"
    and "mv_get_linear_acceleration remote extra =
           seen_remotely lost ''MovementSensorServer::GetLinearAcceleration'' (mv_get_linear_acceleration s extra)"
    and "mv_get_compass_heading remote extra =
           seen_remotely lost ''MovementSensorServer::GetCompassHeading'' (mv_get_compass_heading s extra)"
    and "mv_get_orientation remote extra =
           seen_remotely lost ''MovementSensorServer::GetOrientation'' (mv_get_orientation s extra)"
    and "mv_get_position remote extra =
           seen_remotely lost ''MovementSensorServer::GetPosition'' (mv_get_position s extra)"
    and "mv_get_properties remote extra =
           seen_remotely lost ''MovementSensorServer::GetProperties'' (mv_get_properties s extra)"
    and "(\<And>m. mv_get_accuracy s extra = Inr m \<Longrightarrow> awf m) \<Longrightarrow> mv_get_accuracy remote extra =
           seen_remotely lost ''MovementSensorServer::GetAccuracy'' (mv_get_accuracy s extra)"
  unfolding remote_def movement_sensor_client_def movement_sensor_service_def
         apply (simp_all add: remote_simps[OF h l] remote_vector[OF h l] x
      movement_orientation_codec.from_to_total movement_position_codec.from_to_total
      movement_properties_codec.from_to_total)
  by (cases "mv_get_accuracy s extra") simp_all

text \<open>A remote pose tracker never passes extra arguments on.\<close>

lemma remote_pose_tracker:
  assumes h: "hosts sv cl t" and l: "\<not> st_is_ok lost"
    and wf: "\<And>m. pt_get_poses t names [] = Inr m \<Longrightarrow> awf m"
  shows "pt_get_poses (pose_tracker_client cl (pose_tracker_service sv lost)) names extra =
    seen_remotely lost ''PoseTrackerServer::GetPoses'' (pt_get_poses t names [])"
proof -
  have e: "request_extra \<lparr>rq_name = n, rq_extra = None, rq_body = b\<rparr> = []" for n b
    by (simp add: request_extra_def get_extra_def struct_from_proto_def insert_all_def)
  show ?thesis
    unfolding pose_tracker_client_def pose_tracker_service_def
    using wf by (cases "pt_get_poses t names []") (auto simp: remote_simps[OF h l] e poses_from_to)
qed

end
