(* ===== verification/Streaming.thy ===== *)
theory Streaming
  imports Remote
begin

text \<open>
  Methods that answer with a stream: the implementation is given a handler and calls it with one item
  after another; the server's handler writes each item to the wire, and the client feeds what it reads
  to the caller's handler (\<^verbatim>\<open>invoke_stream\<close>). The theory holds the two ends once, for the ticks
  of boards and the chunks of audio inputs.
\<close>

text \<open>
  An implementation, seen from the handler it is given: it ends with a result, or calls the handler
  with an item and goes on with the handler's answer (an exception of the handler being one). Every
  implementation considered returns at last.
\<close>

datatype 'a source = Source_end "unit res" | Source_emit 'a "bool res \<Rightarrow> 'a source"

primrec run_source :: "'a source \<Rightarrow> ('a \<Rightarrow> 's \<Rightarrow> bool res \<times> 's) \<Rightarrow> 's \<Rightarrow> unit res \<times> 's" where
  "run_source (Source_end r) = (\<lambda>h s. (r, s))"
| "run_source (Source_emit t k) =
     (\<lambda>h s. case h t s of (ans, s') \<Rightarrow> run_source (k ans) h s')"

text \<open>A streaming method of a stub: the responses the reader will see, and the status \<^verbatim>\<open>Finish\<close>
  tells, given whether the client cancelled.\<close>

type_synonym ('b, 'p) stream_rpc = "metadata \<Rightarrow> 'b pb_request \<Rightarrow> 'p list \<times> (bool \<Rightarrow> status)"

subsection \<open>The client's end\<close>

text \<open>What \<^verbatim>\<open>invoke_stream\<close> does with each answer of the caller's handler.\<close>

fun stream_source :: "('p \<Rightarrow> 'a) \<Rightarrow> 'p list \<Rightarrow> (bool \<Rightarrow> status) \<Rightarrow> 'a source" where
  "stream_source dec [] finish =
     Source_end (if st_is_ok (finish False) then Inr () else Inl (run_ehc default_ehc (finish False)))"
| "stream_source dec (p # ps) finish =
     Source_emit (dec p) (\<lambda>ans. case ans of
        Inl e \<Rightarrow> Source_end (Inl e)
      | Inr True \<Rightarrow> stream_source dec ps finish
      | Inr False \<Rightarrow>
          Source_end (if st_is_ok (finish True) \<or> st_code (finish True) = CANCELLED then Inr ()
                      else Inl (run_ehc default_ehc (finish True))))"

text \<open>\<^verbatim>\<open>with(extra, setup).invoke_stream(handler)\<close>: the debug key is read, and not sent.\<close>

definition call_stream ::
  "rpc_client \<Rightarrow> ('b, 'p) stream_rpc \<Rightarrow> proto_struct \<Rightarrow> 'b \<Rightarrow> ('p \<Rightarrow> 'a) \<Rightarrow> 'a source" where
  "call_stream cl rpc extra b dec =
     (case debug_map_value extra of
        Inl e \<Rightarrow> Source_end (Inl e)
      | Inr _ \<Rightarrow>
          (let out = rpc (client_context (rc_version cl) (rc_token cl))
                       \<lparr>rq_name = rc_name cl, rq_extra = Some (struct_to_proto extra), rq_body = b\<rparr>
           in stream_source dec (fst out) (snd out)))"

subsection \<open>The server's end\<close>

text \<open>The handler given to the implementation: its state counts the calls and keeps what was
  written. \<open>cancelled n\<close> is what \<^verbatim>\<open>IsCancelled\<close> tells the n-th call.\<close>

definition write_item ::
  "(nat \<Rightarrow> bool) \<Rightarrow> ('a \<Rightarrow> 'p) \<Rightarrow> 'a \<Rightarrow> nat \<times> 'p list \<Rightarrow> bool res \<times> (nat \<times> 'p list)" where
  "write_item cancelled enc item s =
     (if cancelled (fst s) then (Inr False, (fst s + 1, snd s))
      else (Inr True, (fst s + 1, snd s @ [enc item])))"

text \<open>\<open>finish\<close> is what \<^verbatim>\<open>Finish\<close> tells a client that cancelled a call the server ended with a status.\<close>

definition serve_stream ::
  "('r, 'x) rpc_server \<Rightarrow> status \<Rightarrow> string \<Rightarrow> ('b pb_request \<Rightarrow> 'x \<Rightarrow> 'a source) \<Rightarrow> ('a \<Rightarrow> 'p) \<Rightarrow>
   (nat \<Rightarrow> bool) \<Rightarrow> (status \<Rightarrow> status) \<Rightarrow> ('b, 'p) stream_rpc" where
  "serve_stream sv lost label start enc cancelled finish md q =
     (let run = (\<lambda>x. run_source (start q x) (write_item cancelled enc) (0, []));
          written = (case Option.bind (manager_resource (rs_manager sv) (rq_name q)) (rs_cast sv) of
                       Some x \<Rightarrow> snd (snd (run x)) | None \<Rightarrow> []);
          st = (case service_helper None (Some md) rq_name (rs_manager sv) (rs_cast sv) label (Some q)
                       (\<lambda>x. rmap (\<lambda>_. status_ok) (fst (run x))) of
                  Inr st \<Rightarrow> st | Inl e \<Rightarrow> lost)
      in (written, \<lambda>c. if c then finish st else st))"

subsection \<open>Lemmas\<close>

text \<open>The client's source is \<^verbatim>\<open>invoke_stream\<close> with the caller's handler.\<close>

lemma stream_source_run:
  "run_source (stream_source dec ps finish) h s = invoke_stream ps finish (\<lambda>p. h (dec p)) default_ehc s"
proof (induction ps arbitrary: s)
  case (Cons p ps)
  obtain b s' where h: "h (dec p) s = (b, s')" by (cases "h (dec p) s")
  show ?case
    using Cons.IH[of s']
    by (cases b rule: sum.exhaust)
      (auto simp: h invoke_stream_def Let_def split: bool.split)
qed (simp add: invoke_stream_def Let_def)

text \<open>What a source emits while every answer is yes, and how it ends then.\<close>

primrec accepted :: "'a source \<Rightarrow> 'a list" where
  "accepted (Source_end r) = []"
| "accepted (Source_emit t k) = t # accepted (k (Inr True))"

primrec source_result :: "'a source \<Rightarrow> unit res" where
  "source_result (Source_end r) = r"
| "source_result (Source_emit t k) = source_result (k (Inr True))"

lemma run_source_accepting:
  assumes "\<And>t s. fst (h t s) = Inr True"
  shows "run_source src h s = (source_result src, foldl (\<lambda>s t. snd (h t s)) s (accepted src))"
proof (induction src arbitrary: s)
  case (Source_emit t k)
  obtain s' where "h t s = (Inr True, s')"
    using assms[of t s] by (cases "h t s") auto
  then show ?case using Source_emit.IH[OF rangeI, of "Inr True" s'] by simp
qed simp

lemma write_item_pair [simp]:
  "write_item cancelled enc t (n, out) =
   (if cancelled n then (Inr False, (Suc n, out)) else (Inr True, (Suc n, out @ [enc t])))"
  by (simp add: write_item_def)

lemma write_items_uncancelled:
  "(\<And>n. \<not> cancelled n) \<Longrightarrow>
   foldl (\<lambda>s t. snd (write_item cancelled enc t s)) (n, out) ts = (n + length ts, out @ map enc ts)"
  by (induction ts arbitrary: n out) auto

text \<open>The server stops writing at the first item it finds the call cancelled at.\<close>

lemma written_after_cancel:
  assumes "\<And>n. cancelled n \<Longrightarrow> cancelled (Suc n)" and "cancelled n"
  shows "snd (snd (run_source src (write_item cancelled enc) (n, out))) = out"
  using assms(2) by (induction src arbitrary: n) (auto simp: assms(1))

lemma written_prefix:
  assumes "\<And>n. cancelled n \<Longrightarrow> cancelled (Suc n)"
  shows "\<exists>m. snd (snd (run_source src (write_item cancelled enc) (n, out))) =
             out @ map enc (take m (accepted src))"
proof (induction src arbitrary: n out)
  case (Source_emit t k)
  show ?case
  proof (cases "cancelled n")
    case True
    then show ?thesis using written_after_cancel[of cancelled n "Source_emit t k" enc out] assms
      by (intro exI[of _ 0]) simp
  next
    case False
    obtain m where "snd (snd (run_source (k (Inr True)) (write_item cancelled enc) (Suc n, out @ [enc t]))) =
        (out @ [enc t]) @ map enc (take m (accepted (k (Inr True))))"
      using Source_emit.IH[OF rangeI, of "Inr True" "Suc n" "out @ [enc t]"] by auto
    then show ?thesis using False by (intro exI[of _ "Suc m"]) simp
  qed
qed simp

text \<open>A handler that takes every item sees, through client and server, the items of the
  implementation as they come off the wire, in their order, as long as nobody cancels.\<close>

lemma remote_stream:
  assumes h: "hosts sv cl x" and l: "\<not> st_is_ok lost" and e: "sendable extra"
    and c: "\<And>n. \<not> cancelled n" and acc: "\<And>t s. fst (handler t s) = Inr True"
    and src: "src = start \<lparr>rq_name = rc_name cl, rq_extra = Some (struct_to_proto extra), rq_body = b\<rparr> x"
  shows "run_source (call_stream cl (serve_stream sv lost label start enc cancelled finish) extra b dec)
           handler s =
    (seen_remotely lost label (source_result src),
     foldl (\<lambda>s t. snd (handler (dec (enc t)) s)) s (accepted src))"
proof -
  obtain rb where r: "manager_resource (rs_manager sv) (rc_name cl) = Some rb" "rs_cast sv rb = Some x"
    using h by (auto simp: hosts_def bind_eq_Some_conv)
  obtain k where k: "debug_map_value extra = Inr k"
    using sendable_setup[OF e] by (cases "debug_map_value extra") (auto simp: call_with_extra_def)
  have w: "fst (write_item cancelled enc t s) = Inr True" for t s
    using c by (simp add: write_item_def)
  have out: "run_source src (write_item cancelled enc) (0, []) =
      (source_result src, length (accepted src), map enc (accepted src))"
    using run_source_accepting[of "write_item cancelled enc" src "(0, [])", OF w]
      write_items_uncancelled[of cancelled enc 0 "[]" "accepted src"] c by simp
  define st where "st = (case source_result src of Inr _ \<Rightarrow> status_ok
    | Inl e \<Rightarrow> if is_std_exception e then failStdException label e
              else if is_undefined e then lost else failUnknownException label)"
  have serve: "serve_stream sv lost label start enc cancelled finish md
      \<lparr>rq_name = rc_name cl, rq_extra = Some (struct_to_proto extra), rq_body = b\<rparr> =
    (map enc (accepted src), \<lambda>c. if c then finish st else st)" for md
    by (cases "source_result src")
      (auto simp: serve_stream_def Let_def r src[symmetric] out service_helper_found fun_eq_iff st_def)
  have "\<forall>p s. \<exists>s'. handler (dec p) s = (Inr True, s')"
    using acc by (metis prod.collapse)
  then have loop: "stream_loop (\<lambda>p. handler (dec p)) ps s =
      ((False, None), foldl (\<lambda>s p. snd (handler (dec p) s)) s ps)" for ps s
    by (rule stream_loop_all)
  have "invoke_stream (map enc (accepted src)) (\<lambda>c. if c then finish st else st)
      (\<lambda>p. handler (dec p)) default_ehc s =
    (seen_remotely lost label (source_result src),
     foldl (\<lambda>s t. snd (handler (dec (enc t)) s)) s (accepted src))"
    using l by (cases "source_result src")
      (auto simp: invoke_stream_def loop foldl_map Let_def wire_exn_def run_ehc_def default_ehc_def st_def)
  then show ?thesis
    by (simp add: call_stream_def k Let_def serve stream_source_run)
qed

lemma remote_stream_exact:
  assumes "hosts sv cl x" "\<not> st_is_ok lost" "sendable extra"
    and "\<And>n. \<not> cancelled n" and acc: "\<And>t s. fst (handler t s) = Inr True"
    and "src = start \<lparr>rq_name = rc_name cl, rq_extra = Some (struct_to_proto extra), rq_body = b\<rparr> x"
    and "\<And>t. dec (enc t) = t"
  shows "run_source (call_stream cl (serve_stream sv lost label start enc cancelled finish) extra b dec)
           handler s =
    (seen_remotely lost label (fst (run_source src handler s)), snd (run_source src handler s))"
  unfolding remote_stream[where start = start, OF assms(1-6)] run_source_accepting[of handler src, OF acc]
  by (simp add: assms(7))

end
