(* ===== verification/BoardComponent.thy ===== *)
theory BoardComponent
  imports Sensors Streaming
begin

text \<open>
  Boards: pins, PWM, analog readers, digital interrupts, the stream of ticks and power modes
  (\<^verbatim>\<open>components/board.hpp\<close>, \<^verbatim>\<open>private/board_client.cpp\<close>, \<^verbatim>\<open>private/board_server.cpp\<close>). Three of the
  server's handlers and two of the client's calls are written by hand instead of through the helpers;
  they are modelled as written.
\<close>

subsection \<open>Data\<close>

record analog_response =
  ar_value :: "32 word"
  ar_min_range :: "32 word"
  ar_max_range :: "32 word"
  ar_step_size :: "32 word"

record board_status =
  bst_analog_reader_values :: "(string \<times> 32 word) list"
  bst_digital_interrupt_values :: "(string \<times> 64 word) list"

text \<open>\<open>tk_time\<close> is a count of nanoseconds in 64 bits.\<close>

record board_tick =
  tk_pin_name :: string
  tk_time :: "64 word"
  tk_high :: bool

record pb_tick =
  ptk_pin_name :: string
  ptk_high :: bool
  ptk_time :: "64 word"

datatype power_mode = PM_normal | PM_offline_deep | PM_other "8 word"

datatype pb_power_mode =
  POWER_MODE_UNSPECIFIED | POWER_MODE_NORMAL | POWER_MODE_OFFLINE_DEEP | POWER_MODE_other int

record board =
  bd_get_gpio :: "string \<Rightarrow> proto_struct \<Rightarrow> bool res"
  bd_set_gpio :: "string \<Rightarrow> bool \<Rightarrow> proto_struct \<Rightarrow> unit res"
  bd_get_pwm_duty_cycle :: "string \<Rightarrow> proto_struct \<Rightarrow> double res"
  bd_set_pwm_duty_cycle :: "string \<Rightarrow> double \<Rightarrow> proto_struct \<Rightarrow> unit res"
  bd_get_pwm_frequency :: "string \<Rightarrow> proto_struct \<Rightarrow> 64 word res"
  bd_set_pwm_frequency :: "string \<Rightarrow> 64 word \<Rightarrow> proto_struct \<Rightarrow> unit res"
  bd_read_analog :: "string \<Rightarrow> proto_struct \<Rightarrow> analog_response res"
  bd_write_analog :: "string \<Rightarrow> 32 word \<Rightarrow> proto_struct \<Rightarrow> unit res"
  bd_read_digital_interrupt :: "string \<Rightarrow> proto_struct \<Rightarrow> 64 word res"
  bd_stream_ticks :: "string list \<Rightarrow> proto_struct \<Rightarrow> board_tick source"
  bd_set_power_mode :: "power_mode \<Rightarrow> proto_struct \<Rightarrow> int option \<Rightarrow> unit res"
  bd_do_command :: "proto_struct \<Rightarrow> proto_struct res"
  bd_get_status :: "proto_struct res"
  bd_get_geometries :: "proto_struct \<Rightarrow> geometry_config list res"

text \<open>\<^verbatim>\<open>operator==\<close> of unordered maps: the same keys, with the same values.\<close>

definition unordered_eq :: "('k \<times> 'v) list \<Rightarrow> ('k \<times> 'v) list \<Rightarrow> bool" where
  "unordered_eq l r \<longleftrightarrow> length l = length r \<and> (\<forall>e\<in>set l. map_of r (fst e) = Some (snd e))"

definition board_status_eq :: "board_status \<Rightarrow> board_status \<Rightarrow> bool" where
  "board_status_eq lhs rhs \<longleftrightarrow>
     unordered_eq (bst_analog_reader_values lhs) (bst_analog_reader_values rhs)
     \<and> unordered_eq (bst_digital_interrupt_values lhs) (bst_digital_interrupt_values rhs)"

subsection \<open>Conversions\<close>

definition board_status_to_proto :: "board_status \<Rightarrow> (string \<times> 32 word) list \<times> (string \<times> 64 word) list" where
  "board_status_to_proto st =
     (foldl (\<lambda>m a. emplace (fst a) (snd a) m) [] (bst_analog_reader_values st),
      foldl (\<lambda>m d. emplace (fst d) (snd d) m) [] (bst_digital_interrupt_values st))"

definition board_status_from_proto :: "(string \<times> 32 word) list \<times> (string \<times> 64 word) list \<Rightarrow> board_status" where
  "board_status_from_proto p =
     \<lparr>bst_analog_reader_values = foldl (\<lambda>m a. emplace (fst a) (snd a) m) [] (fst p),
      bst_digital_interrupt_values = foldl (\<lambda>m d. emplace (fst d) (snd d) m) [] (snd p)\<rparr>"

fun power_mode_to_proto :: "power_mode \<Rightarrow> pb_power_mode res" where
  "power_mode_to_proto PM_normal = Inr POWER_MODE_NORMAL"
| "power_mode_to_proto PM_offline_deep = Inr POWER_MODE_OFFLINE_DEEP"
| "power_mode_to_proto (PM_other i) =
     Inl (sdk_exception K_not_supported ''Invalid board power_mode to encode'')"

fun power_mode_from_proto :: "pb_power_mode \<Rightarrow> power_mode res" where
  "power_mode_from_proto POWER_MODE_NORMAL = Inr PM_normal"
| "power_mode_from_proto POWER_MODE_OFFLINE_DEEP = Inr PM_offline_deep"
| "power_mode_from_proto p =
     Inl (sdk_exception K_not_supported ''Invalid proto board power_mode to decode'')"

subsection \<open>The stub\<close>

record board_stub =
  bds_SetGPIO :: "(string \<times> bool, unit) rpc"
  bds_GetGPIO :: "(string, bool) rpc"
  bds_PWM :: "(string, double) rpc"
  bds_SetPWM :: "(string \<times> double, unit) rpc"
  bds_PWMFrequency :: "(string, 64 word) rpc"
  bds_SetPWMFrequency :: "(string \<times> 64 word, unit) rpc"
  bds_ReadAnalogReader :: "(string, analog_response) rpc"
  bds_WriteAnalog :: "(string \<times> 32 word, unit) rpc"
  bds_GetDigitalInterruptValue :: "(string, 64 word) rpc"
  bds_StreamTicks :: "(string list, pb_tick) stream_rpc"
  bds_SetPowerMode :: "(pb_power_mode \<times> pb_time option, unit) rpc"
  bds_DoCommand :: "(pb_struct, pb_struct) rpc"
  bds_GetStatus :: "(unit, pb_struct) rpc"
  bds_GetGeometries :: "(unit, pb_geometry list) rpc"

subsection \<open>The client\<close>

text \<open>
  A call written by hand: the context is built without the channel, so it carries neither the token
  of the channel nor a debug key.
\<close>

definition bare_call :: "rpc_client \<Rightarrow> ('b, 'p) rpc \<Rightarrow> proto_struct \<Rightarrow> 'b \<Rightarrow> 'p res" where
  "bare_call cl rpc extra b =
     (let out = rpc (client_context (rc_version cl) None)
                  \<lparr>rq_name = rc_name cl, rq_extra = Some (struct_to_proto extra), rq_body = b\<rparr>
      in if st_is_ok (fst out) then Inr (snd out) else Inl (grpc_exception (fst out)))"

definition power_mode_request ::
  "power_mode \<Rightarrow> int option \<Rightarrow> (pb_power_mode \<times> pb_time option) res" where
  "power_mode_request mode duration =
     rmap (\<lambda>m. (m, map_option micros_to_proto duration)) (power_mode_to_proto mode)"

text \<open>A tick on the wire: its time is an unsigned integer there.\<close>

definition tick_to_proto :: "board_tick \<Rightarrow> pb_tick" where
  [conv_defs]: "tick_to_proto tick =
     \<lparr>ptk_pin_name = tk_pin_name tick, ptk_high = tk_high tick, ptk_time = tk_time tick\<rparr>"

definition tick_from_proto :: "pb_tick \<Rightarrow> board_tick" where
  [conv_defs]: "tick_from_proto p =
     \<lparr>tk_pin_name = ptk_pin_name p, tk_time = ptk_time p, tk_high = ptk_high p\<rparr>"

definition board_client :: "rpc_client \<Rightarrow> board_stub \<Rightarrow> board" where
  "board_client cl stub =
     \<lparr>bd_get_gpio = (\<lambda>pin extra. invoke_with cl (bds_GetGPIO stub) extra (Inr pin) Inr),
      bd_set_gpio = (\<lambda>pin high extra. invoke_with cl (bds_SetGPIO stub) extra (Inr (pin, high)) Inr),
      bd_get_pwm_duty_cycle = (\<lambda>pin extra. invoke_with cl (bds_PWM stub) extra (Inr pin) Inr),
      bd_set_pwm_duty_cycle = (\<lambda>pin duty_cycle_pct extra.
        invoke_with cl (bds_SetPWM stub) extra (Inr (pin, duty_cycle_pct)) Inr),
      bd_get_pwm_frequency = (\<lambda>pin extra. invoke_with cl (bds_PWMFrequency stub) extra (Inr pin) Inr),
      bd_set_pwm_frequency = (\<lambda>pin frequency_hz extra.
        invoke_with cl (bds_SetPWMFrequency stub) extra (Inr (pin, frequency_hz)) Inr),
      bd_read_analog = (\<lambda>analog_reader_name extra.
        bare_call cl (bds_ReadAnalogReader stub) extra analog_reader_name),
      bd_write_analog = (\<lambda>pin value extra.
        invoke_with cl (bds_WriteAnalog stub) extra (Inr (pin, value)) Inr),
      bd_read_digital_interrupt = (\<lambda>digital_interrupt_name extra.
        bare_call cl (bds_GetDigitalInterruptValue stub) extra digital_interrupt_name),
      bd_stream_ticks = (\<lambda>digital_interrupt_names extra.
        call_stream cl (bds_StreamTicks stub) extra digital_interrupt_names tick_from_proto),
      bd_set_power_mode = (\<lambda>mode extra duration.
        invoke_with cl (bds_SetPowerMode stub) extra (power_mode_request mode duration) Inr),
      bd_do_command = call_do_command cl (bds_DoCommand stub),
      bd_get_status = call_get_status cl (bds_GetStatus stub),
      bd_get_geometries = call_get_geometries cl (bds_GetGeometries stub)\<rparr>"

subsection \<open>The server\<close>

text \<open>
  The handlers written by hand: no exception is caught, a missing board is \<^verbatim>\<open>UNKNOWN\<close>, and the cast
  to \<^verbatim>\<open>Board\<close> is not checked before the pointer is used. \<open>escape\<close> is the status the gRPC library
  makes of an exception that leaves a handler.
\<close>

definition hand_written ::
  "('r, 'x) rpc_server \<Rightarrow> 'ctx option \<Rightarrow> 'ctx \<Rightarrow> string \<Rightarrow> 'p \<Rightarrow> 'b pb_request option \<Rightarrow>
   ('b pb_request \<Rightarrow> 'x \<Rightarrow> 'p res) \<Rightarrow> (status \<times> 'p) res" where
  "hand_written sv current context label blank request handler =
     (case request of
        None \<Rightarrow> Inr (mk_status INVALID_ARGUMENT (''Called ['' @ label @ ''] without a request''), blank)
      | Some q \<Rightarrow>
          (case manager_resource (rs_manager sv) (rq_name q) of
             None \<Rightarrow> Inr (mk_status UNKNOWN (''resource not found: '' @ rq_name q), blank)
           | Some rb \<Rightarrow>
               rbind (observer_enable current context) (\<lambda>_.
                 case rs_cast sv rb of
                   None \<Rightarrow> Inl (Undefined ''null pointer dereference'')
                 | Some board \<Rightarrow> rmap (Pair status_ok) (handler q board))))"

definition answer_bare ::
  "('r, 'x) rpc_server \<Rightarrow> (exn \<Rightarrow> status) \<Rightarrow> 'p \<Rightarrow> string \<Rightarrow> ('b pb_request \<Rightarrow> 'x \<Rightarrow> 'p res) \<Rightarrow> ('b, 'p) rpc" where
  "answer_bare sv escape blank label handler md q =
     (case hand_written sv None md label blank (Some q) handler of
        Inr r \<Rightarrow> r
      | Inl e \<Rightarrow> (escape e, blank))"

definition set_power_mode_handler :: "(pb_power_mode \<times> pb_time option) pb_request \<Rightarrow> board \<Rightarrow> unit res" where
  "set_power_mode_handler q board =
     (case snd (rq_body q) of
        Some d \<Rightarrow>
          rbind (micros_from_proto d) (\<lambda>duration.
          rbind (power_mode_from_proto (fst (rq_body q))) (\<lambda>mode.
            bd_set_power_mode board mode (request_extra q) (Some duration)))
      | None \<Rightarrow>
          rbind (power_mode_from_proto (fst (rq_body q))) (\<lambda>mode.
            bd_set_power_mode board mode (request_extra q) None))"

definition board_service ::
  "('r, board) rpc_server \<Rightarrow> status \<Rightarrow> (exn \<Rightarrow> status) \<Rightarrow> (nat \<Rightarrow> bool) \<Rightarrow> (status \<Rightarrow> status) \<Rightarrow> board_stub" where
  "board_service sv lost escape cancelled finish =
     \<lparr>bds_SetGPIO = answer sv lost () ''BoardServer::SetGPIO'' (\<lambda>q board.
        reply (bd_set_gpio board (fst (rq_body q)) (snd (rq_body q)) (request_extra q))),
      bds_GetGPIO = answer sv lost False ''BoardServer::GetGPIO'' (\<lambda>q board.
        reply (bd_get_gpio board (rq_body q) (request_extra q))),
      bds_PWM = answer sv lost 0 ''BoardServer::PWM'' (\<lambda>q board.
        reply (bd_get_pwm_duty_cycle board (rq_body q) (request_extra q))),
      bds_SetPWM = answer sv lost () ''BoardServer::SetPWM'' (\<lambda>q board.
        reply (bd_set_pwm_duty_cycle board (fst (rq_body q)) (snd (rq_body q)) (request_extra q))),
      bds_PWMFrequency = answer sv lost 0 ''BoardServer::PWMFrequency'' (\<lambda>q board.
        reply (bd_get_pwm_frequency board (rq_body q) (request_extra q))),
      bds_SetPWMFrequency = answer sv lost () ''BoardServer::SetPWMFrequency'' (\<lambda>q board.
        reply (bd_set_pwm_frequency board (fst (rq_body q)) (snd (rq_body q)) (request_extra q))),
      bds_ReadAnalogReader =
        answer_bare sv escape \<lparr>ar_value = 0, ar_min_range = 0, ar_max_range = 0, ar_step_size = 0\<rparr>
          ''Board::ReadAnalogReader'' (\<lambda>q board. bd_read_analog board (rq_body q) (request_extra q)),
      bds_WriteAnalog = answer_bare sv escape () ''Board::WriteAnalog'' (\<lambda>q board.
        bd_write_analog board (fst (rq_body q)) (snd (rq_body q)) (request_extra q)),
      bds_GetDigitalInterruptValue =
        answer_bare sv escape 0 ''Board::GetDigitalInterruptValue'' (\<lambda>q board.
          bd_read_digital_interrupt board (rq_body q) (request_extra q)),
      bds_StreamTicks = serve_stream sv lost ''BoardServer::StreamTicks''
        (\<lambda>q board. bd_stream_ticks board (rq_body q) (request_extra q)) tick_to_proto cancelled finish,
      bds_SetPowerMode = answer sv lost () ''BoardServer::SetPowerMode'' (\<lambda>q board.
        reply (set_power_mode_handler q board)),
      bds_DoCommand = serve_do_command sv lost ''BoardServer::DoCommand'' bd_do_command,
      bds_GetStatus = serve_get_status sv lost ''BoardServer::GetStatus'' bd_get_status,
      bds_GetGeometries = serve_get_geometries sv lost ''BoardServer::GetGeometries'' bd_get_geometries\<rparr>"

subsection \<open>Lemmas\<close>

interpretation tick_codec: total_codec tick_to_proto tick_from_proto
  by unfold_locales (simp add: conv_defs)

lemma power_mode_trip: "power_mode_to_proto m = Inr p \<Longrightarrow> power_mode_from_proto p = Inr m"
  by (cases m) auto

lemma board_status_from_to:
  assumes "awf (bst_analog_reader_values st)" "awf (bst_digital_interrupt_values st)"
  shows "board_status_from_proto (board_status_to_proto st) = st"
  using insert_all_distinct[OF assms(1)] insert_all_distinct[OF assms(2)]
  by (simp add: board_status_from_proto_def board_status_to_proto_def insert_all_def)

lemma remote_board:
  assumes h: "hosts sv cl b" and l: "\<not> st_is_ok lost" and x: "sendable extra"
    and remote: "remote = board_client cl (board_service sv lost escape cancelled finish)"
  shows "bd_set_gpio remote pin high extra = seen_remotely lost ''BoardServer::SetGPIO'' (bd_set_gpio b pin high extra)"
    and "bd_get_gpio remote pin extra = seen_remotely lost ''BoardServer::GetGPIO'' (bd_get_gpio b pin extra)"
    and "bd_get_pwm_duty_cycle remote pin extra =
           seen_remotely lost ''BoardServer::PWM'' (bd_get_pwm_duty_cycle b pin extra)"
    and "bd_set_pwm_duty_cycle remote pin d extra =
           seen_remotely lost ''BoardServer::SetPWM'' (bd_set_pwm_duty_cycle b pin d extra)"
    and "bd_get_pwm_frequency remote pin extra =
           seen_remotely lost ''BoardServer::PWMFrequency'' (bd_get_pwm_frequency b pin extra)"
    and "bd_set_pwm_frequency remote pin f extra =
           seen_remotely lost ''BoardServer::SetPWMFrequency'' (bd_set_pwm_frequency b pin f extra)"
  unfolding remote board_client_def board_service_def
  by (simp_all add: remote_simps[OF h l] x)

lemma remote_power_mode:
  assumes h: "hosts sv cl b" and l: "\<not> st_is_ok lost" and x: "sendable extra"
    and m: "power_mode_to_proto mode = Inr p" and d: "pred_option (in_sint 64) duration"
  shows "bd_set_power_mode (board_client cl (board_service sv lost escape cancelled finish)) mode extra duration =
    seen_remotely lost ''BoardServer::SetPowerMode'' (bd_set_power_mode b mode extra duration)"
  unfolding board_client_def board_service_def
  using d by (cases duration)
    (simp_all add: power_mode_request_def m remote_simps[OF h l] x set_power_mode_handler_def
      power_mode_trip[OF m] micros_from_to)

text \<open>The calls written by hand: the values of an implementation that succeeds, the library's status
  for one that throws, for a missing board, and for a resource that is not a board.\<close>

lemma hand_written_found:
  assumes "manager_resource (rs_manager sv) (rq_name q) = Some rb" "rs_cast sv rb = Some x"
  shows "answer_bare sv escape blank label handler md q =
    (case handler q x of Inr p \<Rightarrow> (status_ok, p) | Inl e \<Rightarrow> (escape e, blank))"
  using assms by (cases "handler q x") (simp_all add: answer_bare_def hand_written_def observer_enable_def)

lemma remote_read_analog:
  assumes h: "hosts sv cl b" and esc: "\<And>e. \<not> st_is_ok (escape e)" and x: "sendable extra"
  shows "bd_read_analog (board_client cl (board_service sv lost escape cancelled finish)) reader extra =
    (case bd_read_analog b reader extra of Inr r \<Rightarrow> Inr r | Inl e \<Rightarrow> Inl (grpc_exception (escape e)))"
    and "bd_read_digital_interrupt (board_client cl (board_service sv lost escape cancelled finish)) reader extra =
    (case bd_read_digital_interrupt b reader extra of Inr r \<Rightarrow> Inr r | Inl e \<Rightarrow> Inl (grpc_exception (escape e)))"
proof -
  obtain rb where r: "manager_resource (rs_manager sv) (rc_name cl) = Some rb" "rs_cast sv rb = Some b"
    using h by (auto simp: hosts_def bind_eq_Some_conv)
  show "bd_read_analog (board_client cl (board_service sv lost escape cancelled finish)) reader extra =
    (case bd_read_analog b reader extra of Inr r \<Rightarrow> Inr r | Inl e \<Rightarrow> Inl (grpc_exception (escape e)))"
    by (cases "bd_read_analog b reader extra")
      (simp_all add: board_client_def board_service_def bare_call_def Let_def hand_written_found[OF _ r(2)] r x esc)
  show "bd_read_digital_interrupt (board_client cl (board_service sv lost escape cancelled finish)) reader extra =
    (case bd_read_digital_interrupt b reader extra of Inr r \<Rightarrow> Inr r | Inl e \<Rightarrow> Inl (grpc_exception (escape e)))"
    by (cases "bd_read_digital_interrupt b reader extra")
      (simp_all add: board_client_def board_service_def bare_call_def Let_def hand_written_found[OF _ r(2)] r x esc)
qed

lemma remote_read_analog_missing:
  assumes "manager_resource (rs_manager sv) (rc_name cl) = None"
  shows "bd_read_analog (board_client cl (board_service sv lost escape cancelled finish)) reader extra =
    Inl (grpc_exception (mk_status UNKNOWN (''resource not found: '' @ rc_name cl)))"
  using assms
  by (simp add: board_client_def board_service_def bare_call_def Let_def answer_bare_def hand_written_def
      mk_status_def st_is_ok_def)

lemma read_analog_wrong_type:
  assumes "manager_resource (rs_manager sv) (rq_name q) = Some rb" "rs_cast sv rb = None"
  shows "bds_ReadAnalogReader (board_service sv lost escape cancelled finish) md q =
    (escape (Undefined ''null pointer dereference''),
     \<lparr>ar_value = 0, ar_min_range = 0, ar_max_range = 0, ar_step_size = 0\<rparr>)"
  using assms by (simp add: board_service_def answer_bare_def hand_written_def observer_enable_def)

text \<open>The token of the channel is not sent with the calls written by hand.\<close>

lemma read_analog_unauthenticated:
  "bd_read_analog (board_client cl stub) reader extra =
   bd_read_analog (board_client (cl\<lparr>rc_token := None\<rparr>) stub) reader extra"
  by (simp add: board_client_def bare_call_def)

text \<open>A handler that takes every tick sees, through client and server, the ticks of the board in
  their order, as long as nobody cancels.\<close>

lemma remote_stream_ticks:
  assumes h: "hosts sv cl b" and l: "\<not> st_is_ok lost" and x: "sendable extra"
    and c: "\<And>n. \<not> cancelled n" and acc: "\<And>t s. fst (handler t s) = Inr True"
  shows "run_source (bd_stream_ticks (board_client cl (board_service sv lost escape cancelled finish)) names extra)
           handler s =
    (seen_remotely lost ''BoardServer::StreamTicks'' (fst (run_source (bd_stream_ticks b names extra) handler s)),
     snd (run_source (bd_stream_ticks b names extra) handler s))"
  unfolding board_client_def board_service_def board.simps board_stub.simps
  by (rule remote_stream_exact[OF h l x c acc]) (simp_all add: x tick_codec.from_to_total)

end
