(* ===== verification/ArmComponent.thy ===== *)
theory ArmComponent
  imports Arm BoardComponent
begin

text \<open>
  The unary methods of arms (\<^verbatim>\<open>components/arm.hpp\<close>, \<^verbatim>\<open>private/arm_client.cpp\<close>,
  \<^verbatim>\<open>private/arm_server.cpp\<close>): poses, joint positions, move options, kinematics, meshes, properties and
  the manual mode. The streamed trajectory is in the theory Arm.
\<close>

record arm =
  am_name :: string
  am_get_end_position :: "proto_struct \<Rightarrow> pose res"
  am_move_to_position :: "pose \<Rightarrow> proto_struct \<Rightarrow> unit res"
  am_get_joint_positions :: "proto_struct \<Rightarrow> double list res"
  am_move_to_joint_positions :: "double list \<Rightarrow> proto_struct \<Rightarrow> unit res"
  am_move_through_joint_positions :: "double list list \<Rightarrow> move_options \<Rightarrow> proto_struct \<Rightarrow> unit res"
  am_is_moving :: "bool res"
  am_stop :: "proto_struct \<Rightarrow> unit res"
  am_get_status :: "proto_struct res"
  am_do_command :: "proto_struct \<Rightarrow> proto_struct res"
  am_get_kinematic_model :: "kinematics_options \<Rightarrow> proto_struct \<Rightarrow> kinematic_model res"
  am_get_kinematics :: "proto_struct \<Rightarrow> kinematics_data res"
  am_get_3d_models :: "proto_struct \<Rightarrow> (string \<times> mesh) list res"
  am_get_geometries :: "proto_struct \<Rightarrow> geometry_config list res"
  am_get_properties :: "proto_struct \<Rightarrow> arm_properties res"
  am_set_manual_mode :: "bool \<Rightarrow> int \<Rightarrow> proto_struct \<Rightarrow> unit res"
  am_get_manual_mode :: "proto_struct \<Rightarrow> bool res"

record arm_stub =
  as_GetEndPosition :: "(unit, pb_pose option) rpc"
  as_MoveToPosition :: "(pb_pose option, unit) rpc"
  as_GetJointPositions :: "(unit, double list) rpc"
  as_MoveToJointPositions :: "(double list, unit) rpc"
  as_MoveThroughJointPositions :: "(double list list \<times> pb_move_options, unit) rpc"
  as_IsMoving :: "(unit, bool) rpc"
  as_Stop :: "(unit, unit) rpc"
  as_GetStatus :: "(unit, pb_struct) rpc"
  as_DoCommand :: "(pb_struct, pb_struct) rpc"
  as_GetKinematics :: "(bool \<times> bool, pb_kinematics_response) rpc"
  as_Get3DModels :: "(unit, (string \<times> pb_mesh) list) rpc"
  as_GetGeometries :: "(unit, pb_geometry list) rpc"
  as_GetProperties :: "(unit, bool \<times> bool) rpc"
  as_SetManualMode :: "(bool \<times> int, unit) rpc"
  as_GetManualMode :: "(unit, bool) rpc"

definition arm_properties_to_proto :: "arm_properties \<Rightarrow> bool \<times> bool" where
  "arm_properties_to_proto p = (ap_manual_mode p, ap_cartesian p)"

definition arm_properties_from_proto :: "bool \<times> bool \<Rightarrow> arm_properties" where
  "arm_properties_from_proto p =
     \<lparr>ap_manual_mode = fst p, ap_cartesian = snd p\<rparr>"

text \<open>The models are an ordered map at either end, and an unordered one on the wire.\<close>

definition models_to_proto :: "(string \<times> mesh) list \<Rightarrow> (string \<times> pb_mesh) list" where
  "models_to_proto models = foldl (\<lambda>r e. emplace (fst e) (mesh_to_proto (snd e)) r) [] models"

definition models_from_proto :: "(string \<times> pb_mesh) list \<Rightarrow> (string \<times> mesh) list" where
  "models_from_proto models =
     sort_key fst (foldl (\<lambda>r e. emplace (fst e) (mesh_from_proto (snd e)) r) [] models)"

text \<open>The methods that read and move the arm, first for the client, then for the server.\<close>

definition call_get_end_position :: "rpc_client \<Rightarrow> arm_stub \<Rightarrow> proto_struct \<Rightarrow> pose res" where
  "call_get_end_position cl stub extra = invoke_with cl (as_GetEndPosition stub) extra (Inr ())
     (\<lambda>p. Inr (pose_from_proto (submsg pb_pose_default p)))"

definition call_move_to_position :: "rpc_client \<Rightarrow> arm_stub \<Rightarrow> pose \<Rightarrow> proto_struct \<Rightarrow> unit res" where
  "call_move_to_position cl stub pose extra =
     invoke_with cl (as_MoveToPosition stub) extra (Inr (Some (pose_to_proto pose))) Inr"

definition call_get_joint_positions :: "rpc_client \<Rightarrow> arm_stub \<Rightarrow> proto_struct \<Rightarrow> double list res" where
  "call_get_joint_positions cl stub extra = invoke_with cl (as_GetJointPositions stub) extra (Inr ()) Inr"

definition call_move_to_joint_positions ::
  "rpc_client \<Rightarrow> arm_stub \<Rightarrow> double list \<Rightarrow> proto_struct \<Rightarrow> unit res" where
  "call_move_to_joint_positions cl stub positions extra =
     invoke_with cl (as_MoveToJointPositions stub) extra (Inr positions) Inr"

definition call_move_through_joint_positions ::
  "rpc_client \<Rightarrow> arm_stub \<Rightarrow> double list list \<Rightarrow> move_options \<Rightarrow> proto_struct \<Rightarrow> unit res" where
  "call_move_through_joint_positions cl stub positions options extra =
     invoke_with cl (as_MoveThroughJointPositions stub) extra
       (Inr (positions, move_options_to_proto options)) Inr"

definition serve_get_end_position :: "('r, arm) rpc_server \<Rightarrow> status \<Rightarrow> (unit, pb_pose option) rpc" where
  "serve_get_end_position sv lost = answer sv lost None ''ArmServer::GetEndPosition'' (\<lambda>q arm.
     reply (rmap (\<lambda>p. Some (pose_to_proto p)) (am_get_end_position arm (request_extra q))))"

definition serve_move_to_position :: "('r, arm) rpc_server \<Rightarrow> status \<Rightarrow> (pb_pose option, unit) rpc" where
  "serve_move_to_position sv lost = answer sv lost () ''ArmServer::MoveToPosition'' (\<lambda>q arm.
     reply (am_move_to_position arm (pose_from_proto (submsg pb_pose_default (rq_body q))) (request_extra q)))"

definition serve_get_joint_positions :: "('r, arm) rpc_server \<Rightarrow> status \<Rightarrow> (unit, double list) rpc" where
  "serve_get_joint_positions sv lost = answer sv lost [] ''ArmServer::GetJointPositions'' (\<lambda>q arm.
     reply (am_get_joint_positions arm (request_extra q)))"

definition serve_move_to_joint_positions :: "('r, arm) rpc_server \<Rightarrow> status \<Rightarrow> (double list, unit) rpc" where
  "serve_move_to_joint_positions sv lost = answer sv lost () ''ArmServer::MoveToJointPositions'' (\<lambda>q arm.
     reply (am_move_to_joint_positions arm (rq_body q) (request_extra q)))"

definition serve_move_through_joint_positions ::
  "('r, arm) rpc_server \<Rightarrow> status \<Rightarrow> (double list list \<times> pb_move_options, unit) rpc" where
  "serve_move_through_joint_positions sv lost =
     answer sv lost () ''ArmServer::MoveThroughJointPositions'' (\<lambda>q arm.
       reply (am_move_through_joint_positions arm (fst (rq_body q))
                (move_options_from_proto (snd (rq_body q))) (request_extra q)))"

lemmas arm_motion_defs =
  call_get_end_position_def call_move_to_position_def call_get_joint_positions_def
  call_move_to_joint_positions_def call_move_through_joint_positions_def
  serve_get_end_position_def serve_move_to_position_def serve_get_joint_positions_def
  serve_move_to_joint_positions_def serve_move_through_joint_positions_def

definition arm_client :: "rpc_client \<Rightarrow> arm_stub \<Rightarrow> arm" where
  "arm_client cl stub =
     \<lparr>am_name = rc_name cl,
      am_get_end_position = call_get_end_position cl stub,
      am_move_to_position = call_move_to_position cl stub,
      am_get_joint_positions = call_get_joint_positions cl stub,
      am_move_to_joint_positions = call_move_to_joint_positions cl stub,
      am_move_through_joint_positions = call_move_through_joint_positions cl stub,
      am_is_moving = invoke_plain cl (as_IsMoving stub) (Inr ()) Inr,
      am_stop = (\<lambda>extra. invoke_with cl (as_Stop stub) extra (Inr ()) Inr),
      am_get_status = call_get_status cl (as_GetStatus stub),
      am_do_command = call_do_command cl (as_DoCommand stub),
      am_get_kinematic_model = call_get_kinematic_model cl (as_GetKinematics stub),
      am_get_kinematics = call_get_kinematics cl (as_GetKinematics stub),
      am_get_3d_models = (\<lambda>extra. invoke_with cl (as_Get3DModels stub) extra (Inr ())
        (\<lambda>p. Inr (models_from_proto p))),
      am_get_geometries = call_get_geometries cl (as_GetGeometries stub),
      am_get_properties = (\<lambda>extra. invoke_with cl (as_GetProperties stub) extra (Inr ())
        (\<lambda>p. Inr (arm_properties_from_proto p))),
      am_set_manual_mode = (\<lambda>manual_mode enabled_for extra.
        invoke_with cl (as_SetManualMode stub) extra
          (Inr (manual_mode, manual_mode_seconds enabled_for)) Inr),
      am_get_manual_mode = (\<lambda>extra. invoke_with cl (as_GetManualMode stub) extra (Inr ()) Inr)\<rparr>"

definition arm_service :: "('r, arm) rpc_server \<Rightarrow> status \<Rightarrow> arm_stub" where
  "arm_service sv lost =
     \<lparr>as_GetEndPosition = serve_get_end_position sv lost,
      as_MoveToPosition = serve_move_to_position sv lost,
      as_GetJointPositions = serve_get_joint_positions sv lost,
      as_MoveToJointPositions = serve_move_to_joint_positions sv lost,
      as_MoveThroughJointPositions = serve_move_through_joint_positions sv lost,
      as_IsMoving = answer sv lost False ''ArmServer::IsMoving'' (\<lambda>q arm. reply (am_is_moving arm)),
      as_Stop = answer sv lost () ''ArmServer::Stop'' (\<lambda>q arm. reply (am_stop arm (request_extra q))),
      as_GetStatus = serve_get_status sv lost ''ArmServer::GetStatus'' am_get_status,
      as_DoCommand = serve_do_command sv lost ''ArmServer::DoCommand'' am_do_command,
      as_GetKinematics = serve_get_kinematics sv lost ''ArmServer::GetKinematics''
        am_name am_get_kinematics am_get_kinematic_model,
      as_Get3DModels = answer sv lost [] ''ArmServer::Get3DModels'' (\<lambda>q arm.
        reply (rmap models_to_proto (am_get_3d_models arm (request_extra q)))),
      as_GetGeometries = serve_get_geometries sv lost ''ArmServer::GetGeometries'' am_get_geometries,
      as_GetProperties = answer sv lost (False, False) ''ArmServer::GetProperties'' (\<lambda>q arm.
        reply (rmap arm_properties_to_proto (am_get_properties arm (request_extra q)))),
      as_SetManualMode = answer sv lost () ''ArmServer::SetManualMode'' (\<lambda>q arm.
        reply (am_set_manual_mode arm (fst (rq_body q)) (snd (rq_body q)) (request_extra q))),
      as_GetManualMode = answer sv lost False ''ArmServer::GetManualMode'' (\<lambda>q arm.
        reply (am_get_manual_mode arm (request_extra q)))\<rparr>"

subsection \<open>Lemmas\<close>

interpretation pose_method: rpc_method "\<lambda>p. Some (pose_to_proto p)"
    "\<lambda>b. Inr (pose_from_proto (submsg pb_pose_default b))" "\<lambda>r. r" Inr "\<lambda>_. True" "\<lambda>_. True"
  by unfold_locales (simp_all add: pose_codec.from_to_total)

interpretation waypoints_method: rpc_method "\<lambda>a. (fst a, move_options_to_proto (snd a))"
    "\<lambda>b. Inr (fst b, move_options_from_proto (snd b))" "\<lambda>r. r" Inr
    "\<lambda>a. limit_sendable (mo_vel (snd a)) \<and> limit_sendable (mo_acc (snd a))" "\<lambda>_. True"
proof (unfold_locales, goal_cases)
  case (1 a)
  then have "move_options_from_proto (move_options_to_proto (snd a)) = snd a"
    by (simp only: move_options_from_to)
  then show ?case by simp
qed simp

lemma models_from_to: "awf m \<Longrightarrow> sorted (akeys m) \<Longrightarrow> models_from_proto (models_to_proto m) = m"
  by (simp add: models_from_proto_def models_to_proto_def foldl_emplace_map map_from_to_entries
      mesh_codec.from_to_total sort_key_id_if_sorted akeys_def)

lemma arm_properties_trip [simp]: "arm_properties_from_proto (arm_properties_to_proto p) = p"
  by (simp add: arm_properties_from_proto_def arm_properties_to_proto_def)

lemma remote_arm:
  assumes h: "hosts sv cl a" and l: "\<not> st_is_ok lost" and x: "sendable extra"
    and remote: "remote = arm_client cl (arm_service sv lost)"
  shows "am_get_end_position remote extra =
           seen_remotely lost ''ArmServer::GetEndPosition'' (am_get_end_position a extra)"
    and "am_move_to_position remote p extra =
           seen_remotely lost ''ArmServer::MoveToPosition'' (am_move_to_position a p extra)"
    and "am_get_joint_positions remote extra =
           seen_remotely lost ''ArmServer::GetJointPositions'' (am_get_joint_positions a extra)"
    and "am_move_to_joint_positions remote js extra =
           seen_remotely lost ''ArmServer::MoveToJointPositions'' (am_move_to_joint_positions a js extra)"
    and "am_is_moving remote = seen_remotely lost ''ArmServer::IsMoving'' (am_is_moving a)"
    and "am_stop remote extra = seen_remotely lost ''ArmServer::Stop'' (am_stop a extra)"
    and "am_get_properties remote extra =
           seen_remotely lost ''ArmServer::GetProperties'' (am_get_properties a extra)"
    and "am_get_manual_mode remote extra =
           seen_remotely lost ''ArmServer::GetManualMode'' (am_get_manual_mode a extra)"
    and "am_set_manual_mode remote on secs extra =
           seen_remotely lost ''ArmServer::SetManualMode'' (am_set_manual_mode a on (manual_mode_seconds secs) extra)"
  unfolding remote arm_client_def arm_service_def arm_motion_defs
  by (simp_all add: remote_simps[OF h l] x pose_codec.from_to_total)

lemma remote_arm_waypoints:
  assumes h: "hosts sv cl a" and l: "\<not> st_is_ok lost" and x: "sendable extra"
  shows "am_move_through_joint_positions (arm_client cl (arm_service sv lost)) ps options extra =
    seen_remotely lost ''ArmServer::MoveThroughJointPositions''
      (am_move_through_joint_positions a ps (move_options_from_proto (move_options_to_proto options)) extra)"
  unfolding arm_client_def arm_service_def arm_motion_defs by (simp add: remote_simps[OF h l] x)

lemma remote_arm_waypoints_exact:
  assumes "hosts sv cl a" "\<not> st_is_ok lost" "sendable extra"
    and "limit_sendable (mo_vel options)" "limit_sendable (mo_acc options)"
  shows "am_move_through_joint_positions (arm_client cl (arm_service sv lost)) ps options extra =
    seen_remotely lost ''ArmServer::MoveThroughJointPositions''
      (am_move_through_joint_positions a ps options extra)"
  using move_options_from_to[of options] assms(4,5) by (simp add: remote_arm_waypoints[OF assms(1-3)])

lemma remote_arm_models:
  assumes h: "hosts sv cl a" and l: "\<not> st_is_ok lost" and x: "sendable extra"
    and wf: "\<And>m. am_get_3d_models a extra = Inr m \<Longrightarrow> awf m \<and> sorted (akeys m)"
  shows "am_get_3d_models (arm_client cl (arm_service sv lost)) extra =
    seen_remotely lost ''ArmServer::Get3DModels'' (am_get_3d_models a extra)"
  unfolding arm_client_def arm_service_def arm_motion_defs
  using wf by (cases "am_get_3d_models a extra") (auto simp: remote_simps[OF h l] x models_from_to)

end
