(* ===== verification/Media.thy ===== *)
theory Media
  imports ArmComponent Audio DepthMap
begin

text \<open>
  Cameras and audio components: images, point clouds and camera properties
  (\<^verbatim>\<open>components/camera.hpp\<close>, \<^verbatim>\<open>private/camera_client.cpp\<close>,
  \<^verbatim>\<open>private/camera_server.cpp\<close>), the stream of audio chunks (\<^verbatim>\<open>audio_in\<close>) and playing audio,
  at once or chunk by chunk (\<^verbatim>\<open>audio_out\<close>). Depth maps and WAV files have their own theories.
\<close>

subsection \<open>Cameras\<close>

record intrinsic_parameters =
  ip_width_px :: "32 word"
  ip_height_px :: "32 word"
  ip_focal_x_px :: double
  ip_focal_y_px :: double
  ip_center_x_px :: double
  ip_center_y_px :: double

record extrinsic_parameters =
  xp_translation :: vector3
  xp_orientation :: orientation_vector_degrees

record distortion_parameters =
  dp_model :: string
  dp_parameters :: "double list"

record camera_properties =
  cpr_supports_pcd :: bool
  cpr_intrinsic_parameters :: intrinsic_parameters
  cpr_extrinsic_parameters :: extrinsic_parameters
  cpr_distortion_parameters :: distortion_parameters
  cpr_mime_types :: "string list"
  cpr_frame_rate :: "32 word"
  cpr_default_reference_frame :: string

record point_cloud =
  pcl_mime_type :: string
  pcl_pc :: "byte list"

record raw_image =
  ri_mime_type :: string
  ri_bytes :: "byte list"
  ri_source_name :: string

record image_collection =
  ic_images :: "raw_image list"
  ic_metadata :: response_metadata

record camera =
  cam_do_command :: "proto_struct \<Rightarrow> proto_struct res"
  cam_get_status :: "proto_struct res"
  cam_get_images :: "string list \<Rightarrow> proto_struct \<Rightarrow> image_collection res"
  cam_get_point_cloud :: "string \<Rightarrow> proto_struct \<Rightarrow> point_cloud res"
  cam_get_geometries :: "proto_struct \<Rightarrow> geometry_config list res"
  cam_get_properties :: "camera_properties res"

definition raw_image_eq :: "raw_image \<Rightarrow> raw_image \<Rightarrow> bool" where
  "raw_image_eq lhs rhs \<longleftrightarrow>
     ri_mime_type lhs = ri_mime_type rhs \<and> ri_bytes lhs = ri_bytes rhs
     \<and> ri_source_name lhs = ri_source_name rhs"

definition image_collection_eq :: "image_collection \<Rightarrow> image_collection \<Rightarrow> bool" where
  "image_collection_eq lhs rhs \<longleftrightarrow>
     list_all2 raw_image_eq (ic_images lhs) (ic_images rhs) \<and> metadata_eq (ic_metadata lhs) (ic_metadata rhs)"

definition intrinsic_parameters_eq :: "intrinsic_parameters \<Rightarrow> intrinsic_parameters \<Rightarrow> bool" where
  "intrinsic_parameters_eq lhs rhs \<longleftrightarrow>
     ip_width_px lhs = ip_width_px rhs \<and> ip_height_px lhs = ip_height_px rhs
     \<and> dbl_eq (ip_focal_x_px lhs) (ip_focal_x_px rhs) \<and> dbl_eq (ip_focal_y_px lhs) (ip_focal_y_px rhs)
     \<and> dbl_eq (ip_center_x_px lhs) (ip_center_x_px rhs) \<and> dbl_eq (ip_center_y_px lhs) (ip_center_y_px rhs)"

definition extrinsic_parameters_eq :: "extrinsic_parameters \<Rightarrow> extrinsic_parameters \<Rightarrow> bool" where
  "extrinsic_parameters_eq lhs rhs \<longleftrightarrow>
     vector3_eq (xp_translation lhs) (xp_translation rhs)
     \<and> dbl_eq (ovd_x (xp_orientation lhs)) (ovd_x (xp_orientation rhs))
     \<and> dbl_eq (ovd_y (xp_orientation lhs)) (ovd_y (xp_orientation rhs))
     \<and> dbl_eq (ovd_z (xp_orientation lhs)) (ovd_z (xp_orientation rhs))
     \<and> dbl_eq (ovd_theta (xp_orientation lhs)) (ovd_theta (xp_orientation rhs))"

definition distortion_parameters_eq :: "distortion_parameters \<Rightarrow> distortion_parameters \<Rightarrow> bool" where
  "distortion_parameters_eq lhs rhs \<longleftrightarrow>
     dp_model lhs = dp_model rhs \<and> list_all2 dbl_eq (dp_parameters lhs) (dp_parameters rhs)"

definition camera_properties_eq :: "camera_properties \<Rightarrow> camera_properties \<Rightarrow> bool" where
  "camera_properties_eq lhs rhs \<longleftrightarrow>
     cpr_supports_pcd lhs = cpr_supports_pcd rhs
     \<and> intrinsic_parameters_eq (cpr_intrinsic_parameters lhs) (cpr_intrinsic_parameters rhs)
     \<and> distortion_parameters_eq (cpr_distortion_parameters lhs) (cpr_distortion_parameters rhs)
     \<and> extrinsic_parameters_eq (cpr_extrinsic_parameters lhs) (cpr_extrinsic_parameters rhs)
     \<and> flt_eq (cpr_frame_rate lhs) (cpr_frame_rate rhs) \<and> cpr_mime_types lhs = cpr_mime_types rhs
     \<and> cpr_default_reference_frame lhs = cpr_default_reference_frame rhs"

record pb_image =
  pim_source_name :: string
  pim_mime_type :: string
  pim_image :: string

record pb_extrinsic =
  pxp_translation :: "pb_vector3 option"
  pxp_orientation :: "pb_orientation_message option"

record pb_camera_properties =
  pcp_supports_pcd :: bool
  pcp_intrinsic :: "intrinsic_parameters option"
  pcp_extrinsic :: "pb_extrinsic option"
  pcp_distortion :: "(string \<times> double list) option"
  pcp_mime_types :: "string list"
  pcp_frame_rate :: "32 word"
  pcp_default_reference_frame :: string

definition intrinsic_default :: intrinsic_parameters where
  "intrinsic_default =
     \<lparr>ip_width_px = 0, ip_height_px = 0, ip_focal_x_px = 0, ip_focal_y_px = 0, ip_center_x_px = 0,
      ip_center_y_px = 0\<rparr>"

definition extrinsic_to_proto :: "extrinsic_parameters \<Rightarrow> pb_extrinsic" where
  "extrinsic_to_proto params =
     \<lparr>pxp_translation = Some (vector3_to_proto (xp_translation params)),
      pxp_orientation =
        Some \<lparr>po_x = ovd_x (xp_orientation params), po_y = ovd_y (xp_orientation params),
              po_z = ovd_z (xp_orientation params), po_theta = ovd_theta (xp_orientation params)\<rparr>\<rparr>"

definition extrinsic_from_proto :: "pb_extrinsic \<Rightarrow> extrinsic_parameters" where
  "extrinsic_from_proto p =
     (let o' = submsg pb_orientation_message_default (pxp_orientation p)
      in \<lparr>xp_translation = vector3_from_proto (submsg pb_vector3_default (pxp_translation p)),
          xp_orientation = \<lparr>ovd_x = po_x o', ovd_y = po_y o', ovd_z = po_z o', ovd_theta = po_theta o'\<rparr>\<rparr>)"

definition distortion_from_proto :: "string \<times> double list \<Rightarrow> distortion_parameters" where
  "distortion_from_proto p = \<lparr>dp_model = fst p, dp_parameters = snd p\<rparr>"

definition camera_properties_to_proto :: "camera_properties \<Rightarrow> pb_camera_properties" where
  "camera_properties_to_proto p =
     \<lparr>pcp_supports_pcd = cpr_supports_pcd p, pcp_intrinsic = Some (cpr_intrinsic_parameters p),
      pcp_extrinsic = Some (extrinsic_to_proto (cpr_extrinsic_parameters p)),
      pcp_distortion =
        Some (dp_model (cpr_distortion_parameters p), dp_parameters (cpr_distortion_parameters p)),
      pcp_mime_types = cpr_mime_types p, pcp_frame_rate = cpr_frame_rate p,
      pcp_default_reference_frame = cpr_default_reference_frame p\<rparr>"

definition camera_properties_from_proto :: "pb_camera_properties \<Rightarrow> camera_properties" where
  "camera_properties_from_proto p =
     \<lparr>cpr_supports_pcd = pcp_supports_pcd p,
      cpr_intrinsic_parameters = submsg intrinsic_default (pcp_intrinsic p),
      cpr_extrinsic_parameters =
        extrinsic_from_proto (submsg \<lparr>pxp_translation = None, pxp_orientation = None\<rparr> (pcp_extrinsic p)),
      cpr_distortion_parameters = distortion_from_proto (submsg ([], []) (pcp_distortion p)),
      cpr_mime_types = pcp_mime_types p, cpr_frame_rate = pcp_frame_rate p,
      cpr_default_reference_frame = pcp_default_reference_frame p\<rparr>"

definition image_to_proto :: "raw_image \<Rightarrow> pb_image" where
  "image_to_proto img =
     \<lparr>pim_source_name = ri_source_name img, pim_mime_type = ri_mime_type img,
      pim_image = bytes_to_string (ri_bytes img)\<rparr>"

definition image_from_proto :: "pb_image \<Rightarrow> raw_image" where
  "image_from_proto p =
     \<lparr>ri_mime_type = pim_mime_type p, ri_bytes = string_to_bytes (pim_image p),
      ri_source_name = pim_source_name p\<rparr>"

definition images_from_proto :: "pb_image list \<times> pb_time option \<Rightarrow> image_collection res" where
  "images_from_proto p =
     rmap (\<lambda>md. \<lparr>ic_images = map image_from_proto (fst p), ic_metadata = md\<rparr>)
       (metadata_from_proto (submsg \<lparr>pt_seconds = 0, pt_nanos = 0\<rparr> (snd p)))"

record camera_stub =
  cas_DoCommand :: "(pb_struct, pb_struct) rpc"
  cas_GetStatus :: "(unit, pb_struct) rpc"
  cas_GetImages :: "(string list, pb_image list \<times> pb_time option) rpc"
  cas_GetPointCloud :: "(string, string \<times> string) rpc"
  cas_GetGeometries :: "(unit, pb_geometry list) rpc"
  cas_GetProperties :: "(unit, pb_camera_properties) rpc"

definition camera_client :: "rpc_client \<Rightarrow> camera_stub \<Rightarrow> camera" where
  "camera_client cl stub =
     \<lparr>cam_do_command = call_do_command cl (cas_DoCommand stub),
      cam_get_status = call_get_status cl (cas_GetStatus stub),
      cam_get_images = (\<lambda>filter_source_names extra.
        invoke_with cl (cas_GetImages stub) extra (Inr filter_source_names) images_from_proto),
      cam_get_point_cloud = (\<lambda>mime_type extra.
        invoke_with cl (cas_GetPointCloud stub) extra (Inr mime_type)
          (\<lambda>(mime, pc). Inr \<lparr>pcl_mime_type = mime, pcl_pc = string_to_bytes pc\<rparr>)),
      cam_get_geometries = call_get_geometries cl (cas_GetGeometries stub),
      cam_get_properties = invoke_plain cl (cas_GetProperties stub) (Inr ())
        (\<lambda>p. Inr (camera_properties_from_proto p))\<rparr>"

text \<open>A point cloud is answered as \<^verbatim>\<open>pointcloud/pcd\<close>, whatever the camera called it.\<close>

definition k_mime_type_pcd :: string where
  "k_mime_type_pcd = ''pointcloud/pcd''"

definition camera_service :: "('r, camera) rpc_server \<Rightarrow> status \<Rightarrow> camera_stub" where
  "camera_service sv lost =
     \<lparr>cas_DoCommand = serve_do_command sv lost ''CameraServer::DoCommand'' cam_do_command,
      cas_GetStatus = serve_get_status sv lost ''CameraServer::GetStatus'' cam_get_status,
      cas_GetImages = answer sv lost ([], None) ''CameraServer::GetImages'' (\<lambda>q camera.
        reply (rmap (\<lambda>c. (map image_to_proto (ic_images c), Some (metadata_to_proto (ic_metadata c))))
                 (cam_get_images camera (rq_body q) (request_extra q)))),
      cas_GetPointCloud = answer sv lost ([], []) ''CameraServer::GetPointCloud'' (\<lambda>q camera.
        reply (rmap (\<lambda>c. (k_mime_type_pcd, bytes_to_string (pcl_pc c)))
                 (cam_get_point_cloud camera (rq_body q) (request_extra q)))),
      cas_GetGeometries = serve_get_geometries sv lost ''CameraServer::GetGeometries'' cam_get_geometries,
      cas_GetProperties =
        answer sv lost
          \<lparr>pcp_supports_pcd = False, pcp_intrinsic = None, pcp_extrinsic = None, pcp_distortion = None,
           pcp_mime_types = [], pcp_frame_rate = 0, pcp_default_reference_frame = []\<rparr>
          ''CameraServer::GetProperties''
          (\<lambda>q camera. reply (rmap camera_properties_to_proto (cam_get_properties camera)))\<rparr>"

subsection \<open>Audio inputs\<close>

record audio_chunk =
  ac_audio_data :: "byte list"
  ac_info :: audio_info
  ac_start_timestamp_ns :: int
  ac_end_timestamp_ns :: int
  ac_sequence_number :: int
  ac_request_id :: string

definition audio_info_default :: audio_info where
  "audio_info_default = \<lparr>ai_codec = [], ai_sample_rate_hz = 0, ai_num_channels = 0\<rparr>"

record audio_in =
  ain_get_audio :: "string \<Rightarrow> double \<Rightarrow> 64 word \<Rightarrow> proto_struct \<Rightarrow> audio_chunk source"
  ain_get_properties :: "proto_struct \<Rightarrow> audio_properties res"
  ain_do_command :: "proto_struct \<Rightarrow> proto_struct res"
  ain_get_status :: "proto_struct res"
  ain_get_geometries :: "proto_struct \<Rightarrow> geometry_config list res"

record pb_audio_chunk =
  pac_audio_data :: string
  pac_audio_info :: "audio_info option"
  pac_start_timestamp_nanoseconds :: int
  pac_end_timestamp_nanoseconds :: int
  pac_sequence :: int
  pac_request_id :: string

text \<open>The server sends the chunk with the request's own identifier, a random UUID.\<close>

definition chunk_to_proto :: "string \<Rightarrow> audio_chunk \<Rightarrow> pb_audio_chunk" where
  "chunk_to_proto request_id chunk =
     \<lparr>pac_audio_data = bytes_to_string (ac_audio_data chunk), pac_audio_info = Some (ac_info chunk),
      pac_start_timestamp_nanoseconds = ac_start_timestamp_ns chunk,
      pac_end_timestamp_nanoseconds = ac_end_timestamp_ns chunk,
      pac_sequence = ac_sequence_number chunk, pac_request_id = request_id\<rparr>"

text \<open>The client leaves the chunk's two timestamps at their initial value.\<close>

definition chunk_from_proto :: "pb_audio_chunk \<Rightarrow> audio_chunk" where
  "chunk_from_proto p =
     \<lparr>ac_audio_data = string_to_bytes (pac_audio_data p),
      ac_info = submsg audio_info_default (pac_audio_info p),
      ac_start_timestamp_ns = 0, ac_end_timestamp_ns = 0,
      ac_sequence_number = pac_sequence p, ac_request_id = pac_request_id p\<rparr>"

record audio_in_stub =
  ais_GetAudio :: "(string \<times> double \<times> 64 word, pb_audio_chunk) stream_rpc"
  ais_GetProperties :: "(unit, audio_properties) rpc"
  ais_DoCommand :: "(pb_struct, pb_struct) rpc"
  ais_GetStatus :: "(unit, pb_struct) rpc"
  ais_GetGeometries :: "(unit, pb_geometry list) rpc"

definition audio_in_client :: "rpc_client \<Rightarrow> audio_in_stub \<Rightarrow> audio_in" where
  "audio_in_client cl stub =
     \<lparr>ain_get_audio = (\<lambda>codec duration_seconds previous_timestamp extra.
        call_stream cl (ais_GetAudio stub) extra (codec, duration_seconds, previous_timestamp)
          chunk_from_proto),
      ain_get_properties = (\<lambda>extra. invoke_with cl (ais_GetProperties stub) extra (Inr ()) Inr),
      ain_do_command = call_do_command cl (ais_DoCommand stub),
      ain_get_status = call_get_status cl (ais_GetStatus stub),
      ain_get_geometries = call_get_geometries cl (ais_GetGeometries stub)\<rparr>"

definition audio_in_service ::
  "('r, audio_in) rpc_server \<Rightarrow> status \<Rightarrow> string \<Rightarrow> (nat \<Rightarrow> bool) \<Rightarrow> (status \<Rightarrow> status) \<Rightarrow> audio_in_stub" where
  "audio_in_service sv lost request_id cancelled finish =
     \<lparr>ais_GetAudio = serve_stream sv lost ''AudioInServer::GetAudio''
        (\<lambda>q audio_in. case rq_body q of (codec, duration_seconds, previous_timestamp) \<Rightarrow>
           ain_get_audio audio_in codec duration_seconds previous_timestamp (request_extra q))
        (chunk_to_proto request_id) cancelled finish,
      ais_GetProperties =
        answer sv lost \<lparr>supported_codecs = [], ap_sample_rate_hz = 0, ap_num_channels = 0\<rparr>
          ''AudioInServer::GetProperties''
          (\<lambda>q audio_in. reply (ain_get_properties audio_in (request_extra q))),
      ais_DoCommand = serve_do_command sv lost ''AudioInServer::DoCommand'' ain_do_command,
      ais_GetStatus = serve_get_status sv lost ''AudioInServer::GetStatus'' ain_get_status,
      ais_GetGeometries = serve_get_geometries sv lost ''AudioInServer::GetGeometries'' ain_get_geometries\<rparr>"

subsection \<open>Audio outputs\<close>

text \<open>An implementation of \<^verbatim>\<open>play_stream\<close>: it ends, or pulls the next chunk (\<open>None\<close> at the end).\<close>

datatype sink = Sink_done "unit res" | Sink_pull "byte list option res \<Rightarrow> sink"

record audio_out =
  aout_play :: "byte list \<Rightarrow> audio_info option \<Rightarrow> proto_struct \<Rightarrow> unit res"
  aout_play_stream :: "audio_info \<Rightarrow> proto_struct \<Rightarrow> sink"
  aout_get_properties :: "proto_struct \<Rightarrow> audio_properties res"
  aout_do_command :: "proto_struct \<Rightarrow> proto_struct res"
  aout_get_status :: "proto_struct res"
  aout_get_geometries :: "proto_struct \<Rightarrow> geometry_config list res"

datatype play_message =
    Play_init string "audio_info option" "pb_struct option"
  | Play_chunk "byte list"
  | Play_not_set

text \<open>A local source of chunks, which ends after the last one.\<close>

primrec run_sink :: "sink \<Rightarrow> byte list list \<Rightarrow> unit res" where
  "run_sink (Sink_done r) = (\<lambda>cs. r)"
| "run_sink (Sink_pull k) =
     (\<lambda>cs. case cs of
        [] \<Rightarrow> run_sink (k (Inr None)) []
      | c # cs' \<Rightarrow> run_sink (k (Inr (Some c))) cs')"

text \<open>The server's source: it skips what is not a chunk; \<open>cancelled n\<close> is what \<^verbatim>\<open>IsCancelled\<close>
  tells after the n-th message is read.\<close>

fun next_chunk :: "(nat \<Rightarrow> bool) \<Rightarrow> nat \<times> play_message list \<Rightarrow> byte list option \<times> (nat \<times> play_message list)" where
  "next_chunk cancelled (n, []) = (None, (n, []))"
| "next_chunk cancelled (n, m # ms) =
     (if cancelled n then (None, (Suc n, ms))
      else case m of
        Play_chunk b \<Rightarrow> (Some b, (Suc n, ms))
      | _ \<Rightarrow> next_chunk cancelled (Suc n, ms))"

primrec serve_sink :: "sink \<Rightarrow> (nat \<Rightarrow> bool) \<Rightarrow> nat \<times> play_message list \<Rightarrow> unit res" where
  "serve_sink (Sink_done r) = (\<lambda>cancelled s. r)"
| "serve_sink (Sink_pull k) =
     (\<lambda>cancelled s. case next_chunk cancelled s of (c, s') \<Rightarrow> serve_sink (k (Inr c)) cancelled s')"

definition invalid_play :: "string \<Rightarrow> status" where
  "invalid_play msg = mk_status INVALID_ARGUMENT (''PlayStream: '' @ msg)"

text \<open>The handler catches \<^verbatim>\<open>std::exception\<close> only; anything else ends the process (\<open>Inl\<close>).\<close>

definition play_stream_handler ::
  "('r, audio_out) rpc_server \<Rightarrow> (nat \<Rightarrow> bool) \<Rightarrow> play_message list \<Rightarrow> status res" where
  "play_stream_handler sv cancelled messages =
     (case messages of
        [] \<Rightarrow> Inr (invalid_play ''stream closed before init message'')
      | first # rest \<Rightarrow>
          (case first of
             Play_init name info extra \<Rightarrow>
               (case Option.bind (manager_resource (rs_manager sv) name) (rs_cast sv) of
                  None \<Rightarrow> Inr (mk_status NOT_FOUND (''PlayStream: resource not found: '' @ name))
                | Some audio_out \<Rightarrow>
                    (case serve_sink
                            (aout_play_stream audio_out (submsg audio_info_default info)
                               (struct_from_proto (submsg [] extra)))
                            cancelled (0, rest) of
                       Inr _ \<Rightarrow> Inr status_ok
                     | Inl e \<Rightarrow>
                         (if is_std_exception e then Inr (mk_status INTERNAL (c_str (exn_what e)))
                          else Inl e)))
           | _ \<Rightarrow> Inr (invalid_play ''first message must be PlayStreamInit'')))"

text \<open>
  The client: \<open>write_ok n\<close> tells whether the n-th write succeeds, \<open>fin\<close> what the caller's source
  throws after its chunks, \<open>finish\<close> the status of the call for its metadata and what was sent. The
  context is a bare \<^verbatim>\<open>grpc::ClientContext\<close>, without any metadata.
\<close>

fun send_chunks ::
  "(nat \<Rightarrow> bool) \<Rightarrow> nat \<Rightarrow> byte list list \<Rightarrow> exn option \<Rightarrow> play_message list \<times> exn option" where
  "send_chunks write_ok n [] fin = ([], fin)"
| "send_chunks write_ok n (c # cs) fin =
     (if write_ok n then
        (case send_chunks write_ok (Suc n) cs fin of (ms, e) \<Rightarrow> (Play_chunk c # ms, e))
      else ([], None))"

definition call_play_stream ::
  "rpc_client \<Rightarrow> (nat \<Rightarrow> bool) \<Rightarrow> (metadata \<Rightarrow> play_message list \<Rightarrow> status) \<Rightarrow> audio_info \<Rightarrow>
   byte list list \<Rightarrow> exn option \<Rightarrow> proto_struct \<Rightarrow> unit res" where
  "call_play_stream cl write_ok finish info cs fin extra =
     (let init = Play_init (rc_name cl) (Some info) (Some (struct_to_proto extra))
      in if \<not> write_ok 0 then Inl (grpc_exception (finish [] []))
         else
           (case send_chunks write_ok 1 cs fin of
              (ms, Some e) \<Rightarrow> Inl e
            | (ms, None) \<Rightarrow>
                (let st = finish [] (init # ms)
                 in if st_is_ok st then Inr () else Inl (grpc_exception st))))"

record audio_out_stub =
  aos_Play :: "(string \<times> audio_info option, unit) rpc"
  aos_GetProperties :: "(unit, audio_properties) rpc"
  aos_DoCommand :: "(pb_struct, pb_struct) rpc"
  aos_GetStatus :: "(unit, pb_struct) rpc"
  aos_GetGeometries :: "(unit, pb_geometry list) rpc"

definition call_play ::
  "rpc_client \<Rightarrow> audio_out_stub \<Rightarrow> byte list \<Rightarrow> audio_info option \<Rightarrow> proto_struct \<Rightarrow> unit res" where
  "call_play cl stub audio_data info extra =
     invoke_with cl (aos_Play stub) extra (Inr (bytes_to_string audio_data, info)) Inr"

definition call_audio_properties ::
  "rpc_client \<Rightarrow> audio_out_stub \<Rightarrow> proto_struct \<Rightarrow> audio_properties res" where
  "call_audio_properties cl stub extra = invoke_with cl (aos_GetProperties stub) extra (Inr ()) Inr"

definition audio_out_service :: "('r, audio_out) rpc_server \<Rightarrow> status \<Rightarrow> audio_out_stub" where
  "audio_out_service sv lost =
     \<lparr>aos_Play = answer sv lost () ''AudioOutServer::Play'' (\<lambda>q audio_out.
        reply (aout_play audio_out (string_to_bytes (fst (rq_body q))) (snd (rq_body q)) (request_extra q))),
      aos_GetProperties =
        answer sv lost \<lparr>supported_codecs = [], ap_sample_rate_hz = 0, ap_num_channels = 0\<rparr>
          ''AudioOutServer::GetProperties''
          (\<lambda>q audio_out. reply (aout_get_properties audio_out (request_extra q))),
      aos_DoCommand = serve_do_command sv lost ''AudioOutServer::DoCommand'' aout_do_command,
      aos_GetStatus = serve_get_status sv lost ''AudioOutServer::GetStatus'' aout_get_status,
      aos_GetGeometries =
        serve_get_geometries sv lost ''AudioOutServer::GetGeometries'' aout_get_geometries\<rparr>"

subsection \<open>Lemmas: cameras\<close>

interpretation extrinsic_codec: total_codec extrinsic_to_proto extrinsic_from_proto
  by unfold_locales (simp add: extrinsic_to_proto_def extrinsic_from_proto_def Let_def
      vector3_codec.from_to_total)

interpretation camera_properties_codec: total_codec camera_properties_to_proto camera_properties_from_proto
  by unfold_locales (simp add: camera_properties_to_proto_def camera_properties_from_proto_def
      extrinsic_codec.from_to_total distortion_from_proto_def)

interpretation image_codec: total_codec image_to_proto image_from_proto
  by unfold_locales (simp add: image_to_proto_def image_from_proto_def)

lemma images_map [simp]: "map (image_from_proto \<circ> image_to_proto) imgs = imgs"
  by (induction imgs) (simp_all add: image_codec.from_to_total)

lemma images_id [simp]: "\<lparr>ic_images = ic_images c, ic_metadata = ic_metadata c\<rparr> = c"
  by simp

lemma remote_camera:
  assumes h: "hosts sv cl c" and l: "\<not> st_is_ok lost" and x: "sendable extra"
    and remote: "remote = camera_client cl (camera_service sv lost)"
  shows "cam_get_properties remote = seen_remotely lost ''CameraServer::GetProperties'' (cam_get_properties c)"
    and "(\<And>r. cam_get_images c names extra = Inr r \<Longrightarrow> in_sint 64 (captured_at (ic_metadata r))) \<Longrightarrow>
         cam_get_images remote names extra =
           seen_remotely lost ''CameraServer::GetImages'' (cam_get_images c names extra)"
    and "cam_get_point_cloud remote mime extra =
           seen_remotely lost ''CameraServer::GetPointCloud''
             (rmap (\<lambda>pc. pc\<lparr>pcl_mime_type := k_mime_type_pcd\<rparr>) (cam_get_point_cloud c mime extra))"
proof -
  show "cam_get_properties remote = seen_remotely lost ''CameraServer::GetProperties'' (cam_get_properties c)"
    unfolding remote camera_client_def camera_service_def
    by (simp add: remote_simps[OF h l] camera_properties_codec.from_to_total)
  show "cam_get_point_cloud remote mime extra =
           seen_remotely lost ''CameraServer::GetPointCloud''
             (rmap (\<lambda>pc. pc\<lparr>pcl_mime_type := k_mime_type_pcd\<rparr>) (cam_get_point_cloud c mime extra))"
    unfolding remote camera_client_def camera_service_def
    by (cases "cam_get_point_cloud c mime extra") (simp_all add: remote_simps[OF h l] x)
  show "cam_get_images remote names extra =
           seen_remotely lost ''CameraServer::GetImages'' (cam_get_images c names extra)"
    if "\<And>r. cam_get_images c names extra = Inr r \<Longrightarrow> in_sint 64 (captured_at (ic_metadata r))"
    unfolding remote camera_client_def camera_service_def
    using that by (cases "cam_get_images c names extra")
      (simp_all add: remote_simps[OF h l] x images_from_proto_def metadata_from_to)
qed

subsection \<open>Lemmas: audio\<close>

text \<open>A chunk as a remote caller gets it: without its times, under the server's request id.\<close>

definition received_chunk :: "string \<Rightarrow> audio_chunk \<Rightarrow> audio_chunk" where
  "received_chunk request_id chunk =
     chunk\<lparr>ac_start_timestamp_ns := 0, ac_end_timestamp_ns := 0, ac_request_id := request_id\<rparr>"

lemma chunk_from_to: "chunk_from_proto (chunk_to_proto request_id chunk) = received_chunk request_id chunk"
  by (simp add: chunk_from_proto_def chunk_to_proto_def received_chunk_def)

lemma remote_audio_in:
  assumes h: "hosts sv cl a" and l: "\<not> st_is_ok lost" and x: "sendable extra"
    and c: "\<And>n. \<not> cancelled n" and acc: "\<And>t s. fst (handler t s) = Inr True"
    and src: "src = ain_get_audio a codec duration previous extra"
  shows "run_source (ain_get_audio (audio_in_client cl (audio_in_service sv lost request_id cancelled finish))
            codec duration previous extra) handler s =
    (seen_remotely lost ''AudioInServer::GetAudio'' (source_result src),
     foldl (\<lambda>s t. snd (handler (received_chunk request_id t) s)) s (accepted src))"
  unfolding audio_in_client_def audio_in_service_def audio_in.simps audio_in_stub.simps
  by (subst remote_stream[where src = src, OF h l x c acc]) (simp_all add: src x chunk_from_to)

lemma serve_sink_chunks:
  assumes "\<And>n. \<not> cancelled n"
  shows "serve_sink sk cancelled (n, map Play_chunk cs) = run_sink sk cs"
proof (induction sk arbitrary: n cs)
  case (Sink_pull k)
  show ?case
  proof (cases cs)
    case Nil
    then show ?thesis using Sink_pull.IH[OF rangeI, of "Inr None" n "[]"] by simp
  next
    case (Cons c cs')
    then show ?thesis using assms Sink_pull.IH[OF rangeI, of "Inr (Some c)" "Suc n" cs'] by simp
  qed
qed simp

lemma send_chunks_all:
  "(\<And>i. write_ok i) \<Longrightarrow> send_chunks write_ok n cs fin = (map Play_chunk cs, fin)"
  by (induction write_ok n cs fin rule: send_chunks.induct) auto

text \<open>Played through client and server, an implementation pulls the caller's chunks in their order;
  its exception arrives as an \<^verbatim>\<open>INTERNAL\<close> status.\<close>

lemma remote_play_stream:
  assumes h: "hosts sv cl a" and x: "ps_wf extra"
    and c: "\<And>n. \<not> cancelled n" and w: "\<And>n. write_ok n"
    and fin: "\<And>md ms. finish md ms = (case play_stream_handler sv cancelled ms of Inr st \<Rightarrow> st | Inl e \<Rightarrow> lost)"
    and l: "\<not> st_is_ok lost"
  shows "call_play_stream cl write_ok finish info cs None extra =
    (case run_sink (aout_play_stream a info extra) cs of
       Inr _ \<Rightarrow> Inr ()
     | Inl e \<Rightarrow> Inl (grpc_exception (if is_std_exception e then mk_status INTERNAL (c_str (exn_what e)) else lost)))"
proof -
  have e: "struct_from_proto (struct_to_proto extra) = extra" using x by (rule struct_from_to)
  have bind: "Option.bind (manager_resource (rs_manager sv) (rc_name cl)) (rs_cast sv) = Some a"
    using h by (simp add: hosts_def)
  show ?thesis
    using l
    by (cases "run_sink (aout_play_stream a info extra) cs")
      (auto simp: call_play_stream_def w send_chunks_all Let_def fin play_stream_handler_def bind e
        serve_sink_chunks[OF c] mk_status_def st_is_ok_def)
qed

lemma remote_play:
  assumes h: "hosts sv cl a" and l: "\<not> st_is_ok lost" and x: "sendable extra"
  shows "call_play cl (audio_out_service sv lost) bs info extra =
      seen_remotely lost ''AudioOutServer::Play'' (aout_play a bs info extra)"
    and "call_audio_properties cl (audio_out_service sv lost) extra =
      seen_remotely lost ''AudioOutServer::GetProperties'' (aout_get_properties a extra)"
  unfolding call_play_def call_audio_properties_def audio_out_service_def
  by (simp_all add: remote_simps[OF h l] x)

end
