(* ===== verification/MLModel.thy ===== *)
theory MLModel
  imports ArmComponent "HOL-Library.Multiset"
begin

text \<open>
  The ML model service: tensors and their wire format (\<^verbatim>\<open>services/private/mlmodel.cpp\<close>), the data
  types and their names (\<^verbatim>\<open>services/mlmodel.cpp\<close>), and inference and metadata through client and
  server (\<^verbatim>\<open>private/mlmodel_client.cpp\<close>, \<^verbatim>\<open>private/mlmodel_server.cpp\<close>). A tensor view is the
  sequence of its elements, as bit patterns of their width, with its shape; the byte order is that of
  a little-endian machine, the only one the source supports. \<^verbatim>\<open>std::size_t\<close> has 64 bits.
\<close>

subsection \<open>Tensors\<close>

datatype tensor_data =
    D_int8 "8 word list" | D_uint8 "8 word list"
  | D_int16 "16 word list" | D_uint16 "16 word list"
  | D_int32 "32 word list" | D_uint32 "32 word list"
  | D_int64 "64 word list" | D_uint64 "64 word list"
  | D_float "32 word list" | D_double "64 word list"

record tensor_view =
  tv_data :: tensor_data
  tv_shape :: "64 word list"

text \<open>The wire: 16-bit elements travel in pairs, in 32-bit integers.\<close>

datatype pb_tensor_data =
    F_not_set
  | F_int8 "8 word list" | F_uint8 "8 word list"
  | F_int16 "32 word list" | F_uint16 "32 word list"
  | F_int32 "32 word list" | F_uint32 "32 word list"
  | F_int64 "64 word list" | F_uint64 "64 word list"
  | F_float "32 word list" | F_double "64 word list"

record flat_tensor =
  ft_data :: pb_tensor_data
  ft_shape :: "64 word list"

text \<open>\<^verbatim>\<open>memcpy\<close> of shorts over \<open>num32s\<close> zeroed 32-bit integers: a missing last half stays zero.\<close>

definition short_at :: "16 word list \<Rightarrow> nat \<Rightarrow> 16 word" where
  "short_at ts j = (if j < length ts then ts ! j else 0)"

text \<open>
  The number of integers, computed in \<^verbatim>\<open>std::size_t\<close> and cast to \<^verbatim>\<open>int\<close>. A field that the cast made
  too short, or a negative length, is undefined behaviour.
\<close>

definition num32s :: "nat \<Rightarrow> int" where
  "num32s n = signed_take_bit 31 (int ((n + 1) * 2 mod 2 ^ 64 div 4))"

definition pack_shorts :: "16 word list \<Rightarrow> 32 word list res" where
  "pack_shorts ts =
     (let n = num32s (length ts)
      in if n < 0 \<or> 4 * n < 2 * int (length ts) then Inl (Undefined ''memcpy past the end of the field'')
         else Inr (map (\<lambda>i. word_cat (short_at ts (2 * i + 1)) (short_at ts (2 * i))) [0..<nat n]))"

text \<open>\<^verbatim>\<open>reinterpret_cast<const int16_t*>\<close>: the low half of each integer, then the high half.\<close>

definition unpack_shorts :: "32 word list \<Rightarrow> 16 word list" where
  "unpack_shorts ws = concat (map (\<lambda>w. [ucast w, ucast (drop_bit 16 w)]) ws)"

definition copy_sdk_tensor_to_api_tensor :: "tensor_view \<Rightarrow> flat_tensor res" where
  "copy_sdk_tensor_to_api_tensor source =
     rmap (\<lambda>d. \<lparr>ft_data = d, ft_shape = tv_shape source\<rparr>)
        (case tv_data source of
           D_int8 t \<Rightarrow> Inr (F_int8 t)
         | D_uint8 t \<Rightarrow> Inr (F_uint8 t)
         | D_int16 t \<Rightarrow> rmap F_int16 (pack_shorts t)
         | D_uint16 t \<Rightarrow> rmap F_uint16 (pack_shorts t)
         | D_int32 t \<Rightarrow> Inr (F_int32 t)
         | D_uint32 t \<Rightarrow> Inr (F_uint32 t)
         | D_int64 t \<Rightarrow> Inr (F_int64 t)
         | D_uint64 t \<Rightarrow> Inr (F_uint64 t)
         | D_float t \<Rightarrow> Inr (F_float t)
         | D_double t \<Rightarrow> Inr (F_double t))"

text \<open>The linearised shape, with the overflow check the code makes: a product that got smaller.\<close>

fun shape_accum :: "64 word \<Rightarrow> 64 word list \<Rightarrow> 64 word res" where
  "shape_accum acc [] = Inr acc"
| "shape_accum acc (s # shape) =
     (let next_shape_accum = acc * s
      in if next_shape_accum < acc then
           Inl (general_exception
                  ''Provided shape information exceeds bounds of size_t when linearized'')
         else shape_accum next_shape_accum shape)"

definition make_sdk_tensor_t :: "bool \<Rightarrow> 'a list \<Rightarrow> 64 word list \<Rightarrow> ('a list \<times> 64 word list) res" where
  "make_sdk_tensor_t is16bit data shape =
     (if data = [] \<or> shape = [] then Inl (general_exception ''Empty or zero length data or shape'')
      else rbind (shape_accum 1 shape) (\<lambda>accum.
        let size = word_of_nat (length data) :: 64 word;
            size' = (if is16bit \<and> accum = size - 1 then length data - 1 else length data)
        in if word_of_nat size' \<noteq> accum then
             Inl (general_exception ''Number of provided data elements does not match provided shape'')
           else Inr (take size' data, shape)))"

definition tensor_of :: "('a list \<Rightarrow> tensor_data) \<Rightarrow> 'a list \<times> 64 word list \<Rightarrow> tensor_view" where
  "tensor_of con r = \<lparr>tv_data = con (fst r), tv_shape = snd r\<rparr>"

text \<open>The copy into a \<^verbatim>\<open>tensor_storage\<close> changes who owns the elements, not the view.\<close>

definition make_sdk_tensor_from_api_tensor :: "flat_tensor \<Rightarrow> tensor_view res" where
  "make_sdk_tensor_from_api_tensor p =
     (case ft_data p of
        F_int8 t \<Rightarrow> rmap (tensor_of D_int8) (make_sdk_tensor_t False t (ft_shape p))
      | F_uint8 t \<Rightarrow> rmap (tensor_of D_uint8) (make_sdk_tensor_t False t (ft_shape p))
      | F_int16 t \<Rightarrow> rmap (tensor_of D_int16) (make_sdk_tensor_t True (unpack_shorts t) (ft_shape p))
      | F_uint16 t \<Rightarrow> rmap (tensor_of D_uint16) (make_sdk_tensor_t True (unpack_shorts t) (ft_shape p))
      | F_int32 t \<Rightarrow> rmap (tensor_of D_int32) (make_sdk_tensor_t False t (ft_shape p))
      | F_uint32 t \<Rightarrow> rmap (tensor_of D_uint32) (make_sdk_tensor_t False t (ft_shape p))
      | F_int64 t \<Rightarrow> rmap (tensor_of D_int64) (make_sdk_tensor_t False t (ft_shape p))
      | F_uint64 t \<Rightarrow> rmap (tensor_of D_uint64) (make_sdk_tensor_t False t (ft_shape p))
      | F_float t \<Rightarrow> rmap (tensor_of D_float) (make_sdk_tensor_t False t (ft_shape p))
      | F_double t \<Rightarrow> rmap (tensor_of D_double) (make_sdk_tensor_t False t (ft_shape p))
      | F_not_set \<Rightarrow> Inl (sdk_exception K_not_supported ''Unsupported tensor data type''))"

subsection \<open>Data types\<close>

datatype data_types =
  k_int8 | k_uint8 | k_int16 | k_uint16 | k_int32 | k_uint32 | k_int64 | k_uint64 | k_float32 | k_float64
| k_data_type_other "8 word"

definition string_to_data_type :: "string \<Rightarrow> data_types option" where
  "string_to_data_type str =
     (if str = ''int8'' then Some k_int8
      else if str = ''uint8'' then Some k_uint8
      else if str = ''int16'' then Some k_int16
      else if str = ''uint16'' then Some k_uint16
      else if str = ''int32'' then Some k_int32
      else if str = ''uint32'' then Some k_uint32
      else if str = ''int64'' then Some k_int64
      else if str = ''uint64'' then Some k_uint64
      else if str = ''float32'' then Some k_float32
      else if str = ''float64'' then Some k_float64
      else None)"

fun data_type_to_string :: "data_types \<Rightarrow> string option" where
  "data_type_to_string k_int8 = Some ''int8''"
| "data_type_to_string k_uint8 = Some ''uint8''"
| "data_type_to_string k_int16 = Some ''int16''"
| "data_type_to_string k_uint16 = Some ''uint16''"
| "data_type_to_string k_int32 = Some ''int32''"
| "data_type_to_string k_uint32 = Some ''uint32''"
| "data_type_to_string k_int64 = Some ''int64''"
| "data_type_to_string k_uint64 = Some ''uint64''"
| "data_type_to_string k_float32 = Some ''float32''"
| "data_type_to_string k_float64 = Some ''float64''"
| "data_type_to_string (k_data_type_other n) = None"

fun data_type_value :: "data_types \<Rightarrow> nat" where
  "data_type_value k_int8 = 0"
| "data_type_value k_uint8 = 1"
| "data_type_value k_int16 = 2"
| "data_type_value k_uint16 = 3"
| "data_type_value k_int32 = 4"
| "data_type_value k_uint32 = 5"
| "data_type_value k_int64 = 6"
| "data_type_value k_uint64 = 7"
| "data_type_value k_float32 = 8"
| "data_type_value k_float64 = 9"
| "data_type_value (k_data_type_other n) = unat n"

definition show_data_type :: "data_types \<Rightarrow> string" where
  "show_data_type dt =
     (case data_type_to_string dt of Some str \<Rightarrow> str | None \<Rightarrow> show_nat (data_type_value dt))"

definition tensor_views_to_data_type :: "tensor_view \<Rightarrow> data_types" where
  "tensor_views_to_data_type view =
     (case tv_data view of
        D_int8 _ \<Rightarrow> k_int8 | D_uint8 _ \<Rightarrow> k_uint8
      | D_int16 _ \<Rightarrow> k_int16 | D_uint16 _ \<Rightarrow> k_uint16
      | D_int32 _ \<Rightarrow> k_int32 | D_uint32 _ \<Rightarrow> k_uint32
      | D_int64 _ \<Rightarrow> k_int64 | D_uint64 _ \<Rightarrow> k_uint64
      | D_float _ \<Rightarrow> k_float32 | D_double _ \<Rightarrow> k_float64)"

subsection \<open>The service\<close>

datatype label_type = k_label_type_tensor_value | k_label_type_tensor_axis | k_label_type_other "8 word"

record tensor_file =
  tf_name :: string
  tf_description :: string
  tf_label_type :: label_type

record tensor_info =
  ti_name :: string
  ti_description :: string
  ti_data_type :: data_types
  ti_shape :: "32 word list"
  ti_associated_files :: "tensor_file list"
  ti_extra :: proto_struct

record ml_metadata =
  md_name :: string
  md_type :: string
  md_description :: string
  md_inputs :: "tensor_info list"
  md_outputs :: "tensor_info list"

type_synonym named_tensor_views = "(string \<times> tensor_view) list"

record ml_model =
  ml_infer :: "named_tensor_views \<Rightarrow> proto_struct \<Rightarrow> named_tensor_views res"
  ml_metadata :: "proto_struct \<Rightarrow> ml_metadata res"
  ml_get_status :: "proto_struct res"

text \<open>\<^verbatim>\<open>LABEL_TYPE_UNSPECIFIED\<close> is the value 0 of the wire's enum.\<close>

datatype pb_label_type = LABEL_TYPE_TENSOR_VALUE | LABEL_TYPE_TENSOR_AXIS | LABEL_TYPE_number int

record pb_tensor_file =
  ptf_name :: string
  ptf_description :: string
  ptf_label_type :: pb_label_type

record pb_tensor_info =
  pti_name :: string
  pti_description :: string
  pti_data_type :: string
  pti_shape :: "32 word list"
  pti_associated_files :: "pb_tensor_file list"
  pti_extra :: "pb_struct option"

record pb_ml_metadata =
  pmd_name :: string
  pmd_type :: string
  pmd_description :: string
  pmd_input_info :: "pb_tensor_info list"
  pmd_output_info :: "pb_tensor_info list"

record ml_stub =
  mls_Infer :: "((string \<times> flat_tensor) list option, (string \<times> flat_tensor) list) rpc"
  mls_Metadata :: "(unit, pb_ml_metadata option) rpc"
  mls_GetStatus :: "(unit, pb_struct) rpc"

subsection \<open>The server\<close>

definition wrong_type_message :: "tensor_info \<Rightarrow> data_types \<Rightarrow> string" where
  "wrong_type_message input tensor_type =
     ''Tensor input '' @ [CHR 0x60] @ ti_name input @ [CHR 0x60] @ '' was the wrong type; expected type ''
     @ show_data_type (ti_data_type input) @ '' but got type '' @ show_data_type tensor_type"

definition missing_input_message :: "tensor_info \<Rightarrow> string" where
  "missing_input_message input =
     ''Expected tensor input '' @ [CHR 0x60] @ ti_name input @ [CHR 0x60]
     @ '' was not found; if you believe you have this tensor under a different name, rename it to the expected tensor name''"

text \<open>
  The inputs of the implementation: \<open>Inl\<close> an exception, or a status the handler returns, or the views.
  The tensor of one input is converted, compared with the declared type and emplaced.
\<close>

definition add_input ::
  "string \<Rightarrow> tensor_info \<Rightarrow> flat_tensor \<Rightarrow> named_tensor_views \<Rightarrow> (status + named_tensor_views) res" where
  "add_input label input p inputs =
     rmap (\<lambda>tensor.
         if tensor_views_to_data_type tensor \<noteq> ti_data_type input then
           Inl (fail label INVALID_ARGUMENT
                  (wrong_type_message input (tensor_views_to_data_type tensor)))
         else Inr (emplace (ti_name input) tensor inputs))
       (make_sdk_tensor_from_api_tensor p)"

fun add_inputs ::
  "string \<Rightarrow> (string \<times> flat_tensor) list \<Rightarrow> tensor_info list \<Rightarrow> named_tensor_views \<Rightarrow>
   (status + named_tensor_views) res" where
  "add_inputs label tensors [] inputs = Inr (Inr inputs)"
| "add_inputs label tensors (input # infos) inputs =
     (case map_of tensors (ti_name input) of
        None \<Rightarrow> Inr (Inl (fail label INVALID_ARGUMENT (missing_input_message input)))
      | Some p \<Rightarrow>
          rbind (add_input label input p inputs) (\<lambda>r.
            case r of Inl st \<Rightarrow> Inr (Inl st) | Inr inputs' \<Rightarrow> add_inputs label tensors infos inputs'))"

text \<open>One tensor for one declared input is taken whatever its name.\<close>

definition served_inputs ::
  "string \<Rightarrow> ml_metadata \<Rightarrow> (string \<times> flat_tensor) list \<Rightarrow> (status + named_tensor_views) res" where
  "served_inputs label md tensors =
     (if length tensors = 1 \<and> length (md_inputs md) = 1 then
        add_input label (hd (md_inputs md)) (snd (hd tensors)) []
      else add_inputs label tensors (md_inputs md) [])"

definition outputs_to_proto :: "named_tensor_views \<Rightarrow> (string \<times> flat_tensor) list res" where
  "outputs_to_proto outputs =
     foldM (\<lambda>m kv. rmap (\<lambda>p. aput (fst kv) p m) (copy_sdk_tensor_to_api_tensor (snd kv))) [] outputs"

definition infer_handler ::
  "(string \<times> flat_tensor) list option pb_request \<Rightarrow> ml_model \<Rightarrow>
   (status \<times> (string \<times> flat_tensor) list) res" where
  "infer_handler q mlms =
     (case rq_body q of
        None \<Rightarrow> Inr (fail ''MLModelServiceServer::Infer'' INVALID_ARGUMENT ''Called with no input tensors'', [])
      | Some tensors \<Rightarrow>
          rbind (ml_metadata mlms []) (\<lambda>md.
          rbind (served_inputs ''MLModelServiceServer::Infer'' md tensors) (\<lambda>r.
            case r of
              Inl st \<Rightarrow> Inr (st, [])
            | Inr inputs \<Rightarrow>
                rbind (ml_infer mlms inputs (request_extra q)) (\<lambda>outputs.
                  rmap (Pair status_ok) (outputs_to_proto outputs)))))"

fun label_type_to_proto :: "label_type \<Rightarrow> pb_label_type" where
  "label_type_to_proto k_label_type_tensor_value = LABEL_TYPE_TENSOR_VALUE"
| "label_type_to_proto k_label_type_tensor_axis = LABEL_TYPE_TENSOR_AXIS"
| "label_type_to_proto (k_label_type_other n) = LABEL_TYPE_number 0"

definition tensor_file_to_proto :: "tensor_file \<Rightarrow> pb_tensor_file" where
  "tensor_file_to_proto af =
     \<lparr>ptf_name = tf_name af, ptf_description = tf_description af,
      ptf_label_type = label_type_to_proto (tf_label_type af)\<rparr>"

text \<open>\<^verbatim>\<open>pack_tensor_info\<close> stops at the first entry of an unknown data type.\<close>

fun pack_tensor_info :: "string \<Rightarrow> tensor_info list \<Rightarrow> status + pb_tensor_info list" where
  "pack_tensor_info label [] = Inr []"
| "pack_tensor_info label (s # source) =
     (case data_type_to_string (ti_data_type s) of
        None \<Rightarrow>
          Inl (fail label INTERNAL
            (''Served MLModelService returned an unknown data type with value '' @ [CHR 0x60]
             @ show_data_type (ti_data_type s) @ [CHR 0x60] @ '' in its metadata''))
      | Some str \<Rightarrow>
          (case pack_tensor_info label source of
             Inl st \<Rightarrow> Inl st
           | Inr rest \<Rightarrow>
               Inr (\<lparr>pti_name = ti_name s, pti_description = ti_description s, pti_data_type = str,
                     pti_shape = ti_shape s,
                     pti_associated_files = map tensor_file_to_proto (ti_associated_files s),
                     pti_extra = Some (struct_to_proto (ti_extra s))\<rparr> # rest)))"

definition metadata_handler :: "ml_metadata \<Rightarrow> status \<times> pb_ml_metadata option" where
  "metadata_handler md =
     (case pack_tensor_info ''MLModelServiceServer::Metadata'' (md_inputs md) of
        Inl st \<Rightarrow> (st, None)
      | Inr is \<Rightarrow>
          (case pack_tensor_info ''MLModelServiceServer::Metadata'' (md_outputs md) of
             Inl st \<Rightarrow> (st, None)
           | Inr os \<Rightarrow>
               (status_ok,
                Some \<lparr>pmd_name = md_name md, pmd_type = md_type md, pmd_description = md_description md,
                      pmd_input_info = is, pmd_output_info = os\<rparr>)))"

definition ml_service :: "('r, ml_model) rpc_server \<Rightarrow> status \<Rightarrow> ml_stub" where
  "ml_service sv lost =
     \<lparr>mls_Infer = answer sv lost [] ''MLModelServiceServer::Infer'' infer_handler,
      mls_Metadata = answer sv lost None ''MLModelServiceServer::Metadata'' (\<lambda>q mlms.
        rmap metadata_handler (ml_metadata mlms (request_extra q))),
      mls_GetStatus = serve_get_status sv lost ''MLModelServiceServer::GetStatus'' ml_get_status\<rparr>"

subsection \<open>The client\<close>

text \<open>\<^verbatim>\<open>infer\<close> builds its context by hand, without the channel. The outputs are converted one by one
  and emplaced.\<close>

definition outputs_from_proto :: "(string \<times> flat_tensor) list \<Rightarrow> named_tensor_views res" where
  "outputs_from_proto outputs =
     rmap insert_all (mapM (\<lambda>kv. rmap (Pair (fst kv)) (make_sdk_tensor_from_api_tensor (snd kv))) outputs)"

definition call_infer ::
  "rpc_client \<Rightarrow> ((string \<times> flat_tensor) list option, (string \<times> flat_tensor) list) rpc \<Rightarrow>
   named_tensor_views \<Rightarrow> proto_struct \<Rightarrow> named_tensor_views res" where
  "call_infer cl rpc inputs extra =
     rbind (outputs_to_proto inputs) (\<lambda>tensors.
       rbind (bare_call cl rpc extra (Some tensors)) outputs_from_proto)"

fun label_type_from_proto :: "pb_label_type \<Rightarrow> label_type res" where
  "label_type_from_proto LABEL_TYPE_TENSOR_VALUE = Inr k_label_type_tensor_value"
| "label_type_from_proto LABEL_TYPE_TENSOR_AXIS = Inr k_label_type_tensor_axis"
| "label_type_from_proto (LABEL_TYPE_number n) =
     Inl (general_exception
       (''Failed to deserialize returned Metadata.TensorInfo.File.label_type field with value ''
        @ [CHR 0x60] @ show_int n @ [CHR 0x60] @ '' to one of the known label types''))"

definition tensor_file_from_proto :: "pb_tensor_file \<Rightarrow> tensor_file res" where
  "tensor_file_from_proto af =
     rmap (\<lambda>l. \<lparr>tf_name = ptf_name af, tf_description = ptf_description af, tf_label_type = l\<rparr>)
       (label_type_from_proto (ptf_label_type af))"

definition tensor_info_from_proto :: "pb_tensor_info \<Rightarrow> tensor_info res" where
  "tensor_info_from_proto s =
     (case string_to_data_type (pti_data_type s) of
        None \<Rightarrow>
          Inl (general_exception
            (''Failed to deserialize returned Metadata.TensorInfo.data_type field with value ''
             @ [CHR 0x60] @ pti_data_type s @ [CHR 0x60] @ '' to one of the known tensor data types''))
      | Some data_type \<Rightarrow>
          rmap (\<lambda>files.
              \<lparr>ti_name = pti_name s, ti_description = pti_description s, ti_data_type = data_type,
               ti_shape = pti_shape s, ti_associated_files = files,
               ti_extra = (case pti_extra s of Some e \<Rightarrow> struct_from_proto e | None \<Rightarrow> [])\<rparr>)
            (mapM tensor_file_from_proto (pti_associated_files s)))"

definition ml_metadata_empty :: ml_metadata where
  "ml_metadata_empty =
     \<lparr>md_name = [], md_type = [], md_description = [], md_inputs = [], md_outputs = []\<rparr>"

definition ml_metadata_from_proto :: "pb_ml_metadata option \<Rightarrow> ml_metadata res" where
  "ml_metadata_from_proto resp =
     (case resp of
        None \<Rightarrow> Inr ml_metadata_empty
      | Some p \<Rightarrow>
          rbind (mapM tensor_info_from_proto (pmd_input_info p)) (\<lambda>inputs.
          rmap (\<lambda>outputs.
              \<lparr>md_name = pmd_name p, md_type = pmd_type p, md_description = pmd_description p,
               md_inputs = inputs, md_outputs = outputs\<rparr>)
            (mapM tensor_info_from_proto (pmd_output_info p))))"

text \<open>\<^verbatim>\<open>metadata\<close> keeps the status of the call in a variable it never reads; a call that failed
  delivers no response.\<close>

definition call_metadata :: "rpc_client \<Rightarrow> (unit, pb_ml_metadata option) rpc \<Rightarrow> proto_struct \<Rightarrow> ml_metadata res" where
  "call_metadata cl rpc extra =
     ml_metadata_from_proto (case bare_call cl rpc extra () of Inl _ \<Rightarrow> None | Inr resp \<Rightarrow> resp)"

definition ml_client :: "rpc_client \<Rightarrow> ml_stub \<Rightarrow> ml_model" where
  "ml_client cl stub =
     \<lparr>ml_infer = call_infer cl (mls_Infer stub),
      ml_metadata = call_metadata cl (mls_Metadata stub),
      ml_get_status = call_get_status cl (mls_GetStatus stub)\<rparr>"

subsection \<open>Lemmas: tensors on the wire\<close>

lemma ucast_cat_low [simp]: "ucast (word_cat (hi :: 16 word) (lo :: 16 word) :: 32 word) = lo"
  by (rule bit_word_eqI) (simp add: bit_simps)

lemma ucast_cat_high [simp]: "ucast (drop_bit 16 (word_cat (hi :: 16 word) (lo :: 16 word) :: 32 word)) = hi"
  by (rule bit_word_eqI) (simp add: bit_simps)

lemma concat_pairs: "concat (map (\<lambda>i. [f (2 * i), f (2 * i + 1)]) [0..<k]) = map f [0..<2 * k]"
  by (induction k) auto

lemma num32s_exact: "n < 2 ^ 32 - 1 \<Longrightarrow> num32s n = int ((n + 1) div 2)"
proof -
  assume s: "n < 2 ^ 32 - 1"
  then have "(n + 1) * 2 mod 2 ^ 64 div 4 = (n + 1) div 2" by simp
  moreover have "int ((n + 1) div 2) < 2 ^ 31" using s by simp
  ultimately show ?thesis
    unfolding num32s_def by (simp only: signed_take_bit_int_eq_self_iff) simp
qed

lemma pack_shorts_fits:
  assumes "length ts < 2 ^ 32 - 1"
  shows "pack_shorts ts = Inr (map (\<lambda>i. word_cat (short_at ts (2 * i + 1)) (short_at ts (2 * i)))
           [0..<(length ts + 1) div 2])"
proof -
  have "\<not> 4 * int ((length ts + 1) div 2) < 2 * int (length ts)" by linarith
  then show ?thesis
    by (simp add: pack_shorts_def num32s_exact[OF assms] Let_def del: upt_Suc)
qed

text \<open>From \<open>2 ^ 32 - 1\<close> elements on the field is too short for the copy.\<close>

lemma pack_shorts_overflow:
  assumes "2 ^ 32 - 1 \<le> length ts"
  shows "pack_shorts ts = Inl (Undefined ''memcpy past the end of the field'')"
proof -
  have "num32s (length ts) < 2 ^ 31" unfolding num32s_def by (rule signed_take_bit_int_less_exp)
  moreover have "4294967295 \<le> length ts" using assms by simp
  ultimately have "4 * num32s (length ts) < 2 * int (length ts)" by simp
  then show ?thesis by (simp add: pack_shorts_def Let_def)
qed

lemma unpack_pack:
  assumes "length ts < 2 ^ 32 - 1"
  shows "\<exists>ws. pack_shorts ts = Inr ws \<and> unpack_shorts ws = ts @ (if odd (length ts) then [0] else [])"
proof -
  let ?k = "(length ts + 1) div 2"
  let ?ws = "map (\<lambda>i. word_cat (short_at ts (2 * i + 1)) (short_at ts (2 * i)) :: 32 word) [0..<?k]"
  have "unpack_shorts ?ws = concat (map (\<lambda>i. [short_at ts (2 * i), short_at ts (2 * i + 1)]) [0..<?k])"
    by (simp add: unpack_shorts_def comp_def del: upt_Suc)
  also have "\<dots> = map (short_at ts) [0..<2 * ?k]" by (rule concat_pairs)
  also have "\<dots> = ts @ (if odd (length ts) then [0] else [])"
    by (rule nth_equalityI) (auto simp: short_at_def nth_append less_Suc_eq elim!: oddE evenE)
  finally show ?thesis using pack_shorts_fits[OF assms] by blast
qed

text \<open>An accepted shape has the size it wraps to; a shape without zeros that fits is accepted.\<close>

lemma shape_accum_prod: "shape_accum acc shape = Inr r \<Longrightarrow> r = acc * prod_list shape"
  by (induction acc shape rule: shape_accum.induct) (auto simp: Let_def mult.assoc split: if_splits)

lemma shape_accum_fits:
  "0 < unat acc * prod_list (map unat shape) \<Longrightarrow> unat acc * prod_list (map unat shape) < 2 ^ 64 \<Longrightarrow>
   shape_accum acc shape = Inr (word_of_nat (unat acc * prod_list (map unat shape)))"
proof (induction acc shape rule: shape_accum.induct)
  case (2 acc s shape)
  have pos: "0 < unat acc" "0 < unat s" "0 < prod_list (map unat shape)"
    using 2(2) by auto
  have "unat acc * unat s * 1 \<le> unat acc * unat s * prod_list (map unat shape)"
    by (rule mult_le_mono2) (use pos in simp)
  then have fit: "unat acc * unat s < 2 ^ 64"
    using 2(3) by (simp only: list.map prod_list.Cons mult.assoc mult_1_right)
  then have u: "unat (acc * s) = unat acc * unat s"
    by (subst unat_mult_lem[THEN iffD1]) simp_all
  have "\<not> acc * s < acc"
    using pos by (simp add: word_less_nat_alt u)
  then show ?case
    using 2 by (simp add: Let_def u mult.assoc)
qed simp

definition data_size :: "tensor_data \<Rightarrow> nat" where
  "data_size d =
     (case d of D_int8 t \<Rightarrow> length t | D_uint8 t \<Rightarrow> length t | D_int16 t \<Rightarrow> length t | D_uint16 t \<Rightarrow> length t
      | D_int32 t \<Rightarrow> length t | D_uint32 t \<Rightarrow> length t | D_int64 t \<Rightarrow> length t | D_uint64 t \<Rightarrow> length t
      | D_float t \<Rightarrow> length t | D_double t \<Rightarrow> length t)"

text \<open>
  A tensor the wire carries: it is not empty, its shape describes its elements, and of 16-bit elements
  there are fewer than \<open>2 ^ 32 - 1\<close>.
\<close>

definition halves_fit :: "tensor_data \<Rightarrow> bool" where
  "halves_fit d =
     (case d of D_int16 t \<Rightarrow> length t < 2 ^ 32 - 1 | D_uint16 t \<Rightarrow> length t < 2 ^ 32 - 1 | _ \<Rightarrow> True)"

definition tensor_wf :: "tensor_view \<Rightarrow> bool" where
  "tensor_wf v \<longleftrightarrow>
     0 < data_size (tv_data v) \<and> Suc (data_size (tv_data v)) < 2 ^ 64 \<and> tv_shape v \<noteq> []
     \<and> prod_list (map unat (tv_shape v)) = data_size (tv_data v) \<and> halves_fit (tv_data v)"

lemma word_size_eq:
  "n < 2 ^ 64 \<Longrightarrow> m < 2 ^ 64 \<Longrightarrow> (word_of_nat n = (word_of_nat m :: 64 word)) \<longleftrightarrow> n = m"
  by (simp add: word_of_nat_eq_iff take_bit_nat_eq_self)

lemma make_tensor_exact:
  assumes "0 < length ts" "length ts < 2 ^ 64" "shape \<noteq> []" "prod_list (map unat shape) = length ts"
  shows "make_sdk_tensor_t is16 ts shape = Inr (ts, shape)"
proof -
  have a: "shape_accum 1 shape = Inr (word_of_nat (length ts))"
    using shape_accum_fits[of 1 shape] assms by simp
  have "(word_of_nat (length ts) :: 64 word) \<noteq> word_of_nat (length ts) - 1"
    by simp
  then show ?thesis
    using assms by (auto simp: make_sdk_tensor_t_def a Let_def)
qed

lemma make_tensor_odd:
  assumes "0 < length ts" "Suc (length ts) < 2 ^ 64" "shape \<noteq> []" "prod_list (map unat shape) = length ts"
  shows "make_sdk_tensor_t True (ts @ [z]) shape = Inr (ts, shape)"
proof -
  have a: "shape_accum 1 shape = Inr (word_of_nat (length ts))"
    using shape_accum_fits[of 1 shape] assms by simp
  show ?thesis
    using assms by (simp add: make_sdk_tensor_t_def a Let_def)
qed

lemma make_tensor_packed:
  assumes "0 < length ts" "Suc (length ts) < 2 ^ 64" "shape \<noteq> []" "prod_list (map unat shape) = length ts"
    and "length ts < 2 ^ 32 - 1"
  shows "\<exists>ws. pack_shorts ts = Inr ws \<and> make_sdk_tensor_t True (unpack_shorts ws) shape = Inr (ts, shape)"
  using unpack_pack[OF assms(5)] assms make_tensor_odd[of ts shape 0] make_tensor_exact[of ts shape True] by force

theorem tensor_view_from_to:
  assumes "tensor_wf v"
  shows "\<exists>p. copy_sdk_tensor_to_api_tensor v = Inr p \<and> make_sdk_tensor_from_api_tensor p = Inr v"
proof -
  have w: "0 < data_size (tv_data v)" "Suc (data_size (tv_data v)) < 2 ^ 64" "tv_shape v \<noteq> []"
    "prod_list (map unat (tv_shape v)) = data_size (tv_data v)" "halves_fit (tv_data v)"
    using assms by (auto simp: tensor_wf_def)
  have p: "\<exists>ws. pack_shorts ts = Inr ws \<and> make_sdk_tensor_t True (unpack_shorts ws) (tv_shape v) = Inr (ts, tv_shape v)"
    if "tv_data v = D_int16 ts \<or> tv_data v = D_uint16 ts" for ts
    using w that by (intro make_tensor_packed) (auto simp: data_size_def halves_fit_def)
  note defs = make_sdk_tensor_from_api_tensor_def copy_sdk_tensor_to_api_tensor_def tensor_of_def
  show ?thesis
  proof (cases "\<exists>ts. tv_data v = D_int16 ts \<or> tv_data v = D_uint16 ts")
    case True
    then obtain ts where ts: "tv_data v = D_int16 ts \<or> tv_data v = D_uint16 ts" by blast
    from p[OF ts] obtain ws where "pack_shorts ts = Inr ws"
      "make_sdk_tensor_t True (unpack_shorts ws) (tv_shape v) = Inr (ts, tv_shape v)" by blast
    with ts show ?thesis by (cases v) (elim disjE; simp add: defs)
  next
    case False
    then show ?thesis
      using w(1-4) by (cases v; cases "tv_data v") (simp_all add: defs data_size_def make_tensor_exact)
  qed
qed

text \<open>The message of a tensor that the wire carries.\<close>

definition sent_tensor :: "tensor_view \<Rightarrow> flat_tensor" where
  "sent_tensor v = projr (copy_sdk_tensor_to_api_tensor v)"

lemma copy_sent: "tensor_wf v \<Longrightarrow> copy_sdk_tensor_to_api_tensor v = Inr (sent_tensor v)"
  using tensor_view_from_to[of v] by (auto simp: sent_tensor_def)

lemma sent_tensor_back: "tensor_wf v \<Longrightarrow> make_sdk_tensor_from_api_tensor (sent_tensor v) = Inr v"
  using tensor_view_from_to[of v] by (auto simp: sent_tensor_def)

interpretation tensor_codec: proto_codec sent_tensor make_sdk_tensor_from_api_tensor tensor_wf
  by unfold_locales (rule sent_tensor_back)

text \<open>An accepted tensor is a prefix of the data that came, of a length the shape wraps to.\<close>

lemma make_tensor_bounds:
  assumes "make_sdk_tensor_t is16 ts shape = Inr (d, sh)"
  shows "sh = shape" and "d = take (length d) ts" and "length d \<le> length ts" and "length ts \<le> Suc (length d)"
    and "word_of_nat (length d) = prod_list shape"
  using assms shape_accum_prod[of 1 shape]
  by (auto simp: make_sdk_tensor_t_def Let_def rbind_eq_Inr split: if_splits)

text \<open>A dimension of zero is refused as an overflow, and a product that wraps past zero is not
  noticed.\<close>

lemma zero_dimension_refused:
  "ts \<noteq> [] \<Longrightarrow> make_sdk_tensor_t is16 ts (0 # shape) =
   Inl (general_exception ''Provided shape information exceeds bounds of size_t when linearized'')"
  by (simp add: make_sdk_tensor_t_def Let_def)

lemma wrapped_shape_accepted:
  "make_sdk_tensor_t False [a, b, c, d] [3, 0xAAAAAAAAAAAAAAAC] = Inr ([a, b, c, d], [3, 0xAAAAAAAAAAAAAAAC])"
  by (simp add: make_sdk_tensor_t_def Let_def)

subsection \<open>Lemmas: data types and metadata\<close>

fun data_type_known :: "data_types \<Rightarrow> bool" where
  "data_type_known (k_data_type_other n) = False"
| "data_type_known dt = True"

lemma data_type_trip: "data_type_to_string dt = Some str \<Longrightarrow> string_to_data_type str = Some dt"
  by (cases dt) (auto simp: string_to_data_type_def)

lemma string_to_data_type_name: "string_to_data_type str = Some dt \<Longrightarrow> data_type_to_string dt = Some str"
  by (auto simp: string_to_data_type_def split: if_splits)

lemma view_type_known: "data_type_known (tensor_views_to_data_type v)"
  by (simp add: tensor_views_to_data_type_def split: tensor_data.split)

definition file_wf :: "tensor_file \<Rightarrow> bool" where
  "file_wf f \<longleftrightarrow> tf_label_type f \<in> {k_label_type_tensor_value, k_label_type_tensor_axis}"

definition info_wf :: "tensor_info \<Rightarrow> bool" where
  "info_wf i \<longleftrightarrow>
     data_type_known (ti_data_type i) \<and> (\<forall>f\<in>set (ti_associated_files i). file_wf f) \<and> ps_wf (ti_extra i)"

interpretation file_codec: proto_codec tensor_file_to_proto tensor_file_from_proto file_wf
  by unfold_locales (auto simp: file_wf_def tensor_file_to_proto_def tensor_file_from_proto_def)

lemma info_trip:
  assumes "info_wf i" and s: "data_type_to_string (ti_data_type i) = Some str"
  shows "tensor_info_from_proto
      \<lparr>pti_name = ti_name i, pti_description = ti_description i, pti_data_type = str,
       pti_shape = ti_shape i, pti_associated_files = map tensor_file_to_proto (ti_associated_files i),
       pti_extra = Some (struct_to_proto (ti_extra i))\<rparr> = Inr i"
  using assms(1)
  by (simp add: tensor_info_from_proto_def data_type_trip[OF s] info_wf_def
      file_codec.repeated_from_to struct_from_to)

lemma pack_info_trip:
  "\<forall>i\<in>set is. info_wf i \<Longrightarrow>
   \<exists>ps. pack_tensor_info label is = Inr ps \<and> mapM tensor_info_from_proto ps = Inr is"
proof (induction "is")
  case (Cons i "is")
  then obtain ps where ps: "pack_tensor_info label is = Inr ps" "mapM tensor_info_from_proto ps = Inr is"
    by auto
  have i: "info_wf i" using Cons.prems by simp
  then obtain str where s: "data_type_to_string (ti_data_type i) = Some str"
    by (cases "ti_data_type i") (auto simp: info_wf_def)
  show ?case
    by (simp add: s ps info_trip[OF i s])
qed simp

definition metadata_wf :: "ml_metadata \<Rightarrow> bool" where
  "metadata_wf md \<longleftrightarrow> (\<forall>i\<in>set (md_inputs md). info_wf i) \<and> (\<forall>i\<in>set (md_outputs md). info_wf i)"

lemma metadata_trip:
  assumes "metadata_wf md"
  shows "\<exists>p. metadata_handler md = (status_ok, Some p) \<and> ml_metadata_from_proto (Some p) = Inr md"
proof -
  obtain "is" where i: "pack_tensor_info ''MLModelServiceServer::Metadata'' (md_inputs md) = Inr is"
    "mapM tensor_info_from_proto is = Inr (md_inputs md)"
    using pack_info_trip[of "md_inputs md" "''MLModelServiceServer::Metadata''"] assms
    by (auto simp: metadata_wf_def)
  obtain os where o': "pack_tensor_info ''MLModelServiceServer::Metadata'' (md_outputs md) = Inr os"
    "mapM tensor_info_from_proto os = Inr (md_outputs md)"
    using pack_info_trip[of "md_outputs md" "''MLModelServiceServer::Metadata''"] assms
    by (auto simp: metadata_wf_def)
  show ?thesis by (simp add: metadata_handler_def i o' ml_metadata_from_proto_def)
qed

subsection \<open>Lemmas: inference\<close>

text \<open>The views an implementation is called with: one for each declared input, of its type.\<close>

definition declared :: "tensor_info list \<Rightarrow> string \<Rightarrow> tensor_view \<Rightarrow> bool" where
  "declared infos n v \<longleftrightarrow> (\<exists>i\<in>set infos. ti_name i = n \<and> tensor_views_to_data_type v = ti_data_type i)"

definition typed_inputs :: "ml_metadata \<Rightarrow> named_tensor_views \<Rightarrow> bool" where
  "typed_inputs md views \<longleftrightarrow>
     awf views \<and> (\<forall>e\<in>set views. declared (md_inputs md) (fst e) (snd e))
     \<and> set (akeys views) = ti_name ` set (md_inputs md)"

lemma add_input_ok:
  assumes "add_input label input p inputs = Inr (Inr views)"
  shows "\<exists>v. make_sdk_tensor_from_api_tensor p = Inr v \<and> tensor_views_to_data_type v = ti_data_type input
    \<and> views = emplace (ti_name input) v inputs"
  using assms by (cases "make_sdk_tensor_from_api_tensor p") (auto simp: add_input_def split: if_splits)

lemma add_inputs_typed:
  "add_inputs label tensors infos inputs = Inr (Inr views) \<Longrightarrow> set infos \<subseteq> set all \<Longrightarrow> awf inputs \<Longrightarrow>
   \<forall>e\<in>set inputs. declared all (fst e) (snd e) \<Longrightarrow>
   awf views \<and> (\<forall>e\<in>set views. declared all (fst e) (snd e))
   \<and> set (akeys views) = set (akeys inputs) \<union> ti_name ` set infos"
proof (induction infos arbitrary: inputs)
  case (Cons input infos)
  obtain p where p: "map_of tensors (ti_name input) = Some p"
    using Cons.prems(1) by (cases "map_of tensors (ti_name input)") auto
  then obtain inputs' where i: "add_input label input p inputs = Inr (Inr inputs')"
    "add_inputs label tensors infos inputs' = Inr (Inr views)"
    using Cons.prems(1) by (cases "add_input label input p inputs") (auto split: sum.splits)
  obtain v where v: "tensor_views_to_data_type v = ti_data_type input" "inputs' = emplace (ti_name input) v inputs"
    using add_input_ok[OF i(1)] by blast
  have "declared all (ti_name input) v"
    using Cons.prems(2) v(1) by (auto simp: declared_def)
  then have d: "\<forall>e\<in>set inputs'. declared all (fst e) (snd e)"
    using Cons.prems(4) set_emplace[of "ti_name input" v inputs] v(2) by auto
  show ?case
    using Cons.IH[OF i(2) _ _ d] Cons.prems(2,3) v(2) by (auto simp: akeys_emplace)
qed simp

lemma served_inputs_typed:
  assumes "served_inputs label md tensors = Inr (Inr views)"
  shows "typed_inputs md views"
proof (cases "length tensors = 1 \<and> length (md_inputs md) = 1")
  case True
  then obtain i where i: "md_inputs md = [i]" by (cases "md_inputs md") auto
  then obtain v where "tensor_views_to_data_type v = ti_data_type i" "views = emplace (ti_name i) v []"
    using assms True add_input_ok[of label i "snd (hd tensors)" "[]" views]
    by (auto simp: served_inputs_def)
  then show ?thesis using i by (simp add: typed_inputs_def declared_def emplace_def)
next
  case False
  then have "add_inputs label tensors (md_inputs md) [] = Inr (Inr views)"
    using assms by (simp only: served_inputs_def if_False)
  from add_inputs_typed[OF this order.refl] show ?thesis
    by (simp add: typed_inputs_def akeys_def)
qed

lemma infer_handler_typed:
  assumes "ml_metadata m [] = Inr md" "ml_metadata m' [] = Inr md"
    and "\<And>views extra. typed_inputs md views \<Longrightarrow> ml_infer m views extra = ml_infer m' views extra"
  shows "infer_handler q m = infer_handler q m'"
proof (cases "rq_body q")
  case (Some tensors)
  have "typed_inputs md views"
    if "served_inputs ''MLModelServiceServer::Infer'' md tensors = Inr (Inr views)" for views
    using served_inputs_typed that by blast
  then show ?thesis
    using assms Some
    by (cases "served_inputs ''MLModelServiceServer::Infer'' md tensors")
      (auto simp: infer_handler_def split: sum.split)
qed (simp add: infer_handler_def)

definition views_wf :: "named_tensor_views \<Rightarrow> bool" where
  "views_wf views \<longleftrightarrow> awf views \<and> (\<forall>e\<in>set views. tensor_wf (snd e))"

abbreviation sent_views :: "named_tensor_views \<Rightarrow> (string \<times> flat_tensor) list" where
  "sent_views views \<equiv> map (\<lambda>e. (fst e, sent_tensor (snd e))) views"

lemma outputs_to_proto_sent: "views_wf m \<Longrightarrow> outputs_to_proto m = Inr (sent_views m)"
proof -
  assume m: "views_wf m"
  have f: "foldM (\<lambda>m kv. rmap (\<lambda>p. aput (fst kv) p m) (copy_sdk_tensor_to_api_tensor (snd kv))) acc es =
      Inr (foldl (\<lambda>m kv. aput (fst kv) (sent_tensor (snd kv)) m) acc es)"
    if "\<forall>e\<in>set es. tensor_wf (snd e)" for acc es
    using that by (induction es arbitrary: acc) (simp_all add: copy_sent)
  then show ?thesis
    using m f[of m "[]"] foldl_aput_distinct[of "[]" sent_tensor m]
    by (simp add: outputs_to_proto_def views_wf_def)
qed

lemma outputs_from_to:
  "views_wf m \<Longrightarrow> outputs_from_proto (sent_views m) = Inr m"
  using tensor_codec.entries_from_to[of m]
  by (simp add: outputs_from_proto_def views_wf_def insert_all_distinct)

lemma map_of_entry: "awf m \<Longrightarrow> (k, v) \<in> set m \<Longrightarrow> map_of (map (\<lambda>e. (fst e, f (snd e))) m) k = Some (f v)"
  by (induction m) (auto simp: image_iff)

lemma add_inputs_exact:
  "(\<And>k v. (k, v) \<in> set all \<Longrightarrow> map_of tensors k = Some (sent_tensor v)) \<Longrightarrow> awf all \<Longrightarrow>
   all = done_views @ todo \<Longrightarrow> \<forall>e\<in>set all. tensor_wf (snd e) \<Longrightarrow>
   list_all2 (\<lambda>i e. ti_name i = fst e \<and> ti_data_type i = tensor_views_to_data_type (snd e)) infos todo \<Longrightarrow>
   add_inputs label tensors infos done_views = Inr (Inr all)"
proof (induction infos arbitrary: done_views todo)
  case (Cons input infos)
  then obtain k v rest where t: "todo = (k, v) # rest" "ti_name input = k"
      "ti_data_type input = tensor_views_to_data_type v"
      "list_all2 (\<lambda>i e. ti_name i = fst e \<and> ti_data_type i = tensor_views_to_data_type (snd e)) infos rest"
    by (cases todo) auto
  have w: "tensor_wf v" using Cons.prems(3,4) t(1) by auto
  have l: "map_of tensors k = Some (sent_tensor v)" using Cons.prems(1,3) t(1) by simp
  have fresh: "emplace k v done_views = done_views @ [(k, v)]"
    using Cons.prems(2,3) t(1) by (simp add: emplace_fresh)
  have "add_inputs label tensors infos (done_views @ [(k, v)]) = Inr (Inr all)"
    by (rule Cons.IH[OF Cons.prems(1,2) _ Cons.prems(4) t(4)]) (simp_all add: Cons.prems(3) t(1))
  then show ?case by (simp add: t(2,3) l add_input_def sent_tensor_back[OF w] fresh)
qed simp

text \<open>
  The inputs a model is to be called with, in the order of the declared ones. The map a caller makes of
  them may be iterated in any other order.
\<close>

definition inputs_match :: "ml_metadata \<Rightarrow> named_tensor_views \<Rightarrow> bool" where
  "inputs_match md inputs \<longleftrightarrow>
     views_wf inputs
     \<and> list_all2 (\<lambda>i e. ti_name i = fst e \<and> ti_data_type i = tensor_views_to_data_type (snd e))
         (md_inputs md) inputs"

lemma served_inputs_exact:
  assumes "inputs_match md inputs" "mset views = mset inputs"
  shows "served_inputs label md (sent_views views) = Inr (Inr inputs)"
proof (cases "length (md_inputs md) = 1")
  case True
  then obtain i k v where i: "md_inputs md = [i]" "inputs = [(k, v)]" "ti_name i = k"
    "ti_data_type i = tensor_views_to_data_type v" "tensor_wf v"
    using assms(1) by (cases "md_inputs md"; cases inputs) (auto simp: inputs_match_def views_wf_def)
  moreover have "views = [(k, v)]" using assms(2) i(2) by simp
  ultimately show ?thesis
    by (simp add: served_inputs_def add_input_def sent_tensor_back emplace_def)
next
  case False
  have w: "awf inputs" "\<forall>e\<in>set inputs. tensor_wf (snd e)"
    using assms(1) by (simp_all add: inputs_match_def views_wf_def)
  have "mset (akeys views) = mset (akeys inputs)"
    using assms(2) by (simp add: akeys_def)
  then have "awf views" using w(1) by (metis mset_eq_imp_distinct_iff)
  then have "map_of (sent_views views) k = Some (sent_tensor v)" if "(k, v) \<in> set inputs" for k v
    using that mset_eq_setD[OF assms(2)] by (intro map_of_entry) simp_all
  then show ?thesis
    using False w assms(1) add_inputs_exact[of inputs "sent_views views" "[]" inputs "md_inputs md" label]
    by (auto simp: served_inputs_def inputs_match_def)
qed

lemma views_wf_perm: "views_wf m \<Longrightarrow> mset n = mset m \<Longrightarrow> views_wf n"
  using mset_eq_setD[of n m] mset_eq_imp_distinct_iff[of "akeys n" "akeys m"]
  by (simp add: views_wf_def akeys_def)

lemma remote_infer:
  assumes h: "hosts sv cl m" and l: "\<not> st_is_ok lost" and x: "ps_wf extra"
    and md: "ml_metadata m [] = Inr md" and i: "inputs_match md inputs"
    and p: "mset views = mset inputs"
    and o': "\<And>r. ml_infer m inputs extra = Inr r \<Longrightarrow> views_wf r"
  shows "ml_infer (ml_client cl (ml_service sv lost)) views extra =
    seen_remotely lost ''MLModelServiceServer::Infer'' (ml_infer m inputs extra)"
proof -
  obtain rb where r: "manager_resource (rs_manager sv) (rc_name cl) = Some rb" "rs_cast sv rb = Some m"
    using h by (auto simp: hosts_def bind_eq_Some_conv)
  have e: "request_extra \<lparr>rq_name = n, rq_extra = Some (struct_to_proto extra), rq_body = b\<rparr> = extra" for n b
    using x by (simp add: request_extra_def get_extra_def struct_from_to)
  have v: "views_wf views" using views_wf_perm[OF _ p] i by (simp add: inputs_match_def)
  show ?thesis
    using l o'
    by (cases "ml_infer m inputs extra")
      (auto simp: ml_client_def call_infer_def bare_call_def ml_service_def answer_def Let_def r
        service_helper_found infer_handler_def md served_inputs_exact[OF i p] outputs_to_proto_sent[OF v] e
        wire_exn_def outputs_to_proto_sent outputs_from_to)
qed

text \<open>An empty output is sent and refused by the client.\<close>

lemma remote_infer_empty:
  assumes h: "hosts sv cl m" and l: "\<not> st_is_ok lost" and x: "ps_wf extra"
    and md: "ml_metadata m [] = Inr md" and i: "inputs_match md inputs" and p: "mset views = mset inputs"
    and o': "ml_infer m inputs extra = Inr [(k, \<lparr>tv_data = D_uint8 [], tv_shape = shape\<rparr>)]"
  shows "ml_infer (ml_client cl (ml_service sv lost)) views extra =
    Inl (general_exception ''Empty or zero length data or shape'')"
proof -
  obtain rb where r: "manager_resource (rs_manager sv) (rc_name cl) = Some rb" "rs_cast sv rb = Some m"
    using h by (auto simp: hosts_def bind_eq_Some_conv)
  have e: "request_extra \<lparr>rq_name = n, rq_extra = Some (struct_to_proto extra), rq_body = b\<rparr> = extra" for n b
    using x by (simp add: request_extra_def get_extra_def struct_from_to)
  have v: "views_wf views" using views_wf_perm[OF _ p] i by (simp add: inputs_match_def)
  have c: "outputs_to_proto [(k, \<lparr>tv_data = D_uint8 [], tv_shape = shape\<rparr>)] =
      Inr [(k, \<lparr>ft_data = F_uint8 [], ft_shape = shape\<rparr>)]"
    by (simp add: outputs_to_proto_def copy_sdk_tensor_to_api_tensor_def)
  show ?thesis
    by (simp add: ml_client_def call_infer_def bare_call_def ml_service_def answer_def Let_def r
        service_helper_found infer_handler_def md served_inputs_exact[OF i p] outputs_to_proto_sent[OF v] e
        o' c outputs_from_proto_def make_sdk_tensor_from_api_tensor_def make_sdk_tensor_t_def)
qed

lemma remote_metadata:
  assumes h: "hosts sv cl m" and l: "\<not> st_is_ok lost" and x: "ps_wf extra"
  shows "ml_metadata (ml_client cl (ml_service sv lost)) extra =
    (case ml_metadata m extra of
       Inr md \<Rightarrow> (case metadata_handler md of
                   (st, p) \<Rightarrow> if st_is_ok st then ml_metadata_from_proto p else Inr ml_metadata_empty)
     | Inl e \<Rightarrow> Inr ml_metadata_empty)"
proof -
  obtain rb where r: "manager_resource (rs_manager sv) (rc_name cl) = Some rb" "rs_cast sv rb = Some m"
    using h by (auto simp: hosts_def bind_eq_Some_conv)
  have e: "request_extra \<lparr>rq_name = n, rq_extra = Some (struct_to_proto extra), rq_body = b\<rparr> = extra" for n b
    using x by (simp add: request_extra_def get_extra_def struct_from_to)
  show ?thesis
    using l
    by (cases "ml_metadata m extra")
      (auto simp: ml_client_def call_metadata_def bare_call_def ml_service_def answer_def Let_def r
        service_helper_found e ml_metadata_from_proto_def split: prod.split)
qed

text \<open>A well-formed description arrives; every failure arrives as an empty description.\<close>

lemma remote_metadata_ok:
  assumes "hosts sv cl m" "\<not> st_is_ok lost" "ps_wf extra" "ml_metadata m extra = Inr md" "metadata_wf md"
  shows "ml_metadata (ml_client cl (ml_service sv lost)) extra = Inr md"
  using remote_metadata[OF assms(1-3)] metadata_trip[OF assms(5)] assms(4) by auto

end
