(* ===== verification/Motion.thy ===== *)
theory Motion
  imports ArmComponent
begin

text \<open>
  The motion service (\<^verbatim>\<open>services/motion.hpp\<close>, \<^verbatim>\<open>services/motion.cpp\<close>,
  \<^verbatim>\<open>private/motion_client.cpp\<close>, \<^verbatim>\<open>private/motion_server.cpp\<close>): its data, their conversions, the
  client, the server, and what a call through both does to the arguments and the results.
\<close>

subsection \<open>Data\<close>

record obstacle_detector =
  od_vision_service :: string
  od_camera :: string

record motion_configuration =
  mcf_obstacle_detectors :: "obstacle_detector list"
  mcf_position_polling_frequency_hz :: "double option"
  mcf_obstacle_polling_frequency_hz :: "double option"
  mcf_plan_deviation_m :: "double option"
  mcf_linear_m_per_sec :: "double option"
  mcf_angular_degs_per_sec :: "double option"

datatype plan_state = k_in_progress | k_stopped | k_succeeded | k_failed | k_plan_state_other "8 word"

record plan_status =
  pls_state :: plan_state
  pls_timestamp :: int
  pls_reason :: "string option"

record plan_status_with_id =
  psi_plan_id :: string
  psi_component_name :: string
  psi_execution_id :: string
  psi_status :: plan_status

type_synonym plan_step = "(string \<times> pose) list"

record motion_plan =
  pln_id :: string
  pln_component_name :: string
  pln_execution_id :: string
  pln_steps :: "plan_step list"

record plan_with_status =
  pw_plan :: motion_plan
  pw_status :: plan_status
  pw_status_history :: "plan_status list"

record linear_constraint =
  lcn_line_tolerance_mm :: "32 word"
  lcn_orientation_tolerance_degs :: "32 word"

record orientation_constraint =
  ocn_orientation_tolerance_degs :: "32 word"

record collision_specification =
  csp_allows :: "(string \<times> string) list"

record motion_constraints =
  mct_linear_constraints :: "linear_constraint list"
  mct_orientation_constraints :: "orientation_constraint list"
  mct_collision_specifications :: "collision_specification list"

record motion =
  mt_move :: "pose_in_frame \<Rightarrow> string \<Rightarrow> world_state option \<Rightarrow> motion_constraints option \<Rightarrow>
    proto_struct \<Rightarrow> bool res"
  mt_move_on_map :: "pose \<Rightarrow> string \<Rightarrow> string \<Rightarrow> motion_configuration option \<Rightarrow>
    geometry_config list \<Rightarrow> proto_struct \<Rightarrow> string res"
  mt_move_on_globe :: "geo_point \<Rightarrow> double option \<Rightarrow> string \<Rightarrow> string \<Rightarrow> geo_geometry list \<Rightarrow>
    motion_configuration option \<Rightarrow> geo_geometry list \<Rightarrow> proto_struct \<Rightarrow> string res"
  mt_get_pose :: "string \<Rightarrow> string \<Rightarrow> transform list \<Rightarrow> proto_struct \<Rightarrow> pose_in_frame res"
  mt_stop_plan :: "string \<Rightarrow> proto_struct \<Rightarrow> unit res"
  mt_get_latest_plan :: "string \<Rightarrow> proto_struct \<Rightarrow> plan_with_status res"
  mt_get_latest_plan_with_replan_history ::
    "string \<Rightarrow> proto_struct \<Rightarrow> (plan_with_status \<times> plan_with_status list) res"
  mt_get_plan :: "string \<Rightarrow> string \<Rightarrow> proto_struct \<Rightarrow> plan_with_status res"
  mt_get_plan_with_replan_history ::
    "string \<Rightarrow> string \<Rightarrow> proto_struct \<Rightarrow> (plan_with_status \<times> plan_with_status list) res"
  mt_list_plan_statuses :: "proto_struct \<Rightarrow> plan_status_with_id list res"
  mt_list_active_plan_statuses :: "proto_struct \<Rightarrow> plan_status_with_id list res"
  mt_do_command :: "proto_struct \<Rightarrow> proto_struct res"
  mt_get_status :: "proto_struct res"

text \<open>The overload without arguments lists every plan, active or not.\<close>

definition list_active_plan_statuses0 :: "motion \<Rightarrow> plan_status_with_id list res" where
  "list_active_plan_statuses0 m = mt_list_plan_statuses m []"

subsection \<open>Equality\<close>

definition motion_configuration_eq :: "motion_configuration \<Rightarrow> motion_configuration \<Rightarrow> bool" where
  "motion_configuration_eq lhs rhs \<longleftrightarrow>
     rel_option dbl_eq (mcf_angular_degs_per_sec lhs) (mcf_angular_degs_per_sec rhs)
     \<and> mcf_obstacle_detectors lhs = mcf_obstacle_detectors rhs
     \<and> rel_option dbl_eq (mcf_linear_m_per_sec lhs) (mcf_linear_m_per_sec rhs)
     \<and> rel_option dbl_eq (mcf_plan_deviation_m lhs) (mcf_plan_deviation_m rhs)
     \<and> rel_option dbl_eq (mcf_obstacle_polling_frequency_hz lhs) (mcf_obstacle_polling_frequency_hz rhs)
     \<and> rel_option dbl_eq (mcf_position_polling_frequency_hz lhs) (mcf_position_polling_frequency_hz rhs)"

definition step_eq :: "plan_step \<Rightarrow> plan_step \<Rightarrow> bool" where
  "step_eq l r \<longleftrightarrow>
     length l = length r
     \<and> (\<forall>e\<in>set l. case map_of r (fst e) of Some p \<Rightarrow> pose_eq (snd e) p | None \<Rightarrow> False)"

definition plan_status_eq :: "plan_status \<Rightarrow> plan_status \<Rightarrow> bool" where
  "plan_status_eq lhs rhs \<longleftrightarrow>
     pls_reason lhs = pls_reason rhs \<and> pls_state lhs = pls_state rhs
     \<and> pls_timestamp lhs = pls_timestamp rhs"

definition motion_plan_eq :: "motion_plan \<Rightarrow> motion_plan \<Rightarrow> bool" where
  "motion_plan_eq lhs rhs \<longleftrightarrow>
     pln_component_name lhs = pln_component_name rhs \<and> pln_execution_id lhs = pln_execution_id rhs
     \<and> list_all2 step_eq (pln_steps lhs) (pln_steps rhs) \<and> pln_id lhs = pln_id rhs"

definition plan_with_status_eq :: "plan_with_status \<Rightarrow> plan_with_status \<Rightarrow> bool" where
  "plan_with_status_eq lhs rhs \<longleftrightarrow>
     motion_plan_eq (pw_plan lhs) (pw_plan rhs) \<and> plan_status_eq (pw_status lhs) (pw_status rhs)
     \<and> list_all2 plan_status_eq (pw_status_history lhs) (pw_status_history rhs)"

subsection \<open>Messages\<close>

record pb_motion_configuration =
  pmc_obstacle_detectors :: "(string \<times> string) list"
  pmc_position_polling_frequency_hz :: "double option"
  pmc_obstacle_polling_frequency_hz :: "double option"
  pmc_plan_deviation_m :: "double option"
  pmc_linear_m_per_sec :: "double option"
  pmc_angular_degs_per_sec :: "double option"

record pb_constraints =
  pcs_linear_constraint :: "(32 word \<times> 32 word) list"
  pcs_orientation_constraint :: "32 word list"
  pcs_collision_specification :: "(string \<times> string) list list"

datatype pb_plan_state =
    PLAN_STATE_IN_PROGRESS | PLAN_STATE_STOPPED | PLAN_STATE_SUCCEEDED | PLAN_STATE_FAILED
  | PLAN_STATE_UNSPECIFIED | PLAN_STATE_other int

record pb_plan_status =
  ppls_state :: pb_plan_state
  ppls_timestamp :: "pb_time option"
  ppls_reason :: "string option"

record pb_plan_status_with_id =
  ppsi_plan_id :: string
  ppsi_component_name :: string
  ppsi_execution_id :: string
  ppsi_status :: "pb_plan_status option"

record pb_plan =
  ppln_id :: string
  ppln_component_name :: string
  ppln_execution_id :: string
  ppln_steps :: "(string \<times> pb_pose option) list list"

record pb_plan_with_status =
  ppw_plan :: "pb_plan option"
  ppw_status :: "pb_plan_status option"
  ppw_status_history :: "pb_plan_status list"

definition pb_plan_status_default :: pb_plan_status where
  "pb_plan_status_default =
     \<lparr>ppls_state = PLAN_STATE_UNSPECIFIED, ppls_timestamp = None, ppls_reason = None\<rparr>"

definition pb_plan_default :: pb_plan where
  "pb_plan_default =
     \<lparr>ppln_id = [], ppln_component_name = [], ppln_execution_id = [], ppln_steps = []\<rparr>"

definition pb_plan_with_status_default :: pb_plan_with_status where
  "pb_plan_with_status_default = \<lparr>ppw_plan = None, ppw_status = None, ppw_status_history = []\<rparr>"

record pb_move =
  mvq_destination :: "pb_pose_in_frame option"
  mvq_component_name :: string
  mvq_world_state :: "pb_world_state option"
  mvq_constraints :: "pb_constraints option"

record pb_move_on_map =
  mmq_destination :: "pb_pose option"
  mmq_component_name :: string
  mmq_slam_service_name :: string
  mmq_motion_configuration :: "pb_motion_configuration option"
  mmq_obstacles :: "pb_geometry list"

record pb_move_on_globe =
  mgq_destination :: "pb_geo_point option"
  mgq_heading :: "double option"
  mgq_component_name :: string
  mgq_movement_sensor_name :: string
  mgq_obstacles :: "pb_geo_geometry list"
  mgq_motion_configuration :: "pb_motion_configuration option"
  mgq_bounding_regions :: "pb_geo_geometry list"

record pb_get_plan =
  gpq_component_name :: string
  gpq_last_plan_only :: bool
  gpq_execution_id :: "string option"

subsection \<open>Conversions\<close>

definition obstacle_detector_to_proto :: "obstacle_detector \<Rightarrow> string \<times> string" where
  "obstacle_detector_to_proto od = (od_vision_service od, od_camera od)"

definition obstacle_detector_from_proto :: "string \<times> string \<Rightarrow> obstacle_detector" where
  "obstacle_detector_from_proto p = \<lparr>od_vision_service = fst p, od_camera = snd p\<rparr>"

text \<open>A field is written when it has a value that is not NaN.\<close>

definition unless_nan :: "double option \<Rightarrow> double option" where
  "unless_nan f = (case f of Some d \<Rightarrow> if \<not> dbl_is_nan d then Some d else None | None \<Rightarrow> None)"

definition motion_configuration_to_proto :: "motion_configuration \<Rightarrow> pb_motion_configuration" where
  "motion_configuration_to_proto mc =
     \<lparr>pmc_obstacle_detectors = map obstacle_detector_to_proto (mcf_obstacle_detectors mc),
      pmc_position_polling_frequency_hz = unless_nan (mcf_position_polling_frequency_hz mc),
      pmc_obstacle_polling_frequency_hz = unless_nan (mcf_obstacle_polling_frequency_hz mc),
      pmc_plan_deviation_m = unless_nan (mcf_plan_deviation_m mc),
      pmc_linear_m_per_sec = unless_nan (mcf_linear_m_per_sec mc),
      pmc_angular_degs_per_sec = unless_nan (mcf_angular_degs_per_sec mc)\<rparr>"

definition motion_configuration_from_proto :: "pb_motion_configuration \<Rightarrow> motion_configuration" where
  "motion_configuration_from_proto p =
     \<lparr>mcf_obstacle_detectors = map obstacle_detector_from_proto (pmc_obstacle_detectors p),
      mcf_position_polling_frequency_hz = pmc_position_polling_frequency_hz p,
      mcf_obstacle_polling_frequency_hz = pmc_obstacle_polling_frequency_hz p,
      mcf_plan_deviation_m = pmc_plan_deviation_m p,
      mcf_linear_m_per_sec = pmc_linear_m_per_sec p,
      mcf_angular_degs_per_sec = pmc_angular_degs_per_sec p\<rparr>"

definition constraints_to_proto :: "motion_constraints \<Rightarrow> pb_constraints" where
  "constraints_to_proto cs =
     \<lparr>pcs_linear_constraint =
        map (\<lambda>lc. (lcn_line_tolerance_mm lc, lcn_orientation_tolerance_degs lc)) (mct_linear_constraints cs),
      pcs_orientation_constraint = map ocn_orientation_tolerance_degs (mct_orientation_constraints cs),
      pcs_collision_specification = map csp_allows (mct_collision_specifications cs)\<rparr>"

definition constraints_from_proto :: "pb_constraints \<Rightarrow> motion_constraints" where
  "constraints_from_proto p =
     \<lparr>mct_linear_constraints =
        map (\<lambda>lc. \<lparr>lcn_line_tolerance_mm = fst lc, lcn_orientation_tolerance_degs = snd lc\<rparr>)
          (pcs_linear_constraint p),
      mct_orientation_constraints =
        map (\<lambda>oc. \<lparr>ocn_orientation_tolerance_degs = oc\<rparr>) (pcs_orientation_constraint p),
      mct_collision_specifications =
        map (\<lambda>allows. \<lparr>csp_allows = allows\<rparr>) (pcs_collision_specification p)\<rparr>"

fun plan_state_to_proto :: "plan_state \<Rightarrow> pb_plan_state res" where
  "plan_state_to_proto k_failed = Inr PLAN_STATE_FAILED"
| "plan_state_to_proto k_succeeded = Inr PLAN_STATE_SUCCEEDED"
| "plan_state_to_proto k_in_progress = Inr PLAN_STATE_IN_PROGRESS"
| "plan_state_to_proto k_stopped = Inr PLAN_STATE_STOPPED"
| "plan_state_to_proto (k_plan_state_other n) =
     Inl (sdk_exception K_not_supported ''Invalid plan_state to encode to proto'')"

fun plan_state_from_proto :: "pb_plan_state \<Rightarrow> plan_state res" where
  "plan_state_from_proto PLAN_STATE_FAILED = Inr k_failed"
| "plan_state_from_proto PLAN_STATE_SUCCEEDED = Inr k_succeeded"
| "plan_state_from_proto PLAN_STATE_IN_PROGRESS = Inr k_in_progress"
| "plan_state_from_proto PLAN_STATE_STOPPED = Inr k_stopped"
| "plan_state_from_proto p = Inl (sdk_exception K_not_supported ''Invalid proto PlanState to encode'')"

definition plan_status_to_proto :: "plan_status \<Rightarrow> pb_plan_status res" where
  "plan_status_to_proto ps =
     rmap (\<lambda>state. \<lparr>ppls_state = state, ppls_timestamp = Some (time_to_proto (pls_timestamp ps)),
                    ppls_reason = pls_reason ps\<rparr>)
       (plan_state_to_proto (pls_state ps))"

definition plan_status_from_proto :: "pb_plan_status \<Rightarrow> plan_status res" where
  "plan_status_from_proto p =
     rbind (plan_state_from_proto (ppls_state p)) (\<lambda>state.
     rmap (\<lambda>t. \<lparr>pls_state = state, pls_timestamp = t, pls_reason = ppls_reason p\<rparr>)
       (time_from_proto (submsg \<lparr>pt_seconds = 0, pt_nanos = 0\<rparr> (ppls_timestamp p))))"

definition plan_status_with_id_to_proto :: "plan_status_with_id \<Rightarrow> pb_plan_status_with_id res" where
  "plan_status_with_id_to_proto psi =
     rmap (\<lambda>st. \<lparr>ppsi_plan_id = psi_plan_id psi, ppsi_component_name = psi_component_name psi,
                 ppsi_execution_id = psi_execution_id psi, ppsi_status = Some st\<rparr>)
       (plan_status_to_proto (psi_status psi))"

definition plan_status_with_id_from_proto :: "pb_plan_status_with_id \<Rightarrow> plan_status_with_id res" where
  "plan_status_with_id_from_proto p =
     rmap (\<lambda>st. \<lparr>psi_plan_id = ppsi_plan_id p, psi_component_name = ppsi_component_name p,
                 psi_execution_id = ppsi_execution_id p, psi_status = st\<rparr>)
       (plan_status_from_proto (submsg pb_plan_status_default (ppsi_status p)))"

definition step_to_proto :: "plan_step \<Rightarrow> (string \<times> pb_pose option) list" where
  "step_to_proto step = foldl (\<lambda>m kv. emplace (fst kv) (Some (pose_to_proto (snd kv))) m) [] step"

definition step_from_proto :: "(string \<times> pb_pose option) list \<Rightarrow> plan_step" where
  "step_from_proto ps =
     foldl (\<lambda>m c. emplace (fst c) (pose_from_proto (submsg pb_pose_default (snd c))) m) [] ps"

definition plan_to_proto :: "motion_plan \<Rightarrow> pb_plan" where
  "plan_to_proto plan =
     \<lparr>ppln_id = pln_id plan, ppln_component_name = pln_component_name plan,
      ppln_execution_id = pln_execution_id plan, ppln_steps = map step_to_proto (pln_steps plan)\<rparr>"

definition plan_from_proto :: "pb_plan \<Rightarrow> motion_plan" where
  "plan_from_proto p =
     \<lparr>pln_id = ppln_id p, pln_component_name = ppln_component_name p,
      pln_execution_id = ppln_execution_id p, pln_steps = map step_from_proto (ppln_steps p)\<rparr>"

definition plan_with_status_to_proto :: "plan_with_status \<Rightarrow> pb_plan_with_status res" where
  "plan_with_status_to_proto pws =
     rbind (plan_status_to_proto (pw_status pws)) (\<lambda>st.
     rmap (\<lambda>history. \<lparr>ppw_plan = Some (plan_to_proto (pw_plan pws)), ppw_status = Some st,
                      ppw_status_history = history\<rparr>)
       (mapM plan_status_to_proto (pw_status_history pws)))"

definition plan_with_status_from_proto :: "pb_plan_with_status \<Rightarrow> plan_with_status res" where
  "plan_with_status_from_proto p =
     rbind (plan_status_from_proto (submsg pb_plan_status_default (ppw_status p))) (\<lambda>st.
     rmap (\<lambda>history. \<lparr>pw_plan = plan_from_proto (submsg pb_plan_default (ppw_plan p)), pw_status = st,
                      pw_status_history = history\<rparr>)
       (mapM plan_status_from_proto (ppw_status_history p)))"

subsection \<open>The client\<close>

record motion_stub =
  mts_Move :: "(pb_move, bool) rpc"
  mts_MoveOnMap :: "(pb_move_on_map, string) rpc"
  mts_MoveOnGlobe :: "(pb_move_on_globe, string) rpc"
  mts_GetPose :: "(string \<times> string \<times> pb_transform list, pb_pose_in_frame option) rpc"
  mts_StopPlan :: "(string, unit) rpc"
  mts_GetPlan :: "(pb_get_plan, pb_plan_with_status option \<times> pb_plan_with_status list) rpc"
  mts_ListPlanStatuses :: "(bool, pb_plan_status_with_id list) rpc"
  mts_DoCommand :: "(pb_struct, pb_struct) rpc"
  mts_GetStatus :: "(unit, pb_struct) rpc"

definition plans_from_response ::
  "pb_plan_with_status option \<times> pb_plan_with_status list \<Rightarrow> (plan_with_status \<times> plan_with_status list) res"
where
  "plans_from_response r =
     rbind (plan_with_status_from_proto (submsg pb_plan_with_status_default (fst r))) (\<lambda>plan.
     rmap (Pair plan) (mapM plan_with_status_from_proto (snd r)))"

definition call_get_plan ::
  "rpc_client \<Rightarrow> (pb_get_plan, pb_plan_with_status option \<times> pb_plan_with_status list) rpc \<Rightarrow>
   string \<Rightarrow> string option \<Rightarrow> bool \<Rightarrow> proto_struct \<Rightarrow> (plan_with_status \<times> plan_with_status list) res" where
  "call_get_plan cl rpc component_name execution_id last_plan_only extra =
     invoke_with cl rpc extra
       (Inr \<lparr>gpq_component_name = component_name, gpq_last_plan_only = last_plan_only,
             gpq_execution_id = execution_id\<rparr>)
       plans_from_response"

definition call_list_plan_statuses ::
  "rpc_client \<Rightarrow> (bool, pb_plan_status_with_id list) rpc \<Rightarrow> bool \<Rightarrow> proto_struct \<Rightarrow>
   plan_status_with_id list res" where
  "call_list_plan_statuses cl rpc only_active_plans extra =
     invoke_with cl rpc extra (Inr only_active_plans) (mapM plan_status_with_id_from_proto)"

definition motion_client :: "rpc_client \<Rightarrow> motion_stub \<Rightarrow> motion" where
  "motion_client cl stub =
     \<lparr>mt_move = (\<lambda>destination component_name world_state constraints extra.
        invoke_with cl (mts_Move stub) extra
          (Inr \<lparr>mvq_destination = Some (pose_in_frame_to_proto destination),
                mvq_component_name = component_name,
                mvq_world_state = map_option world_state_to_proto world_state,
                mvq_constraints = map_option constraints_to_proto constraints\<rparr>) Inr),
      mt_move_on_map = (\<lambda>destination component_name slam_name mc obstacles extra.
        invoke_with cl (mts_MoveOnMap stub) extra
          (Inr \<lparr>mmq_destination = Some (pose_to_proto destination), mmq_component_name = component_name,
                mmq_slam_service_name = slam_name,
                mmq_motion_configuration = map_option motion_configuration_to_proto mc,
                mmq_obstacles = map geometry_to_proto obstacles\<rparr>) Inr),
      mt_move_on_globe =
        (\<lambda>destination heading component_name movement_sensor_name obstacles mc bounding_regions extra.
          invoke_with cl (mts_MoveOnGlobe stub) extra
            (Inr \<lparr>mgq_destination = Some (geo_point_to_proto destination),
                  mgq_heading = unless_nan heading, mgq_component_name = component_name,
                  mgq_movement_sensor_name = movement_sensor_name,
                  mgq_obstacles = map geo_geometry_to_proto obstacles,
                  mgq_motion_configuration = map_option motion_configuration_to_proto mc,
                  mgq_bounding_regions = map geo_geometry_to_proto bounding_regions\<rparr>) Inr),
      mt_get_pose = (\<lambda>component_name destination_frame supplemental_transforms extra.
        invoke_with cl (mts_GetPose stub) extra
          (Inr (component_name, destination_frame, map transform_to_proto supplemental_transforms))
          (\<lambda>p. Inr (pose_in_frame_from_proto
                      (submsg \<lparr>ppf_reference_frame = [], ppf_pose = None\<rparr> p)))),
      mt_stop_plan = (\<lambda>component_name extra.
        invoke_with cl (mts_StopPlan stub) extra (Inr component_name) Inr),
      mt_get_latest_plan = (\<lambda>component_name extra.
        rmap fst (call_get_plan cl (mts_GetPlan stub) component_name None True extra)),
      mt_get_latest_plan_with_replan_history = (\<lambda>component_name extra.
        call_get_plan cl (mts_GetPlan stub) component_name None False extra),
      mt_get_plan = (\<lambda>component_name execution_id extra.
        rmap fst (call_get_plan cl (mts_GetPlan stub) component_name (Some execution_id) True extra)),
      mt_get_plan_with_replan_history = (\<lambda>component_name execution_id extra.
        call_get_plan cl (mts_GetPlan stub) component_name (Some execution_id) False extra),
      mt_list_plan_statuses = call_list_plan_statuses cl (mts_ListPlanStatuses stub) False,
      mt_list_active_plan_statuses = call_list_plan_statuses cl (mts_ListPlanStatuses stub) True,
      mt_do_command = call_do_command cl (mts_DoCommand stub),
      mt_get_status = call_get_status cl (mts_GetStatus stub)\<rparr>"

subsection \<open>The server\<close>

definition move_handler :: "pb_move pb_request \<Rightarrow> motion \<Rightarrow> bool res" where
  "move_handler q m =
     rbind (case mvq_world_state (rq_body q) of
              Some w \<Rightarrow> rmap Some (world_state_from_proto w) | None \<Rightarrow> Inr None) (\<lambda>ws.
       mt_move m
         (pose_in_frame_from_proto
            (submsg \<lparr>ppf_reference_frame = [], ppf_pose = None\<rparr> (mvq_destination (rq_body q))))
         (mvq_component_name (rq_body q)) ws
         (map_option constraints_from_proto (mvq_constraints (rq_body q))) (request_extra q))"

definition move_on_map_handler :: "pb_move_on_map pb_request \<Rightarrow> motion \<Rightarrow> string res" where
  "move_on_map_handler q m =
     rbind (mapM geometry_from_proto (mmq_obstacles (rq_body q))) (\<lambda>obstacles.
       mt_move_on_map m (pose_from_proto (submsg pb_pose_default (mmq_destination (rq_body q))))
         (mmq_component_name (rq_body q)) (mmq_slam_service_name (rq_body q))
         (map_option motion_configuration_from_proto (mmq_motion_configuration (rq_body q)))
         obstacles (request_extra q))"

definition move_on_globe_handler :: "pb_move_on_globe pb_request \<Rightarrow> motion \<Rightarrow> string res" where
  "move_on_globe_handler q m =
     rbind (mapM geo_geometry_from_proto (mgq_obstacles (rq_body q))) (\<lambda>obstacles.
     rbind (mapM geo_geometry_from_proto (mgq_bounding_regions (rq_body q))) (\<lambda>bounding_regions.
       mt_move_on_globe m
         (geo_point_from_proto (submsg pb_geo_point_default (mgq_destination (rq_body q))))
         (mgq_heading (rq_body q)) (mgq_component_name (rq_body q))
         (mgq_movement_sensor_name (rq_body q)) obstacles
         (map_option motion_configuration_from_proto (mgq_motion_configuration (rq_body q)))
         bounding_regions (request_extra q)))"

definition get_pose_handler ::
  "(string \<times> string \<times> pb_transform list) pb_request \<Rightarrow> motion \<Rightarrow> pb_pose_in_frame option res" where
  "get_pose_handler q m =
     (case rq_body q of (component_name, destination_frame, transforms) \<Rightarrow>
        rbind (mapM transform_from_proto transforms) (\<lambda>supplemental_transforms.
        rmap (\<lambda>p. Some (pose_in_frame_to_proto p))
          (mt_get_pose m component_name destination_frame supplemental_transforms (request_extra q))))"

text \<open>\<^verbatim>\<open>get_plan\<close> is called through its overload without extra arguments.\<close>

definition requested_plans ::
  "pb_get_plan pb_request \<Rightarrow> motion \<Rightarrow> (plan_with_status \<times> plan_with_status list) res" where
  "requested_plans q m =
     (case (gpq_last_plan_only (rq_body q), gpq_execution_id (rq_body q)) of
        (True, Some execution_id) \<Rightarrow>
          rmap (\<lambda>plan. (plan, [])) (mt_get_plan m (gpq_component_name (rq_body q)) execution_id [])
      | (True, None) \<Rightarrow>
          rmap (\<lambda>plan. (plan, [])) (mt_get_latest_plan m (gpq_component_name (rq_body q)) (request_extra q))
      | (False, Some execution_id) \<Rightarrow>
          mt_get_plan_with_replan_history m (gpq_component_name (rq_body q)) execution_id (request_extra q)
      | (False, None) \<Rightarrow>
          mt_get_latest_plan_with_replan_history m (gpq_component_name (rq_body q)) (request_extra q))"

definition plans_to_response ::
  "plan_with_status \<times> plan_with_status list \<Rightarrow> (pb_plan_with_status option \<times> pb_plan_with_status list) res"
where
  "plans_to_response ps =
     rbind (plan_with_status_to_proto (fst ps)) (\<lambda>plan.
     rmap (Pair (Some plan)) (mapM plan_with_status_to_proto (snd ps)))"

definition list_handler :: "bool pb_request \<Rightarrow> motion \<Rightarrow> pb_plan_status_with_id list res" where
  "list_handler q m =
     rbind (if rq_body q then mt_list_active_plan_statuses m (request_extra q)
            else mt_list_plan_statuses m (request_extra q))
       (mapM plan_status_with_id_to_proto)"

definition motion_service :: "('r, motion) rpc_server \<Rightarrow> status \<Rightarrow> motion_stub" where
  "motion_service sv lost =
     \<lparr>mts_Move = answer sv lost False ''MotionServer::Move'' (\<lambda>q m. reply (move_handler q m)),
      mts_MoveOnMap = answer sv lost [] ''MotionServer::MoveOnMap'' (\<lambda>q m. reply (move_on_map_handler q m)),
      mts_MoveOnGlobe = answer sv lost [] ''MotionServer::MoveOnGlobe'' (\<lambda>q m.
        reply (move_on_globe_handler q m)),
      mts_GetPose = answer sv lost None ''MotionServer::GetPose'' (\<lambda>q m. reply (get_pose_handler q m)),
      mts_StopPlan = answer sv lost () ''MotionServer::StopPlan'' (\<lambda>q m.
        reply (mt_stop_plan m (rq_body q) (request_extra q))),
      mts_GetPlan = answer sv lost (None, []) ''MotionServer::GetPlan'' (\<lambda>q m.
        reply (rbind (requested_plans q m) plans_to_response)),
      mts_ListPlanStatuses = answer sv lost [] ''MotionServer::ListPlanStatuses'' (\<lambda>q m.
        reply (list_handler q m)),
      mts_DoCommand = serve_do_command sv lost ''MotionServer::DoCommand'' mt_do_command,
      mts_GetStatus = serve_get_status sv lost ''MotionServer::GetStatus'' mt_get_status\<rparr>"

subsection \<open>Lemmas: conversions\<close>

interpretation obstacle_detector_codec: total_codec obstacle_detector_to_proto obstacle_detector_from_proto
  by unfold_locales (simp add: obstacle_detector_to_proto_def obstacle_detector_from_proto_def)

lemma constraint_ids [simp]:
  "\<lparr>lcn_line_tolerance_mm = lcn_line_tolerance_mm a,
    lcn_orientation_tolerance_degs = lcn_orientation_tolerance_degs a\<rparr> = a"
  "\<lparr>ocn_orientation_tolerance_degs = ocn_orientation_tolerance_degs b\<rparr> = b"
  "\<lparr>csp_allows = csp_allows c\<rparr> = c"
  by simp_all

interpretation constraints_codec: total_codec constraints_to_proto constraints_from_proto
  by unfold_locales (simp add: constraints_to_proto_def constraints_from_proto_def comp_def)

text \<open>The settings of a configuration that survive: those that are numbers.\<close>

definition without_nans :: "motion_configuration \<Rightarrow> motion_configuration" where
  "without_nans mc =
     \<lparr>mcf_obstacle_detectors = mcf_obstacle_detectors mc,
      mcf_position_polling_frequency_hz = unless_nan (mcf_position_polling_frequency_hz mc),
      mcf_obstacle_polling_frequency_hz = unless_nan (mcf_obstacle_polling_frequency_hz mc),
      mcf_plan_deviation_m = unless_nan (mcf_plan_deviation_m mc),
      mcf_linear_m_per_sec = unless_nan (mcf_linear_m_per_sec mc),
      mcf_angular_degs_per_sec = unless_nan (mcf_angular_degs_per_sec mc)\<rparr>"

lemma motion_configuration_from_to:
  "motion_configuration_from_proto (motion_configuration_to_proto mc) = without_nans mc"
  by (simp add: motion_configuration_from_proto_def motion_configuration_to_proto_def without_nans_def
      obstacle_detector_codec.map_from_to[simplified])

lemma plan_state_trip: "plan_state_to_proto s = Inr p \<Longrightarrow> plan_state_from_proto p = Inr s"
  by (cases s) auto

definition status_wf :: "plan_status \<Rightarrow> bool" where
  "status_wf ps \<longleftrightarrow> in_sint 64 (pls_timestamp ps)"

lemma plan_status_trip:
  assumes "plan_status_to_proto ps = Inr p" "status_wf ps"
  shows "plan_status_from_proto p = Inr ps"
proof -
  obtain s where s: "plan_state_to_proto (pls_state ps) = Inr s"
    using assms(1) by (cases "plan_state_to_proto (pls_state ps)") (auto simp: plan_status_to_proto_def)
  show ?thesis
    using assms plan_state_trip[OF s]
    by (auto simp: plan_status_to_proto_def s plan_status_from_proto_def status_wf_def time_from_to)
qed

lemma mapM_trip:
  assumes "\<And>a b. a \<in> set xs \<Longrightarrow> f a = Inr b \<Longrightarrow> g b = Inr a"
  shows "mapM f xs = Inr ys \<Longrightarrow> mapM g ys = Inr xs"
  using assms
proof (induction xs arbitrary: ys)
  case (Cons x xs)
  then obtain y zs where y: "f x = Inr y" "mapM f xs = Inr zs" "ys = y # zs"
    by (auto simp: result_simps)
  then have "mapM g zs = Inr xs" "g y = Inr x"
    using Cons.IH[of zs] Cons.prems(2) by auto
  then show ?case by (simp add: y(3))
qed simp

lemma plan_status_with_id_trip:
  assumes "plan_status_with_id_to_proto s = Inr p" "status_wf (psi_status s)"
  shows "plan_status_with_id_from_proto p = Inr s"
  using assms plan_status_trip
  by (auto simp: plan_status_with_id_to_proto_def plan_status_with_id_from_proto_def result_simps)

lemma step_from_to: "awf s \<Longrightarrow> step_from_proto (step_to_proto s) = s"
proof -
  assume w: "awf s"
  have "step_from_proto ps = insert_all (map (\<lambda>e. (fst e, pose_from_proto (submsg pb_pose_default (snd e)))) ps)"
    for ps
    using foldl_emplace_map[of "\<lambda>p. pose_from_proto (submsg pb_pose_default p)" ps]
    by (simp add: step_from_proto_def)
  moreover have "step_to_proto s = insert_all (map (\<lambda>e. (fst e, Some (pose_to_proto (snd e)))) s)"
    using foldl_emplace_map[of "\<lambda>p. Some (pose_to_proto p)" s] by (simp add: step_to_proto_def)
  ultimately show ?thesis
    using map_from_to_entries[OF w, where g = "\<lambda>p. pose_from_proto (submsg pb_pose_default p)"
        and f = "\<lambda>p. Some (pose_to_proto p)"]
    by (simp add: pose_codec.from_to_total)
qed

definition plan_wf :: "motion_plan \<Rightarrow> bool" where
  "plan_wf p \<longleftrightarrow> (\<forall>s\<in>set (pln_steps p). awf s)"

lemma plan_from_to: "plan_wf p \<Longrightarrow> plan_from_proto (plan_to_proto p) = p"
  by (simp add: plan_from_proto_def plan_to_proto_def plan_wf_def step_from_to map_idI)

definition pws_wf :: "plan_with_status \<Rightarrow> bool" where
  "pws_wf p \<longleftrightarrow>
     plan_wf (pw_plan p) \<and> status_wf (pw_status p) \<and> (\<forall>s\<in>set (pw_status_history p). status_wf s)"

lemma plan_with_status_trip:
  assumes "plan_with_status_to_proto p = Inr q" "pws_wf p"
  shows "plan_with_status_from_proto q = Inr p"
proof -
  obtain st h where st: "plan_status_to_proto (pw_status p) = Inr st"
    and h: "mapM plan_status_to_proto (pw_status_history p) = Inr h"
    and q: "q = \<lparr>ppw_plan = Some (plan_to_proto (pw_plan p)), ppw_status = Some st, ppw_status_history = h\<rparr>"
    using assms(1) by (auto simp: plan_with_status_to_proto_def result_simps)
  have "mapM plan_status_from_proto h = Inr (pw_status_history p)"
    using mapM_trip[OF _ h] plan_status_trip assms(2) by (auto simp: pws_wf_def)
  then show ?thesis
    using plan_status_trip[OF st] assms(2)
    by (simp add: q plan_with_status_from_proto_def pws_wf_def plan_from_to)
qed

definition plans_wf :: "plan_with_status \<times> plan_with_status list \<Rightarrow> bool" where
  "plans_wf r \<longleftrightarrow> pws_wf (fst r) \<and> (\<forall>p\<in>set (snd r). pws_wf p)"

lemma plans_trip:
  assumes "plans_to_response r = Inr q" "plans_wf r"
  shows "plans_from_response q = Inr r"
proof -
  obtain p h where p: "plan_with_status_to_proto (fst r) = Inr p"
    and h: "mapM plan_with_status_to_proto (snd r) = Inr h" and q: "q = (Some p, h)"
    using assms(1) by (auto simp: plans_to_response_def result_simps)
  have "mapM plan_with_status_from_proto h = Inr (snd r)"
    using mapM_trip[OF _ h] plan_with_status_trip assms(2) by (auto simp: plans_wf_def)
  then show ?thesis
    using plan_with_status_trip[OF p] assms(2) by (simp add: q plans_from_response_def plans_wf_def)
qed

subsection \<open>Lemmas: a remote motion service\<close>

lemma remote_move:
  assumes h: "hosts sv cl m" and l: "\<not> st_is_ok lost" and x: "sendable extra"
    and w: "pred_option world_state_plain ws"
  shows "mt_move (motion_client cl (motion_service sv lost)) dest name ws cs extra =
    seen_remotely lost ''MotionServer::Move'' (mt_move m dest name ws cs extra)"
  unfolding motion_client_def motion_service_def
  using w by (cases ws; cases cs)
    (simp_all add: remote_simps[OF h l] x move_handler_def pose_in_frame_codec.from_to_total
      world_state_from_to constraints_codec.from_to_total)

lemma remote_move_on_map:
  assumes h: "hosts sv cl m" and l: "\<not> st_is_ok lost" and x: "sendable extra"
    and o': "\<forall>g\<in>set obstacles. geometry_plain g"
  shows "mt_move_on_map (motion_client cl (motion_service sv lost)) dest name slam mc obstacles extra =
    seen_remotely lost ''MotionServer::MoveOnMap''
      (mt_move_on_map m dest name slam (map_option without_nans mc) obstacles extra)"
  unfolding motion_client_def motion_service_def
  using o' by (cases mc)
    (simp_all add: remote_simps[OF h l] x move_on_map_handler_def pose_codec.from_to_total
      geometry_codec.repeated_from_to motion_configuration_from_to)

definition geo_geometries_plain :: "geo_geometry list \<Rightarrow> bool" where
  "geo_geometries_plain gs \<longleftrightarrow> (\<forall>g\<in>set gs. \<forall>x\<in>set (gg_geometries g). geometry_plain x)"

lemma geo_geometries_from_to:
  "geo_geometries_plain gs \<Longrightarrow> mapM geo_geometry_from_proto (map geo_geometry_to_proto gs) = Inr gs"
  by (induction gs) (auto simp: geo_geometries_plain_def geo_geometry_from_to)

lemma remote_move_on_globe:
  assumes h: "hosts sv cl m" and l: "\<not> st_is_ok lost" and x: "sendable extra"
    and o': "geo_geometries_plain obstacles" "geo_geometries_plain bounding_regions"
  shows "mt_move_on_globe (motion_client cl (motion_service sv lost)) dest heading name sensor obstacles mc
      bounding_regions extra =
    seen_remotely lost ''MotionServer::MoveOnGlobe''
      (mt_move_on_globe m dest (unless_nan heading) name sensor obstacles (map_option without_nans mc)
         bounding_regions extra)"
  unfolding motion_client_def motion_service_def
  by (cases mc)
    (simp_all add: remote_simps[OF h l] x move_on_globe_handler_def geo_point_codec.from_to_total
      geo_geometries_from_to[OF o'(1)] geo_geometries_from_to[OF o'(2)] motion_configuration_from_to)

lemma remote_get_pose:
  assumes h: "hosts sv cl m" and l: "\<not> st_is_ok lost" and x: "sendable extra"
    and t: "\<forall>t\<in>set transforms. transform_plain t"
  shows "mt_get_pose (motion_client cl (motion_service sv lost)) name frame transforms extra =
    seen_remotely lost ''MotionServer::GetPose'' (mt_get_pose m name frame transforms extra)"
  unfolding motion_client_def motion_service_def
  using t by (simp add: remote_simps[OF h l] x get_pose_handler_def transform_codec.repeated_from_to
      pose_in_frame_codec.from_to_total)

lemma remote_stop_plan:
  assumes h: "hosts sv cl m" and l: "\<not> st_is_ok lost" and x: "sendable extra"
  shows "mt_stop_plan (motion_client cl (motion_service sv lost)) name extra =
    seen_remotely lost ''MotionServer::StopPlan'' (mt_stop_plan m name extra)"
  unfolding motion_client_def motion_service_def by (simp add: remote_simps[OF h l] x)

text \<open>Results whose plan states are known are written without an exception.\<close>

definition written :: "(plan_with_status \<times> plan_with_status list) res \<Rightarrow>
    (plan_with_status \<times> plan_with_status list) res" where
  "written r = rbind r (\<lambda>a. rmap (\<lambda>_. a) (plans_to_response a))"

lemma rmap_fst_seen: "rmap f (seen_remotely lost label r) = seen_remotely lost label (rmap f r)"
  by (cases r) simp_all

lemma remote_get_plan_with_replan_history:
  assumes h: "hosts sv cl m" and l: "\<not> st_is_ok lost" and x: "sendable extra"
    and wf: "\<And>r. mt_get_plan_with_replan_history m name execution extra = Inr r \<Longrightarrow> plans_wf r"
  shows "mt_get_plan_with_replan_history (motion_client cl (motion_service sv lost)) name execution extra =
    seen_remotely lost ''MotionServer::GetPlan''
      (written (mt_get_plan_with_replan_history m name execution extra))"
  unfolding motion_client_def motion_service_def
  by (simp add: call_get_plan_def remote_simps[OF h l] x requested_plans_def written_def
      seen_encoded[OF plans_trip[OF _ wf]])

lemma remote_get_latest_plan_with_replan_history:
  assumes h: "hosts sv cl m" and l: "\<not> st_is_ok lost" and x: "sendable extra"
    and wf: "\<And>r. mt_get_latest_plan_with_replan_history m name extra = Inr r \<Longrightarrow> plans_wf r"
  shows "mt_get_latest_plan_with_replan_history (motion_client cl (motion_service sv lost)) name extra =
    seen_remotely lost ''MotionServer::GetPlan''
      (written (mt_get_latest_plan_with_replan_history m name extra))"
  unfolding motion_client_def motion_service_def
  by (simp add: call_get_plan_def remote_simps[OF h l] x requested_plans_def written_def
      seen_encoded[OF plans_trip[OF _ wf]])

lemma remote_get_latest_plan:
  assumes h: "hosts sv cl m" and l: "\<not> st_is_ok lost" and x: "sendable extra"
    and wf: "\<And>p. mt_get_latest_plan m name extra = Inr p \<Longrightarrow> pws_wf p"
  shows "mt_get_latest_plan (motion_client cl (motion_service sv lost)) name extra =
    rmap fst (seen_remotely lost ''MotionServer::GetPlan''
      (written (rmap (\<lambda>p. (p, [])) (mt_get_latest_plan m name extra))))"
proof -
  have wf': "plans_wf r" if "rmap (\<lambda>p. (p, [])) (mt_get_latest_plan m name extra) = Inr r" for r
    using wf that by (auto simp: plans_wf_def result_simps)
  show ?thesis
    unfolding motion_client_def motion_service_def
    by (simp add: call_get_plan_def remote_simps[OF h l] x requested_plans_def written_def
        seen_encoded[OF plans_trip[OF _ wf']] del: rbind_rmap)
qed

text \<open>The extra arguments of \<^verbatim>\<open>get_plan\<close> never reach the implementation.\<close>

lemma remote_get_plan:
  assumes h: "hosts sv cl m" and l: "\<not> st_is_ok lost" and x: "sendable extra"
    and wf: "\<And>p. mt_get_plan m name execution [] = Inr p \<Longrightarrow> pws_wf p"
  shows "mt_get_plan (motion_client cl (motion_service sv lost)) name execution extra =
    rmap fst (seen_remotely lost ''MotionServer::GetPlan''
      (written (rmap (\<lambda>p. (p, [])) (mt_get_plan m name execution []))))"
proof -
  have wf': "plans_wf r" if "rmap (\<lambda>p. (p, [])) (mt_get_plan m name execution []) = Inr r" for r
    using wf that by (auto simp: plans_wf_def result_simps)
  show ?thesis
    unfolding motion_client_def motion_service_def
    by (simp add: call_get_plan_def remote_simps[OF h l] x requested_plans_def written_def
        seen_encoded[OF plans_trip[OF _ wf']] del: rbind_rmap)
qed

lemma remote_list_plan_statuses:
  assumes h: "hosts sv cl m" and l: "\<not> st_is_ok lost" and x: "sendable extra"
    and wf: "\<And>r. mt_list_plan_statuses m extra = Inr r \<Longrightarrow> \<forall>s\<in>set r. status_wf (psi_status s)"
      "\<And>r. mt_list_active_plan_statuses m extra = Inr r \<Longrightarrow> \<forall>s\<in>set r. status_wf (psi_status s)"
  shows "mt_list_plan_statuses (motion_client cl (motion_service sv lost)) extra =
      seen_remotely lost ''MotionServer::ListPlanStatuses''
        (rbind (mt_list_plan_statuses m extra)
           (\<lambda>r. rmap (\<lambda>_. r) (mapM plan_status_with_id_to_proto r)))"
    and "mt_list_active_plan_statuses (motion_client cl (motion_service sv lost)) extra =
      seen_remotely lost ''MotionServer::ListPlanStatuses''
        (rbind (mt_list_active_plan_statuses m extra)
           (\<lambda>r. rmap (\<lambda>_. r) (mapM plan_status_with_id_to_proto r)))"
proof -
  have trip: "mapM plan_status_with_id_from_proto b = Inr a"
    if "\<forall>s\<in>set a. status_wf (psi_status s)" "mapM plan_status_with_id_to_proto a = Inr b" for a b
    using mapM_trip[OF _ that(2)] plan_status_with_id_trip that(1) by blast
  show "mt_list_plan_statuses (motion_client cl (motion_service sv lost)) extra =
      seen_remotely lost ''MotionServer::ListPlanStatuses''
        (rbind (mt_list_plan_statuses m extra)
           (\<lambda>r. rmap (\<lambda>_. r) (mapM plan_status_with_id_to_proto r)))"
    unfolding motion_client_def motion_service_def
    by (simp add: call_list_plan_statuses_def remote_simps[OF h l] x list_handler_def
        seen_encoded[OF trip[OF wf(1)]])
  show "mt_list_active_plan_statuses (motion_client cl (motion_service sv lost)) extra =
      seen_remotely lost ''MotionServer::ListPlanStatuses''
        (rbind (mt_list_active_plan_statuses m extra)
           (\<lambda>r. rmap (\<lambda>_. r) (mapM plan_status_with_id_to_proto r)))"
    unfolding motion_client_def motion_service_def
    by (simp add: call_list_plan_statuses_def remote_simps[OF h l] x list_handler_def
        seen_encoded[OF trip[OF wf(2)]])
qed

end
