(* ===== verification/ModelTable.thy ===== *)
theory ModelTable
  imports Kinematics "HOL-Library.Multiset"
begin

text \<open>
  \<^verbatim>\<open>referenceframe/kinematics_model_table.cpp\<close>: the joints of a URDF file, their order along the
  chain, the rows of the model table and its tensor. Reading XML is Boost's: the tree is an abstract
  type with the operations the code calls. Reading three doubles from a stream is an argument too.
\<close>

subsection \<open>Reading the joints\<close>

record parsed_joint =
  jt_name :: string
  jt_type_str :: string
  jt_parent_link :: string
  jt_child_link :: string
  jt_xyz :: vector3
  jt_rpy :: vector3
  jt_axis_opt :: "vector3 option"

text \<open>The property tree: parsing fails with the text of \<^verbatim>\<open>what()\<close>; \<^verbatim>\<open>find\<close>, the children in
  document order, \<^verbatim>\<open>get\<close> with a default, \<^verbatim>\<open>get_child_optional\<close>.\<close>

record 't ptree_ops =
  pt_read_xml :: "string \<Rightarrow> string + 't"
  pt_find :: "'t \<Rightarrow> string \<Rightarrow> 't option"
  pt_children :: "'t \<Rightarrow> (string \<times> 't) list"
  pt_get :: "'t \<Rightarrow> string \<Rightarrow> string \<Rightarrow> string"
  pt_child :: "'t \<Rightarrow> string \<Rightarrow> 't option"

type_synonym scanner = "string \<Rightarrow> (double \<times> double \<times> double) option"

definition quoted :: "string \<Rightarrow> string" where
  "quoted s = [CHR 0x27] @ s @ [CHR 0x27]"

definition parse_triple :: "scanner \<Rightarrow> string \<Rightarrow> vector3 res" where
  "parse_triple scan s =
     (case scan s of
        None \<Rightarrow>
          Inl (general_exception
                 (''URDFToModelTable: failed to parse space-delimited triple: '' @ quoted s))
      | Some (x, y, z) \<Rightarrow> Inr (Vector3 x y z))"

definition parse_joint :: "'t ptree_ops \<Rightarrow> scanner \<Rightarrow> 't \<Rightarrow> parsed_joint res" where
  "parse_joint pt scan jnode =
     (let name = pt_get pt jnode ''<xmlattr>.name'' [];
          type_str = pt_get pt jnode ''<xmlattr>.type'' [];
          parent_link = pt_get pt jnode ''parent.<xmlattr>.link'' [];
          child_link = pt_get pt jnode ''child.<xmlattr>.link'' []
      in if type_str = [] \<or> parent_link = [] \<or> child_link = [] then
           Inl (general_exception
                  (''URDFToModelTable: joint '' @ quoted name
                    @ '' missing required attribute (type/parent/child)''))
         else
           rbind (case pt_child pt jnode ''origin'' of
                    Some origin \<Rightarrow>
                      rbind (parse_triple scan (pt_get pt origin ''<xmlattr>.xyz'' ''0 0 0'')) (\<lambda>xyz.
                      rbind (parse_triple scan (pt_get pt origin ''<xmlattr>.rpy'' ''0 0 0'')) (\<lambda>rpy.
                        Inr (xyz, rpy)))
                  | None \<Rightarrow> Inr (Vector3 0 0 0, Vector3 0 0 0)) (\<lambda>(xyz, rpy).
           rbind (case pt_child pt jnode ''axis'' of
                    Some a \<Rightarrow> rmap Some (parse_triple scan (pt_get pt a ''<xmlattr>.xyz'' ''1 0 0''))
                  | None \<Rightarrow> Inr None) (\<lambda>axis_opt.
             Inr \<lparr>jt_name = name, jt_type_str = type_str, jt_parent_link = parent_link,
                  jt_child_link = child_link, jt_xyz = xyz, jt_rpy = rpy, jt_axis_opt = axis_opt\<rparr>)))"

definition parse_urdf :: "'t ptree_ops \<Rightarrow> scanner \<Rightarrow> byte list \<Rightarrow> parsed_joint list res" where
  "parse_urdf pt scan bytes =
     (case pt_read_xml pt (bytes_to_string bytes) of
        Inl what \<Rightarrow>
          Inl (general_exception (''URDFToModelTable: failed to parse URDF XML: '' @ what))
      | Inr tree \<Rightarrow>
          (case pt_find pt tree ''robot'' of
             None \<Rightarrow> Inl (general_exception ''URDFToModelTable: no <robot> root element in URDF'')
           | Some robot \<Rightarrow>
               mapM (parse_joint pt scan)
                 (map snd (filter (\<lambda>child. fst child = ''joint'') (pt_children pt robot)))))"

subsection \<open>The chain\<close>

definition outgoing :: "parsed_joint list \<Rightarrow> string \<Rightarrow> parsed_joint list" where
  "outgoing js link = filter (\<lambda>j. jt_parent_link j = link) js"

definition root_links :: "parsed_joint list \<Rightarrow> string list" where
  "root_links js =
     filter (\<lambda>p. p \<notin> set (map jt_child_link js)) (sort (remdups (map jt_parent_link js)))"

function walk_loop ::
  "parsed_joint list \<Rightarrow> string list \<Rightarrow> string \<Rightarrow> parsed_joint list res" where
  "walk_loop js visited current =
     (if current \<in> set visited then
        Inl (general_exception (''URDFToModelTable: cycle in URDF chain at link '' @ quoted current))
      else
        (case outgoing js current of
           [] \<Rightarrow> Inr []
         | [j] \<Rightarrow> rmap (\<lambda>ordered. j # ordered) (walk_loop js (current # visited) (jt_child_link j))
         | _ \<Rightarrow>
             Inl (general_exception
                    (''URDFToModelTable: branching topology at link '' @ quoted current @ '' (''
                      @ show_nat (length (outgoing js current)) @ '' outgoing joints)''))))"
  by pat_completeness auto

termination
proof (relation "measure (\<lambda>(js, visited, current). card (set (map jt_parent_link js) - set visited))")
  fix js :: "parsed_joint list" and visited current and x :: parsed_joint and xs
  assume new: "current \<notin> set visited" and out: "outgoing js current = x # xs"
  have "x \<in> set (outgoing js current)" by (simp add: out)
  then have "current \<in> set (map jt_parent_link js) - set visited"
    using new by (auto simp: outgoing_def)
  then have "card (set (map jt_parent_link js) - set (current # visited))
      < card (set (map jt_parent_link js) - set visited)"
    by (intro psubset_card_mono) auto
  then show "((js, current # visited, jt_child_link x), js, visited, current)
      \<in> measure (\<lambda>(js, visited, current). card (set (map jt_parent_link js) - set visited))"
    by simp
qed simp

declare walk_loop.simps [simp del]

definition walk_urdf_chain :: "parsed_joint list \<Rightarrow> parsed_joint list res" where
  "walk_urdf_chain js =
     (let roots = root_links js
      in if length roots \<noteq> 1 then
           Inl (general_exception
                  (''URDFToModelTable: expected exactly one root link, found ''
                    @ show_nat (length roots) @ '': '' @ concat (map (\<lambda>r. quoted r @ '' '') roots)))
         else
           rbind (walk_loop js [] (roots ! 0)) (\<lambda>ordered.
             if length ordered \<noteq> length js then
               Inl (general_exception
                      (''URDFToModelTable: chain walk visited '' @ show_nat (length ordered)
                        @ '' of '' @ show_nat (length js) @ '' joints''))
             else Inr ordered))"

subsection \<open>The table\<close>

datatype joint_type = Revolute | Continuous | Prismatic | Fixed

fun joint_type_value :: "joint_type \<Rightarrow> int" where
  "joint_type_value Revolute = 0"
| "joint_type_value Continuous = 1"
| "joint_type_value Prismatic = 2"
| "joint_type_value Fixed = 3"

record joint_row =
  row_name :: string
  row_xyz :: vector3
  row_rpy :: vector3
  row_axis :: vector3
  row_type :: joint_type

type_synonym model_table = "joint_row list"

definition to_row :: "parsed_joint \<Rightarrow> joint_row res" where
  "to_row j =
     rbind
       (if jt_type_str j = ''revolute'' then Inr Revolute
        else if jt_type_str j = ''continuous'' then Inr Continuous
        else if jt_type_str j = ''prismatic'' then Inr Prismatic
        else if jt_type_str j = ''fixed'' then Inr Fixed
        else
          Inl (sdk_exception K_not_supported
                 (''URDFToModelTable: joint '' @ quoted (jt_name j) @ '' has unsupported type ''
                   @ quoted (jt_type_str j)
                   @ '' (supported: revolute, continuous, prismatic, fixed)''))) (\<lambda>ty.
     rbind
       (if ty = Fixed then Inr (Vector3 0 0 0)
        else
          (case jt_axis_opt j of
             Some a \<Rightarrow>
               if vector3_eq a (Vector3 0 0 0) then
                 Inl (general_exception
                        (''URDFToModelTable: joint '' @ quoted (jt_name j) @ '' has zero axis''))
               else Inr a
           | None \<Rightarrow> Inr (Vector3 dbl_one 0 0))) (\<lambda>axis.
       Inr \<lparr>row_name = jt_name j, row_xyz = jt_xyz j, row_rpy = jt_rpy j, row_axis = axis,
            row_type = ty\<rparr>))"

definition table_from_urdf :: "'t ptree_ops \<Rightarrow> scanner \<Rightarrow> byte list \<Rightarrow> model_table res" where
  "table_from_urdf pt scan bytes =
     rbind (parse_urdf pt scan bytes) (\<lambda>joints.
     rbind (walk_urdf_chain joints) (\<lambda>chain. mapM to_row chain))"

text \<open>An \<^verbatim>\<open>xarray\<close> of doubles: its shape, and its elements in row-major order.\<close>

record xarray =
  xa_shape :: "nat list"
  xa_data :: "double list"

definition xa_at :: "xarray \<Rightarrow> nat \<Rightarrow> nat \<Rightarrow> double" where
  "xa_at t i j = xa_data t ! (i * (xa_shape t ! 1) + j)"

definition row_cells :: "joint_row \<Rightarrow> double list" where
  "row_cells r =
     [v3_x (row_xyz r), v3_y (row_xyz r), v3_z (row_xyz r),
      v3_x (row_rpy r), v3_y (row_rpy r), v3_z (row_rpy r),
      v3_x (row_axis r), v3_y (row_axis r), v3_z (row_axis r),
      dbl_of_int (joint_type_value (row_type r))]"

definition to_tensor :: "model_table \<Rightarrow> xarray res" where
  "to_tensor rows =
     (if rows = [] then Inl (general_exception ''ModelTable::to_tensor: empty model table'')
      else Inr \<lparr>xa_shape = [length rows, 10], xa_data = concat (map row_cells rows)\<rparr>)"

text \<open>\<^verbatim>\<open>std::to_string\<close> of a double: six decimals, rounded to nearest, ties to even.\<close>

definition show_fixed :: "double \<Rightarrow> string" where
  "show_fixed d =
     (let sign = (if dbl_neg d then ''-'' else []);
          e = dbl_scale d; m = dbl_mant d * 10 ^ 6;
          n = (if 1074 \<le> e then m * 2 ^ (e - 1074)
               else let p = 2 ^ (1074 - e); r = m mod p
                    in if p < 2 * r \<or> 2 * r = p \<and> odd (m div p) then m div p + 1 else m div p);
          frac = show_nat (n mod 10 ^ 6)
      in if dbl_is_nan d then sign @ ''nan''
         else if dbl_exp d = 2047 then sign @ ''inf''
         else sign @ show_nat (n div 10 ^ 6) @ ''.'' @ replicate (6 - length frac) (CHR ''0'') @ frac)"

definition joint_type_of :: "int \<Rightarrow> joint_type option" where
  "joint_type_of i =
     (if i = 0 then Some Revolute else if i = 1 then Some Continuous
      else if i = 2 then Some Prismatic else if i = 3 then Some Fixed else None)"

definition row_from_tensor :: "xarray \<Rightarrow> nat \<Rightarrow> joint_row res" where
  "row_from_tensor t i =
     (let type_v = xa_at t i 9
      in case dbl_to_sint 32 type_v of
           None \<Rightarrow> Inl (Undefined ''double to int out of range'')
         | Some type_i \<Rightarrow>
             if \<not> dbl_eq (dbl_of_int type_i) type_v then
               Inl (general_exception
                      (''ModelTable::from(tensor): row '' @ show_nat i @ '' joint type value ''
                        @ show_fixed type_v @ '' is not an integer''))
             else
               (case joint_type_of type_i of
                  None \<Rightarrow>
                    Inl (general_exception
                           (''ModelTable::from(tensor): row '' @ show_nat i @ '' joint type value ''
                             @ show_int type_i @ '' does not match any JointType''))
                | Some ty \<Rightarrow>
                    Inr \<lparr>row_name = [], row_xyz = Vector3 (xa_at t i 0) (xa_at t i 1) (xa_at t i 2),
                         row_rpy = Vector3 (xa_at t i 3) (xa_at t i 4) (xa_at t i 5),
                         row_axis = Vector3 (xa_at t i 6) (xa_at t i 7) (xa_at t i 8),
                         row_type = ty\<rparr>))"

definition table_from_tensor :: "xarray \<Rightarrow> model_table res" where
  "table_from_tensor t =
     (if length (xa_shape t) \<noteq> 2 then
        Inl (general_exception
               (''ModelTable::from(tensor): expected 2D tensor, got ''
                 @ show_nat (length (xa_shape t)) @ ''D''))
      else if xa_shape t ! 1 \<noteq> 10 then
        Inl (general_exception
               (''ModelTable::from(tensor): expected shape (n, 10), got (n, ''
                 @ show_nat (xa_shape t ! 1) @ '')''))
      else if xa_shape t ! 0 = 0 then
        Inl (general_exception ''ModelTable::from(tensor): empty tensor'')
      else mapM (row_from_tensor t) [0..<xa_shape t ! 0])"

subsection \<open>Lemmas: the walk orders exactly the serial chains\<close>

fun linked :: "string \<Rightarrow> parsed_joint list \<Rightarrow> bool" where
  "linked l [] \<longleftrightarrow> True"
| "linked l (j # js) \<longleftrightarrow> jt_parent_link j = l \<and> linked (jt_child_link j) js"

text \<open>A serial chain: each joint starts at the link where the last one ended, and no link occurs
  twice.\<close>

definition serial_chain :: "parsed_joint list \<Rightarrow> bool" where
  "serial_chain js \<longleftrightarrow>
     js \<noteq> [] \<and> linked (jt_parent_link (hd js)) js
     \<and> distinct (jt_parent_link (hd js) # map jt_child_link js)"

lemma outgoing_mem: "j \<in> set (outgoing js l) \<longleftrightarrow> j \<in> set js \<and> jt_parent_link j = l"
  by (auto simp: outgoing_def)

lemma linked_parents:
  "linked l js \<Longrightarrow> map jt_parent_link js = butlast (l # map jt_child_link js)"
  by (induction l js rule: linked.induct) auto

lemma walk_loop_Inr:
  assumes "walk_loop js visited l = Inr ordered"
  shows "linked l ordered \<and> (\<forall>j\<in>set ordered. outgoing js (jt_parent_link j) = [j])
     \<and> outgoing js (last (l # map jt_child_link ordered)) = []
     \<and> distinct (l # map jt_child_link ordered)
     \<and> set (l # map jt_child_link ordered) \<inter> set visited = {}"
  using assms
proof (induction js visited l arbitrary: ordered rule: walk_loop.induct)
  case (1 js visited l)
  have new: "l \<notin> set visited" using "1.prems" by (auto simp: walk_loop.simps split: if_splits)
  show ?case
  proof (cases "outgoing js l")
    case Nil
    then show ?thesis using "1.prems" new by (simp add: walk_loop.simps)
  next
    case (Cons j rest)
    with "1.prems" new have rest: "rest = []"
      by (auto simp: walk_loop.simps split: list.splits)
    with "1.prems" new Cons obtain ws where ws: "ordered = j # ws"
      and w: "walk_loop js (l # visited) (jt_child_link j) = Inr ws"
      by (auto simp: walk_loop.simps[of js visited l] result_simps)
    have p: "jt_parent_link j = l" using outgoing_mem[of j js l] Cons by simp
    from "1.IH"[OF new _ _ w] Cons rest have
      "linked (jt_child_link j) ws \<and> (\<forall>j\<in>set ws. outgoing js (jt_parent_link j) = [j])
       \<and> outgoing js (last (jt_child_link j # map jt_child_link ws)) = []
       \<and> distinct (jt_child_link j # map jt_child_link ws)
       \<and> set (jt_child_link j # map jt_child_link ws) \<inter> set (l # visited) = {}"
      by blast
    then show ?thesis using ws p Cons rest new by auto
  qed
qed

lemma walk_loop_complete:
  assumes "linked l ordered" "\<forall>j\<in>set ordered. outgoing js (jt_parent_link j) = [j]"
    and "outgoing js (last (l # map jt_child_link ordered)) = []"
    and "distinct (l # map jt_child_link ordered)"
    and "set (l # map jt_child_link ordered) \<inter> set visited = {}"
  shows "walk_loop js visited l = Inr ordered"
  using assms
proof (induction ordered arbitrary: l visited)
  case (Cons j ws)
  have "outgoing js l = [j]" using Cons.prems(1,2) by auto
  moreover have "walk_loop js (l # visited) (jt_child_link j) = Inr ws"
    using Cons.prems by (intro Cons.IH) auto
  moreover have "l \<notin> set visited" using Cons.prems(5) by auto
  ultimately show ?case by (simp add: walk_loop.simps[of js visited l])
qed (simp add: walk_loop.simps)

lemma distinct_subset_mset:
  assumes "distinct ordered" "set ordered \<subseteq> set js" "length ordered = length js"
  shows "mset ordered = mset js"
proof -
  have "mset ordered \<subseteq># mset js"
    using assms(1,2) by (auto simp: subseteq_mset_def distinct_count_atmost_1 count_list_0_iff
        intro: order.trans[OF _ count_greater_eq_one_iff[THEN iffD2]])
  then show ?thesis
    using assms(3) by (metis mset_subset_size size_mset subset_mset.le_less less_irrefl)
qed

lemma root_links_single:
  assumes "length (root_links js) = 1"
  shows "root_links js ! 0 \<in> jt_parent_link ` set js - jt_child_link ` set js"
proof -
  have "root_links js ! 0 \<in> set (root_links js)" using assms by (intro nth_mem) simp
  then show ?thesis by (auto simp: root_links_def)
qed

lemma set_root_links: "set (root_links js) = jt_parent_link ` set js - jt_child_link ` set js"
  by (auto simp: root_links_def)

lemma distinct_root_links: "distinct (root_links js)"
  by (simp add: root_links_def)

lemma walk_urdf_chain_sound:
  assumes "walk_urdf_chain js = Inr ordered"
  shows "mset ordered = mset js \<and> serial_chain ordered"
proof -
  from assms have one: "length (root_links js) = 1" and len: "length ordered = length js"
    and w: "walk_loop js [] (root_links js ! 0) = Inr ordered"
    by (auto simp: walk_urdf_chain_def Let_def result_simps split: if_splits)
  let ?l = "root_links js ! 0"
  note W = walk_loop_Inr[OF w]
  have mem: "set ordered \<subseteq> set js"
  proof
    fix j assume "j \<in> set ordered"
    with W have "j \<in> set (outgoing js (jt_parent_link j))" by simp
    then show "j \<in> set js" by (simp add: outgoing_mem)
  qed
  have "distinct ordered" using W by (auto simp: distinct_map)
  then have m: "mset ordered = mset js" using mem len by (rule distinct_subset_mset)
  from root_links_single[OF one] have "js \<noteq> []" by auto
  with len have ne: "ordered \<noteq> []" by auto
  then have "jt_parent_link (hd ordered) = ?l" using W by (cases ordered) auto
  with ne W m show ?thesis by (simp add: serial_chain_def)
qed

lemma walk_urdf_chain_complete:
  assumes "mset ordered = mset js" "serial_chain ordered"
  shows "walk_urdf_chain js = Inr ordered"
proof -
  let ?l = "jt_parent_link (hd ordered)"
  let ?links = "?l # map jt_child_link ordered"
  from assms(2) have ne: "ordered \<noteq> []" and ln: "linked ?l ordered" and d: "distinct ?links"
    by (auto simp: serial_chain_def)
  have s: "set js = set ordered" using assms(1) by (metis set_mset_mset)
  have pd: "distinct (map jt_parent_link ordered)"
    using distinct_butlast[OF d] by (simp only: linked_parents[OF ln])
  have mo: "mset (outgoing js x) = mset (outgoing ordered x)" for x
    using assms(1) by (simp add: outgoing_def mset_filter)
  have out: "outgoing js (jt_parent_link j) = [j]" if j: "j \<in> set ordered" for j
  proof -
    from split_list[OF j] obtain as bs where o: "ordered = as @ j # bs" by blast
    have "\<forall>x\<in>set as \<union> set bs. jt_parent_link x \<noteq> jt_parent_link j"
      using pd unfolding o by (auto simp: rev_image_eqI)
    then have "outgoing ordered (jt_parent_link j) = [j]"
      unfolding o outgoing_def by (simp add: filter_empty_conv[THEN iffD2])
    then show ?thesis using mo[of "jt_parent_link j"] by simp
  qed
  have parents: "set (map jt_parent_link ordered) = set (butlast ?links)"
    by (simp only: linked_parents[OF ln])
  have sp: "?links = butlast ?links @ [last ?links]" by simp
  have "last ?links \<notin> set (butlast ?links)"
    using d by (subst (asm) sp) simp
  then have "last ?links \<notin> set (map jt_parent_link ordered)" by (simp only: parents not_False_eq_True)
  then have "\<forall>j\<in>set js. jt_parent_link j \<noteq> last ?links" unfolding s by (metis imageI set_map)
  then have e: "outgoing js (last ?links) = []" by (simp add: outgoing_def filter_empty_conv)
  have roots: "set (root_links js) = {?l}"
  proof -
    have "set (butlast ?links) - set (map jt_child_link ordered) = {?l}"
      using d ne by (auto dest: in_set_butlastD)
    then show ?thesis unfolding set_root_links s using parents by simp
  qed
  then have "root_links js = [?l]"
    using distinct_root_links[of js]
    by (metis distinct.simps(2) empty_set insert_not_empty list.exhaust list.set(2)
        list.set_intros(1) singleton_iff singleton_insert_inj_eq' set_ConsD distinct_singleton
        distinct_length_2_or_more)
  moreover have "walk_loop js [] ?l = Inr ordered"
    by (rule walk_loop_complete[OF ln _ e d]) (use out in auto)
  moreover have "length ordered = length js" using assms(1) by (metis size_mset)
  ultimately show ?thesis by (simp add: walk_urdf_chain_def)
qed

theorem walk_urdf_chain_iff:
  "walk_urdf_chain js = Inr ordered \<longleftrightarrow> mset ordered = mset js \<and> serial_chain ordered"
  using walk_urdf_chain_sound walk_urdf_chain_complete by blast

subsection \<open>Lemmas: rows and tensors\<close>

lemma to_row_ok:
  "to_row j = Inr r \<Longrightarrow>
   row_name r = jt_name j \<and> row_xyz r = jt_xyz j \<and> row_rpy r = jt_rpy j
   \<and> (row_type r = Fixed \<longrightarrow> row_axis r = Vector3 0 0 0)
   \<and> (row_type r \<noteq> Fixed \<longrightarrow> \<not> vector3_eq (row_axis r) (Vector3 0 0 0))"
  by (auto simp: to_row_def result_simps vector3_eq_def dbl_eq_def dbl_one_def dbl_of_int_samples
      dbl_is_zero_def split: if_splits option.splits)

lemma table_from_urdf_rows:
  assumes "table_from_urdf pt scan bytes = Inr rows"
  shows "\<exists>joints chain. parse_urdf pt scan bytes = Inr joints \<and> mset chain = mset joints
     \<and> serial_chain chain \<and> mapM to_row chain = Inr rows"
  using assms
  by (auto simp: table_from_urdf_def result_simps dest: walk_urdf_chain_sound)

lemma joint_type_round: "joint_type_of (joint_type_value ty) = Some ty"
  by (cases ty) (simp_all add: joint_type_of_def)

lemma joint_type_double:
  "dbl_to_sint 32 (dbl_of_int (joint_type_value ty)) = Some (joint_type_value ty)"
  by (rule dbl_to_sint_of_int) (cases ty; simp)+

lemma joint_type_not_nan [simp]: "\<not> dbl_is_nan (dbl_of_int (joint_type_value ty))"
  by (rule dbl_of_int_not_nan) (cases ty; simp)

lemma concat_rows_nth:
  "i < length rows \<Longrightarrow> j < 10 \<Longrightarrow> concat (map row_cells rows) ! (i * 10 + j) = row_cells (rows ! i) ! j"
proof (induction rows arbitrary: i)
  case (Cons r rows)
  have l: "length (row_cells r) = 10" by (simp add: row_cells_def)
  show ?case
  proof (cases i)
    case 0
    then show ?thesis using Cons.prems(2) l by (simp add: nth_append)
  next
    case (Suc k)
    then have "concat (map row_cells (r # rows)) ! (i * 10 + j) = concat (map row_cells rows) ! (k * 10 + j)"
      using l by (simp add: nth_append)
    then show ?thesis using Cons Suc by simp
  qed
qed simp

lemma tensor_from_to:
  assumes "to_tensor rows = Inr t"
  shows "table_from_tensor t = Inr (map (\<lambda>r. r\<lparr>row_name := []\<rparr>) rows)"
proof -
  from assms have ne: "rows \<noteq> []"
    and t: "t = \<lparr>xa_shape = [length rows, 10], xa_data = concat (map row_cells rows)\<rparr>"
    by (auto simp: to_tensor_def split: if_splits)
  have at: "xa_at t i j = row_cells (rows ! i) ! j" if "i < length rows" "j < 10" for i j
    using that concat_rows_nth[of i rows j] by (simp add: xa_at_def t)
  have row: "row_from_tensor t i = Inr ((rows ! i)\<lparr>row_name := []\<rparr>)" if "i < length rows" for i
    by (simp add: row_from_tensor_def at[OF that] row_cells_def joint_type_double joint_type_round)
  have "mapM (row_from_tensor t) [0..<length rows] = Inr (map (\<lambda>i. (rows ! i)\<lparr>row_name := []\<rparr>) [0..<length rows])"
    by (rule mapM_all_Inr) (simp add: row)
  moreover have "map (\<lambda>i. (rows ! i)\<lparr>row_name := []\<rparr>) [0..<length rows] = map (\<lambda>r. r\<lparr>row_name := []\<rparr>) rows"
    by (rule nth_equalityI) simp_all
  ultimately show ?thesis
    using ne by (simp add: table_from_tensor_def t)
qed

text \<open>What a tensor has to be for the table to be rebuilt, and what a rebuilt table is.\<close>

lemma table_from_tensor_ok:
  assumes "table_from_tensor t = Inr rows"
  shows "xa_shape t = [length rows, 10] \<and> rows \<noteq> [] \<and> (\<forall>r\<in>set rows. row_name r = [])"
proof -
  from assms have s: "length (xa_shape t) = 2" "xa_shape t ! 1 = 10" "xa_shape t ! 0 \<noteq> 0"
    and m: "mapM (row_from_tensor t) [0..<xa_shape t ! 0] = Inr rows"
    by (auto simp: table_from_tensor_def split: if_splits)
  from s(1) obtain a b where ab: "xa_shape t = [a, b]"
    by (auto simp: length_Suc_conv numeral_2_eq_2)
  have l: "length rows = a" using mapM_length[OF m] ab by simp
  have "row_name r = []" if "r \<in> set rows" for r
  proof -
    from that obtain i where i: "i < length rows" "rows ! i = r" by (auto simp: in_set_conv_nth)
    then have "row_from_tensor t i = Inr r"
      using m l ab by (auto simp: mapM_Inr_nth)
    then show ?thesis
      by (auto simp: row_from_tensor_def Let_def split: option.splits if_splits)
  qed
  then show ?thesis using ab l s by auto
qed

end
