(* ===== verification/DemoRemote.thy ===== *)
theory DemoRemote
  imports Demo Media MLModel Motion ModelTable
begin

text \<open>
  Concrete remote resources on which the witnesses are evaluated: a client and a server that know
  each other by the name \<^verbatim>\<open>a\<close>, a motor that refuses the speed zero, a board with two ticks, a
  loudspeaker, a planner, a model that returns its inputs, two joints in a row.
\<close>

definition demo_client :: rpc_client where
  "demo_client = \<lparr>rc_name = ''a'', rc_version = ''cpp'', rc_token = None\<rparr>"

definition demo_server :: "'x \<Rightarrow> (nat resource, 'x) rpc_server" where
  "demo_server x = \<lparr>rs_manager = demo_manager ''a'', rs_cast = (\<lambda>_. Some x)\<rparr>"

definition demo_lost :: status where
  "demo_lost = mk_status UNAVAILABLE ''lost''"

lemma demo_hosts [simp]: "hosts (demo_server x) demo_client x"
  by (simp add: hosts_def demo_server_def demo_client_def demo_manager_def manager_resource_def
      resource_map_def get_shortcut_name_def)

lemma demo_lost_not_ok [simp]: "\<not> st_is_ok demo_lost"
  by (simp add: demo_lost_def st_is_ok_def mk_status_def)

lemma demo_sendable [simp]: "sendable []"
  by (simp add: sendable_def)

definition demo_motor :: motor where
  "demo_motor =
     \<lparr>mo_set_power = (\<lambda>_ _. Inr ()),
      mo_go_for = (\<lambda>rpm _ _. if rpm = 0 then Inl (general_exception ''rpm is zero'') else Inr ()),
      mo_go_to = (\<lambda>_ _ _. Inr ()), mo_set_rpm = (\<lambda>_ _. Inr ()),
      mo_reset_zero_position = (\<lambda>_ _. Inr ()), mo_get_position = (\<lambda>_. Inr 0),
      mo_get_properties = (\<lambda>_. Inr True), mo_stop = (\<lambda>_. Inr ()),
      mo_get_power_status = (\<lambda>_. Inr \<lparr>pw_is_on = True, pw_power_pct = 0\<rparr>), mo_is_moving = Inr False,
      mo_get_status = Inr [], mo_do_command = Inr, mo_get_geometries = (\<lambda>_. Inr [])\<rparr>"

definition demo_tick :: "nat \<Rightarrow> board_tick" where
  "demo_tick n = \<lparr>tk_pin_name = ''p'', tk_time = of_nat n, tk_high = even n\<rparr>"

definition demo_board :: board where
  "demo_board =
     \<lparr>bd_get_gpio = (\<lambda>_ _. Inr False), bd_set_gpio = (\<lambda>_ _ _. Inr ()),
      bd_get_pwm_duty_cycle = (\<lambda>_ _. Inr 0), bd_set_pwm_duty_cycle = (\<lambda>_ _ _. Inr ()),
      bd_get_pwm_frequency = (\<lambda>_ _. Inr 0), bd_set_pwm_frequency = (\<lambda>_ _ _. Inr ()),
      bd_read_analog = (\<lambda>_ _. Inr \<lparr>ar_value = 1, ar_min_range = 0, ar_max_range = 0, ar_step_size = 0\<rparr>),
      bd_write_analog = (\<lambda>_ _ _. Inr ()), bd_read_digital_interrupt = (\<lambda>_ _. Inr 0),
      bd_stream_ticks = (\<lambda>_ _. Source_emit (demo_tick 1) (\<lambda>_.
        Source_emit (demo_tick 2) (\<lambda>_. Source_end (Inr ())))),
      bd_set_power_mode = (\<lambda>_ _ _. Inr ()), bd_do_command = Inr, bd_get_status = Inr [],
      bd_get_geometries = (\<lambda>_. Inr [])\<rparr>"

text \<open>A loudspeaker that wants exactly one chunk.\<close>

definition demo_speaker :: audio_out where
  "demo_speaker =
     \<lparr>aout_play = (\<lambda>_ _ _. Inr ()),
      aout_play_stream = (\<lambda>_ _. Sink_pull (\<lambda>first. Sink_pull (\<lambda>second.
        Sink_done (if first = Inr (Some [1]) \<and> second = Inr None then Inr ()
                   else Inl (general_exception ''unexpected chunks''))))),
      aout_get_properties =
        (\<lambda>_. Inr \<lparr>supported_codecs = [], ap_sample_rate_hz = 0, ap_num_channels = 0\<rparr>),
      aout_do_command = Inr, aout_get_status = Inr [], aout_get_geometries = (\<lambda>_. Inr [])\<rparr>"

lemma demo_speaker_accepts: "run_sink (aout_play_stream demo_speaker info extra) [[1]] = Inr ()"
proof -
  have "aout_play_stream demo_speaker info extra = Sink_pull (\<lambda>first. Sink_pull (\<lambda>second.
      Sink_done (if first = Inr (Some [1]) \<and> second = Inr None then Inr ()
                 else Inl (general_exception ''unexpected chunks''))))"
    by (simp add: demo_speaker_def)
  then show ?thesis by simp
qed

text \<open>A planner whose answer tells whether it was given extra arguments.\<close>

definition demo_plan :: "proto_struct \<Rightarrow> plan_with_status" where
  "demo_plan extra =
     \<lparr>pw_plan = \<lparr>pln_id = (if extra = [] then ''plain'' else ''extra''), pln_component_name = ''a'',
                pln_execution_id = ''e'', pln_steps = []\<rparr>,
      pw_status = \<lparr>pls_state = k_succeeded, pls_timestamp = 0, pls_reason = None\<rparr>,
      pw_status_history = []\<rparr>"

definition demo_motion :: motion where
  "demo_motion =
     \<lparr>mt_move = (\<lambda>_ _ _ _ _. Inr True), mt_move_on_map = (\<lambda>_ _ _ _ _ _. Inr []),
      mt_move_on_globe = (\<lambda>_ _ _ _ _ _ _ _. Inr []),
      mt_get_pose = (\<lambda>_ _ _ _. Inl (general_exception ''no pose'')), mt_stop_plan = (\<lambda>_ _. Inr ()),
      mt_get_latest_plan = (\<lambda>_ extra. Inr (demo_plan extra)),
      mt_get_latest_plan_with_replan_history = (\<lambda>_ extra. Inr (demo_plan extra, [])),
      mt_get_plan = (\<lambda>_ _ extra. Inr (demo_plan extra)),
      mt_get_plan_with_replan_history = (\<lambda>_ _ extra. Inr (demo_plan extra, [])),
      mt_list_plan_statuses = (\<lambda>_. Inr []), mt_list_active_plan_statuses = (\<lambda>_. Inr []),
      mt_do_command = Inr, mt_get_status = Inr []\<rparr>"

definition demo_tensor :: tensor_view where
  "demo_tensor = \<lparr>tv_data = D_int16 [1, 2, 3], tv_shape = [1, 3]\<rparr>"

definition demo_tensor_info :: "string \<Rightarrow> tensor_info" where
  "demo_tensor_info n =
     \<lparr>ti_name = n, ti_description = [], ti_data_type = k_int16, ti_shape = [1, 3],
      ti_associated_files = [], ti_extra = []\<rparr>"

definition demo_metadata :: ml_metadata where
  "demo_metadata =
     \<lparr>md_name = ''m'', md_type = [], md_description = [], md_inputs = [demo_tensor_info ''in''],
      md_outputs = []\<rparr>"

definition demo_model :: ml_model where
  "demo_model =
     \<lparr>ml_infer = (\<lambda>inputs _. Inr inputs), ml_metadata = (\<lambda>_. Inr demo_metadata), ml_get_status = Inr []\<rparr>"

lemma demo_tensor_wf [simp]: "tensor_wf demo_tensor"
  by (simp add: tensor_wf_def demo_tensor_def data_size_def halves_fit_def)

definition demo_joint :: "string \<Rightarrow> string \<Rightarrow> parsed_joint" where
  "demo_joint p c =
     \<lparr>jt_name = p @ c, jt_type_str = ''revolute'', jt_parent_link = p, jt_child_link = c,
      jt_xyz = Vector3 0 0 0, jt_rpy = Vector3 0 0 0, jt_axis_opt = None\<rparr>"

end
