(* ===== verification/FurtherResults.thy ===== *)
theory FurtherResults
  imports FurtherBehaviour DepthMap DemoRemote
begin

text \<open>
  More of what the components do, evaluated on the concrete machines of Demo and DemoRemote: a parent
  that cannot be dialed, a table replaced as a whole, the registry's own resources, world states on the
  wire, a depth map with a wrapped size, clients that outlive a connection, plans of a remote planner.
\<close>

subsection \<open>The module service and its resources\<close>

text \<open>
  When the first dial to the parent fails, the address is already stored: the same request
  sent again reports readiness without dialing, and the module goes on with the connection it had.
\<close>

theorem failed_dial_is_remembered:
  assumes "\<not> is_env_var_true (env_vars env) ''VIAM_NO_MODULE_PARENT''"
    and "ms_parent_addr s \<noteq> parent_request s raw addr"
    and "dial_parent env (parent_request s raw addr) = Inl e"
  shows "\<exists>s1. handle_Ready env raw addr s = (Inl e, s1) \<and> ms_parent s1 = ms_parent s
     \<and> (\<forall>env'. handle_Ready env' raw addr s1 = (Inr (ready_reply s), s1))"
  using assms by (rule ready_after_failed_dial)

theorem failed_dial_is_remembered_witness:
  "\<exists>s1. handle_Ready (demo_env (Inl (StdException ''refused'')) None) ''parent'' []
       (demo_service (Inr None) empty_manager) = (Inl (StdException ''refused''), s1)
     \<and> ms_parent s1 = None
     \<and> fst (handle_Ready (demo_env (Inl (StdException ''refused'')) None) ''parent'' [] s1) =
         Inr (ready_reply (demo_service (Inr None) empty_manager))"
  using failed_dial_is_remembered[of "demo_env (Inl (StdException ''refused'')) None"
      "demo_service (Inr None) empty_manager" "''parent''" "[]" "StdException ''refused''"]
  by (auto simp: demo_env_def demo_service_def is_env_var_true_def parent_request_def)

text \<open>
  Replacing the whole table with resources whose short names are non-empty and pairwise
  different yields exactly the given table, whatever was stored before.
\<close>

theorem replace_all_exact:
  assumes "acceptable rs"
  shows "rm_resources (snd (manager_replace_all m rs)) = map (\<lambda>e. (short_name (fst e), snd e)) rs
     \<and> fst (manager_replace_all m rs) = None"
  using replace_all_loop_resources[OF assms, of "m\<lparr>rm_resources := [], rm_short_names := []\<rparr>"]
  by (simp add: manager_replace_all_def)

theorem replace_all_exact_witness:
  "rm_resources (snd (manager_replace_all (empty_manager :: nat manager)
     [(mk_name arm_api [] ''a'', Some 1), (mk_name arm_api ''r'' ''a'', Some 2)])) =
   [(''a'', Some 1), (''r:a'', Some 2)]"
  using replace_all_exact[of "[(mk_name arm_api [] ''a'', Some 1), (mk_name arm_api ''r'' ''a'', Some 2)]"
      "empty_manager :: nat manager"]
  by (simp add: acceptable_def mk_name_def short_name_def)

text \<open>
  Initialising the registry succeeds when every service descriptor is linked in: every API of
  the SDK then has its own client, and its own server except the frame system, which has none.
\<close>

theorem built_in_resources_registered:
  assumes "\<forall>k. k \<noteq> K_FrameSystem \<longrightarrow> find_service k \<noteq> None" "g0 = empty_registry"
  shows "\<exists>g. register_resources find_service g0 = Inr g
     \<and> (\<forall>k. lookup_client g (kind_api k) = Some k)
     \<and> (\<forall>k. lookup_server g (kind_api k) =
            (if k = K_FrameSystem then None else Some (server_reg find_service k)))
     \<and> rg_models g = []"
  using assms by (rule register_resources_ok)

theorem built_in_resources_registered_witness:
  "\<exists>g. register_resources (\<lambda>k. Some ()) (empty_registry :: (nat, nat, nat, unit) registry) = Inr g
     \<and> lookup_client g (kind_api K_Motor) = Some K_Motor
     \<and> lookup_server g (kind_api K_FrameSystem) = None"
  using built_in_resources_registered[of "\<lambda>k. Some ()" "empty_registry :: (nat, nat, nat, unit) registry"]
  by (auto simp del: kind_api.simps)

subsection \<open>Values on the wire\<close>

text \<open>
  A world state whose geometries have the default orientation survives the trip over the wire,
  obstacles, frames and optional physical objects included.
\<close>

theorem world_state_roundtrip:
  assumes "world_state_plain w"
  shows "world_state_from_proto (world_state_to_proto w) = Inr w"
  using assms by (rule world_state_from_to)

theorem world_state_roundtrip_witness:
  "world_state_from_proto (world_state_to_proto
     \<lparr>ws_obstacles = [\<lparr>gif_geometries = [geometry_default], gif_reference_frame = ''world''\<rparr>],
      ws_transforms = [\<lparr>tf_reference_frame = ''arm'',
        tf_pose_in_observer_frame = \<lparr>pif_reference_frame = ''world'', pif_pose = pose_default\<rparr>,
        tf_physical_object = Some geometry_default\<rparr>]\<rparr>) =
   Inr \<lparr>ws_obstacles = [\<lparr>gif_geometries = [geometry_default], gif_reference_frame = ''world''\<rparr>],
      ws_transforms = [\<lparr>tf_reference_frame = ''arm'',
        tf_pose_in_observer_frame = \<lparr>pif_reference_frame = ''world'', pif_pose = pose_default\<rparr>,
        tf_physical_object = Some geometry_default\<rparr>]\<rparr>"
  by (rule world_state_roundtrip)
    (simp add: world_state_plain_def gif_plain_def transform_plain_def geometry_plain_def
      geometry_default_def)

text \<open>
  The size check of the decoder multiplies modulo \<open>2 ^ 64\<close>: a bare header whose width times
  height is a multiple of \<open>2 ^ 64\<close> is accepted as a map of that shape without a single value.
\<close>

theorem decode_wrapped_size:
  assumes "w < 2 ^ 64" "h < 2 ^ 64" "w * h mod 2 ^ 64 = 0"
  shows "decode_depth_map (depth_header w h) = Inr \<lparr>dm_shape = [h, w], dm_values = []\<rparr>"
proof -
  have "2 ^ 64 dvd w * h * 2" using assms(3) by (simp add: mod_0_imp_dvd)
  then obtain k where "w * h * 2 = 2 ^ 64 * k" by (elim dvdE)
  then have e: "(24 + w * h * 2) mod 2 ^ 64 = 24" by (simp only: mod_mult_self2) simp
  show ?thesis
    using decode_header[OF assms(1,2), of "[]"] assms(3) e
    by (simp add: Let_def depth_header_def)
qed

theorem decode_wrapped_size_witness:
  "decode_depth_map (depth_header (2 ^ 63) 2) = Inr \<lparr>dm_shape = [2, 2 ^ 63], dm_values = []\<rparr>"
  by (rule decode_wrapped_size) simp_all

subsection \<open>Remote machines\<close>

definition demo_lookup :: "api \<Rightarrow> resource_kind option" where
  "demo_lookup a = (if a = arm_api then Some K_Arm else None)"

text \<open>
  After a reconnection to a machine with the same resources the client keeps the clients of its
  resources as they were, bound to the connection that was closed, while its own channel is the one
  of the last of the three dials.
\<close>

theorem reconnection_keeps_old_clients:
  assumes "\<forall>k. \<exists>ch. dials k = Inr ch \<and> ch_impl ch \<noteq> None"
    and "\<forall>k. \<exists>ns. answers k = Inr ns \<and> list_all2 name_eq (map name_from_proto ns) (rb_names s)"
  shows "\<exists>s'. reconnect_loop 3 lookup order dials answers 0 conn s = ((None, True), s')
     \<and> rb_manager s' = rb_manager s \<and> rb_names s' = rb_names s \<and> dials 2 = Inr (rb_channel s')"
  using reconnect_keeps_clients[of dials answers s 2 lookup order 0 conn] assms
  by (simp add: numeral_3_eq_3 numeral_2_eq_2)

theorem reconnection_keeps_old_clients_witness:
  "\<exists>s'. reconnect_loop 3 demo_lookup (\<lambda>m. m) (\<lambda>k. Inr demo_channel) (\<lambda>k. Inr []) 0 False
       ((mk_robot_client demo_channel)\<lparr>rb_manager :=
          \<lparr>rm_resources = [(''a'', Some \<lparr>rk = K_Arm, rn = ''a'', r_target = ''old''\<rparr>)], rm_short_names = []\<rparr>\<rparr>)
       = ((None, True), s')
     \<and> rm_resources (rb_manager s') = [(''a'', Some \<lparr>rk = K_Arm, rn = ''a'', r_target = ''old''\<rparr>)]"
  using reconnection_keeps_old_clients[of "\<lambda>k. Inr demo_channel" "\<lambda>k. Inr []"
      "(mk_robot_client demo_channel)\<lparr>rb_manager :=
          \<lparr>rm_resources = [(''a'', Some \<lparr>rk = K_Arm, rn = ''a'', r_target = ''old''\<rparr>)], rm_short_names = []\<rparr>\<rparr>"
      demo_lookup "\<lambda>m. m" False]
  by (auto simp: mk_robot_client_def demo_channel_def)

text \<open>
  A \<^verbatim>\<open>get_plan\<close> over the wire answers what the implementation answers without extra arguments,
  whatever the caller's extra; asked for the replan history as well, the implementation does see
  them.
\<close>

theorem plans_over_the_wire:
  assumes "hosts sv cl m" "\<not> st_is_ok lost" "sendable extra"
    and "\<And>p. mt_get_plan m name execution [] = Inr p \<Longrightarrow> pws_wf p"
    and "\<And>r. mt_get_plan_with_replan_history m name execution extra = Inr r \<Longrightarrow> plans_wf r"
    and "remote = motion_client cl (motion_service sv lost)"
  shows "mt_get_plan remote name execution extra =
      rmap fst (seen_remotely lost ''MotionServer::GetPlan''
        (written (rmap (\<lambda>p. (p, [])) (mt_get_plan m name execution []))))
    \<and> mt_get_plan_with_replan_history remote name execution extra =
      seen_remotely lost ''MotionServer::GetPlan''
        (written (mt_get_plan_with_replan_history m name execution extra))"
  unfolding assms(6)
  by (intro conjI remote_get_plan[OF assms(1-4)] remote_get_plan_with_replan_history[OF assms(1-3,5)])

theorem plans_over_the_wire_witness:
  "mt_get_plan (motion_client demo_client (motion_service (demo_server demo_motion) demo_lost)) ''a'' ''e''
     [(''k'', PBool True)] = Inr (demo_plan [])
   \<and> mt_get_plan_with_replan_history
       (motion_client demo_client (motion_service (demo_server demo_motion) demo_lost)) ''a'' ''e''
       [(''k'', PBool True)] = Inr (demo_plan [(''k'', PBool True)], [])"
proof -
  have s: "sendable [(''k'', PBool True)]"
    by (simp add: sendable_def ps_wf_def akeys_def debug_map_key_def)
  show ?thesis
    using plans_over_the_wire[OF demo_hosts demo_lost_not_ok s _ _ refl, where m = demo_motion
        and name = "''a''" and execution = "''e''"]
    by (simp add: demo_motion_def demo_plan_def written_def plans_to_response_def
        plan_with_status_to_proto_def plan_status_to_proto_def pws_wf_def plans_wf_def plan_wf_def status_wf_def)
qed

text \<open>
  A tensor survives the wire: every element type, with 16-bit elements packed in pairs, an odd
  number of them included. It is not empty, its shape is that of its elements, and of 16-bit elements
  there are fewer than \<open>2 ^ 32 - 1\<close>: with more, the cast of their number to \<^verbatim>\<open>int\<close> makes the field too
  short for the copy (\<open>pack_shorts_overflow\<close>).
\<close>

theorem tensor_survives:
  assumes "tensor_wf v"
  shows "\<exists>p. copy_sdk_tensor_to_api_tensor v = Inr p \<and> make_sdk_tensor_from_api_tensor p = Inr v"
  by (rule tensor_view_from_to[OF assms])

theorem tensor_survives_witness:
  "make_sdk_tensor_from_api_tensor \<lparr>ft_data = F_int16 [0x00020001, 3], ft_shape = tv_shape demo_tensor\<rparr> =
     Inr demo_tensor"
proof -
  have "copy_sdk_tensor_to_api_tensor demo_tensor =
      Inr \<lparr>ft_data = F_int16 [0x00020001, 3], ft_shape = tv_shape demo_tensor\<rparr>"
    by (simp add: demo_tensor_def copy_sdk_tensor_to_api_tensor_def pack_shorts_fits short_at_def upt_rec word_cat_eq)
  with tensor_survives[OF demo_tensor_wf] show ?thesis by auto
qed

text \<open>
  The tensor of a model table gives the table back but for the names of its joints, which the
  tensor has no place for; an empty table has no tensor.
\<close>

theorem model_table_tensor:
  "rbind (to_tensor rows) table_from_tensor =
     (if rows = [] then Inl (general_exception ''ModelTable::to_tensor: empty model table'')
      else Inr (map (\<lambda>r. r\<lparr>row_name := []\<rparr>) rows))"
proof (cases "rows = []")
  case False
  then obtain t where "to_tensor rows = Inr t" by (simp add: to_tensor_def)
  with False show ?thesis by (simp add: tensor_from_to)
qed (simp add: to_tensor_def)

end
