(* ===== verification/Services.thy ===== *)
theory Services
  imports ArmComponent Config
begin

text \<open>
  The discovery service, through client and server (\<^verbatim>\<open>services/private/discovery_*.cpp\<close>), and the
  client of the robot's frame system (\<^verbatim>\<open>services/framesystem.cpp\<close>,
  \<^verbatim>\<open>private/framesystem_client.cpp\<close>); the frame system's server is the robot's own.
\<close>

subsection \<open>Discovery\<close>

record discovery =
  ds_discover_resources :: "proto_struct \<Rightarrow> resource_config list res"
  ds_do_command :: "proto_struct \<Rightarrow> proto_struct res"
  ds_get_status :: "proto_struct res"

record discovery_stub =
  dss_DiscoverResources :: "(unit, pb_component_config list) rpc"
  dss_DoCommand :: "(pb_struct, pb_struct) rpc"
  dss_GetStatus :: "(unit, pb_struct) rpc"

definition discovery_client :: "rpc_client \<Rightarrow> discovery_stub \<Rightarrow> discovery" where
  "discovery_client cl stub =
     \<lparr>ds_discover_resources = (\<lambda>extra.
        invoke_with cl (dss_DiscoverResources stub) extra (Inr ()) discover_response_from_proto),
      ds_do_command = call_do_command cl (dss_DoCommand stub),
      ds_get_status = call_get_status cl (dss_GetStatus stub)\<rparr>"

definition discovery_service :: "('r, discovery) rpc_server \<Rightarrow> status \<Rightarrow> discovery_stub" where
  "discovery_service sv lost =
     \<lparr>dss_DiscoverResources = answer sv lost [] ''DiscoveryServer::DiscoverResources'' (\<lambda>q discovery.
        reply (rmap (map config_to_proto) (ds_discover_resources discovery (request_extra q)))),
      dss_DoCommand = serve_do_command sv lost ''DiscoveryServer::DoCommand'' ds_do_command,
      dss_GetStatus = serve_get_status sv lost ''DiscoveryServer::GetStatus'' ds_get_status\<rparr>"

subsection \<open>Frame system\<close>

record frame_system_config =
  fsc_frame :: transform
  fsc_kinematics :: proto_struct
  fsc_model :: "kinematic_model option"

record pb_frame_system_config =
  pfs_frame :: "pb_transform option"
  pfs_kinematics :: "pb_struct option"
  pfs_model :: "pb_kinematic_model option"

text \<open>Kinematics are compared by their serialisation, which is a function of the library.\<close>

definition frame_system_config_eq ::
  "(pb_struct \<Rightarrow> string) \<Rightarrow> frame_system_config \<Rightarrow> frame_system_config \<Rightarrow> bool" where
  "frame_system_config_eq serialize lhs rhs \<longleftrightarrow>
     transform_eq (fsc_frame lhs) (fsc_frame rhs)
     \<and> rel_option kinematic_model_eq (fsc_model lhs) (fsc_model rhs)
     \<and> serialize (struct_to_proto (fsc_kinematics lhs)) = serialize (struct_to_proto (fsc_kinematics rhs))"

definition frame_system_config_from_proto :: "pb_frame_system_config \<Rightarrow> frame_system_config res" where
  "frame_system_config_from_proto p =
     rbind (transform_from_proto
              (submsg \<lparr>ptf_reference_frame = [], ptf_pose = None, ptf_physical_object = None\<rparr> (pfs_frame p)))
       (\<lambda>frame.
     rmap (\<lambda>model.
         \<lparr>fsc_frame = frame,
          fsc_kinematics = (case pfs_kinematics p of Some k \<Rightarrow> struct_from_proto k | None \<Rightarrow> []),
          fsc_model = model\<rparr>)
       (case pfs_model p of Some m \<Rightarrow> rmap Some (kinematic_model_from_proto m) | None \<Rightarrow> Inr None))"

record frame_system_stub =
  fss_FrameSystemConfig :: "(pb_transform list, pb_frame_system_config list) rpc"
  fss_GetPose :: "(string \<times> string \<times> pb_transform list, pb_pose_in_frame option) rpc"
  fss_TransformPose :: "(pb_pose_in_frame option \<times> string \<times> pb_transform list, pb_pose_in_frame option) rpc"
  fss_TransformPCD :: "(string \<times> string \<times> string, string) rpc"

record frame_system =
  fs_get_frame_system_config :: "transform list \<Rightarrow> frame_system_config list res"
  fs_get_pose :: "string \<Rightarrow> string \<Rightarrow> transform list \<Rightarrow> proto_struct \<Rightarrow> pose_in_frame res"
  fs_transform_pose :: "pose_in_frame \<Rightarrow> string \<Rightarrow> transform list \<Rightarrow> pose_in_frame res"
  fs_transform_pcd :: "byte list \<Rightarrow> string \<Rightarrow> string \<Rightarrow> byte list res"

definition pose_response :: "pb_pose_in_frame option \<Rightarrow> pose_in_frame res" where
  "pose_response p =
     Inr (pose_in_frame_from_proto (submsg \<lparr>ppf_reference_frame = [], ppf_pose = None\<rparr> p))"

definition frame_system_client :: "rpc_client \<Rightarrow> frame_system_stub \<Rightarrow> frame_system" where
  "frame_system_client cl stub =
     \<lparr>fs_get_frame_system_config = (\<lambda>additional_transforms.
        invoke_plain cl (fss_FrameSystemConfig stub) (Inr (map transform_to_proto additional_transforms))
          (mapM frame_system_config_from_proto)),
      fs_get_pose = (\<lambda>component_name destination_frame supplemental_transforms extra.
        invoke_with cl (fss_GetPose stub) extra
          (Inr (component_name, destination_frame, map transform_to_proto supplemental_transforms))
          pose_response),
      fs_transform_pose = (\<lambda>query destination additional_transforms.
        invoke_plain cl (fss_TransformPose stub)
          (Inr (Some (pose_in_frame_to_proto query), destination, map transform_to_proto additional_transforms))
          pose_response),
      fs_transform_pcd = (\<lambda>pcd source_frame destination.
        invoke_plain cl (fss_TransformPCD stub) (Inr (bytes_to_string pcd, source_frame, destination))
          (\<lambda>r. Inr (string_to_bytes r)))\<rparr>"

text \<open>The overload with a component only asks for its pose in the world.\<close>

definition get_pose_in_world :: "frame_system \<Rightarrow> string \<Rightarrow> pose_in_frame res" where
  "get_pose_in_world fs component_name = fs_get_pose fs component_name ''world'' [] []"

subsection \<open>Lemmas\<close>

text \<open>A configuration as it arrives: without dependencies and service configurations, and with a
  frame even when it had none.\<close>

definition received_config :: "resource_config \<Rightarrow> resource_config" where
  "received_config c =
     c\<lparr>cf_depends_on := [], cf_service_config := [],
       cf_frame := Some (case cf_frame c of None \<Rightarrow> link_default | Some f \<Rightarrow> f)\<rparr>"

lemma discoveries_from_to:
  "\<forall>c\<in>set cs. config_sendable c \<Longrightarrow>
   discover_response_from_proto (map config_to_proto cs) = Inr (map received_config cs)"
  by (induction cs) (auto simp: discover_response_from_proto_def config_from_to received_config_def)

lemma remote_discovery:
  assumes h: "hosts sv cl d" and l: "\<not> st_is_ok lost" and x: "sendable extra"
    and wf: "\<And>cs. ds_discover_resources d extra = Inr cs \<Longrightarrow> \<forall>c\<in>set cs. config_sendable c"
  shows "ds_discover_resources (discovery_client cl (discovery_service sv lost)) extra =
    rmap (map received_config)
      (seen_remotely lost ''DiscoveryServer::DiscoverResources'' (ds_discover_resources d extra))"
  unfolding discovery_client_def discovery_service_def
  using wf by (cases "ds_discover_resources d extra")
    (auto simp: remote_simps[OF h l] x discoveries_from_to)

text \<open>What a frame system answers comes back; a pose that is missing is the default pose.\<close>

definition frame_system_config_to_wire :: "frame_system_config \<Rightarrow> pb_frame_system_config" where
  "frame_system_config_to_wire c =
     \<lparr>pfs_frame = Some (transform_to_proto (fsc_frame c)),
      pfs_kinematics = Some (struct_to_proto (fsc_kinematics c)),
      pfs_model = map_option kinematic_model_to_proto (fsc_model c)\<rparr>"

lemma frame_system_config_received:
  assumes "transform_plain (fsc_frame c)" "ps_wf (fsc_kinematics c)"
  shows "frame_system_config_from_proto (frame_system_config_to_wire c) =
    Inr (c\<lparr>fsc_model := map_option received_model (fsc_model c)\<rparr>)"
  using assms
  by (cases "fsc_model c")
    (simp_all add: frame_system_config_from_proto_def frame_system_config_to_wire_def
      transform_codec.from_to struct_from_to kinematic_model_from_to)

lemma transform_pcd_bytes:
  assumes "fss_TransformPCD stub (client_context (rc_version cl) (rc_token cl))
      \<lparr>rq_name = rc_name cl, rq_extra = None, rq_body = (bytes_to_string pcd, source_frame, destination)\<rparr> =
      (status_ok, bytes_to_string out)"
  shows "fs_transform_pcd (frame_system_client cl stub) pcd source_frame destination = Inr out"
  using assms
  by (simp add: frame_system_client_def invoke_plain_def client_invoke_def invoke_def call_context_def Let_def)

end
