(* ===== verification/DataQuery.thy ===== *)
theory DataQuery
  imports Remote Dial "HOL-Library.Multiset"
begin

text \<open>
  Queries of historical data: the BSON document of the default query
  (\<^verbatim>\<open>module/private/data_consumer_query.cpp\<close>), the consumer that puts it before the caller's stages
  (\<^verbatim>\<open>module/data_consumer.cpp\<close>), the request to the app (\<^verbatim>\<open>app/data_client.cpp\<close>) and the
  connection to it (\<^verbatim>\<open>app/viam_client.cpp\<close>). A reader of BSON, written from the format's own
  description, says what the bytes mean.
\<close>

subsection \<open>The writer\<close>

definition cstring :: "string \<Rightarrow> byte list" where
  "cstring val = string_to_bytes val @ [0]"

definition entry_header :: "byte \<Rightarrow> string \<Rightarrow> byte list" where
  "entry_header object_id key = object_id # cstring key"

text \<open>Sizes are cast to \<^verbatim>\<open>int32_t\<close>, times to \<^verbatim>\<open>int64_t\<close>; both are written in little-endian order.
  The size of a document counts its own four bytes and the zero at its end.\<close>

definition document :: "byte list \<Rightarrow> byte list" where
  "document entries = le_bytes 4 (length entries + 5) @ entries @ [0]"

fun write_entry :: "string \<Rightarrow> proto_value \<Rightarrow> byte list res"
  and write_entries :: "proto_struct \<Rightarrow> byte list res" where
  "write_entry key (PString val) =
     Inr (entry_header 2 key @ le_bytes 4 (length val + 1) @ cstring val)"
| "write_entry key (PStruct doc) =
     rmap (\<lambda>entries. entry_header 3 key @ document entries) (write_entries doc)"
| "write_entry key (PDouble timestamp) =
     (case dbl_to_sint 64 timestamp of
        None \<Rightarrow> Inl (Undefined ''double to int64_t out of range'')
      | Some t \<Rightarrow> Inr (entry_header 9 key @ le_bytes 8 (nat (t mod 2 ^ 64))))"
| "write_entry key PNull = Inl (StdException ''unexpected visitor case'')"
| "write_entry key (PBool b) = Inl (StdException ''unexpected visitor case'')"
| "write_entry key (PList l) = Inl (StdException ''unexpected visitor case'')"
| "write_entries [] = Inr []"
| "write_entries (item # items) =
     rbind (write_entry (fst item) (snd item)) (\<lambda>bytes.
     rmap (\<lambda>rest. bytes @ rest) (write_entries items))"

definition write_bson_doc :: "proto_struct \<Rightarrow> byte list res" where
  "write_bson_doc top_level = rmap document (write_entries top_level)"

text \<open>The query; \<open>order\<close> is the iteration order of the unordered map inside.\<close>

definition default_historical_data_query ::
  "(proto_struct \<Rightarrow> proto_struct) \<Rightarrow> string \<Rightarrow> string \<Rightarrow> int \<Rightarrow> byte list res" where
  "default_historical_data_query order part_id resource time_point =
     write_bson_doc
       [(''$match'', PStruct (order
          [(''part_id'', PString part_id), (''component_name'', PString resource),
           (''time_received'', PStruct [(''$gte'', PDouble (dbl_of_int time_point))])]))]"

subsection \<open>The data client\<close>

datatype tabular_data_source_type = k_standard | k_hot_storage | k_pipeline_sink

record tabular_data_by_mql_opts =
  to_src_type :: tabular_data_source_type
  to_pipeline_id :: "string option"
  to_query_prefix :: "string option"

definition default_mql_opts :: tabular_data_by_mql_opts where
  "default_mql_opts = \<lparr>to_src_type = k_hot_storage, to_pipeline_id = None, to_query_prefix = None\<rparr>"

datatype pb_source_type = TYPE_STANDARD | TYPE_HOT_STORAGE | TYPE_PIPELINE_SINK

record pb_mql_request =
  mq_organization_id :: string
  mq_mql_binary :: "string list"
  mq_source_type :: pb_source_type
  mq_pipeline_id :: "string option"
  mq_query_prefix_name :: "string option"

fun source_type_to_proto :: "tabular_data_source_type \<Rightarrow> pb_source_type" where
  "source_type_to_proto k_standard = TYPE_STANDARD"
| "source_type_to_proto k_hot_storage = TYPE_HOT_STORAGE"
| "source_type_to_proto k_pipeline_sink = TYPE_PIPELINE_SINK"

definition mql_request ::
  "string \<Rightarrow> byte list list \<Rightarrow> tabular_data_by_mql_opts \<Rightarrow> pb_mql_request" where
  "mql_request org_id mql_binary opts =
     \<lparr>mq_organization_id = org_id, mq_mql_binary = map bytes_to_string mql_binary,
      mq_source_type = source_type_to_proto (to_src_type opts), mq_pipeline_id = to_pipeline_id opts,
      mq_query_prefix_name = to_query_prefix opts\<rparr>"

text \<open>The request has no name: \<^verbatim>\<open>set_name\<close> is the overload that does nothing.\<close>

type_synonym mql_rpc = "metadata \<Rightarrow> pb_mql_request \<Rightarrow> status \<times> string list"

definition tabular_data_by_mql ::
  "rpc_client \<Rightarrow> mql_rpc \<Rightarrow> string \<Rightarrow> byte list list \<Rightarrow> tabular_data_by_mql_opts \<Rightarrow> byte list list res" where
  "tabular_data_by_mql cl rpc org_id mql_binary opts =
     invoke (rc_version cl) (rc_token cl) (\<lambda>q. q) rpc
       \<lparr>cc_debug_key = [], cc_request = mql_request org_id mql_binary opts\<rparr>
       (\<lambda>raw_data. Inr (map string_to_bytes raw_data)) default_ehc"

subsection \<open>The data consumer\<close>

record query_options =
  qo_time_back :: int
  qo_additional_stages :: "byte list list"

text \<open>The clock counts nanoseconds; the difference is cut to milliseconds, towards zero.\<close>

definition query_start :: "int \<Rightarrow> int \<Rightarrow> int res" where
  "query_start now time_back =
     (let back = time_back * 1000000
      in if in_sint 64 back \<and> in_sint 64 (now - back) then Inr ((now - back) sdiv 1000000)
         else Inl (Undefined ''chrono overflow''))"

definition env_or_empty :: "environment \<Rightarrow> string \<Rightarrow> string" where
  "env_or_empty env var = (case env var of Some v \<Rightarrow> v | None \<Rightarrow> [])"

definition query_tabular_data ::
  "environment \<Rightarrow> int \<Rightarrow> (proto_struct \<Rightarrow> proto_struct) \<Rightarrow> rpc_client \<Rightarrow> mql_rpc \<Rightarrow> string \<Rightarrow> query_options \<Rightarrow>
   byte list list res" where
  "query_tabular_data env now order cl rpc resource opts =
     (let org_id = env_or_empty env ''VIAM_PRIMARY_ORG_ID'';
          part_id = env_or_empty env ''VIAM_MACHINE_PART_ID''
      in rbind (query_start now (qo_time_back opts)) (\<lambda>time_point.
         rbind (default_historical_data_query order part_id resource time_point) (\<lambda>base_query.
           tabular_data_by_mql cl rpc org_id (base_query # qo_additional_stages opts) default_mql_opts)))"

subsection \<open>The app's client\<close>

definition app_options :: "string \<Rightarrow> string \<Rightarrow> channel_options" where
  "app_options api_key api_key_id =
     default_channel_options
       \<lparr>co_credentials := Some \<lparr>cr_type = ''api-key'', cr_payload = api_key\<rparr>,
        disable_webrtc := True, auth_entity := Some api_key_id\<rparr>"

definition client_from_env :: "dial_world \<Rightarrow> environment \<Rightarrow> string \<Rightarrow> viam_channel res" where
  "client_from_env w env uri =
     (case env ''VIAM_API_KEY'' of
        None \<Rightarrow> Inl (general_exception ''VIAM_API_KEY must be set'')
      | Some api_key \<Rightarrow>
          (case env ''VIAM_API_KEY_ID'' of
             None \<Rightarrow> Inl (general_exception ''VIAM_API_KEY_ID must be set'')
           | Some api_key_id \<Rightarrow> dial_direct w uri (app_options api_key api_key_id)))"

definition client_from_env_default :: "dial_world \<Rightarrow> environment \<Rightarrow> viam_channel res" where
  "client_from_env_default w env = client_from_env w env ''app.viam.com''"

subsection \<open>A reader of BSON\<close>

text \<open>Elements until a zero byte: a type, a key that ends with a zero, a value. A string has its size
  with the final zero, a document its size as a whole; times are signed.\<close>

datatype bson = B_string string | B_document "(string \<times> bson) list" | B_datetime int

fun read_cstring :: "byte list \<Rightarrow> (string \<times> byte list) option" where
  "read_cstring [] = None"
| "read_cstring (b # bs) =
     (if b = 0 then Some ([], bs)
      else map_option (\<lambda>(s, r). (char_of (unat b) # s, r)) (read_cstring bs))"

definition read_string :: "byte list \<Rightarrow> (bson \<times> byte list) option" where
  "read_string bs =
     (let size = le_val (take 4 bs); body = drop 4 bs
      in if length bs < 4 \<or> size = 0 \<or> length body < size \<or> body ! (size - 1) \<noteq> 0 then None
         else Some (B_string (bytes_to_string (take (size - 1) body)), drop size body))"

definition read_datetime :: "byte list \<Rightarrow> (bson \<times> byte list) option" where
  "read_datetime bs =
     (if length bs < 8 then None
      else Some (B_datetime (signed_take_bit 63 (int (le_val (take 8 bs)))), drop 8 bs))"

fun read_elements :: "nat \<Rightarrow> byte list \<Rightarrow> ((string \<times> bson) list \<times> byte list) option" where
  "read_elements 0 bs = None"
| "read_elements (Suc n) [] = None"
| "read_elements (Suc n) (t # bs) =
     (if t = 0 then Some ([], bs)
      else Option.bind (read_cstring bs) (\<lambda>(key, bs1).
        Option.bind
          (if t = 2 then read_string bs1
           else if t = 9 then read_datetime bs1
           else if t = 3 \<and> 4 \<le> length bs1 then
             Option.bind (read_elements n (drop 4 bs1)) (\<lambda>(es, r).
               if le_val (take 4 bs1) = length bs1 - length r then Some (B_document es, r) else None)
           else None) (\<lambda>(v, bs2).
        map_option (\<lambda>(es, r). ((key, v) # es, r)) (read_elements n bs2))))"

definition read_bson :: "byte list \<Rightarrow> (string \<times> bson) list option" where
  "read_bson bytes =
     (if length bytes < 4 \<or> le_val (take 4 bytes) \<noteq> length bytes then None
      else (case read_elements (length bytes) (drop 4 bytes) of
              Some (es, []) \<Rightarrow> Some es
            | _ \<Rightarrow> None))"

subsection \<open>Lemmas: what is written can be read\<close>

text \<open>The document a struct stands for; keys must not contain the terminator.\<close>

fun bson_value :: "proto_value \<Rightarrow> bson" where
  "bson_value (PString s) = B_string s"
| "bson_value (PStruct m) = B_document (map (\<lambda>e. (fst e, bson_value (snd e))) m)"
| "bson_value (PDouble d) = B_datetime (the (dbl_to_sint 64 d))"
| "bson_value v = B_document []"

definition bson_fields :: "proto_struct \<Rightarrow> (string \<times> bson) list" where
  "bson_fields m = map (\<lambda>e. (fst e, bson_value (snd e))) m"

fun keys_terminated :: "proto_value \<Rightarrow> bool" where
  "keys_terminated (PStruct m) = (\<forall>e\<in>set m. CHR 0x00 \<notin> set (fst e) \<and> keys_terminated (snd e))"
| "keys_terminated v = True"

fun queryable :: "proto_value \<Rightarrow> bool" where
  "queryable (PString s) = True"
| "queryable (PDouble d) = (dbl_to_sint 64 d \<noteq> None)"
| "queryable (PStruct m) = (\<forall>e\<in>set m. queryable (snd e))"
| "queryable v = False"

lemma write_entry_succeeds:
  "(\<exists>b. write_entry key v = Inr b) \<longleftrightarrow> queryable v"
  "(\<exists>b. write_entries items = Inr b) \<longleftrightarrow> (\<forall>e\<in>set items. queryable (snd e))"
proof (induction key v and items rule: write_entry_write_entries.induct)
  case (2 key doc)
  then show ?case by (cases "write_entries doc") auto
next
  case (8 item items)
  show ?case
  proof (cases "write_entry (fst item) (snd item)")
    case (Inl e)
    then show ?thesis using "8.IH"(1) by auto
  next
    case (Inr b)
    then show ?thesis using "8.IH"(1) "8.IH"(2)[OF Inr] by (cases "write_entries items") auto
  qed
qed (auto split: option.splits)

lemma char_zero_code: "(of_char c :: byte) = 0 \<Longrightarrow> c = CHR 0x00"
proof -
  assume "(of_char c :: byte) = 0"
  then have "bytes_to_string (string_to_bytes [c]) = [char_of (0 :: nat)]"
    by (simp add: bytes_to_string_def string_to_bytes_def)
  then show ?thesis by (simp add: char_of_def)
qed

lemma read_cstring_written:
  "CHR 0x00 \<notin> set s \<Longrightarrow> read_cstring (cstring s @ r) = Some (s, r)"
proof (induction s)
  case (Cons c s)
  have "bytes_to_string (string_to_bytes [c]) = [c]" by simp
  then have "(char_of (unat (of_char c :: byte)) :: char) = c"
    by (simp add: bytes_to_string_def string_to_bytes_def)
  then show ?case
    using Cons char_zero_code[of c] by (auto simp: cstring_def string_to_bytes_def)
qed (simp add: cstring_def string_to_bytes_def)

lemma length_string_to_bytes [simp]: "length (string_to_bytes s) = length s"
  by (simp add: string_to_bytes_def)

lemma length_cstring [simp]: "length (cstring s) = length s + 1"
  by (simp add: cstring_def)

lemma length_document [simp]: "length (document es) = length es + 5"
  by (simp add: document_def)

lemma length_entry_header [simp]: "length (entry_header t key) = length key + 2"
  by (simp add: entry_header_def)

lemma read_string_written:
  "length s + 1 < 2 ^ 32 \<Longrightarrow>
   read_string (le_bytes 4 (Suc (length s)) @ cstring s @ r) = Some (B_string s, r)"
  by (simp add: read_string_def Let_def cstring_def nth_append)

lemma read_datetime_written:
  assumes "dbl_to_sint 64 d = Some t"
  shows "read_datetime (le_bytes 8 (nat (t mod 2 ^ 64)) @ r) = Some (B_datetime t, r)"
proof -
  have "- (2 ^ 63) \<le> t" "t < 2 ^ 63"
    using assms by (auto simp: dbl_to_sint_def split: option.splits if_splits)
  then have "signed_take_bit 63 (take_bit 64 t) = t"
    by (subst signed_take_bit_take_bit) (simp add: signed_take_bit_int_eq_self)
  then have "signed_take_bit 63 (t mod 2 ^ 64) = t" by (simp add: take_bit_eq_mod)
  moreover have "nat (t mod 2 ^ 64) < 256 ^ 8" by (simp add: nat_less_iff)
  ultimately show ?thesis by (simp add: read_datetime_def)
qed

lemma read_document_written:
  assumes "read_elements n (b @ 0 # r) = Some (es, r)" "length b + 5 < 2 ^ 32"
  shows "Option.bind (read_elements n (drop 4 (document b @ r))) (\<lambda>(es, r').
      if le_val (take 4 (document b @ r)) = length (document b @ r) - length r'
      then Some (B_document es, r') else None) = Some (B_document es, r)"
  using assms by (simp add: document_def)

lemma written_nonempty: "write_entry key v = Inr b \<Longrightarrow> 0 < length b"
proof (cases v)
  case (PStruct doc)
  assume "write_entry key v = Inr b"
  then show ?thesis by (cases "write_entries doc") (auto simp: PStruct entry_header_def)
qed (auto split: option.splits simp: entry_header_def)

lemma read_written:
  "\<lbrakk>write_entry key v = Inr b; CHR 0x00 \<notin> set key; keys_terminated v; length b < 2 ^ 31; length b \<le> n\<rbrakk>
    \<Longrightarrow> read_elements (Suc n) (b @ r)
          = map_option (\<lambda>(es, x). ((key, bson_value v) # es, x)) (read_elements n r)"
  "\<lbrakk>write_entries items = Inr b; keys_terminated (PStruct items); length b < 2 ^ 31; length b < n\<rbrakk>
    \<Longrightarrow> read_elements n (b @ 0 # r) = Some (bson_fields items, r)"
proof (induction key v and items arbitrary: b n r and b n r rule: write_entry_write_entries.induct)
  case (1 key val)
  then have b: "b = entry_header 2 key @ le_bytes 4 (length val + 1) @ cstring val" by simp
  have "length val + 1 < 2 ^ 32" using "1.prems"(4) by (simp add: b)
  then show ?case
    by (simp add: b entry_header_def read_cstring_written "1.prems"(2) read_string_written
        del: length_cstring)
next
  case (2 key doc)
  then obtain es where es: "write_entries doc = Inr es" and b: "b = entry_header 3 key @ document es"
    by (cases "write_entries doc") auto
  have len: "length es < 2 ^ 31" "length es < n" "length es + 5 < 2 ^ 32"
    using "2.prems"(4,5) by (simp_all add: b)
  have "read_elements n (es @ 0 # r) = Some (bson_fields doc, r)"
    using "2.IH"[OF es] "2.prems"(3) len by simp
  from read_document_written[OF this len(3)] show ?case
    by (simp add: b entry_header_def read_cstring_written "2.prems"(2) bson_fields_def)
next
  case (3 key timestamp)
  then obtain t where t: "dbl_to_sint 64 timestamp = Some t"
    and b: "b = entry_header 9 key @ le_bytes 8 (nat (t mod 2 ^ 64))"
    by (cases "dbl_to_sint 64 timestamp") auto
  show ?case
    by (simp add: b entry_header_def read_cstring_written "3.prems"(2) read_datetime_written[OF t] t
        del: power_numeral)
next
  case 7
  then obtain m where "n = Suc m" by (cases n) auto
  then show ?case using 7 by (simp add: bson_fields_def)
next
  case (8 item items)
  obtain b1 b2 where w: "write_entry (fst item) (snd item) = Inr b1" "write_entries items = Inr b2"
    and b: "b = b1 @ b2"
    using "8.prems"(1) by (cases "write_entry (fst item) (snd item)"; cases "write_entries items") auto
  obtain m where n: "n = Suc m" using "8.prems"(4) by (cases n) auto
  have "0 < length b1" by (rule written_nonempty[OF w(1)])
  then have len: "length b1 < 2 ^ 31" "length b1 \<le> m" "length b2 < 2 ^ 31" "length b2 < m"
    using "8.prems"(3,4) by (simp_all add: b n del: length_greater_0_conv)
  show ?case
    using "8.IH"(1)[OF w(1) _ _ len(1,2), of "b2 @ 0 # r"] "8.IH"(2)[OF w(1,2) _ len(3,4), of r] "8.prems"(2)
    by (simp add: b n bson_fields_def)
qed simp_all

lemma bson_readable:
  assumes "write_bson_doc m = Inr bytes" "keys_terminated (PStruct m)" "length bytes < 2 ^ 31"
  shows "read_bson bytes = Some (bson_fields m)"
proof -
  obtain es where es: "write_entries m = Inr es" "bytes = document es"
    using assms(1) by (cases "write_entries m") (auto simp: write_bson_doc_def)
  have "read_elements (length bytes) (es @ 0 # []) = Some (bson_fields m, [])"
    using es assms(2,3) by (intro read_written(2)) auto
  then show ?thesis
    using assms(3) unfolding read_bson_def es(2) by (simp add: document_def)
qed

lemma write_bson_doc_succeeds: "(\<exists>b. write_bson_doc m = Inr b) \<longleftrightarrow> queryable (PStruct m)"
  using write_entry_succeeds(2)[of m] by (cases "write_entries m") (auto simp: write_bson_doc_def)

subsection \<open>Lemmas: the default query\<close>

text \<open>The document the default query stands for, in the order of the map.\<close>

definition match_fields :: "string \<Rightarrow> string \<Rightarrow> int \<Rightarrow> (string \<times> bson) list" where
  "match_fields part_id resource time_point =
     [(''part_id'', B_string part_id), (''component_name'', B_string resource),
      (''time_received'', B_document [(''$gte'', B_datetime time_point)])]"

text \<open>The size of an entry does not depend on the order of the entries inside it.\<close>

fun entry_size :: "string \<Rightarrow> proto_value \<Rightarrow> nat" where
  "entry_size key (PString s) = length key + length s + 7"
| "entry_size key (PStruct m) = length key + 7 + sum_list (map (\<lambda>e. entry_size (fst e) (snd e)) m)"
| "entry_size key (PDouble d) = length key + 10"
| "entry_size key v = 0"

lemma written_size:
  "write_entry key v = Inr b \<Longrightarrow> length b = entry_size key v"
  "write_entries items = Inr b \<Longrightarrow> length b = sum_list (map (\<lambda>e. entry_size (fst e) (snd e)) items)"
proof (induction key v and items arbitrary: b and b rule: write_entry_write_entries.induct)
  case (2 key doc)
  then show ?case by (cases "write_entries doc") auto
next
  case (8 item items)
  obtain b1 b2 where w: "write_entry (fst item) (snd item) = Inr b1" "write_entries items = Inr b2"
      "b = b1 @ b2"
    using "8.prems" by (cases "write_entry (fst item) (snd item)"; cases "write_entries items") auto
  show ?case using "8.IH"(1)[OF w(1)] "8.IH"(2)[OF w(1,2)] by (simp add: w(3))
qed (auto split: option.splits)

lemma written_doc_size:
  "write_bson_doc m = Inr b \<Longrightarrow> length b = sum_list (map (\<lambda>e. entry_size (fst e) (snd e)) m) + 5"
  by (cases "write_entries m") (auto simp: write_bson_doc_def dest: written_size(2))

lemma default_query_readable:
  assumes order: "\<And>m. mset (order m) = mset m"
    and size: "length part_id + length resource < 2 ^ 30" and time: "\<bar>time_point\<bar> < 2 ^ 53"
  shows "\<exists>bytes d. default_historical_data_query order part_id resource time_point = Inr bytes
    \<and> read_bson bytes = Some [(''$match'', B_document d)]
    \<and> mset d = mset (match_fields part_id resource time_point)"
proof -
  define fs where "fs = [(''part_id'', PString part_id), (''component_name'', PString resource),
    (''time_received'', PStruct [(''$gte'', PDouble (dbl_of_int time_point))])]"
  define m where "m = [(''$match'', PStruct (order fs))]"
  have t: "dbl_to_sint 64 (dbl_of_int time_point) = Some time_point"
    using time by (intro dbl_to_sint_of_int) auto
  have ms: "mset (order fs) = mset fs" by (rule order)
  then have st: "set (order fs) = set fs" by (rule mset_eq_setD)
  have "\<forall>e\<in>set fs. queryable (snd e)" "\<forall>e\<in>set fs. CHR 0x00 \<notin> set (fst e) \<and> keys_terminated (snd e)"
    by (simp_all add: fs_def t)
  then have q: "queryable (PStruct m)" "keys_terminated (PStruct m)"
    by (simp_all add: m_def st)
  then obtain bytes where w: "write_bson_doc m = Inr bytes"
    using write_bson_doc_succeeds by blast
  have "sum_list (map (\<lambda>e. entry_size (fst e) (snd e)) (order fs))
      = sum_list (map (\<lambda>e. entry_size (fst e) (snd e)) fs)"
    by (simp add: ms flip: sum_mset_sum_list)
  then have "length bytes < 2 ^ 31"
    using written_doc_size[OF w] size by (simp add: m_def fs_def)
  from bson_readable[OF w q(2) this]
  have "read_bson bytes = Some [(''$match'', B_document (bson_fields (order fs)))]"
    by (simp add: m_def bson_fields_def)
  moreover have "mset (bson_fields (order fs)) = mset (match_fields part_id resource time_point)"
    by (simp add: bson_fields_def ms) (simp add: fs_def match_fields_def t)
  ultimately show ?thesis
    using w by (auto simp: default_historical_data_query_def m_def fs_def)
qed

text \<open>The app sees the default query first, then the caller's stages in their order, and the caller
  gets the documents of the response as bytes.\<close>

lemma history_query:
  assumes "\<And>m. mset (order m) = mset m"
    and "length (env_or_empty env ''VIAM_MACHINE_PART_ID'') + length resource < 2 ^ 30"
    and start: "query_start now (qo_time_back opts) = Inr time_point" and "\<bar>time_point\<bar> < 2 ^ 53"
  shows "\<exists>query d. read_bson query = Some [(''$match'', B_document d)]
    \<and> mset d = mset (match_fields (env_or_empty env ''VIAM_MACHINE_PART_ID'') resource time_point)
    \<and> query_tabular_data env now order cl rpc resource opts =
        (let out = rpc (client_context (rc_version cl) (rc_token cl))
                     \<lparr>mq_organization_id = env_or_empty env ''VIAM_PRIMARY_ORG_ID'',
                      mq_mql_binary = map bytes_to_string (query # qo_additional_stages opts),
                      mq_source_type = TYPE_HOT_STORAGE, mq_pipeline_id = None,
                      mq_query_prefix_name = None\<rparr>
         in if st_is_ok (fst out) then Inr (map string_to_bytes (snd out))
            else Inl (grpc_exception (fst out)))"
proof -
  obtain query d where q: "default_historical_data_query order (env_or_empty env ''VIAM_MACHINE_PART_ID'')
        resource time_point = Inr query" "read_bson query = Some [(''$match'', B_document d)]"
      "mset d = mset (match_fields (env_or_empty env ''VIAM_MACHINE_PART_ID'') resource time_point)"
    using default_query_readable[OF assms(1,2,4)] by blast
  show ?thesis
    by (rule exI[of _ query], rule exI[of _ d])
       (simp add: q query_tabular_data_def start tabular_data_by_mql_def invoke_def call_context_def
          mql_request_def default_mql_opts_def run_ehc_def default_ehc_def Let_def)
qed

text \<open>The start of the window, exactly: the clock's difference without its fraction of a
  millisecond.\<close>

lemma query_start_window:
  assumes "0 \<le> time_back * 1000000" "time_back * 1000000 \<le> now" "now < 2 ^ 63"
  shows "query_start now time_back = Inr (now div 1000000 - time_back)"
proof -
  have "(now - time_back * 1000000) sdiv 1000000 = (now - time_back * 1000000) div 1000000"
    using assms by (simp add: signed_divide_int_def sgn_if)
  also have "\<dots> = now div 1000000 - time_back"
    using div_mult_self1[of 1000000 now "- time_back"] by simp
  finally show ?thesis
    using assms by (simp add: query_start_def Let_def in_sint_def)
qed

lemma client_from_env_ok:
  "client_from_env w env uri = Inr c \<longleftrightarrow>
     (\<exists>key key_id. env ''VIAM_API_KEY'' = Some key \<and> env ''VIAM_API_KEY_ID'' = Some key_id
        \<and> (let out = authenticate w uri key_id \<lparr>cr_type = ''api-key'', cr_payload = key\<rparr>
           in st_is_ok (fst out)
              \<and> c = \<lparr>ch_uri = Some uri,
                     ch_impl = Some \<lparr>ci_target = uri, ci_path = None, ci_auth_token = Some (snd out)\<rparr>\<rparr>))"
  by (auto simp: client_from_env_def app_options_def dial_direct_def Let_def split: option.splits)

lemma client_from_env_defined: "client_from_env w env uri \<noteq> Inl (Undefined why)"
  by (auto simp: client_from_env_def app_options_def dial_direct_def Let_def general_exception_def
      sdk_exception_def grpc_exception_def split: option.splits)

text \<open>The bytes the unit test expects (\<^verbatim>\<open>tests/test_data_consumer.cpp\<close>).\<close>

lemma le_bytes_4:
  "le_bytes 4 v =
     [word_of_nat v, word_of_nat (v div 256), word_of_nat (v div 256 div 256), word_of_nat (v
     div 256 div 256 div 256)]"
proof -
  have "(4 :: nat) = Suc (Suc (Suc (Suc (0))))" by simp
  then show ?thesis by (simp only: le_bytes.simps)
qed

lemma le_bytes_8:
  "le_bytes 8 v =
     [word_of_nat v, word_of_nat (v div 256), word_of_nat (v div 256 div 256), word_of_nat (v
     div 256 div 256 div 256), word_of_nat (v div 256 div 256 div 256 div 256),
     word_of_nat (v div 256 div 256 div 256 div 256 div 256), word_of_nat (v div 256 div
     256 div 256 div 256 div 256 div 256), word_of_nat (v div 256 div 256 div 256 div 256
     div 256 div 256 div 256)]"
proof -
  have "(8 :: nat) = Suc (Suc (Suc (Suc (Suc (Suc (Suc (Suc (0))))))))" by simp
  then show ?thesis by (simp only: le_bytes.simps)
qed

lemma default_query_sample:
  "default_historical_data_query (\<lambda>m. m) ''part'' ''res'' 1735689600000 = Inr
     [94, 0, 0, 0, 3, 36, 109, 97, 116, 99, 104, 0, 81, 0, 0, 0, 2, 112, 97, 114, 116,
      95, 105, 100, 0, 5, 0, 0, 0, 112, 97, 114, 116, 0, 2, 99, 111, 109, 112, 111, 110,
      101, 110, 116, 95, 110, 97, 109, 101, 0, 4, 0, 0, 0, 114, 101, 115, 0, 3, 116,
      105, 109, 101, 95, 114, 101, 99, 101, 105, 118, 101, 100, 0, 19, 0, 0, 0, 9, 36,
      103, 116, 101, 0, 0, 124, 41, 31, 148, 1, 0, 0, 0, 0, 0]"
proof -
  have "dbl_to_sint 64 (dbl_of_int 1735689600000) = Some 1735689600000"
    by (rule dbl_to_sint_of_int) simp_all
  then show ?thesis
    by (simp add: default_historical_data_query_def write_bson_doc_def document_def entry_header_def
        cstring_def string_to_bytes_def le_bytes_4 le_bytes_8)
qed

end
