(* ===== verification/LogForwarding.thy ===== *)
theory LogForwarding
  imports RobotClient Helpers
begin

text \<open>
  What happens to a log record: the console sink of \<^verbatim>\<open>log/logging.cpp\<close>, the sink that forwards
  records to the machine (\<^verbatim>\<open>log/private/log_backend.cpp\<close>), and \<^verbatim>\<open>RobotClient::log\<close>
  (\<^verbatim>\<open>robot/client.cpp\<close>), which logs again when sending fails. The severities, filters and the sink
  connection are those of Logging and RobotClient. Boost.Log is modelled by what the code uses of
  it: a record reaches every sink whose filter accepts it.
\<close>

subsection \<open>Records\<close>

text \<open>An attribute that a record does not carry is \<open>None\<close>; the time is in ticks of the clock.\<close>

record log_record =
  lr_attrs :: log_attrs
  lr_message :: string
  lr_ticks :: "int option"
  lr_file :: "string option"
  lr_line :: "32 word option"

text \<open>\<^verbatim>\<open>VIAM_SDK_LOG\<close> and \<^verbatim>\<open>VIAM_MODULE_LOG\<close>: a record of one of the two global sources.\<close>

definition source_record ::
  "string \<Rightarrow> bool \<Rightarrow> log_level \<Rightarrow> string \<Rightarrow> int \<Rightarrow> string \<Rightarrow> 32 word \<Rightarrow> log_record" where
  "source_record channel tagged level message now file line =
     \<lparr>lr_attrs = \<lparr>at_severity = Some level, at_module_tag = tagged, at_channel = Some channel,
                  at_console_force = None\<rparr>,
      lr_message = message, lr_ticks = Some now, lr_file = Some (trim_filename file),
      lr_line = Some line\<rparr>"

definition sdk_record :: "log_manager \<Rightarrow> log_level \<Rightarrow> string \<Rightarrow> int \<Rightarrow> string \<Rightarrow> 32 word \<Rightarrow> log_record" where
  "sdk_record lm = source_record (sdk_channel lm) False"

definition module_record :: "log_manager \<Rightarrow> log_level \<Rightarrow> string \<Rightarrow> int \<Rightarrow> string \<Rightarrow> 32 word \<Rightarrow> log_record" where
  "module_record lm = source_record (module_channel lm) (module_tag_added lm)"

text \<open>\<^verbatim>\<open>VIAM_RESOURCE_LOG\<close>: the logger of a resource has the resource's channel.\<close>

definition resource_record :: "string \<Rightarrow> log_level \<Rightarrow> string \<Rightarrow> int \<Rightarrow> string \<Rightarrow> 32 word \<Rightarrow> log_record" where
  "resource_record channel = source_record channel False"

subsection \<open>Times\<close>

text \<open>
  \<^verbatim>\<open>ptime_convert\<close>: the clock of Boost counts \<open>tps\<close> ticks a second; both parts of a duration have
  its sign. The result is in nanoseconds, on 64 bits.
\<close>

definition ptime_convert :: "int \<Rightarrow> int \<Rightarrow> int res" where
  "ptime_convert tps ticks =
     (let total_seconds = ticks sdiv tps;
          fractional_seconds = ticks smod tps;
          t = total_seconds * 1000000000;
          nsec = fractional_seconds * (1000000000 sdiv tps)
      in if in_sint 64 t \<and> in_sint 64 nsec \<and> in_sint 64 (t + nsec) then Inr (t + nsec)
         else Inl (Undefined ''chrono overflow''))"

subsection \<open>Sending one record\<close>

record pb_log_entry =
  ple_logger_name :: string
  ple_level :: string
  ple_message :: string
  ple_time :: pb_time
  ple_caller :: pb_struct

type_synonym log_rpc = "metadata \<Rightarrow> pb_log_entry list \<Rightarrow> status"

definition log_entry :: "string \<Rightarrow> string \<Rightarrow> string \<Rightarrow> int \<Rightarrow> string \<Rightarrow> 32 word \<Rightarrow> pb_log_entry" where
  "log_entry name level message time file line =
     \<lparr>ple_logger_name = name, ple_level = level, ple_message = message, ple_time = time_to_proto time,
      ple_caller = [(''Defined'', BoolValue True), (''File'', StringValue file),
                    (''Line'', NumberValue (dbl_of_int (uint line)))]\<rparr>"

text \<open>The report of a failed call, forced to the console.\<close>

definition send_error_record :: "log_manager \<Rightarrow> int \<Rightarrow> string \<Rightarrow> status \<Rightarrow> log_record" where
  "send_error_record lm now file response =
     (let r = sdk_record lm ll_error (''Error sending log message over grpc: '' @ st_message response
                @ st_details response) now file 528
      in r\<lparr>lr_attrs := (lr_attrs r)\<lparr>at_console_force := Some True\<rparr>\<rparr>)"

text \<open>\<^verbatim>\<open>RobotClient::log\<close>: the entry sent, the answer, and whether a report follows.\<close>

definition robot_log ::
  "string \<Rightarrow> log_rpc \<Rightarrow> robot_client \<Rightarrow> string \<Rightarrow> string \<Rightarrow> string \<Rightarrow> int \<Rightarrow> string \<Rightarrow> 32 word \<Rightarrow>
   (pb_log_entry \<times> status) res" where
  "robot_log version stub s name level message time file line =
     (if \<not> rb_impl s then Inl (StdException ''Tried to send logs to robot when it was not connected'')
      else let entry = log_entry name level message time file line
           in Inr (entry, stub (client_context version None) [entry]))"

text \<open>\<^verbatim>\<open>LogBackend::consume\<close>: an attribute that is missing is dereferenced all the same.\<close>

definition attr_of :: "'a option \<Rightarrow> 'a res" where
  "attr_of a = (case a of Some v \<Rightarrow> Inr v | None \<Rightarrow> Inl (Undefined ''missing attribute''))"

definition consume ::
  "string \<Rightarrow> log_rpc \<Rightarrow> int \<Rightarrow> robot_client \<Rightarrow> log_record \<Rightarrow> (pb_log_entry \<times> status) res" where
  "consume version stub tps parent rec =
     rbind (attr_of (at_channel (lr_attrs rec))) (\<lambda>channel.
     rbind (attr_of (at_severity (lr_attrs rec))) (\<lambda>sev.
     rbind (rbind (attr_of (lr_ticks rec)) (ptime_convert tps)) (\<lambda>time.
     rbind (attr_of (lr_file rec)) (\<lambda>file.
     rbind (attr_of (lr_line rec)) (\<lambda>line.
       robot_log version stub parent channel (level_to_string sev) (lr_message rec) time file line)))))"

subsection \<open>Emission\<close>

datatype log_event = Console log_record | Sent pb_log_entry status

text \<open>
  A log statement: the record goes to the console and to the machine as their filters decide, and
  a call that failed is reported by another log statement. The report is forced, and the machine's
  sink rejects forced records: that is why this ends.
\<close>

lemma sink_rejects_forced: "sink_accepts lm attrs \<Longrightarrow> at_console_force attrs \<noteq> Some True"
  by (auto simp: sink_accepts_def)

lemma send_error_forced [simp]: "at_console_force (lr_attrs (send_error_record lm now file st)) = Some True"
  by (simp add: send_error_record_def Let_def)

function emit ::
  "string \<Rightarrow> log_rpc \<Rightarrow> int \<Rightarrow> int \<Rightarrow> string \<Rightarrow> log_manager \<Rightarrow> robot_client \<Rightarrow> log_record \<Rightarrow>
   log_event list \<times> exn option" where
  "emit version stub tps now file lm s rec =
     (let shown = (if console_accepts lm (lr_attrs rec) then [Console rec] else [])
      in if rb_log_sink s \<and> sink_accepts lm (lr_attrs rec) then
           (case consume version stub tps s rec of
              Inl e \<Rightarrow> (shown, Some e)
            | Inr (entry, response) \<Rightarrow>
                if is_error_response response then
                  (let out = emit version stub tps now file lm s (send_error_record lm now file response)
                   in (shown @ Sent entry response # fst out, snd out))
                else (shown @ [Sent entry response], None))
         else (shown, None))"
  by pat_completeness auto

termination emit
  by (relation "measure (\<lambda>(version, stub, tps, now, file, lm, s, rec).
        if at_console_force (lr_attrs rec) = Some True then 0 else 1)")
    (auto dest: sink_rejects_forced)

declare emit.simps [simp del]

text \<open>
  The destructor of the connection, which \<^verbatim>\<open>close()\<close> and every reconnection run: with the sink gone
  the console takes all records again.
\<close>

definition impl_destroy :: "log_manager \<Rightarrow> robot_client \<Rightarrow> log_manager \<times> robot_client" where
  "impl_destroy lm s =
     (if rb_log_sink s then (enable_console_logging lm, s\<lparr>rb_log_sink := False\<rparr>) else (lm, s))"

subsection \<open>Lemmas\<close>

lemma forced_not_sent:
  "at_console_force (lr_attrs rec) = Some True \<Longrightarrow>
   emit version stub tps now file lm s rec = (if console_accepts lm (lr_attrs rec) then [Console rec] else [], None)"
  by (subst emit.simps) (auto dest: sink_rejects_forced)

text \<open>The whole of what a log statement does, without the recursion.\<close>

lemma emit_alt:
  "emit version stub tps now file lm s rec =
     (let shown = (if console_accepts lm (lr_attrs rec) then [Console rec] else []);
          report = (\<lambda>response. let r = send_error_record lm now file response
                               in if console_accepts lm (lr_attrs r) then [Console r] else [])
      in if rb_log_sink s \<and> sink_accepts lm (lr_attrs rec) then
           (case consume version stub tps s rec of
              Inl e \<Rightarrow> (shown, Some e)
            | Inr (entry, response) \<Rightarrow>
                (shown @ Sent entry response # (if is_error_response response then report response else []), None))
         else (shown, None))"
  by (subst emit.simps) (simp add: forced_not_sent Let_def split: sum.split)

definition is_sent :: "log_event \<Rightarrow> bool" where
  "is_sent e = (case e of Sent _ _ \<Rightarrow> True | Console _ \<Rightarrow> False)"

lemma emit_sends_once: "length (filter is_sent (fst (emit version stub tps now file lm s rec))) \<le> 1"
  by (simp add: emit_alt Let_def is_sent_def split: sum.split prod.split)

text \<open>With the sink connected a record goes to one place: the console takes the forced ones.\<close>

lemma one_sink_takes_it:
  assumes "connect_logging lm s0 = (lm', s)" "\<not> rb_log_sink s0"
  shows "rb_log_sink s \<and>
    (if at_console_force attrs = Some True then console_accepts lm' attrs = log_filter lm attrs \<and> \<not> sink_accepts lm' attrs
     else \<not> console_accepts lm' attrs \<and> sink_accepts lm' attrs = log_filter lm attrs)"
proof -
  have "lm' = disable_console_logging lm" "s = s0\<lparr>rb_log_sink := True\<rparr>"
    using assms by (auto simp: connect_logging_def)
  then show ?thesis
    by (auto simp: disable_console_logging_def console_accepts_def sink_accepts_def log_filter_def split: option.split)
qed

text \<open>A record whose attributes are all there, with a time the target can hold.\<close>

definition complete_record :: "int \<Rightarrow> log_record \<Rightarrow> bool" where
  "complete_record tps rec \<longleftrightarrow>
     at_channel (lr_attrs rec) \<noteq> None \<and> at_severity (lr_attrs rec) \<noteq> None \<and> lr_file rec \<noteq> None \<and> lr_line rec \<noteq> None
     \<and> (\<exists>t v. lr_ticks rec = Some t \<and> ptime_convert tps t = Inr v)"

definition entry_of :: "int \<Rightarrow> log_record \<Rightarrow> pb_log_entry" where
  "entry_of tps rec =
     log_entry (the (at_channel (lr_attrs rec))) (level_to_string (the (at_severity (lr_attrs rec))))
       (lr_message rec) (projr (ptime_convert tps (the (lr_ticks rec)))) (the (lr_file rec)) (the (lr_line rec))"

lemma consume_complete:
  "complete_record tps rec \<Longrightarrow> rb_impl s \<Longrightarrow>
   consume version stub tps s rec = Inr (entry_of tps rec, stub (client_context version None) [entry_of tps rec])"
  by (auto simp: complete_record_def consume_def attr_of_def robot_log_def entry_of_def Let_def)

text \<open>
  A record the filter lets through, from a module that forwards its logs: it is sent, and when that
  fails the failure is shown on the console if errors are.
\<close>

lemma emit_forwarded:
  assumes "connect_logging lm s0 = (lm', s)" "\<not> rb_log_sink s0" "rb_impl s0"
    and "complete_record tps rec" "at_console_force (lr_attrs rec) \<noteq> Some True" "log_filter lm (lr_attrs rec)"
  shows "emit version stub tps now file lm' s rec =
    (let response = stub (client_context version None) [entry_of tps rec];
         r = send_error_record lm' now file response
     in (Sent (entry_of tps rec) response #
         (if is_error_response response \<and> log_filter lm (lr_attrs r) then [Console r] else []), None))"
proof -
  have i: "rb_impl s" using assms(1,3) by (auto simp: connect_logging_def split: if_splits)
  note one = one_sink_takes_it[OF assms(1,2)]
  show ?thesis
    using one[of "lr_attrs rec"] one[of "lr_attrs (send_error_record lm' now file
        (stub (client_context version None) [entry_of tps rec]))"] assms(5,6)
    by (simp add: emit_alt consume_complete[OF assms(4) i] Let_def)
qed

text \<open>
  The report is at the error level of the SDK's own channel: its level decides, or else the global one.
\<close>

lemma failure_passes:
  "log_filter lm (lr_attrs (send_error_record lm' now file st)) \<longleftrightarrow>
     (case map_of (resource_levels lm) (sdk_channel lm') of
        Some l \<Rightarrow> l \<le> ll_error | None \<Rightarrow> global_level lm \<le> ll_error)"
  by (simp add: send_error_record_def sdk_record_def source_record_def log_filter_def Let_def split: option.split)

lemma send_error_message:
  "lr_message (send_error_record lm now file st) =
     ''Error sending log message over grpc: '' @ st_message st @ st_details st"
  by (simp add: send_error_record_def sdk_record_def source_record_def Let_def)

lemma connect_logging_channel: "connect_logging lm s0 = (lm', s) \<Longrightarrow> sdk_channel lm' = sdk_channel lm"
  by (auto simp: connect_logging_def disable_console_logging_def split: if_splits)

text \<open>A log statement of a process that lost its connection throws, where it used to be shown.\<close>

lemma emit_disconnected:
  assumes "rb_log_sink s" "\<not> rb_impl s" "sink_accepts lm (lr_attrs rec)" "complete_record tps rec"
  shows "\<exists>shown e. emit version stub tps now file lm s rec = (shown, Some e) \<and> is_std_exception e"
  using assms
  by (auto simp: emit_alt complete_record_def consume_def attr_of_def robot_log_def Let_def)

text \<open>\<^verbatim>\<open>Stream removed\<close> is not reported: the message is lost.\<close>

lemma stream_removed_silent:
  assumes "connect_logging lm s0 = (lm', s)" "\<not> rb_log_sink s0" "rb_impl s0"
    and "complete_record tps rec" "at_console_force (lr_attrs rec) \<noteq> Some True" "log_filter lm (lr_attrs rec)"
    and "st_message (stub (client_context version None) [entry_of tps rec]) = kStreamRemoved"
  shows "fst (emit version stub tps now file lm' s rec) =
    [Sent (entry_of tps rec) (stub (client_context version None) [entry_of tps rec])]"
  using assms(7) by (simp add: emit_forwarded[OF assms(1-6)] Let_def is_error_response_def)

text \<open>A level of its own: errors are hidden when the global level is above them.\<close>

lemma failure_hidden:
  "ll_error < global_level lm \<Longrightarrow> map_of (resource_levels lm) (sdk_channel lm) = None \<Longrightarrow>
   \<not> log_filter lm (lr_attrs (send_error_record lm now file st))"
  by (simp add: send_error_record_def sdk_record_def source_record_def log_filter_def Let_def)

text \<open>The conversion of times is exact when the ticks divide a second.\<close>

lemma sdiv_smod_int: "(a :: int) sdiv b * b + a smod b = a"
  by (simp add: sdiv_mult_smod_eq)

lemma ptime_convert_exact:
  assumes "0 < tps" "tps dvd 1000000000" "in_sint 64 (ticks sdiv tps * 1000000000)"
    "in_sint 64 (ticks smod tps * (1000000000 sdiv tps))" "in_sint 64 (ticks * (1000000000 div tps))"
  shows "ptime_convert tps ticks = Inr (ticks * (1000000000 div tps))"
proof -
  obtain k where k: "1000000000 = tps * k" using assms(2) by blast
  have kd: "(1000000000 :: int) div tps = k" unfolding k using assms(1) by simp
  have ks: "(1000000000 :: int) sdiv tps = k"
    using kd assms(1) by (simp add: signed_divide_int_def)
  have "ticks sdiv tps * 1000000000 + ticks smod tps * k = (ticks sdiv tps * tps + ticks smod tps) * k"
    by (simp add: k algebra_simps)
  then have e: "ticks sdiv tps * 1000000000 + ticks smod tps * k = ticks * k"
    by (simp add: sdiv_smod_int)
  then show ?thesis using assms(3-5) by (simp add: ptime_convert_def Let_def ks kd)
qed

text \<open>The connection's destruction gives the console back.\<close>

lemma impl_destroy_console:
  assumes "connect_logging lm s0 = (lm', s)" "\<not> rb_log_sink s0" "impl_destroy lm' s = (lm'', s')"
  shows "\<not> rb_log_sink s' \<and> console_accepts lm'' attrs = log_filter lm attrs"
  using assms
  by (auto simp: connect_logging_def impl_destroy_def disable_console_logging_def enable_console_logging_def
      console_accepts_def log_filter_def split: option.split)

end
