(* ===== verification/ProcessSetup.thy ===== *)
theory ProcessSetup
  imports LogForwarding Registry
begin

text \<open>
  What a process of the SDK sets up once: the instance (\<^verbatim>\<open>common/instance.cpp\<close>), which owns the
  registry, the log manager and the tracer; the signal manager on both platforms
  (\<^verbatim>\<open>module/signal_manager_posix.cpp\<close>, \<^verbatim>\<open>signal_manager_windows.cpp\<close>); and the version of the library
  (\<^verbatim>\<open>common/version_metadata.cpp\<close>).
\<close>

subsection \<open>The instance\<close>

text \<open>
  \<open>current_instance\<close> is null, a pointer to an object (numbered by its address) or the sentinel left
  by a destructor. \<open>Construct\<close> runs a constructor at an address, \<open>Destruct\<close> the destructor of an object;
  \<open>Current\<close> asks for the current instance.
\<close>

datatype instance_ptr = No_instance | Live_instance nat | Sentinel

datatype creation = Open_existing | If_needed

record 'impl process =
  pr_current :: instance_ptr
  pr_impls :: "(nat \<times> 'impl) list"

definition new_process :: "'impl process" where
  "new_process = \<lparr>pr_current = No_instance, pr_impls = []\<rparr>"

definition duplicate_instance :: exn where
  "duplicate_instance = sdk_exception K_general ''tried to create duplicate instance''"

text \<open>The constructor: \<open>setup\<close> builds the registry, the logs and the propagator, and may throw; the
  pointer stays set when it does.\<close>

definition construct_instance :: "'impl res \<Rightarrow> nat \<Rightarrow> ('impl process, unit) stm" where
  "construct_instance setup addr s =
     (case pr_current s of
        No_instance \<Rightarrow>
          (let s' = s\<lparr>pr_current := Live_instance addr\<rparr> in
           case setup of
             Inl e \<Rightarrow> (Inl e, s')
           | Inr i \<Rightarrow> (Inr (), s'\<lparr>pr_impls := aput addr i (pr_impls s')\<rparr>))
      | _ \<Rightarrow> (Inl duplicate_instance, s))"

definition destruct_instance :: "nat \<Rightarrow> 'impl process \<Rightarrow> 'impl process" where
  "destruct_instance addr s = s\<lparr>pr_current := Sentinel, pr_impls := aerase addr (pr_impls s)\<rparr>"

text \<open>\<^verbatim>\<open>Instance::current\<close>; \<open>static_addr\<close> is the address of the function's static object.\<close>

definition current_instance :: "'impl res \<Rightarrow> nat \<Rightarrow> creation \<Rightarrow> ('impl process, nat) stm" where
  "current_instance setup static_addr creation =
     st_bind (\<lambda>s.
       if pr_current s = No_instance then
         (case creation of
            If_needed \<Rightarrow> construct_instance setup static_addr s
          | Open_existing \<Rightarrow> (Inl (sdk_exception K_general ''Instance has not yet been created''), s))
       else (Inr (), s)) (\<lambda>_ s.
     case pr_current s of
       Sentinel \<Rightarrow> (Inl (sdk_exception K_general ''instance was destroyed''), s)
     | Live_instance addr \<Rightarrow> (Inr addr, s)
     | No_instance \<Rightarrow> (Inl (Undefined ''null instance''), s))"

text \<open>
  \<^verbatim>\<open>Registry::get\<close>, \<^verbatim>\<open>LogManager::get\<close> and \<^verbatim>\<open>Tracer::get\<close>: a member of the current instance, named by the
  address of the instance. The first two keep the reference of their first success in a static variable.
  \<^verbatim>\<open>open_existing\<close> never constructs, so the set-up and the address it is given do not matter.
\<close>

definition member_of_instance :: "('impl process, nat) stm" where
  "member_of_instance =
     st_bind (current_instance (Inl duplicate_instance) 0 Open_existing) (\<lambda>addr s.
       if addr \<in> set (akeys (pr_impls s)) then (Inr addr, s) else (Inl (Undefined ''null implementation''), s))"

definition get_once :: "(nat option \<times> 'impl process, nat) stm" where
  "get_once s =
     (case fst s of
        Some addr \<Rightarrow> (Inr addr, s)
      | None \<Rightarrow>
          (case member_of_instance (snd s) of
             (Inl e, s') \<Rightarrow> (Inl e, (None, s'))
           | (Inr addr, s') \<Rightarrow> (Inr addr, (Some addr, s'))))"

definition registry_get :: "(nat option \<times> 'impl process, nat) stm" where
  "registry_get = get_once"

definition log_manager_get :: "(nat option \<times> 'impl process, nat) stm" where
  "log_manager_get = get_once"

definition tracer_get :: "('impl process, nat) stm" where
  "tracer_get = member_of_instance"

text \<open>What a program does with instances; only an object that was constructed is destroyed.\<close>

datatype 'impl instance_op =
    Construct "'impl res" nat
  | Destruct nat
  | Current "'impl res" nat creation

definition returned :: "'a res \<Rightarrow> 'a option" where
  "returned r = (case r of Inr a \<Rightarrow> Some a | Inl _ \<Rightarrow> None)"

text \<open>The address a step hands out, and the state after it.\<close>

fun instance_step :: "'impl process \<Rightarrow> 'impl instance_op \<Rightarrow> nat option \<times> 'impl process" where
  "instance_step s (Construct setup addr) =
     (case construct_instance setup addr s of (r, s') \<Rightarrow> (map_option (\<lambda>_. addr) (returned r), s'))"
| "instance_step s (Destruct addr) =
     (None, if addr \<in> set (akeys (pr_impls s)) then destruct_instance addr s else s)"
| "instance_step s (Current setup addr creation) =
     (case current_instance setup addr creation s of (r, s') \<Rightarrow> (returned r, s'))"

fun instance_run :: "'impl process \<Rightarrow> 'impl instance_op list \<Rightarrow> nat option list \<times> 'impl process" where
  "instance_run s [] = ([], s)"
| "instance_run s (op' # ops) =
     (let out = instance_step s op'; rest = instance_run (snd out) ops in (fst out # fst rest, snd rest))"

subsection \<open>Signals on POSIX\<close>

text \<open>The constructor blocks the signals of the set; \<open>sigwait\<close> is a call of the C library that yields
  an error number, zero when it succeeds, and the signal it took from the pending ones.\<close>

definition sigint :: int where "sigint = 2"
definition sigterm :: int where "sigterm = 15"

record signal_state =
  sg_blocked :: "int set"
  sg_pending :: "int list"

definition posix_sigset :: "int list" where
  "posix_sigset = [sigint, sigterm]"

definition posix_manager_new :: "signal_state \<Rightarrow> signal_state" where
  "posix_manager_new s = s\<lparr>sg_blocked := sg_blocked s \<union> set posix_sigset\<rparr>"

definition posix_wait :: "(int list \<Rightarrow> signal_state \<Rightarrow> int \<times> int \<times> signal_state) \<Rightarrow> signal_state \<Rightarrow> int \<times> signal_state"
where
  "posix_wait sigwait s =
     (case sigwait posix_sigset s of (rc, sig, s') \<Rightarrow> (rc, s'))"

subsection \<open>Signals on Windows\<close>

datatype console_event = CTRL_C | CTRL_BREAK | CTRL_CLOSE | CTRL_LOGOFF | CTRL_SHUTDOWN | CTRL_other

text \<open>The handle of the event: \<^verbatim>\<open>INVALID_HANDLE_VALUE\<close> before \<^verbatim>\<open>wait()\<close>, null when \<^verbatim>\<open>CreateEvent\<close> failed,
  else whether the event is set.\<close>

datatype event_handle = Invalid_handle | Null_handle | Event bool

record windows_manager =
  wm_event :: event_handle
  wm_code :: int

definition windows_manager_new :: windows_manager where
  "windows_manager_new = \<lparr>wm_event = Invalid_handle, wm_code = 0\<rparr>"

definition handle_signal :: "int \<Rightarrow> windows_manager \<Rightarrow> windows_manager" where
  "handle_signal signal m =
     (case wm_event m of
        Invalid_handle \<Rightarrow> m
      | Null_handle \<Rightarrow> m\<lparr>wm_code := signal\<rparr>
      | Event b \<Rightarrow> m\<lparr>wm_code := signal, wm_event := Event True\<rparr>)"

fun console_handler_routine :: "console_event \<Rightarrow> windows_manager \<Rightarrow> bool \<times> windows_manager" where
  "console_handler_routine CTRL_C m = (True, handle_signal sigint m)"
| "console_handler_routine CTRL_BREAK m = (True, handle_signal sigint m)"
| "console_handler_routine CTRL_CLOSE m = (True, handle_signal sigterm m)"
| "console_handler_routine CTRL_LOGOFF m = (True, handle_signal sigterm m)"
| "console_handler_routine CTRL_SHUTDOWN m = (True, handle_signal sigterm m)"
| "console_handler_routine CTRL_other m = (False, m)"

fun deliver_events :: "console_event list \<Rightarrow> windows_manager \<Rightarrow> windows_manager" where
  "deliver_events [] m = m"
| "deliver_events (e # es) m = deliver_events es (snd (console_handler_routine e m))"

text \<open>\<^verbatim>\<open>wait()\<close> makes the event and blocks until it is set; \<open>events\<close> are delivered while it blocks.
  \<open>None\<close> is a wait that does not return; waiting on a null handle returns at once. \<open>handle\<close> is what
  \<^verbatim>\<open>CreateEvent\<close> came back with.\<close>

definition windows_wait ::
  "event_handle \<Rightarrow> console_event list \<Rightarrow> windows_manager \<Rightarrow> int res option \<times> windows_manager" where
  "windows_wait handle events m =
     (case handle of
        Invalid_handle \<Rightarrow>
          (Some (Inl (StdException ''Failed to create signal event'')), m\<lparr>wm_event := Invalid_handle\<rparr>)
      | Null_handle \<Rightarrow> (Some (Inr (wm_code m)), m\<lparr>wm_event := Null_handle\<rparr>)
      | Event b \<Rightarrow>
          (let m' = deliver_events events (m\<lparr>wm_event := Event b\<rparr>)
           in (if wm_event m' = Event True then Some (Inr (wm_code m')) else None, m')))"

subsection \<open>The version\<close>

text \<open>\<^verbatim>\<open>erase(0, find(';') + 1)\<close> and \<^verbatim>\<open>substr(0, find(';'))\<close>: a character that is not there is at \<^verbatim>\<open>npos\<close>,
  and \<^verbatim>\<open>npos + 1\<close> is zero.\<close>

definition semicolon :: char where "semicolon = CHR '';''"

definition after_first :: "char \<Rightarrow> string \<Rightarrow> string" where
  "after_first c s = (if c \<in> set s then tl (dropWhile (\<lambda>x. x \<noteq> c) s) else s)"

definition sdk_version :: "string \<Rightarrow> string" where
  "sdk_version k_version = takeWhile (\<lambda>c. c \<noteq> semicolon) (after_first semicolon k_version)"

text \<open>\<^verbatim>\<open>getline(ss, substr, '.')\<close>: the stream is what is left of it and its \<^verbatim>\<open>eofbit\<close>; a stream at its
  end leaves the string as it was.\<close>

definition get_line :: "string \<times> bool \<Rightarrow> string \<Rightarrow> (string \<times> bool) \<times> string" where
  "get_line ss line =
     (if snd ss then (ss, line)
      else let l = takeWhile (\<lambda>c. c \<noteq> CHR ''.'') (fst ss)
           in if length l = length (fst ss) then (([], True), l)
              else ((drop (Suc (length l)) (fst ss), False), l))"

text \<open>\<^verbatim>\<open>std::stoi\<close>: blanks, a sign, digits, and whatever follows them.\<close>

definition is_digit :: "char \<Rightarrow> bool" where
  "is_digit c \<longleftrightarrow> 48 \<le> (of_char c :: nat) \<and> (of_char c :: nat) \<le> 57"

definition is_space :: "char \<Rightarrow> bool" where
  "is_space c \<longleftrightarrow> (of_char c :: nat) = 32 \<or> 9 \<le> (of_char c :: nat) \<and> (of_char c :: nat) \<le> 13"

definition digits_value :: "string \<Rightarrow> int" where
  "digits_value ds = foldl (\<lambda>n d. n * 10 + (int (of_char d) - 48)) 0 ds"

definition stoi :: "string \<Rightarrow> int res" where
  "stoi s =
     (let s1 = dropWhile is_space s;
          neg = (s1 \<noteq> [] \<and> hd s1 = CHR ''-'');
          s2 = (if s1 \<noteq> [] \<and> (hd s1 = CHR ''-'' \<or> hd s1 = CHR ''+'') then tl s1 else s1);
          ds = takeWhile is_digit s2;
          v = (if neg then - digits_value ds else digits_value ds)
      in if ds = [] then Inl (StdException ''stoi'')
         else if in_sint 32 v then Inr v else Inl (StdException ''stoi''))"

fun version_lines :: "nat \<Rightarrow> string \<times> bool \<Rightarrow> string \<Rightarrow> int list res" where
  "version_lines 0 ss line = Inr []"
| "version_lines (Suc n) ss line =
     (case get_line ss line of (ss', line') \<Rightarrow>
        rbind (stoi line') (\<lambda>v. rmap (\<lambda>vs. v # vs) (version_lines n ss' line')))"

definition version_components :: "string \<Rightarrow> int list res" where
  "version_components k_version =
     version_lines 3 (dropWhile (\<lambda>c. c = CHR ''v'') (sdk_version k_version), False) []"

definition get_sub_version :: "string \<Rightarrow> nat \<Rightarrow> int res" where
  "get_sub_version k_version which = rbind (version_components k_version) (\<lambda>cs. vec_at cs which)"

definition sdk_major_version :: "string \<Rightarrow> int res" where
  "sdk_major_version k_version = get_sub_version k_version 0"

definition sdk_minor_version :: "string \<Rightarrow> int res" where
  "sdk_minor_version k_version = get_sub_version k_version 1"

definition sdk_patch_version :: "string \<Rightarrow> int res" where
  "sdk_patch_version k_version = get_sub_version k_version 2"

subsection \<open>Lemmas: the instance\<close>

definition instance_inv :: "'impl process \<Rightarrow> bool" where
  "instance_inv s \<longleftrightarrow>
     (case pr_current s of Live_instance a \<Rightarrow> set (akeys (pr_impls s)) \<subseteq> {a} | _ \<Rightarrow> pr_impls s = [])"

lemma instance_inv_new: "instance_inv new_process"
  by (simp add: instance_inv_def new_process_def)

lemma construct_instance_cases:
  "construct_instance setup addr s = (r, s') \<Longrightarrow>
     pr_current s = No_instance \<and> pr_current s' = Live_instance addr
       \<and> pr_impls s' = (case setup of Inr i \<Rightarrow> aput addr i (pr_impls s) | Inl _ \<Rightarrow> pr_impls s)
       \<and> r = rmap (\<lambda>_. ()) setup
     \<or> pr_current s \<noteq> No_instance \<and> s' = s \<and> r = Inl duplicate_instance"
  by (auto simp: construct_instance_def Let_def split: instance_ptr.splits sum.splits)

lemma current_instance_cases:
  assumes "current_instance setup addr creation s = (r, s')"
  shows "s' = s \<and> (\<forall>a. r = Inr a \<longrightarrow> pr_current s = Live_instance a)
    \<or> pr_current s = No_instance \<and> creation = If_needed \<and> construct_instance setup addr s = (rmap (\<lambda>_. ()) r, s')
      \<and> (\<forall>a. r = Inr a \<longrightarrow> a = addr)"
  using assms
  by (auto simp: current_instance_def st_bind_def construct_instance_def Let_def
      split: if_splits creation.splits instance_ptr.splits sum.splits)

lemma construct_inv: "instance_inv s \<Longrightarrow> construct_instance setup addr s = (r, s') \<Longrightarrow> instance_inv s'"
  by (drule construct_instance_cases) (auto simp: instance_inv_def akeys_aput split: sum.splits)

lemma instance_step_inv: "instance_inv s \<Longrightarrow> instance_inv (snd (instance_step s op'))"
proof (cases op')
  case (Destruct a)
  assume "instance_inv s"
  with Destruct show ?thesis
    by (auto simp: instance_inv_def destruct_instance_def akeys_aerase akeys_def aerase_def filter_empty_conv
        split: instance_ptr.splits)
next
  case (Current su a c)
  assume i: "instance_inv s"
  obtain r s' where r: "current_instance su a c s = (r, s')" by (cases "current_instance su a c s")
  show ?thesis using current_instance_cases[OF r] construct_inv[OF i] i by (auto simp: Current r)
qed (auto dest: construct_inv split: prod.split)

text \<open>What a step hands out is the current instance, and a live instance stays or is gone for good.\<close>

lemma instance_step_address:
  "instance_step s op' = (Some a, s') \<Longrightarrow> pr_current s' = Live_instance a"
  by (cases op')
    (auto dest!: construct_instance_cases current_instance_cases simp: returned_def split: prod.splits sum.splits)

lemma instance_step_current:
  assumes "pr_current s = Live_instance a"
  shows "pr_current (snd (instance_step s op')) \<in> {Live_instance a, Sentinel}"
  using assms
  by (cases op')
    (auto simp: destruct_instance_def dest!: construct_instance_cases current_instance_cases split: prod.splits)

lemma instance_step_sentinel:
  assumes "pr_current s = Sentinel" "instance_inv s"
  shows "instance_step s op' = (None, s)"
  using assms
  by (cases op')
    (auto simp: instance_inv_def construct_instance_def current_instance_def st_bind_def returned_def akeys_def)

lemma instance_run_sentinel:
  "pr_current s = Sentinel \<Longrightarrow> instance_inv s \<Longrightarrow>
   instance_run s ops = (replicate (length ops) None, s)"
  by (induction ops) (simp_all add: instance_step_sentinel)

lemma instance_run_live:
  assumes "pr_current s = Live_instance a" "instance_inv s"
  shows "set (fst (instance_run s ops)) \<subseteq> {None, Some a}"
  using assms
proof (induction ops arbitrary: s)
  case (Cons op' ops)
  obtain o' s' where st: "instance_step s op' = (o', s')" by (cases "instance_step s op'")
  have inv: "instance_inv s'" using instance_step_inv[OF Cons.prems(2), of op'] st by simp
  have c: "pr_current s' \<in> {Live_instance a, Sentinel}" using instance_step_current[OF Cons.prems(1), of op'] st by simp
  have "o' \<in> {None, Some a}"
    using instance_step_address[of s op' _ s'] st c by (cases o') auto
  moreover have "set (fst (instance_run s' ops)) \<subseteq> {None, Some a}"
    using c Cons.IH[OF _ inv] instance_run_sentinel[OF _ inv, of ops] by auto
  ultimately show ?case using st by (auto simp: Let_def)
qed simp

text \<open>In the whole life of a process only one instance is ever seen.\<close>

lemma one_instance:
  assumes "Some a \<in> set (fst (instance_run s ops))" "Some b \<in> set (fst (instance_run s ops))" "instance_inv s"
  shows "a = b"
  using assms
proof (induction ops arbitrary: s)
  case (Cons op' ops)
  obtain o' s' where st: "instance_step s op' = (o', s')" by (cases "instance_step s op'")
  have inv: "instance_inv s'" using instance_step_inv[OF Cons.prems(3), of op'] st by simp
  show ?case
  proof (cases o')
    case None
    then show ?thesis using Cons.prems(1,2) st Cons.IH[OF _ _ inv] by (auto simp: Let_def)
  next
    case (Some c)
    then have "pr_current s' = Live_instance c" using st instance_step_address by blast
    from instance_run_live[OF this inv, of ops] Some Cons.prems(1,2) st show ?thesis
      by (auto simp: Let_def)
  qed
qed simp

text \<open>A constructor that throws leaves the pointer behind: the instance seen next does not exist.\<close>

lemma failed_constructor_dangles:
  assumes "construct_instance (Inl e) a new_process = (r, s)"
  shows "r = Inl e \<and> current_instance setup b creation s = (Inr a, s) \<and> a \<notin> set (akeys (pr_impls s))"
  using assms
  by (auto simp: construct_instance_def new_process_def current_instance_def st_bind_def)

text \<open>
  The reference a getter keeps outlives the instance: a tracer asked for after the destruction throws,
  while the registry and the log manager are handed out although they are gone.
\<close>

lemma kept_reference_dangles:
  assumes "registry_get (None, s) = (Inr a, (cache, s1))"
  shows "\<exists>e. tracer_get (destruct_instance a s1) = (Inl e, destruct_instance a s1) \<and> is_std_exception e"
    and "registry_get (cache, destruct_instance a s1) = (Inr a, (cache, destruct_instance a s1))
      \<and> a \<notin> set (akeys (pr_impls (destruct_instance a s1)))"
proof -
  have c: "cache = Some a"
    using assms by (auto simp: registry_get_def get_once_def split: prod.splits sum.splits)
  show "\<exists>e. tracer_get (destruct_instance a s1) = (Inl e, destruct_instance a s1) \<and> is_std_exception e"
    by (simp add: tracer_get_def member_of_instance_def current_instance_def destruct_instance_def st_bind_def
        sdk_exception_def)
  show "registry_get (cache, destruct_instance a s1) = (Inr a, (cache, destruct_instance a s1))
      \<and> a \<notin> set (akeys (pr_impls (destruct_instance a s1)))"
    by (simp add: c registry_get_def get_once_def destruct_instance_def akeys_aerase)
qed

text \<open>While there is a live, constructed instance the three agree.\<close>

lemma getters_agree:
  assumes "pr_current s = Live_instance a" "a \<in> set (akeys (pr_impls s))"
  shows "registry_get (None, s) = (Inr a, (Some a, s))" "log_manager_get (None, s) = (Inr a, (Some a, s))"
    "tracer_get s = (Inr a, s)"
  using assms
  by (simp_all add: registry_get_def log_manager_get_def get_once_def tracer_get_def member_of_instance_def
      current_instance_def st_bind_def)

subsection \<open>Lemmas: signals\<close>

text \<open>\<^verbatim>\<open>sigwait\<close> as POSIX documents it: zero on success, with a pending signal of the set.\<close>

definition sigwait_ok :: "(int list \<Rightarrow> signal_state \<Rightarrow> int \<times> int \<times> signal_state) \<Rightarrow> bool" where
  "sigwait_ok sigwait \<longleftrightarrow> (\<forall>set' s rc sig s'. sigwait set' s = (rc, sig, s') \<longrightarrow>
     (\<exists>p\<in>set (sg_pending s). p \<in> set set' \<and> set set' \<subseteq> sg_blocked s) \<longrightarrow>
     rc = 0 \<and> sig \<in> set set' \<and> sig \<in> set (sg_pending s))"

lemma posix_wait_zero:
  assumes "sigwait_ok sigwait" "sigterm \<in> set (sg_pending s) \<or> sigint \<in> set (sg_pending s)"
  shows "fst (posix_wait sigwait (posix_manager_new s)) = 0"
proof -
  let ?s = "posix_manager_new s"
  obtain rc sig s' where r: "sigwait posix_sigset ?s = (rc, sig, s')" by (cases "sigwait posix_sigset ?s")
  have "\<exists>p\<in>set (sg_pending ?s). p \<in> set posix_sigset \<and> set posix_sigset \<subseteq> sg_blocked ?s"
    using assms(2) by (auto simp: posix_manager_new_def posix_sigset_def)
  then have "rc = 0" using assms(1) r unfolding sigwait_ok_def by blast
  then show ?thesis by (simp add: posix_wait_def r)
qed

text \<open>An event before \<^verbatim>\<open>wait()\<close> is claimed and dropped.\<close>

lemma early_signal_lost:
  assumes "wm_event m = Invalid_handle"
  shows "deliver_events es m = m"
  using assms
proof (induction es)
  case (Cons e es)
  have "snd (console_handler_routine e m) = m" using Cons.prems by (cases e) (auto simp: handle_signal_def)
  then show ?case using Cons by simp
qed simp

lemma wait_after_early_signal:
  "fst (windows_wait (Event False) [] (deliver_events es windows_manager_new)) = None"
  by (simp add: early_signal_lost windows_manager_new_def windows_wait_def)

lemma deliver_signalled:
  "wm_event m = Event b \<Longrightarrow>
   wm_event (deliver_events es m) = Event (b \<or> (\<exists>e\<in>set es. e \<noteq> CTRL_other))"
proof (induction es arbitrary: m b)
  case (Cons e es)
  have "wm_event (snd (console_handler_routine e m)) = Event (b \<or> e \<noteq> CTRL_other)"
    using Cons.prems by (cases e) (auto simp: handle_signal_def)
  from Cons.IH[OF this] show ?case by simp
qed simp

text \<open>A wait returns exactly when an event it handles arrives while it blocks.\<close>

lemma windows_wait_returns:
  "fst (windows_wait (Event False) es m) \<noteq> None \<longleftrightarrow> (\<exists>e\<in>set es. e \<noteq> CTRL_other)"
  using deliver_signalled[of "m\<lparr>wm_event := Event False\<rparr>" False es] by (simp add: windows_wait_def Let_def)

text \<open>A \<^verbatim>\<open>CreateEvent\<close> that fails returns null, which the code does not test for: the wait is over at once.\<close>

lemma create_failure_unnoticed:
  "fst (windows_wait Null_handle es windows_manager_new) = Some (Inr 0)"
  by (simp add: windows_wait_def windows_manager_new_def)

subsection \<open>Lemmas: the version\<close>

lemma after_first_sep: "c \<notin> set a \<Longrightarrow> after_first c (a @ c # b) = b"
  by (simp add: after_first_def dropWhile_append3 dropWhile_append2[where P = "\<lambda>x. x \<noteq> c"] dropWhile_append)

lemma sdk_version_middle:
  assumes "semicolon \<notin> set a" "semicolon \<notin> set b"
  shows "sdk_version (a @ semicolon # b @ semicolon # c) = b"
proof -
  have "takeWhile (\<lambda>x. x \<noteq> semicolon) (b @ semicolon # c) = b"
    using assms(2) by (subst takeWhile_append2) auto
  then show ?thesis using after_first_sep[OF assms(1)] by (simp add: sdk_version_def)
qed

lemma show_nat_digits: "\<forall>c\<in>set (show_nat n). is_digit c"
proof (induction n rule: less_induct)
  case (less n)
  show ?case
    using less[of "n div 10"] by (subst show_nat.simps) (auto simp: is_digit_def)
qed

lemma show_nat_ne [simp]: "show_nat n \<noteq> []"
  by (subst show_nat.simps) simp

lemma digits_value_snoc: "digits_value (ds @ [d]) = digits_value ds * 10 + (int (of_char d) - 48)"
  by (simp add: digits_value_def)

lemma digits_value_show: "digits_value (show_nat n) = int n"
proof (induction n rule: less_induct)
  case (less n)
  show ?case
  proof (cases "n < 10")
    case True
    then show ?thesis by (subst show_nat.simps) (simp add: digits_value_def)
  next
    case False
    then have "digits_value (show_nat (n div 10)) = int (n div 10)" using less[of "n div 10"] by simp
    then show ?thesis using False
      by (subst show_nat.simps) (simp add: digits_value_snoc zdiv_int zmod_int)
  qed
qed

lemma digit_facts:
  assumes "is_digit c"
  shows "\<not> is_space c" "c \<noteq> CHR ''-''" "c \<noteq> CHR ''+''" "c \<noteq> CHR ''.''" "c \<noteq> CHR ''v''" "c \<noteq> semicolon"
  using assms by (auto simp: is_digit_def is_space_def semicolon_def)

lemma stoi_show: "int n < 2 ^ 31 \<Longrightarrow> stoi (show_nat n) = Inr (int n)"
proof -
  assume n: "int n < 2 ^ 31"
  obtain d ds where s: "show_nat n = d # ds" by (cases "show_nat n") auto
  have d: "is_digit d" using show_nat_digits[of n] s by simp
  have "takeWhile is_digit (show_nat n) = show_nat n" using show_nat_digits[of n] by simp
  moreover have "dropWhile is_space (show_nat n) = show_nat n" using digit_facts(1)[OF d] by (simp add: s)
  ultimately show ?thesis
    using n digits_value_show[of n] digit_facts(2,3)[OF d]
    by (simp add: stoi_def Let_def s in_sint_def)
qed

definition version_string :: "nat \<Rightarrow> nat \<Rightarrow> nat \<Rightarrow> string" where
  "version_string major minor patch =
     show_nat major @ CHR ''.'' # show_nat minor @ CHR ''.'' # show_nat patch"

lemma get_line_dot:
  "CHR ''.'' \<notin> set a \<Longrightarrow> get_line (a @ CHR ''.'' # b, False) line = ((b, False), a)"
  "CHR ''.'' \<notin> set a \<Longrightarrow> get_line (a, False) line = (([], True), a)"
proof -
  assume a: "CHR ''.'' \<notin> set a"
  then have "takeWhile (\<lambda>c. c \<noteq> CHR ''.'') (a @ CHR ''.'' # b) = a" by (subst takeWhile_append2) auto
  then show "get_line (a @ CHR ''.'' # b, False) line = ((b, False), a)" by (simp add: get_line_def)
  have w: "takeWhile (\<lambda>c. c \<noteq> CHR ''.'') a = a" using a by (auto simp: takeWhile_eq_all_conv)
  show "get_line (a, False) line = (([], True), a)" unfolding get_line_def fst_conv w by simp
qed

lemma no_dot [simp]: "CHR ''.'' \<notin> set (show_nat n)"
  using show_nat_digits[of n] digit_facts(4) by blast

text \<open>The three components of the version the build writes are read back.\<close>

lemma version_components_read:
  assumes "int major < 2 ^ 31" "int minor < 2 ^ 31" "int patch < 2 ^ 31"
  shows "version_components (''cpp'' @ semicolon # (CHR ''v'' # version_string major minor patch) @ semicolon # label) =
    Inr [int major, int minor, int patch]"
proof -
  let ?v = "CHR ''v'' # version_string major minor patch"
  have "semicolon \<notin> set ?v"
    using show_nat_digits digit_facts(6) by (auto simp: version_string_def semicolon_def)
  then have v: "sdk_version (''cpp'' @ semicolon # ?v @ semicolon # label) = ?v"
    by (intro sdk_version_middle) (auto simp: semicolon_def)
  obtain d ds where d: "show_nat major = d # ds" by (cases "show_nat major") auto
  then have "d \<noteq> CHR ''v''" using show_nat_digits[of major] digit_facts(5) by auto
  then have w: "dropWhile (\<lambda>c. c = CHR ''v'') ?v = version_string major minor patch"
    using d by (simp add: version_string_def)
  show ?thesis
    unfolding version_components_def v w
    using assms by (simp add: numeral_3_eq_3 version_string_def get_line_dot stoi_show)
qed

text \<open>A version with two components repeats the second.\<close>

lemma version_two_components:
  "version_components (''cpp'' @ semicolon # ''v1.2'' @ semicolon # ''x'') = Inr [1, 2, 2]"
  by code_simp

end
