(* ===== verification/ExampleModules.thy ===== *)
theory ExampleModules
  imports Actuators Media Services ModuleService DoubleOps
begin

text \<open>
  Components that example modules implement with the SDK: the base of the complex module
  (\<^verbatim>\<open>examples/modules/complex/base/impl.cpp\<close>), the sensor of the simple module
  (\<^verbatim>\<open>examples/modules/simple/main.cpp\<close>) and the sine-wave audio input
  (\<^verbatim>\<open>examples/modules/audioin/main.cpp\<close>). The motors a base drives are statements over a world, so
  that a motor being stopped shows. The sine is an argument.
\<close>

subsection \<open>The base of the complex module\<close>

record 'w base_motor =
  bm_is_moving :: "('w, bool) stm"
  bm_stop :: "proto_struct \<Rightarrow> ('w, unit) stm"
  bm_set_power :: "double \<Rightarrow> proto_struct \<Rightarrow> ('w, unit) stm"
  bm_get_geometries :: "proto_struct \<Rightarrow> ('w, geometry_config list) stm"

record 'w my_base =
  mb_left :: "'w base_motor option"
  mb_right :: "'w base_motor option"
  mb_frame_system :: "frame_system option"

definition backquote :: char where "backquote = CHR 0x60"

definition find_motor :: "resource_config \<Rightarrow> string \<Rightarrow> string res" where
  "find_motor cfg motor_name =
     (case map_of (cf_attributes cfg) motor_name of
        None \<Rightarrow> Inl (InvalidArgument (cf_name cfg @ '': Required parameter '' @ backquote # motor_name
                                   @ backquote # '' not found in configuration''))
      | Some v \<Rightarrow>
          (case get_string v of
             Some s \<Rightarrow> if s \<noteq> [] then Inr s else Inl (InvalidArgument (cf_name cfg
                @ '': Required non-empty string parameter '' @ backquote # motor_name
                @ backquote # '' is either not a string or is an empty string''))
           | None \<Rightarrow> Inl (InvalidArgument (cf_name cfg
                @ '': Required non-empty string parameter '' @ backquote # motor_name
                @ backquote # '' is either not a string or is an empty string''))))"

definition validate_base :: "resource_config \<Rightarrow> string list res" where
  "validate_base cfg =
     rbind (find_motor cfg ''left'') (\<lambda>l. rbind (find_motor cfg ''right'') (\<lambda>r. Inr [l, r]))"

text \<open>The constructor. The dependencies are those of the resource, with the casts to the two types
  the code tries; a motor that is not found stays null.\<close>

datatype 'w dependency = Dep_motor "'w base_motor" | Dep_frame_system frame_system | Dep_other

definition as_motor :: "'w dependency \<Rightarrow> 'w base_motor option" where
  "as_motor d = (case d of Dep_motor m \<Rightarrow> Some m | _ \<Rightarrow> None)"

definition as_frame_system :: "'w dependency \<Rightarrow> frame_system option" where
  "as_frame_system d = (case d of Dep_frame_system f \<Rightarrow> Some f | _ \<Rightarrow> None)"

definition pick_motor :: "string \<Rightarrow> (res_name \<times> 'w dependency) list \<Rightarrow> 'w base_motor option" where
  "pick_motor name deps =
     foldl (\<lambda>m kv. if short_name (fst kv) = name then as_motor (snd kv) else m) None deps"

definition make_base ::
  "res_name \<Rightarrow> (res_name \<times> 'w dependency) list \<Rightarrow> resource_config \<Rightarrow> 'w my_base res" where
  "make_base fs_name deps cfg =
     rbind (find_motor cfg ''left'') (\<lambda>left.
     rbind (find_motor cfg ''right'') (\<lambda>right.
       Inr \<lparr>mb_left = pick_motor left deps, mb_right = pick_motor right deps,
            mb_frame_system =
              (case filter (\<lambda>kv. name_eq (fst kv) fs_name) deps of
                 [] \<Rightarrow> None | kv # _ \<Rightarrow> as_frame_system (snd kv))\<rparr>))"

text \<open>A null motor is dereferenced.\<close>

definition on_motor :: "'w base_motor option \<Rightarrow> ('w base_motor \<Rightarrow> ('w, 'a) stm) \<Rightarrow> ('w, 'a) stm" where
  "on_motor m f = (case m of Some x \<Rightarrow> f x | None \<Rightarrow> st_throw (Undefined ''null motor''))"

definition base_is_moving :: "'w my_base \<Rightarrow> ('w, bool) stm" where
  "base_is_moving b =
     st_bind (on_motor (mb_left b) bm_is_moving) (\<lambda>l.
       if l then st_return True else on_motor (mb_right b) bm_is_moving)"

text \<open>One of the two \<^verbatim>\<open>try\<close> blocks of \<^verbatim>\<open>stop\<close>: the message kept is that of the last failure.\<close>

definition stop_one :: "('w, unit) stm \<Rightarrow> string option \<Rightarrow> ('w, string option) stm" where
  "stop_one stop err =
     st_try (st_bind stop (\<lambda>_. st_return err)) (\<lambda>e. st_return (Some (exn_what e)))"

definition base_stop :: "'w my_base \<Rightarrow> proto_struct \<Rightarrow> ('w, unit) stm" where
  "base_stop b extra =
     st_bind (stop_one (on_motor (mb_left b) (\<lambda>m. bm_stop m extra)) None) (\<lambda>err.
     st_bind (stop_one (on_motor (mb_right b) (\<lambda>m. bm_stop m extra)) err) (\<lambda>err.
       case err of Some what \<Rightarrow> st_throw (StdException what) | None \<Rightarrow> st_return ()))"

definition dbl_hundredth :: double where
  "dbl_hundredth = 0x3F847AE147AE147B"

text \<open>\<^verbatim>\<open>abs\<close> is the overload on doubles.\<close>

definition left_power :: "double \<Rightarrow> double \<Rightarrow> double" where
  "left_power lin ang = dbl_div (dbl_sub lin ang) (dbl_add (dbl_abs lin) (dbl_abs ang))"

definition right_power :: "double \<Rightarrow> double \<Rightarrow> double" where
  "right_power lin ang = dbl_div (dbl_add lin ang) (dbl_add (dbl_abs lin) (dbl_abs ang))"

definition base_set_power :: "'w my_base \<Rightarrow> vector3 \<Rightarrow> vector3 \<Rightarrow> proto_struct \<Rightarrow> ('w, unit) stm" where
  "base_set_power b lin ang extra =
     (if dbl_less (dbl_abs (v3_y lin)) dbl_hundredth \<and> dbl_less (dbl_abs (v3_z ang)) dbl_hundredth
      then base_stop b extra
      else st_bind (on_motor (mb_left b) (\<lambda>m. bm_set_power m (left_power (v3_y lin) (v3_z ang)) extra)) (\<lambda>_.
             on_motor (mb_right b) (\<lambda>m. bm_set_power m (right_power (v3_y lin) (v3_z ang)) extra)))"

definition base_do_command :: "'w my_base \<Rightarrow> proto_struct \<Rightarrow> proto_struct res" where
  "base_do_command b command =
     (case (map_of command ''pose_of'', mb_frame_system b) of
        (Some v, Some fs) \<Rightarrow>
          (case get_string v of
             None \<Rightarrow> Inl (InvalidArgument ''pose_of must name a component'')
           | Some component' \<Rightarrow>
               rmap (\<lambda>pose.
                 [(''reference_frame'', PString (pif_reference_frame pose)),
                  (''x'', PDouble (co_x (ps_coordinates (pif_pose pose)))),
                  (''y'', PDouble (co_y (ps_coordinates (pif_pose pose)))),
                  (''z'', PDouble (co_z (ps_coordinates (pif_pose pose))))])
                 (get_pose_in_world fs component'))
      | _ \<Rightarrow> Inr command)"

definition base_get_geometries :: "'w my_base \<Rightarrow> proto_struct \<Rightarrow> ('w, geometry_config list) stm" where
  "base_get_geometries b extra =
     st_bind (on_motor (mb_left b) (\<lambda>m. bm_get_geometries m extra)) (\<lambda>l.
     st_bind (on_motor (mb_right b) (\<lambda>m. bm_get_geometries m extra)) (\<lambda>r. st_return (l @ r)))"

text \<open>What the example leaves unimplemented, and its made-up properties.\<close>

definition base_move_straight :: "int \<Rightarrow> double \<Rightarrow> proto_struct \<Rightarrow> unit res" where
  "base_move_straight distance_mm mm_per_sec extra = Inl (StdException ''move_straight unimplemented'')"

definition base_spin :: "double \<Rightarrow> double \<Rightarrow> proto_struct \<Rightarrow> unit res" where
  "base_spin angle_deg degs_per_sec extra = Inl (StdException ''spin unimplemented'')"

definition base_set_velocity :: "vector3 \<Rightarrow> vector3 \<Rightarrow> proto_struct \<Rightarrow> unit res" where
  "base_set_velocity lin ang extra = Inl (StdException ''set_velocity unimplemented'')"

definition base_get_properties :: "proto_struct \<Rightarrow> base_properties" where
  "base_get_properties extra =
     \<lparr>bp_width_meters = dbl_of_int 2, bp_turning_radius_meters = dbl_of_int 4,
      bp_wheel_circumference_meters = dbl_of_int 8\<rparr>"

subsection \<open>The sensor of the simple module\<close>

definition dbl_one_point :: double where
  "dbl_one_point = 0x3FF0000000000000"

definition sensor_multiplier :: "resource_config \<Rightarrow> double" where
  "sensor_multiplier cfg =
     (case map_of (cf_attributes cfg) ''multiplier'' of
        Some v \<Rightarrow> (case get_double v of Some d \<Rightarrow> d | None \<Rightarrow> dbl_one_point)
      | None \<Rightarrow> dbl_one_point)"

definition validate_sensor :: "resource_config \<Rightarrow> string list res" where
  "validate_sensor cfg =
     (case map_of (cf_attributes cfg) ''multiplier'' of
        Some v \<Rightarrow>
          (case get_double v of
             None \<Rightarrow> Inl (general_exception ''multiplier must be a number value'')
           | Some d \<Rightarrow> if dbl_eq d 0 then Inl (general_exception ''multiplier cannot be zero'') else Inr [])
      | None \<Rightarrow> Inr [])"

definition sensor_get_readings :: "double \<Rightarrow> proto_struct \<Rightarrow> proto_struct" where
  "sensor_get_readings multiplier extra = [(''signal'', PDouble multiplier)]"

definition sensor_get_geometries :: "proto_struct \<Rightarrow> geometry_config list res" where
  "sensor_get_geometries extra = Inl (general_exception ''method not supported'')"

subsection \<open>The sine-wave audio input\<close>

definition dbl_440 :: double where
  "dbl_440 = 0x407B800000000000"

definition sine_frequency :: "resource_config \<Rightarrow> double" where
  "sine_frequency cfg =
     (case map_of (cf_attributes cfg) ''frequency'' of
        Some v \<Rightarrow> (case get_double v of Some d \<Rightarrow> d | None \<Rightarrow> dbl_440)
      | None \<Rightarrow> dbl_440)"

text \<open>\<^verbatim>\<open>*freq <= 0.0 || *freq > 20000.0\<close>: both comparisons fail on NaN, which passes.\<close>

definition dbl_le_zero :: "double \<Rightarrow> bool" where
  "dbl_le_zero d \<longleftrightarrow> \<not> dbl_is_nan d \<and> (dbl_is_zero d \<or> dbl_neg d)"

definition dbl_20000 :: double where
  "dbl_20000 = 0x40D3880000000000"

definition dbl_above_20000 :: "double \<Rightarrow> bool" where
  "dbl_above_20000 d \<longleftrightarrow> \<not> dbl_is_nan d \<and> \<not> dbl_neg d \<and> dbl_20000 < d"

definition validate_sine :: "resource_config \<Rightarrow> string list res" where
  "validate_sine cfg =
     (case map_of (cf_attributes cfg) ''frequency'' of
        Some v \<Rightarrow>
          (case get_double v of
             None \<Rightarrow> Inl (general_exception ''frequency must be a number value'')
           | Some d \<Rightarrow>
               if dbl_le_zero d \<or> dbl_above_20000 d
               then Inl (general_exception ''frequency must be between 0 and 20000 Hz'') else Inr [])
      | None \<Rightarrow> Inr [])"

definition pcm16_samples_to_bytes :: "16 word list \<Rightarrow> byte list" where
  "pcm16_samples_to_bytes samples = concat (map (\<lambda>s. le_bytes 2 (unat s)) samples)"

definition create_audio_chunk :: "int \<Rightarrow> 16 word list \<Rightarrow> string \<Rightarrow> int \<Rightarrow> int \<Rightarrow> int \<Rightarrow> audio_chunk" where
  "create_audio_chunk now samples codec sample_rate_hz num_channels sequence_number =
     \<lparr>ac_audio_data = pcm16_samples_to_bytes samples,
      ac_info = \<lparr>ai_codec = codec, ai_sample_rate_hz = sample_rate_hz, ai_num_channels = num_channels\<rparr>,
      ac_start_timestamp_ns = now, ac_end_timestamp_ns = now, ac_sequence_number = sequence_number,
      ac_request_id = []\<rparr>"

definition sine_properties :: "proto_struct \<Rightarrow> audio_properties" where
  "sine_properties extra =
     \<lparr>supported_codecs = [''pcm16''], ap_sample_rate_hz = 44100, ap_num_channels = 1\<rparr>"

text \<open>
  A sample: \<open>sine\<close> is \<^verbatim>\<open>std::sin\<close>. \<^verbatim>\<open>2.0 * M_PI\<close> is a constant; the integers of the expressions are
  converted to doubles. The cast to 16 bits is undefined out of range.
\<close>

definition two_pi :: double where
  "two_pi = 0x401921FB54442D18"

definition dbl_half :: double where
  "dbl_half = 0x3FE0000000000000"

definition generate_sine_sample :: "(double \<Rightarrow> double) \<Rightarrow> double \<Rightarrow> double \<Rightarrow> double \<Rightarrow> double" where
  "generate_sine_sample sine frequency amplitude time_seconds =
     dbl_mul amplitude (sine (dbl_mul (dbl_mul two_pi frequency) time_seconds))"

definition float_to_pcm16 :: "double \<Rightarrow> 16 word option" where
  "float_to_pcm16 sample_value = map_option word_of_int (dbl_to_sint 16 (dbl_mul sample_value (dbl_of_int 32767)))"

definition sine_sample :: "(double \<Rightarrow> double) \<Rightarrow> double \<Rightarrow> int \<Rightarrow> 16 word option" where
  "sine_sample sine frequency sample_idx =
     float_to_pcm16 (generate_sine_sample sine frequency dbl_half (dbl_div (dbl_of_int sample_idx) (dbl_of_int 44100)))"

text \<open>\<^verbatim>\<open>get_audio\<close>. \<open>now_of k\<close> is the time the k-th chunk is made at.\<close>

definition chunk_size :: int where
  "chunk_size = 1024"

definition chunk_samples :: "(int \<Rightarrow> 16 word option) \<Rightarrow> int \<Rightarrow> int \<Rightarrow> 16 word list option" where
  "chunk_samples sample total_n chunk_idx =
     those (map (\<lambda>i. sample (chunk_idx * chunk_size + i))
       [0..min chunk_size (total_n - chunk_idx * chunk_size) - 1])"

function chunk_source ::
  "(int \<Rightarrow> 16 word option) \<Rightarrow> (int \<Rightarrow> int) \<Rightarrow> string \<Rightarrow> int \<Rightarrow> int \<Rightarrow> int \<Rightarrow> audio_chunk source" where
  "chunk_source sample now_of codec total_n num_chunks chunk_idx =
     (if chunk_idx < num_chunks then
        (case chunk_samples sample total_n chunk_idx of
           None \<Rightarrow> Source_end (Inl (Undefined ''conversion to int16_t''))
         | Some samples \<Rightarrow>
             Source_emit (create_audio_chunk (now_of chunk_idx) samples codec 44100 1 chunk_idx)
               (\<lambda>ans. case ans of
                  Inl e \<Rightarrow> Source_end (Inl e)
                | Inr False \<Rightarrow> Source_end (Inr ())
                | Inr True \<Rightarrow> chunk_source sample now_of codec total_n num_chunks (chunk_idx + 1)))
      else Source_end (Inr ()))"
  by pat_completeness auto

termination chunk_source
  by (relation "measure (\<lambda>(sample, now_of, codec, total_n, num_chunks, chunk_idx). nat (num_chunks - chunk_idx))") auto

declare chunk_source.simps [simp del]

definition sine_get_audio ::
  "(double \<Rightarrow> double) \<Rightarrow> double \<Rightarrow> (int \<Rightarrow> int) \<Rightarrow> string \<Rightarrow> double \<Rightarrow> audio_chunk source" where
  "sine_get_audio sine frequency now_of codec duration_seconds =
     (case dbl_to_sint 32 (dbl_mul duration_seconds (dbl_of_int 44100)) of
        None \<Rightarrow> Source_end (Inl (Undefined ''conversion to int''))
      | Some total_n \<Rightarrow>
          if \<not> in_sint 32 (total_n + chunk_size - 1) then Source_end (Inl (Undefined ''int overflow''))
          else chunk_source (sine_sample sine frequency) now_of codec total_n
                 ((total_n + chunk_size - 1) sdiv chunk_size) 0)"

subsection \<open>Lemmas: the base\<close>

lemma validate_base_ok:
  "validate_base cfg = Inr deps \<longleftrightarrow>
   (\<exists>l r. find_motor cfg ''left'' = Inr l \<and> find_motor cfg ''right'' = Inr r \<and> deps = [l, r])"
  by (auto simp: validate_base_def rbind_eq_Inr)

lemma find_motor_ne: "find_motor cfg n = Inr s \<Longrightarrow> s \<noteq> []"
  by (auto simp: find_motor_def split: option.splits if_splits)

lemma pick_motor_unique:
  assumes "(n, Dep_motor m) \<in> set deps" "short_name n = name"
    and "\<forall>kv\<in>set deps. short_name (fst kv) = name \<longrightarrow> snd kv = Dep_motor m"
  shows "pick_motor name deps = Some m"
proof -
  have "foldl (\<lambda>m kv. if short_name (fst kv) = name then as_motor (snd kv) else m) acc ds \<in> {acc, Some m}
    \<and> ((\<exists>kv\<in>set ds. short_name (fst kv) = name) \<longrightarrow>
        foldl (\<lambda>m kv. if short_name (fst kv) = name then as_motor (snd kv) else m) acc ds = Some m)"
    if "set ds \<subseteq> set deps" for ds acc
    using that assms(3)
  proof (induction ds arbitrary: acc)
    case (Cons kv ds)
    then show ?case by (cases "short_name (fst kv) = name") (auto simp: as_motor_def)
  qed simp
  from this[of deps None] assms(1,2) show ?thesis by (force simp: pick_motor_def)
qed

text \<open>Both motors are told to stop, whatever the first one answers.\<close>

lemma base_stop_both:
  assumes "mb_left b = Some l" "mb_right b = Some r"
    and "bm_stop l extra w = (lo, w1)" "bm_stop r extra w1 = (ro, w2)"
    and "\<forall>e. lo = Inl e \<longrightarrow> is_std_exception e" "\<forall>e. ro = Inl e \<longrightarrow> is_std_exception e"
  shows "base_stop b extra w =
    (case (lo, ro) of
       (Inr _, Inr _) \<Rightarrow> (Inr (), w2)
     | (_, Inl e) \<Rightarrow> (Inl (StdException (exn_what e)), w2)
     | (Inl e, Inr _) \<Rightarrow> (Inl (StdException (exn_what e)), w2))"
  using assms
  by (cases lo; cases ro)
    (auto simp: base_stop_def stop_one_def on_motor_def st_try_def st_bind_def st_return_def st_throw_def)

text \<open>A base whose motor was not among its dependencies fails when it is used.\<close>

lemma base_missing_motor:
  assumes "mb_left b = None"
  shows "fst (base_stop b extra w) = Inl (Undefined ''null motor'')"
  using assms by (simp add: base_stop_def stop_one_def on_motor_def st_try_def st_bind_def st_throw_def)

lemma base_pose_of:
  assumes "mb_frame_system b = Some fs" "map_of command ''pose_of'' = Some (PString c)"
    and "get_pose_in_world fs c = Inr p"
  shows "\<exists>out. base_do_command b command = Inr out \<and> map_of out ''reference_frame'' = Some (PString (pif_reference_frame p))"
  using assms by (simp add: base_do_command_def)

text \<open>The powers are shares of the total: finite requests whose magnitudes add up to a finite number give
  powers between -1 and 1. A total that overflows makes a power that is no number.\<close>

lemma dbl_less_hundredth: "dbl_mag d = 0 \<Longrightarrow> dbl_less (dbl_abs d) dbl_hundredth"
  by (simp add: dbl_less_def dbl_key_def dbl_signed_def dbl_nan_mag)
    (simp add: dbl_hundredth_def dbl_mag_def dbl_neg_def)

lemma base_powers_bounded:
  assumes "dbl_finite y" "dbl_finite z" "dbl_finite (dbl_add (dbl_abs y) (dbl_abs z))"
    and "\<not> (dbl_less (dbl_abs y) dbl_hundredth \<and> dbl_less (dbl_abs z) dbl_hundredth)"
  shows "dbl_le (dbl_abs (left_power y z)) (dbl_of_int 1)" and "dbl_le (dbl_abs (right_power y z)) (dbl_of_int 1)"
proof -
  have nz: "dbl_mag y \<noteq> 0 \<or> dbl_mag z \<noteq> 0" using assms(4) dbl_less_hundredth by blast
  show "dbl_le (dbl_abs (left_power y z)) (dbl_of_int 1)" "dbl_le (dbl_abs (right_power y z)) (dbl_of_int 1)"
    unfolding left_power_def right_power_def by (rule dbl_share_le_one[OF assms(1-3) nz], simp)+
qed

lemma base_power_overflow:
  assumes "dbl_finite y" "dbl_finite z" "\<not> dbl_neg y" "\<not> dbl_neg z" "\<not> dbl_finite (dbl_add y z)"
  shows "right_power y z = dbl_default_nan"
proof -
  have "dbl_mag (dbl_add y z) \<le> 2047 * 2 ^ 52"
    unfolding dbl_add_exact(1)[OF assms(1,2)] by (rule dbl_bits_le)
  then have "\<not> dbl_is_nan (dbl_add y z)" by (simp add: dbl_nan_mag)
  with assms(3-5) show ?thesis
    by (simp add: right_power_def dbl_abs_def dbl_div_def dbl_finite_def)
qed

subsection \<open>Lemmas: the sensor\<close>

lemma sensor_validated:
  assumes "validate_sensor cfg = Inr []"
  shows "\<not> dbl_eq (sensor_multiplier cfg) 0"
  using assms
  by (auto simp: validate_sensor_def sensor_multiplier_def dbl_one_point_def dbl_eq_def dbl_is_zero_def
      split: option.splits if_splits)

subsection \<open>Lemmas: the audio input\<close>

definition chunk_values :: "(int \<Rightarrow> 16 word) \<Rightarrow> int \<Rightarrow> int \<Rightarrow> 16 word list" where
  "chunk_values pcm total_n chunk_idx =
     map (\<lambda>i. pcm (chunk_idx * chunk_size + i)) [0..min chunk_size (total_n - chunk_idx * chunk_size) - 1]"

text \<open>Every sample of the recording is defined.\<close>

definition sampled :: "(int \<Rightarrow> 16 word option) \<Rightarrow> (int \<Rightarrow> 16 word) \<Rightarrow> int \<Rightarrow> bool" where
  "sampled sample pcm total_n \<longleftrightarrow> (\<forall>i. 0 \<le> i \<longrightarrow> i < total_n \<longrightarrow> sample i = Some (pcm i))"

lemma those_Some: "(\<And>x. x \<in> set xs \<Longrightarrow> g x = Some (f x)) \<Longrightarrow> those (map g xs) = Some (map f xs)"
  by (induction xs) auto

lemma chunk_samples_values:
  assumes "sampled sample pcm total_n" "0 \<le> chunk_idx"
  shows "chunk_samples sample total_n chunk_idx = Some (chunk_values pcm total_n chunk_idx)"
  using assms unfolding chunk_samples_def chunk_values_def sampled_def
  by (intro those_Some) (auto simp: chunk_size_def)

lemma chunk_source_accepted:
  assumes "sampled sample pcm total_n" "0 \<le> k"
  shows "accepted (chunk_source sample now_of codec total_n n k) =
     map (\<lambda>k. create_audio_chunk (now_of k) (chunk_values pcm total_n k) codec 44100 1 k) [k..n - 1]
   \<and> source_result (chunk_source sample now_of codec total_n n k) = Inr ()"
  using assms(2)
proof (induction "nat (n - k)" arbitrary: k)
  case 0
  then show ?case by (subst (1 2) chunk_source.simps) simp
next
  case (Suc m)
  then have k: "k < n" "m = nat (n - (k + 1))" "0 \<le> k + 1" by auto
  from Suc.hyps(1)[OF k(2,3)] k(1) chunk_samples_values[OF assms(1) Suc.prems] show ?case
    by (subst (1 2) chunk_source.simps) (simp add: upto_rec1)
qed

lemma chunk_values_concat:
  assumes "0 \<le> n" "(n - 1) * chunk_size < total_n" "total_n \<le> n * chunk_size"
  shows "concat (map (chunk_values pcm total_n) [0..n - 1]) = map pcm [0..total_n - 1]"
proof -
  have pre: "concat (map (chunk_values pcm total_n) [0..int m - 1]) = map pcm [0..min total_n (int m * chunk_size) - 1]"
    if "int m \<le> n" for m
    using that
  proof (induction m)
    case (Suc m)
    have le: "int m * chunk_size < total_n"
    proof -
      have "int m * chunk_size \<le> (n - 1) * chunk_size" using Suc.prems by (simp add: chunk_size_def)
      then show ?thesis using assms(2) by simp
    qed
    let ?a = "int m * chunk_size"
    let ?b = "min total_n (?a + chunk_size)"
    have sp: "[0..int m] = [0..int m - 1] @ [int m]"
      using upto_rec2[of 0 "int m"] by simp
    have c: "chunk_values pcm total_n (int m) = map pcm [?a..?b - 1]"
    proof -
      have "map (\<lambda>i. pcm (?a + i)) [0..k - 1] = map pcm [?a..?a + k - 1]" for k
        by (rule nth_equalityI) (auto simp: nth_upto)
      then have "chunk_values pcm total_n (int m) = map pcm [?a..?a + min chunk_size (total_n - ?a) - 1]"
        by (simp add: chunk_values_def)
      moreover have "?a + min chunk_size (total_n - ?a) = ?b" by linarith
      ultimately show ?thesis by simp
    qed
    have "[0..?a - 1] @ [?a..?b - 1] = [0..?b - 1]"
      using upto_split1[of 0 ?a "?b - 1"] le by (auto simp: chunk_size_def)
    then have "map pcm [0..?a - 1] @ map pcm [?a..?b - 1] = map pcm [0..?b - 1]"
      by (metis map_append)
    then show ?case
      using Suc.IH Suc.prems le c by (simp add: sp min_absorb2 algebra_simps)
  qed simp
  from pre[of "nat n"] assms show ?thesis by simp
qed

text \<open>A recording of \<open>n\<close> samples arrives whole, in chunks numbered from 0.\<close>

lemma sine_chunks:
  assumes total: "dbl_to_sint 32 (dbl_mul d (dbl_of_int 44100)) = Some n" "0 \<le> n" "n < 2 ^ 31 - 1024"
    and s: "sampled (sine_sample sine frequency) pcm n"
  shows "concat (map ac_audio_data (accepted (sine_get_audio sine frequency now_of codec d)))
           = pcm16_samples_to_bytes (map pcm [0..n - 1])"
    and "map ac_sequence_number (accepted (sine_get_audio sine frequency now_of codec d))
           = [0..(n + 1023) div 1024 - 1]"
    and "source_result (sine_get_audio sine frequency now_of codec d) = Inr ()"
proof -
  let ?k = "(n + 1023) div 1024"
  have q: "(n + chunk_size - 1) sdiv chunk_size = ?k"
    using total(2) by (simp add: signed_divide_int_def chunk_size_def sgn_if)
  have src: "sine_get_audio sine frequency now_of codec d = chunk_source (sine_sample sine frequency) now_of codec n ?k 0"
    using total q by (simp add: sine_get_audio_def chunk_size_def in_sint_def)
  note acc = chunk_source_accepted[OF s, of 0, simplified]
  have b: "0 \<le> ?k" "(?k - 1) * chunk_size < n \<or> n = 0" "n \<le> ?k * chunk_size"
    using total(2) by (auto simp: chunk_size_def)
  have enc: "concat (map (\<lambda>k. pcm16_samples_to_bytes (f k)) ks) = pcm16_samples_to_bytes (concat (map f ks))"
    for f and ks :: "int list"
    by (induction ks) (auto simp: pcm16_samples_to_bytes_def)
  have "concat (map (chunk_values pcm n) [0..?k - 1]) = map pcm [0..n - 1]"
  proof (cases "n = 0")
    case False
    then show ?thesis using b by (intro chunk_values_concat) auto
  qed simp
  then show "concat (map ac_audio_data (accepted (sine_get_audio sine frequency now_of codec d)))
           = pcm16_samples_to_bytes (map pcm [0..n - 1])"
    using enc[of "chunk_values pcm n" "[0..?k - 1]"]
    by (simp add: src acc create_audio_chunk_def comp_def)
  show "map ac_sequence_number (accepted (sine_get_audio sine frequency now_of codec d)) = [0..?k - 1]"
    by (simp add: src acc create_audio_chunk_def comp_def)
  show "source_result (sine_get_audio sine frequency now_of codec d) = Inr ()"
    by (simp add: src acc)
qed

text \<open>
  Every sample is defined when the frequency passed the validation and is a number. \<open>bounded_sine\<close> is
  what \<^verbatim>\<open>std::sin\<close> promises of finite arguments.
\<close>

definition bounded_sine :: "(double \<Rightarrow> double) \<Rightarrow> bool" where
  "bounded_sine sine \<longleftrightarrow> (\<forall>x. dbl_finite x \<longrightarrow> dbl_le (dbl_abs (sine x)) (dbl_of_int 1))"

lemma dbl_abs_le_one:
  assumes "dbl_le (dbl_abs d) (dbl_of_int 1)"
  shows "dbl_finite d" and "dbl_nval d \<le> 2 ^ (1074 + 0)"
proof -
  have one: "dbl_mag (dbl_of_int 1) = 1023 * 2 ^ 52" "\<not> dbl_neg (dbl_of_int 1)"
    using dbl_of_int_samples(2) by (simp_all add: dbl_mag_def dbl_neg_def)
  have "dbl_mag d \<le> dbl_bits (2 ^ (2148 + 0))"
    using assms one dbl_bits_pow[of 0] by (simp add: dbl_le_def dbl_key_def dbl_signed_def)
  from dbl_below_pow[OF this] show "dbl_finite d" "dbl_nval d \<le> 2 ^ (1074 + 0)" by simp_all
qed

lemma frequency_bounded:
  assumes "\<not> dbl_is_nan f" "\<not> (dbl_le_zero f \<or> dbl_above_20000 f)"
  shows "dbl_finite f" and "dbl_nval f \<le> 2 ^ (1074 + 15)"
proof -
  have "\<not> dbl_neg f" "f \<le> dbl_20000" using assms by (auto simp: dbl_le_zero_def dbl_above_20000_def)
  then have "dbl_mag f \<le> (15 + 1023) * 2 ^ 52"
    by (simp add: dbl_mag_def dbl_20000_def word_le_nat_alt order.trans[OF mod_less_eq_dividend])
  then have "dbl_mag f \<le> dbl_bits (2 ^ (2148 + 15))" by (simp only: dbl_bits_pow)
  from dbl_below_pow[OF this] show "dbl_finite f" "dbl_nval f \<le> 2 ^ (1074 + 15)" by simp_all
qed

lemma sample_defined:
  assumes sine: "bounded_sine sine" and f: "\<not> dbl_is_nan f" "\<not> (dbl_le_zero f \<or> dbl_above_20000 f)"
    and i: "0 \<le> i" "i < 2 ^ 31"
  shows "\<exists>v. sine_sample sine f i = Some v"
proof -
  have i53: "\<bar>i\<bar> < 2 ^ 53" using i by simp
  have sec: "dbl_mag (dbl_div (dbl_of_int i) (dbl_of_int 44100)) \<le> dbl_bits (2 ^ (2148 + 16))"
  proof (rule dbl_div_bounded)
    show "dbl_finite (dbl_of_int i)" by (rule dbl_of_int_parts(3)[OF i53])
    have b: "\<bar>44100 :: int\<bar> < 2 ^ 53" by simp
    show "dbl_finite (dbl_of_int 44100)" by (rule dbl_of_int_parts(3)[OF b])
    have n: "dbl_nval (dbl_of_int 44100) = 44100 * 2 ^ 1074" using dbl_of_int_parts(2)[OF b] by simp
    then show "0 < dbl_nval (dbl_of_int 44100)" by simp
    have "nat \<bar>i\<bar> \<le> 44100 * 2 ^ 16" using i by simp
    then have "nat \<bar>i\<bar> * 2 ^ 1074 \<le> 44100 * 2 ^ 16 * 2 ^ 1074" by (rule mult_le_mono1)
    then show "dbl_nval (dbl_of_int i) \<le> dbl_nval (dbl_of_int 44100) * 2 ^ 16"
      unfolding n dbl_of_int_parts(2)[OF i53] by (simp only: mult_ac)
  qed
  note sec = dbl_below_pow[OF sec, simplified]
  have tp: "dbl_finite two_pi" "dbl_nval two_pi \<le> 2 ^ (1074 + 3)"
  proof -
    have "dbl_mag two_pi \<le> (3 + 1023) * 2 ^ 52" by (simp add: two_pi_def dbl_mag_def)
    then have "dbl_mag two_pi \<le> dbl_bits (2 ^ (2148 + 3))" by (simp only: dbl_bits_pow)
    from dbl_below_pow[OF this] show "dbl_finite two_pi" "dbl_nval two_pi \<le> 2 ^ (1074 + 3)" by simp_all
  qed
  have half: "dbl_finite dbl_half" "dbl_nval dbl_half \<le> 2 ^ (1074 + 0)"
  proof -
    have "dbl_mag dbl_half \<le> (0 + 1023) * 2 ^ 52" by (simp add: dbl_half_def dbl_mag_def)
    then have "dbl_mag dbl_half \<le> dbl_bits (2 ^ (2148 + 0))" by (simp only: dbl_bits_pow)
    from dbl_below_pow[OF this] show "dbl_finite dbl_half" "dbl_nval dbl_half \<le> 2 ^ (1074 + 0)" by simp_all
  qed
  note w = dbl_mul_below[OF tp(1) frequency_bounded(1)[OF f] tp(2) frequency_bounded(2)[OF f], simplified]
  have "dbl_finite (dbl_mul (dbl_mul two_pi f) (dbl_div (dbl_of_int i) (dbl_of_int 44100)))"
    by (rule dbl_mul_below(1)[where j = 18 and k = 16]) (use w sec in simp_all)
  then have "dbl_le (dbl_abs (sine (dbl_mul (dbl_mul two_pi f) (dbl_div (dbl_of_int i) (dbl_of_int 44100))))) (dbl_of_int 1)"
    using sine by (simp add: bounded_sine_def)
  note s = dbl_abs_le_one[OF this]
  let ?a = "generate_sine_sample sine f dbl_half (dbl_div (dbl_of_int i) (dbl_of_int 44100))"
  have a: "dbl_finite ?a" "dbl_nval ?a \<le> 2 ^ (1074 + (0 + 0))"
    unfolding generate_sine_sample_def by (rule dbl_mul_below[OF half(1) s(1) half(2) s(2)], simp)+
  have b: "\<bar>32767 :: int\<bar> < 2 ^ 53" by simp
  have n: "dbl_nval (dbl_of_int 32767) = 32767 * 2 ^ 1074" using dbl_of_int_parts(2)[OF b] by simp
  have "dbl_nval ?a * dbl_nval (dbl_of_int 32767) \<le> 2 ^ 1074 * (32767 * 2 ^ 1074)"
    unfolding n using a(2) by (intro mult_le_mono1) simp
  then have "dbl_mag (dbl_mul ?a (dbl_of_int 32767)) \<le> dbl_mag (dbl_of_int 32767)"
    unfolding dbl_mul_exact(1)[OF a(1) dbl_of_int_parts(3)[OF b]] dbl_of_int_mag[OF b]
    by (intro dbl_bits_mono) (simp add: mult_ac)
  note p = dbl_below[OF this dbl_of_int_parts(3)[OF b], unfolded n]
  from dbl_to_sint_below[OF p, of 16] show ?thesis
    by (auto simp: sine_sample_def float_to_pcm16_def)
qed

text \<open>A validated component with a frequency that is a number records \<open>n\<close> samples without undefined behaviour.\<close>

lemma validated_sine:
  assumes "validate_sine cfg = Inr deps" "\<not> dbl_is_nan (sine_frequency cfg)" "bounded_sine sine" "n < 2 ^ 31"
  shows "sampled (sine_sample sine (sine_frequency cfg)) (\<lambda>i. the (sine_sample sine (sine_frequency cfg) i)) n"
proof -
  have "\<not> (dbl_le_zero (sine_frequency cfg) \<or> dbl_above_20000 (sine_frequency cfg))"
    using assms(1)
    by (auto simp: validate_sine_def sine_frequency_def dbl_440_def dbl_le_zero_def dbl_above_20000_def dbl_is_zero_def
        dbl_neg_def dbl_20000_def split: option.splits if_splits)
  note d = sample_defined[OF assms(3,2) this]
  show ?thesis unfolding sampled_def using d assms(4) by fastforce
qed

end
