(* ===== verification/ExampleTFLite.thy ===== *)
theory ExampleTFLite
  imports MLModel ModuleService
begin

text \<open>
  The ML model service of the TensorFlow Lite example (\<^verbatim>\<open>examples/modules/tflite/main.cpp\<close>): the
  parsing of its configuration, the metadata and the renaming of tensors, inference over an
  interpreter, and the life of the service under concurrent calls, reconfigurations and stops.
  TensorFlow Lite is an argument, a record of the functions of its C API the code calls. A call that
  reports an error returns the message, which replaces the one stored.
\<close>

subsection \<open>The interface of the interpreter\<close>

datatype tf_type =
    kTfLiteInt8 | kTfLiteUInt8 | kTfLiteInt16 | kTfLiteUInt16 | kTfLiteInt32 | kTfLiteUInt32
  | kTfLiteInt64 | kTfLiteUInt64 | kTfLiteFloat32 | kTfLiteFloat64 | kTfLite_other nat

record tflite_tensor =
  tt_name :: string
  tt_type :: tf_type
  tt_dims :: "32 word list option"
  tt_data :: "byte list"

record ('m, 'i) tflite =
  tfl_read_file :: "string \<Rightarrow> byte list option"
  tfl_create_model :: "byte list \<Rightarrow> 'm option \<times> string option"
  tfl_create_interpreter :: "'m \<Rightarrow> int option \<Rightarrow> 'i option \<times> string option"
  tfl_allocate_tensors :: "'i \<Rightarrow> (bool \<times> string option) \<times> 'i"
  tfl_input_count :: "'i \<Rightarrow> nat"
  tfl_input :: "'i \<Rightarrow> nat \<Rightarrow> tflite_tensor option"
  tfl_output_count :: "'i \<Rightarrow> nat"
  tfl_output :: "'i \<Rightarrow> nat \<Rightarrow> tflite_tensor option"
  tfl_copy_in :: "'i \<Rightarrow> nat \<Rightarrow> byte list \<Rightarrow> (bool \<times> string option) \<times> 'i"
  tfl_invoke :: "'i \<Rightarrow> (bool \<times> string option) \<times> 'i"
  tfl_show_double :: "double \<Rightarrow> string"
  tfl_show_pointer :: string

text \<open>The error reporter formats into 4096 bytes and overwrites what was stored.\<close>

definition report :: "string option \<Rightarrow> string \<Rightarrow> string" where
  "report r err = (case r of None \<Rightarrow> err | Some msg \<Rightarrow> take 4095 msg)"

definition tflite_name :: string where
  "tflite_name = ''example_mlmodelservice_tflite''"

definition in_backquotes :: "string \<Rightarrow> string" where
  "in_backquotes s = CHR 0x60 # s @ [CHR 0x60]"

subsection \<open>The configuration\<close>

definition model_path_of :: "proto_struct \<Rightarrow> string res" where
  "model_path_of attributes =
     (case map_of attributes ''model_path'' of
        None \<Rightarrow> Inl (InvalidArgument (tflite_name @ '': Required parameter '' @ in_backquotes ''model_path''
                  @ '' not found in configuration''))
      | Some v \<Rightarrow>
          (case get_string v of
             Some path \<Rightarrow>
               if path \<noteq> [] then Inr path
               else Inl (InvalidArgument (tflite_name @ '': Required non-empty string parameter ''
                  @ in_backquotes ''model_path'' @ '' is either not a string or is an empty string''))
           | None \<Rightarrow> Inl (InvalidArgument (tflite_name @ '': Required non-empty string parameter ''
                  @ in_backquotes ''model_path'' @ '' is either not a string or is an empty string''))))"

fun add_remappings :: "proto_struct \<Rightarrow> (string \<times> string) list \<Rightarrow> (string \<times> string) list res" where
  "add_remappings [] target = Inr target"
| "add_remappings (kv # source) target =
     (case get_string (snd kv) of
        None \<Rightarrow> Inl (InvalidArgument (tflite_name @ '': Fields '' @ in_backquotes ''inputs'' @ '' and ''
                  @ in_backquotes ''outputs'' @ '' of '' @ in_backquotes ''tensor_name_remappings''
                  @ '' must be dictionaries with string values''))
      | Some s \<Rightarrow> add_remappings source (aput (fst kv) s target))"

definition populate_remappings :: "proto_value \<Rightarrow> (string \<times> string) list res" where
  "populate_remappings source =
     (case get_struct source of
        None \<Rightarrow> Inl (InvalidArgument (tflite_name @ '': Fields '' @ in_backquotes ''inputs'' @ '' and ''
                  @ in_backquotes ''outputs'' @ '' of '' @ in_backquotes ''tensor_name_remappings''
                  @ '' must be dictionaries''))
      | Some attrs \<Rightarrow> add_remappings attrs [])"

definition field_remappings :: "proto_struct \<Rightarrow> string \<Rightarrow> (string \<times> string) list res" where
  "field_remappings remappings field =
     (case map_of remappings field of None \<Rightarrow> Inr [] | Some source \<Rightarrow> populate_remappings source)"

definition remappings_of :: "proto_struct \<Rightarrow> ((string \<times> string) list \<times> (string \<times> string) list) res" where
  "remappings_of attributes =
     (case map_of attributes ''tensor_name_remappings'' of
        None \<Rightarrow> Inr ([], [])
      | Some v \<Rightarrow>
          (case get_struct v of
             None \<Rightarrow> Inl (InvalidArgument (tflite_name @ '': Optional parameter ''
                       @ in_backquotes ''tensor_name_remappings'' @ '' must be a dictionary''))
           | Some remappings \<Rightarrow>
               rbind (field_remappings remappings ''inputs'') (\<lambda>ins.
               rbind (field_remappings remappings ''outputs'') (\<lambda>outs. Inr (ins, outs)))))"

text \<open>\<^verbatim>\<open>std::isnormal\<close>, and \<^verbatim>\<open>>=\<close> against \<^verbatim>\<open>INT32_MAX\<close> for a double that is normal and not negative.\<close>

definition dbl_is_normal :: "double \<Rightarrow> bool" where
  "dbl_is_normal d \<longleftrightarrow> dbl_exp d \<noteq> 0 \<and> dbl_exp d \<noteq> 2047"

definition dbl_is_integer :: "double \<Rightarrow> int option" where
  "dbl_is_integer d =
     (case dbl_trunc d of None \<Rightarrow> None | Some n \<Rightarrow> if dbl_eq (dbl_of_int n) d then Some n else None)"

text \<open>The message of the rejection reads the number, which is null when the value is not one.\<close>

definition num_threads_of :: "(double \<Rightarrow> string) \<Rightarrow> proto_struct \<Rightarrow> int option res" where
  "num_threads_of show_double attributes =
     (case map_of attributes ''num_threads'' of
        None \<Rightarrow> Inr None
      | Some v \<Rightarrow>
          (case get_double v of
             None \<Rightarrow> Inl (Undefined ''null dereference'')
           | Some d \<Rightarrow>
               (case dbl_is_integer d of
                  Some n \<Rightarrow>
                    if dbl_is_normal d \<and> \<not> dbl_neg d \<and> d < dbl_of_int (2 ^ 31 - 1) then Inr (Some n)
                    else Inl (InvalidArgument (tflite_name @ '': Value for field '' @ in_backquotes ''num_threads''
                           @ '' is not a positive integer: '' @ show_double d))
                | None \<Rightarrow> Inl (InvalidArgument (tflite_name @ '': Value for field '' @ in_backquotes ''num_threads''
                           @ '' is not a positive integer: '' @ show_double d)))))"

subsection \<open>Types and shapes\<close>

fun service_data_type :: "tf_type \<Rightarrow> data_types res" where
  "service_data_type kTfLiteInt8 = Inr k_int8"
| "service_data_type kTfLiteUInt8 = Inr k_uint8"
| "service_data_type kTfLiteInt16 = Inr k_int16"
| "service_data_type kTfLiteUInt16 = Inr k_uint16"
| "service_data_type kTfLiteInt32 = Inr k_int32"
| "service_data_type kTfLiteUInt32 = Inr k_uint32"
| "service_data_type kTfLiteInt64 = Inr k_int64"
| "service_data_type kTfLiteUInt64 = Inr k_uint64"
| "service_data_type kTfLiteFloat32 = Inr k_float32"
| "service_data_type kTfLiteFloat64 = Inr k_float64"
| "service_data_type (kTfLite_other n) =
     Inl (InvalidArgument (tflite_name @ '': Model contains unsupported tflite data type'' @ show_nat n))"

definition renamed :: "(string \<times> string) list \<Rightarrow> string \<Rightarrow> string" where
  "renamed remappings name = (case map_of remappings name of Some n \<Rightarrow> n | None \<Rightarrow> name)"

definition tensor_entry ::
  "string \<Rightarrow> (string \<times> string) list \<Rightarrow> tflite_tensor option \<Rightarrow> tensor_info res" where
  "tensor_entry kind remappings tensor =
     (case tensor of
        None \<Rightarrow> Inl (Undefined ''null tensor'')
      | Some t \<Rightarrow>
          (case tt_dims t of
             None \<Rightarrow> Inl (StdException (tflite_name @ '': Unable to determine '' @ kind
                       @ '' tensor shape at configuration time, inference not possible''))
           | Some dims \<Rightarrow>
               rmap (\<lambda>dt. \<lparr>ti_name = renamed remappings (tt_name t), ti_description = [],
                            ti_data_type = dt, ti_shape = dims, ti_associated_files = [], ti_extra = []\<rparr>)
                 (service_data_type (tt_type t))))"

text \<open>The walk over the tensors of one side, from index \<open>i\<close> on: the infos and the index of each name.\<close>

fun tensor_entries ::
  "string \<Rightarrow> (string \<times> string) list \<Rightarrow> (nat \<Rightarrow> tflite_tensor option) \<Rightarrow> nat list \<Rightarrow>
   tensor_info list \<Rightarrow> (string \<times> nat) list \<Rightarrow> (tensor_info list \<times> (string \<times> nat) list) res" where
  "tensor_entries kind remappings get [] infos indices = Inr (infos, indices)"
| "tensor_entries kind remappings get (i # is) infos indices =
     rbind (tensor_entry kind remappings (get i)) (\<lambda>info.
       tensor_entries kind remappings get is (infos @ [info]) (aput (ti_name info) i indices))"

subsection \<open>Building a state\<close>

record 'i tf_state =
  tfs_metadata :: ml_metadata
  tfs_input_ix :: "(string \<times> nat) list"
  tfs_output_ix :: "(string \<times> nat) list"
  tfs_error :: string
  tfs_interpreter :: 'i

definition load_model :: "('m, 'i) tflite \<Rightarrow> string \<Rightarrow> ('m \<times> string) res" where
  "load_model tfl path =
     (case tfl_read_file tfl path of
        None \<Rightarrow> Inl (InvalidArgument (tflite_name @ '': Failed to open file for '' @ in_backquotes ''model_path''
                       @ '' '' @ path))
      | Some bytes \<Rightarrow>
          let (model, r) = tfl_create_model tfl bytes; err = report r [] in
          (case model of
             None \<Rightarrow> Inl (InvalidArgument (tflite_name @ '': Failed to load model from file ''
                            @ in_backquotes (tfl_show_pointer tfl) @ '': '' @ err))
           | Some m \<Rightarrow> Inr (m, err)))"

definition make_interpreter :: "('m, 'i) tflite \<Rightarrow> 'm \<Rightarrow> int option \<Rightarrow> string \<Rightarrow> ('i \<times> string) res" where
  "make_interpreter tfl model threads err =
     (let (interp, r) = tfl_create_interpreter tfl model threads; err1 = report r err in
      case interp of
        None \<Rightarrow> Inl (StdException (tflite_name @ '': Failed to create tflite interpreter: '' @ err1))
      | Some i \<Rightarrow>
          (let ((ok, r2), i') = tfl_allocate_tensors tfl i; err2 = report r2 err1 in
           if ok then Inr (i', err2)
           else Inl (StdException (tflite_name @ '': Failed to allocate tensors for tflite interpreter: ''
                       @ err2))))"

text \<open>\<^verbatim>\<open>reconfigure_\<close>.\<close>

definition build_state :: "('m, 'i) tflite \<Rightarrow> resource_config \<Rightarrow> 'i tf_state res" where
  "build_state tfl cfg =
     rbind (model_path_of (cf_attributes cfg)) (\<lambda>path.
     rbind (remappings_of (cf_attributes cfg)) (\<lambda>(ins, outs).
     rbind (load_model tfl path) (\<lambda>(model, err).
     rbind (num_threads_of (tfl_show_double tfl) (cf_attributes cfg)) (\<lambda>threads.
     rbind (make_interpreter tfl model threads err) (\<lambda>(interp, err2).
     rbind (tensor_entries ''input'' ins (tfl_input tfl interp) [0..<tfl_input_count tfl interp] [] [])
       (\<lambda>(inputs, input_ix).
     rbind (tensor_entries ''output'' outs (tfl_output tfl interp) [0..<tfl_output_count tfl interp] [] [])
       (\<lambda>(outputs, output_ix).
       Inr \<lparr>tfs_metadata = \<lparr>md_name = [], md_type = [], md_description = [], md_inputs = inputs,
                             md_outputs = outputs\<rparr>,
            tfs_input_ix = input_ix, tfs_output_ix = output_ix, tfs_error = err2,
            tfs_interpreter = interp\<rparr>)))))))"

subsection \<open>Inference\<close>

text \<open>A tensor's elements as the bytes of a little-endian machine, and a buffer read back.\<close>

definition elems_bytes :: "nat \<Rightarrow> 'a::len word list \<Rightarrow> byte list" where
  "elems_bytes k ws = concat (map (\<lambda>w. le_bytes k (unat w)) ws)"

definition bytes_elems :: "nat \<Rightarrow> byte list \<Rightarrow> 'a::len word list" where
  "bytes_elems k bs = map (\<lambda>c. word_of_nat (le_val c)) (chunks k (length bs div k) bs)"

definition tensor_bytes :: "tensor_data \<Rightarrow> byte list" where
  "tensor_bytes d =
     (case d of
        D_int8 t \<Rightarrow> elems_bytes 1 t | D_uint8 t \<Rightarrow> elems_bytes 1 t
      | D_int16 t \<Rightarrow> elems_bytes 2 t | D_uint16 t \<Rightarrow> elems_bytes 2 t
      | D_int32 t \<Rightarrow> elems_bytes 4 t | D_uint32 t \<Rightarrow> elems_bytes 4 t
      | D_int64 t \<Rightarrow> elems_bytes 8 t | D_uint64 t \<Rightarrow> elems_bytes 8 t
      | D_float t \<Rightarrow> elems_bytes 4 t | D_double t \<Rightarrow> elems_bytes 8 t)"

fun bytes_tensor :: "tf_type \<Rightarrow> byte list \<Rightarrow> tensor_data res" where
  "bytes_tensor kTfLiteInt8 bs = Inr (D_int8 (bytes_elems 1 bs))"
| "bytes_tensor kTfLiteUInt8 bs = Inr (D_uint8 (bytes_elems 1 bs))"
| "bytes_tensor kTfLiteInt16 bs = Inr (D_int16 (bytes_elems 2 bs))"
| "bytes_tensor kTfLiteUInt16 bs = Inr (D_uint16 (bytes_elems 2 bs))"
| "bytes_tensor kTfLiteInt32 bs = Inr (D_int32 (bytes_elems 4 bs))"
| "bytes_tensor kTfLiteUInt32 bs = Inr (D_uint32 (bytes_elems 4 bs))"
| "bytes_tensor kTfLiteInt64 bs = Inr (D_int64 (bytes_elems 8 bs))"
| "bytes_tensor kTfLiteUInt64 bs = Inr (D_uint64 (bytes_elems 8 bs))"
| "bytes_tensor kTfLiteFloat32 bs = Inr (D_float (bytes_elems 4 bs))"
| "bytes_tensor kTfLiteFloat64 bs = Inr (D_double (bytes_elems 8 bs))"
| "bytes_tensor (kTfLite_other n) bs =
     Inl (InvalidArgument (tflite_name @ '': Model returned unsupported tflite data type: '' @ show_nat n))"

definition make_tensor_view :: "tensor_info \<Rightarrow> tflite_tensor \<Rightarrow> tensor_view res" where
  "make_tensor_view info t =
     rmap (\<lambda>data. \<lparr>tv_data = data, tv_shape = map scast (ti_shape info)\<rparr>)
       (bytes_tensor (tt_type t) (tt_data t))"

text \<open>The visitor, with the status \<^verbatim>\<open>TfLiteTensorCopyFromBuffer\<close> returns.\<close>

definition write_tensor ::
  "('m, 'i) tflite \<Rightarrow> string \<Rightarrow> nat \<Rightarrow> tflite_tensor \<Rightarrow> tensor_view \<Rightarrow> ('i tf_state, bool) stm" where
  "write_tensor tfl name ix t v =
     (let data = tensor_bytes (tv_data v) in
      if length (tt_data t) \<noteq> length data then
        st_throw (InvalidArgument (tflite_name @ '': tensor '' @ in_backquotes name
          @ '' was expected to have byte size '' @ show_nat (length (tt_data t)) @ '' but ''
          @ show_nat (length data) @ '' bytes were provided''))
      else (\<lambda>s. let ((ok, r), i') = tfl_copy_in tfl (tfs_interpreter s) ix data
                in (Inr ok, s\<lparr>tfs_interpreter := i', tfs_error := report r (tfs_error s)\<rparr>)))"

definition write_input :: "('m, 'i) tflite \<Rightarrow> string \<times> tensor_view \<Rightarrow> ('i tf_state, unit) stm" where
  "write_input tfl kv =
     st_bind (st_get (\<lambda>s. (map_of (tfs_input_ix s) (fst kv), tfs_interpreter s))) (\<lambda>(where_ix, interp).
       case where_ix of
         None \<Rightarrow> st_throw (InvalidArgument (tflite_name @ '': Tensor name '' @ in_backquotes (fst kv)
                   @ '' is not a known input tensor name for the model''))
       | Some ix \<Rightarrow>
           (case tfl_input tfl interp ix of
              None \<Rightarrow> st_throw (InvalidArgument (tflite_name
                        @ '': Failed to obtain tflite input tensor for '' @ in_backquotes (fst kv) @ '' (index ''
                        @ show_nat ix @ '')''))
            | Some t \<Rightarrow>
                st_bind (write_tensor tfl (fst kv) ix t (snd kv)) (\<lambda>ok.
                  if ok then st_return ()
                  else st_bind (st_get tfs_error) (\<lambda>err.
                    st_throw (InvalidArgument (tflite_name @ '': input tensor '' @ in_backquotes (fst kv)
                      @ '' failed population: '' @ err))))))"

definition tf_invoke :: "('m, 'i) tflite \<Rightarrow> ('i tf_state, unit) stm" where
  "tf_invoke tfl s =
     (let ((ok, r), i') = tfl_invoke tfl (tfs_interpreter s);
          s' = s\<lparr>tfs_interpreter := i', tfs_error := report r (tfs_error s)\<rparr>
      in if ok then (Inr (), s')
         else (Inl (StdException (tflite_name @ '': interpreter invocation failed: '' @ tfs_error s')), s'))"

fun collect_outputs ::
  "('m, 'i) tflite \<Rightarrow> 'i tf_state \<Rightarrow> tensor_info list \<Rightarrow> named_tensor_views \<Rightarrow> named_tensor_views res" where
  "collect_outputs tfl s [] views = Inr views"
| "collect_outputs tfl s (info # infos) views =
     (case map_of (tfs_output_ix s) (ti_name info) of
        None \<Rightarrow> collect_outputs tfl s infos views
      | Some ix \<Rightarrow>
          (case tfl_output tfl (tfs_interpreter s) ix of
             None \<Rightarrow> Inl (Undefined ''null tensor'')
           | Some t \<Rightarrow>
               rbind (make_tensor_view info t) (\<lambda>v.
                 collect_outputs tfl s infos (emplace (ti_name info) v views))))"

text \<open>\<^verbatim>\<open>infer\<close> on a leased state whose interpreter is locked.\<close>

definition tf_infer :: "('m, 'i) tflite \<Rightarrow> named_tensor_views \<Rightarrow> ('i tf_state, named_tensor_views) stm" where
  "tf_infer tfl inputs =
     st_bind (st_get (\<lambda>s. length (tfs_input_ix s))) (\<lambda>expected.
       if length inputs < expected then
         st_throw (InvalidArgument (tflite_name @ '': Too few inputs provided for inference''))
       else
         st_bind (st_for inputs (write_input tfl)) (\<lambda>_.
         st_bind (tf_invoke tfl) (\<lambda>_ s. (collect_outputs tfl s (md_outputs (tfs_metadata s)) [], s))))"

subsection \<open>The service under concurrent calls\<close>

text \<open>
  The service holds a state or none, and whether it was stopped; each call in flight is a thread. A
  thread that waits on the condition variable goes on only while the predicate of the wait holds:
  there is a state and the service is not stopped. \<open>build\<close> is \<^verbatim>\<open>reconfigure_\<close>.
\<close>

datatype ('c, 'st) tf_thread =
    Leasing
  | Leased 'st
  | Wants_new 'c
  | Building 'c
  | Stopping
  | Returned
  | Threw exn

record 'st tf_service =
  svc_state :: "'st option"
  svc_stopped :: bool

definition stopped_exn :: exn where
  "stopped_exn = StdException (tflite_name @ '': service is stopped: '')"

definition svc_ready :: "'st tf_service \<Rightarrow> bool" where
  "svc_ready s \<longleftrightarrow> svc_state s \<noteq> None \<and> \<not> svc_stopped s"

definition svc_stop :: "'st tf_service \<Rightarrow> 'st tf_service" where
  "svc_stop s = (if svc_stopped s then s else s\<lparr>svc_state := None, svc_stopped := True\<rparr>)"

text \<open>\<^verbatim>\<open>check_stopped_inlock_\<close> and the second critical section of \<^verbatim>\<open>reconfigure\<close>.\<close>

definition svc_install :: "'st \<Rightarrow> 'st tf_service \<Rightarrow> unit res \<times> 'st tf_service" where
  "svc_install st s =
     (if svc_stopped s then (Inl stopped_exn, s) else (Inr (), s\<lparr>svc_state := Some st\<rparr>))"

text \<open>What a building thread does when \<^verbatim>\<open>reconfigure_\<close> is done; any failure stops the service.\<close>

definition finish_build ::
  "('c \<Rightarrow> 'st res) \<Rightarrow> 'c \<Rightarrow> 'st tf_service \<Rightarrow> 'st tf_service \<times> ('c, 'st) tf_thread" where
  "finish_build build c s =
     (case build c of
        Inl e \<Rightarrow> (svc_stop s, Threw e)
      | Inr st \<Rightarrow>
          (case svc_install st s of
             (Inl e, s') \<Rightarrow> (svc_stop s', Threw e)
           | (Inr _, s') \<Rightarrow> (s', Returned)))"

inductive tf_step ::
  "('c \<Rightarrow> 'st res) \<Rightarrow> 'st tf_service \<times> ('c, 'st) tf_thread list \<Rightarrow>
   'st tf_service \<times> ('c, 'st) tf_thread list \<Rightarrow> bool" for build where
  tf_call: "t \<in> {Leasing, Stopping} \<or> t = Wants_new c \<Longrightarrow> tf_step build (s, ts) (s, ts @ [t])"
| tf_lease: "i < length ts \<Longrightarrow> ts ! i = Leasing \<Longrightarrow> svc_ready s \<Longrightarrow>
    tf_step build (s, ts) (s, ts[i := Leased (the (svc_state s))])"
| tf_done: "i < length ts \<Longrightarrow> ts ! i = Leased st \<Longrightarrow> tf_step build (s, ts) (s, ts[i := Returned])"
| tf_take: "i < length ts \<Longrightarrow> ts ! i = Wants_new c \<Longrightarrow> svc_ready s \<Longrightarrow>
    tf_step build (s, ts) (s\<lparr>svc_state := None\<rparr>, ts[i := Building c])"
| tf_built: "i < length ts \<Longrightarrow> ts ! i = Building c \<Longrightarrow> finish_build build c s = (s', t) \<Longrightarrow>
    tf_step build (s, ts) (s', ts[i := t])"
| tf_stop: "i < length ts \<Longrightarrow> ts ! i = Stopping \<Longrightarrow>
    tf_step build (s, ts) (svc_stop s, ts[i := Returned])"

definition is_building :: "('c, 'st) tf_thread \<Rightarrow> bool" where
  "is_building t \<longleftrightarrow> (case t of Building c \<Rightarrow> True | _ \<Rightarrow> False)"

text \<open>At most one thread builds, and only while the service has no state; a running service without a
  state has its builder; a stopped one has no state.\<close>

definition tf_inv :: "'st tf_service \<times> ('c, 'st) tf_thread list \<Rightarrow> bool" where
  "tf_inv x =
     (let (s, ts) = x; builders = filter is_building ts in
      length builders \<le> 1
      \<and> (svc_state s \<noteq> None \<longrightarrow> builders = [])
      \<and> (svc_state s = None \<and> \<not> svc_stopped s \<longrightarrow> builders \<noteq> [])
      \<and> (svc_stopped s \<longrightarrow> svc_state s = None))"

subsection \<open>Lemmas: configuration\<close>

lemma tensor_entries_spec:
  "tensor_entries kind r get is infos ix = Inr (infos', ix') \<Longrightarrow>
   \<exists>es. infos' = infos @ es \<and> list_all2 (\<lambda>i e. tensor_entry kind r (get i) = Inr e) is es
        \<and> ix' = foldl (\<lambda>m (e, i). aput (ti_name e) i m) ix (zip es is)"
proof (induction "is" arbitrary: infos ix)
  case (Cons i "is")
  from Cons.prems obtain e where e: "tensor_entry kind r (get i) = Inr e"
    "tensor_entries kind r get is (infos @ [e]) (aput (ti_name e) i ix) = Inr (infos', ix')"
    by (auto simp: rbind_eq_Inr)
  from Cons.IH[OF e(2)] obtain es where
    "infos' = (infos @ [e]) @ es" "list_all2 (\<lambda>i e. tensor_entry kind r (get i) = Inr e) is es"
    "ix' = foldl (\<lambda>m (e, i). aput (ti_name e) i m) (aput (ti_name e) i ix) (zip es is)"
    by blast
  then show ?case using e(1) by (intro exI[of _ "e # es"]) simp
qed simp

lemma index_fold_other:
  "name \<notin> ti_name ` set es \<Longrightarrow>
   map_of (foldl (\<lambda>m (e, i). aput (ti_name e) i m) ix (zip es is)) name = map_of ix name"
  by (induction es "is" arbitrary: ix rule: list_induct2') auto

text \<open>The index kept for a name is that of the last tensor that bears it.\<close>

lemma index_fold_last:
  "length es = length is \<Longrightarrow> k < length es \<Longrightarrow> ti_name (es ! k) = name \<Longrightarrow>
   \<forall>j. k < j \<and> j < length es \<longrightarrow> ti_name (es ! j) \<noteq> name \<Longrightarrow>
   map_of (foldl (\<lambda>m (e, i). aput (ti_name e) i m) ix (zip es is)) name = Some (is ! k)"
proof (induction es "is" arbitrary: ix k rule: list_induct2)
  case (Cons e es i "is")
  show ?case
  proof (cases k)
    case 0
    have "name \<notin> ti_name ` set es"
      using Cons.prems(3) 0 by (fastforce simp: in_set_conv_nth)
    then show ?thesis using Cons.prems(2) 0 by (simp add: index_fold_other)
  next
    case (Suc k')
    then show ?thesis using Cons.IH[of k'] Cons.prems by fastforce
  qed
qed simp

lemma length_aput: "length (aput k v m) \<le> Suc (length m)"
  by (induction m) auto

lemma index_fold_length:
  "length (foldl (\<lambda>m (e, i). aput (ti_name e) i m) ix (zip es is)) \<le> length ix + length es"
proof (induction es "is" arbitrary: ix rule: list_induct2')
  case (4 e es i "is")
  then show ?case using le_trans[OF 4[of "aput (ti_name e) i ix"]] length_aput[of "ti_name e" i ix] by simp
qed simp_all

text \<open>What a built state says of its tensors, on either side.\<close>

lemma tensor_entries_indices:
  assumes "tensor_entries kind r get [0..<n] [] [] = Inr (infos, ix)"
  shows "length infos = n"
    and "k < n \<Longrightarrow> tensor_entry kind r (get k) = Inr (infos ! k)"
    and "k < n \<Longrightarrow> \<forall>j. k < j \<and> j < n \<longrightarrow> ti_name (infos ! j) \<noteq> ti_name (infos ! k) \<Longrightarrow>
      map_of ix (ti_name (infos ! k)) = Some k"
    and "name \<notin> ti_name ` set infos \<Longrightarrow> map_of ix name = None"
    and "length ix \<le> n"
proof -
  obtain es where es: "infos = es" "list_all2 (\<lambda>i e. tensor_entry kind r (get i) = Inr e) [0..<n] es"
    "ix = foldl (\<lambda>m (e, i). aput (ti_name e) i m) [] (zip es [0..<n])"
    using tensor_entries_spec[OF assms] by auto
  show len: "length infos = n" using es(1,2) list_all2_lengthD by force
  show "tensor_entry kind r (get k) = Inr (infos ! k)" if "k < n"
    using list_all2_nthD[OF es(2), of k] that es(1) by simp
  show "map_of ix (ti_name (infos ! k)) = Some k" if "k < n"
    "\<forall>j. k < j \<and> j < n \<longrightarrow> ti_name (infos ! j) \<noteq> ti_name (infos ! k)"
    using index_fold_last[of es "[0..<n]" k "ti_name (infos ! k)" "[]"] that len es by simp
  show "map_of ix name = None" if "name \<notin> ti_name ` set infos"
    using index_fold_other[of name es "[]" "[0..<n]"] that es by simp
  show "length ix \<le> n" using index_fold_length[of "[]" es "[0..<n]"] es len by simp
qed

lemma tensor_entry_name:
  "tensor_entry kind r t = Inr e \<Longrightarrow> \<exists>t'. t = Some t' \<and> ti_name e = renamed r (tt_name t') \<and> tt_dims t' = Some (ti_shape e)
     \<and> service_data_type (tt_type t') = Inr (ti_data_type e)"
  by (auto simp: tensor_entry_def rmap_eq_Inr split: option.splits)

text \<open>The inputs a built state offers, in the interpreter's order, and where each is found.\<close>

lemma build_state_inputs:
  assumes "build_state tfl cfg = Inr s"
  defines "infos \<equiv> md_inputs (tfs_metadata s)"
  shows "length infos = tfl_input_count tfl (tfs_interpreter s)"
    and "k < length infos \<Longrightarrow> \<exists>ins outs t. remappings_of (cf_attributes cfg) = Inr (ins, outs)
          \<and> tfl_input tfl (tfs_interpreter s) k = Some t \<and> ti_name (infos ! k) = renamed ins (tt_name t)
          \<and> tt_dims t = Some (ti_shape (infos ! k))"
    and "k < length infos \<Longrightarrow> \<forall>j. k < j \<and> j < length infos \<longrightarrow> ti_name (infos ! j) \<noteq> ti_name (infos ! k) \<Longrightarrow>
          map_of (tfs_input_ix s) (ti_name (infos ! k)) = Some k"
    and "name \<notin> ti_name ` set infos \<Longrightarrow> map_of (tfs_input_ix s) name = None"
    and "length (tfs_input_ix s) \<le> length infos"
proof -
  from assms(1) obtain path ins outs model err threads interp err2 inputs input_ix outputs output_ix where
    p: "remappings_of (cf_attributes cfg) = Inr (ins, outs)"
      "tensor_entries ''input'' ins (tfl_input tfl interp) [0..<tfl_input_count tfl interp] [] [] = Inr (inputs, input_ix)"
    and s: "s = \<lparr>tfs_metadata = \<lparr>md_name = [], md_type = [], md_description = [], md_inputs = inputs,
                             md_outputs = outputs\<rparr>,
            tfs_input_ix = input_ix, tfs_output_ix = output_ix, tfs_error = err2, tfs_interpreter = interp\<rparr>"
    by (auto simp: build_state_def rbind_eq_Inr)
  note t = tensor_entries_indices[OF p(2)]
  have i: "infos = inputs" by (simp add: infos_def s)
  show len: "length infos = tfl_input_count tfl (tfs_interpreter s)" using t(1) by (simp add: i s)
  show "\<exists>ins outs t. remappings_of (cf_attributes cfg) = Inr (ins, outs)
          \<and> tfl_input tfl (tfs_interpreter s) k = Some t \<and> ti_name (infos ! k) = renamed ins (tt_name t)
          \<and> tt_dims t = Some (ti_shape (infos ! k))" if "k < length infos"
    using tensor_entry_name[OF t(2)[of k]] that len p(1) by (auto simp: i s)
  show "map_of (tfs_input_ix s) (ti_name (infos ! k)) = Some k" if "k < length infos"
    "\<forall>j. k < j \<and> j < length infos \<longrightarrow> ti_name (infos ! j) \<noteq> ti_name (infos ! k)"
    using t(1) t(3)[of k] that by (simp add: i s)
  show "map_of (tfs_input_ix s) name = None" if "name \<notin> ti_name ` set infos"
    using t(4) that by (simp add: i s)
  show "length (tfs_input_ix s) \<le> length infos" using t(1,5) by (simp add: i s)
qed

text \<open>Nothing of a configuration is looked at after its first fault.\<close>

lemma build_state_no_path:
  "map_of (cf_attributes cfg) ''model_path'' = None \<Longrightarrow>
   build_state tfl cfg = Inl (InvalidArgument (tflite_name @ '': Required parameter '' @ in_backquotes ''model_path''
                  @ '' not found in configuration''))"
  by (simp add: build_state_def model_path_of_def)

text \<open>A thread count that is not a number is read through a null pointer, for the message.\<close>

lemma num_threads_not_a_number:
  "map_of attributes ''num_threads'' = Some v \<Longrightarrow> get_double v = None \<Longrightarrow>
   num_threads_of sd attributes = Inl (Undefined ''null dereference'')"
  by (simp add: num_threads_of_def)

lemma num_threads_accepted:
  "num_threads_of sd attributes = Inr (Some n) \<Longrightarrow>
   \<exists>d. map_of attributes ''num_threads'' = Some (PDouble d) \<and> dbl_trunc d = Some n \<and> 0 \<le> n"
  by (auto simp: num_threads_of_def dbl_is_integer_def dbl_trunc_def Let_def
      split: option.splits if_splits elim!: get_double.elims)

subsection \<open>Lemmas: the bytes of tensors\<close>

interpretation le8: fixed_width_codec 1 "2 ^ 8" "le_bytes 1" le_val
proof unfold_locales
  fix bs :: "byte list" assume *: "length bs = 1"
  show "le_bytes 1 (le_val bs) = bs" using le_bytes_val[of bs] * by simp
  show "le_val bs < 2 ^ 8" using le_val_less[of bs] * by simp
qed (auto simp: le_val_bytes)

context fixed_width_codec begin

lemma run_of_words:
  assumes "bound = 2 ^ LENGTH('a::len)"
  shows "map (\<lambda>c. word_of_nat (dec c) :: 'a word)
     (chunks width (length (concat (map (enc \<circ> unat) ws)) div width) (concat (map (enc \<circ> unat) ws))) = ws"
proof -
  have n: "length (concat (map (enc \<circ> unat) ws)) div width = length (map unat ws)"
    using concat_length[of "map unat ws"] width_pos by simp
  have "map dec (chunks width (length (map unat ws)) (concat (map enc (map unat ws)) @ [])) = map unat ws"
    by (rule decode_run) (use assms in \<open>auto\<close>)
  then have "map (word_of_nat \<circ> dec) (chunks width (length (map unat ws)) (concat (map (enc \<circ> unat) ws)))
    = (map word_of_nat (map unat ws) :: 'a word list)" by (metis append_Nil2 map_map)
  then show ?thesis unfolding n by (simp add: comp_def map_idI)
qed

end

lemma bytes_elems_bytes:
  "bytes_elems 1 (elems_bytes 1 (a :: 8 word list)) = a"
  "bytes_elems 2 (elems_bytes 2 (b :: 16 word list)) = b"
  "bytes_elems 4 (elems_bytes 4 (c :: 32 word list)) = c"
  "bytes_elems 8 (elems_bytes 8 (d :: 64 word list)) = d"
  using le8.run_of_words[of a] le16.run_of_words[of b] le32.run_of_words[of c] le64.run_of_words[of d]
  by (simp_all add: bytes_elems_def elems_bytes_def comp_def)

fun tf_type_of :: "tensor_data \<Rightarrow> tf_type" where
  "tf_type_of (D_int8 t) = kTfLiteInt8"
| "tf_type_of (D_uint8 t) = kTfLiteUInt8"
| "tf_type_of (D_int16 t) = kTfLiteInt16"
| "tf_type_of (D_uint16 t) = kTfLiteUInt16"
| "tf_type_of (D_int32 t) = kTfLiteInt32"
| "tf_type_of (D_uint32 t) = kTfLiteUInt32"
| "tf_type_of (D_int64 t) = kTfLiteInt64"
| "tf_type_of (D_uint64 t) = kTfLiteUInt64"
| "tf_type_of (D_float t) = kTfLiteFloat32"
| "tf_type_of (D_double t) = kTfLiteFloat64"

text \<open>A buffer filled with a tensor is viewed as that tensor, and is of the type the metadata names.\<close>

lemma tensor_buffer_roundtrip: "bytes_tensor (tf_type_of d) (tensor_bytes d) = Inr d"
  by (cases d) (simp_all add: tensor_bytes_def bytes_elems_bytes del: One_nat_def)

lemma tensor_buffer_type:
  "service_data_type (tf_type_of d) = Inr (tensor_views_to_data_type \<lparr>tv_data = d, tv_shape = sh\<rparr>)"
  by (cases d) (simp_all add: tensor_views_to_data_type_def)

subsection \<open>Lemmas: inference\<close>

text \<open>What the C API documents of copying into an input tensor of the right size: it succeeds, the
  tensor then holds the bytes, and the other input tensors are as they were.\<close>

definition tflite_copies :: "('m, 'i) tflite \<Rightarrow> bool" where
  "tflite_copies tfl \<longleftrightarrow>
     (\<forall>i ix t bs. tfl_input tfl i ix = Some t \<and> length bs = length (tt_data t) \<longrightarrow>
        fst (fst (tfl_copy_in tfl i ix bs))
        \<and> tfl_input tfl (snd (tfl_copy_in tfl i ix bs)) = (tfl_input tfl i)(ix \<mapsto> t\<lparr>tt_data := bs\<rparr>))"

text \<open>An input fits when its name has an index and the tensor there its number of bytes.\<close>

definition input_fits :: "('m, 'i) tflite \<Rightarrow> 'i tf_state \<Rightarrow> string \<times> tensor_view \<Rightarrow> bool" where
  "input_fits tfl s kv \<longleftrightarrow>
     (\<exists>ix t. map_of (tfs_input_ix s) (fst kv) = Some ix \<and> tfl_input tfl (tfs_interpreter s) ix = Some t
           \<and> length (tt_data t) = length (tensor_bytes (tv_data (snd kv))))"

definition input_arrived :: "('m, 'i) tflite \<Rightarrow> 'i tf_state \<Rightarrow> string \<times> tensor_view \<Rightarrow> bool" where
  "input_arrived tfl s kv \<longleftrightarrow>
     (\<exists>ix t. map_of (tfs_input_ix s) (fst kv) = Some ix \<and> tfl_input tfl (tfs_interpreter s) ix = Some t
           \<and> tt_data t = tensor_bytes (tv_data (snd kv)))"

lemma write_input_fits:
  assumes "tflite_copies tfl" "input_fits tfl s kv"
  shows "\<exists>s'. write_input tfl kv s = (Inr (), s') \<and> input_arrived tfl s' kv
    \<and> tfs_input_ix s' = tfs_input_ix s \<and> tfs_metadata s' = tfs_metadata s \<and> tfs_output_ix s' = tfs_output_ix s
    \<and> (\<forall>kv'. input_fits tfl s kv' \<longrightarrow> input_fits tfl s' kv')
    \<and> (\<forall>kv'. map_of (tfs_input_ix s) (fst kv') \<noteq> map_of (tfs_input_ix s) (fst kv) \<longrightarrow>
          input_arrived tfl s kv' \<longrightarrow> input_arrived tfl s' kv')"
proof -
  obtain ix t where ix: "map_of (tfs_input_ix s) (fst kv) = Some ix" "tfl_input tfl (tfs_interpreter s) ix = Some t"
    "length (tt_data t) = length (tensor_bytes (tv_data (snd kv)))"
    using assms(2) by (auto simp: input_fits_def)
  obtain ok r i' where c: "tfl_copy_in tfl (tfs_interpreter s) ix (tensor_bytes (tv_data (snd kv))) = ((ok, r), i')"
    by (metis surj_pair)
  have ok: "ok" "tfl_input tfl i' = (tfl_input tfl (tfs_interpreter s))(ix \<mapsto> t\<lparr>tt_data := tensor_bytes (tv_data (snd kv))\<rparr>)"
    using assms(1) ix(2,3) c unfolding tflite_copies_def by (metis fst_conv snd_conv)+
  let ?s = "s\<lparr>tfs_interpreter := i', tfs_error := report r (tfs_error s)\<rparr>"
  have "write_input tfl kv s = (Inr (), ?s)"
    using ix c ok(1) by (simp add: write_input_def write_tensor_def st_get_def st_bind_def st_return_def Let_def)
  moreover have "input_arrived tfl ?s kv" using ix(1) ok(2) by (simp add: input_arrived_def)
  moreover have "\<forall>kv'. input_fits tfl s kv' \<longrightarrow> input_fits tfl ?s kv'"
    using ix(2,3) ok(2) by (auto simp: input_fits_def)
  moreover have "\<forall>kv'. map_of (tfs_input_ix s) (fst kv') \<noteq> map_of (tfs_input_ix s) (fst kv) \<longrightarrow>
          input_arrived tfl s kv' \<longrightarrow> input_arrived tfl ?s kv'"
    using ix(1) ok(2) by (auto simp: input_arrived_def)
  ultimately show ?thesis by auto
qed

lemma write_inputs_arrive:
  assumes "tflite_copies tfl" "\<forall>kv\<in>set inputs. input_fits tfl s kv"
    "distinct (map (\<lambda>kv. map_of (tfs_input_ix s) (fst kv)) inputs)"
  shows "\<exists>s'. st_for inputs (write_input tfl) s = (Inr (), s') \<and> (\<forall>kv\<in>set inputs. input_arrived tfl s' kv)
    \<and> tfs_input_ix s' = tfs_input_ix s \<and> tfs_metadata s' = tfs_metadata s \<and> tfs_output_ix s' = tfs_output_ix s
    \<and> (\<forall>kv'. map_of (tfs_input_ix s) (fst kv') \<notin> (\<lambda>kv. map_of (tfs_input_ix s) (fst kv)) ` set inputs \<longrightarrow>
          input_arrived tfl s kv' \<longrightarrow> input_arrived tfl s' kv')"
  using assms(2,3)
proof (induction inputs arbitrary: s)
  case (Cons kv inputs)
  from write_input_fits[OF assms(1), of s kv] Cons.prems(1) obtain s1 where
    s1: "write_input tfl kv s = (Inr (), s1)" "input_arrived tfl s1 kv"
      "tfs_input_ix s1 = tfs_input_ix s" "tfs_metadata s1 = tfs_metadata s" "tfs_output_ix s1 = tfs_output_ix s"
      "\<forall>kv'. input_fits tfl s kv' \<longrightarrow> input_fits tfl s1 kv'"
      "\<forall>kv'. map_of (tfs_input_ix s) (fst kv') \<noteq> map_of (tfs_input_ix s) (fst kv) \<longrightarrow>
          input_arrived tfl s kv' \<longrightarrow> input_arrived tfl s1 kv'"
    by auto
  have "\<forall>kv\<in>set inputs. input_fits tfl s1 kv" using Cons.prems(1) s1(6) by auto
  moreover have "distinct (map (\<lambda>kv. map_of (tfs_input_ix s1) (fst kv)) inputs)" using Cons.prems(2) s1(3) by simp
  ultimately obtain s2 where s2: "st_for inputs (write_input tfl) s1 = (Inr (), s2)"
    "\<forall>kv\<in>set inputs. input_arrived tfl s2 kv"
    "tfs_input_ix s2 = tfs_input_ix s1" "tfs_metadata s2 = tfs_metadata s1" "tfs_output_ix s2 = tfs_output_ix s1"
    "\<forall>kv'. map_of (tfs_input_ix s1) (fst kv') \<notin> (\<lambda>kv. map_of (tfs_input_ix s1) (fst kv)) ` set inputs \<longrightarrow>
          input_arrived tfl s1 kv' \<longrightarrow> input_arrived tfl s2 kv'"
    using Cons.IH[of s1] by blast
  have "input_arrived tfl s2 kv" using s2(6) s1(2,3) Cons.prems(2) by (cases kv) auto
  then show ?case using s1 s2 by simp
qed (simp add: st_return_def)


text \<open>
  Inference over fitting inputs: the interpreter is invoked with every input in its tensor, and the
  result is what the output tensors hold then.
\<close>

definition same_tensors :: "'i tf_state \<Rightarrow> 'i tf_state \<Rightarrow> bool" where
  "same_tensors s s' \<longleftrightarrow> tfs_metadata s = tfs_metadata s' \<and> tfs_input_ix s = tfs_input_ix s'
     \<and> tfs_output_ix s = tfs_output_ix s'"

lemma tf_infer_runs:
  assumes "tflite_copies tfl" "\<forall>kv\<in>set inputs. input_fits tfl s kv"
    "distinct (map (\<lambda>kv. map_of (tfs_input_ix s) (fst kv)) inputs)"
    "length (tfs_input_ix s) \<le> length inputs"
  shows "\<exists>s1. (\<forall>kv\<in>set inputs. input_arrived tfl s1 kv) \<and> same_tensors s1 s
    \<and> tf_infer tfl inputs s =
        (case tf_invoke tfl s1 of
           (Inl e, s2) \<Rightarrow> (Inl e, s2)
         | (Inr _, s2) \<Rightarrow> (collect_outputs tfl s2 (md_outputs (tfs_metadata s2)) [], s2))"
proof -
  from write_inputs_arrive[OF assms(1-3)] obtain s1 where
    s1: "st_for inputs (write_input tfl) s = (Inr (), s1)" "\<forall>kv\<in>set inputs. input_arrived tfl s1 kv"
      "same_tensors s1 s"
    by (auto simp: same_tensors_def)
  then have "tf_infer tfl inputs s =
        (case tf_invoke tfl s1 of
           (Inl e, s2) \<Rightarrow> (Inl e, s2)
         | (Inr _, s2) \<Rightarrow> (collect_outputs tfl s2 (md_outputs (tfs_metadata s2)) [], s2))"
    using assms(4) by (simp add: tf_infer_def st_get_def st_bind_def split: prod.splits sum.splits)
  with s1(2,3) show ?thesis by blast
qed

text \<open>The inputs of a configured service, whose names are those the metadata shows.\<close>

lemma configured_index:
  assumes "build_state tfl cfg = Inr s" "distinct (map ti_name (md_inputs (tfs_metadata s)))"
    and "k < length (md_inputs (tfs_metadata s))"
  shows "map_of (tfs_input_ix s) (ti_name (md_inputs (tfs_metadata s) ! k)) = Some k"
  using build_state_inputs(3)[OF assms(1,3)] assms(2,3) by (auto simp: distinct_conv_nth)

lemma configured_inference:
  assumes "build_state tfl cfg = Inr s" "tflite_copies tfl"
    and "distinct (map ti_name (md_inputs (tfs_metadata s)))"
    and "distinct (map fst inputs)" "set (map fst inputs) = set (map ti_name (md_inputs (tfs_metadata s)))"
    and fits: "\<And>k v. k < length (md_inputs (tfs_metadata s)) \<Longrightarrow>
      (ti_name (md_inputs (tfs_metadata s) ! k), v) \<in> set inputs \<Longrightarrow>
      \<exists>t. tfl_input tfl (tfs_interpreter s) k = Some t \<and> length (tt_data t) = length (tensor_bytes (tv_data v))"
  shows "\<exists>s1. same_tensors s1 s \<and> (\<forall>k v. k < length (md_inputs (tfs_metadata s)) \<longrightarrow>
        (ti_name (md_inputs (tfs_metadata s) ! k), v) \<in> set inputs \<longrightarrow>
          (\<exists>t. tfl_input tfl (tfs_interpreter s1) k = Some t \<and> tt_data t = tensor_bytes (tv_data v)))
    \<and> tf_infer tfl inputs s =
        (case tf_invoke tfl s1 of
           (Inl e, s2) \<Rightarrow> (Inl e, s2)
         | (Inr _, s2) \<Rightarrow> (collect_outputs tfl s2 (md_outputs (tfs_metadata s2)) [], s2))"
proof -
  let ?infos = "md_inputs (tfs_metadata s)"
  note ix = configured_index[OF assms(1,3)]
  have known: "\<exists>k<length ?infos. fst kv = ti_name (?infos ! k)" if "kv \<in> set inputs" for kv
  proof -
    have "fst kv \<in> set (map ti_name ?infos)" using that assms(5) by (metis image_eqI list.set_map)
    then show ?thesis by (auto simp: in_set_conv_nth)
  qed
  have a: "\<forall>kv\<in>set inputs. input_fits tfl s kv"
  proof
    fix kv assume kv: "kv \<in> set inputs"
    then obtain k where k: "k < length ?infos" "fst kv = ti_name (?infos ! k)" using known by blast
    then show "input_fits tfl s kv"
      using fits[of k "snd kv"] ix[of k] kv by (metis input_fits_def prod.collapse)
  qed
  have "inj_on (\<lambda>kv. map_of (tfs_input_ix s) (fst kv)) (set inputs)"
  proof (rule inj_onI)
    fix x y assume xy: "x \<in> set inputs" "y \<in> set inputs"
      "map_of (tfs_input_ix s) (fst x) = map_of (tfs_input_ix s) (fst y)"
    from known[OF xy(1)] obtain k where k: "k < length ?infos" "fst x = ti_name (?infos ! k)" by blast
    from known[OF xy(2)] obtain l where l: "l < length ?infos" "fst y = ti_name (?infos ! l)" by blast
    have "k = l" using xy(3) ix[OF k(1)] ix[OF l(1)] k(2) l(2) by simp
    with k(2) l(2) have "fst x = fst y" by simp
    then show "x = y" using assms(4) xy(1,2) by (simp add: distinct_map inj_on_def)
  qed
  then have b: "distinct (map (\<lambda>kv. map_of (tfs_input_ix s) (fst kv)) inputs)"
    using assms(4) by (simp add: distinct_map)
  have "length (tfs_input_ix s) \<le> length ?infos" by (rule build_state_inputs(5)[OF assms(1)])
  also have "length ?infos = length inputs"
    using assms(3-5) by (metis distinct_card length_map)
  finally have c: "length (tfs_input_ix s) \<le> length inputs" .
  from tf_infer_runs[OF assms(2) a b c] obtain s1 where s1: "\<forall>kv\<in>set inputs. input_arrived tfl s1 kv"
    "same_tensors s1 s" "tf_infer tfl inputs s =
        (case tf_invoke tfl s1 of
           (Inl e, s2) \<Rightarrow> (Inl e, s2)
         | (Inr _, s2) \<Rightarrow> (collect_outputs tfl s2 (md_outputs (tfs_metadata s2)) [], s2))"
    by blast
  have "\<exists>t. tfl_input tfl (tfs_interpreter s1) k = Some t \<and> tt_data t = tensor_bytes (tv_data v)"
    if "k < length ?infos" "(ti_name (?infos ! k), v) \<in> set inputs" for k v
    using s1(1,2) ix[OF that(1)] that(2) by (fastforce simp: input_arrived_def same_tensors_def)
  with s1(2,3) show ?thesis by blast
qed

text \<open>An input that is no tensor of the model, or of another size, stops inference before the
  interpreter runs.\<close>

lemma tf_infer_unknown_input:
  assumes "map_of (tfs_input_ix s) (fst kv) = None" "length (tfs_input_ix s) \<le> length (kv # inputs)"
  shows "tf_infer tfl (kv # inputs) s =
    (Inl (InvalidArgument (tflite_name @ '': Tensor name '' @ in_backquotes (fst kv)
        @ '' is not a known input tensor name for the model'')), s)"
  using assms by (simp add: tf_infer_def write_input_def st_get_def st_bind_def st_throw_def)

lemma tf_infer_wrong_size:
  assumes "map_of (tfs_input_ix s) (fst kv) = Some ix" "tfl_input tfl (tfs_interpreter s) ix = Some t"
    "length (tt_data t) \<noteq> length (tensor_bytes (tv_data (snd kv)))"
    "length (tfs_input_ix s) \<le> length (kv # inputs)"
  shows "\<exists>msg. tf_infer tfl (kv # inputs) s = (Inl (InvalidArgument msg), s)"
  using assms
  by (simp add: tf_infer_def write_input_def write_tensor_def st_get_def st_bind_def st_throw_def Let_def)

lemma collect_outputs_known:
  assumes "collect_outputs tfl s infos views = Inr out" "info \<in> set infos"
    "map_of (tfs_output_ix s) (ti_name info) \<noteq> None"
  shows "ti_name info \<in> fst ` set out"
proof -
  have keep: "collect_outputs tfl s infos views = Inr out \<Longrightarrow> fst ` set views \<subseteq> fst ` set out" for infos views
  proof (induction infos arbitrary: views)
    case (Cons i infos)
    show ?case
    proof (cases "map_of (tfs_output_ix s) (ti_name i)")
      case None
      then show ?thesis using Cons by simp
    next
      case (Some ix)
      with Cons.prems obtain v where "collect_outputs tfl s infos (emplace (ti_name i) v views) = Inr out"
        by (auto simp: rbind_eq_Inr split: option.splits)
      from Cons.IH[OF this] show ?thesis using akeys_emplace[of "ti_name i" v views] by (auto simp: akeys_def)
    qed
  qed simp
  show ?thesis using assms
  proof (induction infos arbitrary: views)
    case (Cons i infos)
    show ?case
    proof (cases "map_of (tfs_output_ix s) (ti_name i)")
      case None
      then show ?thesis using Cons by auto
    next
      case (Some ix)
      with Cons.prems(1) obtain v where v: "collect_outputs tfl s infos (emplace (ti_name i) v views) = Inr out"
        by (auto simp: rbind_eq_Inr split: option.splits)
      then show ?thesis
        using Cons.IH[OF v] Cons.prems(2,3) keep[OF v] akeys_emplace[of "ti_name i" v views]
        by (auto simp: akeys_def)
    qed
  qed simp
qed

subsection \<open>Lemmas: the service under concurrent calls\<close>

lemma filter_list_update:
  assumes "i < length ts"
  shows "\<exists>as bs. filter P ts = as @ (if P (ts ! i) then [ts ! i] else []) @ bs
    \<and> filter P (ts[i := t]) = as @ (if P t then [t] else []) @ bs"
proof (intro exI conjI)
  show "filter P ts = filter P (take i ts) @ (if P (ts ! i) then [ts ! i] else []) @ filter P (drop (Suc i) ts)"
    by (subst id_take_nth_drop[OF assms]) simp
  show "filter P (ts[i := t]) = filter P (take i ts) @ (if P t then [t] else []) @ filter P (drop (Suc i) ts)"
    using assms by (simp add: upd_conv_take_nth_drop)
qed

lemma tf_inv_step: "tf_step build x y \<Longrightarrow> tf_inv x \<Longrightarrow> tf_inv y"
proof (induction rule: tf_step.induct)
  case (tf_call t c s ts)
  then show ?case by (auto simp: tf_inv_def Let_def is_building_def)
next
  case (tf_lease i ts s)
  then show ?case using filter_list_update[of i ts is_building "Leased (the (svc_state s))"]
    by (auto simp: tf_inv_def Let_def is_building_def)
next
  case (tf_done i ts st s)
  then show ?case using filter_list_update[of i ts is_building Returned]
    by (auto simp: tf_inv_def Let_def is_building_def)
next
  case (tf_take i ts c s)
  then show ?case using filter_list_update[of i ts is_building "Building c"]
    by (auto simp: tf_inv_def Let_def is_building_def svc_ready_def)
next
  case (tf_built i ts c s s' t)
  then show ?case using filter_list_update[of i ts is_building t]
    by (auto simp: tf_inv_def Let_def is_building_def finish_build_def svc_install_def svc_stop_def
        split: sum.splits if_splits prod.splits)
next
  case (tf_stop i ts s)
  then show ?case using filter_list_update[of i ts is_building Returned]
    by (auto simp: tf_inv_def Let_def is_building_def svc_stop_def)
qed

definition tf_start :: "'st \<Rightarrow> 'st tf_service \<times> ('c, 'st) tf_thread list" where
  "tf_start st = (\<lparr>svc_state = Some st, svc_stopped = False\<rparr>, [])"

lemma tf_inv_reachable: "(tf_step build)\<^sup>*\<^sup>* (tf_start st) x \<Longrightarrow> tf_inv x"
  by (induction rule: rtranclp_induct) (simp add: tf_start_def tf_inv_def, rule tf_inv_step)

text \<open>A running service with calls waiting can always move: there is a state to lease, or a thread that
  builds one.\<close>

lemma tf_not_stuck:
  assumes "(tf_step build)\<^sup>*\<^sup>* (tf_start st) (s, ts)" "\<not> svc_stopped s" "i < length ts" "ts ! i = Leasing"
  shows "(\<exists>st. tf_step build (s, ts) (s, ts[i := Leased st]))
       \<or> (\<exists>j c s' t. j < length ts \<and> ts ! j = Building c \<and> tf_step build (s, ts) (s', ts[j := t])
            \<and> (svc_ready s' \<or> svc_stopped s'))"
proof (cases "svc_state s")
  case (Some st')
  then have "svc_ready s" using assms(2) by (simp add: svc_ready_def)
  with tf_lease[OF assms(3,4)] show ?thesis by blast
next
  case None
  then have "filter is_building ts \<noteq> []"
    using tf_inv_reachable[OF assms(1)] assms(2) by (simp add: tf_inv_def Let_def)
  then obtain j where "j < length ts" "is_building (ts ! j)"
    by (auto simp: filter_empty_conv in_set_conv_nth)
  then obtain c where j: "j < length ts" "ts ! j = Building c"
    by (cases "ts ! j") (auto simp: is_building_def)
  obtain s' t where f: "finish_build build c s = (s', t)" by (metis surj_pair)
  then have "svc_ready s' \<or> svc_stopped s'"
    by (auto simp: finish_build_def svc_install_def svc_stop_def svc_ready_def split: sum.splits if_splits)
  then show ?thesis using tf_built[OF j f] j by blast
qed

text \<open>Once stopped, a service stays stopped, and a call that waits for its state waits for ever: the
  check after the wait, which would throw, is never reached.\<close>

lemma tf_stopped_step:
  assumes "tf_step build (s, ts) (s', ts')" "svc_stopped s" "i < length ts"
    "ts ! i = Leasing \<or> (\<exists>c. ts ! i = Wants_new c)"
  shows "svc_stopped s' \<and> i < length ts' \<and> ts' ! i = ts ! i"
  using assms(1)
proof (cases rule: tf_step.cases)
  case (tf_call t c)
  then show ?thesis using assms by (auto simp: nth_append)
next
  case (tf_built j c t)
  then show ?thesis using assms
    by (auto simp: finish_build_def svc_install_def svc_stop_def nth_list_update split: sum.splits if_splits)
qed (use assms in \<open>auto simp: svc_ready_def svc_stop_def nth_list_update\<close>)

lemma tf_stopped_waits:
  assumes "(tf_step build)\<^sup>*\<^sup>* (s, ts) (s', ts')" "svc_stopped s" "i < length ts" "ts ! i = Leasing"
  shows "svc_stopped s' \<and> i < length ts' \<and> ts' ! i = Leasing"
  using assms(1)
proof (induction rule: rtranclp_induct2)
  case refl
  then show ?case using assms by simp
next
  case (step a b c d)
  then show ?case using tf_stopped_step[of build a b c d i] by auto
qed

text \<open>What a call works on was built from some configuration, or is the state of the constructor.\<close>

lemma tf_held_built:
  assumes "(tf_step build)\<^sup>*\<^sup>* (tf_start st0) x"
  shows "(\<forall>st. svc_state (fst x) = Some st \<longrightarrow> st = st0 \<or> (\<exists>c. build c = Inr st))
       \<and> (\<forall>st. Leased st \<in> set (snd x) \<longrightarrow> st = st0 \<or> (\<exists>c. build c = Inr st))"
  using assms
proof (induction rule: rtranclp_induct)
  case (step x y)
  from step.hyps(2) step.IH show ?case
  proof (induction rule: tf_step.induct)
    case (tf_built i ts c s s' t)
    then show ?case
      by (auto simp: finish_build_def svc_install_def svc_stop_def dest!: set_update_subset_insert[THEN subsetD]
          split: sum.splits if_splits)
  qed (auto simp: svc_ready_def svc_stop_def dest!: set_update_subset_insert[THEN subsetD])
qed (simp add: tf_start_def)

end
