(* ===== verification/ExampleClassification.thy ===== *)
theory ExampleClassification
  imports Sensors MLModel RobotClient ExampleTFLite
begin

text \<open>
  The client that classifies a signal with the YAMNet model served by the TensorFlow Lite module
  (\<^verbatim>\<open>examples/mlmodel/example_audio_classification_client.cpp\<close>): the choice between generating a robot
  configuration and classifying, the checks of the options, the reading of the scores, the ranking of
  the labels and the statistics. The machine, the files, \<^verbatim>\<open>xtensor\<close>'s indexing, \<^verbatim>\<open>std::sort\<close>'s choice
  among equal elements and the clock are fields of a record. The command line is parsed by Boost.
\<close>

subsection \<open>The world of the program\<close>

record scored_label =
  sl_label :: string
  sl_score :: "32 word"

record classify_options =
  cl_help :: bool
  cl_generating :: bool
  cl_model_path :: "string option"
  cl_module_path :: "string option"
  cl_label_path :: "string option"
  cl_host :: "string option"
  cl_key :: "string option"
  cl_key_id :: "string option"

record classify_world =
  cw_parse :: "string list \<Rightarrow> classify_options res"
  cw_usage :: string
  cw_regular :: "string \<Rightarrow> bool"
  cw_absolute :: "string \<Rightarrow> string"
  cw_open :: "string \<Rightarrow> string option"
  cw_connect :: "string \<Rightarrow> client_options \<Rightarrow> robot_client res"
  cw_model :: "RobotClient.rpc_client \<Rightarrow> nat \<Rightarrow> ml_model"
  cw_at :: "tensor_view \<Rightarrow> nat \<Rightarrow> 32 word"
  cw_sort :: "(scored_label \<Rightarrow> scored_label \<Rightarrow> bool) \<Rightarrow> scored_label list \<Rightarrow> scored_label list"
  cw_noise :: "nat \<Rightarrow> 32 word"
  cw_elapsed :: "nat \<Rightarrow> rat"
  cw_show_float :: "32 word \<Rightarrow> string"
  cw_show_stat :: "rat \<Rightarrow> string"

text \<open>What the program writes: a log record, or a line to one of the standard streams.\<close>

datatype printed = Logged log_level string | Stdout string | Stderr string

definition print_line :: "printed \<Rightarrow> (printed list, unit) stm" where
  "print_line l = st_modify (\<lambda>ls. ls @ [l])"

definition exit_success :: int where "exit_success = 0"
definition exit_failure :: int where "exit_failure = 1"

definition failing :: "string \<Rightarrow> (printed list, int) stm" where
  "failing msg = st_bind (print_line (Logged ll_error msg)) (\<lambda>_. st_return exit_failure)"

definition newline :: string where
  "newline = [CHR 0x0A]"

subsection \<open>Generating a configuration\<close>

text \<open>The template, with \<^verbatim>\<open>~\<close> for a double quote, and what replaces its two \<^verbatim>\<open>%s\<close>.\<close>

definition quotes :: "string \<Rightarrow> string" where
  "quotes = map (\<lambda>c. if c = CHR ''~'' then CHR 0x22 else c)"

definition config_lines :: "string \<Rightarrow> string \<Rightarrow> string list" where
  "config_lines model_path module_path =
    [[], quotes ''{'', quotes ''  ~services~: ['', quotes ''    {'',
     quotes ''      ~name~: ~yamnet_classification_tflite~,'',
     quotes ''      ~namespace~: ~rdk~,'',
     quotes ''      ~type~: ~mlmodel~,'',
     quotes ''      ~attributes~: {'',
     quotes ''        ~num_threads~: 1,'',
     quotes ''        ~model_path~: ~'' @ model_path @ quotes ''~,'',
     quotes ''        ~tensor_name_remappings~: {'',
     quotes ''          ~outputs~: {'',
     quotes ''            ~tower0/network/layer32/final_output~: ~categories~'',
     quotes ''          },'',
     quotes ''          ~inputs~: {'',
     quotes ''            ~waveform_binary~: ~sample~'',
     quotes ''          }'', quotes ''        }'', quotes ''      },'',
     quotes ''      ~model~: ~viam:mlmodelservice:example_mlmodelservice_tflite~'',
     quotes ''    }'', quotes ''  ],'', quotes ''  ~modules~: ['', quotes ''    {'',
     quotes ''      ~name~: ~mlms_tflite_module~,'',
     quotes ''      ~executable_path~: ~'' @ module_path @ quotes ''~'',
     quotes ''    }'', quotes ''  ],'', quotes ''  ~components~: []'', quotes ''}'', []]"

definition robot_config :: "string \<Rightarrow> string \<Rightarrow> string" where
  "robot_config model_path module_path = join_with newline (config_lines model_path module_path)"

definition not_a_file :: "string \<Rightarrow> string \<Rightarrow> string" where
  "not_a_file path option_name = ''The path '' @ in_backquotes path @ '' provided for '' @ in_backquotes option_name
     @ '' is not an existing regular file''"

definition generate_config :: "classify_world \<Rightarrow> classify_options \<Rightarrow> (printed list, int) stm" where
  "generate_config w opts =
     (if cl_host opts \<noteq> None \<or> cl_key opts \<noteq> None \<or> cl_key_id opts \<noteq> None then
        failing (''With '' @ in_backquotes ''--generate'' @ '', do not provide ''
          @ in_backquotes ''--robot-{host,api-key,api-key-id}'')
      else case cl_model_path opts of
        None \<Rightarrow> failing (''With '' @ in_backquotes ''--generate'' @ '', a '' @ in_backquotes ''--model-path''
                  @ '' is required'')
      | Some model_path \<Rightarrow>
          if \<not> cw_regular w model_path then failing (not_a_file model_path ''--model-path'')
          else case cl_module_path opts of
            None \<Rightarrow> failing (''With '' @ in_backquotes ''--generate'' @ '', a ''
                      @ in_backquotes ''--tflite-module-path'' @ '' is required'')
          | Some module_path \<Rightarrow>
              if \<not> cw_regular w module_path then failing (not_a_file module_path ''--tflite-module-path'')
              else st_bind (print_line (Logged ll_info
                     (robot_config (cw_absolute w model_path) (cw_absolute w module_path) @ newline)))
                   (\<lambda>_. st_return exit_success))"

subsection \<open>Ranking the labels\<close>

text \<open>\<^verbatim>\<open>while (std::getline(labels_stream, label))\<close>: a last line that is empty is no line.\<close>

definition read_lines :: "string \<Rightarrow> string list" where
  "read_lines contents =
     (let ls = split_on (CHR 0x0A) contents in if last ls = [] then butlast ls else ls)"

text \<open>\<^verbatim>\<open>a < b\<close> on floats: false when either is NaN, and on the two zeros.\<close>

definition flt_key :: "32 word \<Rightarrow> int" where
  "flt_key f = (let m = int (unat f mod 2 ^ 31) in if unat f < 2 ^ 31 then m else - m)"

definition flt_less :: "32 word \<Rightarrow> 32 word \<Rightarrow> bool" where
  "flt_less a b \<longleftrightarrow> \<not> flt_is_nan a \<and> \<not> flt_is_nan b \<and> flt_key a < flt_key b"

definition score_before :: "scored_label \<Rightarrow> scored_label \<Rightarrow> bool" where
  "score_before l r \<longleftrightarrow> flt_less (sl_score r) (sl_score l)"

text \<open>What \<^verbatim>\<open>std::sort\<close> requires of a comparison: a strict weak ordering of the elements. Sorting with
  another is undefined.\<close>

definition strict_weak_order :: "('a \<Rightarrow> 'a \<Rightarrow> bool) \<Rightarrow> 'a list \<Rightarrow> bool" where
  "strict_weak_order lt xs \<longleftrightarrow>
     (\<forall>x\<in>set xs. \<not> lt x x \<and>
       (\<forall>y\<in>set xs. \<forall>z\<in>set xs.
          (lt x y \<and> lt y z \<longrightarrow> lt x z) \<and>
          (\<not> lt x y \<and> \<not> lt y x \<and> \<not> lt y z \<and> \<not> lt z y \<longrightarrow> \<not> lt x z)))"

definition sort_scores :: "classify_world \<Rightarrow> scored_label list \<Rightarrow> scored_label list res" where
  "sort_scores w xs =
     (if strict_weak_order score_before xs then Inr (cw_sort w score_before xs)
      else Inl (Undefined ''comparison is no strict weak ordering''))"

text \<open>\<^verbatim>\<open>%1%: %2% %|40t|%3%\<close>: the score starts in the fortieth column, or right after the label.\<close>

definition score_line :: "classify_world \<Rightarrow> nat \<Rightarrow> scored_label \<Rightarrow> string" where
  "score_line w i s =
     (let start = show_nat i @ '': '' @ sl_label s @ '' ''
      in start @ replicate (40 - length start) (CHR '' '') @ cw_show_float w (sl_score s) @ newline)"

definition scored_labels :: "classify_world \<Rightarrow> tensor_view \<Rightarrow> string list \<Rightarrow> scored_label list" where
  "scored_labels w categories labels =
     map (\<lambda>i. \<lparr>sl_label = labels ! i, sl_score = cw_at w categories i\<rparr>) [0..<length labels]"

definition top_five :: "classify_world \<Rightarrow> tensor_view \<Rightarrow> string list \<Rightarrow> string list res" where
  "top_five w categories labels =
     rmap (\<lambda>xs. map (\<lambda>i. score_line w i (xs ! i)) [0..<min 5 (length xs)])
       (sort_scores w (scored_labels w categories labels))"

definition print_all :: "string list \<Rightarrow> (printed list, unit) stm" where
  "print_all ls = st_for ls (\<lambda>l. print_line (Logged ll_info l))"

text \<open>The report of the scores; the result is the exit code of an early return.\<close>

definition report_scores ::
  "classify_world \<Rightarrow> classify_options \<Rightarrow> named_tensor_views \<Rightarrow> (printed list, int option) stm" where
  "report_scores w opts result =
     (let failed = (\<lambda>msg. st_bind (failing msg) (\<lambda>c. st_return (Some c))) in
      case map_of result ''categories'' of
        None \<Rightarrow> failed (''A '' @ in_backquotes ''categories'' @ '' tensor was not returned'')
      | Some categories \<Rightarrow>
         (case tv_data categories of
            D_float scores \<Rightarrow>
              (case cl_label_path opts of
                 None \<Rightarrow> st_bind (print_all (map (cw_show_float w) scores)) (\<lambda>_. st_return None)
               | Some path \<Rightarrow>
                   if \<not> cw_regular w path then failed (not_a_file path ''--model-label-path'')
                   else case cw_open w path of
                     None \<Rightarrow> failed (''Unable to open label path '' @ in_backquotes path)
                   | Some contents \<Rightarrow>
                       let labels = read_lines contents in
                       if length scores \<noteq> length labels then
                         failed (''Size mismatch between category scores and label files'' @ newline)
                       else st_bind (st_lift (top_five w categories labels)) (\<lambda>ls.
                            st_bind (print_all ls) (\<lambda>_. st_return None)))
          | _ \<Rightarrow> failed (''A '' @ in_backquotes ''categories'' @ '' tensor was returned, but it was not of type ''
                   @ in_backquotes ''float'')))"
subsection \<open>Classifying\<close>

definition sample_inputs :: "classify_world \<Rightarrow> named_tensor_views" where
  "sample_inputs w =
     (let samples = map (cw_noise w) [0..<15600]
      in [(''sample'', \<lparr>tv_data = D_float samples, tv_shape = [of_nat (length samples)]\<rparr>)])"

definition channel_options_of :: "string \<Rightarrow> string \<Rightarrow> channel_options" where
  "channel_options_of key_id key =
     set_credentials (Some \<lparr>cr_type = ''api-key'', cr_payload = key\<rparr>)
       (set_entity (Some key_id) default_channel_options)"

text \<open>\<^verbatim>\<open>resource_by_name<MLModelService>\<close>: a client of another kind is null.\<close>

definition yamnet_service :: "robot_client \<Rightarrow> RobotClient.rpc_client option res" where
  "yamnet_service rb =
     rmap (\<lambda>r. case r of Some c \<Rightarrow> if rk c = K_MLModelService then Some c else None | None \<Rightarrow> None)
       (resource_by_name rb (mk_name (kind_api K_MLModelService) [] ''yamnet_classification_tflite''))"

text \<open>Boost's accumulators: the mean and the second moment of the latencies.\<close>

definition mean_of :: "rat list \<Rightarrow> rat" where
  "mean_of xs = sum_list xs / of_nat (length xs)"

definition moment_2 :: "rat list \<Rightarrow> rat" where
  "moment_2 xs = sum_list (map (\<lambda>x. x * x) xs) / of_nat (length xs)"

text \<open>Call 0 classifies; the calls 1 to 100 are measured.\<close>

definition measure_latency :: "classify_world \<Rightarrow> RobotClient.rpc_client \<Rightarrow> (printed list, unit) stm" where
  "measure_latency w c =
     st_bind (print_line (Logged ll_info (newline @ ''Measuring inference latency ...''))) (\<lambda>_.
     st_bind (st_for [1..<101] (\<lambda>n. st_lift (rmap (\<lambda>_. ()) (ml_infer (cw_model w c n) (sample_inputs w) []))))
       (\<lambda>_.
        let elapsed = map (cw_elapsed w) [1..<101] in
     st_bind (print_line (Logged ll_info
        (''Inference latency (seconds), Mean: '' @ cw_show_stat w (mean_of elapsed)))) (\<lambda>_.
     print_line (Logged ll_info
        (''Inference latency (seconds), Var : '' @ cw_show_stat w (moment_2 elapsed))))))"

definition classify_with ::
  "classify_world \<Rightarrow> classify_options \<Rightarrow> RobotClient.rpc_client \<Rightarrow> (printed list, int) stm" where
  "classify_with w opts c =
     st_bind (st_lift (ml_infer (cw_model w c 0) (sample_inputs w) [])) (\<lambda>result.
     st_bind (report_scores w opts result) (\<lambda>early.
       case early of
         Some code \<Rightarrow> st_return code
       | None \<Rightarrow> st_bind (measure_latency w c) (\<lambda>_. st_return exit_success)))"

definition classify :: "classify_world \<Rightarrow> classify_options \<Rightarrow> (printed list, int) stm" where
  "classify w opts =
     (if cl_model_path opts \<noteq> None \<or> cl_module_path opts \<noteq> None then
        failing (''Without '' @ in_backquotes ''--generate'' @ '', do not provide '' @ in_backquotes ''--*path*''
          @ '' arguments'')
      else case cl_host opts of
        None \<Rightarrow> failing (''The '' @ in_backquotes ''--robot-host''
                  @ '' argument is required when connecting to a robot'')
      | Some host \<Rightarrow>
         (case (cl_key opts, cl_key_id opts) of
            (Some key, Some key_id) \<Rightarrow>
              st_bind (st_lift (cw_connect w host (mk_options 0 (Some (channel_options_of key_id key))))) (\<lambda>rb.
              st_bind (st_lift (yamnet_service rb)) (\<lambda>service.
                case service of
                  None \<Rightarrow> failing ('' did not find the '' @ in_backquotes ''yamnet_classification_tflite''
                            @ '' resource, cannot continue'')
                | Some c \<Rightarrow> classify_with w opts c))
          | _ \<Rightarrow> failing (''The '' @ in_backquotes ''--robot-api-key'' @ '' and the ''
                   @ in_backquotes ''--robot-api-key-id'' @ '' argument are required when connecting to a robot'')))"

subsection \<open>The program\<close>

text \<open>The name the log records carry: the executable's, from its last slash on.\<close>

definition executable_name :: "string \<Rightarrow> string" where
  "executable_name exe_name = (case find_last_of slash exe_name of None \<Rightarrow> exe_name | Some n \<Rightarrow> drop n exe_name)"

definition classification_body :: "classify_world \<Rightarrow> string list \<Rightarrow> (printed list, int) stm" where
  "classification_body w argv =
     st_bind (st_lift (cw_parse w argv)) (\<lambda>opts.
       if cl_help opts then
         st_bind (print_line (Stdout (hd argv @ cw_usage w @ newline))) (\<lambda>_. st_return exit_success)
       else if cl_generating opts then generate_config w opts
       else classify w opts)"

text \<open>The function's \<^verbatim>\<open>try\<close> block has a clause for every exception. A run that is undefined has no
  outcome.\<close>

definition classification_main :: "classify_world \<Rightarrow> string list \<Rightarrow> (int \<times> printed list) option" where
  "classification_main w argv =
     (case classification_body w argv [] of
        (Inr code, ls) \<Rightarrow> Some (code, ls)
      | (Inl e, ls) \<Rightarrow>
          (if is_undefined e then None
           else Some (exit_failure, ls @ [Stderr (hd argv @ '': Failed: '' @
             (if is_std_exception e
              then ''a std::exception was thrown: '' @ in_backquotes (exn_what e) @ [CHR 0x60]
              else ''an unknown exception was thrown'') @ newline)])))"

subsection \<open>Lemmas: the ranking\<close>

text \<open>What \<^verbatim>\<open>std::sort\<close> promises of a range ordered by a strict weak ordering.\<close>

definition sorter :: "(('a \<Rightarrow> 'a \<Rightarrow> bool) \<Rightarrow> 'a list \<Rightarrow> 'a list) \<Rightarrow> bool" where
  "sorter srt \<longleftrightarrow>
     (\<forall>lt xs. strict_weak_order lt xs \<longrightarrow>
        mset (srt lt xs) = mset xs \<and> sorted_wrt (\<lambda>x y. \<not> lt y x) (srt lt xs))"

lemma scores_ordered:
  assumes "\<forall>s\<in>set xs. \<not> flt_is_nan (sl_score s)"
  shows "strict_weak_order score_before xs"
  using assms by (auto simp: strict_weak_order_def score_before_def flt_less_def)

text \<open>A score that is no number breaks the comparison: it ties with two scores that differ.\<close>

lemma nan_score_unordered:
  assumes "{a, b, c} \<subseteq> set xs" "flt_is_nan (sl_score c)" "flt_less (sl_score a) (sl_score b)"
  shows "\<exists>why. sort_scores w xs = Inl (Undefined why)"
proof -
  have "score_before b a" "\<not> score_before b c" "\<not> score_before c b" "\<not> score_before c a" "\<not> score_before a c"
    using assms(2,3) by (auto simp: score_before_def flt_less_def)
  then have "\<not> strict_weak_order score_before xs"
    using assms(1) unfolding strict_weak_order_def by blast
  then show ?thesis by (simp add: sort_scores_def)
qed

lemma scored_labels_zip:
  assumes "\<And>i. i < length scores \<Longrightarrow> cw_at w categories i = scores ! i" "length labels = length scores"
  shows "scored_labels w categories labels = map (\<lambda>(l, s). \<lparr>sl_label = l, sl_score = s\<rparr>) (zip labels scores)"
  using assms by (auto simp: scored_labels_def intro: nth_equalityI)

text \<open>The lines printed are those of a best selection: no label left out scores higher than one that is
  printed, and the printed scores descend.\<close>

definition best_of :: "nat \<Rightarrow> scored_label list \<Rightarrow> scored_label list \<Rightarrow> bool" where
  "best_of n best xs \<longleftrightarrow>
     length best = min n (length xs) \<and> sorted_wrt (\<lambda>x y. \<not> flt_less (sl_score x) (sl_score y)) best \<and>
     (\<exists>rest. mset best + mset rest = mset xs \<and>
        (\<forall>x\<in>set best. \<forall>y\<in>set rest. \<not> flt_less (sl_score x) (sl_score y)))"

lemma top_five_best:
  assumes "sorter (cw_sort w)" "\<forall>s\<in>set scores. \<not> flt_is_nan s" "length labels = length scores"
    and "\<And>i. i < length scores \<Longrightarrow> cw_at w categories i = scores ! i"
  shows "\<exists>best. best_of 5 best (map (\<lambda>(l, s). \<lparr>sl_label = l, sl_score = s\<rparr>) (zip labels scores))
    \<and> top_five w categories labels = Inr (map (\<lambda>(i, s). score_line w i s) (enumerate 0 best))"
proof -
  let ?xs = "map (\<lambda>(l, s). \<lparr>sl_label = l, sl_score = s\<rparr>) (zip labels scores)"
  let ?ys = "cw_sort w score_before ?xs"
  have swo: "strict_weak_order score_before ?xs"
    using assms(2) by (intro scores_ordered) (auto dest: set_zip_rightD)
  then have ys: "mset ?ys = mset ?xs" "sorted_wrt (\<lambda>x y. \<not> score_before y x) ?ys"
    using assms(1) unfolding sorter_def by blast+
  have len: "length ?ys = length ?xs" using ys(1) by (rule mset_eq_length)
  have srt: "sorted_wrt (\<lambda>x y. \<not> flt_less (sl_score x) (sl_score y)) (take 5 ?ys @ drop 5 ?ys)"
    using ys(2) by (simp add: score_before_def)
  have parts: "mset (take 5 ?ys) + mset (drop 5 ?ys) = mset ?xs"
    using ys(1) by (metis append_take_drop_id mset_append)
  have "best_of 5 (take 5 ?ys) ?xs"
    unfolding best_of_def using parts srt len
    by (intro conjI exI[of _ "drop 5 ?ys"]) (auto simp only: sorted_wrt_append length_take min.commute)
  moreover have "top_five w categories labels = Inr (map (\<lambda>(i, s). score_line w i s) (enumerate 0 (take 5 ?ys)))"
    using swo len by (auto simp: top_five_def scored_labels_zip[OF assms(4,3)] sort_scores_def nth_enumerate_eq
      min.commute intro!: nth_equalityI)
  ultimately show ?thesis by blast
qed

text \<open>Insertion is a sorter, so the promise can be kept.\<close>

fun insert_by :: "('a \<Rightarrow> 'a \<Rightarrow> bool) \<Rightarrow> 'a \<Rightarrow> 'a list \<Rightarrow> 'a list" where
  "insert_by lt x [] = [x]"
| "insert_by lt x (y # ys) = (if lt y x then y # insert_by lt x ys else x # y # ys)"

definition sort_by :: "('a \<Rightarrow> 'a \<Rightarrow> bool) \<Rightarrow> 'a list \<Rightarrow> 'a list" where
  "sort_by lt xs = foldr (insert_by lt) xs []"

lemma mset_insert_by [simp]: "mset (insert_by lt x ys) = {#x#} + mset ys"
  by (induction ys) auto

lemma set_insert_by [simp]: "set (insert_by lt x ys) = insert x (set ys)"
  by (metis mset_insert_by set_mset_add_mset_insert set_mset_mset add_mset_add_single union_commute)

lemma sort_by_Cons [simp]: "sort_by lt (x # xs) = insert_by lt x (sort_by lt xs)" "sort_by lt [] = []"
  by (simp_all add: sort_by_def)

lemma mset_sort_by [simp]: "mset (sort_by lt xs) = mset xs"
  by (induction xs) auto

lemma set_sort_by [simp]: "set (sort_by lt xs) = set xs"
  by (metis mset_sort_by set_mset_mset)

lemma strict_weak_order_subset:
  "strict_weak_order lt xs \<Longrightarrow> set ys \<subseteq> set xs \<Longrightarrow> strict_weak_order lt ys"
  unfolding strict_weak_order_def by blast

lemma sorted_insert_by:
  assumes "strict_weak_order lt (x # ys)" "sorted_wrt (\<lambda>a b. \<not> lt b a) ys"
  shows "sorted_wrt (\<lambda>a b. \<not> lt b a) (insert_by lt x ys)"
  using assms
proof (induction ys)
  case (Cons y ys)
  have tl: "strict_weak_order lt (x # ys)"
    using Cons.prems(1) by (rule strict_weak_order_subset) auto
  show ?case
  proof (cases "lt y x")
    case True
    then have "\<not> lt x y" using Cons.prems(1) unfolding strict_weak_order_def by (meson list.set_intros)
    then show ?thesis using True Cons.IH[OF tl] Cons.prems(2) by auto
  next
    case False
    have "\<not> lt z x" if z: "z \<in> set ys" for z
    proof
      assume zx: "lt z x"
      have zy: "\<not> lt z y" using Cons.prems(2) z by simp
      have in3: "x \<in> set (x # y # ys)" "y \<in> set (x # y # ys)" "z \<in> set (x # y # ys)" using z by auto
      show False
        using Cons.prems(1) in3 False zx zy unfolding strict_weak_order_def by metis
    qed
    then show ?thesis using False Cons.prems(2) by auto
  qed
qed simp

lemma sort_by_sorts: "sorter sort_by"
proof -
  have "sorted_wrt (\<lambda>x y. \<not> lt y x) (sort_by lt xs)" if "strict_weak_order lt xs" for lt :: "'a \<Rightarrow> 'a \<Rightarrow> bool" and xs
    using that
  proof (induction xs)
    case (Cons x xs)
    have "strict_weak_order lt xs" using Cons.prems by (rule strict_weak_order_subset) auto
    moreover have "strict_weak_order lt (x # sort_by lt xs)"
      using Cons.prems by (rule strict_weak_order_subset) auto
    ultimately show ?case using Cons.IH by (simp add: sorted_insert_by)
  qed simp
  then show ?thesis by (simp add: sorter_def)
qed

subsection \<open>Lemmas: files, names and statistics\<close>

lemma read_lines_written:
  assumes "\<forall>l\<in>set ls. CHR 0x0A \<notin> set l"
  shows "read_lines (concat (map (\<lambda>l. l @ newline) ls)) = ls"
proof -
  have one: "split_on (CHR 0x0A) (l @ CHR 0x0A # rest) = l # split_on (CHR 0x0A) rest"
    if "CHR 0x0A \<notin> set l" for l rest :: string
    using that by (induction l) auto
  have "split_on (CHR 0x0A) (concat (map (\<lambda>l. l @ newline) ls)) = ls @ [[]]"
    using assms by (induction ls) (auto simp: one newline_def)
  then show ?thesis by (simp add: read_lines_def Let_def)
qed

text \<open>The slash the name is cut at stays in it.\<close>

lemma executable_name_slash:
  assumes "slash \<notin> set base"
  shows "executable_name (dir @ slash # base) = slash # base"
proof -
  have "takeWhile (\<lambda>x. x \<noteq> slash) (rev base @ slash # rev dir) = rev base"
    using assms by (subst takeWhile_append2) auto
  then have "find_last_of slash (dir @ slash # base) = Some (length dir)"
    by (simp add: find_last_of_def)
  then show ?thesis by (simp add: executable_name_def)
qed

text \<open>The number reported as the variance is the second moment about zero.\<close>

definition variance_of :: "rat list \<Rightarrow> rat" where
  "variance_of xs = mean_of (map (\<lambda>x. (x - mean_of xs) ^ 2) xs)"

lemma moment_2_variance:
  assumes "xs \<noteq> []"
  shows "moment_2 xs = variance_of xs + (mean_of xs) ^ 2"
proof -
  let ?n = "of_nat (length xs) :: rat" and ?m = "mean_of xs"
  have n: "?n \<noteq> 0" using assms by simp
  have sq: "sum_list (map (\<lambda>x. (x - c) ^ 2) ys) =
      sum_list (map (\<lambda>x. x * x) ys) - 2 * c * sum_list ys + of_nat (length ys) * c ^ 2" for c :: rat and ys
    by (induction ys) (auto simp: algebra_simps power2_eq_square)
  have s: "sum_list xs = ?n * ?m" using n by (simp add: mean_of_def)
  have "sum_list (map (\<lambda>x. (x - ?m) ^ 2) xs) = sum_list (map (\<lambda>x. x * x) xs) - ?n * ?m ^ 2"
    unfolding sq s by (simp add: algebra_simps power2_eq_square)
  then have "variance_of xs = (sum_list (map (\<lambda>x. x * x) xs) - ?n * ?m ^ 2) / ?n"
    by (simp add: variance_of_def mean_of_def[of "map f xs" for f])
  also have "\<dots> = moment_2 xs - ?m ^ 2"
    using n by (simp add: moment_2_def diff_divide_distrib)
  finally show ?thesis by simp
qed

subsection \<open>Lemmas: the outcome\<close>

text \<open>A configuration is generated exactly when both files exist and no option of the other mode is given.\<close>

lemma generated_config:
  assumes "cl_host opts = None" "cl_key opts = None" "cl_key_id opts = None"
    and "cl_model_path opts = Some m" "cl_module_path opts = Some t" "cw_regular w m" "cw_regular w t"
  shows "generate_config w opts ls = (Inr exit_success,
    ls @ [Logged ll_info (robot_config (cw_absolute w m) (cw_absolute w t) @ newline)])"
  using assms by (simp add: generate_config_def print_line_def st_defs st_bind_def)

lemma generated_only:
  assumes "generate_config w opts ls = (Inr exit_success, ls')"
  shows "cl_host opts = None \<and> cl_key opts = None \<and> cl_key_id opts = None \<and>
    (\<exists>m t. cl_model_path opts = Some m \<and> cl_module_path opts = Some t \<and> cw_regular w m \<and> cw_regular w t)"
  using assms
  by (auto simp: generate_config_def failing_def print_line_def st_defs st_bind_def exit_success_def
      exit_failure_def split: if_splits option.splits)

text \<open>The exit code tells whether the last line printed is a complaint; no line before it is one.\<close>

fun complaint :: "printed \<Rightarrow> bool" where
  "complaint (Logged level msg) \<longleftrightarrow> level = ll_error"
| "complaint (Stdout msg) \<longleftrightarrow> False"
| "complaint (Stderr msg) \<longleftrightarrow> True"

definition quiet :: "printed list \<Rightarrow> bool" where
  "quiet ls \<longleftrightarrow> list_all (\<lambda>l. \<not> complaint l) ls"

definition closes :: "int \<Rightarrow> printed list \<Rightarrow> bool" where
  "closes code ls \<longleftrightarrow>
     code = exit_success \<and> quiet ls \<or>
     code = exit_failure \<and> (\<exists>pre l. ls = pre @ [l] \<and> quiet pre \<and> complaint l)"

text \<open>A step that appends lines without a complaint, whatever its result, and one that ends the run.\<close>

definition quietly :: "(printed list, 'a) stm \<Rightarrow> bool" where
  "quietly m \<longleftrightarrow> (\<forall>ls r ls'. quiet ls \<longrightarrow> m ls = (r, ls') \<longrightarrow> quiet ls')"

definition finishing :: "(printed list, int) stm \<Rightarrow> bool" where
  "finishing m \<longleftrightarrow> (\<forall>ls r ls'. quiet ls \<longrightarrow> m ls = (r, ls') \<longrightarrow>
     (case r of Inl e \<Rightarrow> quiet ls' | Inr code \<Rightarrow> closes code ls'))"

named_theorems outcome_rules "steps that complain only at the end"

lemma quietly_print [outcome_rules]: "quietly (print_line (Logged ll_info msg))" "quietly (print_line (Stdout msg))"
  by (auto simp: quietly_def print_line_def st_defs quiet_def log_levels)

lemma quietly_lift [outcome_rules]: "quietly (st_lift r)" "quietly (st_return a)"
  by (auto simp: quietly_def st_defs)

lemma quietly_bind [outcome_rules]:
  "quietly m \<Longrightarrow> (\<And>a. quietly (f a)) \<Longrightarrow> quietly (st_bind m f)"
  unfolding quietly_def by (metis st_bind_cases)

lemma quietly_for [outcome_rules]: "(\<And>x. quietly (f x)) \<Longrightarrow> quietly (st_for xs f)"
  by (induction xs) (auto intro!: outcome_rules)

lemma finishing_bind [outcome_rules]:
  assumes "quietly m" "\<And>a. finishing (f a)"
  shows "finishing (st_bind m f)"
  unfolding finishing_def
proof (intro allI impI)
  fix ls r ls'
  assume q: "quiet ls" and run: "st_bind m f ls = (r, ls')"
  from run show "case r of Inl e \<Rightarrow> quiet ls' | Inr code \<Rightarrow> closes code ls'"
  proof (cases rule: st_bind_cases)
    case (1 e)
    then show ?thesis using assms(1) q by (auto simp: quietly_def)
  next
    case (2 a s')
    then have "quiet s'" using assms(1) q by (auto simp: quietly_def)
    then show ?thesis using 2 assms(2)[of a] unfolding finishing_def by blast
  qed
qed

lemma finishing_return [outcome_rules]: "finishing (st_return exit_success)"
  by (auto simp: finishing_def st_defs closes_def)

lemma finishing_failing [outcome_rules]: "finishing (failing msg)"
  by (auto simp: finishing_def failing_def print_line_def st_defs st_bind_def closes_def quiet_def)

lemma quietly_print_all [outcome_rules]: "quietly (print_all ls)"
  unfolding print_all_def by (intro outcome_rules)

lemma finishing_generate [outcome_rules]: "finishing (generate_config w opts)"
  unfolding generate_config_def by (auto intro!: outcome_rules split: option.splits)

lemma quietly_measure [outcome_rules]: "quietly (measure_latency w c)"
  unfolding measure_latency_def Let_def by (intro outcome_rules)

lemma failed_report: "st_bind (st_bind (failing msg) (\<lambda>c. st_return (Some c)))
     (\<lambda>early. case early of Some code \<Rightarrow> st_return code | None \<Rightarrow> m) = failing msg"
  by (rule ext) (simp add: failing_def print_line_def st_defs st_bind_def)

lemma finishing_report:
  assumes "finishing m"
  shows "finishing (st_bind (report_scores w opts result)
     (\<lambda>early. case early of Some code \<Rightarrow> st_return code | None \<Rightarrow> m))"
proof -
  have ok: "finishing (st_bind (st_bind n (\<lambda>_. st_return None))
      (\<lambda>early. case early of Some code \<Rightarrow> st_return code | None \<Rightarrow> m))"
    if "quietly n" for n :: "(printed list, unit) stm"
  proof -
    have "st_bind (st_bind n (\<lambda>_. st_return None))
        (\<lambda>early. case early of Some code \<Rightarrow> st_return code | None \<Rightarrow> m) = st_bind n (\<lambda>_. m)"
      by (rule ext) (simp add: st_bind_def st_return_def split: prod.splits sum.splits)
    then show ?thesis using that assms by (simp add: outcome_rules)
  qed
  have ok': "finishing (st_bind (st_bind (st_lift r) (\<lambda>ls. st_bind (print_all ls) (\<lambda>_. st_return None)))
      (\<lambda>early. case early of Some code \<Rightarrow> st_return code | None \<Rightarrow> m))" for r
  proof -
    have "st_bind (st_lift r) (\<lambda>ls. st_bind (print_all ls) (\<lambda>_. st_return None)) =
        st_bind (st_bind (st_lift r) print_all) (\<lambda>_. st_return (None :: int option))"
      by (rule ext) (simp add: st_bind_def st_defs split: prod.splits sum.splits)
    then show ?thesis by (simp add: ok outcome_rules)
  qed
  show ?thesis
    unfolding report_scores_def Let_def
    by (auto simp: failed_report intro!: ok ok' outcome_rules split: option.splits tensor_data.splits)
qed

lemma finishing_classify_with [outcome_rules]: "finishing (classify_with w opts c)"
  unfolding classify_with_def by (intro outcome_rules finishing_report)

lemma finishing_classify [outcome_rules]: "finishing (classify w opts)"
  unfolding classify_def by (auto intro!: outcome_rules split: option.splits)

lemma finishing_body: "finishing (classification_body w argv)"
  unfolding classification_body_def by (auto intro!: outcome_rules)

lemma exit_code_reported:
  assumes "classification_main w argv = Some (code, ls)"
  shows "closes code ls"
proof -
  obtain r ls0 where run: "classification_body w argv [] = (r, ls0)" by (cases "classification_body w argv []")
  have "case r of Inl e \<Rightarrow> quiet ls0 | Inr code \<Rightarrow> closes code ls0"
    using finishing_body[of w argv] run unfolding finishing_def by (metis quiet_def list.pred_inject(1))
  then show ?thesis
    using assms run by (auto simp: classification_main_def closes_def split: sum.splits if_splits)
qed

text \<open>Classifying with a service on another machine is classifying with the model itself.\<close>

lemma top_five_local: "top_five (w\<lparr>cw_model := f\<rparr>) = top_five w"
  by (simp add: fun_eq_iff top_five_def sort_scores_def scored_labels_def score_line_def)

lemma report_local: "report_scores (w\<lparr>cw_model := f\<rparr>) opts result = report_scores w opts result"
  unfolding report_scores_def top_five_local
  by (simp add: Let_def split: option.split tensor_data.split)

lemma sample_inputs_local: "sample_inputs (w\<lparr>cw_model := f\<rparr>) = sample_inputs w"
  by (simp add: sample_inputs_def)

lemma classify_over_the_wire:
  assumes "hosts sv cl m" "\<not> st_is_ok lost" "ml_metadata m [] = Inr md" "inputs_match md (sample_inputs w)"
    and "ml_infer m (sample_inputs w) [] = Inr result" "views_wf result"
    and "\<And>n. cw_model w c n = ml_client cl (ml_service sv lost)"
  shows "classify_with w opts c = classify_with (w\<lparr>cw_model := \<lambda>_ _. m\<rparr>) opts c"
proof -
  have x: "ps_wf []" by (simp add: ps_wf_def)
  have remote: "ml_infer (ml_client cl (ml_service sv lost)) (sample_inputs w) [] = Inr result"
    using remote_infer[OF assms(1,2) x assms(3,4) refl] assms(5,6) by (simp add: seen_remotely_def)
  then have "measure_latency (w\<lparr>cw_model := \<lambda>_ _. m\<rparr>) c = measure_latency w c"
    using assms(5) by (simp add: measure_latency_def sample_inputs_local assms(7))
  then show ?thesis
    unfolding classify_with_def report_local sample_inputs_local using assms(5,7) remote by simp
qed

end
