(* ===== verification/Tracing.thy ===== *)
theory Tracing
  imports Effects Helpers
begin

text \<open>
  \<^verbatim>\<open>tracing/private/span_guard.cpp\<close> and \<^verbatim>\<open>tracing/span.cpp\<close>, as compiled with OpenTelemetry: the
  span a server opens around a handler, the spans of module authors, and the trace context a client
  sends along. A span is the sequence of calls the code makes on it. What OpenTelemetry does is a
  parameter (\<open>otel_api\<close>); \<open>otel_ok\<close> states what the code relies on, as OpenTelemetry documents it:
  scopes restore the context they found, a context knows the span put into it, and the W3C
  propagator reads back what it wrote.
\<close>

subsection \<open>OpenTelemetry, as the code uses it\<close>

datatype attr_value = AV_bool bool | AV_int int | AV_double double | AV_string string

datatype span_status = SS_ok | SS_error string

datatype span_call =
    SetAttribute string attr_value
  | AddEvent string "(string \<times> attr_value) list"
  | SetStatus span_status
  | SpanEnd

datatype span_kind = SK_internal | SK_server

text \<open>
  \<open>'rt\<close> is the thread's context storage, \<open>'c\<close> a context, \<open>'tok\<close> the token of an attached one, \<open>'sc\<close>
  a span context and \<open>'id\<close> its trace and span identifiers. \<open>oa_start\<close> is the context of a new span,
  whose number, explicit parent and surroundings are given.
\<close>

record ('rt, 'c, 'tok, 'sc, 'id) otel_api =
  oa_current :: "'rt \<Rightarrow> 'c"
  oa_attach :: "'c \<Rightarrow> 'rt \<Rightarrow> 'tok \<times> 'rt"
  oa_detach :: "'tok \<Rightarrow> 'rt \<Rightarrow> 'rt"
  oa_set_span :: "'c \<Rightarrow> 'sc \<Rightarrow> 'c"
  oa_span_context :: "'c \<Rightarrow> 'sc"
  oa_invalid :: 'sc
  oa_is_valid :: "'sc \<Rightarrow> bool"
  oa_ids :: "'sc \<Rightarrow> 'id"
  oa_start :: "nat \<Rightarrow> 'sc option \<Rightarrow> 'rt \<Rightarrow> 'sc"
  oa_inject :: "'c \<Rightarrow> (string \<times> string) list"
  oa_extract :: "(string \<Rightarrow> string) \<Rightarrow> 'c \<Rightarrow> 'c"

record 'sc span =
  sp_name :: string
  sp_kind :: span_kind
  sp_parent :: "'sc option"
  sp_context :: 'sc
  sp_calls :: "span_call list"

record ('rt, 'sc) tracing =
  tg_rt :: 'rt
  tg_spans :: "'sc span list"

definition trace_keys :: "string set" where
  "trace_keys = {''traceparent'', ''tracestate''}"

definition otel_ok :: "('rt, 'c, 'tok, 'sc, 'id) otel_api \<Rightarrow> bool" where
  "otel_ok api \<longleftrightarrow>
     (\<forall>c rt. oa_current api (snd (oa_attach api c rt)) = c)
     \<and> (\<forall>c rt. oa_detach api (fst (oa_attach api c rt)) (snd (oa_attach api c rt)) = rt)
     \<and> (\<forall>c sc. oa_span_context api (oa_set_span api c sc) = sc)
     \<and> \<not> oa_is_valid api (oa_invalid api)
     \<and> (\<forall>c. set (akeys (oa_inject api c)) \<subseteq> trace_keys \<and> awf (oa_inject api c))
     \<and> (\<forall>c. \<not> oa_is_valid api (oa_span_context api c) \<longrightarrow> oa_inject api c = [])
     \<and> (\<forall>c c0 get. oa_is_valid api (oa_span_context api c) \<longrightarrow>
          (\<forall>e\<in>set (oa_inject api c). get (fst e) = snd e) \<longrightarrow>
          oa_ids api (oa_span_context api (oa_extract api get c0)) = oa_ids api (oa_span_context api c))"

subsection \<open>Spans and scopes\<close>

definition start_span ::
  "('rt, 'c, 'tok, 'sc, 'id) otel_api \<Rightarrow> string \<Rightarrow> span_kind \<Rightarrow> 'sc option \<Rightarrow> ('rt, 'sc) tracing \<Rightarrow>
   nat \<times> ('rt, 'sc) tracing" where
  "start_span api name kind parent st =
     (let i = length (tg_spans st);
          sp = \<lparr>sp_name = name, sp_kind = kind, sp_parent = parent,
                sp_context = oa_start api i parent (tg_rt st), sp_calls = []\<rparr>
      in (i, st\<lparr>tg_spans := tg_spans st @ [sp]\<rparr>))"

definition call_span :: "nat \<Rightarrow> span_call list \<Rightarrow> ('rt, 'sc) tracing \<Rightarrow> ('rt, 'sc) tracing" where
  "call_span i calls st =
     (if i < length (tg_spans st)
      then st\<lparr>tg_spans := (tg_spans st)[i := (tg_spans st ! i)\<lparr>sp_calls := sp_calls (tg_spans st ! i) @ calls\<rparr>]\<rparr>
      else st)"

text \<open>\<^verbatim>\<open>otel_trace::Scope\<close>: the span becomes the active one until the scope goes away.\<close>

definition scope_open ::
  "('rt, 'c, 'tok, 'sc, 'id) otel_api \<Rightarrow> 'sc \<Rightarrow> ('rt, 'sc) tracing \<Rightarrow> 'tok \<times> ('rt, 'sc) tracing" where
  "scope_open api sc st =
     (let out = oa_attach api (oa_set_span api (oa_current api (tg_rt st)) sc) (tg_rt st)
      in (fst out, st\<lparr>tg_rt := snd out\<rparr>))"

definition scope_close ::
  "('rt, 'c, 'tok, 'sc, 'id) otel_api \<Rightarrow> 'tok \<Rightarrow> ('rt, 'sc) tracing \<Rightarrow> ('rt, 'sc) tracing" where
  "scope_close api tok st = st\<lparr>tg_rt := oa_detach api tok (tg_rt st)\<rparr>"

definition active_span :: "('rt, 'c, 'tok, 'sc, 'id) otel_api \<Rightarrow> ('rt, 'sc) tracing \<Rightarrow> 'sc" where
  "active_span api st = oa_span_context api (oa_current api (tg_rt st))"

subsection \<open>Carriers\<close>

definition server_carrier_get :: "metadata \<Rightarrow> string \<Rightarrow> string" where
  "server_carrier_get md key = (case map_of md key of Some v \<Rightarrow> v | None \<Rightarrow> [])"

definition client_carrier_set :: "string \<times> string \<Rightarrow> metadata \<Rightarrow> metadata" where
  "client_carrier_set e ctx = ctx @ [e]"

definition inject_trace_context ::
  "('rt, 'c, 'tok, 'sc, 'id) otel_api \<Rightarrow> ('rt, 'sc) tracing \<Rightarrow> metadata \<Rightarrow> metadata" where
  "inject_trace_context api st ctx =
     foldl (\<lambda>c e. client_carrier_set e c) ctx (oa_inject api (oa_current api (tg_rt st)))"

text \<open>
  \<^verbatim>\<open>ClientContext\<close> made for a channel, and the metadata of a call made with it by the client helper. A
  context made without a channel is not traced (\<open>default_context_untraced\<close> below).
\<close>

definition traced_call_context ::
  "('rt, 'c, 'tok, 'sc, 'id) otel_api \<Rightarrow> ('rt, 'sc) tracing \<Rightarrow> string \<Rightarrow> string option \<Rightarrow> 'q client_call \<Rightarrow> metadata"
where
  "traced_call_context api st version token c =
     (let ctx = inject_trace_context api st (client_context version token)
      in if cc_debug_key c \<noteq> [] then set_debug_key (cc_debug_key c) ctx else ctx)"

subsection \<open>The span of a handler\<close>

record 'tok span_guard =
  sg_span :: nat
  sg_scope :: 'tok
  sg_committed :: bool

definition guard_start_span ::
  "('rt, 'c, 'tok, 'sc, 'id) otel_api \<Rightarrow> metadata option \<Rightarrow> string \<Rightarrow> ('rt, 'sc) tracing \<Rightarrow>
   nat \<times> ('rt, 'sc) tracing" where
  "guard_start_span api ctx label st =
     (let parent = map_option (\<lambda>md. oa_span_context api
              (oa_extract api (server_carrier_get md) (oa_current api (tg_rt st)))) ctx;
          out = start_span api label SK_server parent st
      in (fst out, call_span (fst out) [SetAttribute ''rpc.system'' (AV_string ''grpc'')] (snd out)))"

definition guard_new ::
  "('rt, 'c, 'tok, 'sc, 'id) otel_api \<Rightarrow> metadata option \<Rightarrow> string \<Rightarrow> ('rt, 'sc) tracing \<Rightarrow>
   'tok span_guard \<times> ('rt, 'sc) tracing" where
  "guard_new api ctx label st =
     (let out = guard_start_span api ctx label st;
          i = fst out; st' = snd out;
          sc = scope_open api (sp_context (tg_spans st' ! i)) st'
      in (\<lparr>sg_span = i, sg_scope = fst sc, sg_committed = False\<rparr>, snd sc))"

fun status_code_value :: "status_code \<Rightarrow> int" where
  "status_code_value OK = 0"
| "status_code_value CANCELLED = 1"
| "status_code_value UNKNOWN = 2"
| "status_code_value INVALID_ARGUMENT = 3"
| "status_code_value DEADLINE_EXCEEDED = 4"
| "status_code_value NOT_FOUND = 5"
| "status_code_value ALREADY_EXISTS = 6"
| "status_code_value PERMISSION_DENIED = 7"
| "status_code_value RESOURCE_EXHAUSTED = 8"
| "status_code_value FAILED_PRECONDITION = 9"
| "status_code_value ABORTED = 10"
| "status_code_value OUT_OF_RANGE = 11"
| "status_code_value UNIMPLEMENTED = 12"
| "status_code_value INTERNAL = 13"
| "status_code_value UNAVAILABLE = 14"
| "status_code_value DATA_LOSS = 15"
| "status_code_value UNAUTHENTICATED = 16"

definition commit_calls :: "status \<Rightarrow> span_call list" where
  "commit_calls status =
     (if st_is_ok status then [SetStatus SS_ok]
      else [SetStatus (SS_error []),
            SetAttribute ''rpc.grpc.status_code'' (AV_int (status_code_value (st_code status)))])"

definition guard_commit ::
  "status \<Rightarrow> 'tok span_guard \<Rightarrow> ('rt, 'sc) tracing \<Rightarrow> status \<times> 'tok span_guard \<times> ('rt, 'sc) tracing" where
  "guard_commit status g st =
     (status, g\<lparr>sg_committed := True\<rparr>, call_span (sg_span g) (commit_calls status) st)"

definition record_exception_calls :: "exn \<Rightarrow> span_call list" where
  "record_exception_calls xcp =
     [SetAttribute ''error.type'' (AV_string ''std::exception''),
      AddEvent ''exception''
        [(''exception.type'', AV_string ''std::exception''),
         (''exception.message'', AV_string (c_str (exn_what xcp)))],
      SetStatus (SS_error (c_str (exn_what xcp)))]"

definition record_unknown_calls :: "span_call list" where
  "record_unknown_calls =
     [SetAttribute ''error.type'' (AV_string ''unknown''),
      AddEvent ''exception'' [(''exception.type'', AV_string ''unknown'')],
      SetStatus (SS_error ''unknown exception'')]"

definition guard_record_exception ::
  "exn \<Rightarrow> 'tok span_guard \<Rightarrow> ('rt, 'sc) tracing \<Rightarrow> 'tok span_guard \<times> ('rt, 'sc) tracing" where
  "guard_record_exception xcp g st =
     (g\<lparr>sg_committed := True\<rparr>, call_span (sg_span g) (record_exception_calls xcp) st)"

definition guard_record_unknown ::
  "'tok span_guard \<Rightarrow> ('rt, 'sc) tracing \<Rightarrow> 'tok span_guard \<times> ('rt, 'sc) tracing" where
  "guard_record_unknown g st =
     (g\<lparr>sg_committed := True\<rparr>, call_span (sg_span g) record_unknown_calls st)"

text \<open>The destructor: the span ends, then its scope is closed.\<close>

definition guard_delete ::
  "('rt, 'c, 'tok, 'sc, 'id) otel_api \<Rightarrow> 'tok span_guard \<Rightarrow> ('rt, 'sc) tracing \<Rightarrow> ('rt, 'sc) tracing" where
  "guard_delete api g st =
     scope_close api (sg_scope g)
       (call_span (sg_span g)
          ((if sg_committed g then [] else [SetStatus (SS_error ''handler threw an exception'')]) @ [SpanEnd]) st)"

subsection \<open>Handlers under a guard\<close>

text \<open>
  The handler helper: exceptions are recorded and rethrown. A process that runs into undefined
  behaviour leaves the span as it is.
\<close>

definition spanned_helper ::
  "('rt, 'c, 'tok, 'sc, 'id) otel_api \<Rightarrow> metadata \<Rightarrow> string \<Rightarrow> (('rt, 'sc) tracing, status) stm \<Rightarrow>
   (('rt, 'sc) tracing, status) stm" where
  "spanned_helper api md label body st =
     (let g = guard_new api (Some md) label st; out = body (snd g)
      in case fst out of
           Inr status \<Rightarrow>
             (let c = guard_commit status (fst g) (snd out)
              in (Inr (fst c), guard_delete api (fst (snd c)) (snd (snd c))))
         | Inl e \<Rightarrow>
             if is_undefined e then (Inl e, snd out)
             else if is_std_exception e then
               (let c = guard_record_exception e (fst g) (snd out) in (Inl e, guard_delete api (fst c) (snd c)))
             else
               (let c = guard_record_unknown (fst g) (snd out) in (Inl e, guard_delete api (fst c) (snd c))))"

text \<open>The handlers of the module service commit the status they return and let exceptions pass.\<close>

definition spanned_module ::
  "('rt, 'c, 'tok, 'sc, 'id) otel_api \<Rightarrow> metadata \<Rightarrow> string \<Rightarrow> (('rt, 'sc) tracing, status) stm \<Rightarrow>
   (('rt, 'sc) tracing, status) stm" where
  "spanned_module api md label body st =
     (let g = guard_new api (Some md) label st; out = body (snd g)
      in case fst out of
           Inr status \<Rightarrow>
             (let c = guard_commit status (fst g) (snd out)
              in (Inr (fst c), guard_delete api (fst (snd c)) (snd (snd c))))
         | Inl e \<Rightarrow>
             if is_undefined e then (Inl e, snd out) else (Inl e, guard_delete api (fst g) (snd out)))"

text \<open>\<^verbatim>\<open>ServiceHelper::operator()\<close> with its span; the callable may open spans of its own.\<close>

definition traced_try ::
  "('rt, 'c, 'tok, 'sc, 'id) otel_api \<Rightarrow> metadata option \<Rightarrow> metadata option \<Rightarrow> ('q \<Rightarrow> string) \<Rightarrow>
   'r manager \<Rightarrow> ('r \<Rightarrow> 'x option) \<Rightarrow> string \<Rightarrow> 'q option \<Rightarrow> ('x \<Rightarrow> (('rt, 'sc) tracing, status) stm) \<Rightarrow>
   (('rt, 'sc) tracing, status) stm" where
  "traced_try api current context name_of m cast label request callable st =
     (case context of
        None \<Rightarrow> (Inr (failNoContext label), st)
      | Some md \<Rightarrow>
          (case request of
             None \<Rightarrow> (Inr (failNoRequest label), st)
           | Some q \<Rightarrow>
               (case Option.bind (manager_resource m (name_of q)) cast of
                  None \<Rightarrow> (Inr (failNoResource label (name_of q)), st)
                | Some x \<Rightarrow>
                    (case observer_enable current md of
                       Inl e \<Rightarrow> (Inl e, st)
                     | Inr _ \<Rightarrow> spanned_helper api md label (callable x) st))))"

definition traced_service_helper ::
  "('rt, 'c, 'tok, 'sc, 'id) otel_api \<Rightarrow> metadata option \<Rightarrow> metadata option \<Rightarrow> ('q \<Rightarrow> string) \<Rightarrow>
   'r manager \<Rightarrow> ('r \<Rightarrow> 'x option) \<Rightarrow> string \<Rightarrow> 'q option \<Rightarrow> ('x \<Rightarrow> (('rt, 'sc) tracing, status) stm) \<Rightarrow>
   (('rt, 'sc) tracing, status) stm" where
  "traced_service_helper api current context name_of m cast label request callable st =
     (case traced_try api current context name_of m cast label request callable st of
        (Inr status, st') \<Rightarrow> (Inr status, st')
      | (Inl e, st') \<Rightarrow>
          (if is_std_exception e then Inr (failStdException label e)
           else if is_undefined e then Inl e
           else Inr (failUnknownException label), st'))"

subsection \<open>Spans of module authors\<close>

text \<open>Without an active span a \<^verbatim>\<open>TracingSpan\<close> holds a span that ignores every call.\<close>

record 'tok tracing_span =
  ts_span :: "nat option"
  ts_scope :: 'tok

definition has_active_span :: "('rt, 'c, 'tok, 'sc, 'id) otel_api \<Rightarrow> ('rt, 'sc) tracing \<Rightarrow> bool" where
  "has_active_span api st \<longleftrightarrow> oa_is_valid api (active_span api st)"

definition start_or_noop ::
  "('rt, 'c, 'tok, 'sc, 'id) otel_api \<Rightarrow> string \<Rightarrow> ('rt, 'sc) tracing \<Rightarrow> nat option \<times> ('rt, 'sc) tracing" where
  "start_or_noop api name st =
     (if \<not> has_active_span api st then (None, st)
      else let out = start_span api name SK_internal None st in (Some (fst out), snd out))"

definition tracing_span_new ::
  "('rt, 'c, 'tok, 'sc, 'id) otel_api \<Rightarrow> string \<Rightarrow> ('rt, 'sc) tracing \<Rightarrow> 'tok tracing_span \<times> ('rt, 'sc) tracing"
where
  "tracing_span_new api name st =
     (let out = start_or_noop api name st;
          sc = (case fst out of Some i \<Rightarrow> sp_context (tg_spans (snd out) ! i) | None \<Rightarrow> oa_invalid api);
          scope = scope_open api sc (snd out)
      in (\<lparr>ts_span = fst out, ts_scope = fst scope\<rparr>, snd scope))"

definition on_span :: "'tok tracing_span \<Rightarrow> span_call list \<Rightarrow> ('rt, 'sc) tracing \<Rightarrow> ('rt, 'sc) tracing" where
  "on_span s calls st = (case ts_span s of Some i \<Rightarrow> call_span i calls st | None \<Rightarrow> st)"

definition set_attribute :: "'tok tracing_span \<Rightarrow> string \<Rightarrow> attr_value \<Rightarrow> ('rt, 'sc) tracing \<Rightarrow> ('rt, 'sc) tracing" where
  "set_attribute s key v = on_span s [SetAttribute key v]"

definition add_event :: "'tok tracing_span \<Rightarrow> string \<Rightarrow> ('rt, 'sc) tracing \<Rightarrow> ('rt, 'sc) tracing" where
  "add_event s name = on_span s [AddEvent name []]"

definition set_status_ok :: "'tok tracing_span \<Rightarrow> ('rt, 'sc) tracing \<Rightarrow> ('rt, 'sc) tracing" where
  "set_status_ok s = on_span s [SetStatus SS_ok]"

definition set_status_error :: "'tok tracing_span \<Rightarrow> string \<Rightarrow> ('rt, 'sc) tracing \<Rightarrow> ('rt, 'sc) tracing" where
  "set_status_error s description = on_span s [SetStatus (SS_error description)]"

definition span_record_exception :: "'tok tracing_span \<Rightarrow> exn \<Rightarrow> ('rt, 'sc) tracing \<Rightarrow> ('rt, 'sc) tracing" where
  "span_record_exception s xcp = on_span s (record_exception_calls xcp)"

definition span_record_unknown :: "'tok tracing_span \<Rightarrow> ('rt, 'sc) tracing \<Rightarrow> ('rt, 'sc) tracing" where
  "span_record_unknown s = on_span s record_unknown_calls"

definition span_end :: "'tok tracing_span \<Rightarrow> ('rt, 'sc) tracing \<Rightarrow> ('rt, 'sc) tracing" where
  "span_end s = on_span s [SpanEnd]"

definition tracing_span_delete ::
  "('rt, 'c, 'tok, 'sc, 'id) otel_api \<Rightarrow> 'tok tracing_span \<Rightarrow> ('rt, 'sc) tracing \<Rightarrow> ('rt, 'sc) tracing" where
  "tracing_span_delete api s st = scope_close api (ts_scope s) (span_end s st)"

text \<open>A block that owns a span: \<open>body\<close> runs between its construction and its destruction.\<close>

definition in_tracing_span ::
  "('rt, 'c, 'tok, 'sc, 'id) otel_api \<Rightarrow> string \<Rightarrow> ('tok tracing_span \<Rightarrow> (('rt, 'sc) tracing, 'a) stm) \<Rightarrow>
   (('rt, 'sc) tracing, 'a) stm" where
  "in_tracing_span api name body st =
     (let s = tracing_span_new api name st; out = body (fst s) (snd s)
      in (fst out, tracing_span_delete api (fst s) (snd out)))"

subsection \<open>Lemmas: scopes nest\<close>

text \<open>
  A statement is tidy when it leaves the thread's context as it found it and does not touch the
  spans opened before it.
\<close>

definition tidy :: "(('rt, 'sc) tracing, 'a) stm \<Rightarrow> bool" where
  "tidy body \<longleftrightarrow> (\<forall>st. tg_rt (snd (body st)) = tg_rt st
     \<and> take (length (tg_spans st)) (tg_spans (snd (body st))) = tg_spans st)"

lemma tidyD:
  assumes "tidy body" "body st = (r, st')"
  shows "tg_rt st' = tg_rt st" "\<exists>rest. tg_spans st' = tg_spans st @ rest"
  using assms append_take_drop_id[of "length (tg_spans st)" "tg_spans st'"]
  by (auto simp: tidy_def dest: spec[where x = st]) (metis append_take_drop_id snd_conv)

lemma tidyI:
  "(\<And>st r st'. body st = (r, st') \<Longrightarrow> tg_rt st' = tg_rt st \<and> (\<exists>rest. tg_spans st' = tg_spans st @ rest)) \<Longrightarrow>
   tidy body"
  unfolding tidy_def by (metis append_eq_conv_conj prod.collapse)

lemma tidy_return: "tidy (st_return a)"
  by (simp add: tidy_def st_return_def)

lemma tidy_throw: "tidy (st_throw e)"
  by (simp add: tidy_def st_throw_def)

lemma tidy_bind:
  assumes "tidy m" "\<And>a. tidy (f a)"
  shows "tidy (st_bind m f)"
proof (rule tidyI)
  fix st r st' assume "st_bind m f st = (r, st')"
  then show "tg_rt st' = tg_rt st \<and> (\<exists>rest. tg_spans st' = tg_spans st @ rest)"
    using tidyD[OF assms(1)] tidyD[OF assms(2)]
    by (elim st_bind_cases) (metis append.assoc)+
qed

lemma call_span_last:
  "call_span (length (tg_spans st0)) calls (st\<lparr>tg_spans := tg_spans st0 @ sp # rest\<rparr>) =
   st\<lparr>tg_spans := tg_spans st0 @ sp\<lparr>sp_calls := sp_calls sp @ calls\<rparr> # rest\<rparr>"
  by (simp add: call_span_def)

lemma call_span_at:
  "tg_spans st = pre @ sp # rest \<Longrightarrow>
   call_span (length pre) calls st = st\<lparr>tg_spans := pre @ sp\<lparr>sp_calls := sp_calls sp @ calls\<rparr> # rest\<rparr>"
  by (simp add: call_span_def)

lemma otel_scope:
  assumes "otel_ok api"
  shows "tg_rt (scope_close api (fst (scope_open api sc st)) st') =
      tg_rt st \<longleftrightarrow> oa_detach api (fst (scope_open api sc st)) (tg_rt st') = tg_rt st"
    and "tg_rt st' = tg_rt (snd (scope_open api sc st)) \<Longrightarrow>
      tg_rt (scope_close api (fst (scope_open api sc st)) st') = tg_rt st"
    and "active_span api (snd (scope_open api sc st)) = sc"
  using assms by (simp_all add: scope_open_def scope_close_def active_span_def otel_ok_def Let_def)

text \<open>The span a guard opens, and the state around its handler.\<close>

definition server_span ::
  "('rt, 'c, 'tok, 'sc, 'id) otel_api \<Rightarrow> metadata \<Rightarrow> string \<Rightarrow> ('rt, 'sc) tracing \<Rightarrow> 'sc span" where
  "server_span api md label st =
     (let parent = Some (oa_span_context api
              (oa_extract api (server_carrier_get md) (oa_current api (tg_rt st))))
      in \<lparr>sp_name = label, sp_kind = SK_server, sp_parent = parent,
          sp_context = oa_start api (length (tg_spans st)) parent (tg_rt st),
          sp_calls = [SetAttribute ''rpc.system'' (AV_string ''grpc'')]\<rparr>)"

definition handler_state ::
  "('rt, 'c, 'tok, 'sc, 'id) otel_api \<Rightarrow> metadata \<Rightarrow> string \<Rightarrow> ('rt, 'sc) tracing \<Rightarrow> ('rt, 'sc) tracing" where
  "handler_state api md label st = snd (guard_new api (Some md) label st)"

lemma guard_new_eq:
  "guard_new api (Some md) label st =
     (\<lparr>sg_span = length (tg_spans st),
       sg_scope = fst (scope_open api (sp_context (server_span api md label st))
         (st\<lparr>tg_spans := tg_spans st @ [server_span api md label st]\<rparr>)), sg_committed = False\<rparr>,
      handler_state api md label st)"
  "handler_state api md label st =
     snd (scope_open api (sp_context (server_span api md label st))
       (st\<lparr>tg_spans := tg_spans st @ [server_span api md label st]\<rparr>))"
  by (simp_all add: handler_state_def guard_new_def guard_start_span_def start_span_def server_span_def
      call_span_def Let_def nth_append list_update_append)

lemma handler_state_spans [simp]:
  "tg_spans (handler_state api md label st) = tg_spans st @ [server_span api md label st]"
  by (simp add: guard_new_eq(2) scope_open_def Let_def)

lemma handler_active:
  "otel_ok api \<Longrightarrow> active_span api (handler_state api md label st) = sp_context (server_span api md label st)"
  by (simp add: guard_new_eq(2) otel_scope(3))

text \<open>What the guard writes on its span when the handler is done.\<close>

definition outcome_calls :: "status res \<Rightarrow> span_call list" where
  "outcome_calls r =
     (case r of
        Inr status \<Rightarrow> commit_calls status
      | Inl e \<Rightarrow> if is_std_exception e then record_exception_calls e else record_unknown_calls)"

lemma guard_delete_eq:
  assumes "otel_ok api" "tg_rt st' = tg_rt (handler_state api md label st)"
    and "tg_spans st' = tg_spans st @ sp # rest"
  shows "guard_delete api \<lparr>sg_span = length (tg_spans st),
       sg_scope = fst (scope_open api (sp_context (server_span api md label st))
         (st\<lparr>tg_spans := tg_spans st @ [server_span api md label st]\<rparr>)), sg_committed = b\<rparr> st' =
    \<lparr>tg_rt = tg_rt st,
     tg_spans = tg_spans st @ sp\<lparr>sp_calls := sp_calls sp @
       (if b then [] else [SetStatus (SS_error ''handler threw an exception'')]) @ [SpanEnd]\<rparr> # rest\<rparr>"
proof -
  have "tg_rt (scope_close api (fst (scope_open api (sp_context (server_span api md label st))
         (st\<lparr>tg_spans := tg_spans st @ [server_span api md label st]\<rparr>)))
       (call_span (length (tg_spans st)) calls st')) = tg_rt st" for calls
    using otel_scope(2)[OF assms(1), of "call_span (length (tg_spans st)) calls st'"] assms(2,3)
    by (simp add: guard_new_eq(2) call_span_at)
  then show ?thesis
    unfolding guard_delete_def
    by (intro tracing.equality) (simp_all add: scope_close_def call_span_at[OF assms(3)])
qed

lemma spanned_helper_eq:
  assumes "otel_ok api" "tidy body" "body (handler_state api md label st) = (r, st')"
    and "\<forall>e. r = Inl e \<longrightarrow> \<not> is_undefined e"
  shows "\<exists>rest. spanned_helper api md label body st =
    (r, \<lparr>tg_rt = tg_rt st,
         tg_spans = tg_spans st @
           (server_span api md label st)
             \<lparr>sp_calls := [SetAttribute ''rpc.system'' (AV_string ''grpc'')] @ outcome_calls r @ [SpanEnd]\<rparr> # rest\<rparr>)"
proof -
  have rt: "tg_rt st' = tg_rt (handler_state api md label st)" by (rule tidyD(1)[OF assms(2,3)])
  obtain rest where m: "tg_spans st' = tg_spans st @ server_span api md label st # rest"
    using tidyD(2)[OF assms(2,3)] by auto
  have c: "sp_calls (server_span api md label st) = [SetAttribute ''rpc.system'' (AV_string ''grpc'')]"
    by (simp add: server_span_def Let_def)
  have step: "tg_rt (call_span (length (tg_spans st)) calls st') = tg_rt (handler_state api md label st)"
    "tg_spans (call_span (length (tg_spans st)) calls st') = tg_spans st @
       (server_span api md label st)\<lparr>sp_calls := [SetAttribute ''rpc.system'' (AV_string ''grpc'')] @ calls\<rparr> # rest"
    for calls using rt by (simp_all add: call_span_at[OF m] c)
  show ?thesis
    using assms(4)
    by (cases r) (simp_all add: spanned_helper_def guard_new_eq(1) assms(3) Let_def guard_commit_def
        guard_record_exception_def guard_record_unknown_def guard_delete_eq[OF assms(1) step]
        outcome_calls_def)
qed

text \<open>A handler of the module service that throws leaves the guard's own status.\<close>

definition module_outcome_calls :: "status res \<Rightarrow> span_call list" where
  "module_outcome_calls r =
     (case r of
        Inr status \<Rightarrow> commit_calls status
      | Inl e \<Rightarrow> [SetStatus (SS_error ''handler threw an exception'')])"

lemma spanned_module_eq:
  assumes "otel_ok api" "tidy body" "body (handler_state api md label st) = (r, st')"
    and "\<forall>e. r = Inl e \<longrightarrow> \<not> is_undefined e"
  shows "\<exists>rest. spanned_module api md label body st =
    (r, \<lparr>tg_rt = tg_rt st,
         tg_spans = tg_spans st @
           (server_span api md label st)
             \<lparr>sp_calls := [SetAttribute ''rpc.system'' (AV_string ''grpc'')] @ module_outcome_calls r @ [SpanEnd]\<rparr> # rest\<rparr>)"
proof -
  have rt: "tg_rt st' = tg_rt (handler_state api md label st)" by (rule tidyD(1)[OF assms(2,3)])
  obtain rest where m: "tg_spans st' = tg_spans st @ server_span api md label st # rest"
    using tidyD(2)[OF assms(2,3)] by auto
  have c: "sp_calls (server_span api md label st) = [SetAttribute ''rpc.system'' (AV_string ''grpc'')]"
    by (simp add: server_span_def Let_def)
  have step: "tg_rt (call_span (length (tg_spans st)) calls st') = tg_rt (handler_state api md label st)"
    "tg_spans (call_span (length (tg_spans st)) calls st') = tg_spans st @
       (server_span api md label st)\<lparr>sp_calls := [SetAttribute ''rpc.system'' (AV_string ''grpc'')] @ calls\<rparr> # rest"
    for calls using rt by (simp_all add: call_span_at[OF m] c)
  show ?thesis
    using assms(4)
    by (cases r) (simp_all add: spanned_module_def guard_new_eq(1) assms(3) Let_def guard_commit_def
        guard_delete_eq[OF assms(1) step] guard_delete_eq[OF assms(1) rt m] module_outcome_calls_def c)
qed

text \<open>Every way a handler ends, the span gets one status and ends once, at the end.\<close>

lemma outcome_calls_status:
  "length (filter (\<lambda>c. \<exists>s. c = SetStatus s) (outcome_calls r)) = 1"
  "SpanEnd \<notin> set (outcome_calls r)"
  "SetStatus SS_ok \<in> set (outcome_calls r) \<longleftrightarrow> (\<exists>status. r = Inr status \<and> st_is_ok status)"
  by (auto simp: outcome_calls_def commit_calls_def record_exception_calls_def record_unknown_calls_def
      split: sum.splits)

subsection \<open>Lemmas: tracing does not change what a call does\<close>

lemma fst_spanned_helper [simp]:
  "fst (spanned_helper api md label body st) = fst (body (handler_state api md label st))"
  by (simp add: spanned_helper_def handler_state_def Let_def guard_commit_def split: sum.split)

lemma traced_helper_erases:
  "fst (traced_service_helper api current context name_of m cast label request callable st) =
   service_helper current context name_of m cast label request
     (\<lambda>x. fst (callable x (handler_state api (the context) label st)))"
  by (auto simp: traced_service_helper_def traced_try_def service_helper_def service_try_def
      split: option.splits sum.splits prod.splits)
    (metis fst_conv fst_spanned_helper sum.inject sum.distinct)+

lemma traced_helper_span:
  assumes "otel_ok api" "tidy (callable x)"
    and "manager_resource m (name_of q) = Some r" "cast r = Some x"
    and "callable x (handler_state api md label st) = (out, st')" "\<forall>e. out = Inl e \<longrightarrow> \<not> is_undefined e"
  shows "\<exists>rest. snd (traced_service_helper api None (Some md) name_of m cast label (Some q) callable st) =
    \<lparr>tg_rt = tg_rt st,
     tg_spans = tg_spans st @
       (server_span api md label st)
         \<lparr>sp_calls := [SetAttribute ''rpc.system'' (AV_string ''grpc'')] @ outcome_calls out @ [SpanEnd]\<rparr> # rest\<rparr>"
  using spanned_helper_eq[OF assms(1,2,5,6)] assms(3,4)
  by (auto simp: traced_service_helper_def traced_try_def observer_enable_def split: sum.split)

text \<open>A call that finds no resource opens no span.\<close>

lemma traced_helper_missing:
  assumes "Option.bind (manager_resource m (name_of q)) cast = None"
  shows "traced_service_helper api current (Some md) name_of m cast label (Some q) callable st =
    (Inr (failNoResource label (name_of q)), st)"
  using assms by (simp add: traced_service_helper_def traced_try_def)

subsection \<open>Lemmas: spans of module authors\<close>

definition tidy_above :: "nat \<Rightarrow> (('rt, 'sc) tracing, 'a) stm \<Rightarrow> bool" where
  "tidy_above n body \<longleftrightarrow> (\<forall>st. n \<le> length (tg_spans st) \<longrightarrow>
     tg_rt (snd (body st)) = tg_rt st \<and> take n (tg_spans (snd (body st))) = take n (tg_spans st)
     \<and> n \<le> length (tg_spans (snd (body st))))"

lemma tidy_above:
  fixes body :: "(('rt, 'sc) tracing, 'a) stm"
  shows "tidy body \<Longrightarrow> tidy_above n body"
  unfolding tidy_above_def
proof (intro allI impI)
  fix st :: "('rt, 'sc) tracing" assume t: "tidy body" and n: "n \<le> length (tg_spans st)"
  obtain rest where "tg_spans (snd (body st)) = tg_spans st @ rest" "tg_rt (snd (body st)) = tg_rt st"
    using tidyD[OF t, of st "fst (body st)" "snd (body st)"] by auto
  with n show "tg_rt (snd (body st)) = tg_rt st \<and> take n (tg_spans (snd (body st))) = take n (tg_spans st)
      \<and> n \<le> length (tg_spans (snd (body st)))" by simp
qed

lemma tidy_above_bind:
  "tidy_above n m \<Longrightarrow> (\<And>a. tidy_above n (f a)) \<Longrightarrow> tidy_above n (st_bind m f)"
  by (force simp: tidy_above_def st_bind_def split: sum.split prod.split)

lemma tidy_above_on_span:
  "(\<forall>i. ts_span s = Some i \<longrightarrow> n \<le> i) \<Longrightarrow> tidy_above n (st_modify (on_span s calls))"
  by (auto simp: tidy_above_def st_modify_def on_span_def call_span_def split: option.split)

lemma call_span_rt [simp]: "tg_rt (call_span i calls st) = tg_rt st"
  by (simp add: call_span_def)

lemma in_tracing_span_tidy:
  fixes api :: "('rt, 'c, 'tok, 'sc, 'id) otel_api"
  assumes "otel_ok api" "\<And>s n. (\<forall>i. ts_span s = Some i \<longrightarrow> i = n) \<Longrightarrow> tidy_above n (body s)"
  shows "tidy (in_tracing_span api name body)"
  unfolding tidy_def
proof (intro allI conjI)
  fix st :: "('rt, 'sc) tracing"
  let ?n = "length (tg_spans st)"
  define s st1 where s: "s = fst (tracing_span_new api name st)" and st1: "st1 = snd (tracing_span_new api name st)"
  obtain sc st0 where o: "st1 = snd (scope_open api sc st0)" "ts_scope s = fst (scope_open api sc st0)"
    "tg_rt st0 = tg_rt st" "take ?n (tg_spans st0) = tg_spans st" "?n \<le> length (tg_spans st0)"
    by (simp add: s st1 tracing_span_new_def start_or_noop_def start_span_def Let_def split: if_splits option.splits)
  have own: "\<forall>i. ts_span s = Some i \<longrightarrow> i = ?n"
    by (simp add: s tracing_span_new_def start_or_noop_def start_span_def Let_def)
  have sp: "tg_spans st1 = tg_spans st0" by (simp add: o(1) scope_open_def Let_def)
  define st2 where st2: "st2 = snd (body s st1)"
  have b: "tg_rt st2 = tg_rt st1" "take ?n (tg_spans st2) = tg_spans st" "?n \<le> length (tg_spans st2)"
    using assms(2)[OF own] o(4,5) sp by (simp_all add: tidy_above_def st2)
  have e: "snd (in_tracing_span api name body st) = scope_close api (ts_scope s) (span_end s st2)"
    by (simp add: in_tracing_span_def tracing_span_delete_def s st1 st2 Let_def)
  have "tg_rt (span_end s st2) = tg_rt st1"
    using b(1) by (simp add: span_end_def on_span_def split: option.split)
  then show "tg_rt (snd (in_tracing_span api name body st)) = tg_rt st"
    unfolding e o(2) using otel_scope(2)[OF assms(1)] o(1,3) by metis
  show "take ?n (tg_spans (snd (in_tracing_span api name body st))) = tg_spans st"
    unfolding e using b own
    by (auto simp: scope_close_def span_end_def on_span_def call_span_def split: option.split)
qed

text \<open>Outside any span nothing is recorded.\<close>

lemma tracing_span_noop:
  "\<not> has_active_span api st \<Longrightarrow>
   ts_span (fst (tracing_span_new api name st)) = None
   \<and> tg_spans (snd (tracing_span_new api name st)) = tg_spans st"
  by (simp add: tracing_span_new_def start_or_noop_def scope_open_def Let_def)

lemma tracing_span_noop_nested:
  assumes "otel_ok api" "\<not> has_active_span api st"
  shows "\<not> has_active_span api (snd (tracing_span_new api name st))"
  using assms otel_scope(3)[OF assms(1)]
  by (simp add: has_active_span_def tracing_span_new_def start_or_noop_def Let_def otel_ok_def)

text \<open>\<^verbatim>\<open>end()\<close> before the destructor ends the span twice.\<close>

lemma explicit_end_twice:
  assumes "ts_span s = Some i" "i < length (tg_spans st)"
  shows "\<exists>calls. sp_calls (tg_spans (tracing_span_delete api s (span_end s st)) ! i) = calls @ [SpanEnd, SpanEnd]"
  using assms by (simp add: tracing_span_delete_def span_end_def on_span_def call_span_def scope_close_def)

subsection \<open>Lemmas: the trace follows the calls\<close>

lemma inject_append: "inject_trace_context api st ctx = ctx @ oa_inject api (oa_current api (tg_rt st))"
proof -
  have "foldl (\<lambda>c e. client_carrier_set e c) ctx es = ctx @ es" for es
    by (induction es arbitrary: ctx) (simp_all add: client_carrier_set_def)
  then show ?thesis by (simp add: inject_trace_context_def)
qed

lemma traced_metadata:
  assumes "otel_ok api" "e \<in> set (oa_inject api (oa_current api (tg_rt st)))"
  shows "server_carrier_get (traced_call_context api st version token c) (fst e) = snd e"
proof -
  let ?i = "oa_inject api (oa_current api (tg_rt st))"
  have "set (akeys ?i) \<subseteq> trace_keys" and w: "awf ?i"
    using assms(1) by (simp_all add: otel_ok_def)
  then have k: "fst e \<in> trace_keys" using assms(2) by (auto simp: akeys_def)
  have "map_of (client_context version token) (fst e) = None"
    using k by (auto simp: client_context_def trace_keys_def split: option.split)
  moreover have "map_of ?i (fst e) = Some (snd e)"
    using assms(2) w by (simp add: akeys_def map_of_is_SomeI)
  ultimately show ?thesis
    by (simp add: server_carrier_get_def traced_call_context_def inject_append set_debug_key_def
        map_add_def Let_def)
qed

text \<open>
  A call made while a span is active reaches the next server with that span as the parent of the
  handler's, whatever else is in its metadata.
\<close>

lemma trace_follows_call:
  assumes "otel_ok api" "oa_is_valid api (active_span api st)"
  shows "map_option (oa_ids api) (sp_parent (server_span api (traced_call_context api st version token c) label st')) =
    Some (oa_ids api (active_span api st))"
proof -
  let ?get = "server_carrier_get (traced_call_context api st version token c)"
  have "\<forall>c c0 get. oa_is_valid api (oa_span_context api c) \<longrightarrow>
      (\<forall>e\<in>set (oa_inject api c). get (fst e) = snd e) \<longrightarrow>
      oa_ids api (oa_span_context api (oa_extract api get c0)) = oa_ids api (oa_span_context api c)"
    using assms(1) unfolding otel_ok_def by blast
  then have "oa_ids api (oa_span_context api (oa_extract api ?get (oa_current api (tg_rt st')))) =
      oa_ids api (oa_span_context api (oa_current api (tg_rt st)))"
    using assms(2) traced_metadata[OF assms(1)] unfolding active_span_def by blast
  then show ?thesis by (simp add: server_span_def active_span_def Let_def)
qed

text \<open>
  The other constructor, \<^verbatim>\<open>ClientContext()\<close>, injects nothing: its metadata is \<open>client_context version None\<close>.
  A bare gRPC context has none at all. What the propagator promises of a carrier without a
  \<^verbatim>\<open>traceparent\<close> is that the context stays what it was.
\<close>

definition extract_keeps :: "('rt, 'c, 'tok, 'sc, 'id) otel_api \<Rightarrow> bool" where
  "extract_keeps api \<longleftrightarrow> (\<forall>get c. get ''traceparent'' = [] \<longrightarrow> oa_extract api get c = c)"

lemma default_context_untraced:
  assumes "extract_keeps api" "md = client_context version None \<or> md = []"
  shows "sp_parent (server_span api md label st') = Some (active_span api st')"
proof -
  have "server_carrier_get md ''traceparent'' = []"
    using assms(2) by (auto simp: server_carrier_get_def client_context_def)
  then show ?thesis using assms(1) by (simp add: extract_keeps_def server_span_def active_span_def Let_def)
qed

text \<open>Without one the metadata is what it is without tracing.\<close>

lemma untraced_call:
  assumes "otel_ok api" "\<not> oa_is_valid api (active_span api st)"
  shows "traced_call_context api st version token c = call_context version token c"
  using assms by (simp add: traced_call_context_def call_context_def inject_append otel_ok_def active_span_def)

end
