(* ===== verification/MachineCalls.thy ===== *)
theory MachineCalls
  imports RobotClient Services
begin

text \<open>
  The calls \<^verbatim>\<open>robot/client.cpp\<close> makes to the robot service: operations, the frame system, poses,
  the machine's status and the traces. Each goes through \<^verbatim>\<open>impl::client_helper\<close>, which refuses to
  work without a connection. The requests of the robot service have no name, so the name a client
  helper would write is not there. The lemmas compare these calls with those of the client of the
  frame system (\<^verbatim>\<open>services/private/framesystem_client.cpp\<close>), which speaks to the same service.
\<close>

subsection \<open>The stub\<close>

type_synonym ('q, 'p) robot_rpc = "metadata \<Rightarrow> 'q \<Rightarrow> status \<times> 'p"

record robot_stub =
  rbs_GetOperations :: "(unit, pb_operation list) robot_rpc"
  rbs_CancelOperation :: "(string, unit) robot_rpc"
  rbs_BlockForOperation :: "(string, unit) robot_rpc"
  rbs_ResourceNames :: "(unit, pb_resource_name list) robot_rpc"
  rbs_FrameSystemConfig :: "(pb_transform list, pb_frame_system_config list) robot_rpc"
  rbs_TransformPose :: "(pb_pose_in_frame option \<times> string \<times> pb_transform list, pb_pose_in_frame option) robot_rpc"
  rbs_TransformPCD :: "(string \<times> string \<times> string, string) robot_rpc"
  rbs_GetPose :: "(string \<times> string \<times> pb_transform list \<times> pb_struct option, pb_pose_in_frame option) robot_rpc"
  rbs_GetMachineStatus :: "(unit, pb_machine_status) robot_rpc"
  rbs_StopAll :: "(pb_stop_params list, unit) robot_rpc"

definition robot_invoke ::
  "string \<Rightarrow> ('q, 'p) robot_rpc \<Rightarrow> 'q \<Rightarrow> ('p \<Rightarrow> 'a res) \<Rightarrow> (robot_client, 'a) stm" where
  "robot_invoke version rpc request rhc s =
     robot_call
       (rbind (channel_auth_token (rb_channel s)) (\<lambda>token.
          invoke version token (\<lambda>q. q) rpc \<lparr>cc_debug_key = [], cc_request = request\<rparr> rhc default_ehc)) s"

subsection \<open>Operations\<close>

definition get_operations :: "string \<Rightarrow> robot_stub \<Rightarrow> (robot_client, operation list) stm" where
  "get_operations version stub =
     robot_invoke version (rbs_GetOperations stub) () (mapM operation_from_proto)"

definition cancel_operation :: "string \<Rightarrow> robot_stub \<Rightarrow> string \<Rightarrow> (robot_client, unit) stm" where
  "cancel_operation version stub id' = robot_invoke version (rbs_CancelOperation stub) id' Inr"

definition block_for_operation :: "string \<Rightarrow> robot_stub \<Rightarrow> string \<Rightarrow> (robot_client, unit) stm" where
  "block_for_operation version stub id' = robot_invoke version (rbs_BlockForOperation stub) id' Inr"

text \<open>The answer \<open>refresh\<close> and the probes work on.\<close>

definition resource_names_call :: "string \<Rightarrow> robot_stub \<Rightarrow> (robot_client, pb_resource_name list) stm" where
  "resource_names_call version stub = robot_invoke version (rbs_ResourceNames stub) () Inr"

definition resource_names :: "robot_client \<Rightarrow> res_name list" where
  "resource_names s = rb_names s"

definition stop_all_extra ::
  "string \<Rightarrow> robot_stub \<Rightarrow> (res_name \<times> proto_struct) list \<Rightarrow> (robot_client, unit) stm" where
  "stop_all_extra version stub extra =
     robot_invoke version (rbs_StopAll stub) (stop_all_request extra) Inr"

subsection \<open>The frame system\<close>

definition get_frame_system_config ::
  "string \<Rightarrow> robot_stub \<Rightarrow> transform list \<Rightarrow> (robot_client, frame_system_config list) stm" where
  "get_frame_system_config version stub additional_transforms =
     robot_invoke version (rbs_FrameSystemConfig stub) (map transform_to_proto additional_transforms)
       (mapM frame_system_config_from_proto)"

definition transform_pose ::
  "string \<Rightarrow> robot_stub \<Rightarrow> pose_in_frame \<Rightarrow> string \<Rightarrow> transform list \<Rightarrow> (robot_client, pose_in_frame) stm"
where
  "transform_pose version stub query destination additional_transforms =
     robot_invoke version (rbs_TransformPose stub)
       (Some (pose_in_frame_to_proto query), destination, map transform_to_proto additional_transforms)
       pose_response"

definition transform_pcd ::
  "string \<Rightarrow> robot_stub \<Rightarrow> byte list \<Rightarrow> string \<Rightarrow> string \<Rightarrow> (robot_client, byte list) stm" where
  "transform_pcd version stub pcd source_frame destination =
     robot_invoke version (rbs_TransformPCD stub) (bytes_to_string pcd, source_frame, destination)
       (\<lambda>r. Inr (string_to_bytes r))"

definition get_pose ::
  "string \<Rightarrow> robot_stub \<Rightarrow> string \<Rightarrow> string \<Rightarrow> transform list \<Rightarrow> proto_struct \<Rightarrow>
   (robot_client, pose_in_frame) stm" where
  "get_pose version stub component_name destination_frame additional_transforms extra =
     robot_invoke version (rbs_GetPose stub)
       (component_name, destination_frame, map transform_to_proto additional_transforms,
        Some (struct_to_proto extra))
       pose_response"

definition get_pose_default ::
  "string \<Rightarrow> robot_stub \<Rightarrow> string \<Rightarrow> (robot_client, pose_in_frame) stm" where
  "get_pose_default version stub component_name =
     get_pose version stub component_name ''world'' [] []"

definition get_machine_status :: "string \<Rightarrow> robot_stub \<Rightarrow> (robot_client, machine_status) stm" where
  "get_machine_status version stub =
     robot_invoke version (rbs_GetMachineStatus stub) () machine_status_from_proto"

lemmas machine_call_defs =
  get_operations_def cancel_operation_def block_for_operation_def resource_names_call_def
  stop_all_extra_def get_frame_system_config_def transform_pose_def transform_pcd_def get_pose_def
  get_machine_status_def

subsection \<open>Traces\<close>

text \<open>\<^verbatim>\<open>send_traces\<close> reports success and never throws; its context carries no token.\<close>

definition send_traces ::
  "string \<Rightarrow> (metadata \<Rightarrow> 'spans \<Rightarrow> status) \<Rightarrow> 'spans \<Rightarrow> robot_client \<Rightarrow> bool" where
  "send_traces version stub req s \<longleftrightarrow>
     (if \<not> rb_impl s then False else st_is_ok (stub (client_context version None) req))"

subsection \<open>Lemmas\<close>

text \<open>A client with a connection, whose channel carries the token \<open>t\<close>.\<close>

definition connected_with :: "robot_client \<Rightarrow> string option \<Rightarrow> bool" where
  "connected_with s t \<longleftrightarrow> rb_impl s \<and> channel_auth_token (rb_channel s) = Inr t"

lemma robot_invoke_connected:
  assumes "connected_with s t"
  shows "robot_invoke version rpc request rhc s =
    ((case rpc (client_context version t) request of
        (st, p) \<Rightarrow> if st_is_ok st then rhc p else Inl (grpc_exception st)), s)"
  using assms
  by (simp add: robot_invoke_def connected_with_def robot_call_def invoke_def call_context_def
      run_ehc_def default_ehc_def Let_def split: prod.split)

lemma robot_invoke_disconnected:
  "\<not> rb_impl s \<Longrightarrow> \<exists>e. robot_invoke version rpc request rhc s = (Inl e, s) \<and> is_std_exception e"
  by (simp add: robot_invoke_def robot_call_def)

lemma robot_invoke_state [simp]: "snd (robot_invoke version rpc request rhc s) = s"
  by (simp add: robot_invoke_def robot_call_def)

lemma get_operations_from:
  assumes "connected_with s t" "rbs_GetOperations stub (client_context version t) () = (status_ok, ps)"
    and "\<forall>p\<in>set ps. pred_option time_fits (po_started p)"
  shows "\<exists>ops. get_operations version stub s = (Inr ops, s) \<and> map op_id ops = map po_id ps
     \<and> map op_method ops = map po_method ps"
proof -
  have "\<exists>ops. mapM operation_from_proto ps = Inr ops \<and> map op_id ops = map po_id ps
      \<and> map op_method ops = map po_method ps"
    using assms(3)
  proof (induction ps)
    case (Cons p ps)
    then obtain v where "optional_time (po_started p) = Inr v" using optional_time_ok by force
    with Cons show ?case by (force simp: operation_from_proto_def)
  qed simp
  then show ?thesis
    by (auto simp: get_operations_def robot_invoke_connected[OF assms(1)] assms(2) st_is_ok_def status_ok_def)
qed

lemma machine_status_from:
  assumes "connected_with s t" "rbs_GetMachineStatus stub (client_context version t) () = (status_ok, p)"
    and "machine_times_fit p"
  shows "\<exists>m. get_machine_status version stub s = (Inr m, s)
     \<and> length (mcs_resources m) = length (pmc_resources p)
     \<and> length (mcs_job_statuses m) = length (pmc_job_statuses p)"
  using machine_status_ok[OF assms(3)]
  by (auto simp: get_machine_status_def robot_invoke_connected[OF assms(1)] assms(2) st_is_ok_def status_ok_def)

text \<open>
  The robot service as the frame system's client sees it: the requests are the same messages.
\<close>

definition as_frame_system_stub :: "robot_stub \<Rightarrow> frame_system_stub" where
  "as_frame_system_stub stub =
     \<lparr>fss_FrameSystemConfig = (\<lambda>md q. rbs_FrameSystemConfig stub md (rq_body q)),
      fss_GetPose = (\<lambda>md q. case rq_body q of (c, d, ts) \<Rightarrow> rbs_GetPose stub md (c, d, ts, rq_extra q)),
      fss_TransformPose = (\<lambda>md q. rbs_TransformPose stub md (rq_body q)),
      fss_TransformPCD = (\<lambda>md q. rbs_TransformPCD stub md (rq_body q))\<rparr>"

definition frame_system_of :: "string \<Rightarrow> string option \<Rightarrow> robot_stub \<Rightarrow> frame_system" where
  "frame_system_of version t stub =
     frame_system_client \<lparr>rc_name = ''$framesystem'', rc_version = version, rc_token = t\<rparr>
       (as_frame_system_stub stub)"

lemma client_invoke_call:
  "client_invoke cl rpc key extra (Inr b) rhc =
   (case rpc (call_context (rc_version cl) (rc_token cl)
           \<lparr>cc_debug_key = key, cc_request = \<lparr>rq_name = [], rq_extra = extra, rq_body = b\<rparr>\<rparr>)
        \<lparr>rq_name = rc_name cl, rq_extra = extra, rq_body = b\<rparr> of
      (st, p) \<Rightarrow> if st_is_ok st then rhc p else Inl (grpc_exception st))"
  by (simp add: client_invoke_def invoke_def run_ehc_def default_ehc_def call_context_def Let_def
      split: prod.split)

lemma no_debug_key_setup:
  "map_of extra debug_map_key = None \<Longrightarrow>
   call_with_extra (\<lambda>s q. q\<lparr>rq_extra := Some s\<rparr>) extra Inr
      \<lparr>cc_debug_key = [], cc_request = \<lparr>rq_name = [], rq_extra = None, rq_body = ()\<rparr>\<rparr> =
    Inr \<lparr>cc_debug_key = [], cc_request = \<lparr>rq_name = [], rq_extra = Some (struct_to_proto extra), rq_body = ()\<rparr>\<rparr>"
  by (simp add: call_with_extra_def debug_map_value_def call_with_def Let_def)

lemmas frames_agree_simps =
  robot_invoke_connected frame_system_of_def frame_system_client_def as_frame_system_stub_def
  invoke_plain_def invoke_with_def client_invoke_call call_context_def no_debug_key_setup machine_call_defs

text \<open>The robot's client and the client of the frame system it hands out answer alike.\<close>

lemma frame_config_agrees:
  "connected_with s t \<Longrightarrow>
   get_frame_system_config version stub ts s =
     (fs_get_frame_system_config (frame_system_of version t stub) ts, s)"
  by (simp add: frames_agree_simps)

lemma transform_pose_agrees:
  "connected_with s t \<Longrightarrow>
   transform_pose version stub query dst ts s =
     (fs_transform_pose (frame_system_of version t stub) query dst ts, s)"
  by (simp add: frames_agree_simps)

lemma transform_pcd_agrees:
  "connected_with s t \<Longrightarrow>
   transform_pcd version stub pcd src dst s =
     (fs_transform_pcd (frame_system_of version t stub) pcd src dst, s)"
  by (simp add: frames_agree_simps)

lemma get_pose_agrees:
  "connected_with s t \<Longrightarrow> map_of extra debug_map_key = None \<Longrightarrow>
   get_pose version stub c dst ts extra s =
     (fs_get_pose (frame_system_of version t stub) c dst ts extra, s)"
  by (simp add: frames_agree_simps)

text \<open>
  With a debug key in the extra arguments the two differ: the client of the frame system also sends
  it as metadata.
\<close>

lemma get_pose_debug_key:
  assumes "map_of extra debug_map_key = Some (PString k)" "k \<noteq> []"
  shows "fs_get_pose (frame_system_of version t stub) c dst ts extra =
    (case rbs_GetPose stub (client_context version t @ [(''dtname'', k)])
            (c, dst, map transform_to_proto ts, Some (struct_to_proto extra)) of
       (st, p) \<Rightarrow> if st_is_ok st then pose_response p else Inl (grpc_exception st))"
  using assms
  by (simp add: frame_system_of_def frame_system_client_def as_frame_system_stub_def invoke_with_def
      client_invoke_call call_with_extra_def debug_map_value_def get_string_unchecked_def call_with_def
      call_context_def set_debug_key_def Let_def)

text \<open>The probe of the watcher and the refresh are calls of \<^verbatim>\<open>ResourceNames\<close>.\<close>

lemma refresh_by_call:
  assumes "connected_with s t"
  shows "refresh lookup order (fst (resource_names_call version stub s)) s =
    st_bind (resource_names_call version stub) (\<lambda>ns. refresh lookup order (Inr ns)) s"
  using assms
  by (auto simp: refresh_def resource_names_call_def robot_invoke_connected st_bind_def robot_call_def
      connected_with_def split: prod.splits sum.splits)

text \<open>After \<^verbatim>\<open>close()\<close> no call reaches the machine.\<close>

lemma closed_robot_refuses:
  assumes "robot_close self stop s = (Inr (), s')"
  shows "\<exists>e. robot_invoke version rpc request rhc s' = (Inl e, s') \<and> is_std_exception e"
proof -
  have "\<not> rb_impl s'"
    using assms by (auto simp: robot_close_def st_modify_def elim!: st_bind_cases)
  then show ?thesis by (rule robot_invoke_disconnected)
qed

end
