(* ===== verification/TraceExport.thy ===== *)
theory TraceExport
  imports Tracing MachineCalls ModuleService
begin

text \<open>
  \<^verbatim>\<open>tracing/private/tracer.cpp\<close>: the tracer of an instance, which installs and removes the process's
  trace provider, and the exporter that ships spans to the parent machine. Providers are numbered in
  the order they are made; each owns the exporter of the same number. \<open>None\<close> for the global provider
  is OpenTelemetry's no-op one. Shutting a provider down shuts its exporter down, as OpenTelemetry
  documents.
\<close>

record 'cl exporter =
  ex_client :: 'cl
  ex_is_shutdown :: bool

record 'cl tracer =
  tr_exporters :: "'cl exporter list"
  tr_sdk_provider :: "nat option"
  tr_global :: "nat option"

definition new_tracer :: "'cl tracer" where
  "new_tracer = \<lparr>tr_exporters = [], tr_sdk_provider = None, tr_global = None\<rparr>"

definition exporter_shutdown :: "'cl exporter \<Rightarrow> 'cl exporter" where
  "exporter_shutdown e = e\<lparr>ex_is_shutdown := True\<rparr>"

definition shutdown_provider :: "'cl tracer \<Rightarrow> 'cl tracer" where
  "shutdown_provider t =
     (case tr_sdk_provider t of
        None \<Rightarrow> t
      | Some i \<Rightarrow>
          t\<lparr>tr_exporters := (tr_exporters t)[i := exporter_shutdown (tr_exporters t ! i)],
            tr_global := None, tr_sdk_provider := None\<rparr>)"

definition initialize_provider :: "environment \<Rightarrow> 'cl \<Rightarrow> 'cl tracer \<Rightarrow> 'cl tracer" where
  "initialize_provider env client t =
     (let t = shutdown_provider t in
      if is_env_var_false env ''VIAM_MODULE_TRACING'' then t
      else t\<lparr>tr_exporters := tr_exporters t @ [\<lparr>ex_client = client, ex_is_shutdown = False\<rparr>],
             tr_sdk_provider := Some (length (tr_exporters t)),
             tr_global := Some (length (tr_exporters t))\<rparr>)"

text \<open>\<^verbatim>\<open>Export\<close>: \<open>client\<close> is the robot client behind the exporter's pointer, as it is now; the second
  component tells whether the client was used at all.\<close>

definition export_spans ::
  "string \<Rightarrow> (metadata \<Rightarrow> 'sp list \<Rightarrow> status) \<Rightarrow> ('cl \<Rightarrow> robot_client) \<Rightarrow> 'cl exporter \<Rightarrow> 'sp list \<Rightarrow> bool \<times> bool"
where
  "export_spans version stub client e spans =
     (if ex_is_shutdown e then (False, False)
      else if spans = [] then (True, False)
      else (send_traces version stub spans (client (ex_client e)), True))"

definition force_flush :: "'cl exporter \<Rightarrow> bool" where
  "force_flush e \<longleftrightarrow> True"

text \<open>Who calls the tracer: \<^verbatim>\<open>connect_tracing\<close> of a robot client, the destructor of any robot client's
  connection, and the destructor of the module service.\<close>

datatype 'cl tracer_op = Connect_tracing environment 'cl | Impl_destroyed 'cl | Module_destroyed

fun tracer_step :: "'cl tracer \<Rightarrow> 'cl tracer_op \<Rightarrow> 'cl tracer" where
  "tracer_step t (Connect_tracing env client) = initialize_provider env client t"
| "tracer_step t (Impl_destroyed client) = shutdown_provider t"
| "tracer_step t Module_destroyed = shutdown_provider t"

text \<open>The destructor of the module service: the server and the tracer are shut down, the parent is let go;
  what its destructor throws is swallowed.\<close>

definition module_service_destroy ::
  "('x, 'sd) module_service \<Rightarrow> 'cl tracer \<Rightarrow> ('x, 'sd) module_service \<times> 'cl tracer" where
  "module_service_destroy s t =
     (s\<lparr>ms_server := server_shutdown (ms_server s), ms_parent := None\<rparr>, tracer_step t Module_destroyed)"

inductive tracer_reachable :: "'cl tracer \<Rightarrow> bool" where
  start: "tracer_reachable new_tracer"
| step: "tracer_reachable t \<Longrightarrow> tracer_reachable (tracer_step t op')"

subsection \<open>Lemmas\<close>

text \<open>The installed provider is the global one, and only its exporter is alive.\<close>

definition tracer_inv :: "'cl tracer \<Rightarrow> bool" where
  "tracer_inv t \<longleftrightarrow> tr_global t = tr_sdk_provider t
     \<and> (\<forall>i. tr_sdk_provider t = Some i \<longrightarrow> i < length (tr_exporters t))
     \<and> (\<forall>i<length (tr_exporters t). ex_is_shutdown (tr_exporters t ! i) \<longleftrightarrow> tr_sdk_provider t \<noteq> Some i)"

lemma tracer_inv_new: "tracer_inv new_tracer"
  by (simp add: tracer_inv_def new_tracer_def)

lemma tracer_inv_shutdown: "tracer_inv t \<Longrightarrow> tracer_inv (shutdown_provider t)"
  by (auto simp: tracer_inv_def shutdown_provider_def exporter_shutdown_def nth_list_update split: option.split)

lemma shutdown_provider_none [simp]: "tr_sdk_provider (shutdown_provider t) = None"
  by (simp add: shutdown_provider_def split: option.split)

lemma shutdown_provider_idem: "shutdown_provider (shutdown_provider t) = shutdown_provider t"
  by (simp add: shutdown_provider_def[of "shutdown_provider t"])

lemma tracer_inv_initialize: "tracer_inv t \<Longrightarrow> tracer_inv (initialize_provider env client t)"
  using tracer_inv_shutdown[of t]
  by (auto simp: tracer_inv_def initialize_provider_def Let_def nth_append less_Suc_eq)

lemma tracer_inv_step: "tracer_inv t \<Longrightarrow> tracer_inv (tracer_step t op')"
  by (cases op') (simp_all add: tracer_inv_shutdown tracer_inv_initialize)

lemma tracer_reachable_inv: "tracer_reachable t \<Longrightarrow> tracer_inv t"
  by (induction rule: tracer_reachable.induct) (simp_all add: tracer_inv_new tracer_inv_step)

lemma one_live_exporter:
  assumes "tracer_inv t" "i < length (tr_exporters t)" "j < length (tr_exporters t)"
    "\<not> ex_is_shutdown (tr_exporters t ! i)" "\<not> ex_is_shutdown (tr_exporters t ! j)"
  shows "i = j"
  using assms by (auto simp: tracer_inv_def)

text \<open>Once a connection has been destroyed no exporter uses any client.\<close>

lemma no_export_after_destroy:
  assumes "tracer_inv t" "e \<in> set (tr_exporters (tracer_step t (Impl_destroyed client)))"
  shows "export_spans version stub clients e spans = (False, False)"
proof -
  let ?t = "shutdown_provider t"
  obtain i where "i < length (tr_exporters ?t)" "e = tr_exporters ?t ! i"
    using assms(2) by (auto simp: in_set_conv_nth)
  then have "ex_is_shutdown e" using tracer_inv_shutdown[OF assms(1)] by (simp add: tracer_inv_def)
  then show ?thesis by (simp add: export_spans_def)
qed

text \<open>Whose connection it was plays no part: closing one robot client stops the export of another.\<close>

lemma any_client_stops_tracing:
  "tr_global (tracer_step (initialize_provider env client t) (Impl_destroyed other)) = None" if "tracer_inv t"
  using tracer_inv_step[OF tracer_inv_initialize[OF that], where op' = "Impl_destroyed other"]
  by (auto simp: tracer_inv_def)

text \<open>A served module that is destroyed stops waiting for its server, and exports nothing any more.\<close>

lemma module_destroyed_quiet:
  assumes "tracer_inv t" "module_service_destroy s t = (s', t')" "grpc_server (ms_server s) \<noteq> None"
  shows "\<not> wait_blocks (ms_server s') \<and> ms_parent s' = None \<and> (\<forall>e\<in>set (tr_exporters t'). ex_is_shutdown e)"
proof -
  have "t' = shutdown_provider t" using assms(2) by (auto simp: module_service_destroy_def)
  then have "\<forall>e\<in>set (tr_exporters t'). ex_is_shutdown e"
    using tracer_inv_shutdown[OF assms(1)] by (auto simp: tracer_inv_def in_set_conv_nth)
  then show ?thesis
    using assms(2,3) by (auto simp: module_service_destroy_def server_shutdown_def wait_blocks_def)
qed

text \<open>Tracing is off unless the environment turns it on.\<close>

lemma tracing_off_by_default:
  "env ''VIAM_MODULE_TRACING'' = None \<Longrightarrow> tr_sdk_provider (initialize_provider env client t) = None"
  by (simp add: initialize_provider_def is_env_var_false_def Let_def)

lemma tracing_on:
  "env ''VIAM_MODULE_TRACING'' = Some ''1'' \<Longrightarrow>
   \<exists>i. tr_global (initialize_provider env client t) = Some i \<and> i = length (tr_exporters t)
     \<and> tr_exporters (initialize_provider env client t) ! i = \<lparr>ex_client = client, ex_is_shutdown = False\<rparr>"
proof -
  assume h: "env ''VIAM_MODULE_TRACING'' = Some ''1''"
  have "length (tr_exporters (shutdown_provider t)) = length (tr_exporters t)"
    by (simp add: shutdown_provider_def split: option.split)
  then show ?thesis using h by (simp add: initialize_provider_def is_env_var_false_def Let_def nth_append)
qed

text \<open>An export succeeds exactly when the machine took the spans, or there were none.\<close>

lemma export_success:
  "fst (export_spans version stub clients e spans) \<longleftrightarrow>
     \<not> ex_is_shutdown e \<and> (spans = [] \<or> rb_impl (clients (ex_client e))
        \<and> st_is_ok (stub (client_context version None) spans))"
  by (auto simp: export_spans_def send_traces_def)

subsection \<open>The handlers of the module service under their spans\<close>

text \<open>Each handler of \<^verbatim>\<open>module/service.cpp\<close> but \<^verbatim>\<open>Ready\<close> runs under a guard of its own.\<close>

definition traced_handler ::
  "('rt, 'c, 'tok, 'sc, 'id) otel_api \<Rightarrow> metadata \<Rightarrow> string \<Rightarrow> ('a \<Rightarrow> status) \<Rightarrow> ('m, 'a) stm \<Rightarrow>
   ('m \<times> ('rt, 'sc) tracing, 'a) stm" where
  "traced_handler api md label status_of handler s =
     (let out = handler (fst s);
          r = spanned_module api md label (\<lambda>st. (rmap status_of (fst out), st)) (snd s)
      in (fst out, (snd out, snd r)))"

definition AddResource ::
  "('rt, 'c, 'tok, 'sc, 'id) otel_api \<Rightarrow> metadata \<Rightarrow> 'x module_env \<Rightarrow> int \<Rightarrow> pb_component_config \<Rightarrow> string list \<Rightarrow>
   (('x, 'sd) module_service \<times> ('rt, 'sc) tracing, status) stm" where
  "AddResource api md env deadline proto dependencies =
     traced_handler api md ''AddResource'' id (handle_AddResource env deadline proto dependencies)"

definition ReconfigureResource ::
  "('rt, 'c, 'tok, 'sc, 'id) otel_api \<Rightarrow> metadata \<Rightarrow> 'x module_env \<Rightarrow> pb_component_config \<Rightarrow> string list \<Rightarrow>
   (('x, 'sd) module_service \<times> ('rt, 'sc) tracing, status) stm" where
  "ReconfigureResource api md env proto dependencies =
     traced_handler api md ''ReconfigureResource'' id (handle_ReconfigureResource env proto dependencies)"

definition ValidateConfig ::
  "('rt, 'c, 'tok, 'sc, 'id) otel_api \<Rightarrow> metadata \<Rightarrow> pb_component_config \<Rightarrow>
   (('x, 'sd) module_service \<times> ('rt, 'sc) tracing, status \<times> string list) stm" where
  "ValidateConfig api md proto = traced_handler api md ''ValidateConfig'' fst (handle_ValidateConfig proto)"

definition RemoveResource ::
  "('rt, 'c, 'tok, 'sc, 'id) otel_api \<Rightarrow> metadata \<Rightarrow> string \<Rightarrow>
   (('x, 'sd) module_service \<times> ('rt, 'sc) tracing, status) stm" where
  "RemoveResource api md req_name =
     traced_handler api md ''RemoveResource'' id (handle_RemoveResource req_name)"

lemmas traced_handlers = AddResource_def ReconfigureResource_def ValidateConfig_def RemoveResource_def

lemma traced_handler_state: "fst (snd (traced_handler api md label status_of handler (m, st))) = snd (handler m)"
  "fst (traced_handler api md label status_of handler (m, st)) = fst (handler m)"
  by (simp_all add: traced_handler_def Let_def)

lemma traced_handler_span:
  assumes "otel_ok api" "handler m = (r, m')" "\<forall>e. r = Inl e \<longrightarrow> \<not> is_undefined e"
  shows "traced_handler api md label status_of handler (m, st) =
    (r, m', \<lparr>tg_rt = tg_rt st,
             tg_spans = tg_spans st @
               [(server_span api md label st)
                  \<lparr>sp_calls := [SetAttribute ''rpc.system'' (AV_string ''grpc'')]
                     @ module_outcome_calls (rmap status_of r) @ [SpanEnd]\<rparr>]\<rparr>)"
proof -
  let ?b = "\<lambda>s :: ('a, 'd) tracing. (rmap status_of r, s)"
  have t: "tidy ?b" by (simp add: tidy_def)
  have u: "\<forall>e. rmap status_of r = Inl e \<longrightarrow> \<not> is_undefined e" using assms(3) by (cases r) auto
  obtain rest where s: "spanned_module api md label ?b st =
    (rmap status_of r, \<lparr>tg_rt = tg_rt st,
         tg_spans = tg_spans st @
           (server_span api md label st)
             \<lparr>sp_calls := [SetAttribute ''rpc.system'' (AV_string ''grpc'')]
                @ module_outcome_calls (rmap status_of r) @ [SpanEnd]\<rparr> # rest\<rparr>)"
    using spanned_module_eq[OF assms(1) t _ u, of md label st "handler_state api md label st"] by auto
  have "length (tg_spans (snd (spanned_module api md label ?b st))) = Suc (length (tg_spans st))"
    by (cases r) (auto simp: spanned_module_def guard_commit_def guard_delete_def call_span_def scope_close_def
        guard_new_eq(1) u Let_def dest: assms(3)[rule_format])
  with s have "rest = []" by simp
  with s assms(2) show ?thesis by (simp add: traced_handler_def Let_def)
qed

text \<open>A request to remove a resource whose name cannot be parsed: the span shows the failure.\<close>

lemma remove_unparsable_span:
  assumes "otel_ok api" "name_from_string req_name = Inl e" "\<not> is_undefined e"
  shows "\<exists>sp. tg_spans (snd (snd (RemoveResource api md req_name (m, st)))) = tg_spans st @ [sp]
    \<and> sp_calls sp = [SetAttribute ''rpc.system'' (AV_string ''grpc''),
                     SetStatus (SS_error ''handler threw an exception''), SpanEnd]"
proof -
  have "handle_RemoveResource req_name m = (Inl e, m)"
    by (simp add: handle_RemoveResource_def assms(2) st_lift_def)
  from traced_handler_span[where handler = "handle_RemoveResource req_name", OF assms(1) this, where status_of = id]
    assms(3) show ?thesis
    by (simp add: RemoveResource_def module_outcome_calls_def)
qed

end
