(* ===== verification/ExampleGizmo.thy ===== *)
theory ExampleGizmo
  imports Actuators Config DoubleOps
begin

text \<open>
  The custom APIs of the complex example module (\<^verbatim>\<open>examples/modules/complex\<close>): the gizmo component,
  with every kind of stream gRPC has, and the summation service; their servers, their clients and
  the implementations the module registers. Their servers do without the service helper: they look
  the resource up themselves, let exceptions pass to gRPC (\<open>unexpected\<close> is the status it makes of
  one), and use the result of a cast without a test.
\<close>

subsection \<open>The gizmo API\<close>

record gizmo =
  gz_do_one :: "string \<Rightarrow> bool res"
  gz_do_one_client_stream :: "string list \<Rightarrow> bool res"
  gz_do_one_server_stream :: "string \<Rightarrow> bool list res"
  gz_do_one_bidi_stream :: "string list \<Rightarrow> bool list res"
  gz_do_two :: "bool \<Rightarrow> string res"

definition gizmo_api :: api where
  "gizmo_api = API ''viam'' ''component'' ''gizmo''"

text \<open>A request is the resource's name and the argument; a streaming call has a list of them.\<close>

record gizmo_stub =
  gzs_DoOne :: "metadata \<Rightarrow> string \<times> string \<Rightarrow> status \<times> bool"
  gzs_DoOneClientStream :: "metadata \<Rightarrow> (string \<times> string) list \<Rightarrow> status \<times> bool"
  gzs_DoOneServerStream :: "metadata \<Rightarrow> string \<times> string \<Rightarrow> status \<times> bool list"
  gzs_DoOneBiDiStream :: "metadata \<Rightarrow> (string \<times> string) list \<Rightarrow> status \<times> bool list"
  gzs_DoTwo :: "metadata \<Rightarrow> string \<times> bool \<Rightarrow> status \<times> string"

subsection \<open>Servers\<close>

text \<open>The lookup and the cast the handlers share; a resource of another type is a null pointer.\<close>

definition found_resource :: "('r, 'x) rpc_server \<Rightarrow> string \<Rightarrow> (status + 'x) res" where
  "found_resource sv name =
     (case manager_resource (rs_manager sv) name of
        None \<Rightarrow> Inr (Inl (mk_status UNKNOWN (''resource not found: '' @ name)))
      | Some r \<Rightarrow> (case rs_cast sv r of Some x \<Rightarrow> Inr (Inr x) | None \<Rightarrow> Inl (Undefined ''null resource'')))"

definition serve_found ::
  "('r, 'x) rpc_server \<Rightarrow> (exn \<Rightarrow> status) \<Rightarrow> 'p \<Rightarrow> string \<Rightarrow> ('x \<Rightarrow> 'p res) \<Rightarrow> status \<times> 'p" where
  "serve_found sv unexpected blank name f =
     (case found_resource sv name of
        Inl e \<Rightarrow> (unexpected e, blank)
      | Inr (Inl st) \<Rightarrow> (st, blank)
      | Inr (Inr x) \<Rightarrow> (case f x of Inr p \<Rightarrow> (status_ok, p) | Inl e \<Rightarrow> (unexpected e, blank)))"

text \<open>The loop that reads a stream of requests: all must name the same gizmo.\<close>

fun read_requests :: "(string \<times> string) list \<Rightarrow> string list \<Rightarrow> string \<Rightarrow> (string list \<times> string) option" where
  "read_requests [] args gizmo_name = Some (args, gizmo_name)"
| "read_requests ((name, arg1) # reqs) args gizmo_name =
     (if gizmo_name \<noteq> [] \<and> name \<noteq> gizmo_name then None else read_requests reqs (args @ [arg1]) name)"

definition gizmo_server :: "('r, gizmo) rpc_server \<Rightarrow> (exn \<Rightarrow> status) \<Rightarrow> gizmo_stub" where
  "gizmo_server sv unexpected =
     \<lparr>gzs_DoOne = (\<lambda>md q. serve_found sv unexpected False (fst q) (\<lambda>g. gz_do_one g (snd q))),
      gzs_DoOneClientStream = (\<lambda>md reqs.
        case read_requests reqs [] [] of
          None \<Rightarrow> (mk_status INVALID_ARGUMENT
                     ''[Gizmo::DoOneClientStream] cannot reference multiple Gizmos'', False)
        | Some (args, gizmo_name) \<Rightarrow>
            serve_found sv unexpected False gizmo_name (\<lambda>g. gz_do_one_client_stream g args)),
      gzs_DoOneServerStream = (\<lambda>md q.
        serve_found sv unexpected [] (fst q) (\<lambda>g. gz_do_one_server_stream g (snd q))),
      gzs_DoOneBiDiStream = (\<lambda>md reqs.
        case read_requests reqs [] [] of
          None \<Rightarrow> (mk_status INVALID_ARGUMENT
                     ''[Gizmo::DoOneBiDiStream] cannot reference multiple Gizmos'', [])
        | Some (args, gizmo_name) \<Rightarrow>
            serve_found sv unexpected [] gizmo_name (\<lambda>g. gz_do_one_bidi_stream g args)),
      gzs_DoTwo = (\<lambda>md q. serve_found sv unexpected [] (fst q) (\<lambda>g. gz_do_two g (snd q)))\<rparr>"

subsection \<open>The client\<close>

text \<open>The writes of a streaming call; a write that fails ends the loop and sends nothing.\<close>

fun write_requests :: "(nat \<Rightarrow> bool) \<Rightarrow> nat \<Rightarrow> string \<Rightarrow> string list \<Rightarrow> (string \<times> string) list" where
  "write_requests write_ok i name [] = []"
| "write_requests write_ok i name (arg # args) =
     (if \<not> write_ok i then [] else (name, arg) # write_requests write_ok (Suc i) name args)"

definition finish_call :: "status \<times> 'p \<Rightarrow> 'p res" where
  "finish_call out = (if st_is_ok (fst out) then Inr (snd out) else Inl (StdException (st_message (fst out))))"

text \<open>Only \<^verbatim>\<open>do_one\<close> goes through the client helper; the others make a context without a channel.\<close>

definition gizmo_client :: "rpc_client \<Rightarrow> (nat \<Rightarrow> bool) \<Rightarrow> gizmo_stub \<Rightarrow> gizmo" where
  "gizmo_client cl write_ok stub =
     (let ctx = client_context (rc_version cl) None in
      \<lparr>gz_do_one = (\<lambda>arg1.
         invoke (rc_version cl) (rc_token cl) (\<lambda>q. (rc_name cl, snd q)) (gzs_DoOne stub)
           \<lparr>cc_debug_key = [], cc_request = ([], arg1)\<rparr> Inr default_ehc),
       gz_do_one_client_stream = (\<lambda>arg1.
         finish_call (gzs_DoOneClientStream stub ctx (write_requests write_ok 0 (rc_name cl) arg1))),
       gz_do_one_server_stream = (\<lambda>arg1. finish_call (gzs_DoOneServerStream stub ctx (rc_name cl, arg1))),
       gz_do_one_bidi_stream = (\<lambda>arg1.
         finish_call (gzs_DoOneBiDiStream stub ctx (write_requests write_ok 0 (rc_name cl) arg1))),
       gz_do_two = (\<lambda>arg1. finish_call (gzs_DoTwo stub ctx (rc_name cl, arg1)))\<rparr>)"

subsection \<open>The module's gizmo\<close>

definition find_arg1 :: "resource_config \<Rightarrow> string res" where
  "find_arg1 cfg =
     (case map_of (cf_attributes cfg) ''arg1'' of
        None \<Rightarrow> Inl (InvalidArgument (cf_name cfg @ '': Required parameter '' @ [CHR 0x60] @ ''arg1'' @ [CHR 0x60]
                                   @ '' not found in configuration''))
      | Some v \<Rightarrow>
          (case get_string v of
             Some s \<Rightarrow>
               if s \<noteq> [] then Inr s
               else Inl (InvalidArgument (cf_name cfg @ '': Required non-empty string parameter '' @ [CHR 0x60] @ ''arg1''
                      @ [CHR 0x60] @ [CHR 0x60] @ '' is either not a string or is an empty string''))
           | None \<Rightarrow> Inl (InvalidArgument (cf_name cfg @ '': Required non-empty string parameter '' @ [CHR 0x60] @ ''arg1''
                      @ [CHR 0x60] @ [CHR 0x60] @ '' is either not a string or is an empty string''))))"

definition validate_gizmo :: "resource_config \<Rightarrow> string list res" where
  "validate_gizmo cfg = rmap (\<lambda>_. []) (find_arg1 cfg)"

definition all_args_equal :: "string \<Rightarrow> string list \<Rightarrow> bool" where
  "all_args_equal own args = foldl (\<lambda>resp arg. resp \<and> own = arg) True args"

definition my_gizmo :: "string \<Rightarrow> gizmo" where
  "my_gizmo own =
     \<lparr>gz_do_one = (\<lambda>arg1. Inr (own = arg1)),
      gz_do_one_client_stream = (\<lambda>arg1. Inr (if arg1 = [] then False else all_args_equal own arg1)),
      gz_do_one_server_stream = (\<lambda>arg1. Inr [own = arg1, False, True, False]),
      gz_do_one_bidi_stream = (\<lambda>arg1. Inr (foldl (\<lambda>resp arg. resp @ [own = arg]) [] arg1)),
      gz_do_two = (\<lambda>arg1. Inr (''arg1='' @ (if arg1 then ''true'' else ''false'')))\<rparr>"

definition make_gizmo :: "resource_config \<Rightarrow> gizmo res" where
  "make_gizmo cfg = rmap my_gizmo (find_arg1 cfg)"

subsection \<open>The summation service\<close>

definition summation_api :: api where
  "summation_api = API ''viam'' ''service'' ''summation''"

type_synonym summation = "double list \<Rightarrow> double res"

definition summation_server ::
  "('r, summation) rpc_server \<Rightarrow> (exn \<Rightarrow> status) \<Rightarrow> metadata \<Rightarrow> string \<times> double list \<Rightarrow> status \<times> double" where
  "summation_server sv unexpected md q = serve_found sv unexpected 0 (fst q) (\<lambda>s. s (snd q))"

definition summation_client :: "rpc_client \<Rightarrow> (metadata \<Rightarrow> string \<times> double list \<Rightarrow> status \<times> double) \<Rightarrow> summation" where
  "summation_client cl stub numbers =
     invoke (rc_version cl) (rc_token cl) (\<lambda>q. (rc_name cl, snd q)) stub
       \<lparr>cc_debug_key = [], cc_request = ([], foldl (\<lambda>ns n. ns @ [n]) [] numbers)\<rparr> Inr default_ehc"

definition find_subtract :: "resource_config \<Rightarrow> bool" where
  "find_subtract cfg =
     (case map_of (cf_attributes cfg) ''subtract'' of
        None \<Rightarrow> False
      | Some v \<Rightarrow> is_a K_bool v \<and> get_bool v = Some True)"

definition my_summation :: "bool \<Rightarrow> summation" where
  "my_summation subtract numbers =
     (if numbers = [] then Inl (StdException ''MySummation requires at least one number to sum'')
      else Inr (foldl (\<lambda>result number. if subtract then dbl_sub result number else dbl_add result number) 0 numbers))"

subsection \<open>Lemmas\<close>

text \<open>The server hosts \<open>x\<close> under the client's name.\<close>

lemma found_hosted: "hosts sv cl x \<Longrightarrow> found_resource sv (rc_name cl) = Inr (Inr x)"
  by (auto simp: hosts_def found_resource_def bind_eq_Some_conv)

lemma read_requests_same:
  "read_requests (map (Pair name) xs) args start =
     (if xs = [] then Some (args, start)
      else if start \<noteq> [] \<and> start \<noteq> name then None else Some (args @ xs, name))"
  by (induction xs arbitrary: args start) (auto split: if_splits)

lemma read_requests_mixed:
  "read_requests (map (Pair a) (x # xs) @ (b, y) # reqs) args [] = None" if "a \<noteq> []" "b \<noteq> a"
proof -
  have "read_requests (map (Pair a) zs @ (b, y) # reqs) args a = None" for zs args
    using that by (induction zs arbitrary: args) auto
  then show ?thesis by simp
qed

lemma write_requests_all: "(\<forall>i. write_ok i) \<Longrightarrow> write_requests write_ok i name args = map (Pair name) args"
  by (induction args arbitrary: i) auto

lemma write_requests_take:
  "\<exists>n. write_requests write_ok i name args = map (Pair name) (take n args)"
proof (induction args arbitrary: i)
  case (Cons a args)
  show ?case
  proof (cases "write_ok i")
    case True
    obtain n where "write_requests write_ok (Suc i) name args = map (Pair name) (take n args)" using Cons.IH by blast
    then have "write_requests write_ok i name (a # args) = map (Pair name) (take (Suc n) (a # args))" using True by simp
    then show ?thesis by blast
  qed (auto intro: exI[of _ 0])
qed simp

text \<open>
  How an exception of the implementation looks to the caller of every method but \<^verbatim>\<open>do_one\<close>: the
  message of the status gRPC answers with when an exception leaves a handler (\<open>unexpected\<close>), which is
  not the exception's own.
\<close>

definition seen_by_finish :: "(exn \<Rightarrow> status) \<Rightarrow> 'a res \<Rightarrow> 'a res" where
  "seen_by_finish unexpected r =
     (case r of Inr a \<Rightarrow> Inr a | Inl e \<Rightarrow> Inl (StdException (st_message (unexpected e))))"

lemma finish_served:
  "hosts sv cl x \<Longrightarrow> \<forall>e. \<not> st_is_ok (unexpected e) \<Longrightarrow>
   finish_call (serve_found sv unexpected blank (rc_name cl) f) = seen_by_finish unexpected (f x)"
  by (simp add: finish_call_def serve_found_def found_hosted seen_by_finish_def st_is_ok_def status_ok_def
      split: sum.split)

lemma gizmo_remote:
  assumes "hosts sv cl g" "\<forall>e. \<not> st_is_ok (unexpected e)" "\<forall>i. write_ok i" "rc_name cl \<noteq> []"
  shows "gz_do_two (gizmo_client cl write_ok (gizmo_server sv unexpected)) b = seen_by_finish unexpected (gz_do_two g b)"
    and "gz_do_one_server_stream (gizmo_client cl write_ok (gizmo_server sv unexpected)) a =
      seen_by_finish unexpected (gz_do_one_server_stream g a)"
    and "args \<noteq> [] \<Longrightarrow> gz_do_one_client_stream (gizmo_client cl write_ok (gizmo_server sv unexpected)) args =
      seen_by_finish unexpected (gz_do_one_client_stream g args)"
    and "args \<noteq> [] \<Longrightarrow> gz_do_one_bidi_stream (gizmo_client cl write_ok (gizmo_server sv unexpected)) args =
      seen_by_finish unexpected (gz_do_one_bidi_stream g args)"
    and "gz_do_one (gizmo_client cl write_ok (gizmo_server sv unexpected)) a =
      (case gz_do_one g a of Inr r \<Rightarrow> Inr r | Inl e \<Rightarrow> Inl (grpc_exception (unexpected e)))"
  using assms
  by (simp_all add: gizmo_client_def gizmo_server_def Let_def finish_call_def seen_by_finish_def write_requests_all read_requests_same
      invoke_def serve_found_def found_hosted run_ehc_def default_ehc_def st_is_ok_def status_ok_def split: sum.split)

text \<open>An empty stream names no gizmo: the client fails where the gizmo itself answers.\<close>

lemma gizmo_empty_stream:
  assumes "manager_resource (rs_manager sv) [] = None"
  shows "gz_do_one_client_stream (gizmo_client cl write_ok (gizmo_server sv unexpected)) [] =
      Inl (StdException ''resource not found: '')"
    and "gz_do_one_bidi_stream (gizmo_client cl write_ok (gizmo_server sv unexpected)) [] =
      Inl (StdException ''resource not found: '')"
    and "gz_do_one_client_stream (my_gizmo own) [] = Inr False"
    and "gz_do_one_bidi_stream (my_gizmo own) [] = Inr []"
  using assms
  by (simp_all add: gizmo_client_def gizmo_server_def Let_def finish_call_def serve_found_def found_resource_def
      my_gizmo_def st_is_ok_def mk_status_def)

text \<open>A stream cut short by a failed write is answered as if it were whole.\<close>

lemma gizmo_broken_stream:
  assumes "hosts sv cl g" "\<forall>e. \<not> st_is_ok (unexpected e)" "rc_name cl \<noteq> []" "write_ok 0"
  shows "\<exists>n. gz_do_one_client_stream (gizmo_client cl write_ok (gizmo_server sv unexpected)) (a # args) =
    seen_by_finish unexpected (gz_do_one_client_stream g (a # take n args))"
proof -
  obtain n where "write_requests write_ok (Suc 0) (rc_name cl) args = map (Pair (rc_name cl)) (take n args)"
    using write_requests_take by blast
  then have w: "write_requests write_ok 0 (rc_name cl) (a # args) = map (Pair (rc_name cl)) (a # take n args)"
    using assms(4) by simp
  have "gz_do_one_client_stream (gizmo_client cl write_ok (gizmo_server sv unexpected)) (a # args) =
      finish_call (serve_found sv unexpected False (rc_name cl) (\<lambda>g. gz_do_one_client_stream g (a # take n args)))"
    using assms(3)
    by (simp add: gizmo_client_def gizmo_server_def Let_def w read_requests_same del: write_requests.simps list.map)
  then show ?thesis using finish_served[OF assms(1,2)] by metis
qed

lemma all_args_equal_iff: "all_args_equal own args \<longleftrightarrow> (\<forall>a\<in>set args. a = own)"
proof -
  have "foldl (\<lambda>resp arg. resp \<and> own = arg) b args \<longleftrightarrow> b \<and> (\<forall>a\<in>set args. a = own)" for b
    by (induction args arbitrary: b) auto
  then show ?thesis by (simp add: all_args_equal_def)
qed

lemma my_gizmo_bidi: "gz_do_one_bidi_stream (my_gizmo own) args = Inr (map (\<lambda>a. own = a) args)"
proof -
  have "foldl (\<lambda>resp arg. resp @ [own = arg]) acc args = acc @ map (\<lambda>a. own = a) args" for acc
    by (induction args arbitrary: acc) auto
  then show ?thesis by (simp add: my_gizmo_def)
qed

lemma make_gizmo_validated:
  "(\<exists>g. make_gizmo cfg = Inr g) \<longleftrightarrow> validate_gizmo cfg = Inr []"
  by (cases "find_arg1 cfg") (simp_all add: make_gizmo_def validate_gizmo_def)

lemma summation_remote:
  assumes "hosts sv cl s" "\<forall>e. \<not> st_is_ok (unexpected e)"
  shows "summation_client cl (summation_server sv unexpected) numbers =
    (case s numbers of Inr r \<Rightarrow> Inr r | Inl e \<Rightarrow> Inl (grpc_exception (unexpected e)))"
proof -
  have "foldl (\<lambda>ns n. ns @ [n]) acc numbers = acc @ numbers" for acc
    by (induction numbers arbitrary: acc) auto
  then show ?thesis
    using assms
    by (simp add: summation_client_def summation_server_def invoke_def Let_def serve_found_def found_hosted
        run_ehc_def default_ehc_def st_is_ok_def status_ok_def split: sum.split)
qed

text \<open>The sum of integers is exact while every partial sum fits into 53 bits.\<close>

lemma summation_of_integers:
  assumes "ns \<noteq> []" "\<forall>n\<in>set ns. \<bar>n\<bar> < 2 ^ 53" "\<forall>k\<le>length ns. \<bar>sum_list (take k ns)\<bar> < 2 ^ 53"
  shows "my_summation subtract (map dbl_of_int ns) = Inr (dbl_of_int (if subtract then - sum_list ns else sum_list ns))"
proof -
  let ?sg = "\<lambda>s. if subtract then - s else s :: int"
  let ?f = "\<lambda>result number. if subtract then dbl_sub result number else dbl_add result number"
  have "foldl ?f 0 (map dbl_of_int (take k ns)) = dbl_of_int (?sg (sum_list (take k ns)))" if "k \<le> length ns" for k
    using that
  proof (induction k)
    case 0
    then show ?case by (simp add: dbl_of_int_def)
  next
    case (Suc k)
    then have k: "k < length ns" by simp
    have tk: "take (Suc k) ns = take k ns @ [ns ! k]" using k by (rule take_Suc_conv_app_nth)
    have b: "\<bar>sum_list (take k ns)\<bar> < 2 ^ 53" "\<bar>ns ! k\<bar> < 2 ^ 53" "\<bar>sum_list (take k ns) + ns ! k\<bar> < 2 ^ 53"
      using assms(2,3) k Suc.prems by (auto simp: tk dest!: spec[of _ "Suc k"])
    show ?case
    proof (cases subtract)
      case True
      have "\<bar>- sum_list (take k ns)\<bar> < 2 ^ 53" "\<bar>- sum_list (take k ns) - ns ! k\<bar> < 2 ^ 53" using b by linarith+
      from dbl_sub_of_int[OF this(1) b(2) this(2)] show ?thesis using Suc.IH k True by (simp add: tk)
    next
      case False
      then show ?thesis using Suc.IH k dbl_add_of_int[OF b] by (simp add: tk)
    qed
  qed
  from this[of "length ns"] assms(1) show ?thesis by (simp add: my_summation_def)
qed

end
