(* ===== verification/DemoMachine.thy ===== *)
theory DemoMachine
  imports DemoRemote TraceExport LogForwarding ExampleGizmo ExampleTFLite
begin

text \<open>
  Concrete parameters on which the witnesses about tracing, log forwarding, frame queries and the
  TensorFlow Lite example are evaluated: a tracing runtime whose contexts are numbers on a stack, a
  machine that answers every pose query alike, an interpreter with two input tensors of one byte and
  an output that adds them.
\<close>

subsection \<open>A tracing runtime\<close>

text \<open>The context of the span number \<open>n\<close> is \<open>n + 1\<close>, 0 is the context without a span.\<close>

definition demo_otel :: "(nat list, nat, unit, nat, nat) otel_api" where
  "demo_otel =
     \<lparr>oa_current = (\<lambda>rt. case rt of [] \<Rightarrow> 0 | c # _ \<Rightarrow> c),
      oa_attach = (\<lambda>c rt. ((), c # rt)),
      oa_detach = (\<lambda>tok rt. tl rt),
      oa_set_span = (\<lambda>c sc. sc),
      oa_span_context = (\<lambda>c. c),
      oa_invalid = 0,
      oa_is_valid = (\<lambda>sc. sc \<noteq> 0),
      oa_ids = (\<lambda>sc. sc),
      oa_start = (\<lambda>n parent rt. Suc n),
      oa_inject = (\<lambda>c. if c = 0 then [] else [(''traceparent'', replicate c CHR ''1'')]),
      oa_extract = (\<lambda>get c. if get ''traceparent'' = [] then c else length (get ''traceparent''))\<rparr>"

lemma demo_otel_ok: "otel_ok demo_otel"
  by (simp add: otel_ok_def demo_otel_def trace_keys_def akeys_def)

lemma demo_otel_keeps: "extract_keeps demo_otel"
  by (simp add: extract_keeps_def demo_otel_def)

definition no_trace :: "(nat list, nat) tracing" where
  "no_trace = \<lparr>tg_rt = [], tg_spans = []\<rparr>"

subsection \<open>A machine and its log\<close>

definition demo_pose :: pose_in_frame where
  "demo_pose = \<lparr>pif_reference_frame = ''world'', pif_pose = pose_default\<rparr>"

definition demo_robot_stub :: robot_stub where
  "demo_robot_stub =
     \<lparr>rbs_GetOperations = (\<lambda>md q. (status_ok, [])),
      rbs_CancelOperation = (\<lambda>md q. (status_ok, ())),
      rbs_BlockForOperation = (\<lambda>md q. (status_ok, ())),
      rbs_ResourceNames = (\<lambda>md q. (status_ok, [])),
      rbs_FrameSystemConfig = (\<lambda>md q. (status_ok, [])),
      rbs_TransformPose = (\<lambda>md q. (status_ok, Some (pose_in_frame_to_proto demo_pose))),
      rbs_TransformPCD = (\<lambda>md q. (status_ok, fst q)),
      rbs_GetPose = (\<lambda>md q. (status_ok, Some (pose_in_frame_to_proto demo_pose))),
      rbs_GetMachineStatus = (\<lambda>md q. (demo_lost, \<lparr>pmc_state = Known R_unspecified, pmc_resources = [], pmc_config = None,
        pmc_modules = [], pmc_packages = [], pmc_job_statuses = []\<rparr>)),
      rbs_StopAll = (\<lambda>md q. (status_ok, ()))\<rparr>"

lemma demo_connected: "connected_with (mk_robot_client demo_channel) None"
  by (simp add: connected_with_def mk_robot_client_def demo_channel_def channel_auth_token_def)

definition demo_record :: log_record where
  "demo_record = module_record (init_logging (\<lambda>v. None) new_log_manager) ll_warn ''low battery'' 5 ''a.cpp'' 7"

subsection \<open>An interpreter\<close>

definition demo_byte_tensor :: "string \<Rightarrow> byte \<Rightarrow> tflite_tensor" where
  "demo_byte_tensor name b = \<lparr>tt_name = name, tt_type = kTfLiteUInt8, tt_dims = Some [1], tt_data = [b]\<rparr>"

text \<open>The interpreter's state: the two inputs and the output.\<close>

type_synonym demo_interp = "byte \<times> byte \<times> byte"

definition demo_tflite :: "(unit, demo_interp) tflite" where
  "demo_tflite =
     \<lparr>tfl_read_file = (\<lambda>path. Some []),
      tfl_create_model = (\<lambda>bytes. (Some (), None)),
      tfl_create_interpreter = (\<lambda>m threads. (Some (0, 0, 0), None)),
      tfl_allocate_tensors = (\<lambda>i. ((True, None), i)),
      tfl_input_count = (\<lambda>i. 2),
      tfl_input = (\<lambda>(a, b, s). [0 \<mapsto> demo_byte_tensor ''x'' a, 1 \<mapsto> demo_byte_tensor ''y'' b]),
      tfl_output_count = (\<lambda>i. 1),
      tfl_output = (\<lambda>(a, b, s). [0 \<mapsto> demo_byte_tensor ''sum'' s]),
      tfl_copy_in = (\<lambda>(a, b, s) ix bs. ((True, None), if ix = 0 then (hd bs, b, s) else (a, hd bs, s))),
      tfl_invoke = (\<lambda>(a, b, s). ((True, None), (a, b, a + b))),
      tfl_show_double = (\<lambda>d. []),
      tfl_show_pointer = ''0x7f''\<rparr>"

lemma demo_tflite_copies: "tflite_copies demo_tflite"
  by (auto simp: tflite_copies_def demo_tflite_def demo_byte_tensor_def length_Suc_conv split: if_splits)

text \<open>A model whose tensor \<^verbatim>\<open>x\<close> is shown as \<^verbatim>\<open>left\<close>.\<close>

definition demo_tflite_config :: resource_config where
  "demo_tflite_config =
     demo_parsed\<lparr>cf_attributes :=
       [(''model_path'', PString ''m.tflite''),
        (''tensor_name_remappings'', PStruct [(''inputs'', PStruct [(''x'', PString ''left'')])])]\<rparr>"

definition demo_tf_state :: "demo_interp tf_state" where
  "demo_tf_state =
     \<lparr>tfs_metadata = \<lparr>md_name = [], md_type = [], md_description = [],
        md_inputs = [\<lparr>ti_name = ''left'', ti_description = [], ti_data_type = k_uint8, ti_shape = [1],
                      ti_associated_files = [], ti_extra = []\<rparr>,
                     \<lparr>ti_name = ''y'', ti_description = [], ti_data_type = k_uint8, ti_shape = [1],
                      ti_associated_files = [], ti_extra = []\<rparr>],
        md_outputs = [\<lparr>ti_name = ''sum'', ti_description = [], ti_data_type = k_uint8, ti_shape = [1],
                       ti_associated_files = [], ti_extra = []\<rparr>]\<rparr>,
      tfs_input_ix = [(''left'', 0), (''y'', 1)], tfs_output_ix = [(''sum'', 0)], tfs_error = [],
      tfs_interpreter = (0, 0, 0)\<rparr>"

lemma demo_tflite_state: "build_state demo_tflite demo_tflite_config = Inr demo_tf_state"
  by (simp add: demo_tf_state_def build_state_def demo_tflite_config_def demo_tflite_def model_path_of_def remappings_of_def
      field_remappings_def populate_remappings_def load_model_def report_def num_threads_of_def
      make_interpreter_def tensor_entry_def renamed_def demo_byte_tensor_def upt_rec numeral_2_eq_2)

lemma demo_tf_inputs [simp]:
  "length (md_inputs (tfs_metadata demo_tf_state)) = 2"
  "ti_name (md_inputs (tfs_metadata demo_tf_state) ! 0) = ''left''"
  "ti_name (md_inputs (tfs_metadata demo_tf_state) ! 1) = ''y''"
  "tfl_input demo_tflite (x, y, z) 0 = Some (demo_byte_tensor ''x'' x)"
  "tfl_input demo_tflite (x, y, z) 1 = Some (demo_byte_tensor ''y'' y)"
  "tensor_bytes (D_uint8 [b]) = [b]"
  by (simp_all add: demo_tf_state_def demo_tflite_def tensor_bytes_def elems_bytes_def)

lemma demo_tf_outputs:
  "tfs_metadata s = tfs_metadata demo_tf_state \<Longrightarrow> tfs_output_ix s = tfs_output_ix demo_tf_state \<Longrightarrow>
   tfs_interpreter s = (x, y, z) \<Longrightarrow>
   collect_outputs demo_tflite s (md_outputs (tfs_metadata demo_tf_state)) [] =
     Inr [(''sum'', \<lparr>tv_data = D_uint8 [z], tv_shape = [1]\<rparr>)]"
  by (simp add: demo_tf_state_def demo_tflite_def demo_byte_tensor_def make_tensor_view_def bytes_elems_def
      emplace_def akeys_def)

end
