(* ===== verification/ExampleMains.thy ===== *)
theory ExampleMains
  imports ModuleBehaviour ProcessSetup Sensors ExampleGizmo ExampleModules ExampleTFLite
begin

text \<open>
  The programs of the example modules (\<^verbatim>\<open>examples/modules\<close>: \<^verbatim>\<open>simple/main.cpp\<close>, \<^verbatim>\<open>audioin/main.cpp\<close>,
  \<^verbatim>\<open>complex/main.cpp\<close>, \<^verbatim>\<open>tflite/main.cpp\<close>): the models they register, the module they build and serve, and
  their exit codes. A program runs on the registry the instance initialised. Its result is the module
  that serves until a signal arrives, or the exception that left the set-up.
\<close>

subsection \<open>The models\<close>

text \<open>The simple module's sensor as the SDK sees it.\<close>

definition my_sensor :: "resource_config \<Rightarrow> sensor" where
  "my_sensor cfg =
     \<lparr>sn_get_readings = (\<lambda>extra. Inr (sensor_get_readings (sensor_multiplier cfg) extra)),
      sn_do_command = Inr, sn_get_status = Inr [], sn_get_geometries = sensor_get_geometries\<rparr>"

definition mysensor_mr :: "(sensor dependencies, resource_config, sensor resource) model_registration" where
  "mysensor_mr =
     mk_model_registration_validated (kind_api K_Sensor) (mk_model ''viam'' ''sensor'' ''mysensor'')
       (\<lambda>deps cfg. Inr (Some \<lparr>ro_api = kind_api K_Sensor, ro_name = cf_name cfg, ro_stop = None,
                              ro_impl = my_sensor cfg\<rparr>))
       validate_sensor"

text \<open>The sine wave; \<open>sine\<close> and \<open>now_of\<close> as in ExampleModules.\<close>

definition sinewave :: "(double \<Rightarrow> double) \<Rightarrow> (int \<Rightarrow> int) \<Rightarrow> resource_config \<Rightarrow> audio_in" where
  "sinewave sine now_of cfg =
     \<lparr>ain_get_audio = (\<lambda>codec duration previous_timestamp extra.
        sine_get_audio sine (sine_frequency cfg) now_of codec duration),
      ain_get_properties = (\<lambda>extra. Inr (sine_properties extra)),
      ain_do_command = Inr, ain_get_status = Inr [],
      ain_get_geometries = (\<lambda>extra. Inl (general_exception ''method not supported''))\<rparr>"

definition sinewave_mr ::
  "(double \<Rightarrow> double) \<Rightarrow> (int \<Rightarrow> int) \<Rightarrow>
   (audio_in dependencies, resource_config, audio_in resource) model_registration" where
  "sinewave_mr sine now_of =
     mk_model_registration_validated (kind_api K_AudioIn) (mk_model ''viam'' ''audio_in'' ''sinewave'')
       (\<lambda>deps cfg. Inr (Some \<lparr>ro_api = kind_api K_AudioIn, ro_name = cf_name cfg, ro_stop = None,
                              ro_impl = sinewave sine now_of cfg\<rparr>))
       validate_sine"

text \<open>
  The complex module's three models, and the clients of motors and of the frame system that come as
  dependencies. \<open>stop_of\<close> tells what stopping a base comes to.
\<close>

datatype 'w complex_impl =
    Impl_base "'w my_base" | Impl_gizmo gizmo | Impl_summation summation
  | Client_motor "'w base_motor" | Client_frame_system frame_system

definition as_dependency :: "'w complex_impl resource option \<Rightarrow> 'w dependency" where
  "as_dependency p =
     (case p of
        Some r \<Rightarrow> (case ro_impl r of Client_motor m \<Rightarrow> Dep_motor m | Client_frame_system f \<Rightarrow> Dep_frame_system f
                   | _ \<Rightarrow> Dep_other)
      | None \<Rightarrow> Dep_other)"

definition mybase_mr ::
  "('w my_base \<Rightarrow> unit res) \<Rightarrow>
   ('w complex_impl dependencies, resource_config, 'w complex_impl resource) model_registration" where
  "mybase_mr stop_of =
     mk_model_registration_validated (kind_api K_Base) (mk_model ''viam'' ''base'' ''mybase'')
       (\<lambda>deps cfg.
          rmap (\<lambda>b. Some \<lparr>ro_api = kind_api K_Base, ro_name = cf_name cfg, ro_stop = Some (stop_of b),
                          ro_impl = Impl_base b\<rparr>)
            (make_base frame_system_name (map (\<lambda>d. (fst d, as_dependency (snd d))) deps) cfg))
       validate_base"

definition mygizmo_mr ::
  "('w complex_impl dependencies, resource_config, 'w complex_impl resource) model_registration" where
  "mygizmo_mr =
     mk_model_registration_validated gizmo_api (mk_model ''viam'' ''gizmo'' ''mygizmo'')
       (\<lambda>deps cfg.
          rmap (\<lambda>g. Some \<lparr>ro_api = gizmo_api, ro_name = cf_name cfg, ro_stop = None, ro_impl = Impl_gizmo g\<rparr>)
            (make_gizmo cfg))
       validate_gizmo"

definition mysummation_mr ::
  "('w complex_impl dependencies, resource_config, 'w complex_impl resource) model_registration" where
  "mysummation_mr =
     mk_model_registration summation_api (mk_model ''viam'' ''summation'' ''mysummation'')
       (\<lambda>deps cfg. Inr (Some \<lparr>ro_api = summation_api, ro_name = cf_name cfg, ro_stop = None,
                              ro_impl = Impl_summation (my_summation (find_subtract cfg))\<rparr>))"

text \<open>The ML model service, with the state it starts in; its \<^verbatim>\<open>stop\<close> never throws.\<close>

definition mlmodelservice_mr ::
  "('m, 'i) tflite \<Rightarrow>
   ('i tf_state dependencies, resource_config, 'i tf_state resource) model_registration" where
  "mlmodelservice_mr tfl =
     mk_model_registration (kind_api K_MLModelService) (mk_model ''viam'' ''mlmodelservice'' tflite_name)
       (\<lambda>deps cfg.
          rmap (\<lambda>st. Some \<lparr>ro_api = kind_api K_MLModelService, ro_name = cf_name cfg, ro_stop = Some (Inr ()),
                           ro_impl = st\<rparr>)
            (build_state tfl cfg))"

subsection \<open>The programs\<close>

definition served :: "bool \<Rightarrow> ('x, 'sd) module_service \<Rightarrow> ('x, 'sd) module_service res" where
  "served build_ok s = (case serve build_ok s of (Inl e, _) \<Rightarrow> Inl e | (Inr _, s') \<Rightarrow> Inr s')"

definition simple_program ::
  "bool \<Rightarrow> ('sd \<Rightarrow> string) \<Rightarrow> bool \<Rightarrow> (sensor, 'sd) module_registry \<Rightarrow> log_manager \<Rightarrow> string list \<Rightarrow>
   (sensor, 'sd) module_service res" where
  "simple_program indeterminate full_name build_ok g lm argv =
     rbind (module_service_main indeterminate full_name g lm argv [Some mysensor_mr]) (served build_ok)"

definition audioin_program ::
  "(double \<Rightarrow> double) \<Rightarrow> (int \<Rightarrow> int) \<Rightarrow> bool \<Rightarrow> ('sd \<Rightarrow> string) \<Rightarrow> bool \<Rightarrow> (audio_in, 'sd) module_registry \<Rightarrow>
   log_manager \<Rightarrow> string list \<Rightarrow> (audio_in, 'sd) module_service res" where
  "audioin_program sine now_of indeterminate full_name build_ok g lm argv =
     rbind (module_service_main indeterminate full_name g lm argv [Some (sinewave_mr sine now_of)]) (served build_ok)"

definition complex_program ::
  "('w my_base \<Rightarrow> unit res) \<Rightarrow> (string \<Rightarrow> 'sd option) \<Rightarrow> bool \<Rightarrow> ('sd \<Rightarrow> string) \<Rightarrow> bool \<Rightarrow>
   ('w complex_impl, 'sd) module_registry \<Rightarrow> log_manager \<Rightarrow> string list \<Rightarrow> ('w complex_impl, 'sd) module_service res"
where
  "complex_program stop_of find_service indeterminate full_name build_ok g lm argv =
     rbind (register_custom_server find_service g gizmo_api ''GizmoServer'') (\<lambda>g1.
     rbind (register_custom_server find_service g1 summation_api ''SummationServer'') (\<lambda>g2.
     rbind (module_service_main indeterminate full_name g2 lm argv
             [Some (mybase_mr stop_of), Some mygizmo_mr, Some mysummation_mr]) (served build_ok)))"

definition tflite_serve ::
  "('m, 'i) tflite \<Rightarrow> bool \<Rightarrow> ('sd \<Rightarrow> string) \<Rightarrow> bool \<Rightarrow> ('i tf_state, 'sd) module_registry \<Rightarrow> log_manager \<Rightarrow> string \<Rightarrow>
   ('i tf_state, 'sd) module_service res" where
  "tflite_serve tfl indeterminate full_name build_ok g lm socket_path =
     rbind (register_model g (Some (mlmodelservice_mr tfl))) (\<lambda>g1.
     rbind (mk_module_service indeterminate g1 lm socket_path ''unix:'') (\<lambda>s.
       case add_model_from_registry full_name (mr_api (mlmodelservice_mr tfl)) (mr_model (mlmodelservice_mr tfl)) s of
         (Inl e, _) \<Rightarrow> Inl e
       | (Inr _, s') \<Rightarrow> served build_ok s'))"

text \<open>Exit codes; \<open>None\<close> when the exception is not caught or the run is undefined.\<close>

definition exit_code :: "(exn \<Rightarrow> bool) \<Rightarrow> 's res \<Rightarrow> int option" where
  "exit_code caught r = (case r of Inr _ \<Rightarrow> Some 0 | Inl e \<Rightarrow> if caught e then Some 1 else None)"

text \<open>\<^verbatim>\<open>catch (const viam::sdk::Exception&)\<close> in the simple and the audio module; the complex one has no
  handler.\<close>

definition catches_sdk :: "exn \<Rightarrow> bool" where
  "catches_sdk e \<longleftrightarrow> exn_condition e \<noteq> None"

definition simple_exit :: "(sensor, 'sd) module_service res \<Rightarrow> int option" where
  "simple_exit = exit_code catches_sdk"

definition audioin_exit :: "(audio_in, 'sd) module_service res \<Rightarrow> int option" where
  "audioin_exit = exit_code catches_sdk"

definition complex_exit :: "('w complex_impl, 'sd) module_service res \<Rightarrow> int option" where
  "complex_exit = exit_code (\<lambda>e. False)"

definition tflite_main ::
  "('m, 'i) tflite \<Rightarrow> bool \<Rightarrow> ('sd \<Rightarrow> string) \<Rightarrow> bool \<Rightarrow> ('i tf_state, 'sd) module_registry \<Rightarrow> log_manager \<Rightarrow>
   string list \<Rightarrow> int option \<times> ('i tf_state, 'sd) module_service option" where
  "tflite_main tfl indeterminate full_name build_ok g lm argv =
     (case argv of
        prog # socket_path # rest \<Rightarrow>
          (let r = tflite_serve tfl indeterminate full_name build_ok g lm socket_path
           in (exit_code (\<lambda>e. \<not> is_undefined e) r, returned r))
      | _ \<Rightarrow> (Some 1, None))"

subsection \<open>Lemmas: modules\<close>

text \<open>A program whose models register is a module that is ready and serves.\<close>

definition runs_with :: "('sd \<Rightarrow> string) \<Rightarrow> ('x, 'sd) module_registry \<Rightarrow> ('x, 'sd) module_registry \<Rightarrow>
   ('x dependencies, resource_config, 'x resource) model_registration list \<Rightarrow> string \<Rightarrow>
   ('x, 'sd) module_service \<Rightarrow> bool" where
  "runs_with full_name g g' mrs port s \<longleftrightarrow>
     wait_blocks (ms_server s) \<and> md_ready (ms_module s) \<and> ms_registry s = g' \<and> ms_parent s = None
     \<and> ms_parent_addr s = [] \<and> md_handles (ms_module s) = handles_of full_name g [] mrs
     \<and> managed_servers (ms_server s) = fresh_managers g
     \<and> grpc_server (ms_server s) = Some \<lparr>sb_services = map (sr_class \<circ> snd) (rg_servers g),
         sb_module_service = True, sb_ports = [port]\<rparr>"

lemma module_main_runs:
  fixes g :: "('x, 'sd) module_registry"
  assumes "awf (rg_servers g)" "register_models g mrs = Inr g'" "2 \<le> length argv"
  shows "\<exists>s. rbind (module_service_main ind full_name g lm argv (map Some mrs)) (served True) = Inr s
     \<and> runs_with full_name g g' mrs (get_protocol argv @ argv ! 1) s"
proof -
  obtain sv :: "'x server" where sv: "mk_server g = Inr sv"
    "managed_servers sv = map (\<lambda>e. (fst e, empty_manager)) (rg_servers g)"
    "builder sv = Some (empty_builder\<lparr>sb_services := map (sr_class \<circ> snd) (rg_servers g)\<rparr>)"
    "grpc_server sv = None"
    using mk_server_ok[OF assms(1)] by blast
  have sh: "\<not> is_shutdown sv"
    using mk_server_inv[OF sv(1)] sv(4) by (auto simp: server_inv_def)
  let ?pr = "get_protocol argv"
  define s0 where "s0 = \<lparr>ms_module = mk_module ind (argv ! 1), ms_parent = None, ms_parent_addr = [],
      ms_protocol = ?pr, ms_server = sv, ms_registry = g,
      ms_log = set_global_log_level_args argv lm\<rparr>"
  define s1 where "s1 = s0\<lparr>ms_registry := g', ms_module := (ms_module s0)\<lparr>md_handles :=
        handles_of full_name g [] mrs\<rparr>\<rparr>"
  have "st_for (map Some mrs) (register_and_add full_name) s0 = (Inr (), s1)"
    using register_loop_ok[of s0 mrs g' full_name] assms(2) by (simp add: s0_def s1_def mk_module_def)
  then have m: "module_service_main ind full_name g lm argv (map Some mrs) = Inr s1"
    by (simp add: module_service_main_eval[OF assms(3)] mk_module_service_def sv(1) s0_def)
  have b: "builder (ms_server s1) = Some (empty_builder\<lparr>sb_services := map (sr_class \<circ> snd) (rg_servers g)\<rparr>)"
    "grpc_server (ms_server s1) = None"
    using sv by (simp_all add: s1_def s0_def)
  show ?thesis
    unfolding m rbind.simps served_def serve_eval[OF b]
    using sv sh
    by (simp add: s1_def s0_def runs_with_def
        fresh_managers_def wait_blocks_def module_set_ready_def mk_module_def empty_builder_def)
qed

lemma module_main_refused:
  fixes g :: "('x, 'sd) module_registry"
  assumes "awf (rg_servers g)" "register_models g mrs = Inl e" "2 \<le> length argv"
  shows "rbind (module_service_main ind full_name g lm argv (map Some mrs)) (served ok) = Inl e"
proof -
  obtain sv :: "'x server" where "mk_server g = Inr sv" using mk_server_ok[OF assms(1)] by blast
  then obtain s0 where s0: "mk_module_service ind g lm (argv ! 1) (get_protocol argv) = Inr s0" "ms_registry s0 = g"
    by (simp add: mk_module_service_def)
  then show ?thesis
    using register_loop_error[of "s0\<lparr>ms_log := set_global_log_level_args argv (ms_log s0)\<rparr>"
        mrs e full_name] assms(2)
    by (auto simp: module_service_main_eval[OF assms(3)] split: prod.splits sum.splits)
qed

subsection \<open>Lemmas: sessions\<close>

text \<open>The resource server of an API, as its calls see it: the manager of the API and the casts.\<close>

definition hosted_by :: "('x, 'sd) module_service \<Rightarrow> api \<Rightarrow> ('x resource, 'x) rpc_server option" where
  "hosted_by s a =
     map_option (\<lambda>m. \<lparr>rs_manager = m, rs_cast = (\<lambda>r. Some (ro_impl r))\<rparr>) (lookup_resource_server (ms_server s) a)"

text \<open>
  A program on its way: it starts, viam-server asks whether it is ready, has a configuration checked and
  adds a resource of one of its models.
\<close>

lemma program_session:
  fixes g :: "('x, 'sd) module_registry"
  assumes run: "runs_with full_name g g' mrs port s0" and reg: "register_models g mrs = Inr g'" "mr \<in> set mrs"
    and srv: "lookup_server g (mr_api mr) \<noteq> None" and env: "answering env"
    and cfg: "config_from_proto proto = Inr cfg" "cf_api cfg = mr_api mr" "cf_model cfg = mr_model mr"
    and val: "validate_config mr cfg = Inr deps"
    and r: "\<And>ds. \<exists>r. construct_resource mr ds cfg = Inr (Some r) \<and> ro_api r = mr_api mr
       \<and> ro_name r = cf_name cfg \<and> P (ro_impl r)"
    and dl: "\<not> deadline_exceeded (clock env) deadline"
  shows "\<exists>s1 s2 sv x. handle_Ready env raw addr s0 = (Inr (ready_reply s0), s1)
     \<and> handle_ValidateConfig proto s1 = (Inr (status_ok, deps), s1)
     \<and> handle_AddResource env deadline proto [] s1 = (Inr status_ok, s2)
     \<and> hosted_by s2 (mr_api mr) = Some sv \<and> P x
     \<and> (\<forall>cl. rc_name cl = cf_name cfg \<longrightarrow> hosts sv cl x)"
proof -
  have m: "lookup_model g' (mr_api mr) (mr_model mr) = Some mr" by (rule register_models_lookup[OF reg])
  obtain s1 where s1: "handle_Ready env raw addr s0 = (Inr (ready_reply s0), s1)"
    "ms_server s1 = ms_server s0" "ms_registry s1 = g'"
    using ready_same_core[of env raw addr s0] env run by (auto simp: answering_def runs_with_def)
  have v: "handle_ValidateConfig proto s1 = (Inr (status_ok, deps), s1)"
    by (simp add: handle_ValidateConfig_def st_bind_def st_defs st_try_def cfg s1(3) m val)
  obtain ds s1' where ds: "get_dependencies env [] (cf_name cfg) s1 = (Inr ds, s1')"
    using answering_no_dependencies[OF env] by blast
  obtain r where r': "construct_resource mr ds cfg = Inr (Some r)" "ro_api r = mr_api mr"
    "ro_name r = cf_name cfg" "P (ro_impl r)" using r by blast
  have "lookup_resource_server (ms_server s1) (ro_api r) = Some empty_manager"
    using run fresh_manager[OF srv] by (simp add: lookup_resource_server_eq s1(2) runs_with_def r'(2))
  from add_resource_adds[OF cfg(1) ds _ r'(1) dl this] obtain s2 m' where
    "handle_AddResource env deadline proto [] s1 = (Inr status_ok, s2)"
    "lookup_resource_server (ms_server s2) (mr_api mr) = Some m'" "manager_resource m' (cf_name cfg) = Some r"
    by (auto simp: s1(3) cfg m resource_map_def empty_manager_def r')
  with s1(1) v r'(4) show ?thesis by (fastforce simp: hosted_by_def hosts_def)
qed

lemma simple_program_runs:
  assumes "awf (rg_servers g)" "2 \<le> length argv"
    and "lookup_model g (kind_api K_Sensor) (mk_model ''viam'' ''sensor'' ''mysensor'') = None"
  shows "\<exists>s g'. simple_program ind full_name True g lm argv = Inr s
    \<and> register_models g [mysensor_mr] = Inr g'
    \<and> runs_with full_name g g' [mysensor_mr] (get_protocol argv @ argv ! 1) s"
proof -
  obtain g' where g': "register_models g [mysensor_mr] = Inr g'"
    using register_single[of g mysensor_mr] assms(3) by (auto simp: mysensor_mr_def mk_model_registration_validated_def)
  from module_main_runs[OF assms(1) g' assms(2), of ind full_name lm] g' show ?thesis
    by (auto simp: simple_program_def)
qed

lemma validate_sensor_deps: "validate_sensor cfg = Inr deps \<Longrightarrow> deps = []"
  by (auto simp: validate_sensor_def split: option.splits if_splits)

text \<open>The session of the simple module.\<close>

lemma simple_module_session:
  fixes g :: "(sensor, 'sd) module_registry"
  assumes "awf (rg_servers g)" "2 \<le> length argv" "lookup_server g (kind_api K_Sensor) \<noteq> None"
    and "lookup_model g (kind_api K_Sensor) (mk_model ''viam'' ''sensor'' ''mysensor'') = None"
    and cfg: "config_from_proto proto = Inr cfg" "cf_api cfg = kind_api K_Sensor"
      "cf_model cfg = mk_model ''viam'' ''sensor'' ''mysensor''" "validate_sensor cfg = Inr deps"
    and env: "answering env" "\<not> deadline_exceeded (clock env) deadline"
  shows "\<exists>s0 s1 s2 sv. simple_program ind full_name True g lm argv = Inr s0
     \<and> handle_Ready env raw addr s0 = (Inr (ready_reply s0), s1) \<and> rr_ready (ready_reply s0)
     \<and> handle_ValidateConfig proto s1 = (Inr (status_ok, []), s1)
     \<and> handle_AddResource env deadline proto [] s1 = (Inr status_ok, s2)
     \<and> hosted_by s2 (kind_api K_Sensor) = Some sv
     \<and> (\<forall>cl. rc_name cl = cf_name cfg \<longrightarrow> hosts sv cl (my_sensor cfg))"
proof -
  have mr: "mr_api mysensor_mr = kind_api K_Sensor" "mr_model mysensor_mr = mk_model ''viam'' ''sensor'' ''mysensor''"
    "validate_config mysensor_mr = validate_sensor"
    by (simp_all add: mysensor_mr_def mk_model_registration_validated_def)
  have d: "validate_sensor cfg = Inr []" using cfg(4) validate_sensor_deps by blast
  obtain s0 g' where s0: "simple_program ind full_name True g lm argv = Inr s0"
    "register_models g [mysensor_mr] = Inr g'"
    "runs_with full_name g g' [mysensor_mr] (get_protocol argv @ argv ! 1) s0"
    using simple_program_runs[OF assms(1,2,4)] by blast
  have c: "\<exists>r. construct_resource mysensor_mr ds cfg = Inr (Some r) \<and> ro_api r = mr_api mysensor_mr
      \<and> ro_name r = cf_name cfg \<and> ro_impl r = my_sensor cfg" for ds
    by (simp add: mysensor_mr_def mk_model_registration_validated_def)
  have "rr_ready (ready_reply s0)" using s0(3) by (simp add: runs_with_def ready_reply_def)
  then show ?thesis
    using program_session[OF s0(3,2) _ _ env(1) cfg(1) _ _ _ c env(2), of "[]" raw addr] assms(3) cfg(2,3) d s0(1)
    by (auto simp: mr)
qed

text \<open>A reading taken from it remotely is the multiplier of its configuration.\<close>

lemma sensor_read_remotely:
  assumes "hosts sv cl (my_sensor cfg)" "\<not> st_is_ok lost" "sendable extra"
  shows "sn_get_readings (sensor_client cl (sensor_service sv lost)) extra =
      Inr [(''signal'', PDouble (sensor_multiplier cfg))]"
proof -
  have "sn_get_readings (sensor_client cl (sensor_service sv lost)) extra =
      seen_remotely lost ''SensorServer::GetReadings'' (sn_get_readings (my_sensor cfg) extra)"
    unfolding sensor_client_def sensor_service_def sensor.simps sensor_stub.simps
    by (rule remote_readings[OF assms]) (simp add: my_sensor_def sensor_get_readings_def ps_wf_def)
  then show ?thesis by (simp add: my_sensor_def sensor_get_readings_def)
qed

lemma sensor_echoes_remotely:
  assumes "hosts sv cl (my_sensor cfg)" "\<not> st_is_ok lost" "ps_wf command"
  shows "sn_do_command (sensor_client cl (sensor_service sv lost)) command = Inr command"
proof -
  have "sn_do_command (sensor_client cl (sensor_service sv lost)) command =
      seen_remotely lost ''SensorServer::DoCommand'' (sn_do_command (my_sensor cfg) command)"
    unfolding sensor_client_def sensor_service_def sensor.simps sensor_stub.simps
    by (rule remote_do_command[OF assms]) (simp add: my_sensor_def assms(3))
  then show ?thesis by (simp add: my_sensor_def)
qed

text \<open>The session of the audio module, in which a sine wave is added.\<close>

lemma audioin_program_runs:
  assumes "awf (rg_servers g)" "2 \<le> length argv"
    and "lookup_model g (kind_api K_AudioIn) (mk_model ''viam'' ''audio_in'' ''sinewave'') = None"
  shows "\<exists>s g'. audioin_program sine now_of ind full_name True g lm argv = Inr s
    \<and> register_models g [sinewave_mr sine now_of] = Inr g'
    \<and> runs_with full_name g g' [sinewave_mr sine now_of] (get_protocol argv @ argv ! 1) s"
proof -
  obtain g' where g': "register_models g [sinewave_mr sine now_of] = Inr g'"
    using register_single[of g "sinewave_mr sine now_of"] assms(3)
    by (auto simp: sinewave_mr_def mk_model_registration_validated_def)
  from module_main_runs[OF assms(1) g' assms(2), of ind full_name lm] g' show ?thesis
    by (auto simp: audioin_program_def)
qed

lemma audioin_module_session:
  fixes g :: "(audio_in, 'sd) module_registry"
  assumes "awf (rg_servers g)" "2 \<le> length argv" "lookup_server g (kind_api K_AudioIn) \<noteq> None"
    and "lookup_model g (kind_api K_AudioIn) (mk_model ''viam'' ''audio_in'' ''sinewave'') = None"
    and cfg: "config_from_proto proto = Inr cfg" "cf_api cfg = kind_api K_AudioIn"
      "cf_model cfg = mk_model ''viam'' ''audio_in'' ''sinewave''" "validate_sine cfg = Inr deps"
    and env: "answering env" "\<not> deadline_exceeded (clock env) deadline"
  shows "\<exists>s0 s1 s2 sv. audioin_program sine now_of ind full_name True g lm argv = Inr s0
     \<and> handle_Ready env raw addr s0 = (Inr (ready_reply s0), s1)
     \<and> handle_ValidateConfig proto s1 = (Inr (status_ok, deps), s1)
     \<and> handle_AddResource env deadline proto [] s1 = (Inr status_ok, s2)
     \<and> hosted_by s2 (kind_api K_AudioIn) = Some sv
     \<and> (\<forall>cl. rc_name cl = cf_name cfg \<longrightarrow> hosts sv cl (sinewave sine now_of cfg))"
proof -
  let ?mr = "sinewave_mr sine now_of"
  have mr: "mr_api ?mr = kind_api K_AudioIn" "mr_model ?mr = mk_model ''viam'' ''audio_in'' ''sinewave''"
    "validate_config ?mr = validate_sine"
    by (simp_all add: sinewave_mr_def mk_model_registration_validated_def)
  obtain s0 g' where s0: "audioin_program sine now_of ind full_name True g lm argv = Inr s0"
    "register_models g [?mr] = Inr g'" "runs_with full_name g g' [?mr] (get_protocol argv @ argv ! 1) s0"
    using audioin_program_runs[OF assms(1,2,4)] by blast
  have c: "\<exists>r. construct_resource ?mr ds cfg = Inr (Some r) \<and> ro_api r = mr_api ?mr
      \<and> ro_name r = cf_name cfg \<and> ro_impl r = sinewave sine now_of cfg" for ds
    by (simp add: sinewave_mr_def mk_model_registration_validated_def)
  show ?thesis
    using program_session[OF s0(3,2) _ _ env(1) cfg(1) _ _ _ c env(2), of deps raw addr] assms(3) cfg(2-4) s0(1)
    by (auto simp: mr)
qed

subsection \<open>Lemmas: exits\<close>

lemma module_exits_without_socket:
  assumes "length argv < 2"
  shows "simple_exit (simple_program ind full_name ok g lm argv) = Some 1"
    and "audioin_exit (audioin_program sine now_of ind full_name ok g' lm argv) = Some 1"
    and "tflite_main tfl ind full_name ok g'' lm argv = (Some 1, None)"
proof -
  show "tflite_main tfl ind full_name ok g'' lm argv = (Some 1, None)"
    using assms by (cases argv; cases "tl argv") (auto simp: tflite_main_def)
qed (use assms in \<open>simp_all add: simple_exit_def simple_program_def audioin_exit_def audioin_program_def
      exit_code_def module_main_no_socket catches_sdk_def sdk_exception_def\<close>)

text \<open>The complex module has no handler: the same error ends it abnormally.\<close>

lemma complex_without_socket:
  assumes "length argv < 2" "register_custom_server find_service g gizmo_api ''GizmoServer'' = Inr g1"
    and "register_custom_server find_service g1 summation_api ''SummationServer'' = Inr g2"
  shows "complex_exit (complex_program stop_of find_service ind full_name ok g lm argv) = None"
  using assms
  by (simp add: complex_exit_def complex_program_def exit_code_def module_main_no_socket)

text \<open>On the registry of a process the complex module registers its three models and two servers.\<close>

lemma register_custom_server_ok:
  assumes "find_service cls = Some sd" "lookup_server g a = None"
  shows "\<exists>g'. register_custom_server find_service g a cls = Inr g' \<and> rg_models g' = rg_models g
    \<and> lookup_server g' = (lookup_server g)(a \<mapsto> \<lparr>sr_class = Custom_server cls, service_descriptor = Some sd\<rparr>)
    \<and> (awf (rg_servers g) \<longrightarrow> awf (rg_servers g'))"
proof -
  let ?sr = "\<lparr>sr_class = Custom_server cls, service_descriptor = Some sd\<rparr>"
  obtain g' where g': "register_resource_server_ap g a ?sr = Inr g'" "lookup_server g' = (lookup_server g)(a \<mapsto> ?sr)"
    using server_store.put_fresh[OF assms(2), of ?sr] by blast
  have "a \<notin> set (akeys (rg_servers g))" using assms(2) by (simp add: lookup_eqs)
  then have "g' = g\<lparr>rg_servers := emplace a ?sr (rg_servers g)\<rparr>"
    using g'(1) unfolding register_resource_server_ap_def by (simp only: if_False simp_thms sum.inject)
  then have "rg_models g' = rg_models g" "awf (rg_servers g) \<longrightarrow> awf (rg_servers g')" by simp_all
  moreover have "register_custom_server find_service g a cls = Inr g'"
    unfolding register_custom_server_def get_service_descriptor_def assms(1) option.case rbind.simps g'(1) ..
  ultimately show ?thesis using g'(2) by blast
qed

lemma complex_program_runs:
  assumes "awf (rg_servers g)" "2 \<le> length argv" "rg_models g = []"
    and "find_service ''GizmoServer'' = Some d1" "find_service ''SummationServer'' = Some d2"
    and "lookup_server g gizmo_api = None" "lookup_server g summation_api = None"
  shows "\<exists>s g2 g3. complex_program stop_of find_service ind full_name True g lm argv = Inr s
    \<and> runs_with full_name g2 g3 [mybase_mr stop_of, mygizmo_mr, mysummation_mr] (get_protocol argv @ argv ! 1) s
    \<and> lookup_server g2 = (lookup_server g)(gizmo_api \<mapsto> \<lparr>sr_class = Custom_server ''GizmoServer'', service_descriptor = Some d1\<rparr>,
        summation_api \<mapsto> \<lparr>sr_class = Custom_server ''SummationServer'', service_descriptor = Some d2\<rparr>)"
proof -
  obtain g1 where g1: "register_custom_server find_service g gizmo_api ''GizmoServer'' = Inr g1"
    "rg_models g1 = rg_models g" "awf (rg_servers g1)"
    "lookup_server g1 = (lookup_server g)(gizmo_api \<mapsto> \<lparr>sr_class = Custom_server ''GizmoServer'', service_descriptor = Some d1\<rparr>)"
    using register_custom_server_ok[where find_service = find_service, OF assms(4,6)] assms(1) by blast
  have "lookup_server g1 summation_api = None"
    using assms(7) by (simp add: g1(4) gizmo_api_def summation_api_def)
  then obtain g2 where g2: "register_custom_server find_service g1 summation_api ''SummationServer'' = Inr g2"
    "rg_models g2 = rg_models g1" "awf (rg_servers g2)"
    "lookup_server g2 = (lookup_server g1)(summation_api \<mapsto> \<lparr>sr_class = Custom_server ''SummationServer'', service_descriptor = Some d2\<rparr>)"
    using register_custom_server_ok[where find_service = find_service, OF assms(5)] g1(3) by blast
  let ?mrs = "[mybase_mr stop_of, mygizmo_mr, mysummation_mr]"
  let ?key = "\<lambda>mr. registration_key (mr_api mr) (mr_model mr)"
  have "distinct (map ?key ?mrs)"
    by (simp add: registration_key_def mybase_mr_def mygizmo_mr_def mysummation_mr_def mk_model_registration_def
        mk_model_registration_validated_def api_to_string_def gizmo_api_def summation_api_def k_rdk_def k_component_def k_service_def)
  then have "\<exists>g3. register_models g2 ?mrs = Inr g3"
    unfolding register_models_put_all using assms(3) g1(2) g2(2)
    by (intro model_store.put_all_ok) (auto simp: akeys_def comp_def lookup_eqs)
  then obtain g3 where g3: "register_models g2 ?mrs = Inr g3" by blast
  from module_main_runs[OF g2(3) g3 assms(2), of ind full_name lm] show ?thesis
    using g2(4) g1(4) by (auto simp: complex_program_def g1(1) g2(1))
qed

end
