(* ===== verification/ExampleClients.thy ===== *)
theory ExampleClients
  imports ExampleMains RobotClient Audio
begin

text \<open>
  The example clients (\<^verbatim>\<open>examples\<close>: \<^verbatim>\<open>dial\<close>, \<^verbatim>\<open>dial_api_key\<close>, \<^verbatim>\<open>motor\<close>, \<^verbatim>\<open>camera\<close> and the \<^verbatim>\<open>client.cpp\<close> of
  the modules): programs that connect to a machine, list its resources, look one up and use it. A program
  returns its exit code, what it logged and the files it wrote; how the log prints numbers is an
  argument. The robot client's threads are not interleaved with a program.
\<close>

subsection \<open>What the programs share\<close>

text \<open>The state of a run: \<open>'w\<close> is the machine at the other end.\<close>

record 'w console =
  co_machine :: 'w
  co_log :: "(log_level \<times> string) list"
  co_files :: "(string \<times> byte list) list"

record printing =
  pr_double :: "double \<Rightarrow> string"
  pr_int :: "int \<Rightarrow> string"
  pr_bool :: "bool \<Rightarrow> string"

definition say :: "log_level \<Rightarrow> string \<Rightarrow> ('w console, unit) stm" where
  "say level text = st_modify (\<lambda>s. s\<lparr>co_log := co_log s @ [(level, text)]\<rparr>)"

definition fail_with :: "string \<Rightarrow> ('w console, int) stm" where
  "fail_with text = st_bind (say ll_error text) (\<lambda>_. st_return 1)"

definition say_all :: "string \<Rightarrow> ('a \<Rightarrow> string) \<Rightarrow> 'a list \<Rightarrow> ('w console, unit) stm" where
  "say_all title line xs = st_bind (say ll_info title) (\<lambda>_. st_for xs (\<lambda>x. say ll_info (line x)))"

text \<open>A call on the machine.\<close>

definition on_machine :: "('w, 'a) stm \<Rightarrow> ('w console, 'a) stm" where
  "on_machine m s = (case m (co_machine s) of (r, w) \<Rightarrow> (r, s\<lparr>co_machine := w\<rparr>))"

text \<open>The typed lookup: null unless the resource is a client of the type.\<close>

definition resource_by_name_as :: "resource_kind \<Rightarrow> robot_client \<Rightarrow> string \<Rightarrow> RobotClient.rpc_client option res" where
  "resource_by_name_as k robot name =
     rmap (\<lambda>p. case p of Some c \<Rightarrow> if rk c = k then Some c else None | None \<Rightarrow> None)
       (resource_by_name robot (mk_name (kind_api k) [] name))"

text \<open>
  A program around its body: it connects with a refresh interval of one second and leaves with the
  body's code; the robot client is destroyed on the way out, which asks the machine to stop every resource
  it listed. \<open>caught\<close> tells the exceptions \<^verbatim>\<open>main\<close> handles with the exit code 1: they unwind the stack
  first, the others end the program where they were thrown. \<open>None\<close>: it never connects.
\<close>

definition destroy_robot :: "(pb_stop_params list \<Rightarrow> ('w, unit) stm) \<Rightarrow> robot_client \<Rightarrow> ('w console, unit) stm" where
  "destroy_robot stop_at robot s =
     (case on_machine (stop_at (stop_all_request (stop_all_default (rb_names robot)))) s of
        (Inr _, s') \<Rightarrow> (Inr (), s')
      | (Inl e, s') \<Rightarrow>
          say ll_error (if is_std_exception e then ''Received err while closing RobotClient: '' @ exn_what e
                        else ''Received unknown err while closing RobotClient'') s')"

definition leave :: "int res \<Rightarrow> (pb_stop_params list \<Rightarrow> ('w, unit) stm) \<Rightarrow> robot_client \<Rightarrow> 'w console \<Rightarrow> int res \<times> 'w console" where
  "leave r stop_at robot s = (r, snd (destroy_robot stop_at robot s))"

definition example_main ::
  "(exn \<Rightarrow> bool) \<Rightarrow> (string \<Rightarrow> client_options \<Rightarrow> robot_client res option) \<Rightarrow>
   (pb_stop_params list \<Rightarrow> ('w, unit) stm) \<Rightarrow> string \<Rightarrow> channel_options option \<Rightarrow>
   (robot_client \<Rightarrow> ('w console, int) stm) \<Rightarrow> 'w console \<Rightarrow> (int res \<times> 'w console) option" where
  "example_main caught connect stop_at uri options body s =
     (case connect uri (mk_options 1 options) of
        None \<Rightarrow> None
      | Some (Inl e) \<Rightarrow> Some (if caught e then Inr 1 else Inl e, s)
      | Some (Inr robot) \<Rightarrow> Some (case body robot s of
            (Inr code, s1) \<Rightarrow> leave (Inr code) stop_at robot s1
          | (Inl e, s1) \<Rightarrow> if caught e then leave (Inr 1) stop_at robot s1 else (Inl e, s1)))"

definition insecure_options :: channel_options where
  "insecure_options = set_allow_insecure_downgrade True default_channel_options"

definition local_uri :: string where
  "local_uri = ''http://localhost:8080/''"

subsection \<open>Dialling\<close>

definition dial_body :: "robot_client \<Rightarrow> ('w console, int) stm" where
  "dial_body robot =
     st_bind (say_all ''Resources:'' name_to_string (rb_names robot)) (\<lambda>_.
     st_bind (st_lift (resource_by_name_as K_GenericComponent robot ''generic1'')) (\<lambda>gc.
     st_bind (case gc of Some c \<Rightarrow> say ll_info (''got generic component client named '' @ rn c) | None \<Rightarrow> st_return ())
       (\<lambda>_. st_return 0)))"

definition dial_options_example :: channel_options where
  "dial_options_example =
     set_credentials (Some \<lparr>cr_type = ''<your authentication type>'', cr_payload = ''<your authentication payload>''\<rparr>)
       default_channel_options"

definition dial_main where
  "dial_main connect stop_at =
     example_main (\<lambda>_. False) connect stop_at ''<your robot URI here>'' (Some dial_options_example) dial_body"

text \<open>
  The command line of the other one comes parsed by boost: whether help was asked for, and the three
  options. Asking for an option that is not there throws.
\<close>

record dial_arguments =
  da_help :: bool
  da_uri :: "string option"
  da_entity :: "string option"
  da_api_key :: "string option"

definition api_key_options :: "dial_arguments \<Rightarrow> channel_options option" where
  "api_key_options vm =
     (case (da_entity vm, da_api_key vm) of
        (Some entity, Some key) \<Rightarrow>
          Some (set_credentials (Some \<lparr>cr_type = ''api-key'', cr_payload = key\<rparr>)
            (set_entity (Some entity) default_channel_options))
      | _ \<Rightarrow> None)"

definition api_key_body :: "robot_client \<Rightarrow> ('w console, int) stm" where
  "api_key_body robot =
     st_bind (say_all ''Resources:'' name_to_string (rb_names robot)) (\<lambda>_. st_return 0)"

definition dial_api_key_main where
  "dial_api_key_main connect stop_at parsed s =
     (case parsed of
        Inl e \<Rightarrow> Some (Inl e, s)
      | Inr vm \<Rightarrow>
          if da_help vm then Some (Inr 0, s)
          else (case da_uri vm of
                  None \<Rightarrow> Some (Inl (StdException ''boost::bad_any_cast''), s)
                | Some uri \<Rightarrow> example_main (\<lambda>_. False) connect stop_at uri (api_key_options vm) api_key_body s))"

subsection \<open>The clients of the example modules\<close>

definition hello_world :: proto_struct where
  "hello_world = [(''hello'', PString ''world'')]"

definition simple_client_body :: "printing \<Rightarrow> (RobotClient.rpc_client \<Rightarrow> sensor) \<Rightarrow> robot_client \<Rightarrow> ('w console, int) stm" where
  "simple_client_body pr client robot =
     st_bind (say_all ''Resources'' name_to_string (rb_names robot)) (\<lambda>_.
     st_bind (st_lift (resource_by_name_as K_Sensor robot ''mysensor'')) (\<lambda>found.
       case found of
         None \<Rightarrow> fail_with ''could not get 'mysensor' resource from robot''
       | Some c \<Rightarrow>
           st_bind (st_lift (sn_do_command (client c) hello_world)) (\<lambda>resp.
             if \<not> pv_eq (PStruct hello_world) (PStruct resp) then fail_with (''Got unexpected result from 'mysensor'' @ [CHR 0x27])
             else st_bind (st_lift (sn_get_readings (client c) [])) (\<lambda>readings.
               case map_of readings ''signal'' of
                 None \<Rightarrow> fail_with ''Expected signal not found in sensor readings''
               | Some v \<Rightarrow>
                   (case get_double v of
                      Some signal \<Rightarrow>
                        st_bind (say ll_info (''signal: '' @ pr_double pr signal)) (\<lambda>_. st_return 0)
                    | None \<Rightarrow> fail_with ''Unexpected value type for sensor reading'')))))"

definition simple_client_main where
  "simple_client_main connect stop_at pr client =
     example_main (\<lambda>_. False) connect stop_at local_uri (Some insecure_options) (simple_client_body pr client)"

text \<open>
  The recorder: its handler counts the chunks in an \<^verbatim>\<open>int\<close>, logs them and collects their bytes.
  \<open>opens\<close> tells whether the file can be written.
\<close>

definition record_chunk ::
  "printing \<Rightarrow> audio_chunk \<Rightarrow> int \<times> byte list \<times> (log_level \<times> string) list \<Rightarrow>
   bool res \<times> int \<times> byte list \<times> (log_level \<times> string) list" where
  "record_chunk pr chunk st =
     (case st of (n, bytes, lines) \<Rightarrow>
        if \<not> in_sint 32 (n + 1) then (Inl (Undefined ''int overflow''), st)
        else (Inr True, n + 1, bytes @ ac_audio_data chunk,
              lines @ [(ll_info, ''Received chunk '' @ pr_int pr (n + 1) @ '' - length: ''
                         @ pr_int pr (int (length (ac_audio_data chunk))) @ '' bytes'')]))"

definition record_audio ::
  "printing \<Rightarrow> audio_chunk source \<Rightarrow> ('w console, int \<times> byte list) stm" where
  "record_audio pr src s =
     (case run_source src (record_chunk pr) (0, [], co_log s) of
        (r, n, bytes, lines) \<Rightarrow> (rmap (\<lambda>_. (n, bytes)) r, s\<lparr>co_log := lines\<rparr>))"

definition write_audio :: "bool \<Rightarrow> byte list \<Rightarrow> audio_properties \<Rightarrow> ('w console, unit) stm" where
  "write_audio opens bytes props s =
     (case write_wav_file opens ''sine_wave_audio.wav'' bytes ''pcm16''
             (word_of_int (ap_sample_rate_hz props)) (word_of_int (ap_num_channels props)) of
        (e, written) \<Rightarrow>
          (case e of Some e \<Rightarrow> Inl e | None \<Rightarrow> Inr (),
           case written of Some bs \<Rightarrow> s\<lparr>co_files := aput ''sine_wave_audio.wav'' bs (co_files s)\<rparr> | None \<Rightarrow> s))"

definition audio_client_body ::
  "printing \<Rightarrow> bool \<Rightarrow> (RobotClient.rpc_client \<Rightarrow> audio_in) \<Rightarrow> robot_client \<Rightarrow> ('w console, int) stm" where
  "audio_client_body pr opens client robot =
     st_bind (say_all ''Resources:'' (\<lambda>n. ''  '' @ name_to_string n) (rb_names robot)) (\<lambda>_.
     st_bind (st_lift (resource_by_name_as K_AudioIn robot ''sinewave-audio'')) (\<lambda>found.
       case found of
         None \<Rightarrow> fail_with ''could not get 'sinewave-audio' resource from robot''
       | Some c \<Rightarrow>
           st_bind (say ll_info ''Getting audio properties...'') (\<lambda>_.
           st_bind (st_lift (ain_get_properties (client c) [])) (\<lambda>props.
           st_bind (say_all ''Audio properties:'' id
             [''  sample_rate_hz: '' @ pr_int pr (ap_sample_rate_hz props),
              ''  num_channels: '' @ pr_int pr (ap_num_channels props),
              ''  supported_codecs: '' @ pr_int pr (int (length (supported_codecs props))) @ '' codecs'']) (\<lambda>_.
           st_bind (say ll_info ''Retrieving 2 seconds of audio...'') (\<lambda>_.
           st_bind (record_audio pr (ain_get_audio (client c) ''pcm16'' (dbl_of_int 2) 0 [])) (\<lambda>(n, bytes).
           st_bind (say ll_info (''Total audio data received: '' @ pr_int pr (int (length bytes)) @ '' bytes'')) (\<lambda>_.
           st_bind (say ll_info (''Total chunks: '' @ pr_int pr n)) (\<lambda>_.
             st_try
               (st_bind (write_audio opens bytes props) (\<lambda>_.
                st_bind (say ll_info ''Audio saved to sine_wave_audio.wav'') (\<lambda>_.
                st_bind (say ll_info ''To play: open sine_wave_audio.wav (or use any audio player)'') (\<lambda>_.
                  st_return 0))))
               (\<lambda>e. fail_with (''Failed to write WAV file: '' @ exn_what e)))))))))))"

definition audio_client_main where
  "audio_client_main connect stop_at pr opens client =
     example_main (\<lambda>_. False) connect stop_at local_uri (Some insecure_options) (audio_client_body pr opens client)"

text \<open>
  The complex module's client. Its two client registrations are calls of the registry; \<open>find_gizmo\<close> and
  \<open>find_summation\<close> are the typed lookups of the two APIs the module defines itself.
\<close>

definition use_gizmo :: "printing \<Rightarrow> gizmo \<Rightarrow> ('w console, unit) stm" where
  "use_gizmo pr gc =
     st_bind (st_lift (gz_do_one gc ''arg1'')) (\<lambda>one.
     st_bind (say ll_info (''gizmo1 do_one returned: '' @ pr_bool pr one)) (\<lambda>_.
     st_bind (st_lift (gz_do_one_client_stream gc [''arg1'', ''arg1'', ''arg1''])) (\<lambda>cs.
     st_bind (say ll_info (''gizmo1 do_one_client_stream returned: '' @ pr_bool pr cs)) (\<lambda>_.
     st_bind (st_lift (gz_do_two gc False)) (\<lambda>two.
     st_bind (say ll_info (''gizmo1 do_two returned: '' @ two)) (\<lambda>_.
     st_bind (st_lift (gz_do_one_server_stream gc ''arg1'')) (\<lambda>ss.
     st_bind (say_all ''gizmo1 do_one_server_stream returned: '' (pr_bool pr) ss) (\<lambda>_.
     st_bind (st_lift (gz_do_one_bidi_stream gc [''arg1'', ''arg2'', ''arg3''])) (\<lambda>bs.
       say_all ''gizmo1 do_one_bidi_stream returned: '' (pr_bool pr) bs)))))))))"

definition use_motor :: "(RobotClient.rpc_client \<Rightarrow> motor) \<Rightarrow> robot_client \<Rightarrow> ('w console, int) stm" where
  "use_motor client robot =
     st_bind (st_lift (resource_by_name_as K_Motor robot ''motor1'')) (\<lambda>found.
       case found of
         None \<Rightarrow> fail_with ''could not get 'motor1' resource from robot''
       | Some c \<Rightarrow>
           st_bind (st_lift (mo_is_moving (client c))) (\<lambda>moving.
           st_bind (say ll_info (if moving then ''motor1 is moving'' else ''motor1 is not moving'')) (\<lambda>_.
             st_return 0)))"

definition complex_client_body ::
  "printing \<Rightarrow> (robot_client \<Rightarrow> string \<Rightarrow> gizmo option res) \<Rightarrow> (robot_client \<Rightarrow> string \<Rightarrow> summation option res) \<Rightarrow>
   (RobotClient.rpc_client \<Rightarrow> motor) \<Rightarrow> robot_client \<Rightarrow> ('w console, int) stm" where
  "complex_client_body pr find_gizmo find_summation client robot =
     st_bind (say_all ''Resources:'' name_to_string (rb_names robot)) (\<lambda>_.
     st_bind (st_lift (find_gizmo robot ''gizmo1'')) (\<lambda>found.
       case found of
         None \<Rightarrow> fail_with (''could not get 'gizmo1' resource from robot'' @ [CHR 0x0A])
       | Some gc \<Rightarrow>
           st_bind (use_gizmo pr gc) (\<lambda>_.
           st_bind (st_lift (find_summation robot ''mysum1'')) (\<lambda>found.
             case found of
               None \<Rightarrow> fail_with ''could not get 'mysum1' resource from robot''
             | Some sc \<Rightarrow>
                 st_bind (st_lift (sc (map dbl_of_int [0..9]))) (\<lambda>sum.
                 st_bind (say ll_info (''mysum1 sum of numbers [0, 10) is: '' @ pr_double pr sum)) (\<lambda>_.
                   use_motor client robot))))))"

definition complex_client_main where
  "complex_client_main connect stop_at register_gizmo register_summation pr find_gizmo find_summation client s =
     (case rbind register_gizmo (\<lambda>_. register_summation) of
        Inl e \<Rightarrow> Some (Inl e, s)
      | Inr () \<Rightarrow>
          example_main (\<lambda>_. False) connect stop_at local_uri (Some insecure_options)
            (complex_client_body pr find_gizmo find_summation client) s)"

subsection \<open>The motor\<close>

text \<open>The calls the program makes on its motor: each changes the machine. The options are built from
  empty credentials, which allows the insecure downgrade.\<close>

record 'w motor_device =
  dev_get_power_status :: "('w, power_status) stm"
  dev_set_power :: "double \<Rightarrow> ('w, unit) stm"
  dev_get_position :: "('w, double) stm"
  dev_get_properties :: "('w, bool) stm"
  dev_go_for :: "double \<Rightarrow> double \<Rightarrow> ('w, unit) stm"
  dev_go_to :: "double \<Rightarrow> double \<Rightarrow> ('w, unit) stm"
  dev_stop :: "('w, unit) stm"

definition print_motor_position :: "printing \<Rightarrow> 'w motor_device \<Rightarrow> ('w console, unit) stm" where
  "print_motor_position pr motor =
     st_bind (on_machine (dev_get_properties motor)) (\<lambda>position_reporting.
       if position_reporting then
         st_bind (on_machine (dev_get_position motor)) (\<lambda>pos. say ll_info (''Motor pos: '' @ pr_double pr pos))
       else say ll_info ''Motor position unavailable'')"

definition print_motor_power :: "printing \<Rightarrow> 'w motor_device \<Rightarrow> ('w console, unit) stm" where
  "print_motor_power pr motor =
     st_bind (on_machine (dev_get_power_status motor)) (\<lambda>st.
       say ll_info (''Motor power: '' @ pr_double pr (pw_power_pct st)))"

definition go_back :: "'w motor_device \<Rightarrow> ('w, unit) stm" where
  "go_back motor =
     st_bind (dev_get_properties motor) (\<lambda>position_reporting.
       if position_reporting then dev_go_to motor (dbl_of_int 10) (dbl_of_int 0)
       else dev_go_for motor (dbl_of_int 10) (dbl_flip dbl_half))"

definition motor_drive :: "printing \<Rightarrow> 'w motor_device \<Rightarrow> ('w console, int) stm" where
  "motor_drive pr motor =
     st_bind (print_motor_power pr motor) (\<lambda>_.
     st_bind (say ll_info ''Setting motor power to 50%'') (\<lambda>_.
     st_bind (on_machine (dev_set_power motor dbl_half)) (\<lambda>_.
     st_bind (print_motor_power pr motor) (\<lambda>_.
     st_bind (print_motor_position pr motor) (\<lambda>_.
     st_bind (say ll_info ''Moving motor by 0.5 rotations at 10rpm'') (\<lambda>_.
     st_bind (on_machine (dev_go_for motor (dbl_of_int 10) dbl_half)) (\<lambda>_.
     st_bind (print_motor_position pr motor) (\<lambda>_.
     st_bind (say ll_info ''Moving motor back to starting location'') (\<lambda>_.
     st_bind (on_machine (go_back motor)) (\<lambda>_.
     st_bind (print_motor_position pr motor) (\<lambda>_.
     st_bind (say ll_info ''Moving motor forward for 2 seconds at 30rpm'') (\<lambda>_.
     st_bind (on_machine (dev_go_for motor (dbl_of_int 30) (dbl_of_int 0))) (\<lambda>_.
     st_bind (print_motor_position pr motor) (\<lambda>_.
     st_bind (st_for [0 ..< 4] (\<lambda>i. print_motor_position pr motor)) (\<lambda>_.
     st_bind (say ll_info ''Stopping motor'') (\<lambda>_.
     st_bind (on_machine (dev_stop motor)) (\<lambda>_.
       st_return 0)))))))))))))))))"

definition motor_body ::
  "printing \<Rightarrow> (RobotClient.rpc_client \<Rightarrow> 'w motor_device) \<Rightarrow> robot_client \<Rightarrow> ('w console, int) stm" where
  "motor_body pr client robot =
     st_bind (say ll_info ''Successfully connected to the robot'') (\<lambda>_.
     st_bind (say_all ''Resources of the robot:'' name_to_string (rb_names robot)) (\<lambda>_.
     st_bind (say ll_info ''Getting motor: motor1'') (\<lambda>_.
     st_bind (st_lift (resource_by_name_as K_Motor robot ''motor1'')) (\<lambda>found.
       case found of
         None \<Rightarrow> st_throw (Undefined ''null motor'')
       | Some c \<Rightarrow> motor_drive pr (client c)))))"

definition motor_main where
  "motor_main connect stop_at pr client =
     example_main is_std_exception connect stop_at ''localhost:8080'' (Some insecure_options) (motor_body pr client)"

subsection \<open>The camera\<close>

text \<open>Opening or closing the file may fail, which the stream reports by an exception.\<close>

definition save_image :: "bool \<Rightarrow> bool \<Rightarrow> byte list \<Rightarrow> ('w console, unit) stm" where
  "save_image opens closes bytes s =
     (if \<not> opens then (Inl (StdException ''ios_base::failure''), s)
      else (if closes then Inr () else Inl (StdException ''ios_base::failure''),
            s\<lparr>co_files := aput ''img.png'' bytes (co_files s)\<rparr>))"

definition camera_body ::
  "printing \<Rightarrow> bool \<Rightarrow> bool \<Rightarrow> (RobotClient.rpc_client \<Rightarrow> camera) \<Rightarrow> robot_client \<Rightarrow> ('w console, int) stm" where
  "camera_body pr opens closes client robot =
     st_bind (say ll_info ''Successfully connected to the robot'') (\<lambda>_.
     st_bind (say_all ''Resources of the robot:''
       (\<lambda>n. '' - '' @ nm_name n @ '' ('' @ resource_subtype (nm_api n) @ '')'') (rb_names robot)) (\<lambda>_.
     st_bind (say ll_info ''Getting camera: camera1'') (\<lambda>_.
     st_bind (st_lift (resource_by_name_as K_Camera robot ''camera1'')) (\<lambda>found.
       case found of
         None \<Rightarrow> st_throw (Undefined ''null camera'')
       | Some c \<Rightarrow>
           st_bind (st_lift (cam_get_properties (client c))) (\<lambda>props.
           st_bind (say ll_info (''Image dimensions: ''
               @ pr_int pr (sint (ip_width_px (cpr_intrinsic_parameters props))) @ '' x ''
               @ pr_int pr (sint (ip_height_px (cpr_intrinsic_parameters props))))) (\<lambda>_.
           st_bind (say ll_info ''Getting images from camera '') (\<lambda>_.
           st_bind (st_lift (cam_get_images (client c) [] [])) (\<lambda>images.
             case ic_images images of
               [] \<Rightarrow> st_throw (Undefined ''index out of range'')
             | img # _ \<Rightarrow>
                 st_bind (say ll_info (''Got image of mime type: '' @ ri_mime_type img)) (\<lambda>_.
                 st_bind (say ll_info ''Getting and saving image to img.png'') (\<lambda>_.
                 st_bind (save_image opens closes (ri_bytes img)) (\<lambda>_.
                   st_return 0)))))))))))"

definition camera_main where
  "camera_main connect stop_at pr opens closes client =
     example_main is_std_exception connect stop_at ''localhost:8080'' (Some insecure_options)
       (camera_body pr opens closes client)"

subsection \<open>Lemmas\<close>

lemma say_eval [simp]: "say l t s = (Inr (), s\<lparr>co_log := co_log s @ [(l, t)]\<rparr>)"
  by (simp add: say_def st_modify_def)

lemma fail_with_eval [simp]: "fail_with t s = (Inr 1, s\<lparr>co_log := co_log s @ [(ll_error, t)]\<rparr>)"
  by (simp add: fail_with_def st_bind_def st_return_def)

lemma say_loop: "st_for xs (\<lambda>x. say ll_info (f x)) s = (Inr (), s\<lparr>co_log := co_log s @ map (\<lambda>x. (ll_info, f x)) xs\<rparr>)"
  by (induction xs arbitrary: s) (simp_all add: st_return_def)

lemma say_all_eval [simp]:
  "say_all title f xs s = (Inr (), s\<lparr>co_log := co_log s @ (ll_info, title) # map (\<lambda>x. (ll_info, f x)) xs\<rparr>)"
  by (simp add: say_all_def st_bind_def say_loop)

lemma st_lift_Inr [simp]: "st_lift (Inr a) s = (Inr a, s)"
  by (simp add: st_lift_def)

lemma st_lift_Inl [simp]: "st_lift (Inl e) s = (Inl e, s)"
  by (simp add: st_lift_def)

text \<open>A program that leaves in an orderly way has asked the machine to stop all it listed.\<close>

lemma destroy_robot_machine:
  "co_machine (snd (destroy_robot stop_at robot s)) =
     snd (stop_at (stop_all_request (stop_all_default (rb_names robot))) (co_machine s))"
  by (auto simp: destroy_robot_def on_machine_def split: prod.split sum.split)

lemma destroy_robot_files: "co_files (snd (destroy_robot stop_at robot s)) = co_files s"
  by (auto simp: destroy_robot_def on_machine_def split: prod.split sum.split)

lemma example_main_stops:
  assumes "connect uri (mk_options 1 options) = Some (Inr robot)"
    and "example_main caught connect stop_at uri options body s = Some (Inr code, s')"
  shows "\<exists>w. co_machine s' = snd (stop_at (stop_all_request (stop_all_default (rb_names robot))) w)"
  using assms
  by (auto simp: example_main_def leave_def destroy_robot_machine split: prod.splits sum.splits if_splits)

lemma example_main_returned:
  assumes "connect uri (mk_options 1 options) = Some (Inr robot)" "body robot s = (Inr code, s1)"
  shows "\<exists>s'. example_main caught connect stop_at uri options body s = Some (Inr code, s') \<and> co_files s' = co_files s1"
  using assms by (auto simp: example_main_def leave_def destroy_robot_files)

lemma not_frame_system: "k \<noteq> K_FrameSystem \<Longrightarrow> \<not> name_eq (mk_name (kind_api k) [] name) frame_system_public_name"
  by (cases k)
    (simp_all add: name_eq_def name_to_string_def mk_name_def frame_system_public_name_def api_to_string_def
      k_rdk_def k_rdk_internal_def )

text \<open>What the lookup hands out is what the cache has under the name, when its type is right.\<close>

lemma lookup_cached:
  "k \<noteq> K_FrameSystem \<Longrightarrow> resource_by_name_as k robot name =
     Inr (case manager_resource (rb_manager robot) name of
            Some c \<Rightarrow> if rk c = k then Some c else None | None \<Rightarrow> None)"
  using not_frame_system[of k name]
  by (simp add: resource_by_name_as_def resource_by_name_def mk_name_def)

lemma simple_client_ok:
  assumes "resource_by_name_as K_Sensor robot ''mysensor'' = Inr (Some c)"
    and "sn_do_command (client c) hello_world = Inr hello_world"
    and "sn_get_readings (client c) [] = Inr [(''signal'', PDouble d)]"
  shows "\<exists>s'. simple_client_body pr client robot s = (Inr 0, s')
     \<and> co_log s' = co_log s @ (ll_info, ''Resources'') # map (\<lambda>n. (ll_info, name_to_string n)) (rb_names robot)
           @ [(ll_info, ''signal: '' @ pr_double pr d)]"
  using assms by (simp add: simple_client_body_def st_return_def hello_world_def)

lemma record_chunk_ok:
  assumes "0 \<le> n" "n + 1 < 2 ^ 31"
  obtains l' where "record_chunk pr t (n, b, l) = (Inr True, n + 1, b @ ac_audio_data t, l')"
  using assms by (simp add: record_chunk_def in_sint_def)

lemma run_recording:
  "0 \<le> n \<Longrightarrow> n + int (length (accepted src)) < 2 ^ 31 \<Longrightarrow> \<exists>l'. run_source src (record_chunk pr) (n, b, l) =
     (source_result src, n + int (length (accepted src)), b @ concat (map ac_audio_data (accepted src)), l')"
proof (induction src arbitrary: n b l)
  case (Source_emit t k)
  then obtain l1 where r: "record_chunk pr t (n, b, l) = (Inr True, n + 1, b @ ac_audio_data t, l1)"
    by (auto intro: record_chunk_ok[of n pr t b l])
  have "0 \<le> n + 1" "n + 1 + int (length (accepted (k (Inr True)))) < 2 ^ 31"
    using Source_emit.prems by simp_all
  from Source_emit.IH[OF rangeI[of k "Inr True"] this, of "b @ ac_audio_data t" l1] r show ?case
    by (simp add: algebra_simps)
qed simp

lemma record_audio_ok:
  assumes "source_result src = Inr ()" "int (length (accepted src)) < 2 ^ 31"
  shows "\<exists>l. record_audio pr src s =
     (Inr (int (length (accepted src)), concat (map ac_audio_data (accepted src))), s\<lparr>co_log := l\<rparr>)"
  using run_recording[of 0 src pr "[]" "co_log s"] assms by (auto simp: record_audio_def)

lemma remote_audio_source:
  assumes h: "hosts sv cl a" and l: "\<not> st_is_ok lost" and x: "sendable extra" and c: "\<And>n. \<not> cancelled n"
    and src: "src = ain_get_audio a codec duration previous extra"
    and csrc: "csrc = ain_get_audio (audio_in_client cl (audio_in_service sv lost request_id cancelled finish))
            codec duration previous extra"
  shows "source_result csrc = seen_remotely lost ''AudioInServer::GetAudio'' (source_result src)"
    "accepted csrc = map (received_chunk request_id) (accepted src)"
proof -
  let ?h = "\<lambda>t l. (Inr True :: bool res, l @ [t])"
  have col: "foldl (\<lambda>s t. snd (?h (g t) s)) l0 ts = l0 @ map g ts" for g :: "'b \<Rightarrow> audio_chunk" and l0 ts
    by (induction ts arbitrary: l0) auto
  have "run_source csrc ?h [] = (seen_remotely lost ''AudioInServer::GetAudio'' (source_result src),
      map (received_chunk request_id) (accepted src))"
    unfolding csrc
    by (subst remote_audio_in[OF h l x c _ src]) (simp_all only: fst_conv col append_Nil)
  moreover have "run_source csrc ?h [] = (source_result csrc, accepted csrc)"
    using run_source_accepting[of ?h csrc "[]"] col[of id "[]" "accepted csrc"] by simp
  ultimately show "source_result csrc = seen_remotely lost ''AudioInServer::GetAudio'' (source_result src)"
    "accepted csrc = map (received_chunk request_id) (accepted src)" by simp_all
qed

lemma remote_audio_properties:
  assumes "hosts sv cl a" "\<not> st_is_ok lost" "sendable extra"
  shows "ain_get_properties (audio_in_client cl (audio_in_service sv lost request_id cancelled finish)) extra =
    seen_remotely lost ''AudioInServer::GetProperties'' (ain_get_properties a extra)"
  unfolding audio_in_client_def audio_in_service_def audio_in.simps audio_in_stub.simps
  by (simp add: remote_simps[OF assms(1,2)] assms(3))

lemma audio_client_ok:
  assumes "resource_by_name_as K_AudioIn robot ''sinewave-audio'' = Inr (Some c)"
    and "ain_get_properties (client c) [] = Inr \<lparr>supported_codecs = cs, ap_sample_rate_hz = 44100, ap_num_channels = 1\<rparr>"
    and src: "source_result (ain_get_audio (client c) ''pcm16'' (dbl_of_int 2) 0 []) = Inr ()"
      "accepted (ain_get_audio (client c) ''pcm16'' (dbl_of_int 2) 0 []) = received"
    and len: "int (length received) < 2 ^ 31" "36 + length (concat (map ac_audio_data received)) < 2 ^ 32"
  shows "\<exists>s' bs. audio_client_body pr True client robot s = (Inr 0, s')
    \<and> map_of (co_files s') ''sine_wave_audio.wav'' = Some bs
    \<and> read_wav bs = Some \<lparr>wav_format = 1, wav_channels = 1, wav_sample_rate = 44100, wav_byte_rate = 88200,
        wav_block_align = 2, wav_bits = 16, wav_data = concat (map ac_audio_data received)\<rparr>"
proof -
  let ?data = "concat (map ac_audio_data received)"
  have "get_bits_per_sample ''pcm16'' = Inr 16" by (simp add: get_bits_per_sample_def)
  from write_wav_ok[OF this len(2), of "''sine_wave_audio.wav''" 44100 1] obtain bs where
    bs: "write_wav_file True ''sine_wave_audio.wav'' ?data ''pcm16'' 44100 1 = (None, Some bs)"
    "read_wav bs = Some \<lparr>wav_format = 1, wav_channels = 1, wav_sample_rate = 44100, wav_byte_rate = 88200,
        wav_block_align = 2, wav_bits = 16, wav_data = ?data\<rparr>"
    by auto
  let ?src = "ain_get_audio (client c) ''pcm16'' (dbl_of_int 2) 0 []"
  have rec: "\<exists>l. record_audio pr ?src t = (Inr (int (length received), ?data), t\<lparr>co_log := l\<rparr>)" for t :: "'a console"
    using record_audio_ok[OF src(1), of pr t] src(2) len(1) by simp
  have wr: "write_audio True ?data \<lparr>supported_codecs = cs, ap_sample_rate_hz = 44100, ap_num_channels = 1\<rparr> t
      = (Inr (), t\<lparr>co_files := aput ''sine_wave_audio.wav'' bs (co_files t)\<rparr>)" for t :: "'a console"
    using bs(1) by (simp add: write_audio_def)
  define s1 where "s1 = snd (st_bind (say_all ''Resources:'' (\<lambda>n. ''  '' @ name_to_string n) (rb_names robot)) (\<lambda>_.
     st_bind (say ll_info ''Getting audio properties...'') (\<lambda>_.
     st_bind (say_all ''Audio properties:'' id
             [''  sample_rate_hz: '' @ pr_int pr 44100, ''  num_channels: '' @ pr_int pr 1,
              ''  supported_codecs: '' @ pr_int pr (int (length cs)) @ '' codecs'']) (\<lambda>_.
      say ll_info ''Retrieving 2 seconds of audio...''))) s)"
  obtain l where l: "record_audio pr ?src s1 = (Inr (int (length received), ?data), s1\<lparr>co_log := l\<rparr>)"
    using rec by blast
  show ?thesis
    using l bs(2) unfolding s1_def
    by (simp add: audio_client_body_def assms(1,2) wr st_return_def st_try_def st_bind_def)
qed

text \<open>Two seconds of a validated sine wave end up in the file, sample by sample.\<close>

lemma sine_recorded:
  assumes h: "hosts sv cl (sinewave sine now_of cfg)" and lost: "\<not> st_is_ok lost" and c: "\<And>n. \<not> cancelled n"
    and v: "validate_sine cfg = Inr deps" "\<not> dbl_is_nan (sine_frequency cfg)" "bounded_sine sine"
    and found: "resource_by_name_as K_AudioIn robot ''sinewave-audio'' = Inr (Some ci)"
      "client ci = audio_in_client cl (audio_in_service sv lost request_id cancelled finish)"
  shows "\<exists>s' bs. audio_client_body pr True client robot s = (Inr 0, s')
    \<and> map_of (co_files s') ''sine_wave_audio.wav'' = Some bs
    \<and> read_wav bs = Some \<lparr>wav_format = 1, wav_channels = 1, wav_sample_rate = 44100, wav_byte_rate = 88200,
        wav_block_align = 2, wav_bits = 16,
        wav_data = pcm16_samples_to_bytes (map (\<lambda>i. the (sine_sample sine (sine_frequency cfg) i)) [0..88199])\<rparr>"
proof -
  let ?pcm = "\<lambda>i. the (sine_sample sine (sine_frequency cfg) i)"
  let ?src = "sine_get_audio sine (sine_frequency cfg) now_of ''pcm16'' (dbl_of_int 2)"
  have "dbl_mul (dbl_of_int 2) (dbl_of_int 44100) = dbl_of_int 88200" by (subst dbl_mul_of_int) simp_all
  then have total: "dbl_to_sint 32 (dbl_mul (dbl_of_int 2) (dbl_of_int 44100)) = Some 88200"
    by (simp add: dbl_to_sint_of_int)
  have s: "sampled (sine_sample sine (sine_frequency cfg)) ?pcm 88200"
    by (rule validated_sine[OF v]) simp
  note ch = sine_chunks[OF total _ _ s, of now_of "''pcm16''", simplified]
  have src: "?src = ain_get_audio (sinewave sine now_of cfg) ''pcm16'' (dbl_of_int 2) 0 []"
    by (simp add: sinewave_def)
  have se: "sendable []" by (simp add: sendable_def)
  have r: "source_result (ain_get_audio (client ci) ''pcm16'' (dbl_of_int 2) 0 []) =
      seen_remotely lost ''AudioInServer::GetAudio'' (source_result ?src)"
    "accepted (ain_get_audio (client ci) ''pcm16'' (dbl_of_int 2) 0 []) =
      map (received_chunk request_id) (accepted ?src)"
    unfolding found(2) by (rule remote_audio_source[OF h lost se c src refl])+
  have p: "ain_get_properties (client ci) [] =
      Inr \<lparr>supported_codecs = [''pcm16''], ap_sample_rate_hz = 44100, ap_num_channels = 1\<rparr>"
    unfolding found(2) remote_audio_properties[OF h lost se] by (simp add: sinewave_def sine_properties_def)
  let ?got = "map (received_chunk request_id) (accepted ?src)"
  have data: "concat (map ac_audio_data ?got) = pcm16_samples_to_bytes (map ?pcm [0..88199])"
    using ch(1) by (simp add: comp_def received_chunk_def)
  have "length (map ac_sequence_number (accepted ?src)) = 87"
    unfolding ch(2) by simp
  then have n: "int (length ?got) < 2 ^ 31" by simp
  have "length (pcm16_samples_to_bytes xs) = 2 * length xs" for xs
    by (induction xs) (simp_all add: pcm16_samples_to_bytes_def)
  then have len: "36 + length (concat (map ac_audio_data ?got)) < 2 ^ 32" unfolding data by simp
  have "source_result (ain_get_audio (client ci) ''pcm16'' (dbl_of_int 2) 0 []) = Inr ()"
    unfolding r(1) ch(3) by simp
  from audio_client_ok[where client = client, OF found(1) p this r(2) n len] show ?thesis
    unfolding data by simp
qed

text \<open>A machine whose stop reaches every resource leaves no motor of the example running.\<close>

lemma motor_drive_code: "motor_drive pr motor s = (Inr code, s') \<Longrightarrow> code = 0"
  by (auto simp: motor_drive_def st_return_def elim!: st_bind_InrE)

lemma motor_body_code: "motor_body pr client robot s = (Inr code, s') \<Longrightarrow> code = 0"
  by (auto simp: motor_body_def st_throw_def dest: motor_drive_code elim!: st_bind_InrE split: option.splits)

lemma motor_main_stops:
  assumes conn: "connect ''localhost:8080'' (mk_options 1 (Some insecure_options)) = Some (Inr robot)"
    and run: "motor_main connect stop_at pr client s = Some (r, s')" and std: "\<And>e. r = Inl e \<Longrightarrow> is_std_exception e"
    and stop: "\<And>w. stopped (snd (stop_at (stop_all_request (stop_all_default (rb_names robot))) w))"
  shows "(r = Inr 0 \<or> r = Inr 1) \<and> stopped (co_machine s')"
proof -
  obtain b s1 where b: "motor_body pr client robot s = (b, s1)" by (cases "motor_body pr client robot s")
  have "\<exists>code. r = Inr code \<and> (code = 0 \<or> code = 1)"
    using run std b motor_body_code[of pr client robot s _ s1]
    by (auto simp: motor_main_def example_main_def conn leave_def split: sum.splits if_splits)
  then obtain code where code: "r = Inr code" "code = 0 \<or> code = 1" by blast
  have "\<exists>w. co_machine s' = snd (stop_at (stop_all_request (stop_all_default (rb_names robot))) w)"
    by (rule example_main_stops[OF conn run[unfolded motor_main_def code(1)]])
  with code stop show ?thesis by auto
qed

lemma motor_main_no_motor:
  assumes "connect ''localhost:8080'' (mk_options 1 (Some insecure_options)) = Some (Inr robot)"
    and "resource_by_name_as K_Motor robot ''motor1'' = Inr None"
  shows "\<exists>s'. motor_main connect stop_at pr client s = Some (Inl (Undefined ''null motor''), s')"
  using assms by (simp add: motor_main_def example_main_def motor_body_def st_throw_def st_bind_def)

text \<open>The calls the drive makes: a motor that records them.\<close>

datatype motor_call = Call_set_power double | Call_go_for double double | Call_go_to double double | Call_stop

definition recording_motor :: "bool \<Rightarrow> power_status \<Rightarrow> double \<Rightarrow> motor_call list motor_device" where
  "recording_motor reporting pw pos =
     \<lparr>dev_get_power_status = st_return pw, dev_set_power = (\<lambda>p. st_modify (\<lambda>cs. cs @ [Call_set_power p])),
      dev_get_position = st_return pos, dev_get_properties = st_return reporting,
      dev_go_for = (\<lambda>rpm n. st_modify (\<lambda>cs. cs @ [Call_go_for rpm n])),
      dev_go_to = (\<lambda>rpm n. st_modify (\<lambda>cs. cs @ [Call_go_to rpm n])),
      dev_stop = st_modify (\<lambda>cs. cs @ [Call_stop])\<rparr>"

lemma on_machine_simps [simp]:
  "on_machine (st_return a) s = (Inr a, s)"
  "on_machine (st_modify f) s = (Inr (), s\<lparr>co_machine := f (co_machine s)\<rparr>)"
  by (simp_all add: on_machine_def st_return_def st_modify_def)

lemma recording_motor_dev:
  "dev_get_power_status (recording_motor reporting pw pos) = st_return pw"
  "dev_set_power (recording_motor reporting pw pos) = (\<lambda>p. st_modify (\<lambda>cs. cs @ [Call_set_power p]))"
  "dev_get_position (recording_motor reporting pw pos) = st_return pos"
  "dev_get_properties (recording_motor reporting pw pos) = st_return reporting"
  "dev_go_for (recording_motor reporting pw pos) = (\<lambda>rpm n. st_modify (\<lambda>cs. cs @ [Call_go_for rpm n]))"
  "dev_stop (recording_motor reporting pw pos) = st_modify (\<lambda>cs. cs @ [Call_stop])"
  by (simp_all add: recording_motor_def)

lemma go_back_recorded:
  "go_back (recording_motor reporting pw pos) = st_modify (\<lambda>cs. cs @
     [if reporting then Call_go_to (dbl_of_int 10) (dbl_of_int 0) else Call_go_for (dbl_of_int 10) (dbl_flip dbl_half)])"
  by (simp add: go_back_def recording_motor_def fun_eq_iff st_bind_def st_defs)

lemma print_position_recorded:
  "print_motor_position pr (recording_motor reporting pw pos) =
     say ll_info (if reporting then ''Motor pos: '' @ pr_double pr pos else ''Motor position unavailable'')"
  by (simp add: fun_eq_iff print_motor_position_def recording_motor_dev)

lemma print_power_recorded:
  "print_motor_power pr (recording_motor reporting pw pos) =
     say ll_info (''Motor power: '' @ pr_double pr (pw_power_pct pw))"
  by (simp add: fun_eq_iff print_motor_power_def recording_motor_dev)

lemma drive_recorded:
  "\<exists>s'. motor_drive pr (recording_motor reporting pw pos) s = (Inr 0, s')
     \<and> co_machine s' = co_machine s @
         [Call_set_power dbl_half, Call_go_for (dbl_of_int 10) dbl_half,
          if reporting then Call_go_to (dbl_of_int 10) (dbl_of_int 0) else Call_go_for (dbl_of_int 10) (dbl_flip dbl_half),
          Call_go_for (dbl_of_int 30) (dbl_of_int 0), Call_stop]"
  unfolding motor_drive_def print_position_recorded print_power_recorded go_back_recorded recording_motor_dev
  by (simp add: say_loop st_return_def[of 0])

subsection \<open>Lemmas: the camera\<close>

lemma camera_saves:
  assumes "camera_body pr opens closes client robot s = (Inr 0, s')"
  shows "\<exists>c props images img rest. resource_by_name_as K_Camera robot ''camera1'' = Inr (Some c)
    \<and> cam_get_properties (client c) = Inr props \<and> cam_get_images (client c) [] [] = Inr images
    \<and> ic_images images = img # rest \<and> map_of (co_files s') ''img.png'' = Some (ri_bytes img)"
  using assms
  by (auto simp: camera_body_def save_image_def st_lift_def st_throw_def st_return_def
      elim!: st_bind_InrE split: option.splits list.splits if_splits)

lemma camera_no_images:
  assumes "resource_by_name_as K_Camera robot ''camera1'' = Inr (Some c)"
    and "cam_get_properties (client c) = Inr props" "cam_get_images (client c) [] [] = Inr images" "ic_images images = []"
  shows "fst (camera_body pr opens closes client robot s) = Inl (Undefined ''index out of range'')"
  using assms by (simp add: camera_body_def st_throw_def)

subsection \<open>Lemmas: from a module to a client\<close>

lemma simple_client_reads:
  assumes h: "hosts sv cl (my_sensor cfg)" "\<not> st_is_ok lost"
    and found: "resource_by_name_as K_Sensor robot ''mysensor'' = Inr (Some c)"
      "client c = sensor_client cl (sensor_service sv lost)"
  shows "\<exists>s'. simple_client_body pr client robot s = (Inr 0, s')
     \<and> co_log s' = co_log s @ (ll_info, ''Resources'') # map (\<lambda>n. (ll_info, name_to_string n)) (rb_names robot)
           @ [(ll_info, ''signal: '' @ pr_double pr (sensor_multiplier cfg))]"
proof (rule simple_client_ok[OF found(1)])
  show "sn_do_command (client c) hello_world = Inr hello_world"
    unfolding found(2) by (rule sensor_echoes_remotely[OF h]) (simp add: hello_world_def ps_wf_def)
  show "sn_get_readings (client c) [] = Inr [(''signal'', PDouble (sensor_multiplier cfg))]"
    unfolding found(2) by (rule sensor_read_remotely[OF h]) (simp add: sendable_def)
qed

text \<open>
  The whole way: the audio module starts, is asked whether it is ready, has a configuration checked, adds
  the sine wave; the client connects, looks it up and leaves a file with two seconds of the sine.
\<close>

lemma audio_module_recorded:
  fixes g :: "(audio_in, 'sd) module_registry"
  assumes "awf (rg_servers g)" "2 \<le> length argv" "lookup_server g (kind_api K_AudioIn) \<noteq> None"
    and "lookup_model g (kind_api K_AudioIn) (mk_model ''viam'' ''audio_in'' ''sinewave'') = None"
    and cfg: "config_from_proto proto = Inr cfg" "cf_api cfg = kind_api K_AudioIn"
      "cf_model cfg = mk_model ''viam'' ''audio_in'' ''sinewave''" "validate_sine cfg = Inr deps"
    and env: "answering env" "\<not> deadline_exceeded (clock env) deadline"
    and sine: "\<not> dbl_is_nan (sine_frequency cfg)" "bounded_sine sine"
    and conn: "connect local_uri (mk_options 1 (Some insecure_options)) = Some (Inr robot)"
      "resource_by_name_as K_AudioIn robot ''sinewave-audio'' = Inr (Some ci)"
    and net: "\<not> st_is_ok lost" "\<And>n. \<not> cancelled n" "rc_name cl = cf_name cfg"
  shows "\<exists>s0 s1 s2 sv s' bs. audioin_program sine now_of ind full_name True g lm argv = Inr s0
     \<and> handle_Ready env raw addr s0 = (Inr (ready_reply s0), s1)
     \<and> handle_ValidateConfig proto s1 = (Inr (status_ok, deps), s1)
     \<and> handle_AddResource env deadline proto [] s1 = (Inr status_ok, s2)
     \<and> hosted_by s2 (kind_api K_AudioIn) = Some sv
     \<and> audio_client_main connect stop_at pr True
         (\<lambda>_. audio_in_client cl (audio_in_service sv lost request_id cancelled finish)) s = Some (Inr 0, s')
     \<and> map_of (co_files s') ''sine_wave_audio.wav'' = Some bs
     \<and> read_wav bs = Some \<lparr>wav_format = 1, wav_channels = 1, wav_sample_rate = 44100, wav_byte_rate = 88200,
         wav_block_align = 2, wav_bits = 16,
         wav_data = pcm16_samples_to_bytes (map (\<lambda>i. the (sine_sample sine (sine_frequency cfg) i)) [0..88199])\<rparr>"
proof -
  obtain s0 s1 s2 sv where ses: "audioin_program sine now_of ind full_name True g lm argv = Inr s0"
    "handle_Ready env raw addr s0 = (Inr (ready_reply s0), s1)"
    "handle_ValidateConfig proto s1 = (Inr (status_ok, deps), s1)"
    "handle_AddResource env deadline proto [] s1 = (Inr status_ok, s2)"
    "hosted_by s2 (kind_api K_AudioIn) = Some sv" "hosts sv cl (sinewave sine now_of cfg)"
    using audioin_module_session[OF assms(1-4) cfg env, of sine now_of ind full_name lm raw addr] net(3) by blast
  let ?client = "\<lambda>_ :: RobotClient.rpc_client. audio_in_client cl (audio_in_service sv lost request_id cancelled finish)"
  obtain s' bs where rec: "audio_client_body pr True ?client robot s = (Inr 0, s')"
    "map_of (co_files s') ''sine_wave_audio.wav'' = Some bs"
    "read_wav bs = Some \<lparr>wav_format = 1, wav_channels = 1, wav_sample_rate = 44100, wav_byte_rate = 88200,
         wav_block_align = 2, wav_bits = 16,
         wav_data = pcm16_samples_to_bytes (map (\<lambda>i. the (sine_sample sine (sine_frequency cfg) i)) [0..88199])\<rparr>"
    using sine_recorded[where client = ?client and cancelled = cancelled, OF ses(6) net(1,2) cfg(4) sine conn(2) refl] by blast
  obtain s'' where "audio_client_main connect stop_at pr True ?client s = Some (Inr 0, s'')" "co_files s'' = co_files s'"
    using example_main_returned[where connect = connect and uri = local_uri and options = "Some insecure_options"
        and body = "audio_client_body pr True ?client", OF conn(1) rec(1)]
    unfolding audio_client_main_def by blast
  with ses(1-5) rec(2,3) show ?thesis by metis
qed

end
