(* ===== verification/DemoPrograms.thy ===== *)
theory DemoPrograms
  imports DemoRemote ExampleClients
begin

text \<open>
  Concrete values for the witnesses about the example programs: a registry with the server of audio
  inputs, the configuration of a sine wave as viam-server sends it, a machine that answers, a client
  whose cache has the sine wave; and a base whose motors remember their powers.
\<close>

definition demo_audio_registry :: "(audio_in, unit) module_registry" where
  "demo_audio_registry =
     \<lparr>rg_models = [], rg_clients = [],
      rg_servers = [(kind_api K_AudioIn, \<lparr>sr_class = Server_of K_AudioIn, service_descriptor = None\<rparr>)]\<rparr>"

definition demo_sine_config :: pb_component_config where
  "demo_sine_config =
     \<lparr>pc_name = ''sinewave-audio'', pc_namespace = ''rdk'', pc_type = ''audio_in'', pc_api = ''rdk:component:audio_in'',
      pc_model = ''viam:audio_in:sinewave'', pc_attributes = None, pc_depends_on = [], pc_service_configs = [],
      pc_frame = None, pc_log_level = Some ''debug''\<rparr>"

definition demo_sine_parsed :: resource_config where
  "demo_sine_parsed =
     \<lparr>cf_api = kind_api K_AudioIn, cf_frame = Some link_default, cf_model = mk_model ''viam'' ''audio_in'' ''sinewave'',
      cf_name = ''sinewave-audio'', cf_namespace = ''rdk'', cf_type = ''audio_in'', cf_depends_on = [],
      cf_service_config = [], cf_attributes = [], cf_log_level = ll_debug\<rparr>"

lemma demo_sine_reads: "config_from_proto demo_sine_config = Inr demo_sine_parsed"
  by code_simp

lemma demo_sine_validates: "validate_sine demo_sine_parsed = Inr []"
  by (simp add: validate_sine_def demo_sine_parsed_def)

lemma demo_sine_frequency: "\<not> dbl_is_nan (sine_frequency demo_sine_parsed)"
  by (simp add: sine_frequency_def demo_sine_parsed_def dbl_440_def dbl_is_nan_def dbl_exp_def)

definition demo_machine_env :: "'x module_env" where
  "demo_machine_env =
     \<lparr>env_vars = (\<lambda>v. None), dial_parent = (\<lambda>a. Inr ()), parent_resource = (\<lambda>a n. Inr None), clock = 0,
      deps_order = rev\<rparr>"

lemma demo_machine_answers: "answering demo_machine_env"
  by (simp add: answering_def demo_machine_env_def)

definition demo_audio_robot :: robot_client where
  "demo_audio_robot =
     (mk_robot_client (mk_channel ''host''))\<lparr>rb_manager :=
        \<lparr>rm_resources = [(''sinewave-audio'', Some \<lparr>rk = K_AudioIn, rn = ''sinewave-audio'', r_target = ''host''\<rparr>)],
         rm_short_names = []\<rparr>\<rparr>"

definition demo_audio_client :: Remote.rpc_client where
  "demo_audio_client = \<lparr>rc_name = ''sinewave-audio'', rc_version = ''cpp'', rc_token = None\<rparr>"

definition demo_printing :: printing where
  "demo_printing = \<lparr>pr_double = (\<lambda>d. ''d''), pr_int = (\<lambda>i. ''i''), pr_bool = (\<lambda>b. ''b'')\<rparr>"

definition demo_console :: "'w \<Rightarrow> 'w console" where
  "demo_console w = \<lparr>co_machine = w, co_log = [], co_files = []\<rparr>"

lemma demo_audio_found:
  "resource_by_name_as K_AudioIn demo_audio_robot ''sinewave-audio'' =
     Inr (Some \<lparr>rk = K_AudioIn, rn = ''sinewave-audio'', r_target = ''host''\<rparr>)"
  by (simp add: lookup_cached demo_audio_robot_def manager_resource_def)

text \<open>Motors that remember the powers they were given; stopping forgets them.\<close>

definition demo_wheel :: "double list base_motor" where
  "demo_wheel =
     \<lparr>bm_is_moving = (\<lambda>w. (Inr (w \<noteq> []), w)), bm_stop = (\<lambda>extra. st_modify (\<lambda>w. [])),
      bm_set_power = (\<lambda>p extra. st_modify (\<lambda>w. w @ [p])), bm_get_geometries = (\<lambda>extra. st_return [])\<rparr>"

definition demo_base :: "double list my_base" where
  "demo_base = \<lparr>mb_left = Some demo_wheel, mb_right = Some demo_wheel, mb_frame_system = None\<rparr>"

end
