(* ===== verification/Spec2Isabelle.thy ===== *)
theory Spec2Isabelle
  imports Prelude ProtoStorage ModuleBehaviour RobotClient RobotStatus DepthMap Audio Arm Demo
    FurtherBehaviour FurtherResults ModelTable Sensors Media Motion MLModel Services DataQuery
    ProcessSetup ExampleModules ExampleClassification DemoMachine ExampleClients DemoPrograms
begin

text \<open>
  The Viam C++ SDK (\<^verbatim>\<open>src/src/viam/sdk\<close>): a client for robots served by viam-server and a framework
  for modules, processes that viam-server starts and drives over gRPC. This library models the
  SDK's own logic, function by function, and proves what makes it correct.

  \<^bold>\<open>The program.\<close> A module (\<^verbatim>\<open>module/service.cpp\<close>) runs a gRPC server (\<^verbatim>\<open>rpc/server.cpp\<close>) with one
  resource manager (\<^verbatim>\<open>resource/resource_manager.cpp\<close>) per API of the registry
  (\<^verbatim>\<open>registry/registry.cpp\<close>). viam-server sends it configurations (\<^verbatim>\<open>config/resource.cpp\<close>) of
  resources to construct, replace and remove; dependencies come from the parent robot through a
  robot client (\<^verbatim>\<open>robot/client.cpp\<close>), which keeps a table of resource clients fresh and watches its
  connection (\<^verbatim>\<open>rpc/dial.cpp\<close>). Every call of a component goes through the client helper on one side
  and the service helper on the other (\<^verbatim>\<open>common/client_helper.hpp\<close>,
  \<^verbatim>\<open>common/private/service_helper.hpp\<close>), and every value through a conversion to and from a
  protobuf message.

  \<^bold>\<open>Theories, in the order of their imports.\<close>
  \<^item> Prelude: results \<open>exn + 'a\<close> with their plumbing, splitting of strings, association lists (the
    unordered maps, with \<^verbatim>\<open>emplace\<close>, assignment and \<^verbatim>\<open>erase\<close>).
  \<^item> Bytes, Doubles: byte codecs (locale \<open>fixed_width_codec\<close>), \<^verbatim>\<open>double\<close> as bit patterns. DoubleOps: the
    four operations on doubles, each the exact value rounded to the nearest double, ties to even.
  \<^item> Errors: \<^verbatim>\<open>common/exception.cpp\<close>, gRPC statuses, what a handler catches; the contracts of
    conversion pairs (locales \<open>proto_codec\<close> and \<open>total_codec\<close>).
  \<^item> Effects: statements over a state that may throw, and the rules for preservation (\<open>keeps\<close>).
  \<^item> Regexp, Names: the patterns, parsers and printers of \<^verbatim>\<open>resource/resource_api.cpp\<close>.
  \<^item> ProtoValues, ProtoStorage: \<^verbatim>\<open>common/proto_value.cpp\<close>, first as a datatype with its equality and
    conversions, then its hand-written vtable over raw buffers, where a lifetime error is \<open>None\<close>.
  \<^item> Utils: \<^verbatim>\<open>common/utils.cpp\<close>. Stores, Registry, ResourceManager: stores that accept a key once
    (locale \<open>put_once\<close>, interpreted on the three maps of the registry and on the resource map), the
    registry, the table of resources with its shortcuts.
  \<^item> Spatial: \<^verbatim>\<open>linear_algebra\<close>, \<^verbatim>\<open>pose\<close>, \<^verbatim>\<open>mesh\<close>, \<^verbatim>\<open>orientation\<close>, \<^verbatim>\<open>geometry\<close>, \<^verbatim>\<open>world_state\<close>,
    \<^verbatim>\<open>frame\<close>. Logging: \<^verbatim>\<open>log/logging.cpp\<close>. Config: \<^verbatim>\<open>config/resource.cpp\<close>.
  \<^item> Server: \<^verbatim>\<open>rpc/server.cpp\<close>, \<^verbatim>\<open>module/handler_map.cpp\<close>, \<^verbatim>\<open>module/module.cpp\<close>. ModuleService: the
    handlers of \<^verbatim>\<open>module/service.cpp\<close>, the step relation \<open>module_step\<close> and its invariant;
    ModuleBehaviour: what each handler does on each branch.
  \<^item> Helpers: the client and service helpers and the context observer. Dial, RobotStatus,
    RobotClient: connections, the machine status, the robot client and its watcher thread.
  \<^item> DepthMap (\<^verbatim>\<open>components/camera.cpp\<close>), Audio (\<^verbatim>\<open>common/audio.cpp\<close>), Arm (\<^verbatim>\<open>components/arm.cpp\<close> with
    the trajectory validator and both sides of the streamed move).
  \<^item> Kinematics (\<^verbatim>\<open>common/kinematics.cpp\<close>), ModelTable (\<^verbatim>\<open>referenceframe\<close>): kinematic models and
    their messages; the joints of a URDF file, their order along the chain, the table and its tensor.
  \<^item> Remote, Streaming: one call of a resource from the client's class through both helpers to the
    implementation and back (locale \<open>rpc_method\<close>, interpreted on the conversions of the methods), and
    the methods that answer with a stream. A class of the SDK is a record of its methods; its client
    (\<^verbatim>\<open>private/*_client.cpp\<close>) makes one from a stub, its service (\<^verbatim>\<open>private/*_server.cpp\<close>) makes a stub
    from an implementation; the lemmas \<open>remote_...\<close> say what the composition of the two is.
  \<^item> Actuators, Sensors, BoardComponent, ArmComponent, Media (cameras, audio), MLModel, Motion, Services
    (discovery, frame system): the records, clients and services of all components and services.
  \<^item> DataQuery: the BSON writer and the queries of historical data (\<^verbatim>\<open>module/data_consumer.cpp\<close>,
    \<^verbatim>\<open>app\<close>), with a reader of BSON that says what the bytes mean.
  \<^item> MachineCalls: the calls of the robot client to the robot service, compared with those of the frame
    system's client. LogForwarding: log records, the sink of \<^verbatim>\<open>log/private/log_backend.cpp\<close> and the call
    that logs again when it fails. Tracing, TraceExport: \<^verbatim>\<open>tracing\<close>, with the spans of the service
    helper and of the module service, the trace context of calls, the provider and its exporter.
    ProcessSetup: \<^verbatim>\<open>common/instance.cpp\<close>, the signal managers, \<^verbatim>\<open>common/version_metadata.cpp\<close>.
  \<^item> ExampleGizmo, ExampleModules, ExampleTFLite: the modules under \<^verbatim>\<open>examples/modules\<close>, clients of the
    library: custom APIs with every kind of stream, a base over two motors, a sensor, a sine wave in
    chunks, an ML model service over an interpreter with its state machine (\<open>tf_step\<close>).
    ExampleClassification: the client of that service, \<^verbatim>\<open>examples/mlmodel\<close>. ExampleMains: the programs
    of the modules, from the command line to the module that serves; ExampleClients: the programs that
    connect and use resources, up to the files they leave (C37 runs one of each against the other).
  \<^item> FurtherBehaviour, FurtherResults: theorems about the core beside the properties. Demo, DemoRemote,
    DemoMachine, DemoPrograms: concrete values for the witnesses. This theory: the properties, each with a witness.

  \<^bold>\<open>How code becomes definitions.\<close> A class is a record, an enumeration or variant a datatype, an
  unordered map an association list with distinct keys. Its iteration order is an argument where what is
  proved could depend on it (the dependencies of a resource, the resources of a refresh, the query of the
  data client, the inputs of an inference), so that the theorem holds for every order; elsewhere it is
  that of the list. A \<^verbatim>\<open>shared_ptr\<close> is an option. A function that throws
  returns \<open>exn + 'a\<close>; \<open>Undefined\<close> marks undefined behaviour (a null dereference, an overflow), which
  no handler catches. A handler of the module service is a function from the state to a result and
  a state, and keeps what it wrote before it threw. Widths are kept where they matter: words in the
  encoders, \<open>in_sint\<close> for the counts of \<^verbatim>\<open>std::chrono\<close> and the attempt counter of the first dial.

  \<^bold>\<open>Bounds and fuel.\<close> The loop of the first dial may not end: \<open>dial_loop\<close> has fuel, \<open>None\<close> is its
  exhaustion; with a positive number \<open>n\<close> of attempts fuel \<open>n\<close> is enough, with none it never is
  until a dial succeeds (C21, and \<open>first_connection_retries\<close> in FurtherBehaviour). The watcher's round is bounded by the code's own three probes
  and three dials. The walk along a chain of joints ends because
  every step visits a new link (C39). The reader of BSON has the number of bytes as fuel, which every
  element lowers (\<open>bson_readable\<close>). A log statement may log again; the report is forced to the console,
  which the machine's sink rejects, so \<open>emit\<close> ends (C26). Every other loop is structural or counts up.

  \<^bold>\<open>Parameters.\<close> gRPC, protobuf, Boost, xtensor, OpenTelemetry, TensorFlow Lite and the Rust dialling library are
  arguments: what a stub answers, whether a write or \<^verbatim>\<open>BuildAndStart\<close> succeeds, which dials succeed, when a call is cancelled.
  The implementations of resources are arguments too (constructors, \<^verbatim>\<open>stop\<close>, and for the streamed
  move a tree of the calls a driver makes).

  A driver that streams is a tree of the calls it makes, too: the items it emits and the chunks it
  pulls. An exception of a server arrives as the status the service helper makes of it
  (\<open>seen_remotely\<close>); \<open>lost\<close> is the status of a call whose server died.

  OpenTelemetry is the record \<open>otel_api\<close>, and \<open>otel_ok\<close> what its documentation promises of scopes,
  contexts and the W3C propagator; TensorFlow Lite is the record \<open>tflite\<close>, and \<open>tflite_copies\<close> what its
  documentation promises of copying into an input tensor. DemoMachine has an instance of each. \<^verbatim>\<open>std::sin\<close> is
  an argument too, and \<open>bounded_sine\<close> says that its values at finite arguments have magnitude at most 1.
  \<open>printing\<close> is how Boost.Log prints the numbers a client logs.

  \<^bold>\<open>Not modelled.\<close> The batching of spans by OpenTelemetry and the formatting of Boost.Log; operating
  system calls beyond their results; printing to streams; constructors and API constants of the
  individual classes beyond the registry's table; accessors; rounding modes other than the default and
  the payloads of NaNs; the threads of the robot client inside an example program, its sleeps and its
  error stream; true concurrency:
  the handlers of the module service are modelled one at a time, although only \<^verbatim>\<open>AddResource\<close> and
  \<^verbatim>\<open>Ready\<close> hold its lock, and what \<^verbatim>\<open>ReconfigureResource\<close>, \<^verbatim>\<open>RemoveResource\<close> and
  \<^verbatim>\<open>ValidateConfig\<close> do in the middle of another handler is not covered; the two threads of the streamed client are modelled by what
  each of them produces, and the interpreter's mutex makes inferences on one state sequential;
  generated protobuf code.
\<close>

section \<open>The module service\<close>

text \<open>
  C1. Whatever viam-server and the module's main function do with a freshly built module service,
  in any order: the APIs that have a manager are exactly those of the registry, and in every manager
  each shortcut leads to a live resource that bears the name. The server is never shut down, and it is
  in one of three phases. It is being built, with the services of the registry and neither the module
  service nor a port; or it runs what was built, with the module service and its one port, and the
  module said that it is ready; or its start failed, and it has neither a builder nor a server.
\<close>

theorem module_service_invariant:
  assumes "mk_module_service b g lm addr pr = Inr s0" "module_step\<^sup>*\<^sup>* s0 s"
  shows "server_inv (ms_server s)
     \<and> (\<forall>a. lookup_resource_server (ms_server s) a \<noteq> None \<longleftrightarrow> lookup_server g a \<noteq> None)
     \<and> ms_registry s = g \<and> service_phase s"
proof -
  have i: "ms_inv s" by (rule module_steps_inv[OF assms(2) mk_module_service_inv[OF assms(1)]])
  have g: "ms_registry s = g"
    using module_steps_registry[OF assms(2)] assms(1) by (auto simp: mk_module_service_def result_simps)
  have "lookup_server g a \<noteq> None \<longleftrightarrow> a \<in> set (akeys (rg_servers g))" for a
    using in_akeys_map_of[of a "rg_servers g"] by (auto simp: lookup_server_def)
  moreover have "lookup_resource_server (ms_server s) a \<noteq> None \<longleftrightarrow> a \<in> set (akeys (rg_servers g))" for a
    using i g managed_apis_lookup[of a "ms_server s"] by (simp add: ms_inv_def api_managers_def)
  ultimately show ?thesis using i g by (simp add: ms_inv_def)
qed

theorem module_service_invariant_witness:
  "\<exists>s0 s :: demo_service.
     mk_module_service False (demo_registry (Inr None)) new_log_manager ''sock'' ''unix:'' = Inr s0
     \<and> grpc_server (ms_server s0) = None \<and> grpc_server (ms_server s) \<noteq> None
     \<and> server_inv (ms_server s) \<and> lookup_resource_server (ms_server s) arm_api \<noteq> None"
proof -
  obtain s0 :: demo_service where s0:
    "mk_module_service False (demo_registry (Inr None)) new_log_manager ''sock'' ''unix:'' = Inr s0"
    by (simp add: mk_module_service_def mk_server_def demo_registry_def create_resource_server_def
        register_service_def)
  then have st: "grpc_server (ms_server s0) = None"
    by (auto simp: mk_module_service_def mk_server_def demo_registry_def create_resource_server_def
        register_service_def)
  obtain s where s: "serve True s0 = (Inr (), s)" "wait_blocks (ms_server s)"
    using serve_ok[OF _ s0] by (auto simp: demo_registry_def)
  then have "module_step\<^sup>*\<^sup>* s0 s" by (auto intro: step_serve)
  from module_service_invariant[OF s0 this] s0 st s(2) show ?thesis
    by (auto simp: wait_blocks_def lookup_server_def demo_registry_def)
qed

text \<open>
  C2. When a module reports that it added a resource, the resource's model was registered, its
  constructor returned the resource from the dependencies that were resolved, the deadline had not
  passed and no resource had its name; the resource is now in the table of its API, next to all the
  others.
\<close>

theorem add_resource_ok:
  assumes "handle_AddResource env deadline proto dependencies s = (Inr status_ok, s')"
  shows "\<exists>cfg deps s1 reg r m m'. config_from_proto proto = Inr cfg
     \<and> get_dependencies env dependencies (cf_name cfg) s = (Inr deps, s1)
     \<and> lookup_model (ms_registry s) (cf_api cfg) (cf_model cfg) = Some reg
     \<and> construct_resource reg deps cfg = Inr (Some r)
     \<and> \<not> deadline_exceeded (clock env) deadline
     \<and> lookup_resource_server (ms_server s) (ro_api r) = Some m \<and> resource_map m (ro_name r) = None
     \<and> lookup_resource_server (ms_server s') (ro_api r) = Some m'
     \<and> resource_map m' = (resource_map m)(ro_name r \<mapsto> Some r)"
  by (rule add_resource_InrD[OF assms]) blast

lemma demo_add:
  "fst (handle_AddResource (demo_env (Inr ()) None) 10 (demo_config ''acme:demo:a'') []
     (demo_service (Inr (Some (demo_arm 1))) empty_manager)) = Inr status_ok"
  by code_simp

theorem add_resource_ok_witness:
  "\<exists>s'. handle_AddResource (demo_env (Inr ()) None) 10 (demo_config ''acme:demo:a'') []
       (demo_service (Inr (Some (demo_arm 1))) empty_manager) = (Inr status_ok, s')
     \<and> (\<exists>r m'. lookup_resource_server (ms_server s') (ro_api r) = Some m'
             \<and> resource_map m' (ro_name r) = Some (Some (r :: nat resource)))"
proof -
  obtain s' where s': "handle_AddResource (demo_env (Inr ()) None) 10 (demo_config ''acme:demo:a'') []
       (demo_service (Inr (Some (demo_arm 1))) empty_manager) = (Inr status_ok, s')"
    using demo_add by (metis prod.collapse)
  from add_resource_ok[OF s'] obtain r m' where
    "lookup_resource_server (ms_server s') (ro_api r) = Some m'"
    "resource_map m' (ro_name r) = Some (Some (r :: nat resource))" by auto
  with s' show ?thesis by blast
qed

text \<open>
  C3. Reconfiguring, when the configuration parses, its dependencies resolve, its API is served, its
  name leads to a resource whose \<^verbatim>\<open>stop()\<close>, if it has one, returns, its model is registered, and the
  constructor throws nothing but standard exceptions: the handler answers OK, even when the
  constructor throws. The entry under the short name of the configuration, if there is one, then holds
  the new resource, or is gone when the constructor threw or the name is empty; without such an
  entry (the resource was found by the last part of its name) the table stays as it was. The other
  entries are untouched, and the log level of the new configuration is not applied.
\<close>

theorem reconfigure_outcome:
  assumes "config_from_proto proto = Inr cfg"
    and "get_dependencies env ds (cf_name cfg) s = (Inr deps, s1)"
    and "lookup_resource_server (ms_server s) (cf_api cfg) = Some m" "resource_name cfg = Inr nm"
    and "manager_resource m (nm_name nm) = Some r" "stop_if_stoppable r = Inr ()"
    and "lookup_model (ms_registry s) (cf_api cfg) (cf_model cfg) = Some reg"
    and "\<And>e. construct_with_channel (ms_log s1) reg deps cfg = Inl e \<Longrightarrow> is_std_exception e"
  shows "\<exists>s' m'. handle_ReconfigureResource env proto ds s = (Inr status_ok, s')
     \<and> lookup_resource_server (ms_server s') (cf_api cfg) = Some m'
     \<and> resource_map m' =
          (if resource_map m (short_name nm) = None then resource_map m
           else (resource_map m)(short_name nm :=
             (case construct_with_channel (ms_log s1) reg deps cfg of
                Inr rc \<Rightarrow> (if nm_name nm = [] then None else Some (Some (fst rc))) | Inl e \<Rightarrow> None)))
     \<and> ms_log s' = ms_log s1"
  using assms by (intro reconfigure_effect) (auto simp: reconfigurable_def)

theorem reconfigure_outcome_witness:
  "\<exists>s' m'. handle_ReconfigureResource (demo_env (Inr ()) None) (demo_config ''acme:demo:a'') []
       (demo_service (Inl (StdException ''no'')) (demo_manager ''a'')) = (Inr status_ok, s')
     \<and> lookup_resource_server (ms_server s') arm_api = Some m' \<and> resource_map m' ''a'' = None"
proof -
  let ?s = "demo_service (Inl (StdException ''no'')) (demo_manager ''a'')"
  have 1: "config_from_proto (demo_config ''acme:demo:a'') = Inr demo_parsed" by code_simp
  have 2: "get_dependencies (demo_env (Inr ()) None) [] (cf_name demo_parsed) ?s = (Inr [], ?s)"
    by (simp add: demo_service_def get_dependencies_def st_bind_def st_return_def demo_env_def)
  have 3: "lookup_resource_server (ms_server ?s) (cf_api demo_parsed) = Some (demo_manager ''a'')"
    by (simp add: demo_service_def lookup_resource_server_def demo_parsed_def)
  have 4: "resource_name demo_parsed = Inr (mk_name arm_api [] ''a'')" by code_simp
  have 5: "manager_resource (demo_manager ''a'') (nm_name (mk_name arm_api [] ''a'')) = Some (demo_arm 0)"
    by (simp add: demo_manager_def mk_name_def manager_resource_def)
  have 6: "stop_if_stoppable (demo_arm 0) = Inr ()" by (simp add: stop_if_stoppable_def demo_arm_def)
  have 7: "lookup_model (ms_registry ?s) (cf_api demo_parsed) (cf_model demo_parsed)
      = Some (demo_registration (Inl (StdException ''no'')))"
    by (simp add: demo_service_def demo_parsed_def lookup_model_def lookup_model_key_def demo_registry_def
        registration_key_def arm_api_def api_to_string_def mk_model_def model_to_string_def family_to_string_def)
  have c: "construct_with_channel l (demo_registration (Inl (StdException ''no''))) [] demo_parsed
      = Inl (StdException ''no'')" for l
    by (simp add: construct_with_channel_def demo_registration_def mk_model_registration_def)
  have "short_name (mk_name arm_api [] ''a'') = ''a''" "cf_api demo_parsed = arm_api"
    by (simp_all add: short_name_def mk_name_def demo_parsed_def)
  with reconfigure_outcome[OF 1 2 3 4 5 6 7] c show ?thesis
    by (auto split: if_splits)
qed

text \<open>
  C4. When the module reports that it removed a resource, the resource had been found and stopped
  without an exception, and the table has no entry under the name that was removed; every other
  entry is untouched.
\<close>

theorem remove_resource_ok:
  assumes "handle_RemoveResource req s = (Inr status_ok, s')"
  shows "\<exists>n m m' r. name_from_string req = Inr n
     \<and> lookup_resource_server (ms_server s) (nm_api n) = Some m
     \<and> manager_resource m (nm_name n) = Some r \<and> stop_if_stoppable r = Inr ()
     \<and> lookup_resource_server (ms_server s') (nm_api n) = Some m'
     \<and> resource_map m' = (resource_map m)(short_name n := None)"
proof -
  obtain n m r where "name_from_string req = Inr n"
    "lookup_resource_server (ms_server s) (nm_api n) = Some m"
    "manager_resource m (nm_name n) = Some r" "stop_if_stoppable r = Inr ()"
    "lookup_resource_server (ms_server s') (nm_api n) = Some (snd (manager_remove m n))"
    by (rule remove_resource_InrD[OF assms])
  then show ?thesis by (auto simp: manager_remove_map)
qed

theorem remove_resource_ok_witness:
  "\<exists>s'. handle_RemoveResource ''rdk:component:arm/a''
       (demo_service (Inr None) (demo_manager ''a'')) = (Inr status_ok, s')
     \<and> (\<exists>n m'. lookup_resource_server (ms_server s') (nm_api n) = Some m'
              \<and> resource_map m' (short_name n) = None)"
proof -
  have "fst (handle_RemoveResource ''rdk:component:arm/a''
      (demo_service (Inr None) (demo_manager ''a''))) = Inr status_ok" by code_simp
  then obtain s' where s': "handle_RemoveResource ''rdk:component:arm/a''
      (demo_service (Inr None) (demo_manager ''a'')) = (Inr status_ok, s')"
    by (metis prod.collapse)
  from remove_resource_ok[OF s'] obtain n m' where
    "lookup_resource_server (ms_server s') (nm_api n) = Some m'" "resource_map m' (short_name n) = None"
    by auto
  with s' show ?thesis by blast
qed

text \<open>
  C5. The dependencies handed to a constructor, in whatever order the unordered map is iterated: every
  name in the request parses and has an entry, no two entries have equal names, and no entry is a null
  pointer, except that with a parent the map also has an entry for the frame system, and that one
  may be null.
\<close>

theorem dependencies_resolved:
  assumes "get_dependencies env proto nm s = (Inr ds, s')"
    and "\<And>m. mset (deps_order env m) = mset m"
  shows "(\<forall>d\<in>set proto. \<exists>n. name_from_string d = Inr n \<and> dep_present ds n) \<and> deps_wf ds
     \<and> (if ms_parent_addr s = [] then \<forall>e\<in>set ds. snd e \<noteq> None
        else dep_present ds frame_system_name
          \<and> (\<forall>e\<in>set ds. snd e = None \<longrightarrow> fst e = frame_system_name))"
  using get_dependencies_InrD[OF assms] by simp

theorem dependencies_resolved_witness:
  "\<exists>ds s'. get_dependencies (demo_env (Inr ()) (Some (demo_arm 5))) [''rdk:component:arm/b''] ''a''
       ((demo_service (Inr None) empty_manager)\<lparr>ms_parent_addr := ''unix:parent''\<rparr>) = (Inr ds, s')
     \<and> dep_present ds (mk_name arm_api [] ''b'') \<and> dep_present ds frame_system_name \<and> deps_wf ds"
proof -
  let ?s = "(demo_service (Inr None) empty_manager)\<lparr>ms_parent_addr := ''unix:parent''\<rparr>"
  have "fst (get_dependencies (demo_env (Inr ()) (Some (demo_arm 5))) [''rdk:component:arm/b''] ''a'' ?s) =
      Inr [(mk_name arm_api [] ''b'', Some (demo_arm 5)), (frame_system_name, Some (demo_arm 5))]"
    by code_simp
  then obtain ds s' where r: "get_dependencies (demo_env (Inr ()) (Some (demo_arm 5)))
      [''rdk:component:arm/b''] ''a'' ?s = (Inr ds, s')"
    by (metis prod.collapse)
  have "name_from_string ''rdk:component:arm/b'' = Inr (mk_name arm_api [] ''b'')" by code_simp
  with dependencies_resolved[OF r] r show ?thesis by (auto simp: demo_env_def)
qed

text \<open>
  C6. A module that is built and served runs: its gRPC server has one service per registered API,
  the module service and the listening port, every API has an empty manager, and the module says
  it is ready.
\<close>

theorem served_module_runs:
  fixes s :: "('x, 'sd) module_service"
  assumes "awf (rg_servers g)" "mk_module_service b g lm addr pr = Inr s"
  shows "\<exists>s'. serve True s = (Inr (), s') \<and> wait_blocks (ms_server s') \<and> md_ready (ms_module s')
     \<and> grpc_server (ms_server s') =
          Some \<lparr>sb_services = map (sr_class \<circ> snd) (rg_servers g), sb_module_service = True,
                sb_ports = [pr @ addr]\<rparr>
     \<and> managed_servers (ms_server s') = map (\<lambda>e. (fst e, empty_manager)) (rg_servers g)"
  using assms by (rule serve_ok)

theorem served_module_runs_witness:
  "\<exists>s s' :: demo_service.
     mk_module_service False (demo_registry (Inr None)) new_log_manager ''sock'' ''unix:'' = Inr s
     \<and> serve True s = (Inr (), s')
     \<and> grpc_server (ms_server s') =
         Some \<lparr>sb_services = [Server_of K_Arm], sb_module_service = True, sb_ports = [''unix:sock'']\<rparr>"
proof -
  obtain s :: demo_service where s:
    "mk_module_service False (demo_registry (Inr None)) new_log_manager ''sock'' ''unix:'' = Inr s"
    by (simp add: mk_module_service_def mk_server_def demo_registry_def create_resource_server_def
        register_service_def)
  with served_module_runs[OF _ s] show ?thesis by (auto simp: demo_registry_def)
qed

section \<open>Resources and the registry\<close>

text \<open>
  C7. After any sequence of additions, removals and replacements a resource manager has unique
  keys, and a lookup that finds a resource finds one whose full name, or the last part of it, is
  the name asked for.
\<close>

theorem manager_lookup_sound:
  assumes "m = foldl manager_step empty_manager ops" "manager_resource m n = Some r"
  shows "manager_inv m
     \<and> (\<exists>k. map_of (rm_resources m) k = Some (Some r) \<and> (k = n \<or> get_shortcut_name k = n))"
  using manager_reachable_inv[of ops] manager_resource_sound[of m n r] assms by simp

theorem manager_lookup_sound_witness:
  "\<exists>m k. manager_resource m ''a'' = Some (7 :: nat) \<and> manager_inv m
     \<and> map_of (rm_resources m) k = Some (Some 7) \<and> get_shortcut_name k = ''a''"
proof -
  let ?ops = "[Op_add (mk_name arm_api ''r'' ''a'') (Some (7 :: nat)), Op_add_string ''b'' None]"
  let ?m = "foldl manager_step empty_manager ?ops"
  have l: "manager_resource ?m ''a'' = Some 7" by code_simp
  have k: "map_of (rm_resources ?m) ''a'' = None" by code_simp
  from manager_lookup_sound[OF refl l] k l show ?thesis by (metis option.distinct(1))
qed

text \<open>Histories whose removals are of qualified names.\<close>

definition qualified_history :: "'r manager_op \<Rightarrow> bool" where
  "qualified_history op' \<longleftrightarrow>
     (case op' of
        Op_add n r \<Rightarrow> True
      | Op_add_string s r \<Rightarrow> True
      | Op_remove n \<Rightarrow> get_shortcut_name (short_name n) \<noteq> short_name n
      | _ \<Rightarrow> False)"

lemma qualified_step_complete:
  "shortcuts_complete m \<Longrightarrow> qualified_history op' \<Longrightarrow> shortcuts_complete (manager_step m op')"
  by (cases op')
    (auto simp: qualified_history_def manager_add_def manager_add_string_def manager_remove_def
      catch_logged_def split: sum.splits dest: do_add_InrD do_add_string_complete do_remove_complete)

text \<open>
  C8. As long as resources are added under any names and removed under qualified ones, the last
  part of every stored name keeps finding a resource that bears it.
\<close>

theorem last_parts_stay_reachable:
  assumes "list_all qualified_history ops" "m = foldl manager_step empty_manager ops"
    and "map_of (rm_resources m) k = Some p"
  shows "\<exists>k' p'. get_shortcut_name k' = get_shortcut_name k \<and> map_of (rm_resources m) k' = Some p'
                 \<and> manager_resource m (get_shortcut_name k) = p'"
proof -
  have "shortcuts_complete (foldl manager_step empty_manager ops)"
    using assms(1)
  proof (induction ops rule: rev_induct)
    case Nil
    show ?case by (simp add: shortcuts_complete_def empty_manager_def)
  next
    case (snoc x xs)
    then show ?case by (simp add: qualified_step_complete)
  qed
  with assms(2,3) manager_reachable_inv[of ops] show ?thesis by (intro complete_lookup) auto
qed

theorem last_parts_stay_reachable_witness:
  "\<exists>k' p'. get_shortcut_name k' = ''a''
     \<and> map_of (rm_resources (foldl manager_step empty_manager
          [Op_add_string ''r:a'' (Some (1 :: nat)), Op_add_string ''s:a'' (Some 2),
           Op_remove (mk_name arm_api ''r'' ''a'')])) k' = Some p'
     \<and> manager_resource (foldl manager_step empty_manager
          [Op_add_string ''r:a'' (Some 1), Op_add_string ''s:a'' (Some 2),
           Op_remove (mk_name arm_api ''r'' ''a'')]) ''a'' = p'"
proof -
  let ?ops = "[Op_add_string ''r:a'' (Some (1 :: nat)), Op_add_string ''s:a'' (Some 2),
     Op_remove (mk_name arm_api ''r'' ''a'')]"
  have q: "list_all qualified_history ?ops"
    by (simp add: qualified_history_def mk_name_def short_name_def get_shortcut_name_def)
  have k: "map_of (rm_resources (foldl manager_step empty_manager ?ops)) ''s:a'' = Some (Some 2)"
    by code_simp
  have "get_shortcut_name ''s:a'' = ''a''" by code_simp
  with last_parts_stay_reachable[OF q refl k] show ?thesis by simp
qed

text \<open>
  C9. Parsing the text of a name gives the name back, for every name whose API is made of word
  characters and whose remote and short parts hold no separator.
\<close>

theorem name_text_roundtrip:
  assumes "name_valid n"
  shows "name_from_string (name_to_string n) = Inr n"
  using assms by (rule name_roundtrip)

theorem name_text_roundtrip_witness:
  "name_from_string ''rdk:component:arm/far:a'' = Inr (mk_name arm_api ''far'' ''a'')"
proof -
  have "name_valid (mk_name arm_api ''far'' ''a'')" by code_simp
  from name_text_roundtrip[OF this] show ?thesis
    by (simp add: mk_name_def name_to_string_def arm_api_def api_to_string_def)
qed

section \<open>Values and messages\<close>

text \<open>
  C10. A struct of dynamic values survives the trip through the protobuf message, at any nesting.
\<close>

theorem struct_roundtrip:
  assumes "ps_wf m"
  shows "struct_from_proto (struct_to_proto m) = m"
  using assms by (rule struct_from_to)

theorem struct_roundtrip_witness:
  "struct_from_proto (struct_to_proto
     [(''a'', PList [PNull, PBool True]), (''b'', PStruct [(''c'', PString ''x'')])]) =
   [(''a'', PList [PNull, PBool True]), (''b'', PStruct [(''c'', PString ''x'')])]"
  by (rule struct_roundtrip) code_simp

text \<open>
  C11. Assignment of a dynamic value by copy, through the hand-written vtable and the raw buffers,
  commits no lifetime error: the target holds the source's contents under the source's vtable, the
  temporary and the scratch buffer of the swap are raw again, and all else is untouched.
\<close>

theorem copy_assignment_sound:
  assumes "pv_alive s a" "pv_alive s b" "buf s t = Raw" "buf s tmp = Raw" "t \<noteq> tmp"
  shows "\<exists>s'. pv_copy_assign a b t tmp s = Some s' \<and> pv_alive s' a \<and> pv_alive s' b
     \<and> buf s' = (buf s)(a := buf s b)"
  using assms pv_copy_assign_eq[OF assms] by (auto simp: pv_alive_def)

theorem copy_assignment_sound_witness:
  "\<exists>s'. pv_copy_assign 0 1 2 3
      \<lparr>vtab = (\<lambda>i. if i = 0 then K_bool else K_string),
       buf = (\<lambda>i. if i = 0 then Live (PBool True) else if i = 1 then Live (PString ''x'') else Raw)\<rparr> =
      Some s' \<and> buf s' 0 = Live (PString ''x'') \<and> buf s' 2 = Raw"
  using copy_assignment_sound[of
      "\<lparr>vtab = (\<lambda>i. if i = 0 then K_bool else K_string),
        buf = (\<lambda>i. if i = 0 then Live (PBool True) else if i = 1 then Live (PString ''x'') else Raw)\<rparr>"
      0 1 2 3]
  by (auto simp: pv_alive_def)

text \<open>
  C12. Equality of dynamic values is reflexive exactly on the values without a NaN, and on maps it
  does not depend on the order of the entries.
\<close>

theorem value_equality:
  assumes "pv_wf v"
  shows "(pv_eq v v \<longleftrightarrow> pv_nan_free v)
     \<and> (v = PStruct m \<and> pv_nan_free v \<and> awf n \<and> set n = set m \<longrightarrow> pv_eq v (PStruct n))"
  using assms pv_eq_refl_iff[OF assms] pv_eq_reorder[of m n] by blast

theorem value_equality_witness:
  "pv_eq (PStruct [(''a'', PNull), (''b'', PBool True)]) (PStruct [(''b'', PBool True), (''a'', PNull)])"
  using value_equality[of "PStruct [(''a'', PNull), (''b'', PBool True)]"
      "[(''a'', PNull), (''b'', PBool True)]" "[(''b'', PBool True), (''a'', PNull)]"]
  by (simp add: akeys_def insert_commute)

text \<open>
  C13. A configuration that parses is consistent: its API and its namespace and type agree, and
  neither the namespace nor the resource type is empty; reconciling it again changes nothing.
\<close>

theorem parsed_config_consistent:
  assumes "config_from_proto p = Inr c"
  shows "config_consistent c \<and> fix_api c = Inr c"
  using config_from_proto_consistent[OF assms] fix_api_id by blast

theorem parsed_config_consistent_witness:
  "config_from_proto (demo_config ''acme:demo:a'') = Inr demo_parsed \<and> config_consistent demo_parsed"
proof -
  have c: "config_from_proto (demo_config ''acme:demo:a'') = Inr demo_parsed" by code_simp
  from parsed_config_consistent[OF c] c show ?thesis by blast
qed



section \<open>Cameras, audio and arms\<close>

text \<open>
  C15. Encoding a two-dimensional depth map of 16-bit values gives 24 bytes of header and two bytes
  per value, and decoding them gives the map back.
\<close>

theorem depth_map_codec:
  assumes "depth_map_ok m"
  shows "\<exists>bs. encode_depth_map m = Inr bs \<and> length bs = 24 + 2 * length (dm_values m)
              \<and> decode_depth_map bs = Inr m"
  using assms by (rule depth_map_roundtrip)

theorem depth_map_codec_witness:
  "\<exists>bs. encode_depth_map \<lparr>dm_shape = [2, 1], dm_values = [7, 300]\<rparr> = Inr bs \<and> length bs = 28
        \<and> decode_depth_map bs = Inr \<lparr>dm_shape = [2, 1], dm_values = [7, 300]\<rparr>"
  using depth_map_codec[of "\<lparr>dm_shape = [2, 1], dm_values = [7, 300]\<rparr>"]
  by (simp add: depth_map_ok_def k_header_size_def)

text \<open>
  C16. For every supported codec and less than 4 GiB of data the file written is a RIFF/WAVE file: a
  reader of the format finds the parameters and all the data. The format tag is 1 (integer PCM)
  also for the floating-point codec.
\<close>

theorem wav_file_readable:
  assumes "get_bits_per_sample codec = Inr bits" "36 + length audio_data < 2 ^ 32"
  shows "\<exists>bs. write_wav_file True f audio_data codec rate channels = (None, Some bs) \<and>
    read_wav bs = Some \<lparr>wav_format = 1, wav_channels = unat channels, wav_sample_rate = unat rate,
      wav_byte_rate = unat (rate * ucast channels * ucast (bits div 8) :: 32 word),
      wav_block_align = unat (channels * (bits div 8)), wav_bits = unat bits, wav_data = audio_data\<rparr>"
  using assms by (rule write_wav_ok)

theorem wav_file_readable_witness:
  "\<exists>bs w. write_wav_file True ''x'' [1, 2, 3, 4] ''pcm32_float'' 8000 1 = (None, Some bs)
     \<and> read_wav bs = Some w \<and> wav_format w = 1 \<and> wav_data w = [1, 2, 3, 4]"
  using wav_file_readable[of "''pcm32_float''" 32 "[1, 2, 3, 4]" "''x''" 8000 1]
  by (auto simp: get_bits_per_sample_def)

text \<open>
  C17. Whatever messages a client sends and whenever the call is cancelled, an arm whose driver
  lets the exceptions of its batch source through sees a valid trajectory: it starts at time zero
  and at rest, times strictly increase across batches, and every point is well formed.
\<close>

theorem arm_sees_valid_trajectory:
  assumes "\<And>r a x. cast r = Some a \<Longrightarrow> propagates (a x)"
  shows "valid_trajectory (concat (snd (move_streamed current ctx cancelled write_ok m cast inbound)))"
  using assms by (rule streamed_delivers_valid)

definition demo_point :: "int \<Rightarrow> pb_trajectory_point" where
  "demo_point t = \<lparr>pp_time = micros_to_proto t, pp_positions = [0], pp_constraints = None\<rparr>"

definition arm_cast :: "nat resource \<Rightarrow> (proto_struct \<Rightarrow> arm_run) option" where
  "arm_cast r = Some (\<lambda>x. drain 5)"

theorem arm_sees_valid_trajectory_witness:
  "\<exists>st seen. move_streamed None () (\<lambda>n. False) (\<lambda>n. True) (demo_manager ''a'') arm_cast
       [\<lparr>sm_name = ''a'', sm_case = M_init None\<rparr>,
        \<lparr>sm_name = [], sm_case = M_batch [demo_point 0, demo_point 5]\<rparr>,
        \<lparr>sm_name = [], sm_case = M_batch [demo_point 5]\<rparr>] = (Inr st, seen)
     \<and> st_code st = INVALID_ARGUMENT \<and> map tp_time (concat seen) = [0, 5]
     \<and> valid_trajectory (concat seen)"
proof -
  let ?ms = "[\<lparr>sm_name = ''a'', sm_case = M_init None\<rparr>,
        \<lparr>sm_name = [], sm_case = M_batch [demo_point 0, demo_point 5]\<rparr>,
        \<lparr>sm_name = [], sm_case = M_batch [demo_point 5]\<rparr>]"
  have r: "move_streamed None () (\<lambda>n. False) (\<lambda>n. True) (demo_manager ''a'') arm_cast ?ms =
      (Inr (streamed_error ''trajectory point times must strictly increase''),
       [[\<lparr>tp_time = 0, tp_positions = [0], tp_constraints = None\<rparr>,
         \<lparr>tp_time = 5, tp_positions = [0], tp_constraints = None\<rparr>]])"
    by code_simp
  have "valid_trajectory (concat (snd (move_streamed None () (\<lambda>n. False) (\<lambda>n. True)
       (demo_manager ''a'') arm_cast ?ms)))"
  proof (rule arm_sees_valid_trajectory)
    show "propagates (a x)" if "arm_cast r = Some a" for r a x
      using that drain_propagates[of 5] by (auto simp: arm_cast_def)
  qed
  with r show ?thesis by (simp add: streamed_error_def)
qed

text \<open>
  C18. End to end: a valid trajectory handed to the client in non-empty batches reaches the driver
  on the other side batch by batch and unchanged, and the call completes, provided the connection
  holds and nobody stops the stream.
\<close>

theorem streamed_move_delivers:
  assumes "valid_trajectory (concat bs)" "times_fit (concat bs)" "\<forall>b\<in>set bs. b \<noteq> []"
    and "\<And>j. write_ok j" "\<And>j. \<not> cancelled j" "\<And>j. handler j = Inr True"
    and "manager_resource m nm = Some r" "cast r = Some (\<lambda>x. drain k)" "length bs < k"
  shows "\<exists>sent. client_streamed nm write_ok bs None handler responses
             (\<lambda>sent. served_status (move_streamed None ctx cancelled replies_ok m cast sent)) extra
           = (Inr k_completed, sent)
         \<and> move_streamed None ctx cancelled replies_ok m cast sent = (Inr status_ok, bs)"
  using assms by (rule streamed_end_to_end)

theorem streamed_move_delivers_witness:
  "\<exists>sent. move_streamed None () (\<lambda>n. False) (\<lambda>n. True) (demo_manager ''a'') arm_cast sent =
     (Inr status_ok, [[\<lparr>tp_time = 0, tp_positions = [0], tp_constraints = None\<rparr>],
                      [\<lparr>tp_time = 9, tp_positions = [0], tp_constraints = None\<rparr>]])"
proof -
  let ?bs = "[[\<lparr>tp_time = 0, tp_positions = [0], tp_constraints = None\<rparr>],
              [\<lparr>tp_time = 9, tp_positions = [0], tp_constraints = None\<rparr>]]"
  have v: "valid_trajectory (concat ?bs)"
    by (simp add: valid_trajectory_def point_wf_def at_rest_def)
  have f: "times_fit (concat ?bs)" by (simp add: times_fit_def in_sint_def)
  have m: "manager_resource (demo_manager ''a'') ''a'' = Some (demo_arm 0)"
    by (simp add: manager_resource_def demo_manager_def)
  show ?thesis
    using streamed_move_delivers[OF v f _ _ _ _ m, where write_ok = "\<lambda>j. True"
        and cancelled = "\<lambda>j. False" and handler = "\<lambda>j. Inr True" and cast = arm_cast and k = 5
        and responses = 0 and ctx = "()" and replies_ok = "\<lambda>n. True" and extra = "[]"]
    by (auto simp: arm_cast_def)
qed

section \<open>Calls, connections and the robot client\<close>

text \<open>
  C19. A service method always answers with a status, unless the implementation runs into undefined
  behaviour: a missing context, request or resource and every kind of exception become one, and the
  implementation of the resource that was asked for is what runs.
\<close>

theorem service_call_answers:
  assumes "\<And>x e. callable x = Inl e \<Longrightarrow> \<not> is_undefined e"
  shows "\<exists>st. service_helper cur given nm m cast label req callable = Inr st
     \<and> (\<forall>q r x. cur = None \<and> given \<noteq> None \<and> req = Some q
          \<and> manager_resource m (nm q) = Some r \<and> cast r = Some x \<longrightarrow>
          st = (case callable x of
                  Inr s \<Rightarrow> s
                | Inl e \<Rightarrow> if is_std_exception e then failStdException label e
                           else failUnknownException label))"
proof -
  obtain st where st: "service_helper cur given nm m cast label req callable = Inr st"
    using service_helper_total[of callable cur given nm m cast label req] assms by blast
  moreover have "st = (case callable x of
                  Inr s \<Rightarrow> s
                | Inl e \<Rightarrow> if is_std_exception e then failStdException label e
                           else failUnknownException label)"
    if h: "cur = None" "given \<noteq> None" "req = Some q" "manager_resource m (nm q) = Some r"
      "cast r = Some x" for q r x
  proof -
    obtain ctx where "given = Some ctx" using h(2) by auto
    with st service_helper_found[of m nm q r cast x ctx label callable] h assms[of x]
    show ?thesis by (auto split: sum.splits if_splits)
  qed
  ultimately show ?thesis by blast
qed

theorem service_call_answers_witness:
  "\<exists>st. service_helper None (Some ()) (\<lambda>q. q) (demo_manager ''a'') Some ''Arm::Stop'' (Some ''a'')
       (\<lambda>r. Inl (StdException ''jam'')) = Inr st
     \<and> st = failStdException ''Arm::Stop'' (StdException ''jam'')"
proof -
  have "manager_resource (demo_manager ''a'') ''a'' = Some (demo_arm 0)"
    by (simp add: manager_resource_def demo_manager_def)
  then show ?thesis
    using service_call_answers[of "\<lambda>r. Inl (StdException ''jam'')" None "Some ()" "\<lambda>q. q"
        "demo_manager ''a''" Some "''Arm::Stop''" "Some ''a''"]
    by auto
qed

text \<open>
  C20. A client call with a debug entry in its extra arguments sends the key in the metadata, and
  the result of the call is the handler's on success and the status as an exception otherwise.
\<close>

theorem client_call_outcome:
  assumes "debug_map_key \<notin> set (akeys extra)" "key \<noteq> []"
    and "call_with_extra set_extra (with_debug_entry extra key) Inr c = Inr c'"
    and "stub (call_context version token c') (set_name (cc_request c')) = (st, response)"
  shows "(''dtname'', key) \<in> set (call_context version token c')
     \<and> invoke version token set_name stub c' rhc default_ehc =
         (if st_is_ok st then rhc response else Inl (grpc_exception st))"
  using debug_key_sent[OF assms(1,2,3), of version token]
    invoke_ok[of stub version token c' set_name rhc default_ehc]
    invoke_error[of stub version token c' set_name rhc] assms(4)
  by auto

theorem client_call_outcome_witness:
  "invoke ''v'' None (\<lambda>q. q) (\<lambda>md q. (status_ok, md)) \<lparr>cc_debug_key = ''abc'', cc_request = [''x'']\<rparr>
     Inr default_ehc = Inr [(''viam_client'', ''v''), (''dtname'', ''abc'')]"
proof -
  have c: "call_with_extra (\<lambda>e q. q) (with_debug_entry [] ''abc'') Inr
      \<lparr>cc_debug_key = [], cc_request = [''x'']\<rparr> = Inr \<lparr>cc_debug_key = ''abc'', cc_request = [''x'']\<rparr>"
    by code_simp
  have m: "call_context ''v'' None \<lparr>cc_debug_key = ''abc'', cc_request = [''x'']\<rparr> =
      [(''viam_client'', ''v''), (''dtname'', ''abc'')]" by code_simp
  have "debug_map_key \<notin> set (akeys ([] :: proto_struct))" "''abc'' \<noteq> []" by simp_all
  from client_call_outcome[OF this c, of "\<lambda>md q. (status_ok, md)" "''v''" None "\<lambda>q. q" status_ok
      "[(''viam_client'', ''v''), (''dtname'', ''abc'')]" Inr] m
  show ?thesis by simp
qed

text \<open>
  C21. With a positive number of attempts the first connection always settles, in at most that many
  dials; when every dial fails with an exception of the standard hierarchy, what is thrown is a bare
  \<^verbatim>\<open>std::exception\<close>: the kind and the message of the failure are sliced off.
\<close>

theorem first_connection_settles:
  assumes "0 < initial_connection_attempts opts" "in_sint 32 (initial_connection_attempts opts)"
  shows "(\<exists>r. dial_initial (nat (initial_connection_attempts opts)) worlds uri (Some opts) = Some r)
     \<and> ((\<forall>k. \<exists>e. dial (worlds k) uri
            (Some (opts\<lparr>timeout := initial_connection_attempt_timeout opts\<rparr>)) = Inl e
            \<and> is_std_exception e) \<longrightarrow>
         dial_initial (nat (initial_connection_attempts opts)) worlds uri (Some opts) =
           Some (Inl (StdException ''std::exception'')))"
proof -
  let ?n = "initial_connection_attempts opts"
  let ?a = "\<lambda>k. dial (worlds k) uri (Some (opts\<lparr>timeout := initial_connection_attempt_timeout opts\<rparr>))"
  have d: "dial_initial (nat ?n) worlds uri (Some opts) = dial_loop (nat ?n) ?a 0 ?n"
    using assms(1) by (simp add: dial_initial_def)
  have n: "nat ?n = Suc (nat (?n - 1))" "?n = int (nat (?n - 1)) + 1" using assms(1) by simp_all
  have "dial_loop (nat ?n) ?a 0 ?n = Some (Inl (StdException ''std::exception''))"
    if "\<forall>k. \<exists>e. ?a k = Inl e \<and> is_std_exception e"
    unfolding n(1) by (rule dial_loop_exhausted[OF _ n(2) assms(2)]) (use that in simp)
  with dial_loop_terminates[OF assms, of ?a 0] show ?thesis unfolding d by blast
qed

theorem first_connection_settles_witness:
  "dial_initial 3 (\<lambda>k. \<lparr>viam_dial = (\<lambda>a b c d e f. None), authenticate = (\<lambda>a b c. (status_ok, [])),
       direct_supported = False\<rparr>) ''host'' (Some default_channel_options) =
   Some (Inl (StdException ''std::exception''))"
  using first_connection_settles[of default_channel_options
      "\<lambda>k. \<lparr>viam_dial = (\<lambda>a b c d e f. None), authenticate = (\<lambda>a b c. (status_ok, [])),
       direct_supported = False\<rparr>" "''host''"]
  by (simp add: default_channel_options_def in_sint_def dial_def)

text \<open>
  C22. A refresh that brings new names gives every hosted resource with a registered client its own
  client on the current connection, and nothing else, in whatever order the hash map is walked,
  when the names of the hosted resources are non-empty and pairwise different.
\<close>

theorem refresh_installs_clients:
  assumes "rb_impl s" "ch_impl (rb_channel s) = Some i"
    and "\<not> list_all2 name_eq (map name_from_proto ns) (rb_names s)"
    and "distinct (map rn_name (filter (hosted lookup) ns))"
    and "\<forall>n\<in>set ns. hosted lookup n \<longrightarrow> rn_name n \<noteq> []"
    and "\<forall>a. lookup a \<noteq> None \<longrightarrow> api_valid a"
    and "\<And>m. mset (order m) = mset m"
  shows "\<exists>s'. refresh lookup order (Inr ns) s = (Inr (), s') \<and> rb_names s' = map name_from_proto ns
     \<and> resource_map (rb_manager s') =
         map_of (map (\<lambda>n. (rn_name n, snd (client_entry lookup (ci_target i) n))) (filter (hosted lookup) ns))"
  using assms by (rule refresh_installs)

theorem refresh_installs_clients_witness:
  "\<exists>s'. refresh demo_lookup (\<lambda>m. m)
       (Inr [\<lparr>rn_namespace = ''rdk'', rn_type = ''component'', rn_subtype = ''arm'',
              rn_name = ''a''\<rparr>])
       (mk_robot_client demo_channel) = (Inr (), s')
     \<and> resource_map (rb_manager s') ''a'' = Some (Some \<lparr>rk = K_Arm, rn = ''a'', r_target = ''host''\<rparr>)"
proof -
  let ?n = "\<lparr>rn_namespace = ''rdk'', rn_type = ''component'', rn_subtype = ''arm'',
             rn_name = ''a''\<rparr>"
  have h: "hosted demo_lookup ?n" by (simp add: hosted_def demo_lookup_def pb_api_def arm_api_def)
  have v: "\<forall>a. demo_lookup a \<noteq> None \<longrightarrow> api_valid a"
    by (auto simp: demo_lookup_def arm_api_def api_valid_def word_ok_def word_char_def)
  obtain s' where s': "refresh demo_lookup (\<lambda>m. m) (Inr [?n]) (mk_robot_client demo_channel) = (Inr (), s')"
    "resource_map (rb_manager s') = map_of (map (\<lambda>n. (rn_name n, snd (client_entry demo_lookup ''host'' n)))
       (filter (hosted demo_lookup) [?n]))"
    using refresh_installs_clients[of "mk_robot_client demo_channel"
        "\<lparr>ci_target = ''host'', ci_path = None, ci_auth_token = None\<rparr>" "[?n]" demo_lookup "\<lambda>m. m"] h v
    by (auto simp: mk_robot_client_def demo_channel_def)
  then show ?thesis
    using h by (auto simp: client_entry_def demo_lookup_def pb_api_def arm_api_def)
qed

text \<open>
  C23. The robot's own client answers queries about frames and poses as the client of its frame
  system does, over the same stub and token: transforming a pose or a point cloud, the
  configuration, and, without a debug key in the extra arguments, the pose of a component.
\<close>

theorem frame_queries_agree:
  assumes "connected_with s token" "fs = frame_system_of version token stub"
    and "map_of extra debug_map_key = None"
  shows "get_frame_system_config version stub transforms s = (fs_get_frame_system_config fs transforms, s)
    \<and> transform_pose version stub pose dst transforms s = (fs_transform_pose fs pose dst transforms, s)
    \<and> transform_pcd version stub pcd src dst s = (fs_transform_pcd fs pcd src dst, s)
    \<and> get_pose version stub c dst transforms extra s = (fs_get_pose fs c dst transforms extra, s)"
  using assms by (simp add: frame_config_agrees transform_pose_agrees transform_pcd_agrees get_pose_agrees)

theorem frame_queries_agree_witness:
  "get_pose ''cpp'' demo_robot_stub ''arm'' ''world'' [] [] (mk_robot_client demo_channel) =
     (Inr demo_pose, mk_robot_client demo_channel)
   \<and> fs_get_pose (frame_system_of ''cpp'' None demo_robot_stub) ''arm'' ''world'' [] [] = Inr demo_pose"
proof -
  have "get_pose ''cpp'' demo_robot_stub ''arm'' ''world'' [] [] (mk_robot_client demo_channel) =
     (Inr demo_pose, mk_robot_client demo_channel)"
    by (simp add: get_pose_def robot_invoke_connected[OF demo_connected] demo_robot_stub_def
        pose_in_frame_codec.from_to_total st_is_ok_def status_ok_def pose_response_def submsg_def)
  then show ?thesis
    using frame_queries_agree[OF demo_connected refl, where version = "''cpp''" and stub = demo_robot_stub
        and extra = "[]" and c = "''arm''" and dst = "''world''" and transforms = "[]"]
    by simp
qed

section \<open>Traces and logs\<close>

text \<open>
  C24. A service method under its span does what it does without one: it answers the same status,
  and the span it opens, a child of the caller's, records the outcome once, ends last, and leaves
  the thread's context as it was.
\<close>

theorem traced_service_call:
  assumes "otel_ok api" "tidy (callable x)"
    and "manager_resource m (name_of q) = Some r" "cast r = Some x"
    and "callable x (handler_state api md label st) = (out, st')" "\<And>e. out = Inl e \<Longrightarrow> \<not> is_undefined e"
  shows "\<exists>inner. traced_service_helper api None (Some md) name_of m cast label (Some q) callable st =
    (service_helper None (Some md) name_of m cast label (Some q) (\<lambda>x. fst (callable x (handler_state api md label st))),
     \<lparr>tg_rt = tg_rt st,
      tg_spans = tg_spans st @
        (server_span api md label st)
          \<lparr>sp_calls := [SetAttribute ''rpc.system'' (AV_string ''grpc'')] @ outcome_calls out @ [SpanEnd]\<rparr> # inner\<rparr>)
    \<and> active_span api (handler_state api md label st) = sp_context (server_span api md label st)"
proof -
  have "fst (traced_service_helper api None (Some md) name_of m cast label (Some q) callable st) =
    service_helper None (Some md) name_of m cast label (Some q) (\<lambda>x. fst (callable x (handler_state api md label st)))"
    by (simp add: traced_helper_erases)
  then have "\<exists>inner. traced_service_helper api None (Some md) name_of m cast label (Some q) callable st =
    (service_helper None (Some md) name_of m cast label (Some q) (\<lambda>x. fst (callable x (handler_state api md label st))),
     \<lparr>tg_rt = tg_rt st,
      tg_spans = tg_spans st @
        (server_span api md label st)
          \<lparr>sp_calls := [SetAttribute ''rpc.system'' (AV_string ''grpc'')] @ outcome_calls out @ [SpanEnd]\<rparr> # inner\<rparr>)"
    using traced_helper_span[where callable = callable and m = m and name_of = name_of and cast = cast, OF assms(1-5)] assms(6)
    by (metis prod.collapse)
  with handler_active[OF assms(1)] show ?thesis by metis
qed

theorem traced_service_call_witness:
  "\<exists>inner. tg_spans (snd (traced_service_helper demo_otel None (Some []) (\<lambda>q. q) (demo_manager ''a'') Some ''Arm::Stop''
       (Some ''a'') (\<lambda>r. st_throw (StdException ''jam'')) no_trace)) =
     \<lparr>sp_name = ''Arm::Stop'', sp_kind = SK_server, sp_parent = Some 0, sp_context = 1,
      sp_calls = [SetAttribute ''rpc.system'' (AV_string ''grpc'')]
        @ record_exception_calls (StdException ''jam'') @ [SpanEnd]\<rparr> # inner"
proof -
  have "manager_resource (demo_manager ''a'') ''a'' = Some (demo_arm 0)"
    by (simp add: manager_resource_def demo_manager_def)
  then show ?thesis
    using traced_service_call[where callable = "\<lambda>r. st_throw (StdException ''jam'')" and x = "demo_arm 0"
        and m = "demo_manager ''a''" and name_of = "\<lambda>q. q" and q = "''a''" and cast = Some and md = "[]"
        and label = "''Arm::Stop''" and st = no_trace, OF demo_otel_ok tidy_throw _ _ st_throw_def]
    by (auto simp: st_throw_def outcome_calls_def server_span_def no_trace_def demo_otel_def server_carrier_get_def)
qed

text \<open>
  C25. A trace follows the calls made with a channel's context, \<^verbatim>\<open>ClientContext(channel)\<close>: what a
  handler calls that way while its span is active arrives at the next server with that span as the
  parent of the handler there, whatever version, token or debug key the call carries, and whatever was
  active there before. A call made with a default context (an analog reading or an interrupt's value of
  a board, an inference or the metadata of a model, a log record) or with a bare gRPC context (playing a
  stream) carries no trace: when the propagator leaves the context alone without a \<^verbatim>\<open>traceparent\<close>, the
  parent there is whatever was active there, and nothing of the caller's.
\<close>

theorem trace_across_machines:
  assumes "otel_ok api" "oa_is_valid api (sp_context (server_span api md label st))"
  shows "map_option (oa_ids api)
      (sp_parent (server_span api (traced_call_context api (handler_state api md label st) version token c) label' st')) =
    Some (oa_ids api (sp_context (server_span api md label st)))
    \<and> (extract_keeps api \<longrightarrow>
        sp_parent (server_span api (client_context version None) label' st') = Some (active_span api st')
        \<and> sp_parent (server_span api [] label' st') = Some (active_span api st'))"
proof (intro conjI impI)
  show "map_option (oa_ids api)
      (sp_parent (server_span api (traced_call_context api (handler_state api md label st) version token c) label' st')) =
    Some (oa_ids api (sp_context (server_span api md label st)))"
    using trace_follows_call[OF assms(1), of "handler_state api md label st"] assms(2)
    by (simp add: handler_active[OF assms(1)])
qed (rule default_context_untraced, assumption, blast)+

theorem trace_across_machines_witness:
  "sp_parent (server_span demo_otel (traced_call_context demo_otel (handler_state demo_otel [] ''Base::Stop'' no_trace)
      ''cpp'' (Some ''secret'') \<lparr>cc_debug_key = ''key'', cc_request = ()\<rparr>) ''Motor::Stop'' no_trace) = Some 1
   \<and> sp_parent (server_span demo_otel (client_context ''cpp'' None) ''Motor::Stop'' no_trace) = Some 0"
  using trace_across_machines[OF demo_otel_ok, of "[]" "''Base::Stop''" no_trace "''cpp''" "Some ''secret''"
      "\<lparr>cc_debug_key = ''key'', cc_request = ()\<rparr>" "''Motor::Stop''" no_trace] demo_otel_keeps
  by (simp add: server_span_def no_trace_def demo_otel_def active_span_def server_carrier_get_def Let_def)

text \<open>
  C26. A log statement ends. Of a module that forwards its logs, a record the filter lets through is
  sent to the machine exactly once and not shown on the console. When the call fails, with a message
  other than \<^verbatim>\<open>Stream removed\<close>, and the level of the SDK's own channel (or else the global one) is at
  most error, the failure is shown on the console with the message and the details of the status;
  otherwise nothing is. The failure itself is never sent.
\<close>

theorem log_statement_forwarded:
  assumes "connect_logging lm s0 = (lm', s)" "\<not> rb_log_sink s0" "rb_impl s0"
    and "complete_record tps rec" "at_console_force (lr_attrs rec) \<noteq> Some True" "log_filter lm (lr_attrs rec)"
  shows "emit version stub tps now src lm' s rec =
    (let response = stub (client_context version None) [entry_of tps rec];
         failure = send_error_record lm' now src response;
         errors_shown = (case map_of (resource_levels lm) (sdk_channel lm) of
                           Some l \<Rightarrow> l \<le> ll_error | None \<Rightarrow> global_level lm \<le> ll_error)
     in (Sent (entry_of tps rec) response #
         (if \<not> st_is_ok response \<and> st_message response \<noteq> ''Stream removed'' \<and> errors_shown
          then [Console failure] else []), None))
    \<and> lr_message (send_error_record lm' now src response) =
        ''Error sending log message over grpc: '' @ st_message response @ st_details response"
  using connect_logging_channel[OF assms(1)]
  by (simp add: emit_forwarded[OF assms] failure_passes send_error_message is_error_response_def
      kStreamRemoved_def Let_def)

theorem log_statement_forwarded_witness:
  "let lm = init_logging (\<lambda>v. None) new_log_manager;
       s0 = mk_robot_client demo_channel;
       out = emit ''cpp'' (\<lambda>md es. demo_lost) 1000000 9 ''client.cpp'' (fst (connect_logging lm s0))
               (snd (connect_logging lm s0)) demo_record
   in out = ([Sent (entry_of 1000000 demo_record) demo_lost,
              Console (send_error_record (fst (connect_logging lm s0)) 9 ''client.cpp'' demo_lost)], None)"
proof -
  let ?lm = "init_logging (\<lambda>v. None) new_log_manager"
  let ?s0 = "mk_robot_client demo_channel"
  have c: "connect_logging ?lm ?s0 = (fst (connect_logging ?lm ?s0), snd (connect_logging ?lm ?s0))" by simp
  have s: "\<not> rb_log_sink ?s0" "rb_impl ?s0" by (simp_all add: mk_robot_client_def)
  have r: "complete_record 1000000 demo_record" "at_console_force (lr_attrs demo_record) \<noteq> Some True"
    by (simp_all add: complete_record_def demo_record_def module_record_def source_record_def init_logging_def
        enable_console_logging_def ptime_convert_def signed_divide_int_def signed_modulo_int_def in_sint_def)
  have f: "log_filter ?lm (lr_attrs demo_record)"
    by (simp add: log_filter_def demo_record_def module_record_def source_record_def init_logging_def
        enable_console_logging_def new_log_manager_def log_levels)
  have l: "case map_of (resource_levels ?lm) (sdk_channel ?lm) of
      Some l \<Rightarrow> l \<le> ll_error | None \<Rightarrow> global_level ?lm \<le> ll_error"
    by (simp add: init_logging_def enable_console_logging_def new_log_manager_def log_levels)
  have e: "\<not> st_is_ok demo_lost" "st_message demo_lost \<noteq> ''Stream removed''"
    by (simp, simp add: demo_lost_def mk_status_def)
  show ?thesis
    using log_statement_forwarded[OF c s r f, where version = "''cpp''" and stub = "\<lambda>md es. demo_lost" and now = 9
        and src = "''client.cpp''"] l e
    by (simp add: Let_def)
qed

section \<open>Components and services over the wire\<close>

text \<open>
  C27. A motor reached through its client and its server is the motor itself, in every method: it
  returns what the implementation returns for the same arguments and extra, and where the
  implementation throws, the caller gets the exception the status of the call stands for. Two limits:
  geometries arrive with the default orientation, and a command and the answers to it and to
  \<^verbatim>\<open>get_status\<close> are maps (distinct keys at every depth), as every \<^verbatim>\<open>ProtoStruct\<close> is.
\<close>

theorem motor_over_the_wire:
  assumes "hosts sv cl m" "\<not> st_is_ok lost" "sendable extra"
    and "remote = motor_client cl (motor_service sv lost)"
  shows "mo_set_power remote a extra = seen_remotely lost ''MotorServer::SetPower'' (mo_set_power m a extra)
    \<and> mo_go_for remote a b extra = seen_remotely lost ''MotorServer::GoFor'' (mo_go_for m a b extra)
    \<and> mo_go_to remote a b extra = seen_remotely lost ''MotorServer::GoTo'' (mo_go_to m a b extra)
    \<and> mo_set_rpm remote a extra = seen_remotely lost ''MotorServer::SetRPM'' (mo_set_rpm m a extra)
    \<and> mo_reset_zero_position remote a extra =
        seen_remotely lost ''MotorServer::ResetZeroPosition'' (mo_reset_zero_position m a extra)
    \<and> mo_get_position remote extra = seen_remotely lost ''MotorServer::GetPosition'' (mo_get_position m extra)
    \<and> mo_get_properties remote extra =
        seen_remotely lost ''MotorServer::GetProperties'' (mo_get_properties m extra)
    \<and> mo_stop remote extra = seen_remotely lost ''MotorServer::Stop'' (mo_stop m extra)
    \<and> mo_get_power_status remote extra =
        seen_remotely lost ''MotorServer::IsPowered'' (mo_get_power_status m extra)
    \<and> mo_is_moving remote = seen_remotely lost ''MotorServer::IsMoving'' (mo_is_moving m)
    \<and> mo_get_geometries remote extra = seen_remotely lost ''MotorServer::GetGeometries''
        (rmap (map (\<lambda>g. g\<lparr>gc_orientation := orientation_default\<rparr>)) (mo_get_geometries m extra))
    \<and> ((\<forall>r. mo_get_status m = Inr r \<longrightarrow> ps_wf r) \<longrightarrow>
        mo_get_status remote = seen_remotely lost ''MotorServer::GetStatus'' (mo_get_status m))
    \<and> (ps_wf command \<and> (\<forall>r. mo_do_command m command = Inr r \<longrightarrow> ps_wf r) \<longrightarrow>
        mo_do_command remote command = seen_remotely lost ''MotorServer::GetGeometries'' (mo_do_command m command))"
  unfolding assms(4) by (intro conjI impI remote_motor[OF assms(1-3)]; blast)

theorem motor_over_the_wire_witness:
  "mo_go_for (motor_client demo_client (motor_service (demo_server demo_motor) demo_lost)) 0 1 [] =
     Inl (grpc_exception (failStdException ''MotorServer::GoFor'' (general_exception ''rpm is zero'')))
   \<and> mo_go_for (motor_client demo_client (motor_service (demo_server demo_motor) demo_lost)) 1 0 [] = Inr ()
   \<and> mo_do_command (motor_client demo_client (motor_service (demo_server demo_motor) demo_lost)) [] = Inr []"
  using motor_over_the_wire[OF demo_hosts demo_lost_not_ok demo_sendable refl,
      where m = demo_motor and a = 0 and b = 1]
    motor_over_the_wire[OF demo_hosts demo_lost_not_ok demo_sendable refl,
      where m = demo_motor and a = 1 and b = 0 and command = "[]"]
  by (simp add: demo_motor_def wire_exn_def ps_wf_def)

text \<open>
  C28. A kinematic model survives the wire except that orientation vectors in radians arrive in
  degrees and geometries lose the orientation their message has no place for; what has arrived once
  arrives unchanged.
\<close>

theorem kinematic_model_received:
  "kinematic_model_from_proto (kinematic_model_to_proto m) = Inr (received_model m)
   \<and> kinematic_model_from_proto (kinematic_model_to_proto (received_model m)) = Inr (received_model m)"
  by (simp add: kinematic_model_from_to received_model_idem)

text \<open>
  C29. The ticks a board emits reach the caller's handler on the other side in their order, each of
  them once, and the call ends as the implementation ends, as long as the handler wants more and
  the call is not cancelled.
\<close>

theorem ticks_in_order:
  assumes "hosts sv cl b" "\<not> st_is_ok lost" "sendable extra"
    and "\<And>n. \<not> cancelled n" "\<And>t s. fst (handler t s) = Inr True"
  shows "run_source (bd_stream_ticks (board_client cl (board_service sv lost escape cancelled finish)) names extra)
      handler s =
    (case run_source (bd_stream_ticks b names extra) handler s of
       (result, s') \<Rightarrow> (seen_remotely lost ''BoardServer::StreamTicks'' result, s'))"
  by (subst remote_stream_ticks[OF assms]) (simp add: case_prod_beta)

theorem ticks_in_order_witness:
  "run_source (bd_stream_ticks (board_client demo_client
        (board_service (demo_server demo_board) demo_lost (\<lambda>_. demo_lost) (\<lambda>_. False) (\<lambda>st. st))) [''p''] [])
     (\<lambda>t s. (Inr True, s @ [t])) [] = (Inr (), [demo_tick 1, demo_tick 2])"
  by (subst ticks_in_order[OF demo_hosts demo_lost_not_ok demo_sendable]) (simp_all add: demo_board_def)

text \<open>
  C30. Playing a stream of chunks through client and server is playing it locally: the
  implementation pulls the caller's chunks in their order, then the end; its result is the call's.
\<close>

theorem chunks_to_the_speaker:
  assumes "hosts sv cl a" "ps_wf extra" "\<And>n. \<not> cancelled n" "\<And>n. write_ok n"
    and "\<And>md ms. finish md ms = (case play_stream_handler sv cancelled ms of Inr st \<Rightarrow> st | Inl e \<Rightarrow> lost)"
    and "\<not> st_is_ok lost"
  shows "call_play_stream cl write_ok finish info cs None extra =
    (case run_sink (aout_play_stream a info extra) cs of
       Inr _ \<Rightarrow> Inr ()
     | Inl e \<Rightarrow>
         Inl (grpc_exception (if is_std_exception e then mk_status INTERNAL (c_str (exn_what e)) else lost)))"
  by (rule remote_play_stream[OF assms])

theorem chunks_to_the_speaker_witness:
  "call_play_stream demo_client (\<lambda>_. True)
     (\<lambda>md ms. case play_stream_handler (demo_server demo_speaker) (\<lambda>_. False) ms of
                Inr st \<Rightarrow> st | Inl e \<Rightarrow> demo_lost)
     \<lparr>ai_codec = ''pcm16'', ai_sample_rate_hz = 8000, ai_num_channels = 1\<rparr> [[1]] None [] = Inr ()"
  using chunks_to_the_speaker[OF demo_hosts, where extra = "[]" and cancelled = "\<lambda>_. False"
      and write_ok = "\<lambda>_. True" and lost = demo_lost and cs = "[[1]]"
      and finish = "\<lambda>md ms. case play_stream_handler (demo_server demo_speaker) (\<lambda>_. False) ms of
          Inr st \<Rightarrow> st | Inl e \<Rightarrow> demo_lost"
      and info = "\<lparr>ai_codec = ''pcm16'', ai_sample_rate_hz = 8000, ai_num_channels = 1\<rparr>"]
  by (simp add: demo_speaker_accepts)

text \<open>
  C31. When every write succeeds, the remote gizmo gives what the gizmo gives for the arguments sent,
  except that a client or bidirectional stream without arguments names no gizmo and fails, unless a
  resource has the empty name. When the gizmo throws, \<open>unexpected\<close> is the status gRPC answers with:
  \<^verbatim>\<open>do_one\<close> throws an exception with that status, and every other method, the streaming ones and the
  unary \<^verbatim>\<open>do_two\<close>, a \<^verbatim>\<open>std::runtime_error\<close> with only its message. What of the gizmo's own exception
  is in that status is up to gRPC.
\<close>

theorem gizmo_over_the_wire:
  assumes "hosts sv cl g" "\<And>e. \<not> st_is_ok (unexpected e)" "\<And>i. write_ok i" "rc_name cl \<noteq> []"
    and "remote = gizmo_client cl write_ok (gizmo_server sv unexpected)"
  shows "(if args \<noteq> [] then
        gz_do_one_client_stream remote args = seen_by_finish unexpected (gz_do_one_client_stream g args)
        \<and> gz_do_one_bidi_stream remote args = seen_by_finish unexpected (gz_do_one_bidi_stream g args)
      else manager_resource (rs_manager sv) [] = None \<longrightarrow>
        gz_do_one_client_stream remote args = Inl (StdException ''resource not found: '')
        \<and> gz_do_one_bidi_stream remote args = Inl (StdException ''resource not found: ''))
    \<and> gz_do_one_server_stream remote a = seen_by_finish unexpected (gz_do_one_server_stream g a)
    \<and> gz_do_two remote b = seen_by_finish unexpected (gz_do_two g b)
    \<and> gz_do_one remote a = (case gz_do_one g a of Inr r \<Rightarrow> Inr r | Inl e \<Rightarrow> Inl (grpc_exception (unexpected e)))"
  unfolding assms(5)
  using gizmo_remote[of sv cl g unexpected write_ok] gizmo_empty_stream(1,2)[of sv cl write_ok unexpected] assms(1-4)
  by simp

theorem gizmo_over_the_wire_witness:
  "gz_do_one_bidi_stream (gizmo_client demo_client (\<lambda>i. True) (gizmo_server (demo_server (my_gizmo ''k'')) (\<lambda>e. demo_lost)))
     [''k'', ''j''] = Inr [True, False]
   \<and> gz_do_one_bidi_stream (gizmo_client demo_client (\<lambda>i. True) (gizmo_server (demo_server (my_gizmo ''k'')) (\<lambda>e. demo_lost)))
     [] = Inl (StdException ''resource not found: '')"
proof -
  have none: "manager_resource (rs_manager (demo_server (my_gizmo ''k''))) [] = None" by code_simp
  have name: "rc_name demo_client \<noteq> []" by (simp add: demo_client_def)
  note wire = gizmo_over_the_wire[where unexpected = "\<lambda>e. demo_lost" and write_ok = "\<lambda>i. True" and g = "my_gizmo ''k''",
      OF demo_hosts demo_lost_not_ok TrueI name refl]
  show ?thesis
    using wire[where args = "[''k'', ''j'']"] wire[where args = "[]"] none
    by (simp add: seen_by_finish_def my_gizmo_bidi)
qed

section \<open>Inference\<close>

text \<open>
  C32. The server runs a model only on inputs that bear exactly the declared names, each with the
  declared data type: two models that agree on those inputs (and on their metadata) cannot be told
  apart by any request, malformed ones included.
\<close>

theorem inference_is_typed:
  assumes "ml_metadata m [] = Inr md" "ml_metadata m' [] = Inr md"
    and "\<And>views extra. typed_inputs md views \<Longrightarrow> ml_infer m views extra = ml_infer m' views extra"
  shows "infer_handler q m = infer_handler q m'"
  by (rule infer_handler_typed[OF assms])

theorem inference_is_typed_witness:
  "infer_handler \<lparr>rq_name = ''a'', rq_extra = None,
       rq_body = Some [(''any'', sent_tensor demo_tensor)]\<rparr> demo_model =
   infer_handler \<lparr>rq_name = ''a'', rq_extra = None,
       rq_body = Some [(''any'', sent_tensor demo_tensor)]\<rparr>
     (demo_model\<lparr>ml_infer := (\<lambda>views extra.
        if typed_inputs demo_metadata views then Inr views else Inl (Undefined ''ill-typed''))\<rparr>)"
  by (rule inference_is_typed[where md = demo_metadata]) (simp_all add: demo_model_def)



text \<open>
  C34. The elements of an accepted tensor are as many as the product of its dimensions modulo
  \<open>2 ^ 64\<close>, and all that was sent but for the one short of padding. The product itself may be far
  larger: the check for overflow compares with the previous factor only.
\<close>

theorem accepted_tensor_size:
  assumes "make_sdk_tensor_t is16 ts shape = Inr (d, sh)"
  shows "sh = shape \<and> d = take (length d) ts \<and> length d \<le> length ts \<and> length ts \<le> Suc (length d)
    \<and> word_of_nat (length d) = prod_list shape"
  using make_tensor_bounds[OF assms] by blast

theorem accepted_tensor_size_witness:
  "word_of_nat (length ''abcd'') = prod_list [3, 0xAAAAAAAAAAAAAAAC :: 64 word]
   \<and> 2 ^ 64 < prod_list (map unat [3, 0xAAAAAAAAAAAAAAAC :: 64 word])"
  using accepted_tensor_size[OF wrapped_shape_accepted[of "CHR ''a''" "CHR ''b''" "CHR ''c''" "CHR ''d''"]]
  by simp

text \<open>
  C35. Of a service configured with distinct tensor names, inference over inputs of exactly those
  names and of the right sizes, in any order, runs the interpreter with every input in the tensor of
  its name, renamed or not, and answers what the output tensors hold afterwards.
\<close>

theorem inputs_reach_the_interpreter:
  assumes "build_state tfl cfg = Inr s" "tflite_copies tfl"
    and "infos = md_inputs (tfs_metadata s)" "distinct (map ti_name infos)"
    and "distinct (map fst inputs)" "set (map fst inputs) = set (map ti_name infos)"
    and "\<And>k v. k < length infos \<Longrightarrow> (ti_name (infos ! k), v) \<in> set inputs \<Longrightarrow>
      \<exists>t. tfl_input tfl (tfs_interpreter s) k = Some t \<and> length (tt_data t) = length (tensor_bytes (tv_data v))"
  shows "\<exists>s1. same_tensors s1 s \<and> (\<forall>k v. k < length infos \<longrightarrow> (ti_name (infos ! k), v) \<in> set inputs \<longrightarrow>
          (\<exists>t. tfl_input tfl (tfs_interpreter s1) k = Some t \<and> tt_data t = tensor_bytes (tv_data v)))
    \<and> tf_infer tfl inputs s =
        (case tf_invoke tfl s1 of
           (Inl e, s2) \<Rightarrow> (Inl e, s2)
         | (Inr _, s2) \<Rightarrow> (collect_outputs tfl s2 (md_outputs (tfs_metadata s2)) [], s2))"
  using configured_inference[OF assms(1,2) assms(4)[unfolded assms(3)] assms(5) assms(6)[unfolded assms(3)]] assms(7)
  unfolding assms(3) by blast


theorem inputs_reach_the_interpreter_witness:
  "\<exists>s1. tf_infer demo_tflite [(''y'', \<lparr>tv_data = D_uint8 [40], tv_shape = [1]\<rparr>),
                             (''left'', \<lparr>tv_data = D_uint8 [2], tv_shape = [1]\<rparr>)] demo_tf_state =
         (Inr [(''sum'', \<lparr>tv_data = D_uint8 [42], tv_shape = [1]\<rparr>)], s1)"
proof -
  let ?in = "[(''y'', \<lparr>tv_data = D_uint8 [40], tv_shape = [1]\<rparr>), (''left'', \<lparr>tv_data = D_uint8 [2], tv_shape = [1]\<rparr>)]"
  let ?infos = "md_inputs (tfs_metadata demo_tf_state)"
  have fits: "\<exists>t. tfl_input demo_tflite (tfs_interpreter demo_tf_state) k = Some t
      \<and> length (tt_data t) = length (tensor_bytes (tv_data v))"
    if "k < length ?infos" "(ti_name (?infos ! k), v) \<in> set ?in" for k v
    using that
    by (auto simp: demo_tf_state_def less_Suc_eq demo_tflite_def demo_byte_tensor_def tensor_bytes_def elems_bytes_def)
  have d: "distinct (map ti_name ?infos)" "distinct (map fst ?in)" "set (map fst ?in) = set (map ti_name ?infos)"
    by (auto simp: demo_tf_state_def)
  note reach = inputs_reach_the_interpreter[OF demo_tflite_state demo_tflite_copies refl d fits]
  obtain s1 where *: "same_tensors s1 demo_tf_state \<and> (\<forall>k v. k < length ?infos \<longrightarrow> (ti_name (?infos ! k), v) \<in> set ?in \<longrightarrow>
      (\<exists>t. tfl_input demo_tflite (tfs_interpreter s1) k = Some t \<and> tt_data t = tensor_bytes (tv_data v)))
    \<and> tf_infer demo_tflite ?in demo_tf_state = (case tf_invoke demo_tflite s1 of
           (Inl e, s2) \<Rightarrow> (Inl e, s2)
         | (Inr _, s2) \<Rightarrow> (collect_outputs demo_tflite s2 (md_outputs (tfs_metadata s2)) [], s2))"
    using reach by (rule exE)
  note s1 = *[THEN conjunct1] and a = *[THEN conjunct2, THEN conjunct1, rule_format]
    and r = *[THEN conjunct2, THEN conjunct2]
  obtain x y z where i: "tfs_interpreter s1 = (x, y, z)" by (metis surj_pair)
  have "x = 2" using a[of 0 "\<lparr>tv_data = D_uint8 [2], tv_shape = [1]\<rparr>"] i by (simp add: demo_byte_tensor_def)
  moreover have "y = 40" using a[of 1 "\<lparr>tv_data = D_uint8 [40], tv_shape = [1]\<rparr>"] i
    by (simp add: demo_byte_tensor_def del: One_nat_def)
  ultimately have "tf_invoke demo_tflite s1 = (Inr (), s1\<lparr>tfs_interpreter := (2, 40, 42)\<rparr>)"
    using i by (simp add: tf_invoke_def demo_tflite_def report_def)
  moreover have "collect_outputs demo_tflite (s1\<lparr>tfs_interpreter := (2, 40, 42)\<rparr>) (md_outputs (tfs_metadata s1)) [] =
    Inr [(''sum'', \<lparr>tv_data = D_uint8 [42], tv_shape = [1]\<rparr>)]"
    using s1 by (simp add: same_tensors_def demo_tf_outputs)
  ultimately show ?thesis using r by simp
qed

text \<open>
  C36. Of a running service, a call that waits for a state can lease one, or some reconfiguration is
  being built whose end gives the service a state or stops it. Of a stopped service, such a call waits
  for ever.
\<close>

theorem waiting_calls:
  assumes "(tf_step build)\<^sup>*\<^sup>* (tf_start st0) (s, ts)" "i < length ts" "ts ! i = Leasing"
  shows "(\<not> svc_stopped s \<longrightarrow>
      (\<exists>st. tf_step build (s, ts) (s, ts[i := Leased st]))
      \<or> (\<exists>j c s' t. j < length ts \<and> ts ! j = Building c \<and> tf_step build (s, ts) (s', ts[j := t])
           \<and> (svc_ready s' \<or> svc_stopped s')))
    \<and> (svc_stopped s \<longrightarrow> (\<forall>s' ts'. (tf_step build)\<^sup>*\<^sup>* (s, ts) (s', ts') \<longrightarrow> ts' ! i = Leasing))"
  using tf_not_stuck[OF assms(1) _ assms(2,3)] tf_stopped_waits[of build s ts _ _ i] assms(2,3) by blast

theorem waiting_calls_witness:
  "\<exists>s ts. (tf_step (\<lambda>c. Inl (StdException c) :: nat res))\<^sup>*\<^sup>* (tf_start 0) (s, ts) \<and> svc_stopped s \<and> ts ! 1 = Leasing
     \<and> (\<forall>s' ts'. (tf_step (\<lambda>c. Inl (StdException c) :: nat res))\<^sup>*\<^sup>* (s, ts) (s', ts') \<longrightarrow> ts' ! 1 = Leasing)"
proof -
  let ?b = "\<lambda>c. Inl (StdException c) :: nat res"
  let ?e = "Threw (StdException ''bad'') :: (string, nat) tf_thread"
  have 1: "tf_step ?b (tf_start 0) (\<lparr>svc_state = Some 0, svc_stopped = False\<rparr>, [Wants_new ''bad''])"
    using tf_call[of "Wants_new ''bad''" "''bad''" ?b "\<lparr>svc_state = Some 0, svc_stopped = False\<rparr>" "[]"] by (simp add: tf_start_def)
  have 2: "tf_step ?b (\<lparr>svc_state = Some 0, svc_stopped = False\<rparr>, [Wants_new ''bad''])
      (\<lparr>svc_state = None, svc_stopped = False\<rparr>, [Building ''bad''])"
    using tf_take[of 0 "[Wants_new ''bad'']" "''bad''" "\<lparr>svc_state = Some 0, svc_stopped = False\<rparr>" ?b] by (simp add: svc_ready_def)
  have 3: "tf_step ?b (\<lparr>svc_state = None, svc_stopped = False\<rparr>, [Building ''bad''])
      (\<lparr>svc_state = None, svc_stopped = False\<rparr>, [Building ''bad'', Leasing])"
    using tf_call[of Leasing "''bad''" ?b "\<lparr>svc_state = None, svc_stopped = False\<rparr>" "[Building ''bad'']"] by simp
  have 4: "tf_step ?b (\<lparr>svc_state = None, svc_stopped = False\<rparr>, [Building ''bad'', Leasing])
      (\<lparr>svc_state = None, svc_stopped = True\<rparr>, [?e, Leasing])"
    using tf_built[of 0 "[Building ''bad'', Leasing]" "''bad''" ?b "\<lparr>svc_state = None, svc_stopped = False\<rparr>"]
    by (simp add: finish_build_def svc_stop_def)
  from 1 2 3 4 have r: "(tf_step ?b)\<^sup>*\<^sup>* (tf_start 0) (\<lparr>svc_state = None, svc_stopped = True\<rparr>, [?e, Leasing])"
    by (meson converse_rtranclp_into_rtranclp rtranclp.rtrancl_refl)
  from waiting_calls[OF this, of 1] r show ?thesis by fastforce
qed

section \<open>Programs\<close>

text \<open>
  C37. From one program to another: the audio module starts, answers that it is ready, accepts the
  configuration of a sine wave whose frequency passes the validation, and adds it; the client finds it,
  records two seconds of it over the wire and leaves, with exit code 0, a file that a reader of WAV files
  takes for 88200 samples of 16 bits at 44100 Hz: the samples of the sine, every one defined.
\<close>

theorem audio_module_to_wav_file:
  fixes g :: "(audio_in, 'sd) module_registry"
  assumes "awf (rg_servers g)" "2 \<le> length argv" "lookup_server g (kind_api K_AudioIn) \<noteq> None"
    and "lookup_model g (kind_api K_AudioIn) (mk_model ''viam'' ''audio_in'' ''sinewave'') = None"
    and "config_from_proto proto = Inr cfg" "cf_api cfg = kind_api K_AudioIn"
      "cf_model cfg = mk_model ''viam'' ''audio_in'' ''sinewave''" "validate_sine cfg = Inr deps"
    and "answering env" "\<not> deadline_exceeded (clock env) deadline"
    and "\<not> dbl_is_nan (sine_frequency cfg)" "bounded_sine sine"
    and "connect local_uri (mk_options 1 (Some insecure_options)) = Some (Inr robot)"
      "resource_by_name_as K_AudioIn robot ''sinewave-audio'' = Inr (Some ci)"
    and "\<not> st_is_ok lost" "\<And>n. \<not> cancelled n" "rc_name cl = cf_name cfg"
  shows "\<exists>s0 s1 s2 sv s' bs. audioin_program sine now_of ind full_name True g lm argv = Inr s0
     \<and> handle_Ready env raw addr s0 = (Inr (ready_reply s0), s1)
     \<and> handle_ValidateConfig proto s1 = (Inr (status_ok, deps), s1)
     \<and> handle_AddResource env deadline proto [] s1 = (Inr status_ok, s2)
     \<and> hosted_by s2 (kind_api K_AudioIn) = Some sv
     \<and> audio_client_main connect stop_at pr True
         (\<lambda>_. audio_in_client cl (audio_in_service sv lost request_id cancelled finish)) s = Some (Inr 0, s')
     \<and> map_of (co_files s') ''sine_wave_audio.wav'' = Some bs
     \<and> read_wav bs = Some \<lparr>wav_format = 1, wav_channels = 1, wav_sample_rate = 44100, wav_byte_rate = 88200,
         wav_block_align = 2, wav_bits = 16,
         wav_data = pcm16_samples_to_bytes (map (\<lambda>i. the (sine_sample sine (sine_frequency cfg) i)) [0..88199])\<rparr>"
  by (rule audio_module_recorded[where connect = connect and cancelled = cancelled, OF assms])

theorem audio_module_to_wav_file_witness:
  "\<exists>s0 sv s' bs. audioin_program (\<lambda>x. 0) id False (\<lambda>_ :: unit. []) True demo_audio_registry new_log_manager
        [''module'', ''/tmp/socket''] = Inr s0
     \<and> audio_client_main (\<lambda>uri options. Some (Inr demo_audio_robot)) (\<lambda>stops. st_return ()) demo_printing True
         (\<lambda>_. audio_in_client demo_audio_client
           (audio_in_service (sv :: (audio_in resource, audio_in) rpc_server) demo_lost ''id'' (\<lambda>n. False) id))
         (demo_console ()) = Some (Inr 0, s')
     \<and> map_of (co_files s') ''sine_wave_audio.wav'' = Some bs
     \<and> (\<exists>w. read_wav bs = Some w \<and> wav_sample_rate w = 44100)"
proof -
  have g: "awf (rg_servers demo_audio_registry)" "lookup_server demo_audio_registry (kind_api K_AudioIn) \<noteq> None"
    "lookup_model demo_audio_registry a m = None" for a m
    by (simp_all add: demo_audio_registry_def lookup_eqs lookup_model_def)
  have c: "cf_api demo_sine_parsed = kind_api K_AudioIn"
    "cf_model demo_sine_parsed = mk_model ''viam'' ''audio_in'' ''sinewave''" "cf_name demo_sine_parsed = ''sinewave-audio''"
    by (simp_all add: demo_sine_parsed_def)
  have d: "\<not> deadline_exceeded (clock (demo_machine_env :: audio_in module_env)) 10"
    by (simp add: deadline_exceeded_def demo_machine_env_def)
  have s: "bounded_sine (\<lambda>x. 0)"
    by (simp add: bounded_sine_def dbl_le_def dbl_key_def dbl_signed_def dbl_abs_def dbl_mag_def dbl_of_int_samples
        dbl_neg_def dbl_is_nan_def dbl_exp_def)
  have len: "2 \<le> length [''module'', ''/tmp/socket'']" by simp
  have nc: "\<not> (\<lambda>n :: nat. False) k" for k by simp
  have cl: "rc_name demo_audio_client = cf_name demo_sine_parsed" by (simp add: demo_audio_client_def c)
  note ex = audio_module_to_wav_file[where g = demo_audio_registry and argv = "[''module'', ''/tmp/socket'']"
      and connect = "\<lambda>uri options. Some (Inr demo_audio_robot)" and cancelled = "\<lambda>n. False"
      and env = demo_machine_env and cl = demo_audio_client,
      OF g(1) len g(2,3) demo_sine_reads c(1,2) demo_sine_validates demo_machine_answers d demo_sine_frequency s refl
        demo_audio_found demo_lost_not_ok nc cl]
  from ex[where now_of = id and ind = False and full_name = "\<lambda>_. []" and lm = new_log_manager
        and stop_at = "\<lambda>stops. st_return ()" and pr = demo_printing and request_id = "''id''" and finish = id
        and s = "demo_console ()" and raw = "[]" and addr = "[]"]
  show ?thesis by (elim exE conjE) (intro exI conjI, assumption+, simp)
qed

text \<open>
  C38. Setting the power of the complex module's base stops it when both its linear and its angular part
  are of magnitude below a hundredth (the double nearest to it); otherwise it hands its motors, left before right, two powers of magnitude at most 1 in double arithmetic, whenever the
  linear and the angular part are finite and their magnitudes add up to a finite number. (A sum that
  overflows gives a power that is no number: \<open>base_power_overflow\<close> in ExampleModules.)
\<close>

theorem wheel_powers_bounded:
  assumes "dbl_finite (v3_y lin)" "dbl_finite (v3_z ang)"
    and "dbl_finite (dbl_add (dbl_abs (v3_y lin)) (dbl_abs (v3_z ang)))"
  shows "if dbl_less (dbl_abs (v3_y lin)) dbl_hundredth \<and> dbl_less (dbl_abs (v3_z ang)) dbl_hundredth
    then base_set_power b lin ang extra = base_stop b extra
    else (\<exists>p q. dbl_le (dbl_abs p) (dbl_of_int 1) \<and> dbl_le (dbl_abs q) (dbl_of_int 1)
         \<and> base_set_power b lin ang extra =
             st_bind (on_motor (mb_left b) (\<lambda>m. bm_set_power m p extra))
               (\<lambda>_. on_motor (mb_right b) (\<lambda>m. bm_set_power m q extra)))"
proof (cases "dbl_less (dbl_abs (v3_y lin)) dbl_hundredth \<and> dbl_less (dbl_abs (v3_z ang)) dbl_hundredth")
  case False
  from base_powers_bounded[OF assms False] show ?thesis
    unfolding base_set_power_def if_not_P[OF False] by blast
qed (simp add: base_set_power_def)

theorem wheel_powers_bounded_witness:
  "\<exists>p q. dbl_le (dbl_abs p) (dbl_of_int 1) \<and> dbl_le (dbl_abs q) (dbl_of_int 1)
     \<and> fst (base_set_power demo_base (Vector3 0 (dbl_of_int 1) 0) (Vector3 0 0 (dbl_of_int 1)) [] [])
         = Inr ()
     \<and> snd (base_set_power demo_base (Vector3 0 (dbl_of_int 1) 0) (Vector3 0 0 (dbl_of_int 1)) [] [])
         = [p, q]"
proof -
  have one: "dbl_finite (dbl_of_int 1)" "dbl_abs (dbl_of_int 1) = dbl_of_int 1"
    "\<not> dbl_less (dbl_of_int 1) dbl_hundredth"
    by (simp_all add: dbl_of_int_samples dbl_finite_def dbl_abs_def dbl_neg_def dbl_less_def dbl_key_def dbl_signed_def
        dbl_mag_def dbl_hundredth_def dbl_is_nan_def dbl_exp_def)
  have two: "dbl_add (dbl_of_int 1) (dbl_of_int 1) = dbl_of_int 2" by (subst dbl_add_of_int) simp_all
  have fin: "dbl_finite (dbl_of_int 2)" by (rule dbl_of_int_parts(3)) simp
  show ?thesis
    using wheel_powers_bounded[of "Vector3 0 (dbl_of_int 1) 0" "Vector3 0 0 (dbl_of_int 1)" demo_base "[]"]
    by (auto simp: one two fin demo_base_def demo_wheel_def on_motor_def st_bind_def st_defs)
qed

section \<open>Kinematic chains and queries\<close>

text \<open>
  C39. The joints of a file are ordered exactly when they form one serial chain, and then along it:
  every joint once, each starting at the link where the one before ends, no link visited twice.
\<close>

theorem chain_ordered_exactly:
  "walk_urdf_chain js = Inr ordered \<longleftrightarrow> mset ordered = mset js \<and> serial_chain ordered"
  by (rule walk_urdf_chain_iff)

text \<open>
  C40. A query of historical data sends the app a stage that reads, in BSON, as the match on the
  part, the resource and the start of the window, followed by the caller's stages in their order,
  for any iteration order of the map the stage is built from; the caller gets the documents of the
  response.
\<close>

theorem history_query_sent:
  assumes "\<And>m. mset (order m) = mset m"
    and "length (env_or_empty env ''VIAM_MACHINE_PART_ID'') + length resource < 2 ^ 30"
    and "query_start now (qo_time_back opts) = Inr time_point" "\<bar>time_point\<bar> < 2 ^ 53"
  shows "\<exists>query d. read_bson query = Some [(''$match'', B_document d)]
    \<and> mset d = mset (match_fields (env_or_empty env ''VIAM_MACHINE_PART_ID'') resource time_point)
    \<and> query_tabular_data env now order cl rpc resource opts =
        (let out = rpc (client_context (rc_version cl) (rc_token cl))
                     \<lparr>mq_organization_id = env_or_empty env ''VIAM_PRIMARY_ORG_ID'',
                      mq_mql_binary = map bytes_to_string (query # qo_additional_stages opts),
                      mq_source_type = TYPE_HOT_STORAGE, mq_pipeline_id = None,
                      mq_query_prefix_name = None\<rparr>
         in if st_is_ok (fst out) then Inr (map string_to_bytes (snd out))
            else Inl (grpc_exception (fst out)))"
  by (rule history_query[OF assms])

theorem history_query_sent_witness:
  "\<exists>query d. read_bson query = Some [(''$match'', B_document d)]
    \<and> mset d = mset (match_fields ''part'' ''res'' 1735689600000)
    \<and> query_tabular_data [''VIAM_MACHINE_PART_ID'' \<mapsto> ''part''] 1735689605000999999 (\<lambda>m. m) demo_client
        (\<lambda>md q. (status_ok, mq_mql_binary q)) ''res'' \<lparr>qo_time_back = 5000, qo_additional_stages = [[1, 2]]\<rparr>
      = Inr [query, [1, 2]]"
proof -
  have start: "query_start 1735689605000999999 5000 = Inr 1735689600000"
    by (simp add: query_start_window)
  have part: "env_or_empty [''VIAM_MACHINE_PART_ID'' \<mapsto> ''part''] ''VIAM_MACHINE_PART_ID'' = ''part''"
    by (simp add: env_or_empty_def)
  show ?thesis
    using history_query_sent[where order = "\<lambda>m. m" and env = "[''VIAM_MACHINE_PART_ID'' \<mapsto> ''part'']"
        and resource = "''res''" and now = 1735689605000999999 and time_point = 1735689600000
        and opts = "\<lparr>qo_time_back = 5000, qo_additional_stages = [[1, 2]]\<rparr>" and cl = demo_client
        and rpc = "\<lambda>md q. (status_ok, mq_mql_binary q)"] start
    by (simp add: part)
qed

end
